(* ===== verification/Prelude.thy ===== *)
theory Prelude
  imports Main "HOL-Library.Word" "HOL-Library.Monad_Syntax"
begin

text \<open>
  Shared vocabulary of the development: the machine integers of the C sources, byte buffers with
  checked access, NUL-terminated strings, and the lemmas on lists and words that the component
  theories use.

  Conventions used throughout.
  \<^item> A fixed-width unsigned integer is a \<open>word\<close>; \<open>size_t\<close> and \<open>uintptr_t\<close> are
    \<open>'w word\<close> for an arbitrary width where wrap-around can matter (the library is built for
    32-bit and 64-bit Android ABIs), and \<open>nat\<close> where the value is bounded by the size of an
    object that exists.
  \<^item> An array or the bytes behind a pointer is a list. A read or write outside the list is
    undefined behaviour in C; it is the value \<open>None\<close> here, so a theorem that an operation
    returns \<open>Some\<close> includes the absence of out-of-bounds accesses.
  \<^item> A pointer result that may be NULL is an \<open>option\<close> of an index.
\<close>

unbundle bit_operations_syntax

type_synonym u8 = "8 word"
type_synonym u16 = "16 word"
type_synonym u32 = "32 word"
type_synonym u64 = "64 word"
type_synonym bytes = "u8 list"

named_theorems mem_simps \<open>checked reads and writes of buffers\<close>
named_theorems cstr_simps \<open>NUL-terminated strings\<close>

section \<open>Checked buffer access\<close>

definition rd :: "'a list \<Rightarrow> nat \<Rightarrow> 'a option" where
  "rd xs i = (if i < length xs then Some (xs ! i) else None)"

definition wr :: "'a list \<Rightarrow> nat \<Rightarrow> 'a \<Rightarrow> 'a list option" where
  "wr xs i v = (if i < length xs then Some (xs[i := v]) else None)"

lemma rd_Some [mem_simps]: "i < length xs \<Longrightarrow> rd xs i = Some (xs ! i)"
  by (simp add: rd_def)

lemma rd_None [mem_simps]: "length xs \<le> i \<Longrightarrow> rd xs i = None"
  by (simp add: rd_def)

lemma wr_Some [mem_simps]: "i < length xs \<Longrightarrow> wr xs i v = Some (xs[i := v])"
  by (simp add: wr_def)

lemma wr_None [mem_simps]: "length xs \<le> i \<Longrightarrow> wr xs i v = None"
  by (simp add: wr_def)

lemma rd_eq_Some_iff: "rd xs i = Some v \<longleftrightarrow> i < length xs \<and> xs ! i = v"
  by (auto simp: rd_def)

lemma wr_eq_Some_iff: "wr xs i v = Some ys \<longleftrightarrow> i < length xs \<and> ys = xs[i := v]"
  by (auto simp: wr_def)

text \<open>
  Overwriting a block of a buffer: what \<open>memcpy\<close> and \<open>memset\<close> do to the destination.
\<close>

definition blit :: "'a list \<Rightarrow> nat \<Rightarrow> 'a list \<Rightarrow> 'a list" where
  "blit xs at ys = take at xs @ ys @ drop (at + length ys) xs"

lemma length_blit [simp]:
  "at + length ys \<le> length xs \<Longrightarrow> length (blit xs at ys) = length xs"
  by (simp add: blit_def)

lemma nth_blit:
  assumes "at + length ys \<le> length xs" and "i < length xs"
  shows "blit xs at ys ! i = (if at \<le> i \<and> i < at + length ys then ys ! (i - at) else xs ! i)"
  using assms by (auto simp: blit_def nth_append min_def)

lemma blit_Nil [simp]: "at \<le> length xs \<Longrightarrow> blit xs at [] = xs"
  by (simp add: blit_def)

lemma blit_snoc:
  assumes "at + length ys < length xs"
  shows "(blit xs at ys)[at + length ys := v] = blit xs at (ys @ [v])"
proof (rule nth_equalityI)
  show "length ((blit xs at ys)[at + length ys := v]) = length (blit xs at (ys @ [v]))"
    using assms by simp
next
  fix i assume "i < length ((blit xs at ys)[at + length ys := v])"
  then show "(blit xs at ys)[at + length ys := v] ! i = blit xs at (ys @ [v]) ! i"
    using assms by (auto simp: nth_list_update nth_blit nth_append)
qed

lemma blit_take_middle [simp]:
  "at + length ys \<le> length xs \<Longrightarrow> take (length ys) (drop at (blit xs at ys)) = ys"
  by (simp add: blit_def)

lemma blit_take_before:
  "at + length ys \<le> length xs \<Longrightarrow> take at (blit xs at ys) = take at xs"
  by (simp add: blit_def min_def)

lemma take_blit:
  assumes "at + length ys \<le> length xs"
  shows "take (at + length ys) (blit xs at ys) = take at xs @ ys"
proof -
  have "min (length xs) at = at" using assms by simp
  then show ?thesis by (simp add: blit_def)
qed

lemma blit_drop_after:
  assumes "at + length ys \<le> length xs"
  shows "drop (at + length ys) (blit xs at ys) = drop (at + length ys) xs"
proof -
  have "at + length ys - min (length xs) at = length ys" using assms by simp
  then show ?thesis using assms by (simp add: blit_def min_def)
qed

section \<open>NUL-terminated strings\<close>

definition nul_terminated :: "bytes \<Rightarrow> bool" where
  "nul_terminated s \<longleftrightarrow> 0 \<in> set s"

definition cstr :: "bytes \<Rightarrow> bytes" where
  "cstr s = takeWhile (\<lambda>c. c \<noteq> 0) s"

lemma cstr_Nil [simp]: "cstr [] = []"
  by (simp add: cstr_def)

lemma cstr_Cons [simp]: "cstr (c # s) = (if c = 0 then [] else c # cstr s)"
  by (simp add: cstr_def)

lemma nul_terminated_Nil [simp]: "\<not> nul_terminated []"
  by (simp add: nul_terminated_def)

lemma nul_terminated_Cons [simp]: "nul_terminated (c # s) \<longleftrightarrow> c = 0 \<or> nul_terminated s"
  by (auto simp: nul_terminated_def)

lemma nul_terminated_append [simp]:
  "nul_terminated (s @ t) \<longleftrightarrow> nul_terminated s \<or> nul_terminated t"
  by (auto simp: nul_terminated_def)

lemma zero_notin_cstr [simp]: "0 \<notin> set (cstr s)"
  by (induction s) auto

lemma cstr_terminated [cstr_simps]: "0 \<notin> set t \<Longrightarrow> cstr (t @ 0 # u) = t"
  by (induction t) auto

lemma cstr_id [cstr_simps]: "0 \<notin> set t \<Longrightarrow> cstr t = t"
  by (induction t) auto

lemma nul_terminated_split:
  assumes "nul_terminated s"
  obtains u where "s = cstr s @ 0 # u"
proof -
  from assms have "\<exists>u. s = cstr s @ 0 # u"
    by (induction s) auto
  with that show thesis by blast
qed

lemma length_cstr_less: "nul_terminated s \<Longrightarrow> length (cstr s) < length s"
  by (induction s) auto

lemma length_cstr_le: "length (cstr s) \<le> length s"
  by (simp add: cstr_def length_takeWhile_le)

lemma nth_length_cstr: "nul_terminated s \<Longrightarrow> s ! length (cstr s) = 0"
  by (induction s) auto

lemma nth_cstr: "i < length (cstr s) \<Longrightarrow> s ! i = cstr s ! i"
  by (simp add: cstr_def takeWhile_nth)

lemma nth_cstr_nonzero: "i < length (cstr s) \<Longrightarrow> s ! i \<noteq> 0"
  by (metis nth_cstr nth_mem zero_notin_cstr)

lemma take_length_cstr: "take (length (cstr s)) s = cstr s"
  by (simp add: cstr_def) (metis takeWhile_eq_take)

lemma cstr_take: "nul_terminated (take n s) \<Longrightarrow> cstr (take n s) = cstr s"
proof (induction s arbitrary: n)
  case (Cons c s)
  then show ?case by (cases n) auto
qed simp

text \<open>
  Plain \<open>char\<close> is signed on x86 and unsigned on ARM; code that compares characters is modelled
  for both, by the reading \<open>cval\<close> of a byte.
\<close>

definition cval :: "bool \<Rightarrow> u8 \<Rightarrow> int" where
  "cval char_signed c = (if char_signed then sint c else uint c)"

lemma cval_eq_iff [simp]: "cval sg a = cval sg b \<longleftrightarrow> a = b"
  by (auto simp: cval_def dest: signed_word_eqI unsigned_word_eqI)

end
