(* ===== verification/Libc_Support.thy ===== *)
theory Libc_Support
  imports Prelude
begin

text \<open>
  The libc replacements of \<^verbatim>\<open>common/linux/linux_libc_support.cc\<close>: the string, number and
  memory routines the crash handler uses because the real ones may not be callable in a crashed
  process. A string argument is the list of bytes from the pointer to the end of its object; a
  routine that runs off that list gives \<open>None\<close>.
\<close>

section \<open>Strings\<close>

fun my_strlen_from :: "bytes \<Rightarrow> nat \<Rightarrow> nat option" where
  "my_strlen_from [] len = None"
| "my_strlen_from (c # s) len = (if c = 0 then Some len else my_strlen_from s (len + 1))"

definition my_strlen :: "bytes \<Rightarrow> nat option" where
  "my_strlen s = my_strlen_from s 0"

fun my_strcmp :: "bool \<Rightarrow> bytes \<Rightarrow> bytes \<Rightarrow> int option" where
  "my_strcmp sg (x # a) (y # b) =
     (if cval sg x < cval sg y then Some (-1)
      else if cval sg x > cval sg y then Some 1
      else if x = 0 then Some 0
      else my_strcmp sg a b)"
| "my_strcmp sg a b = None"

fun my_strncmp :: "bool \<Rightarrow> bytes \<Rightarrow> bytes \<Rightarrow> nat \<Rightarrow> int option" where
  "my_strncmp sg a b 0 = Some 0"
| "my_strncmp sg (x # a) (y # b) (Suc n) =
     (if cval sg x < cval sg y then Some (-1)
      else if cval sg x > cval sg y then Some 1
      else if x = 0 then Some 0
      else my_strncmp sg a b n)"
| "my_strncmp sg a b (Suc n) = None"

text \<open>
  Searching: the index of the hit, \<open>Some None\<close> for a NULL result. The needle may be the NUL
  itself, which \<open>my_strchr\<close> finds and \<open>my_strrchr\<close> does not.
\<close>

fun my_strchr_from :: "bytes \<Rightarrow> u8 \<Rightarrow> nat \<Rightarrow> nat option option" where
  "my_strchr_from [] needle p = None"
| "my_strchr_from (c # haystack) needle p =
     (if c \<noteq> 0 \<and> c \<noteq> needle then my_strchr_from haystack needle (p + 1)
      else if c = needle then Some (Some p)
      else Some None)"

definition my_strchr :: "bytes \<Rightarrow> u8 \<Rightarrow> nat option option" where
  "my_strchr haystack needle = my_strchr_from haystack needle 0"

fun my_strrchr_from :: "bytes \<Rightarrow> u8 \<Rightarrow> nat \<Rightarrow> nat option \<Rightarrow> nat option option" where
  "my_strrchr_from [] needle p ret = None"
| "my_strrchr_from (c # haystack) needle p ret =
     (if c = 0 then Some ret
      else my_strrchr_from haystack needle (p + 1) (if c = needle then Some p else ret))"

definition my_strrchr :: "bytes \<Rightarrow> u8 \<Rightarrow> nat option option" where
  "my_strrchr haystack needle = my_strrchr_from haystack needle 0 None"

fun my_memchr_from :: "bytes \<Rightarrow> int \<Rightarrow> nat \<Rightarrow> nat \<Rightarrow> nat option option" where
  "my_memchr_from src needle 0 p = Some None"
| "my_memchr_from [] needle (Suc n) p = None"
| "my_memchr_from (c # src) needle (Suc n) p =
     (if uint c = needle then Some (Some p) else my_memchr_from src needle n (p + 1))"

definition my_memchr :: "bytes \<Rightarrow> int \<Rightarrow> nat \<Rightarrow> nat option option" where
  "my_memchr src needle src_len = my_memchr_from src needle src_len 0"

section \<open>Numbers\<close>

text \<open>
  \<open>my_strtoui\<close> accumulates in an \<open>int\<close>; its overflow test \<open>r < old_r\<close> supposes that the
  signed arithmetic wraps, so it is modelled on 32-bit words read as two's complement.
  \<open>Some None\<close> is the result \<open>false\<close>.
\<close>

definition is_dec_digit :: "u8 \<Rightarrow> bool" where
  "is_dec_digit c \<longleftrightarrow> 48 \<le> c \<and> c \<le> 57"

fun my_strtoui_from :: "bytes \<Rightarrow> u32 \<Rightarrow> u32 option option" where
  "my_strtoui_from [] r = None"
| "my_strtoui_from (c # s) r =
     (if c = 0 then Some (Some r)
      else if \<not> is_dec_digit c then Some None
      else let r' = r * 10 + (ucast c - 48) in
           if sint r' < sint r then Some None else my_strtoui_from s r')"

definition my_strtoui :: "bytes \<Rightarrow> u32 option option" where
  "my_strtoui s =
     (case s of [] \<Rightarrow> None | c # _ \<Rightarrow> if c = 0 then Some None else my_strtoui_from s 0)"

function my_uint_len_loop :: "nat \<Rightarrow> nat \<Rightarrow> nat" where
  "my_uint_len_loop i len = (if i = 0 then len else my_uint_len_loop (i div 10) (len + 1))"
  by pat_completeness auto
termination
  by (relation "measure fst") auto

declare my_uint_len_loop.simps [simp del]

definition my_uint_len :: "nat \<Rightarrow> nat" where
  "my_uint_len i = (if i = 0 then 1 else my_uint_len_loop i 0)"

fun my_uitos :: "bytes \<Rightarrow> nat \<Rightarrow> nat \<Rightarrow> bytes option" where
  "my_uitos output i 0 = Some output"
| "my_uitos output i (Suc k) =
     (case wr output k (48 + of_nat (i mod 10)) of
        None \<Rightarrow> None
      | Some output' \<Rightarrow> my_uitos output' (i div 10) k)"

text \<open>The value of a hexadecimal digit, by the three ranges of the source.\<close>

definition hex_digit :: "u8 \<Rightarrow> u8 option" where
  "hex_digit c =
     (if 48 \<le> c \<and> c \<le> 57 then Some (c - 48)
      else if 97 \<le> c \<and> c \<le> 102 then Some ((c - 97) + 10)
      else if 65 \<le> c \<and> c \<le> 70 then Some ((c - 65) + 10)
      else None)"

text \<open>Both readers return the value and the index of the first invalid character.\<close>

fun my_read_hex_from :: "bytes \<Rightarrow> 'w::len word \<Rightarrow> nat \<Rightarrow> ('w word \<times> nat) option" where
  "my_read_hex_from [] r p = None"
| "my_read_hex_from (c # s) r p =
     (case hex_digit c of
        Some d \<Rightarrow> my_read_hex_from s (push_bit 4 r + ucast d) (p + 1)
      | None \<Rightarrow> Some (r, p))"

definition my_read_hex_ptr :: "bytes \<Rightarrow> ('w::len word \<times> nat) option" where
  "my_read_hex_ptr s = my_read_hex_from s 0 0"

fun my_read_decimal_from :: "bytes \<Rightarrow> 'w::len word \<Rightarrow> nat \<Rightarrow> ('w word \<times> nat) option" where
  "my_read_decimal_from [] r p = None"
| "my_read_decimal_from (c # s) r p =
     (if is_dec_digit c then my_read_decimal_from s (r * 10 + ucast (c - 48)) (p + 1)
      else Some (r, p))"

definition my_read_decimal_ptr :: "bytes \<Rightarrow> ('w::len word \<times> nat) option" where
  "my_read_decimal_ptr s = my_read_decimal_from s 0 0"

section \<open>Memory\<close>

fun my_memset_from :: "bytes \<Rightarrow> nat \<Rightarrow> u8 \<Rightarrow> nat \<Rightarrow> bytes option" where
  "my_memset_from buf p c 0 = Some buf"
| "my_memset_from buf p c (Suc len) =
     (case wr buf p c of None \<Rightarrow> None | Some buf' \<Rightarrow> my_memset_from buf' (p + 1) c len)"

definition my_memset :: "bytes \<Rightarrow> u8 \<Rightarrow> nat \<Rightarrow> bytes option" where
  "my_memset ip c len = my_memset_from ip 0 c len"

text \<open>
  \<open>my_strlcpy\<close> on a destination that starts at index \<open>base\<close> of \<open>s1\<close> (\<open>my_strlcat\<close> passes
  an interior pointer); it returns the written buffer and the length of the source.
\<close>

fun my_strlcpy_loop :: "bytes \<Rightarrow> nat \<Rightarrow> bytes \<Rightarrow> nat \<Rightarrow> nat \<Rightarrow> nat \<Rightarrow> (bytes \<times> nat \<times> nat) option" where
  "my_strlcpy_loop s1 base [] len pos1 pos2 = None"
| "my_strlcpy_loop s1 base (c # s2) len pos1 pos2 =
     (if c = 0 then Some (s1, pos1, pos2)
      else if pos1 + 1 < len then
        (case wr s1 (base + pos1) c of
           None \<Rightarrow> None
         | Some s1' \<Rightarrow> my_strlcpy_loop s1' base s2 len (pos1 + 1) (pos2 + 1))
      else my_strlcpy_loop s1 base s2 len pos1 (pos2 + 1))"

definition my_strlcpy_at :: "bytes \<Rightarrow> nat \<Rightarrow> bytes \<Rightarrow> nat \<Rightarrow> (bytes \<times> nat) option" where
  "my_strlcpy_at s1 base s2 len =
     do {
       (s1, pos1, pos2) \<leftarrow> my_strlcpy_loop s1 base s2 len 0 0;
       s1 \<leftarrow> (if len > 0 then wr s1 (base + pos1) 0 else Some s1);
       Some (s1, pos2)
     }"

definition my_strlcpy :: "bytes \<Rightarrow> bytes \<Rightarrow> nat \<Rightarrow> (bytes \<times> nat) option" where
  "my_strlcpy s1 s2 len = my_strlcpy_at s1 0 s2 len"

function my_strlcat_scan :: "bytes \<Rightarrow> nat \<Rightarrow> nat \<Rightarrow> nat option" where
  "my_strlcat_scan s1 len pos1 =
     (if pos1 < len then
        (case rd s1 pos1 of
           None \<Rightarrow> None
         | Some c \<Rightarrow> if c \<noteq> 0 then my_strlcat_scan s1 len (pos1 + 1) else Some pos1)
      else Some pos1)"
  by pat_completeness auto
termination
  by (relation "measure (\<lambda>(s1, len, pos1). len - pos1)") auto

declare my_strlcat_scan.simps [simp del]

definition my_strlcat :: "bytes \<Rightarrow> bytes \<Rightarrow> nat \<Rightarrow> (bytes \<times> nat) option" where
  "my_strlcat s1 s2 len =
     do {
       pos1 \<leftarrow> my_strlcat_scan s1 len 0;
       if pos1 = len then Some (s1, pos1)
       else do {
         (s1, n) \<leftarrow> my_strlcpy_at s1 pos1 s2 (len - pos1);
         Some (s1, pos1 + n)
       }
     }"

text \<open>
  The array \<open>spaces\<close> is initialised from a string literal and scanned up to its
  \<open>sizeof\<close>, so its terminating NUL is one of the characters compared.
\<close>

definition spaces :: "int list" where
  "spaces = [32, 9, 12, 10, 13, 9, 11, 0]"

definition my_isspace :: "int \<Rightarrow> bool" where
  "my_isspace ch = (ch \<in> set spaces)"

section \<open>Lengths, comparison and search\<close>

lemma my_strlen_from_eq:
  "my_strlen_from s n = (if nul_terminated s then Some (n + length (cstr s)) else None)"
  by (induction s n rule: my_strlen_from.induct) auto

lemma my_strlen_eq [cstr_simps]:
  "my_strlen s = (if nul_terminated s then Some (length (cstr s)) else None)"
  by (simp add: my_strlen_def my_strlen_from_eq)

lemma my_strcmp_total:
  "nul_terminated a \<Longrightarrow> nul_terminated b \<Longrightarrow> \<exists>r \<in> {-1, 0, 1}. my_strcmp sg a b = Some r"
  by (induction sg a b rule: my_strcmp.induct) auto

lemma my_strcmp_zero_iff:
  "nul_terminated a \<Longrightarrow> nul_terminated b \<Longrightarrow> my_strcmp sg a b = Some 0 \<longleftrightarrow> cstr a = cstr b"
  by (induction sg a b rule: my_strcmp.induct) (auto simp: not_less_iff_gr_or_eq)

lemma my_strcmp_antisym:
  "my_strcmp sg b a = map_option uminus (my_strcmp sg a b)"
  by (induction sg a b rule: my_strcmp.induct) auto

text \<open>\<open>my_strncmp\<close> looks at no more than \<open>n\<close> characters and never past a NUL.\<close>

lemma my_strncmp_total:
  "nul_terminated a \<or> n \<le> length a \<Longrightarrow> nul_terminated b \<or> n \<le> length b \<Longrightarrow>
     \<exists>r \<in> {-1, 0, 1}. my_strncmp sg a b n = Some r"
  by (induction sg a b n rule: my_strncmp.induct) auto

lemma my_strncmp_zero_iff:
  assumes "nul_terminated a \<or> n \<le> length a" and "nul_terminated b \<or> n \<le> length b"
  shows "my_strncmp sg a b n = Some 0 \<longleftrightarrow> take n (cstr a) = take n (cstr b)"
  using assms
proof (induction sg a b n rule: my_strncmp.induct)
  case (2 sg x a y b n)
  then show ?case by (auto simp: not_less_iff_gr_or_eq)
qed auto

lemma my_strchr_from_eq:
  "nul_terminated s \<Longrightarrow> my_strchr_from s needle p =
     Some (if needle = 0 then Some (p + length (cstr s))
           else if needle \<in> set (cstr s)
             then Some (p + length (takeWhile (\<lambda>c. c \<noteq> needle) (cstr s))) else None)"
  by (induction s needle p rule: my_strchr_from.induct) auto

lemma my_memchr_from_eq:
  "n \<le> length src \<Longrightarrow> my_memchr_from src needle n p =
     Some (if needle \<in> uint ` set (take n src)
             then Some (p + length (takeWhile (\<lambda>c. uint c \<noteq> needle) (take n src))) else None)"
  by (induction src needle n p rule: my_memchr_from.induct) auto

lemma my_memchr_eq [mem_simps]:
  "n \<le> length src \<Longrightarrow> my_memchr src needle n =
     Some (if needle \<in> uint ` set (take n src)
             then Some (length (takeWhile (\<lambda>c. uint c \<noteq> needle) (take n src))) else None)"
  by (simp add: my_memchr_def my_memchr_from_eq)

text \<open>The last occurrence: \<open>my_strrchr\<close> returns an index no later index improves on.\<close>

lemma my_strrchr_from_eq:
  "nul_terminated s \<Longrightarrow> my_strrchr_from s needle p ret =
     Some (if needle \<in> set (cstr s)
             then Some (p + length (cstr s) - 1
                        - length (takeWhile (\<lambda>c. c \<noteq> needle) (rev (cstr s)))) else ret)"
proof (induction s needle p ret rule: my_strrchr_from.induct)
  case (2 c haystack needle p ret)
  show ?case
  proof (cases "c = 0")
    case False
    with "2.prems" have nt: "nul_terminated haystack" by simp
    have tw: "takeWhile (\<lambda>c. c \<noteq> needle) (rev (cstr haystack)) = rev (cstr haystack)"
      if "needle \<notin> set (cstr haystack)"
      using that by (simp add: takeWhile_eq_all_conv) metis
    show ?thesis
      using False "2.IH" [OF False nt] tw by (auto simp: takeWhile_append)
  qed simp
qed simp

section \<open>Numbers\<close>

text \<open>The number a string of decimal digits denotes, continuing from \<open>n\<close>.\<close>

fun dec_val :: "nat \<Rightarrow> bytes \<Rightarrow> nat" where
  "dec_val n [] = n"
| "dec_val n (c # cs) = dec_val (n * 10 + (unat c - 48)) cs"

fun hex_val :: "nat \<Rightarrow> bytes \<Rightarrow> nat" where
  "hex_val n [] = n"
| "hex_val n (c # cs) =
     hex_val (n * 16 + (case hex_digit c of Some d \<Rightarrow> unat d | None \<Rightarrow> 0)) cs"

fun dec_digits :: "nat \<Rightarrow> nat \<Rightarrow> bytes" where
  "dec_digits 0 i = []"
| "dec_digits (Suc k) i = dec_digits k (i div 10) @ [48 + of_nat (i mod 10)]"

lemma dec_val_ge: "n \<le> dec_val n cs"
proof (induction cs arbitrary: n)
  case (Cons c cs)
  have "n \<le> n * 10 + (unat c - 48)" by simp
  also have "\<dots> \<le> dec_val (n * 10 + (unat c - 48)) cs" by (rule Cons.IH)
  finally show ?case by simp
qed simp

lemma dec_val_append: "dec_val n (cs @ ds) = dec_val (dec_val n cs) ds"
  by (induction cs arbitrary: n) auto

lemma is_dec_digit_unat: "is_dec_digit c \<longleftrightarrow> 48 \<le> unat c \<and> unat c \<le> 57"
  by (simp add: is_dec_digit_def word_le_nat_alt)

lemma unat_dec_digit: "d < 10 \<Longrightarrow> unat (48 + of_nat d :: u8) = 48 + d"
  by (simp add: unat_word_ariths unat_of_nat)

lemma length_dec_digits [simp]: "length (dec_digits k i) = k"
  by (induction k arbitrary: i) auto

lemma dec_digits_are_digits: "c \<in> set (dec_digits k i) \<Longrightarrow> is_dec_digit c"
  by (induction k arbitrary: i) (auto simp: is_dec_digit_unat unat_dec_digit)

lemma dec_val_dec_digits: "dec_val 0 (dec_digits k i) = i mod 10 ^ k"
proof (induction k arbitrary: i)
  case (Suc k)
  have "dec_val 0 (dec_digits (Suc k) i) = (i div 10 mod 10 ^ k) * 10 + i mod 10"
    by (simp add: dec_val_append Suc.IH unat_dec_digit)
  also have "\<dots> = i mod (10 * 10 ^ k)"
    by (simp add: mod_mult2_eq)
  finally show ?case by simp
qed simp

lemma is_dec_digit_nonzero: "is_dec_digit c \<Longrightarrow> c \<noteq> 0"
  by (auto simp: is_dec_digit_def)

lemma zero_notin_digits: "\<forall>c\<in>set ds. is_dec_digit c \<Longrightarrow> 0 \<notin> set ds"
  using is_dec_digit_nonzero by blast

lemma ucast_digit:
  "is_dec_digit c \<Longrightarrow> (ucast c - 48 :: u32) = of_nat (unat c - 48)"
  by (simp add: is_dec_digit_unat of_nat_diff unat_eq_nat_uint [symmetric])

lemma sint_of_nat_small: "n < 2 ^ 31 \<Longrightarrow> sint (of_nat n :: u32) = int n"
  by (simp add: signed_of_nat signed_take_bit_int_eq_self)

text \<open>
  The exact condition under which \<open>my_strtoui\<close> is right: a digit string whose value fits in a
  non-negative \<open>int\<close> is read back as its value.
\<close>

lemma my_strtoui_from_digits:
  assumes "\<forall>c\<in>set ds. is_dec_digit c" and "dec_val n ds < 2 ^ 31"
  shows "my_strtoui_from (ds @ 0 # u) (of_nat n) = Some (Some (of_nat (dec_val n ds)))"
  using assms
proof (induction ds arbitrary: n)
  case (Cons c ds)
  define m where "m = n * 10 + (unat c - 48)"
  have lt: "m < 2 ^ 31" and le: "n \<le> m"
    using Cons.prems dec_val_ge [of m ds] by (simp_all add: m_def)
  have r: "(of_nat n * 10 + (ucast c - 48) :: u32) = of_nat m"
    using Cons.prems by (simp add: m_def ucast_digit)
  have nz: "c \<noteq> 0" and dig: "is_dec_digit c"
    using Cons.prems is_dec_digit_nonzero by auto
  have "sint (of_nat n :: u32) \<le> sint (of_nat m :: u32)"
    using le lt by (simp add: sint_of_nat_small)
  moreover have "my_strtoui_from (ds @ 0 # u) (of_nat m) = Some (Some (of_nat (dec_val m ds)))"
    using Cons.prems by (intro Cons.IH) (auto simp: m_def)
  ultimately show ?case
    using nz dig r by (simp add: Let_def m_def [symmetric] not_less)
qed simp

lemma my_strtoui_digits:
  assumes "ds \<noteq> []" and "\<forall>c\<in>set ds. is_dec_digit c" and "dec_val 0 ds < 2 ^ 31"
  shows "my_strtoui (ds @ 0 # u) = Some (Some (of_nat (dec_val 0 ds)))"
proof -
  have "my_strtoui (ds @ 0 # u) = my_strtoui_from (ds @ 0 # u) 0"
    using assms is_dec_digit_nonzero by (cases ds) (auto simp: my_strtoui_def)
  with my_strtoui_from_digits [of ds 0 u] assms show ?thesis by simp
qed

text \<open>Whatever it accepts is a non-empty digit string, read modulo $2^{32}$.\<close>

lemma my_strtoui_from_accepts:
  assumes "my_strtoui_from s (of_nat n) = Some (Some r)"
  shows "nul_terminated s \<and> (\<forall>c\<in>set (cstr s). is_dec_digit c) \<and> r = of_nat (dec_val n (cstr s))"
  using assms
proof (induction s arbitrary: n)
  case (Cons c s)
  show ?case
  proof (cases "c = 0")
    case False
    define m where "m = n * 10 + (unat c - 48)"
    from Cons.prems False have dig: "is_dec_digit c"
      by (auto split: if_splits)
    then have "(of_nat n * 10 + (ucast c - 48) :: u32) = of_nat m"
      by (simp add: m_def ucast_digit)
    with Cons.prems False dig have "my_strtoui_from s (of_nat m) = Some (Some r)"
      by (auto simp: Let_def split: if_splits)
    from Cons.IH [OF this] False dig show ?thesis by (auto simp: m_def)
  qed (use Cons.prems in simp)
qed simp

lemma my_strtoui_accepts:
  assumes "my_strtoui s = Some (Some r)"
  shows "cstr s \<noteq> []" and "nul_terminated s" and "\<forall>c\<in>set (cstr s). is_dec_digit c"
    and "r = of_nat (dec_val 0 (cstr s))"
proof -
  from assms have "my_strtoui_from s (of_nat 0) = Some (Some r)" and "cstr s \<noteq> []"
    by (auto simp: my_strtoui_def split: list.splits if_splits)
  with my_strtoui_from_accepts [of s 0 r] show "cstr s \<noteq> []" and "nul_terminated s"
    and "\<forall>c\<in>set (cstr s). is_dec_digit c" and "r = of_nat (dec_val 0 (cstr s))"
    by auto
qed

lemma my_read_decimal_from_eq:
  assumes "\<exists>c\<in>set s. \<not> is_dec_digit c"
  shows "my_read_decimal_from s (of_nat n) p =
    Some (of_nat (dec_val n (takeWhile is_dec_digit s)), p + length (takeWhile is_dec_digit s))"
  using assms
proof (induction s arbitrary: n p)
  case (Cons c s)
  show ?case
  proof (cases "is_dec_digit c")
    case True
    have "unat (c - 48) = unat c - 48"
      using True by (simp add: is_dec_digit_def unat_sub)
    then have d: "(ucast (c - 48) :: 'a word) = of_nat (unat c - 48)"
      by (metis of_nat_unat)
    have "(of_nat n * 10 + ucast (c - 48) :: 'a word) = of_nat (n * 10 + (unat c - 48))"
      by (simp add: d)
    with True Cons show ?thesis by (simp del: of_nat_add of_nat_mult)
  qed simp
qed simp

lemma my_read_decimal_ptr_eq:
  assumes "\<exists>c\<in>set s. \<not> is_dec_digit c"
  shows "my_read_decimal_ptr s =
    Some (of_nat (dec_val 0 (takeWhile is_dec_digit s)), length (takeWhile is_dec_digit s))"
  using my_read_decimal_from_eq [OF assms, of 0 0] by (simp add: my_read_decimal_ptr_def)

lemma my_read_hex_from_eq:
  assumes "\<exists>c\<in>set s. hex_digit c = None"
  shows "my_read_hex_from s (of_nat n) p =
    Some (of_nat (hex_val n (takeWhile (\<lambda>c. hex_digit c \<noteq> None) s)),
          p + length (takeWhile (\<lambda>c. hex_digit c \<noteq> None) s))"
  using assms
proof (induction s arbitrary: n p)
  case (Cons c s)
  show ?case
  proof (cases "hex_digit c")
    case (Some d)
    have "(push_bit 4 (of_nat n) + ucast d :: 'a word) = of_nat (n * 16 + unat d)"
      by (simp add: push_bit_eq_mult mult.commute)
    with Some Cons show ?thesis by (simp del: of_nat_add of_nat_mult)
  qed simp
qed simp

lemma my_read_hex_ptr_eq:
  assumes "\<exists>c\<in>set s. hex_digit c = None"
  shows "my_read_hex_ptr s =
    Some (of_nat (hex_val 0 (takeWhile (\<lambda>c. hex_digit c \<noteq> None) s)),
          length (takeWhile (\<lambda>c. hex_digit c \<noteq> None) s))"
  using my_read_hex_from_eq [OF assms, of 0 0] by (simp add: my_read_hex_ptr_def)

lemma my_uint_len_loop_bounds:
  "0 < i \<Longrightarrow> \<exists>k. my_uint_len_loop i n = n + Suc k \<and> 10 ^ k \<le> i \<and> i < 10 ^ Suc k"
proof (induction i n rule: my_uint_len_loop.induct)
  case (1 i n)
  show ?case
  proof (cases "i < 10")
    case True
    then have "my_uint_len_loop i n = n + Suc 0"
      using "1.prems" by (simp add: my_uint_len_loop.simps [of i n] my_uint_len_loop.simps [of 0])
    with True "1.prems" show ?thesis by (intro exI [of _ 0]) auto
  next
    case False
    with "1.prems" "1.IH" obtain k where
      k: "my_uint_len_loop (i div 10) (n + 1) = n + 1 + Suc k" "10 ^ k \<le> i div 10"
         "i div 10 < 10 ^ Suc k" by fastforce
    then have "10 ^ Suc k \<le> i" and "i < 10 ^ Suc (Suc k)" by auto
    with k "1.prems" show ?thesis
      by (intro exI [of _ "Suc k"]) (simp add: my_uint_len_loop.simps [of i n])
  qed
qed

lemma my_uint_len_bounds:
  "i < 10 ^ my_uint_len i" "0 < my_uint_len i" "0 < i \<Longrightarrow> 10 ^ (my_uint_len i - 1) \<le> i"
  using my_uint_len_loop_bounds [of i 0] by (auto simp: my_uint_len_def)

lemma my_uitos_eq: "k \<le> length out \<Longrightarrow> my_uitos out i k = Some (dec_digits k i @ drop k out)"
proof (induction k arbitrary: out i)
  case (Suc k)
  then have "drop k (out[k := v]) = v # drop (Suc k) out" for v
    by (simp add: Cons_nth_drop_Suc [symmetric])
  with Suc show ?case by (simp add: wr_Some)
qed simp

section \<open>Bounded copies\<close>

lemma my_memset_from_eq:
  "p + len \<le> length buf \<Longrightarrow> my_memset_from buf p c len = Some (blit buf p (replicate len c))"
proof (induction len arbitrary: buf p)
  case (Suc len)
  then have "blit (buf[p := c]) (p + 1) (replicate len c) = blit buf p (replicate (Suc len) c)"
    by (intro nth_equalityI) (auto simp: nth_blit nth_list_update nth_Cons')
  with Suc show ?case by (simp add: wr_Some)
qed simp

lemma my_memset_eq [mem_simps]:
  "len \<le> length buf \<Longrightarrow> my_memset buf c len = Some (replicate len c @ drop len buf)"
  by (simp add: my_memset_def my_memset_from_eq) (simp add: blit_def)

lemma my_strlcpy_loop_eq:
  assumes "nul_terminated s2" and "base + len \<le> length s1" and "pos1 = length w"
    and "len = 0 \<and> w = [] \<or> length w < len"
  shows "my_strlcpy_loop (blit s1 base w) base s2 len pos1 pos2 =
    (let t = w @ take (len - 1 - length w) (cstr s2)
     in Some (blit s1 base t, length t, pos2 + length (cstr s2)))"
  using assms
proof (induction s2 arbitrary: w pos1 pos2)
  case (Cons c s2)
  show ?case
  proof (cases "c = 0 \<or> \<not> pos1 + 1 < len")
    case True
    then show ?thesis using Cons by (auto simp: Let_def)
  next
    case False
    then have room: "length w + 1 < len" using Cons.prems by simp
    have step: "wr (blit s1 base w) (base + pos1) c = Some (blit s1 base (w @ [c]))"
      using room Cons.prems by (simp add: wr_Some blit_snoc)
    have "my_strlcpy_loop (blit s1 base (w @ [c])) base s2 len (pos1 + 1) (pos2 + 1) =
      (let t = (w @ [c]) @ take (len - 1 - length (w @ [c])) (cstr s2)
       in Some (blit s1 base t, length t, pos2 + 1 + length (cstr s2)))"
      using False room Cons.prems by (intro Cons.IH) auto
    moreover have "w @ take (len - 1 - length w) (cstr (c # s2)) =
      (w @ [c]) @ take (len - 1 - length (w @ [c])) (cstr s2)"
      using False room by (simp add: take_Cons')
    ultimately show ?thesis using False step by (simp add: Let_def)
  qed
qed simp

lemma my_strlcpy_at_eq:
  assumes "nul_terminated s2" and "base + len \<le> length s1"
  shows "my_strlcpy_at s1 base s2 len =
    Some (if len = 0 then s1 else blit s1 base (take (len - 1) (cstr s2) @ [0]),
          length (cstr s2))"
proof -
  let ?t = "take (len - 1) (cstr s2)"
  have base: "base \<le> length s1" using assms by simp
  have loop: "my_strlcpy_loop s1 base s2 len 0 0 = Some (blit s1 base ?t, length ?t, length (cstr s2))"
    using my_strlcpy_loop_eq [of s2 base len s1 0 "[]" 0] assms base by (auto simp: Let_def)
  show ?thesis
  proof (cases "len = 0")
    case True
    then show ?thesis using loop base by (simp add: my_strlcpy_at_def)
  next
    case False
    have fits: "base + length ?t < length s1" using False assms by auto
    then have "wr (blit s1 base ?t) (base + length ?t) 0 = Some (blit s1 base (?t @ [0]))"
      by (subst wr_Some) (simp_all add: blit_snoc del: length_take)
    then show ?thesis using False loop by (simp add: my_strlcpy_at_def del: length_take)
  qed
qed

lemma my_strlcat_scan_eq:
  assumes "len \<le> length s1" and "pos \<le> len" and "pos \<le> length (cstr (take len s1))"
  shows "my_strlcat_scan s1 len pos = Some (length (cstr (take len s1)))"
  using assms
proof (induction s1 len pos rule: my_strlcat_scan.induct)
  case (1 s1 len pos)
  let ?c = "cstr (take len s1)"
  have le: "length ?c \<le> len" using "1.prems" length_cstr_le [of "take len s1"] by simp
  show ?case
  proof (cases "pos < length ?c")
    case True
    then have lt: "pos < len" using le by simp
    have nz: "s1 ! pos \<noteq> 0"
      using nth_cstr_nonzero [OF True] lt by simp
    have "my_strlcat_scan s1 len (pos + 1) = Some (length ?c)"
      using "1.IH" [of "s1 ! pos"] "1.prems" True lt nz by (simp add: rd_Some)
    then show ?thesis
      using lt nz "1.prems" by (simp add: my_strlcat_scan.simps [of s1 len pos] rd_Some)
  next
    case False
    then have pos: "pos = length ?c" using "1.prems" by simp
    show ?thesis
    proof (cases "pos < len")
      case True
      then have "length ?c < length (take len s1)" using pos "1.prems" by simp
      then have "nul_terminated (take len s1)"
        using cstr_id by (metis less_irrefl nul_terminated_def)
      then have "s1 ! pos = 0"
        using nth_length_cstr [of "take len s1"] pos True by simp
      then show ?thesis
        using True pos "1.prems" by (subst my_strlcat_scan.simps) (simp add: rd_Some)
    next
      case False
      then show ?thesis using pos by (subst my_strlcat_scan.simps) simp
    qed
  qed
qed

lemma my_strlcat_eq:
  assumes "nul_terminated s2" and "len \<le> length s1"
  shows "my_strlcat s1 s2 len =
    (let n = length (cstr (take len s1))
     in Some (if n = len then s1 else blit s1 n (take (len - n - 1) (cstr s2) @ [0]),
              if n = len then len else n + length (cstr s2)))"
proof -
  let ?n = "length (cstr (take len s1))"
  have n: "?n \<le> len" using assms length_cstr_le [of "take len s1"] by simp
  have scan: "my_strlcat_scan s1 len 0 = Some ?n"
    using assms by (intro my_strlcat_scan_eq) auto
  have "my_strlcpy_at s1 ?n s2 (len - ?n) =
      Some (blit s1 ?n (take (len - ?n - 1) (cstr s2) @ [0]), length (cstr s2))"
    if "?n \<noteq> len"
    using that n assms by (subst my_strlcpy_at_eq) auto
  with scan show ?thesis by (simp add: my_strlcat_def Let_def)
qed

lemma blit_terminated:
  assumes "n + length t < len" and "len \<le> length s1" and "0 \<notin> set (take n s1)" and "0 \<notin> set t"
  shows "length (blit s1 n (t @ [0])) = length s1"
    and "cstr (take len (blit s1 n (t @ [0]))) = take n s1 @ t"
    and "drop len (blit s1 n (t @ [0])) = drop len s1"
proof -
  have fits: "n + length (t @ [0]) \<le> length s1" using assms by simp
  then show "length (blit s1 n (t @ [0])) = length s1" by (rule length_blit)
  have "take len (blit s1 n (t @ [0])) =
      (take n s1 @ t) @ 0 # take (len - n - length t - 1) (drop (n + length t + 1) s1)"
    using assms by (simp add: blit_def min_def take_Cons')
  then show "cstr (take len (blit s1 n (t @ [0]))) = take n s1 @ t"
    using assms by (subst cstr_terminated [symmetric, of "take n s1 @ t"]) auto
  show "drop len (blit s1 n (t @ [0])) = drop len s1"
    using assms fits by (intro nth_equalityI) (auto simp: nth_blit)
qed

section \<open>Properties\<close>

text \<open>
  C31. \<open>my_strlcpy\<close> and \<open>my_strlcat\<close> keep to their buffer: with a terminated source and a
  destination of at least \<open>len > 0\<close> bytes they do not fault, leave every byte from \<open>len\<close> on as
  it was, leave a terminated string of the copied characters, and return the length they tried to
  create; \<open>my_strlcat\<close> on a destination with no NUL in its first \<open>len\<close> bytes changes nothing.
\<close>

theorem strlcpy_strlcat_safe:
  assumes "nul_terminated s2" and "0 < len" and "len \<le> length s1"
  shows "(\<exists>d. my_strlcpy s1 s2 len = Some (d, length (cstr s2)) \<and> length d = length s1 \<and>
            cstr (take len d) = take (len - 1) (cstr s2) \<and> drop len d = drop len s1) \<and>
         (nul_terminated (take len s1) \<longrightarrow>
            (\<exists>d. my_strlcat s1 s2 len = Some (d, length (cstr s1) + length (cstr s2)) \<and>
               length d = length s1 \<and>
               cstr (take len d) = take (len - 1) (cstr s1 @ cstr s2) \<and>
               drop len d = drop len s1)) \<and>
         (\<not> nul_terminated (take len s1) \<longrightarrow> my_strlcat s1 s2 len = Some (s1, len))"
proof (intro conjI impI)
  let ?t = "take (len - 1) (cstr s2)"
  have z: "0 \<notin> set ?t" using zero_notin_cstr [of s2] by (meson in_set_takeD)
  show "\<exists>d. my_strlcpy s1 s2 len = Some (d, length (cstr s2)) \<and> length d = length s1 \<and>
          cstr (take len d) = ?t \<and> drop len d = drop len s1"
    using blit_terminated [of 0 ?t len s1] z assms
    by (intro exI [of _ "blit s1 0 (?t @ [0])"])
      (auto simp: my_strlcpy_def my_strlcpy_at_eq)
next
  assume nt: "nul_terminated (take len s1)"
  let ?n = "length (cstr (take len s1))"
  let ?t = "take (len - ?n - 1) (cstr s2)"
  have c: "cstr s1 = cstr (take len s1)" by (rule cstr_take [OF nt, symmetric])
  have n: "?n < len" using length_cstr_less [OF nt] assms by simp
  have pre: "take ?n s1 = cstr s1" using take_length_cstr [of s1] c by simp
  have z: "0 \<notin> set ?t" "0 \<notin> set (take ?n s1)"
    using zero_notin_cstr pre by (auto dest: in_set_takeD)
  have d: "cstr s1 @ ?t = take (len - 1) (cstr s1 @ cstr s2)"
    using n c by simp
  show "\<exists>d. my_strlcat s1 s2 len = Some (d, length (cstr s1) + length (cstr s2)) \<and>
          length d = length s1 \<and> cstr (take len d) = take (len - 1) (cstr s1 @ cstr s2) \<and>
          drop len d = drop len s1"
    using blit_terminated [of ?n ?t len s1] z n assms my_strlcat_eq [OF assms(1,3)] c pre d
    by (intro exI [of _ "blit s1 ?n (?t @ [0])"]) (auto simp: Let_def)
next
  assume "\<not> nul_terminated (take len s1)"
  then have "cstr (take len s1) = take len s1" by (simp add: cstr_id nul_terminated_def)
  with assms show "my_strlcat s1 s2 len = Some (s1, len)"
    by (simp add: my_strlcat_eq Let_def)
qed

theorem strlcpy_strlcat_safe_witness:
  "nul_terminated [98, 99, 0] \<and>
   (\<exists>d. my_strlcat [97, 0, 7, 7, 7] [98, 99, 0] 3 =
      Some (d, length (cstr [97, 0, 7, 7, 7]) + length (cstr [98, 99, 0])) \<and>
      cstr (take 3 d) = [97, 98] \<and> drop 3 d = [7, 7])"
  using strlcpy_strlcat_safe [of "[98, 99, 0]" 3 "[97, 0, 7, 7, 7]"] by auto

text \<open>
  Numerals, independently of the code: the digits of a base with their values, the values of the longest prefix of digits, and the
  number these denote.
\<close>

definition decimal_digits :: "(u8 \<times> nat) list" where
  "decimal_digits = zip (map (of_nat \<circ> of_char) ''0123456789'') [0..<10]"

definition hex_digits :: "(u8 \<times> nat) list" where
  "hex_digits = zip (map (of_nat \<circ> of_char) ''0123456789abcdef'') [0..<16] @ zip (map (of_nat \<circ> of_char) ''ABCDEF'') [10..<16]"

fun leading :: "(u8 \<times> nat) list \<Rightarrow> bytes \<Rightarrow> nat list" where
  "leading ds [] = []"
| "leading ds (c # cs) = (case map_of ds c of None \<Rightarrow> [] | Some d \<Rightarrow> d # leading ds cs)"

definition in_base :: "nat \<Rightarrow> nat list \<Rightarrow> nat" where
  "in_base b = foldl (\<lambda>n d. n * b + d) 0"

lemma map_of_range:
  assumes "a + k \<le> 256"
  shows "map_of (zip (map of_nat [a..<a + k]) [b..<b + k]) c = (if a \<le> unat (c :: u8) \<and> unat c < a + k then Some (b + unat c - a) else None)"
  using assms
proof (induction k)
  case (Suc k)
  have e: "zip (map of_nat [a..<a + Suc k]) [b..<b + Suc k] = zip (map of_nat [a..<a + k]) [b..<b + k] @ [(of_nat (a + k) :: u8, b + k)]" by simp
  have "unat (of_nat (a + k) :: u8) = a + k" using Suc.prems by (simp add: unsigned_of_nat take_bit_eq_mod del: of_nat_add)
  then have "c = of_nat (a + k) \<longleftrightarrow> unat c = a + k" by (metis word_unat_eq_iff)
  then show ?case unfolding e map_of_append map_add_def using Suc by auto
qed simp

lemma digit_tables:
  "map (of_nat \<circ> of_char) ''0123456789'' = (map of_nat [48..<48 + 10] :: u8 list)"
  "map (of_nat \<circ> of_char) ''0123456789abcdef'' = (map of_nat [48..<48 + 10] @ map of_nat [97..<97 + 6] :: u8 list)"
  "map (of_nat \<circ> of_char) ''ABCDEF'' = (map of_nat [65..<65 + 6] :: u8 list)"
  by (simp_all add: upt_rec)

lemma hex_digit_values: "map_option unat (hex_digit c) = map_of hex_digits c"
proof -
  have z: "[0..<16] = [0..<0 + 10] @ [10..<10 + 6]" "[10..<16] = [10..<10 + 6]" by (simp_all add: upt_rec)
  have "hex_digits = zip (map of_nat [48..<48 + 10]) [0..<0 + 10] @ zip (map of_nat [97..<97 + 6]) [10..<10 + 6] @ zip (map of_nat [65..<65 + 6]) [10..<10 + 6]"
    unfolding hex_digits_def digit_tables z by (subst zip_append) (simp_all only: length_map length_upt append_assoc)
  then have "map_of hex_digits c = map_of (zip (map of_nat [48..<48 + 10]) [0..<0 + 10] @ zip (map of_nat [97..<97 + 6]) [10..<10 + 6] @
    zip (map of_nat [65..<65 + 6]) [10..<10 + 6]) c" by (rule arg_cong)
  also have "\<dots> = (if 65 \<le> unat c \<and> unat c < 71 then Some (unat c - 55) else if 97 \<le> unat c \<and> unat c < 103 then Some (unat c - 87)
    else if 48 \<le> unat c \<and> unat c < 58 then Some (unat c - 48) else None)"
    unfolding map_of_append map_add_def
    by (subst map_of_range, simp)+ simp
  finally show ?thesis by (simp add: hex_digit_def word_le_nat_alt unat_sub unat_word_ariths)
qed

lemma dec_digit_values: "(if is_dec_digit c then Some (unat c - 48) else None) = map_of decimal_digits c"
proof -
  have "decimal_digits = zip (map of_nat [48..<48 + 10]) [0..<0 + 10]" unfolding decimal_digits_def digit_tables by simp
  then have "map_of decimal_digits c = (if 48 \<le> unat c \<and> unat c < 48 + 10 then Some (0 + unat c - 48) else None)"
    using map_of_range [of 48 10 0 c] by (simp del: upt_rec_numeral upt_Suc)
  then show ?thesis by (auto simp: is_dec_digit_unat)
qed

lemma leading_hex:
  "foldl (\<lambda>n d. n * 16 + d) n (leading hex_digits s) = hex_val n (takeWhile (\<lambda>c. hex_digit c \<noteq> None) s)"
  "length (takeWhile (\<lambda>c. hex_digit c \<noteq> None) s) = length (leading hex_digits s)"
proof -
  have "foldl (\<lambda>n d. n * 16 + d) n (leading hex_digits s) = hex_val n (takeWhile (\<lambda>c. hex_digit c \<noteq> None) s) \<and>
    length (takeWhile (\<lambda>c. hex_digit c \<noteq> None) s) = length (leading hex_digits s)"
  proof (induction s arbitrary: n)
    case (Cons c s)
    show ?case using Cons.IH by (cases "hex_digit c") (simp_all add: hex_digit_values [symmetric])
  qed simp
  then show "foldl (\<lambda>n d. n * 16 + d) n (leading hex_digits s) = hex_val n (takeWhile (\<lambda>c. hex_digit c \<noteq> None) s)"
    "length (takeWhile (\<lambda>c. hex_digit c \<noteq> None) s) = length (leading hex_digits s)"
    by blast+
qed

lemma leading_dec:
  "foldl (\<lambda>n d. n * 10 + d) n (leading decimal_digits s) = dec_val n (takeWhile is_dec_digit s)"
  "length (takeWhile is_dec_digit s) = length (leading decimal_digits s)"
proof -
  have "foldl (\<lambda>n d. n * 10 + d) n (leading decimal_digits s) = dec_val n (takeWhile is_dec_digit s) \<and>
    length (takeWhile is_dec_digit s) = length (leading decimal_digits s)"
  proof (induction s arbitrary: n)
    case (Cons c s)
    show ?case by (cases "is_dec_digit c") (simp_all add: Cons dec_digit_values [symmetric])
  qed simp
  then show "foldl (\<lambda>n d. n * 10 + d) n (leading decimal_digits s) = dec_val n (takeWhile is_dec_digit s)"
    "length (takeWhile is_dec_digit s) = length (leading decimal_digits s)" by blast+
qed

text \<open>
  C35. \<open>my_read_hex_ptr\<close> and \<open>my_read_decimal_ptr\<close> on any buffer that holds a character that is no digit of the base: both
  return, the end pointer is the first such character, and the value is the number that the digits before it denote, modulo the width of
  \<open>uintptr_t\<close>. The digits and their values are the usual ones, for base 16 in both cases of the letters.
\<close>

theorem read_ptr_correct:
  fixes s t :: bytes
  assumes "\<exists>c\<in>set s. map_of hex_digits c = None" and "\<exists>c\<in>set t. map_of decimal_digits c = None"
  shows "(my_read_hex_ptr s :: ('w::len word \<times> nat) option) = Some (of_nat (in_base 16 (leading hex_digits s)), length (leading hex_digits s)) \<and>
    (my_read_decimal_ptr t :: ('w word \<times> nat) option) = Some (of_nat (in_base 10 (leading decimal_digits t)), length (leading decimal_digits t))"
proof -
  have "\<exists>c\<in>set s. hex_digit c = None" using assms(1) by (simp flip: hex_digit_values)
  moreover have "\<exists>c\<in>set t. \<not> is_dec_digit c" using assms(2) by (auto simp flip: dec_digit_values split: if_splits)
  ultimately show ?thesis unfolding in_base_def leading_hex(1) leading_dec(1) leading_dec(2) [symmetric] leading_hex(2) [symmetric]
    by (simp add: my_read_hex_ptr_eq my_read_decimal_ptr_eq)
qed

theorem read_ptr_correct_witness:
  "my_read_hex_ptr [55, 102, 65, 45] = Some (0x7fA :: u64, 3) \<and>
   my_read_decimal_ptr [49, 50, 44] = Some (12 :: u64, 2)"
proof -
  have l: "leading hex_digits [55, 102, 65, 45] = [7, 15, 10]" "leading decimal_digits [49, 50, 44] = [1, 2]"
    by (simp_all add: hex_digits_def decimal_digits_def upt_rec)
  have "map_of hex_digits 45 = None" "map_of decimal_digits 44 = None" by (simp_all add: hex_digits_def decimal_digits_def upt_rec)
  with read_ptr_correct [of "[55, 102, 65, 45]" "[49, 50, 44]", where 'w = 64] l show ?thesis
    by (simp add: in_base_def)
qed

text \<open>
  C39. Printing and reading back: \<open>my_uitos\<close> into a buffer of at least \<open>my_uint_len i\<close> bytes writes the decimal numeral of
  \<open>i\<close>, only digits and as short as possible, changes no byte behind it, and for \<open>i\<close> below $2^{31}$ \<open>my_strtoui\<close> of the numeral
  followed by a NUL returns \<open>i\<close>.
\<close>

theorem uitos_strtoui_roundtrip:
  assumes "my_uint_len i \<le> length buf"
  shows "\<exists>out. my_uitos buf i (my_uint_len i) = Some (out @ drop (my_uint_len i) buf) \<and> length out = my_uint_len i \<and>
    length (leading decimal_digits out) = my_uint_len i \<and> in_base 10 (leading decimal_digits out) = i \<and>
    (0 < i \<longrightarrow> 10 ^ (my_uint_len i - 1) \<le> i) \<and> (i < 2 ^ 31 \<longrightarrow> my_strtoui (out @ 0 # rest) = Some (Some (of_nat i)))"
proof -
  let ?ds = "dec_digits (my_uint_len i) i"
  have v: "dec_val 0 ?ds = i"
    using my_uint_len_bounds(1) [of i] by (simp add: dec_val_dec_digits)
  have t: "takeWhile is_dec_digit ?ds = ?ds" using dec_digits_are_digits by (simp add: takeWhile_eq_all_conv)
  have "i < 2 ^ 31 \<Longrightarrow> my_strtoui (?ds @ 0 # rest) = Some (Some (of_nat (dec_val 0 ?ds)))"
    using v my_uint_len_bounds(2) [of i]
    by (intro my_strtoui_digits) (auto simp: dec_digits_are_digits simp flip: length_greater_0_conv)
  moreover have "my_uitos buf i (my_uint_len i) = Some (?ds @ drop (my_uint_len i) buf)"
    using assms by (simp add: my_uitos_eq)
  moreover have "in_base 10 (leading decimal_digits ?ds) = i" "length (leading decimal_digits ?ds) = my_uint_len i"
    unfolding in_base_def leading_dec(1) using v by (simp_all add: leading_dec(2) [symmetric] t)
  ultimately show ?thesis using v my_uint_len_bounds(3) [of i] by (intro exI [of _ ?ds]) simp
qed

theorem uitos_strtoui_roundtrip_witness:
  "my_uitos [7, 7, 7, 7, 7] 2026 (my_uint_len 2026) = Some [50, 48, 50, 54, 7] \<and> my_strtoui [50, 48, 50, 54, 0] = Some (Some 2026)"
proof -
  have len: "my_uint_len 2026 = 4" by code_simp
  have "my_uitos [7, 7, 7, 7, 7] 2026 4 = Some [50, 48, 50, 54, 7]" by code_simp
  with uitos_strtoui_roundtrip [of 2026 "[7, 7, 7, 7, 7]" "[]"] len show ?thesis by auto
qed

text \<open>
  \<open>my_strtoui\<close> accepts only non-empty digit strings and then returns their value modulo
  $2^{32}$; it is exact below $2^{31}$. Its overflow test does not see every overflow: the
  eleven-digit string \<open>10000000000\<close> is accepted, with the value 1410065408.
\<close>

lemma strtoui_accepts_only_digits:
  "(my_strtoui s = Some (Some r) \<longrightarrow>
      cstr s \<noteq> [] \<and> (\<forall>c\<in>set (cstr s). is_dec_digit c) \<and> r = of_nat (dec_val 0 (cstr s))) \<and>
   (nul_terminated s \<and> cstr s \<noteq> [] \<and> (\<forall>c\<in>set (cstr s). is_dec_digit c) \<and>
      dec_val 0 (cstr s) < 2 ^ 31 \<longrightarrow>
      my_strtoui s = Some (Some (of_nat (dec_val 0 (cstr s))))) \<and>
   my_strtoui [49, 48, 48, 48, 48, 48, 48, 48, 48, 48, 48, 0] = Some (Some 1410065408)"
proof (intro conjI impI)
  assume a: "nul_terminated s \<and> cstr s \<noteq> [] \<and> (\<forall>c\<in>set (cstr s). is_dec_digit c) \<and>
    dec_val 0 (cstr s) < 2 ^ 31"
  then obtain u where "s = cstr s @ 0 # u" using nul_terminated_split by blast
  with my_strtoui_digits [of "cstr s" u] a
  show "my_strtoui s = Some (Some (of_nat (dec_val 0 (cstr s))))" by simp
next
  show "my_strtoui [49, 48, 48, 48, 48, 48, 48, 48, 48, 48, 48, 0] = Some (Some 1410065408)"
    by (simp add: my_strtoui_def is_dec_digit_def Let_def)
qed (auto dest: my_strtoui_accepts)

lemma strtoui_accepts_only_digits_witness:
  "my_strtoui [52, 50, 0] = Some (Some 42) \<and> cstr [52, 50, 0 :: u8] \<noteq> [] \<and>
   list_all is_dec_digit (cstr [52, 50, 0]) \<and> dec_val 0 (cstr [52, 50, 0]) = 42"
  using strtoui_accepts_only_digits [of "[52, 50, 0]" 42] by (simp add: is_dec_digit_def)

end
