(* ===== verification/Line_Reader.thy ===== *)
theory Line_Reader
  imports Libc_Support
begin

text \<open>
  \<^verbatim>\<open>client/linux/minidump_writer/line_reader.h\<close>: reading a file line by line through a fixed
  512-byte buffer, and the interface \<open>line_source\<close> through which the readers of
  \<^verbatim>\<open>/proc\<close> files use it.

  The system call \<open>sys_read\<close> is a parameter: a function of the file's state and the byte count
  that gives \<open>None\<close> for an error or the bytes read, and the new file state.
  \<open>read_contract\<close> states what read(2) documents: at most \<open>count\<close> bytes, taken from the front of
  the unread contents, and none only at the end of the file.
\<close>

type_synonym 'f read_call = "'f \<Rightarrow> nat \<Rightarrow> bytes option \<times> 'f"

definition read_contract :: "'f read_call \<Rightarrow> ('f \<Rightarrow> bytes) \<Rightarrow> bool" where
  "read_contract sys_read content \<longleftrightarrow>
     (\<forall>f n bs f'. sys_read f n = (Some bs, f') \<longrightarrow>
        length bs \<le> n \<and> content f = bs @ content f' \<and> (0 < n \<and> bs = [] \<longrightarrow> content f = []))"

definition read_never_fails :: "'f read_call \<Rightarrow> bool" where
  "read_never_fails sys_read \<longleftrightarrow> (\<forall>f n. fst (sys_read f n) \<noteq> None)"

section \<open>The reader\<close>

definition kMaxLineLen :: nat where
  "kMaxLineLen = 512"

record line_reader =
  lr_hit_eof :: bool
  lr_buf_used :: nat
  lr_buf :: bytes

text \<open>The constructor leaves the bytes of the buffer uninitialised: \<open>garbage\<close>.\<close>

definition LineReader :: "bytes \<Rightarrow> line_reader" where
  "LineReader garbage = \<lparr>lr_hit_eof = False, lr_buf_used = 0, lr_buf = garbage\<rparr>"

fun find_eol :: "bytes \<Rightarrow> nat \<Rightarrow> nat option" where
  "find_eol [] i = None"
| "find_eol (c # cs) i = (if c = 10 \<or> c = 0 then Some i else find_eol cs (i + 1))"

text \<open>
  \<open>GetNextLine\<close>: \<open>Some n\<close> is success with \<open>*len = n\<close> (the line itself is always at the start
  of the buffer), \<open>None\<close> is the result \<open>false\<close>. The outer \<open>None\<close> is a read that returned more
  than it was asked for.
\<close>

function GetNextLine ::
  "'f read_call \<Rightarrow> 'f \<Rightarrow> line_reader \<Rightarrow> (nat option \<times> line_reader \<times> 'f) option" where
  "GetNextLine sys_read f r =
     (if lr_buf_used r = 0 \<and> lr_hit_eof r then Some (None, r, f)
      else (case find_eol (take (lr_buf_used r) (lr_buf r)) 0 of
        Some i \<Rightarrow> Some (Some i, r\<lparr>lr_buf := (lr_buf r)[i := 0]\<rparr>, f)
      | None \<Rightarrow>
          if lr_buf_used r = kMaxLineLen then Some (None, r, f)
          else if lr_hit_eof r then
            (case wr (lr_buf r) (lr_buf_used r) 0 of
               None \<Rightarrow> None
             | Some buf' \<Rightarrow>
                 Some (Some (lr_buf_used r),
                       r\<lparr>lr_buf := buf', lr_buf_used := lr_buf_used r + 1\<rparr>, f))
          else (case sys_read f (kMaxLineLen - lr_buf_used r) of
            (None, f') \<Rightarrow> Some (None, r, f')
          | (Some bs, f') \<Rightarrow>
              if bs = [] then GetNextLine sys_read f' (r\<lparr>lr_hit_eof := True\<rparr>)
              else if kMaxLineLen < lr_buf_used r + length bs then None
              else GetNextLine sys_read f'
                     (r\<lparr>lr_buf := blit (lr_buf r) (lr_buf_used r) bs,
                        lr_buf_used := lr_buf_used r + length bs\<rparr>))))"
  by pat_completeness auto
termination
  by (relation "measure (\<lambda>(sys_read, f, r).
        2 * (kMaxLineLen - lr_buf_used r) + (if lr_hit_eof r then 0 else 1))")
    (auto simp flip: length_greater_0_conv)

declare GetNextLine.simps [simp del]

text \<open>\<open>PopLine\<close>: its assertion is the guard; the buffer moves down by \<open>len + 1\<close> bytes.\<close>

definition PopLine :: "nat \<Rightarrow> line_reader \<Rightarrow> line_reader option" where
  "PopLine len r =
     (if len + 1 \<le> lr_buf_used r
      then Some (r\<lparr>lr_buf_used := lr_buf_used r - (len + 1),
                   lr_buf := blit (lr_buf r) 0
                     (take (lr_buf_used r - (len + 1)) (drop (len + 1) (lr_buf r)))\<rparr>)
      else None)"

section \<open>Invariant and abstraction\<close>

definition lr_invar :: "line_reader \<Rightarrow> bool" where
  "lr_invar r \<longleftrightarrow> length (lr_buf r) = kMaxLineLen \<and> lr_buf_used r \<le> kMaxLineLen"

text \<open>The bytes not yet handed out: those buffered, then those still in the file.\<close>

definition pending :: "('f \<Rightarrow> bytes) \<Rightarrow> 'f \<Rightarrow> line_reader \<Rightarrow> bytes" where
  "pending content f r =
     take (lr_buf_used r) (lr_buf r) @ (if lr_hit_eof r then [] else content f)"

text \<open>The first line of a text and what follows its terminator.\<close>

definition is_eol :: "u8 \<Rightarrow> bool" where
  "is_eol c \<longleftrightarrow> c = 10 \<or> c = 0"

definition first_line :: "bytes \<Rightarrow> bytes" where
  "first_line bs = takeWhile (\<lambda>c. \<not> is_eol c) bs"

definition after_line :: "bytes \<Rightarrow> bytes" where
  "after_line bs = drop (length (first_line bs) + 1) bs"

lemma find_eol_eq:
  "find_eol bs i = (if \<exists>c\<in>set bs. is_eol c then Some (i + length (first_line bs)) else None)"
  by (induction bs i rule: find_eol.induct) (auto simp: first_line_def is_eol_def)

lemma first_line_append:
  "\<exists>c\<in>set bs. is_eol c \<Longrightarrow> first_line (bs @ cs) = first_line bs"
  "\<forall>c\<in>set bs. \<not> is_eol c \<Longrightarrow> first_line (bs @ cs) = bs @ first_line cs"
  by (auto simp: first_line_def takeWhile_append)

lemma length_first_line_less: "\<exists>c\<in>set bs. is_eol c \<Longrightarrow> length (first_line bs) < length bs"
  by (induction bs) (auto simp: first_line_def)

lemma first_line_no_eol: "c \<in> set (first_line bs) \<Longrightarrow> \<not> is_eol c"
  by (auto simp: first_line_def dest: set_takeWhileD)

lemma take_first_line: "take (length (first_line bs)) bs = first_line bs"
  by (simp add: first_line_def takeWhile_eq_take [symmetric])

lemma lr_invar_LineReader [simp]: "length g = kMaxLineLen \<Longrightarrow> lr_invar (LineReader g)"
  by (simp add: lr_invar_def LineReader_def)

lemma pending_LineReader [simp]: "pending content f (LineReader g) = content f"
  by (simp add: pending_def LineReader_def)

section \<open>What a call of GetNextLine achieves\<close>

text \<open>
  The postcondition of a successful call, for the text \<open>P\<close> pending before it: the line is the
  first line of \<open>P\<close>, it is NUL-terminated at the start of the buffer, and the terminator is still
  to be popped.
\<close>

definition line_found :: "bytes \<Rightarrow> nat \<Rightarrow> line_reader \<Rightarrow> bool" where
  "line_found P n r \<longleftrightarrow> n = length (first_line P) \<and> n < lr_buf_used r \<and>
     take n (lr_buf r) = first_line P \<and> lr_buf r ! n = 0"

lemma eol_in_buffer:
  fixes content :: "'f \<Rightarrow> bytes" and f :: 'f and r :: line_reader
  assumes inv: "lr_invar r" and eol: "\<exists>c\<in>set (take (lr_buf_used r) (lr_buf r)). is_eol c"
  defines "P \<equiv> pending content f r" and "n \<equiv> length (first_line (pending content f r))"
  shows "find_eol (take (lr_buf_used r) (lr_buf r)) 0 = Some n"
    and "line_found P n (r\<lparr>lr_buf := (lr_buf r)[n := 0]\<rparr>)"
    and "pending content f (r\<lparr>lr_buf := (lr_buf r)[n := 0]\<rparr>) = first_line P @ 0 # after_line P"
proof -
  let ?b = "take (lr_buf_used r) (lr_buf r)"
  have fl: "first_line P = first_line ?b"
    using eol by (simp add: P_def pending_def first_line_append)
  have n: "n = length (first_line ?b)" using fl by (simp add: n_def P_def)
  have lt: "n < length ?b" using length_first_line_less [OF eol] n by simp
  show "find_eol ?b 0 = Some n" using eol n by (simp add: find_eol_eq)
  have tk: "take n (lr_buf r) = first_line P"
    using lt fl n take_first_line [of ?b] by (simp add: min_def split: if_splits)
  then show "line_found P n (r\<lparr>lr_buf := (lr_buf r)[n := 0]\<rparr>)"
    using lt inv by (simp add: line_found_def n_def P_def lr_invar_def)
  have "?b[n := 0] = first_line P @ 0 # drop (n + 1) ?b"
    using lt tk by (simp add: upd_conv_take_nth_drop)
  then show "pending content f (r\<lparr>lr_buf := (lr_buf r)[n := 0]\<rparr>) = first_line P @ 0 # after_line P"
    using lt by (simp add: pending_def after_line_def take_update_swap P_def n_def)
qed

lemma no_eol_at_eof:
  fixes content :: "'f \<Rightarrow> bytes" and f :: 'f and r :: line_reader
  assumes inv: "lr_invar r" and eol: "\<not> (\<exists>c\<in>set (take (lr_buf_used r) (lr_buf r)). is_eol c)"
    and eof: "lr_hit_eof r" and room: "lr_buf_used r < kMaxLineLen"
  defines "r' \<equiv> r\<lparr>lr_buf := (lr_buf r)[lr_buf_used r := 0], lr_buf_used := lr_buf_used r + 1\<rparr>"
    and "P \<equiv> pending content f r"
  shows "line_found P (lr_buf_used r) r'" and "pending content f r' = first_line P @ 0 # after_line P"
    and "lr_invar r'"
proof -
  have P: "P = take (lr_buf_used r) (lr_buf r)" using eof by (simp add: P_def pending_def)
  have fl: "first_line P = P" and len: "length P = lr_buf_used r"
    using eol P inv by (auto simp: first_line_def takeWhile_eq_all_conv lr_invar_def)
  then show "line_found P (lr_buf_used r) r'"
    using P inv room by (simp add: line_found_def r'_def lr_invar_def)
  show "lr_invar r'" using inv room by (simp add: lr_invar_def r'_def)
  have "take (lr_buf_used r + 1) ((lr_buf r)[lr_buf_used r := 0]) = P @ [0]"
    using inv room P by (simp add: lr_invar_def take_Suc_conv_app_nth)
  then show "pending content f r' = first_line P @ 0 # after_line P"
    using eof fl len by (simp add: pending_def r'_def after_line_def)
qed

text \<open>Refilling the buffer leaves the pending text unchanged.\<close>

lemma refill:
  assumes "read_contract sys_read content" and "lr_invar r" and "\<not> lr_hit_eof r"
    and "sys_read f (kMaxLineLen - lr_buf_used r) = (Some bs, f')"
    and "lr_buf_used r \<noteq> kMaxLineLen"
  shows "lr_buf_used r + length bs \<le> kMaxLineLen"
    and "bs = [] \<Longrightarrow> pending content f' (r\<lparr>lr_hit_eof := True\<rparr>) = pending content f r"
    and "lr_invar (r\<lparr>lr_buf := blit (lr_buf r) (lr_buf_used r) bs,
                     lr_buf_used := lr_buf_used r + length bs\<rparr>)"
    and "pending content f' (r\<lparr>lr_buf := blit (lr_buf r) (lr_buf_used r) bs,
           lr_buf_used := lr_buf_used r + length bs\<rparr>) = pending content f r"
proof -
  have "0 < kMaxLineLen - lr_buf_used r" using assms by (simp add: lr_invar_def)
  then have c: "length bs \<le> kMaxLineLen - lr_buf_used r" "content f = bs @ content f'"
    "bs = [] \<Longrightarrow> content f = []"
    using assms unfolding read_contract_def by blast+
  show fits: "lr_buf_used r + length bs \<le> kMaxLineLen"
    using c(1) assms(2) unfolding lr_invar_def by linarith
  show "bs = [] \<Longrightarrow> pending content f' (r\<lparr>lr_hit_eof := True\<rparr>) = pending content f r"
    using c assms(3) by (simp add: pending_def)
  show "lr_invar (r\<lparr>lr_buf := blit (lr_buf r) (lr_buf_used r) bs,
                    lr_buf_used := lr_buf_used r + length bs\<rparr>)"
    using fits assms(2) by (simp add: lr_invar_def)
  show "pending content f' (r\<lparr>lr_buf := blit (lr_buf r) (lr_buf_used r) bs,
          lr_buf_used := lr_buf_used r + length bs\<rparr>) = pending content f r"
    using fits c assms(2,3) by (simp add: pending_def lr_invar_def take_blit)
qed

lemma GetNextLine_exact:
  assumes "read_contract sys_read content" and "lr_invar r"
  shows "\<exists>res r' f'. GetNextLine sys_read f r = Some (res, r', f') \<and> lr_invar r' \<and>
     (case res of
        Some n \<Rightarrow> line_found (pending content f r) n r' \<and> pending content f r \<noteq> [] \<and>
          pending content f' r' =
            first_line (pending content f r) @ 0 # after_line (pending content f r)
      | None \<Rightarrow> read_never_fails sys_read \<longrightarrow>
          (pending content f r = [] \<or> kMaxLineLen \<le> length (first_line (pending content f r))) \<and>
          pending content f' r' = pending content f r)"
  using assms
proof (induction sys_read f r rule: GetNextLine.induct)
  case (1 sys_read f r)
  note inv = "1.prems"(2)
  let ?b = "take (lr_buf_used r) (lr_buf r)"
  let ?P = "pending content f r"
  have lenb: "length ?b = lr_buf_used r" using inv by (simp add: lr_invar_def)
  consider (finished) "lr_buf_used r = 0 \<and> lr_hit_eof r"
    | (eol) "\<not> (lr_buf_used r = 0 \<and> lr_hit_eof r)" "\<exists>c\<in>set ?b. is_eol c"
    | (noeol) "\<not> (lr_buf_used r = 0 \<and> lr_hit_eof r)" "\<not> (\<exists>c\<in>set ?b. is_eol c)" by blast
  then show ?case
  proof cases
    case finished
    then show ?thesis using inv by (subst GetNextLine.simps) (simp add: pending_def)
  next
    case eol
    have "?b \<noteq> []" using eol(2) by fastforce
    then have "?P \<noteq> []" by (simp add: pending_def)
    then show ?thesis
      using eol inv eol_in_buffer [OF inv eol(2), of content f]
      by (subst GetNextLine.simps) (auto simp: lr_invar_def)
  next
    case noeol
    then have none: "find_eol ?b 0 = None" by (simp add: find_eol_eq)
    show ?thesis
    proof (cases "lr_buf_used r = kMaxLineLen")
      case True
      have "first_line ?P = ?b @ first_line (if lr_hit_eof r then [] else content f)"
        using noeol by (simp add: pending_def first_line_append(2))
      then show ?thesis using True noeol none inv lenb
        by (subst GetNextLine.simps) (simp add: kMaxLineLen_def)
    next
      case notfull: False
      then have room: "lr_buf_used r < kMaxLineLen" using inv by (simp add: lr_invar_def)
      show ?thesis
      proof (cases "lr_hit_eof r")
        case True
        have "?P \<noteq> []" using noeol True lenb by (auto simp: pending_def)
        then show ?thesis
          using True notfull none noeol no_eol_at_eof(1) [OF inv noeol(2) True room, of content f]
            no_eol_at_eof(2) [OF inv noeol(2) True room, of content f] inv room
          by (subst GetNextLine.simps) (simp add: wr_Some lr_invar_def)
      next
        case noteof: False
        obtain ret f' where rd: "sys_read f (kMaxLineLen - lr_buf_used r) = (ret, f')" by fastforce
        note unfold = GetNextLine.simps [of sys_read f r]
        show ?thesis
        proof (cases ret)
          case None
          moreover have "\<not> read_never_fails sys_read"
            using None rd by (auto simp: read_never_fails_def) (metis fst_conv)
          ultimately show ?thesis using noteof notfull none rd inv by (simp add: unfold)
        next
          case (Some bs)
          note rd' = rd [unfolded Some]
          note fill = refill [OF "1.prems" noteof rd' notfull]
          show ?thesis
          proof (cases "bs = []")
            case True
            have "lr_invar (r\<lparr>lr_hit_eof := True\<rparr>)" using inv by (simp add: lr_invar_def)
            from "1.IH"(1) [OF noeol(1) none notfull noteof rd' [symmetric] refl True "1.prems"(1) this]
            show ?thesis
              using True noteof notfull none rd' unfolding fill(2) [OF True] by (simp add: unfold)
          next
            case False
            have "\<not> kMaxLineLen < lr_buf_used r + length bs" using fill(1) by simp
            from "1.IH"(2) [OF noeol(1) none notfull noteof rd' [symmetric] refl False this
                "1.prems"(1) fill(3)]
            show ?thesis
              using False noteof notfull none rd' fill(1) unfolding fill(4) by (simp add: unfold)
          qed
        qed
      qed
    qed
  qed
qed

lemma GetNextLine_spec:
  assumes "read_contract sys_read content" and "lr_invar r"
  shows "\<exists>res r' f'. GetNextLine sys_read f r = Some (res, r', f') \<and> lr_invar r' \<and>
     (case res of
        Some n \<Rightarrow> line_found (pending content f r) n r' \<and> pending content f r \<noteq> [] \<and>
          pending content f' r' =
            first_line (pending content f r) @ 0 # after_line (pending content f r)
      | None \<Rightarrow> read_never_fails sys_read \<longrightarrow>
          pending content f r = [] \<or> kMaxLineLen \<le> length (first_line (pending content f r)))"
proof -
  obtain res r' f' where g: "GetNextLine sys_read f r = Some (res, r', f')" "lr_invar r'" and
    p: "case res of
        Some n \<Rightarrow> line_found (pending content f r) n r' \<and> pending content f r \<noteq> [] \<and>
          pending content f' r' = first_line (pending content f r) @ 0 # after_line (pending content f r)
      | None \<Rightarrow> read_never_fails sys_read \<longrightarrow>
          (pending content f r = [] \<or> kMaxLineLen \<le> length (first_line (pending content f r))) \<and>
          pending content f' r' = pending content f r"
    using GetNextLine_exact [OF assms, of f] by blast
  then show ?thesis by (intro exI conjI) (auto split: option.splits)
qed

lemma PopLine_spec:
  assumes inv: "lr_invar r" and n: "n < lr_buf_used r"
  shows "\<exists>r'. PopLine n r = Some r' \<and> lr_invar r' \<and>
           pending content f r' = drop (n + 1) (pending content f r)"
proof -
  let ?m = "lr_buf_used r - (n + 1)"
  let ?tail = "take ?m (drop (n + 1) (lr_buf r))"
  have len: "length ?tail = ?m" "?m \<le> length (lr_buf r)"
    using inv n by (auto simp: lr_invar_def)
  have "take ?m (blit (lr_buf r) 0 ?tail) = ?tail"
    using take_blit [of 0 ?tail "lr_buf r"] len by simp
  moreover have "drop (n + 1) (pending content f r) =
      ?tail @ (if lr_hit_eof r then [] else content f)"
    using n inv by (simp add: pending_def lr_invar_def drop_take)
  ultimately show ?thesis
    using n len inv by (simp add: PopLine_def pending_def lr_invar_def)
qed

section \<open>The interface of a line source\<close>

text \<open>
  What the readers built on \<open>LineReader\<close> rely on: \<open>get\<close> hands out the first line of the text
  and leaves its terminator in front of the rest, \<open>pop\<close> removes the line just handed out
  (\<open>ready\<close>). Everything else they know follows from these laws.
\<close>

locale line_source =
  fixes invar :: "'s \<Rightarrow> bool"
    and rest :: "'s \<Rightarrow> bytes"
    and ready :: "nat \<Rightarrow> 's \<Rightarrow> bool"
    and reliable :: "'s \<Rightarrow> bool"
    and get :: "'s \<Rightarrow> (bytes option \<times> 's) option"
    and pop :: "nat \<Rightarrow> 's \<Rightarrow> 's option"
  assumes get_total: "invar s \<Longrightarrow> \<exists>res s'. get s = Some (res, s')"
    and get_invar: "invar s \<Longrightarrow> get s = Some (res, s') \<Longrightarrow> invar s' \<and> (reliable s' \<longleftrightarrow> reliable s)"
    and get_line: "invar s \<Longrightarrow> get s = Some (Some l, s') \<Longrightarrow>
      rest s \<noteq> [] \<and> l = first_line (rest s) \<and> ready (length l) s' \<and>
      rest s' = l @ 0 # after_line (rest s)"
    and get_end: "invar s \<Longrightarrow> reliable s \<Longrightarrow> get s = Some (None, s') \<Longrightarrow>
      rest s = [] \<or> kMaxLineLen \<le> length (first_line (rest s))"
    and pop_line: "invar s \<Longrightarrow> ready (length l) s \<Longrightarrow> rest s = l @ 0 # t \<Longrightarrow>
      \<exists>s'. pop (length l) s = Some s' \<and> invar s' \<and> rest s' = t \<and> (reliable s' \<longleftrightarrow> reliable s)"

text \<open>
  The loop of the clients, \<^verbatim>\<open>while (GetNextLine(&line, &len)) { ...; PopLine(len); }\<close>, with
  fuel for its number of iterations; \<open>None\<close> is a fault or running out of fuel.
\<close>

fun drain :: "('s \<Rightarrow> (bytes option \<times> 's) option) \<Rightarrow> (nat \<Rightarrow> 's \<Rightarrow> 's option) \<Rightarrow>
    nat \<Rightarrow> 's \<Rightarrow> (bytes list \<times> 's) option" where
  "drain get pop 0 s = None"
| "drain get pop (Suc fuel) s =
     do {
       (res, s) \<leftarrow> get s;
       (case res of
          None \<Rightarrow> Some ([], s)
        | Some l \<Rightarrow> do {
            s \<leftarrow> pop (length l) s;
            (ls, s) \<leftarrow> drain get pop fuel s;
            Some (l # ls, s)
          })
     }"

lemma length_after_line: "bs \<noteq> [] \<Longrightarrow> length (after_line bs) < length bs"
  by (simp add: after_line_def)

function lines_of :: "bytes \<Rightarrow> bytes list" where
  "lines_of bs = (if bs = [] then [] else first_line bs # lines_of (after_line bs))"
  by pat_completeness auto
termination
  by (relation "measure length") (auto simp: length_after_line)

declare lines_of.simps [simp del]

context line_source
begin

lemma drain_all:
  assumes "invar s" and "reliable s" and "\<forall>l\<in>set (lines_of (rest s)). length l < kMaxLineLen"
    and "length (lines_of (rest s)) < fuel"
  shows "\<exists>s'. drain get pop fuel s = Some (lines_of (rest s), s') \<and> invar s'"
  using assms
proof (induction fuel arbitrary: s)
  case (Suc fuel)
  obtain res s1 where g: "get s = Some (res, s1)" using get_total Suc.prems(1) by blast
  show ?case
  proof (cases res)
    case None
    have "rest s = []"
    proof (rule ccontr)
      assume ne: "rest s \<noteq> []"
      then have "first_line (rest s) \<in> set (lines_of (rest s))" by (subst lines_of.simps) simp
      with get_end [OF Suc.prems(1,2)] g None ne Suc.prems(3) show False by fastforce
    qed
    with g None Suc.prems(1) get_invar show ?thesis by (simp add: lines_of.simps)
  next
    case (Some l)
    note gl = get_line [OF Suc.prems(1) g [unfolded Some]]
    have ls: "lines_of (rest s) = l # lines_of (after_line (rest s))"
      using gl by (subst lines_of.simps) simp
    from pop_line [of s1 l] gl get_invar [OF Suc.prems(1) g] obtain s2 where
      p: "pop (length l) s1 = Some s2" "invar s2" "rest s2 = after_line (rest s)" "reliable s2"
      using Suc.prems(2) by blast
    have "\<exists>s'. drain get pop fuel s2 = Some (lines_of (rest s2), s') \<and> invar s'"
      using Suc.prems(3,4) ls p by (intro Suc.IH) auto
    then show ?thesis using g Some p ls by auto
  qed
qed simp

end

text \<open>
  \<open>LineReader\<close> is a line source: the state is the system call, the contents function of its
  contract, the file and the reader.
\<close>

type_synonym 'f lr_state = "'f read_call \<times> ('f \<Rightarrow> bytes) \<times> 'f \<times> line_reader"

fun lrs_invar :: "'f lr_state \<Rightarrow> bool" where
  "lrs_invar (sys_read, content, f, r) \<longleftrightarrow> read_contract sys_read content \<and> lr_invar r"

fun lrs_rest :: "'f lr_state \<Rightarrow> bytes" where
  "lrs_rest (sys_read, content, f, r) = pending content f r"

fun lrs_ready :: "nat \<Rightarrow> 'f lr_state \<Rightarrow> bool" where
  "lrs_ready n (sys_read, content, f, r) \<longleftrightarrow> n < lr_buf_used r"

fun lrs_reliable :: "'f lr_state \<Rightarrow> bool" where
  "lrs_reliable (sys_read, content, f, r) \<longleftrightarrow> read_never_fails sys_read"

fun lrs_get :: "'f lr_state \<Rightarrow> (bytes option \<times> 'f lr_state) option" where
  "lrs_get (sys_read, content, f, r) =
     do {
       (res, r, f) \<leftarrow> GetNextLine sys_read f r;
       Some (map_option (\<lambda>n. take n (lr_buf r)) res, sys_read, content, f, r)
     }"

fun lrs_pop :: "nat \<Rightarrow> 'f lr_state \<Rightarrow> 'f lr_state option" where
  "lrs_pop n (sys_read, content, f, r) =
     do {
       r \<leftarrow> PopLine n r;
       Some (sys_read, content, f, r)
     }"

lemma lrs_get_cases:
  assumes "lrs_invar (sr, ct, f, r)" and "lrs_get (sr, ct, f, r) = Some (res, s')"
  obtains n r' f' where "res = Some (first_line (pending ct f r))" "s' = (sr, ct, f', r')"
      "lr_invar r'" "n = length (first_line (pending ct f r))" "n < lr_buf_used r'"
      "pending ct f r \<noteq> []"
      "pending ct f' r' = first_line (pending ct f r) @ 0 # after_line (pending ct f r)"
  | r' f' where "res = None" "s' = (sr, ct, f', r')" "lr_invar r'"
      "read_never_fails sr \<Longrightarrow>
         pending ct f r = [] \<or> kMaxLineLen \<le> length (first_line (pending ct f r))"
proof -
  from assms have c: "read_contract sr ct" and i: "lr_invar r" by auto
  from GetNextLine_spec [OF c i, of f] obtain res0 r' f' where
    g: "GetNextLine sr f r = Some (res0, r', f')" "lr_invar r'" and
    p: "case res0 of
        Some n \<Rightarrow> line_found (pending ct f r) n r' \<and> pending ct f r \<noteq> [] \<and>
          pending ct f' r' = first_line (pending ct f r) @ 0 # after_line (pending ct f r)
      | None \<Rightarrow> read_never_fails sr \<longrightarrow>
          pending ct f r = [] \<or> kMaxLineLen \<le> length (first_line (pending ct f r))" by blast
  from g assms have r: "res = map_option (\<lambda>n. take n (lr_buf r')) res0" "s' = (sr, ct, f', r')"
    by auto
  show thesis
  proof (cases res0)
    case None
    with p r g that(2) [of f' r'] show ?thesis by simp
  next
    case (Some n)
    with p r g that(1) [of f' r' n] show ?thesis by (auto simp: line_found_def)
  qed
qed

interpretation lrs: line_source lrs_invar lrs_rest lrs_ready lrs_reliable lrs_get lrs_pop
proof
  fix s :: "'f lr_state"
  assume i: "lrs_invar s"
  obtain sr ct f r where s: "s = (sr, ct, f, r)" by (cases s)
  from GetNextLine_spec [of sr ct r f] i s show "\<exists>res s'. lrs_get s = Some (res, s')"
    by auto
next
  fix s s' :: "'f lr_state" and res
  assume i: "lrs_invar s" and g: "lrs_get s = Some (res, s')"
  obtain sr ct f r where s: "s = (sr, ct, f, r)" by (cases s)
  show "lrs_invar s' \<and> (lrs_reliable s' \<longleftrightarrow> lrs_reliable s)"
    by (rule lrs_get_cases [OF i [unfolded s] g [unfolded s]]) (use i s in auto)
next
  fix s s' :: "'f lr_state" and l
  assume i: "lrs_invar s" and g: "lrs_get s = Some (Some l, s')"
  obtain sr ct f r where s: "s = (sr, ct, f, r)" by (cases s)
  show "lrs_rest s \<noteq> [] \<and> l = first_line (lrs_rest s) \<and> lrs_ready (length l) s' \<and>
      lrs_rest s' = l @ 0 # after_line (lrs_rest s)"
    by (rule lrs_get_cases [OF i [unfolded s] g [unfolded s]]) (use i s in auto)
next
  fix s s' :: "'f lr_state"
  assume i: "lrs_invar s" and rel: "lrs_reliable s" and g: "lrs_get s = Some (None, s')"
  obtain sr ct f r where s: "s = (sr, ct, f, r)" by (cases s)
  show "lrs_rest s = [] \<or> kMaxLineLen \<le> length (first_line (lrs_rest s))"
    by (rule lrs_get_cases [OF i [unfolded s] g [unfolded s]]) (use rel s in auto)
next
  fix s :: "'f lr_state" and l t
  assume a: "lrs_invar s" "lrs_ready (length l) s" "lrs_rest s = l @ 0 # t"
  obtain sr ct f r where s: "s = (sr, ct, f, r)" by (cases s)
  from PopLine_spec [of r "length l" ct f] a s
  show "\<exists>s'. lrs_pop (length l) s = Some s' \<and> lrs_invar s' \<and> lrs_rest s' = t \<and>
      (lrs_reliable s' \<longleftrightarrow> lrs_reliable s)" by auto
qed

section \<open>Properties\<close>

text \<open>
  C23. \<open>GetNextLine\<close> from any state of the reader, for any read(2) that keeps its contract,
  however it splits the file: it returns without a fault and keeps the buffer invariant. Success
  yields exactly the first pending line, NUL-terminated at the start of the buffer, and loses no byte: what is pending afterwards is this line, its terminator
  overwritten by NUL, and then everything that followed. Failure with no read error happens only at the end of the text or on a line of 512 or
  more characters, and then the pending bytes are unchanged.
\<close>

theorem GetNextLine_correct:
  assumes "read_contract sys_read content" and "lr_invar r"
  shows "\<exists>res r' f'. GetNextLine sys_read f r = Some (res, r', f') \<and> lr_invar r' \<and>
     (\<forall>n. res = Some n \<longrightarrow> pending content f r \<noteq> [] \<and>
        cstr (lr_buf r') = takeWhile (\<lambda>c. c \<noteq> 10 \<and> c \<noteq> 0) (pending content f r) \<and>
        n = length (cstr (lr_buf r')) \<and> n < kMaxLineLen \<and>
        pending content f' r' = cstr (lr_buf r') @ 0 # drop (n + 1) (pending content f r)) \<and>
     (res = None \<and> read_never_fails sys_read \<longrightarrow>
        (pending content f r = [] \<or>
         kMaxLineLen \<le> length (takeWhile (\<lambda>c. c \<noteq> 10 \<and> c \<noteq> 0) (pending content f r))) \<and>
        pending content f' r' = pending content f r)"
proof -
  from GetNextLine_exact [OF assms, of f] obtain res r' f' where
    g: "GetNextLine sys_read f r = Some (res, r', f')" "lr_invar r'" and
    p: "case res of
        Some n \<Rightarrow> line_found (pending content f r) n r' \<and> pending content f r \<noteq> [] \<and>
          pending content f' r' = first_line (pending content f r) @ 0 # after_line (pending content f r)
      | None \<Rightarrow> read_never_fails sys_read \<longrightarrow> (pending content f r = [] \<or>
          kMaxLineLen \<le> length (first_line (pending content f r))) \<and> pending content f' r' = pending content f r" by blast
  have fl: "takeWhile (\<lambda>c. c \<noteq> 10 \<and> c \<noteq> 0) P = first_line P" for P
    by (simp add: first_line_def is_eol_def)
  have "pending content f r \<noteq> [] \<and> cstr (lr_buf r') = first_line (pending content f r) \<and> n = length (cstr (lr_buf r')) \<and>
      n < kMaxLineLen \<and> pending content f' r' = cstr (lr_buf r') @ 0 # drop (n + 1) (pending content f r)" if "res = Some n" for n
  proof -
    from p that have lf: "line_found (pending content f r) n r'" by simp
    then have lt: "n < length (lr_buf r')" using g(2) by (simp add: line_found_def lr_invar_def)
    have "lr_buf r' = first_line (pending content f r) @ 0 # drop (n + 1) (lr_buf r')"
      using lf id_take_nth_drop [OF lt] by (metis Suc_eq_plus1 line_found_def)
    moreover have "0 \<notin> set (first_line (pending content f r))"
      using first_line_no_eol by (fastforce simp: is_eol_def)
    ultimately have "cstr (lr_buf r') = first_line (pending content f r)"
      by (metis cstr_terminated)
    with lf lt g(2) p that show ?thesis by (simp add: line_found_def lr_invar_def after_line_def)
  qed
  moreover have "res = None \<and> read_never_fails sys_read \<longrightarrow> (pending content f r = [] \<or>
      kMaxLineLen \<le> length (first_line (pending content f r))) \<and> pending content f' r' = pending content f r"
    using p by (cases res) simp_all
  ultimately show ?thesis using g unfolding fl by blast
qed

text \<open>
  C16. Reading a whole file through \<open>LineReader\<close>: when no line is 512 characters or longer and no
  read fails, the client loop \<open>GetNextLine\<close>/\<open>PopLine\<close> ends and delivers exactly the lines of the
  file, in order, whatever the chunk sizes read(2) returns and whatever the uninitialised buffer
  holds.
\<close>

theorem LineReader_delivers_file:
  assumes "read_contract sys_read content" and "read_never_fails sys_read"
    and "length garbage = kMaxLineLen"
    and "\<forall>l\<in>set (lines_of (content f)). length l < kMaxLineLen"
    and "length (lines_of (content f)) < fuel"
  shows "\<exists>s'. drain lrs_get lrs_pop fuel (sys_read, content, f, LineReader garbage) =
           Some (lines_of (content f), s')"
  using lrs.drain_all [of "(sys_read, content, f, LineReader garbage)" fuel] assms by auto

text \<open>A concrete read(2): the file is its unread bytes, at most three of them per call.\<close>

definition read3 :: "bytes read_call" where
  "read3 f n = (Some (take (min n 3) f), drop (min n 3) f)"

lemma read3_contract: "read_contract read3 id" "read_never_fails read3"
  by (auto simp: read_contract_def read_never_fails_def read3_def)

theorem GetNextLine_correct_witness:
  "\<exists>r' f'. GetNextLine read3 [97, 98, 99, 100, 10, 101] (LineReader (replicate kMaxLineLen 7)) =
      Some (Some 4, r', f') \<and> cstr (lr_buf r') = [97, 98, 99, 100]"
proof -
  define f where "f = [97, 98, 99, 100, 10, 101 :: u8]"
  define r where "r = LineReader (replicate kMaxLineLen 7)"
  have inv: "lr_invar r" by (simp add: r_def)
  have P: "takeWhile (\<lambda>c. c \<noteq> 10 \<and> c \<noteq> 0) (pending id f r) = [97, 98, 99, 100]"
    and ne: "pending id f r \<noteq> []"
    by (simp_all add: r_def f_def)
  have k: "\<not> kMaxLineLen \<le> length [97, 98, 99, 100 :: u8]" by (simp add: kMaxLineLen_def)
  obtain res r' f' where g: "GetNextLine read3 f r = Some (res, r', f')"
    and s: "\<And>n. res = Some n \<Longrightarrow> cstr (lr_buf r') = [97, 98, 99, 100] \<and> n = length (cstr (lr_buf r'))"
    and n: "res = None \<Longrightarrow> False"
    using GetNextLine_correct [OF read3_contract(1) inv, of f] read3_contract(2) ne k
    unfolding P by blast
  then obtain m where "res = Some m" by (cases res) auto
  with g s [OF this] show ?thesis by (simp add: f_def r_def)
qed

theorem LineReader_delivers_file_witness:
  "\<exists>s'. drain lrs_get lrs_pop 4 (read3, id, [97, 98, 99, 100, 10, 10, 101], LineReader (replicate kMaxLineLen 7)) =
     Some ([[97, 98, 99, 100], [], [101]], s')"
proof -
  have l: "lines_of (id [97, 98, 99, 100, 10, 10, 101]) = [[97, 98, 99, 100], [], [101 :: u8]]"
    by (simp add: lines_of.simps first_line_def after_line_def is_eol_def)
  have k: "4 < kMaxLineLen" "0 < kMaxLineLen" "Suc 0 < kMaxLineLen"
    by (simp_all add: kMaxLineLen_def)
  show ?thesis
    using LineReader_delivers_file [OF read3_contract, of "replicate kMaxLineLen 7"
        "[97, 98, 99, 100, 10, 10, 101]" 4] k
    unfolding l by simp
qed

end
