(* ===== verification/MD5.thy ===== *)
theory MD5
  imports Prelude
begin

text \<open>
  \<^verbatim>\<open>common/md5.cc\<close> and \<^verbatim>\<open>common/md5.h\<close>, for a little-endian machine (\<open>byteReverse\<close> is
  then empty). The context is a record; the 64-byte block buffer \<open>in\<close> keeps whatever it held
  before, as it does in C, because \<open>MD5Init\<close> does not clear it.
\<close>

type_synonym md5_state = "u32 \<times> u32 \<times> u32 \<times> u32"

record MD5Context =
  md_buf :: md5_state
  md_bits0 :: u32
  md_bits1 :: u32
  md_in :: bytes

section \<open>The compression function\<close>

definition F1 :: "u32 \<Rightarrow> u32 \<Rightarrow> u32 \<Rightarrow> u32" where
  "F1 x y z = z XOR (x AND (y XOR z))"

definition F2 :: "u32 \<Rightarrow> u32 \<Rightarrow> u32 \<Rightarrow> u32" where
  "F2 x y z = F1 z x y"

definition F3 :: "u32 \<Rightarrow> u32 \<Rightarrow> u32 \<Rightarrow> u32" where
  "F3 x y z = x XOR y XOR z"

definition F4 :: "u32 \<Rightarrow> u32 \<Rightarrow> u32 \<Rightarrow> u32" where
  "F4 x y z = y XOR (x OR NOT z)"

definition MD5STEP ::
  "(u32 \<Rightarrow> u32 \<Rightarrow> u32 \<Rightarrow> u32) \<Rightarrow> u32 \<Rightarrow> u32 \<Rightarrow> u32 \<Rightarrow> u32 \<Rightarrow> u32 \<Rightarrow> nat \<Rightarrow> u32" where
  "MD5STEP f w x y z data s =
     (let w = w + (f x y z + data);
          w = push_bit s w OR drop_bit (32 - s) w
      in w + x)"

text \<open>
  The body of \<open>MD5Transform\<close> is 64 uses of the macro \<open>MD5STEP\<close> on the local variables
  \<open>a\<close>, \<open>b\<close>, \<open>c\<close>, \<open>d\<close>; each row below is one of them, its arguments in the order of the
  source.
\<close>

datatype md5_reg = RegA | RegB | RegC | RegD

fun md5_get :: "md5_state \<Rightarrow> md5_reg \<Rightarrow> u32" where
  "md5_get (a, b, c, d) RegA = a"
| "md5_get (a, b, c, d) RegB = b"
| "md5_get (a, b, c, d) RegC = c"
| "md5_get (a, b, c, d) RegD = d"

fun md5_put :: "md5_state \<Rightarrow> md5_reg \<Rightarrow> u32 \<Rightarrow> md5_state" where
  "md5_put (a, b, c, d) RegA v = (v, b, c, d)"
| "md5_put (a, b, c, d) RegB v = (a, v, c, d)"
| "md5_put (a, b, c, d) RegC v = (a, b, v, d)"
| "md5_put (a, b, c, d) RegD v = (a, b, c, v)"

type_synonym md5_row =
  "(u32 \<Rightarrow> u32 \<Rightarrow> u32 \<Rightarrow> u32) \<times> md5_reg \<times> md5_reg \<times> md5_reg \<times> md5_reg \<times> nat \<times> u32 \<times> nat"

definition MD5Transform_steps :: "md5_row list" where
  "MD5Transform_steps =
     [(F1, RegA, RegB, RegC, RegD, 0, 0xd76aa478, 7),
      (F1, RegD, RegA, RegB, RegC, 1, 0xe8c7b756, 12),
      (F1, RegC, RegD, RegA, RegB, 2, 0x242070db, 17),
      (F1, RegB, RegC, RegD, RegA, 3, 0xc1bdceee, 22),
      (F1, RegA, RegB, RegC, RegD, 4, 0xf57c0faf, 7),
      (F1, RegD, RegA, RegB, RegC, 5, 0x4787c62a, 12),
      (F1, RegC, RegD, RegA, RegB, 6, 0xa8304613, 17),
      (F1, RegB, RegC, RegD, RegA, 7, 0xfd469501, 22),
      (F1, RegA, RegB, RegC, RegD, 8, 0x698098d8, 7),
      (F1, RegD, RegA, RegB, RegC, 9, 0x8b44f7af, 12),
      (F1, RegC, RegD, RegA, RegB, 10, 0xffff5bb1, 17),
      (F1, RegB, RegC, RegD, RegA, 11, 0x895cd7be, 22),
      (F1, RegA, RegB, RegC, RegD, 12, 0x6b901122, 7),
      (F1, RegD, RegA, RegB, RegC, 13, 0xfd987193, 12),
      (F1, RegC, RegD, RegA, RegB, 14, 0xa679438e, 17),
      (F1, RegB, RegC, RegD, RegA, 15, 0x49b40821, 22),
      (F2, RegA, RegB, RegC, RegD, 1, 0xf61e2562, 5),
      (F2, RegD, RegA, RegB, RegC, 6, 0xc040b340, 9),
      (F2, RegC, RegD, RegA, RegB, 11, 0x265e5a51, 14),
      (F2, RegB, RegC, RegD, RegA, 0, 0xe9b6c7aa, 20),
      (F2, RegA, RegB, RegC, RegD, 5, 0xd62f105d, 5),
      (F2, RegD, RegA, RegB, RegC, 10, 0x02441453, 9),
      (F2, RegC, RegD, RegA, RegB, 15, 0xd8a1e681, 14),
      (F2, RegB, RegC, RegD, RegA, 4, 0xe7d3fbc8, 20),
      (F2, RegA, RegB, RegC, RegD, 9, 0x21e1cde6, 5),
      (F2, RegD, RegA, RegB, RegC, 14, 0xc33707d6, 9),
      (F2, RegC, RegD, RegA, RegB, 3, 0xf4d50d87, 14),
      (F2, RegB, RegC, RegD, RegA, 8, 0x455a14ed, 20),
      (F2, RegA, RegB, RegC, RegD, 13, 0xa9e3e905, 5),
      (F2, RegD, RegA, RegB, RegC, 2, 0xfcefa3f8, 9),
      (F2, RegC, RegD, RegA, RegB, 7, 0x676f02d9, 14),
      (F2, RegB, RegC, RegD, RegA, 12, 0x8d2a4c8a, 20),
      (F3, RegA, RegB, RegC, RegD, 5, 0xfffa3942, 4),
      (F3, RegD, RegA, RegB, RegC, 8, 0x8771f681, 11),
      (F3, RegC, RegD, RegA, RegB, 11, 0x6d9d6122, 16),
      (F3, RegB, RegC, RegD, RegA, 14, 0xfde5380c, 23),
      (F3, RegA, RegB, RegC, RegD, 1, 0xa4beea44, 4),
      (F3, RegD, RegA, RegB, RegC, 4, 0x4bdecfa9, 11),
      (F3, RegC, RegD, RegA, RegB, 7, 0xf6bb4b60, 16),
      (F3, RegB, RegC, RegD, RegA, 10, 0xbebfbc70, 23),
      (F3, RegA, RegB, RegC, RegD, 13, 0x289b7ec6, 4),
      (F3, RegD, RegA, RegB, RegC, 0, 0xeaa127fa, 11),
      (F3, RegC, RegD, RegA, RegB, 3, 0xd4ef3085, 16),
      (F3, RegB, RegC, RegD, RegA, 6, 0x04881d05, 23),
      (F3, RegA, RegB, RegC, RegD, 9, 0xd9d4d039, 4),
      (F3, RegD, RegA, RegB, RegC, 12, 0xe6db99e5, 11),
      (F3, RegC, RegD, RegA, RegB, 15, 0x1fa27cf8, 16),
      (F3, RegB, RegC, RegD, RegA, 2, 0xc4ac5665, 23),
      (F4, RegA, RegB, RegC, RegD, 0, 0xf4292244, 6),
      (F4, RegD, RegA, RegB, RegC, 7, 0x432aff97, 10),
      (F4, RegC, RegD, RegA, RegB, 14, 0xab9423a7, 15),
      (F4, RegB, RegC, RegD, RegA, 5, 0xfc93a039, 21),
      (F4, RegA, RegB, RegC, RegD, 12, 0x655b59c3, 6),
      (F4, RegD, RegA, RegB, RegC, 3, 0x8f0ccc92, 10),
      (F4, RegC, RegD, RegA, RegB, 10, 0xffeff47d, 15),
      (F4, RegB, RegC, RegD, RegA, 1, 0x85845dd1, 21),
      (F4, RegA, RegB, RegC, RegD, 8, 0x6fa87e4f, 6),
      (F4, RegD, RegA, RegB, RegC, 15, 0xfe2ce6e0, 10),
      (F4, RegC, RegD, RegA, RegB, 6, 0xa3014314, 15),
      (F4, RegB, RegC, RegD, RegA, 13, 0x4e0811a1, 21),
      (F4, RegA, RegB, RegC, RegD, 4, 0xf7537e82, 6),
      (F4, RegD, RegA, RegB, RegC, 11, 0xbd3af235, 10),
      (F4, RegC, RegD, RegA, RegB, 2, 0x2ad7d2bb, 15),
      (F4, RegB, RegC, RegD, RegA, 9, 0xeb86d391, 21)]"

fun md5_exec :: "u32 list \<Rightarrow> md5_state \<Rightarrow> md5_row \<Rightarrow> md5_state" where
  "md5_exec inw r (f, w, x, y, z, i, k, s) =
     md5_put r w
       (MD5STEP f (md5_get r w) (md5_get r x) (md5_get r y) (md5_get r z) (inw ! i + k) s)"

fun md5_sum :: "md5_state \<Rightarrow> md5_state \<Rightarrow> md5_state" where
  "md5_sum (a0, b0, c0, d0) (a, b, c, d) = (a0 + a, b0 + b, c0 + c, d0 + d)"

definition MD5Transform :: "md5_state \<Rightarrow> u32 list \<Rightarrow> md5_state" where
  "MD5Transform buf inw = md5_sum buf (foldl (md5_exec inw) buf MD5Transform_steps)"

text \<open>Four bytes as a little-endian word and back; the view of a block as sixteen words.\<close>

definition le_word :: "bytes \<Rightarrow> u32" where
  "le_word bs = ucast (bs ! 0) OR push_bit 8 (ucast (bs ! 1)) OR
     push_bit 16 (ucast (bs ! 2)) OR push_bit 24 (ucast (bs ! 3))"

definition le_bytes :: "u32 \<Rightarrow> bytes" where
  "le_bytes w = [ucast w, ucast (drop_bit 8 w), ucast (drop_bit 16 w), ucast (drop_bit 24 w)]"

fun le_words :: "nat \<Rightarrow> bytes \<Rightarrow> u32 list" where
  "le_words 0 bs = []"
| "le_words (Suc n) bs = le_word bs # le_words n (drop 4 bs)"

definition transform_block :: "md5_state \<Rightarrow> bytes \<Rightarrow> md5_state" where
  "transform_block buf blk = MD5Transform buf (le_words 16 blk)"

section \<open>The streaming interface\<close>

definition MD5Init :: "MD5Context \<Rightarrow> MD5Context" where
  "MD5Init ctx = ctx\<lparr>md_buf := (0x67452301, 0xefcdab89, 0x98badcfe, 0x10325476),
                     md_bits0 := 0, md_bits1 := 0\<rparr>"

text \<open>The loop over whole blocks and the copy of the remainder.\<close>

function MD5Update_blocks :: "MD5Context \<Rightarrow> bytes \<Rightarrow> MD5Context" where
  "MD5Update_blocks ctx buf =
     (if 64 \<le> length buf then
        let blk = blit (md_in ctx) 0 (take 64 buf)
        in MD5Update_blocks (ctx\<lparr>md_in := blk, md_buf := transform_block (md_buf ctx) blk\<rparr>) (drop 64 buf)
      else ctx\<lparr>md_in := blit (md_in ctx) 0 buf\<rparr>)"
  by pat_completeness auto
termination
  by (relation "measure (\<lambda>(ctx, buf). length buf)") auto

declare MD5Update_blocks.simps [simp del]

definition MD5Update :: "MD5Context \<Rightarrow> bytes \<Rightarrow> MD5Context" where
  "MD5Update ctx buf =
     (let len = length buf;
          t = md_bits0 ctx;
          bits0 = t + push_bit 3 (of_nat len);
          bits1 = (if bits0 < t then md_bits1 ctx + 1 else md_bits1 ctx) + of_nat (len div 2 ^ 29);
          ctx = ctx\<lparr>md_bits0 := bits0, md_bits1 := bits1\<rparr>;
          t = unat (drop_bit 3 t AND 0x3f)
      in if t \<noteq> 0 then
           (if len < 64 - t then ctx\<lparr>md_in := blit (md_in ctx) t buf\<rparr>
            else
              let blk = blit (md_in ctx) t (take (64 - t) buf)
              in MD5Update_blocks (ctx\<lparr>md_in := blk, md_buf := transform_block (md_buf ctx) blk\<rparr>)
                   (drop (64 - t) buf))
         else MD5Update_blocks ctx buf)"

text \<open>
  \<open>MD5Final\<close> returns the digest and the zeroed context. The two words of the bit count are copied
  to \<open>&ctx->in[14]\<close> and \<open>&ctx->in[15]\<close>; since \<open>in\<close> is an array of bytes these are byte
  offsets 14 and 15.
\<close>

definition MD5Final_block :: "MD5Context \<Rightarrow> MD5Context" where
  "MD5Final_block ctx =
     (let count = unat (drop_bit 3 (md_bits0 ctx) AND 0x3F);
          p = count + 1;
          ctx = ctx\<lparr>md_in := (md_in ctx)[count := 0x80]\<rparr>;
          count = 64 - 1 - count;
          ctx = (if count < 8 then
                   let blk = blit (md_in ctx) p (replicate count 0)
                   in ctx\<lparr>md_in := blit blk 0 (replicate 56 0),
                          md_buf := transform_block (md_buf ctx) blk\<rparr>
                 else ctx\<lparr>md_in := blit (md_in ctx) p (replicate (count - 8) 0)\<rparr>)
      in ctx\<lparr>md_in := blit (blit (md_in ctx) 14 (le_bytes (md_bits0 ctx))) 15 (le_bytes (md_bits1 ctx))\<rparr>)"

definition MD5Final :: "MD5Context \<Rightarrow> bytes \<times> MD5Context" where
  "MD5Final ctx =
     (let ctx = MD5Final_block ctx;
          (a, b, c, d) = transform_block (md_buf ctx) (md_in ctx)
      in (le_bytes a @ le_bytes b @ le_bytes c @ le_bytes d,
          \<lparr>md_buf = (0, 0, 0, 0), md_bits0 = 0, md_bits1 = 0, md_in = replicate 64 0\<rparr>))"

section \<open>Byte-at-a-time reference\<close>

text \<open>
  The meaning of an update: feed the bytes one by one to a state of hash words, block buffer and
  position; a full block is compressed and the buffer starts over, keeping its old bytes.
\<close>

type_synonym md5_feed = "md5_state \<times> bytes \<times> nat"

fun feed :: "md5_feed \<Rightarrow> u8 \<Rightarrow> md5_feed" where
  "feed (buf, blk, p) x =
     (let blk = blk[p := x]
      in if p = 63 then (transform_block buf blk, blk, 0) else (buf, blk, p + 1))"

definition md_pos :: "MD5Context \<Rightarrow> nat" where
  "md_pos ctx = unat (md_bits0 ctx) div 8 mod 64"

definition md_feed :: "MD5Context \<Rightarrow> md5_feed" where
  "md_feed ctx = (md_buf ctx, md_in ctx, md_pos ctx)"

text \<open>The 64-bit message length in bits, kept in two words.\<close>

definition md_count :: "MD5Context \<Rightarrow> nat" where
  "md_count ctx = unat (md_bits0 ctx) + 2 ^ 32 * unat (md_bits1 ctx)"

lemma feed_within_block:
  assumes "p + length xs < 64" and "length blk = 64"
  shows "foldl feed (buf, blk, p) xs = (buf, blit blk p xs, p + length xs)"
  using assms
proof (induction xs arbitrary: blk p)
  case (Cons x xs)
  then have "blit (blk[p := x]) (p + 1) xs = blit blk p (x # xs)"
    by (intro nth_equalityI) (auto simp: nth_blit nth_list_update nth_Cons')
  with Cons show ?case by simp
qed simp

lemma feed_full_block:
  assumes "p + length xs = 64" and "length blk = 64" and "xs \<noteq> []"
  shows "foldl feed (buf, blk, p) xs = (transform_block buf (blit blk p xs), blit blk p xs, 0)"
proof -
  obtain ys y where xs: "xs = ys @ [y]" using assms(3) by (metis rev_exhaust)
  have "foldl feed (buf, blk, p) ys = (buf, blit blk p ys, p + length ys)"
    using assms xs by (intro feed_within_block) auto
  moreover have "(blit blk p ys)[p + length ys := y] = blit blk p xs"
    using blit_snoc [of p ys blk y] assms(1,2) xs by simp
  ultimately show ?thesis using assms xs by (simp add: Let_def)
qed

lemma foldl_feed_split:
  assumes "n \<le> length xs"
  shows "foldl feed s xs = foldl feed (foldl feed s (take n xs)) (drop n xs)"
  by (metis append_take_drop_id foldl_append)

lemma MD5Update_blocks_feed:
  assumes "length (md_in ctx) = 64"
  shows "foldl feed (md_buf ctx, md_in ctx, 0) buf =
           (md_buf (MD5Update_blocks ctx buf), md_in (MD5Update_blocks ctx buf), length buf mod 64) \<and>
         length (md_in (MD5Update_blocks ctx buf)) = 64 \<and>
         md_bits0 (MD5Update_blocks ctx buf) = md_bits0 ctx \<and>
         md_bits1 (MD5Update_blocks ctx buf) = md_bits1 ctx"
  using assms
proof (induction ctx buf rule: MD5Update_blocks.induct)
  case (1 ctx buf)
  show ?case
  proof (cases "64 \<le> length buf")
    case True
    define blk where "blk = blit (md_in ctx) 0 (take 64 buf)"
    have lb: "length blk = 64" using True "1.prems" by (simp add: blk_def)
    have "foldl feed (md_buf ctx, md_in ctx, 0) (take 64 buf) =
        (transform_block (md_buf ctx) blk, blk, 0)"
      unfolding blk_def using True "1.prems" by (intro feed_full_block) auto
    with True have "foldl feed (md_buf ctx, md_in ctx, 0) buf =
        foldl feed (transform_block (md_buf ctx) blk, blk, 0) (drop 64 buf)"
      using foldl_feed_split [of 64 buf] by simp
    moreover have "(length buf - 64) mod 64 = length buf mod 64"
      using True by (simp add: le_mod_geq)
    ultimately show ?thesis
      using True "1.IH" [OF True blk_def] lb
      by (simp add: MD5Update_blocks.simps [of ctx buf] Let_def blk_def [symmetric])
  next
    case False
    then show ?thesis
      using "1.prems" feed_within_block [of 0 buf "md_in ctx" "md_buf ctx"]
      by (simp add: MD5Update_blocks.simps [of ctx buf])
  qed
qed

lemma md_pos_eq: "unat (drop_bit 3 (md_bits0 ctx) AND 0x3f) = md_pos ctx"
proof -
  have "drop_bit 3 (md_bits0 ctx) AND mask 6 = take_bit 6 (drop_bit 3 (md_bits0 ctx))"
    by (simp add: take_bit_eq_mask)
  then have "unat (drop_bit 3 (md_bits0 ctx) AND 0x3f) = unat (md_bits0 ctx) div 8 mod 64"
    by (simp add: mask_eq_exp_minus_1 take_bit_eq_mod drop_bit_eq_div unat_mod_distrib
        unat_div_distrib)
  then show ?thesis by (simp add: md_pos_def)
qed

lemma MD5Update_blocks_bits [simp]:
  "md_bits0 (MD5Update_blocks ctx buf) = md_bits0 ctx"
  "md_bits1 (MD5Update_blocks ctx buf) = md_bits1 ctx"
  by (induction ctx buf rule: MD5Update_blocks.induct)
    (simp_all add: MD5Update_blocks.simps Let_def)

lemma MD5Update_bits:
  "md_bits0 (MD5Update ctx buf) = md_bits0 ctx + of_nat (8 * length buf)"
  "md_bits1 (MD5Update ctx buf) =
     md_bits1 ctx + of_nat (length buf div 2 ^ 29) +
     (if md_bits0 ctx + of_nat (8 * length buf) < md_bits0 ctx then 1 else 0)"
  by (simp_all add: MD5Update_def Let_def push_bit_eq_mult mult.commute)

text \<open>The carry between the two count words is right: together they count modulo $2^{64}$.\<close>

lemma mod_two_digits:
  fixes lo h B C :: nat
  assumes "lo < B"
  shows "(lo + B * h) mod (B * C) = lo + B * (h mod C)"
  using assms by (simp add: mod_mult2_eq)

lemma mod_div_digits: "0 < B \<Longrightarrow> x mod (B * C) div B = x div B mod (C :: nat)"
  by (simp add: mod_mult2_eq)

lemma two_word_count:
  fixes b0 b1 n :: nat
  assumes "b0 < 2 ^ 32"
  defines "lo \<equiv> (b0 + 8 * n) mod 2 ^ 32"
  shows "lo + 2 ^ 32 * ((b1 + n div 2 ^ 29 + (if lo < b0 then 1 else 0)) mod 2 ^ 32) =
         (b0 + 2 ^ 32 * b1 + 8 * n) mod 2 ^ 64"
proof -
  define m where "m = 8 * n mod 2 ^ 32"
  define q where "q = n div 2 ^ 29"
  have "8 * n div 2 ^ 32 = q"
    using div_mult_mult1 [of 8 n "2 ^ 29"] by (simp add: q_def)
  then have n: "8 * n = m + 2 ^ 32 * q"
    using mod_mult_div_eq [of "8 * n" "2 ^ 32"] by (simp add: m_def)
  have m: "m < 2 ^ 32" by (simp add: m_def)
  have lo: "lo = (if b0 + m < 2 ^ 32 then b0 + m else b0 + m - 2 ^ 32)"
  proof -
    have "lo = (b0 + m) mod 2 ^ 32"
      unfolding lo_def n by (simp add: add.assoc [symmetric])
    moreover have "(b0 + m - 2 ^ 32) mod 2 ^ 32 = b0 + m - 2 ^ 32"
      using assms(1) m by (intro mod_less) linarith
    ultimately show ?thesis by (simp add: le_mod_geq)
  qed
  have carry: "b0 + m = lo + 2 ^ 32 * (if lo < b0 then 1 else 0)"
    using assms(1) m by (auto simp: lo)
  have eq: "b0 + 2 ^ 32 * b1 + 8 * n = lo + 2 ^ 32 * (b1 + q + (if lo < b0 then 1 else 0))"
    using carry by (simp add: n)
  have "lo < 2 ^ 32" by (simp add: lo_def)
  then have "(b0 + 2 ^ 32 * b1 + 8 * n) mod (2 ^ 32 * 2 ^ 32) =
      lo + 2 ^ 32 * ((b1 + q + (if lo < b0 then 1 else 0)) mod 2 ^ 32)"
    unfolding eq by (rule mod_two_digits)
  moreover have "2 ^ 32 * 2 ^ 32 = (2 :: nat) ^ 64" by simp
  ultimately show ?thesis unfolding q_def by metis
qed

lemma md_count_update:
  "md_count (MD5Update ctx buf) = (md_count ctx + 8 * length buf) mod 2 ^ 64"
proof -
  let ?b0 = "unat (md_bits0 ctx)" and ?n = "length buf"
  have lo: "unat (md_bits0 (MD5Update ctx buf)) = (?b0 + 8 * ?n) mod 2 ^ 32"
    by (simp only: MD5Update_bits unat_word_ariths unat_of_nat) (simp add: mod_add_right_eq)
  have hi: "unat (md_bits1 (MD5Update ctx buf)) =
      (unat (md_bits1 ctx) + ?n div 2 ^ 29 +
        (if (?b0 + 8 * ?n) mod 2 ^ 32 < ?b0 then 1 else 0)) mod 2 ^ 32"
    using lo by (simp only: MD5Update_bits unat_word_ariths unat_of_nat word_less_nat_alt)
      (simp add: mod_simps)
  have "?b0 < 2 ^ 32" using unsigned_less [of "md_bits0 ctx"] by simp
  from two_word_count [OF this, of ?n "unat (md_bits1 ctx)"] show ?thesis
    unfolding md_count_def lo hi by simp
qed

lemma md_pos_update: "md_pos (MD5Update ctx buf) = (md_pos ctx + length buf) mod 64"
proof -
  let ?x = "unat (md_bits0 ctx) + 8 * length buf"
  have "unat (md_bits0 (MD5Update ctx buf)) = ?x mod (8 * 2 ^ 29)"
    by (simp only: MD5Update_bits unat_word_ariths unat_of_nat) (simp add: mod_add_right_eq)
  moreover have "?x mod (8 * 2 ^ 29) div 8 = ?x div 8 mod 2 ^ 29"
    by (rule mod_div_digits) simp
  moreover have "?x div 8 mod 2 ^ 29 mod 64 = ?x div 8 mod 64"
    by (rule mod_mod_cancel) simp
  ultimately have "md_pos (MD5Update ctx buf) = ?x div 8 mod 64" by (simp add: md_pos_def)
  then show ?thesis by (simp add: md_pos_def add.commute mod_simps)
qed

lemma unat_u32_less: "unat (w :: u32) < 2 ^ 32"
  using unsigned_less [of w] by simp

lemma MD5Update_feed:
  assumes "length (md_in ctx) = 64"
  shows "md_feed (MD5Update ctx buf) = foldl feed (md_feed ctx) buf"
    and "length (md_in (MD5Update ctx buf)) = 64"
proof -
  let ?t = "md_pos ctx"
  let ?c = "ctx\<lparr>md_bits0 := md_bits0 (MD5Update ctx buf), md_bits1 := md_bits1 (MD5Update ctx buf)\<rparr>"
  have t: "?t < 64" by (simp add: md_pos_def)
  have unfold: "MD5Update ctx buf =
      (if ?t \<noteq> 0 then
         if length buf < 64 - ?t then ?c\<lparr>md_in := blit (md_in ctx) ?t buf\<rparr>
         else let blk = blit (md_in ctx) ?t (take (64 - ?t) buf)
              in MD5Update_blocks (?c\<lparr>md_in := blk, md_buf := transform_block (md_buf ctx) blk\<rparr>)
                   (drop (64 - ?t) buf)
       else MD5Update_blocks ?c buf)"
    by (simp only: MD5Update_bits)
      (simp add: MD5Update_def Let_def md_pos_eq push_bit_eq_mult ac_simps)
  have "foldl feed (md_buf ctx, md_in ctx, ?t) buf =
      (md_buf (MD5Update ctx buf), md_in (MD5Update ctx buf), (?t + length buf) mod 64) \<and>
      length (md_in (MD5Update ctx buf)) = 64"
  proof (cases "?t = 0")
    case True
    then show ?thesis
      using MD5Update_blocks_feed [of ?c buf] assms by (subst (1 2 3) unfold) simp
  next
    case nz: False
    show ?thesis
    proof (cases "length buf < 64 - ?t")
      case True
      then show ?thesis
        using nz t assms feed_within_block [of ?t buf "md_in ctx" "md_buf ctx"]
        by (subst (1 2 3) unfold) simp
    next
      case False
      define blk where "blk = blit (md_in ctx) ?t (take (64 - ?t) buf)"
      let ?d = "?c\<lparr>md_in := blk, md_buf := transform_block (md_buf ctx) blk\<rparr>"
      have lb: "length blk = 64" using False t assms by (simp add: blk_def)
      have "foldl feed (md_buf ctx, md_in ctx, ?t) (take (64 - ?t) buf) =
          (transform_block (md_buf ctx) blk, blk, 0)"
        unfolding blk_def using False t assms by (intro feed_full_block) auto
      with False have "foldl feed (md_buf ctx, md_in ctx, ?t) buf =
          foldl feed (transform_block (md_buf ctx) blk, blk, 0) (drop (64 - ?t) buf)"
        using foldl_feed_split [of "64 - ?t" buf] by simp
      moreover have "length (drop (64 - ?t) buf) mod 64 = (?t + length buf) mod 64"
      proof -
        have "?t + length buf = length (drop (64 - ?t) buf) + 64" using False t by simp
        then show ?thesis by (metis mod_add_self2)
      qed
      moreover have "MD5Update ctx buf = MD5Update_blocks ?d (drop (64 - ?t) buf)"
        using nz False by (subst unfold) (simp add: Let_def blk_def)
      ultimately show ?thesis using MD5Update_blocks_feed [of ?d "drop (64 - ?t) buf"] lb by simp
    qed
  qed
  then show "md_feed (MD5Update ctx buf) = foldl feed (md_feed ctx) buf"
    and "length (md_in (MD5Update ctx buf)) = 64"
    by (simp_all add: md_feed_def md_pos_update)
qed

text \<open>A context is determined by what it has been fed and its bit count.\<close>

lemma MD5Context_eqI:
  assumes "md_feed c = md_feed d" and "md_count c = md_count d"
  shows "(c :: MD5Context) = d"
proof -
  have lt: "unat (md_bits0 x) < 2 ^ 32" for x :: MD5Context
    using unsigned_less [of "md_bits0 x"] by simp
  have "md_count x mod 2 ^ 32 = unat (md_bits0 x)" and "md_count x div 2 ^ 32 = unat (md_bits1 x)"
    for x :: MD5Context
    using lt [of x] unfolding md_count_def by simp_all
  then have "unat (md_bits0 c) = unat (md_bits0 d)" and "unat (md_bits1 c) = unat (md_bits1 d)"
    using assms(2) by metis+
  then have "md_bits0 c = md_bits0 d" and "md_bits1 c = md_bits1 d"
    by (auto dest: unsigned_word_eqI)
  with assms(1) show ?thesis by (simp add: md_feed_def MD5Context.equality)
qed

lemma MD5Update_append:
  assumes "length (md_in ctx) = 64"
  shows "MD5Update (MD5Update ctx a) b = MD5Update ctx (a @ b)"
proof (rule MD5Context_eqI)
  show "md_feed (MD5Update (MD5Update ctx a) b) = md_feed (MD5Update ctx (a @ b))"
    using assms by (simp add: MD5Update_feed)
  show "md_count (MD5Update (MD5Update ctx a) b) = md_count (MD5Update ctx (a @ b))"
    by (simp only: md_count_update mod_add_left_eq length_append distrib_left add.assoc)
qed

section \<open>The interface of an incremental hash\<close>

text \<open>
  What a caller that hashes a file in pieces relies on (for instance \<open>MachoID\<close>, which updates its
  context section by section): updates compose like concatenation. Then only the concatenation of
  the pieces matters.
\<close>

locale incremental_hash =
  fixes valid :: "'c \<Rightarrow> bool" and update :: "'c \<Rightarrow> bytes \<Rightarrow> 'c"
  assumes update_valid: "valid c \<Longrightarrow> valid (update c a)"
    and update_append: "valid c \<Longrightarrow> update (update c a) b = update c (a @ b)"
    and update_Nil: "valid c \<Longrightarrow> update c [] = c"
begin

lemma update_chunks: "valid c \<Longrightarrow> foldl update c chunks = update c (concat chunks)"
proof (induction chunks arbitrary: c)
  case (Cons a chunks)
  then show ?case by (simp add: update_valid update_append)
qed (simp add: update_Nil)

lemma chunking_irrelevant:
  "valid c \<Longrightarrow> concat xs = concat ys \<Longrightarrow> foldl update c xs = foldl update c ys"
  by (simp add: update_chunks)

end

definition md5_valid :: "MD5Context \<Rightarrow> bool" where
  "md5_valid ctx \<longleftrightarrow> length (md_in ctx) = 64"

interpretation md5: incremental_hash md5_valid MD5Update
proof
  fix c :: MD5Context and a b :: bytes
  assume v: "md5_valid c"
  then show "md5_valid (MD5Update c a)"
    by (simp add: md5_valid_def MD5Update_feed)
  show "MD5Update (MD5Update c a) b = MD5Update c (a @ b)"
    using v by (simp add: md5_valid_def MD5Update_append)
  have "md_count c < 2 ^ 64"
    using unat_u32_less [of "md_bits0 c"] unat_u32_less [of "md_bits1 c"] by (simp add: md_count_def)
  then show "MD5Update c [] = c"
    using v by (intro MD5Context_eqI) (simp_all add: md5_valid_def MD5Update_feed md_count_update)
qed

section \<open>The last block\<close>

text \<open>
  The last block RFC 1321 prescribes: the unprocessed bytes, the padding, and the bit count in the
  last eight bytes.
\<close>

definition rfc_final_block :: "MD5Context \<Rightarrow> bytes" where
  "rfc_final_block ctx =
     (let n = md_pos ctx
      in if n < 56 then take n (md_in ctx) @ [0x80] @ replicate (55 - n) 0
                        @ le_bytes (md_bits0 ctx) @ le_bytes (md_bits1 ctx)
         else replicate 56 0 @ le_bytes (md_bits0 ctx) @ le_bytes (md_bits1 ctx))"

lemma length_le_bytes [simp]: "length (le_bytes w) = 4"
  by (simp add: le_bytes_def)

text \<open>
  What the code compresses instead: the bit count goes to bytes 14 to 18, over the message or the
  padding, its low word cut to one byte, and bytes 56 to 63 keep what the buffer held before.
\<close>

lemma MD5Final_block_in:
  assumes len: "length (md_in ctx) = 64"
  shows "length (md_in (MD5Final_block ctx)) = 64"
    and "drop 56 (md_in (MD5Final_block ctx)) =
      (if md_pos ctx < 56 then drop 56 (md_in ctx)
       else drop 56 (take (md_pos ctx) (md_in ctx)) @ [0x80] @ replicate (63 - md_pos ctx) 0)"
    and "md_in (MD5Final_block ctx) ! 14 = ucast (md_bits0 ctx)"
    and "take 4 (drop 15 (md_in (MD5Final_block ctx))) = le_bytes (md_bits1 ctx)"
proof -
  define body where "body =
    (if md_pos ctx < 56 then blit ((md_in ctx)[md_pos ctx := 0x80]) (md_pos ctx + 1) (replicate (55 - md_pos ctx) 0)
     else blit (blit ((md_in ctx)[md_pos ctx := 0x80]) (md_pos ctx + 1) (replicate (63 - md_pos ctx) 0)) 0
            (replicate 56 0))"
  have t: "md_pos ctx < 64" by (simp add: md_pos_def)
  have lb: "length body = 64" using len t by (simp add: body_def)
  have "63 - md_pos ctx < 8 \<longleftrightarrow> \<not> md_pos ctx < 56" and "63 - md_pos ctx - 8 = 55 - md_pos ctx"
    using t by auto
  then have eq: "md_in (MD5Final_block ctx) =
      blit (blit body 14 (le_bytes (md_bits0 ctx))) 15 (le_bytes (md_bits1 ctx))"
    by (simp add: MD5Final_block_def Let_def md_pos_eq body_def)
  show "length (md_in (MD5Final_block ctx)) = 64"
    using lb by (simp add: eq)
  have "drop 56 (md_in (MD5Final_block ctx)) = drop 56 body"
    using lb by (intro nth_equalityI) (auto simp: eq nth_blit)
  also have "\<dots> = (if md_pos ctx < 56 then drop 56 (md_in ctx)
       else drop 56 (take (md_pos ctx) (md_in ctx)) @ [0x80] @ replicate (63 - md_pos ctx) 0)"
    using lb len t
    by (intro nth_equalityI) (auto simp: body_def nth_blit nth_list_update nth_append nth_Cons')
  finally show "drop 56 (md_in (MD5Final_block ctx)) =
      (if md_pos ctx < 56 then drop 56 (md_in ctx)
       else drop 56 (take (md_pos ctx) (md_in ctx)) @ [0x80] @ replicate (63 - md_pos ctx) 0)" .
  show "md_in (MD5Final_block ctx) ! 14 = ucast (md_bits0 ctx)"
    using lb by (simp add: eq nth_blit) (simp add: le_bytes_def)
  show "take 4 (drop 15 (md_in (MD5Final_block ctx))) = le_bytes (md_bits1 ctx)"
    using lb blit_take_middle [of 15 "le_bytes (md_bits1 ctx)" "blit body 14 (le_bytes (md_bits0 ctx))"]
    by (simp add: eq)
qed

lemma F1_is_choice: "F1 x y z = (x AND y) OR (NOT x AND z)"
  by (rule bit_word_eqI) (auto simp: F1_def bit_simps)

definition md5_empty :: "bytes \<Rightarrow> MD5Context" where
  "md5_empty garbage =
     MD5Init \<lparr>md_buf = (0, 0, 0, 0), md_bits0 = 0, md_bits1 = 0, md_in = garbage\<rparr>"

text \<open>
  On a zeroed buffer the empty message gets the digest RFC 1321 lists (its bit count is zero, so the
  misplaced fields do not matter); on a buffer whose last byte happens to be 1 it does not.
\<close>

lemma md5_empty_zeroed:
  "fst (MD5Final (md5_empty (replicate 64 0))) =
     [0xd4, 0x1d, 0x8c, 0xd9, 0x8f, 0x00, 0xb2, 0x04, 0xe9, 0x80, 0x09, 0x98, 0xec, 0xf8, 0x42, 0x7e]"
  by code_simp

lemma md5_empty_stale:
  "hd (fst (MD5Final (md5_empty (replicate 63 0 @ [1])))) \<noteq> 0xd4"
  by code_simp

section \<open>Properties\<close>

text \<open>
  C22. \<open>MD5Update\<close> is incremental: from any context, updating with a list of pieces gives the same
  context (hash words, bit count and block buffer) as one update with their concatenation, it does
  to them what feeding the bytes one by one does, and the bit count grows by eight per byte modulo
  $2^{64}$.
\<close>

theorem MD5Update_streaming:
  assumes "length (md_in ctx) = 64"
  shows "foldl MD5Update ctx chunks = MD5Update ctx (concat chunks) \<and>
         md_feed (MD5Update ctx (concat chunks)) = foldl feed (md_feed ctx) (concat chunks) \<and>
         md_count (MD5Update ctx (concat chunks)) =
           (md_count ctx + 8 * length (concat chunks)) mod 2 ^ 64"
  using md5.update_chunks [of ctx chunks] assms
  by (simp add: md5_valid_def MD5Update_feed md_count_update)

theorem MD5Update_streaming_witness:
  "length (md_in (md5_empty (replicate 64 0))) = 64 \<and>
   foldl MD5Update (md5_empty (replicate 64 0)) [[97], [98, 99], []] =
     MD5Update (md5_empty (replicate 64 0)) [97, 98, 99]"
  using MD5Update_streaming [of "md5_empty (replicate 64 0)" "[[97], [98, 99], []]"]
  by (simp add: md5_empty_def MD5Init_def)

text \<open>
  C40. The last block \<open>MD5Final\<close> compresses is not the one RFC 1321 defines: byte 14 holds the low
  byte of the bit count and bytes 15 to 18 its high word, and when fewer than 56 bytes are pending
  bytes 56 to 63, where the count belongs, keep whatever the buffer held. The digest of the empty
  message therefore depends on the uninitialised buffer.
\<close>

theorem MD5Final_misplaces_count:
  "(length (md_in ctx) = 64 \<longrightarrow>
      md_in (MD5Final_block ctx) ! 14 = ucast (md_bits0 ctx) \<and>
      take 4 (drop 15 (md_in (MD5Final_block ctx))) = le_bytes (md_bits1 ctx) \<and>
      (md_pos ctx < 56 \<longrightarrow> drop 56 (md_in (MD5Final_block ctx)) = drop 56 (md_in ctx))) \<and>
   fst (MD5Final (md5_empty (replicate 64 0))) \<noteq>
     fst (MD5Final (md5_empty (replicate 63 0 @ [1])))"
proof (intro conjI impI)
  show "fst (MD5Final (md5_empty (replicate 64 0))) \<noteq>
      fst (MD5Final (md5_empty (replicate 63 0 @ [1])))"
    using md5_empty_stale md5_empty_zeroed by (metis list.sel(1))
qed (simp_all add: MD5Final_block_in)

theorem MD5Final_misplaces_count_witness:
  "drop 56 (md_in (MD5Final_block (md5_empty (replicate 64 7)))) = [7, 7, 7, 7, 7, 7, 7, 7]"
proof -
  have l: "length (md_in (md5_empty (replicate 64 7))) = 64"
    and p: "md_pos (md5_empty (replicate 64 7)) < 56"
    and d: "drop 56 (md_in (md5_empty (replicate 64 7))) = replicate 8 7"
    by (simp_all add: md5_empty_def MD5Init_def md_pos_def)
  show ?thesis
    using MD5Final_misplaces_count [of "md5_empty (replicate 64 7)"] l p d
    by (simp add: eval_nat_numeral)
qed

end
