(* ===== verification/Convert_UTF.thy ===== *)
theory Convert_UTF
  imports Prelude "HOL-Library.Sublist"
begin

text \<open>
  \<^verbatim>\<open>common/convert_UTF.cc\<close> and \<^verbatim>\<open>common/convert_UTF.h\<close>: the conversions between UTF-8, UTF-16
  and UTF-32.

  A converter takes the remaining source units and the number of free units in the target
  (\<open>targetEnd - target\<close>), and returns the result code, the source units it did not consume
  (\<open>*sourceStart\<close> afterwards) and the units it wrote. Writing a unit when the target is full is
  \<open>None\<close>. The variable \<open>result\<close> of the source is an argument, since three of the converters set
  it and go on. \<open>UTF32\<close> is \<open>unsigned long\<close> in the header, modelled at 32 bits.
\<close>

datatype ConversionResult = conversionOK | sourceExhausted | targetExhausted | sourceIllegal

datatype ConversionFlags = strictConversion | lenientConversion

type_synonym UTF32 = u32
type_synonym UTF16 = u16
type_synonym UTF8 = u8
type_synonym ('s, 't) conversion = "(ConversionResult \<times> 's list \<times> 't list) option"

definition UNI_REPLACEMENT_CHAR :: UTF32 where "UNI_REPLACEMENT_CHAR = 0xFFFD"
definition UNI_MAX_BMP :: UTF32 where "UNI_MAX_BMP = 0xFFFF"
definition UNI_MAX_UTF16 :: UTF32 where "UNI_MAX_UTF16 = 0x10FFFF"
definition UNI_MAX_LEGAL_UTF32 :: UTF32 where "UNI_MAX_LEGAL_UTF32 = 0x10FFFF"
definition halfShift :: nat where "halfShift = 10"
definition halfBase :: UTF32 where "halfBase = 0x10000"
definition halfMask :: UTF32 where "halfMask = 0x3FF"
definition UNI_SUR_HIGH_START :: UTF32 where "UNI_SUR_HIGH_START = 0xD800"
definition UNI_SUR_HIGH_END :: UTF32 where "UNI_SUR_HIGH_END = 0xDBFF"
definition UNI_SUR_LOW_START :: UTF32 where "UNI_SUR_LOW_START = 0xDC00"
definition UNI_SUR_LOW_END :: UTF32 where "UNI_SUR_LOW_END = 0xDFFF"

lemmas uni_defs = UNI_REPLACEMENT_CHAR_def UNI_MAX_BMP_def UNI_MAX_UTF16_def
  UNI_MAX_LEGAL_UTF32_def halfShift_def halfBase_def halfMask_def UNI_SUR_HIGH_START_def
  UNI_SUR_HIGH_END_def UNI_SUR_LOW_START_def UNI_SUR_LOW_END_def

text \<open>Writing units in front of what the rest of the conversion writes.\<close>

definition write_units :: "'t list \<Rightarrow> nat \<Rightarrow> ('s, 't) conversion \<Rightarrow> ('s, 't) conversion" where
  "write_units us room k =
     (if length us \<le> room then map_option (\<lambda>(r, s, t). (r, s, us @ t)) k else None)"

section \<open>UTF-32 to UTF-16\<close>

fun ConvertUTF32toUTF16 ::
  "ConversionFlags \<Rightarrow> ConversionResult \<Rightarrow> UTF32 list \<Rightarrow> nat \<Rightarrow> (UTF32, UTF16) conversion" where
  "ConvertUTF32toUTF16 flags result [] room = Some (result, [], [])"
| "ConvertUTF32toUTF16 flags result (ch # source) room =
     (if room = 0 then Some (targetExhausted, ch # source, [])
      else if ch \<le> UNI_MAX_BMP then
        (if UNI_SUR_HIGH_START \<le> ch \<and> ch \<le> UNI_SUR_LOW_END then
           (if flags = strictConversion then Some (sourceIllegal, ch # source, [])
            else write_units [ucast UNI_REPLACEMENT_CHAR] room
                   (ConvertUTF32toUTF16 flags result source (room - 1)))
         else write_units [ucast ch] room (ConvertUTF32toUTF16 flags result source (room - 1)))
      else if UNI_MAX_LEGAL_UTF32 < ch then
        (if flags = strictConversion then ConvertUTF32toUTF16 flags sourceIllegal source room
         else write_units [ucast UNI_REPLACEMENT_CHAR] room
                (ConvertUTF32toUTF16 flags result source (room - 1)))
      else if room \<le> 1 then Some (targetExhausted, ch # source, [])
      else
        (let c = ch - halfBase
         in write_units [ucast (drop_bit halfShift c + UNI_SUR_HIGH_START),
                         ucast ((c AND halfMask) + UNI_SUR_LOW_START)] room
              (ConvertUTF32toUTF16 flags result source (room - 2))))"

section \<open>Reading UTF-16\<close>

text \<open>
  The part \<open>ConvertUTF16toUTF32\<close> and \<open>ConvertUTF16toUTF8\<close> share: take a code point off the
  source, or stop with a result code (the source pointer is then back at the offending unit).
\<close>

fun utf16_next :: "ConversionFlags \<Rightarrow> UTF16 \<Rightarrow> UTF16 list \<Rightarrow> ConversionResult + UTF32 \<times> UTF16 list" where
  "utf16_next flags unit0 source =
     (let ch = ucast unit0
      in if UNI_SUR_HIGH_START \<le> ch \<and> ch \<le> UNI_SUR_HIGH_END then
           (case source of
              unit1 # source' \<Rightarrow>
                (let ch2 = ucast unit1
                 in if UNI_SUR_LOW_START \<le> ch2 \<and> ch2 \<le> UNI_SUR_LOW_END then
                      Inr (push_bit halfShift (ch - UNI_SUR_HIGH_START)
                             + (ch2 - UNI_SUR_LOW_START) + halfBase, source')
                    else if flags = strictConversion then Inl sourceIllegal
                    else Inr (ch, source))
            | [] \<Rightarrow> Inl sourceExhausted)
         else if flags = strictConversion \<and> UNI_SUR_LOW_START \<le> ch \<and> ch \<le> UNI_SUR_LOW_END then
           Inl sourceIllegal
         else Inr (ch, source))"

lemma utf16_next_shorter:
  "utf16_next flags u source = Inr (ch, rest) \<Longrightarrow> length rest < Suc (length source)"
  by (auto simp: Let_def split: if_splits list.splits)

declare utf16_next.simps [simp del]

function ConvertUTF16toUTF32 ::
  "ConversionFlags \<Rightarrow> UTF16 list \<Rightarrow> nat \<Rightarrow> (UTF16, UTF32) conversion" where
  "ConvertUTF16toUTF32 flags [] room = Some (conversionOK, [], [])"
| "ConvertUTF16toUTF32 flags (u # source) room =
     (case utf16_next flags u source of
        Inl r \<Rightarrow> Some (r, u # source, [])
      | Inr (ch, rest) \<Rightarrow>
          if room = 0 then Some (targetExhausted, u # source, [])
          else write_units [ch] room (ConvertUTF16toUTF32 flags rest (room - 1)))"
  by pat_completeness auto
termination
  by (relation "measure (\<lambda>(flags, source, room). length source)")
    (auto dest!: utf16_next_shorter)

section \<open>Writing UTF-8\<close>

definition firstByteMark :: "UTF8 list" where
  "firstByteMark = [0x00, 0x00, 0xC0, 0xE0, 0xF0, 0xF8, 0xFC]"

text \<open>The fall-through switch on \<open>bytesToWrite\<close>, which fills the bytes from the last one back.\<close>

fun utf8_switch :: "nat \<Rightarrow> nat \<Rightarrow> UTF32 \<Rightarrow> UTF8 list \<Rightarrow> UTF8 list" where
  "utf8_switch bytesToWrite 0 ch acc = acc"
| "utf8_switch bytesToWrite (Suc 0) ch acc =
     ucast (ch OR ucast (firstByteMark ! bytesToWrite)) # acc"
| "utf8_switch bytesToWrite (Suc (Suc n)) ch acc =
     utf8_switch bytesToWrite (Suc n) (drop_bit 6 ch) (ucast ((ch OR 0x80) AND 0xBF) # acc)"

definition utf8_bytes :: "nat \<Rightarrow> UTF32 \<Rightarrow> UTF8 list" where
  "utf8_bytes n ch = utf8_switch n n ch []"

function ConvertUTF16toUTF8 ::
  "ConversionFlags \<Rightarrow> UTF16 list \<Rightarrow> nat \<Rightarrow> (UTF16, UTF8) conversion" where
  "ConvertUTF16toUTF8 flags [] room = Some (conversionOK, [], [])"
| "ConvertUTF16toUTF8 flags (u # source) room =
     (case utf16_next flags u source of
        Inl r \<Rightarrow> Some (r, u # source, [])
      | Inr (ch0, rest) \<Rightarrow>
          let (bytesToWrite, ch) =
                (if ch0 < 0x80 then (1, ch0)
                 else if ch0 < 0x800 then (2, ch0)
                 else if ch0 < 0x10000 then (3, ch0)
                 else if ch0 < 0x110000 then (4, ch0)
                 else (3, UNI_REPLACEMENT_CHAR))
          in if room < bytesToWrite then Some (targetExhausted, u # source, [])
             else write_units (utf8_bytes bytesToWrite ch) room
                    (ConvertUTF16toUTF8 flags rest (room - bytesToWrite)))"
  by pat_completeness auto
termination
  by (relation "measure (\<lambda>(flags, source, room). length source)")
    (auto dest!: utf16_next_shorter)

fun ConvertUTF32toUTF8 ::
  "ConversionFlags \<Rightarrow> ConversionResult \<Rightarrow> UTF32 list \<Rightarrow> nat \<Rightarrow> (UTF32, UTF8) conversion" where
  "ConvertUTF32toUTF8 flags result [] room = Some (result, [], [])"
| "ConvertUTF32toUTF8 flags result (ch0 # source) room =
     (if flags = strictConversion \<and> UNI_SUR_HIGH_START \<le> ch0 \<and> ch0 \<le> UNI_SUR_LOW_END then
        Some (sourceIllegal, ch0 # source, [])
      else
        let (bytesToWrite, ch, result) =
              (if ch0 < 0x80 then (1, ch0, result)
               else if ch0 < 0x800 then (2, ch0, result)
               else if ch0 < 0x10000 then (3, ch0, result)
               else if ch0 \<le> UNI_MAX_LEGAL_UTF32 then (4, ch0, result)
               else (3, UNI_REPLACEMENT_CHAR, sourceIllegal))
        in if room < bytesToWrite then Some (targetExhausted, ch0 # source, [])
           else write_units (utf8_bytes bytesToWrite ch) room
                  (ConvertUTF32toUTF8 flags result source (room - bytesToWrite)))"

section \<open>Reading UTF-8\<close>

text \<open>The table \<open>trailingBytesForUTF8\<close>, its runs of equal entries written as such.\<close>

definition trailingBytesForUTF8 :: "nat list" where
  "trailingBytesForUTF8 =
     replicate 192 0 @ replicate 32 1 @ replicate 16 2 @ replicate 8 3 @ replicate 4 4 @ replicate 4 5"

definition offsetsFromUTF8 :: "UTF32 list" where
  "offsetsFromUTF8 = [0x00000000, 0x00003080, 0x000E2080, 0x03C82080, 0xFA082080, 0x82082080]"

text \<open>
  \<open>isLegalUTF8\<close>: the fall-through switch from the last byte back. \<open>source\<close> has at least
  \<open>length\<close> bytes at every call.
\<close>

definition second_byte_ok :: "UTF8 \<Rightarrow> UTF8 \<Rightarrow> bool" where
  "second_byte_ok b0 a =
     (if a > 0xBF then False
      else if b0 = 0xE0 then \<not> a < 0xA0
      else if b0 = 0xED then \<not> a > 0x9F
      else if b0 = 0xF0 then \<not> a < 0x90
      else if b0 = 0xF4 then \<not> a > 0x8F
      else \<not> a < 0x80)"

definition first_byte_ok :: "UTF8 \<Rightarrow> bool" where
  "first_byte_ok b0 \<longleftrightarrow> \<not> (0x80 \<le> b0 \<and> b0 < 0xC2) \<and> \<not> b0 > 0xF4"

definition continuation_ok :: "UTF8 \<Rightarrow> bool" where
  "continuation_ok a \<longleftrightarrow> \<not> (a < 0x80 \<or> a > 0xBF)"

definition isLegalUTF8 :: "UTF8 list \<Rightarrow> nat \<Rightarrow> bool" where
  "isLegalUTF8 source len =
     (let s = (\<lambda>i. source ! i)
      in if len = 4 then
           continuation_ok (s 3) \<and> continuation_ok (s 2) \<and> second_byte_ok (s 0) (s 1) \<and> first_byte_ok (s 0)
         else if len = 3 then
           continuation_ok (s 2) \<and> second_byte_ok (s 0) (s 1) \<and> first_byte_ok (s 0)
         else if len = 2 then second_byte_ok (s 0) (s 1) \<and> first_byte_ok (s 0)
         else if len = 1 then first_byte_ok (s 0)
         else False)"

definition isLegalUTF8Sequence :: "UTF8 list \<Rightarrow> bool" where
  "isLegalUTF8Sequence source =
     (let len = trailingBytesForUTF8 ! unat (hd source) + 1
      in if length source < len then False else isLegalUTF8 source len)"

text \<open>The fall-through switch that gathers the bytes: note A of the source gives this loop.\<close>

definition utf8_gather :: "UTF8 list \<Rightarrow> UTF32" where
  "utf8_gather bs = foldl (\<lambda>ch b. push_bit 6 ch + ucast b) 0 bs"

definition utf8_read :: "UTF8 list \<Rightarrow> nat \<Rightarrow> UTF32" where
  "utf8_read source extra = utf8_gather (take (extra + 1) source) - offsetsFromUTF8 ! extra"

function ConvertUTF8toUTF16 ::
  "ConversionFlags \<Rightarrow> UTF8 list \<Rightarrow> nat \<Rightarrow> (UTF8, UTF16) conversion" where
  "ConvertUTF8toUTF16 flags [] room = Some (conversionOK, [], [])"
| "ConvertUTF8toUTF16 flags (b # bs) room =
     (let source = b # bs;
          extraBytesToRead = trailingBytesForUTF8 ! unat b
      in if length source \<le> extraBytesToRead then Some (sourceExhausted, source, [])
         else if \<not> isLegalUTF8 source (extraBytesToRead + 1) then Some (sourceIllegal, source, [])
         else let ch = utf8_read source extraBytesToRead;
                  rest = drop extraBytesToRead bs
              in if room = 0 then Some (targetExhausted, source, [])
                 else if ch \<le> UNI_MAX_BMP then
                   (if UNI_SUR_HIGH_START \<le> ch \<and> ch \<le> UNI_SUR_LOW_END then
                      (if flags = strictConversion then Some (sourceIllegal, source, [])
                       else write_units [ucast UNI_REPLACEMENT_CHAR] room
                              (ConvertUTF8toUTF16 flags rest (room - 1)))
                    else write_units [ucast ch] room (ConvertUTF8toUTF16 flags rest (room - 1)))
                 else if UNI_MAX_UTF16 < ch then
                   (if flags = strictConversion then Some (sourceIllegal, source, [])
                    else write_units [ucast UNI_REPLACEMENT_CHAR] room
                           (ConvertUTF8toUTF16 flags rest (room - 1)))
                 else if room \<le> 1 then Some (targetExhausted, source, [])
                 else let c = ch - halfBase
                      in write_units [ucast (drop_bit halfShift c + UNI_SUR_HIGH_START),
                                      ucast ((c AND halfMask) + UNI_SUR_LOW_START)] room
                           (ConvertUTF8toUTF16 flags rest (room - 2)))"
  by pat_completeness auto
termination
  by (relation "measure (\<lambda>(flags, source, room). length source)") auto

function ConvertUTF8toUTF32 ::
  "ConversionFlags \<Rightarrow> ConversionResult \<Rightarrow> UTF8 list \<Rightarrow> nat \<Rightarrow> (UTF8, UTF32) conversion" where
  "ConvertUTF8toUTF32 flags result [] room = Some (result, [], [])"
| "ConvertUTF8toUTF32 flags result (b # bs) room =
     (let source = b # bs;
          extraBytesToRead = trailingBytesForUTF8 ! unat b
      in if length source \<le> extraBytesToRead then Some (sourceExhausted, source, [])
         else if \<not> isLegalUTF8 source (extraBytesToRead + 1) then Some (sourceIllegal, source, [])
         else let ch = utf8_read source extraBytesToRead;
                  rest = drop extraBytesToRead bs
              in if room = 0 then Some (targetExhausted, source, [])
                 else if ch \<le> UNI_MAX_LEGAL_UTF32 then
                   (if UNI_SUR_HIGH_START \<le> ch \<and> ch \<le> UNI_SUR_LOW_END then
                      (if flags = strictConversion then Some (sourceIllegal, source, [])
                       else write_units [UNI_REPLACEMENT_CHAR] room
                              (ConvertUTF8toUTF32 flags result rest (room - 1)))
                    else write_units [ch] room (ConvertUTF8toUTF32 flags result rest (room - 1)))
                 else write_units [UNI_REPLACEMENT_CHAR] room
                        (ConvertUTF8toUTF32 flags sourceIllegal rest (room - 1)))"
  by pat_completeness auto
termination
  by (relation "measure (\<lambda>(flags, result, source, room). length source)") auto

section \<open>Bytes as numbers\<close>

definition scalar :: "UTF32 \<Rightarrow> bool" where
  "scalar ch \<longleftrightarrow> ch \<le> 0x10FFFF \<and> \<not> (0xD800 \<le> ch \<and> ch \<le> 0xDFFF)"

definition utf8_len :: "UTF32 \<Rightarrow> nat" where
  "utf8_len ch = (if ch < 0x80 then 1 else if ch < 0x800 then 2 else if ch < 0x10000 then 3 else 4)"

lemma cont_byte_bits: "(ucast ((ch OR 0x80) AND 0xBF) :: u8) = 0x80 OR ucast (take_bit 6 (ch :: u32))"
proof (rule bit_word_eqI)
  fix n assume "n < LENGTH(8)"
  then have "n \<in> {0, 1, 2, 3, 4, 5, 6, 7 :: nat}" by auto
  then show "bit (ucast ((ch OR 0x80) AND 0xBF) :: u8) n = bit (0x80 OR ucast (take_bit 6 ch) :: u8) n"
    by (elim insertE) (simp_all add: bit_simps)
qed

lemma unat_or_low:
  assumes c: "unat (c :: u32) < 2 ^ j" and m: "take_bit j m = 0" and lt: "unat m + unat c < 256"
  shows "unat (m OR ucast c :: u8) = unat m + unat c"
proof -
  have uc: "unat (ucast c :: u8) = unat c"
    using lt by (simp add: unsigned_ucast_eq take_bit_eq_mod)
  have "take_bit j c = c"
    using c by (simp only: word_unat_eq_iff unsigned_take_bit_eq take_bit_nat_eq_self)
  then have "bit c n \<Longrightarrow> n < j" for n by (metis bit_take_bit_iff)
  moreover have "bit m n \<Longrightarrow> \<not> n < j" for n using m by (metis bit_0_eq bit_take_bit_iff bot_apply bot_bool_def)
  ultimately have "m AND ucast c = 0"
    by (intro bit_word_eqI) (auto simp: bit_simps)
  then have "m OR ucast c = m + ucast c"
    by (simp add: disjunctive_add_eq_or)
  then show ?thesis using lt uc by (simp add: unat_word_ariths)
qed

lemma unat_cont_byte [simp]:
  "unat (ucast ((ch OR 0x80) AND 0xBF) :: u8) = 128 + unat (ch :: u32) mod 64"
proof -
  have t: "unat (take_bit 6 ch) = unat ch mod 64"
    by (simp only: unsigned_take_bit_eq) (simp add: take_bit_eq_mod)
  show ?thesis
    unfolding cont_byte_bits by (subst unat_or_low [where j = 6]) (simp_all add: t)
qed

lemma unat_lead_byte:
  assumes "unat (ch :: u32) < 2 ^ j" and "take_bit j m = (0 :: u8)" and "unat m + unat ch < 256"
  shows "unat (ucast (ch OR ucast m) :: u8) = unat m + unat ch"
proof -
  have "(ucast (ch OR ucast m) :: u8) = m OR ucast ch"
    by (rule bit_word_eqI) (auto simp: bit_simps)
  with unat_or_low [OF assms] show ?thesis by simp
qed

lemma unat_drop6 [simp]: "unat (drop_bit 6 (ch :: u32)) = unat ch div 64"
  by (simp add: drop_bit_eq_div unat_div_distrib)

text \<open>The bytes written for a code point, as words and as numbers.\<close>

lemma utf8_bytes_eq:
  "utf8_bytes 1 ch = [ucast (ch OR ucast (0 :: u8))]"
  "utf8_bytes 2 ch = [ucast (drop_bit 6 ch OR ucast (0xC0 :: u8)), ucast ((ch OR 0x80) AND 0xBF)]"
  "utf8_bytes 3 ch = [ucast (drop_bit 6 (drop_bit 6 ch) OR ucast (0xE0 :: u8)),
     ucast ((drop_bit 6 ch OR 0x80) AND 0xBF), ucast ((ch OR 0x80) AND 0xBF)]"
  "utf8_bytes 4 ch = [ucast (drop_bit 6 (drop_bit 6 (drop_bit 6 ch)) OR ucast (0xF0 :: u8)),
     ucast ((drop_bit 6 (drop_bit 6 ch) OR 0x80) AND 0xBF),
     ucast ((drop_bit 6 ch OR 0x80) AND 0xBF), ucast ((ch OR 0x80) AND 0xBF)]"
proof -
  have n: "(4 :: nat) = Suc (Suc (Suc (Suc 0)))" "(3 :: nat) = Suc (Suc (Suc 0))"
    "(2 :: nat) = Suc (Suc 0)" "(1 :: nat) = Suc 0" by simp_all
  show "utf8_bytes 1 ch = [ucast (ch OR ucast (0 :: u8))]"
    by (simp only: utf8_bytes_def n utf8_switch.simps firstByteMark_def nth_Cons_Suc nth_Cons_0)
  show "utf8_bytes 2 ch = [ucast (drop_bit 6 ch OR ucast (0xC0 :: u8)), ucast ((ch OR 0x80) AND 0xBF)]"
    by (simp only: utf8_bytes_def n utf8_switch.simps firstByteMark_def nth_Cons_Suc nth_Cons_0)
  show "utf8_bytes 3 ch = [ucast (drop_bit 6 (drop_bit 6 ch) OR ucast (0xE0 :: u8)),
     ucast ((drop_bit 6 ch OR 0x80) AND 0xBF), ucast ((ch OR 0x80) AND 0xBF)]"
    by (simp only: utf8_bytes_def n utf8_switch.simps firstByteMark_def nth_Cons_Suc nth_Cons_0)
  show "utf8_bytes 4 ch = [ucast (drop_bit 6 (drop_bit 6 (drop_bit 6 ch)) OR ucast (0xF0 :: u8)),
     ucast ((drop_bit 6 (drop_bit 6 ch) OR 0x80) AND 0xBF),
     ucast ((drop_bit 6 ch OR 0x80) AND 0xBF), ucast ((ch OR 0x80) AND 0xBF)]"
    by (simp only: utf8_bytes_def n utf8_switch.simps firstByteMark_def nth_Cons_Suc nth_Cons_0)
qed

lemma map_unat_utf8_bytes:
  "unat ch < 0x80 \<Longrightarrow> map unat (utf8_bytes 1 ch) = [unat ch]"
  "unat ch < 0x800 \<Longrightarrow> map unat (utf8_bytes 2 ch) = [192 + unat ch div 64, 128 + unat ch mod 64]"
  "unat ch < 0x10000 \<Longrightarrow> map unat (utf8_bytes 3 ch) =
     [224 + unat ch div 4096, 128 + unat ch div 64 mod 64, 128 + unat ch mod 64]"
  "unat ch < 0x200000 \<Longrightarrow> map unat (utf8_bytes 4 ch) =
     [240 + unat ch div 262144, 128 + unat ch div 4096 mod 64,
      128 + unat ch div 64 mod 64, 128 + unat ch mod 64]"
proof -
  show "unat ch < 0x80 \<Longrightarrow> map unat (utf8_bytes 1 ch) = [unat ch]"
    using unat_lead_byte [of ch 7 0] by (simp only: utf8_bytes_eq) simp
  show "map unat (utf8_bytes 2 ch) = [192 + unat ch div 64, 128 + unat ch mod 64]"
    if "unat ch < 0x800"
  proof -
    have "unat ch div 64 < 32" using that by (simp add: less_mult_imp_div_less)
    with unat_lead_byte [of "drop_bit 6 ch" 5 "0xC0"] show ?thesis
      unfolding utf8_bytes_eq by (simp only: list.map unat_cont_byte) simp
  qed
  show "map unat (utf8_bytes 3 ch) =
     [224 + unat ch div 4096, 128 + unat ch div 64 mod 64, 128 + unat ch mod 64]"
    if "unat ch < 0x10000"
  proof -
    have "unat ch div 4096 < 16" using that by (simp add: less_mult_imp_div_less)
    with unat_lead_byte [of "drop_bit 6 (drop_bit 6 ch)" 4 "0xE0"] show ?thesis
      unfolding utf8_bytes_eq
      by (simp only: list.map unat_cont_byte unat_drop6) (simp add: div_mult2_eq [symmetric])
  qed
  show "map unat (utf8_bytes 4 ch) =
     [240 + unat ch div 262144, 128 + unat ch div 4096 mod 64,
      128 + unat ch div 64 mod 64, 128 + unat ch mod 64]" if "unat ch < 0x200000"
  proof -
    have "unat ch div 262144 < 8" using that by (simp add: less_mult_imp_div_less)
    with unat_lead_byte [of "drop_bit 6 (drop_bit 6 (drop_bit 6 ch))" 3 "0xF0"] show ?thesis
      unfolding utf8_bytes_eq
      by (simp only: list.map unat_cont_byte unat_drop6) (simp add: div_mult2_eq [symmetric])
  qed
qed

lemma utf8_gather_of_nat: "utf8_gather bs = of_nat (foldl (\<lambda>n b. 64 * n + unat b) 0 bs)"
proof -
  have "foldl (\<lambda>ch b. push_bit 6 ch + ucast b) (of_nat k) bs =
      (of_nat (foldl (\<lambda>n b. 64 * n + unat b) k bs) :: u32)" for k
  proof (induction bs arbitrary: k)
    case (Cons b bs)
    have "(push_bit 6 (of_nat k) + ucast b :: u32) = of_nat (64 * k + unat b)"
      by (simp add: push_bit_eq_mult mult.commute)
    with Cons show ?case by (simp del: of_nat_add of_nat_mult)
  qed simp
  from this [of 0] show ?thesis by (simp add: utf8_gather_def)
qed

lemma trailing_nat:
  "k < 256 \<Longrightarrow> trailingBytesForUTF8 ! k =
     (if k < 192 then 0 else if k < 224 then 1 else if k < 240 then 2
      else if k < 248 then 3 else if k < 252 then 4 else 5)"
  by (auto simp: trailingBytesForUTF8_def nth_append)

lemma unat_u8_less: "unat (b :: u8) < 256"
  using unsigned_less [of b] by simp

lemma digits64:
  fixes n :: nat
  shows "n = 64 * (n div 64) + n mod 64"
    and "n div 64 = 64 * (n div 4096) + n div 64 mod 64"
    and "n div 4096 = 64 * (n div 262144) + n div 4096 mod 64"
proof -
  have "n div 64 div 64 = n div 4096" and "n div 4096 div 64 = n div 262144"
    by (simp_all add: div_mult2_eq [symmetric])
  then show "n = 64 * (n div 64) + n mod 64" and "n div 64 = 64 * (n div 4096) + n div 64 mod 64"
    and "n div 4096 = 64 * (n div 262144) + n div 4096 mod 64"
    by (metis mult_div_mod_eq)+
qed

lemma legal_nat:
  "continuation_ok a \<longleftrightarrow> 128 \<le> unat a \<and> unat a \<le> 191"
  "first_byte_ok a \<longleftrightarrow> \<not> (128 \<le> unat a \<and> unat a < 194) \<and> unat a \<le> 244"
  "second_byte_ok b a \<longleftrightarrow> unat a \<le> 191 \<and>
     (if unat b = 224 then 160 \<le> unat a else if unat b = 237 then unat a \<le> 159
      else if unat b = 240 then 144 \<le> unat a else if unat b = 244 then unat a \<le> 143
      else 128 \<le> unat a)"
  by (auto simp: continuation_ok_def first_byte_ok_def second_byte_ok_def word_le_nat_alt
      word_less_nat_alt word_unat_eq_iff)

lemma scalar_nat:
  "scalar ch \<longleftrightarrow> unat ch \<le> 0x10FFFF \<and> \<not> (0xD800 \<le> unat ch \<and> unat ch \<le> 0xDFFF)"
  by (simp add: scalar_def word_le_nat_alt)

lemma utf8_len_nat:
  "utf8_len ch = (if unat ch < 0x80 then 1 else if unat ch < 0x800 then 2
     else if unat ch < 0x10000 then 3 else 4)"
  by (simp add: utf8_len_def word_less_nat_alt)

lemma of_nat_minus_offset:
  "m = n + k \<Longrightarrow> (of_nat m - of_nat k :: u32) = of_nat n"
  by simp

lemma utf8_read_eq:
  assumes "extra < 4" and "extra < length source"
    and "foldl (\<lambda>n b. 64 * n + unat b) 0 (take (extra + 1) source) =
           n + [0, 0x3080, 0xE2080, 0x3C82080] ! extra"
  shows "utf8_read source extra = of_nat n"
proof -
  have "extra \<in> {0, 1, 2, 3}" using assms(1) by auto
  then have "offsetsFromUTF8 ! extra = of_nat ([0, 0x3080, 0xE2080, 0x3C82080] ! extra)"
    by (auto simp: offsetsFromUTF8_def)
  then show ?thesis
    unfolding utf8_read_def utf8_gather_of_nat assms(3) by (simp add: of_nat_minus_offset)
qed

lemma map_unat_eqD:
  "map unat bs = [x] \<Longrightarrow> \<exists>a. bs = [a] \<and> unat a = x"
  "map unat bs = [x, y] \<Longrightarrow> \<exists>a b. bs = [a, b] \<and> unat a = x \<and> unat b = y"
  "map unat bs = [x, y, z] \<Longrightarrow> \<exists>a b c. bs = [a, b, c] \<and> unat a = x \<and> unat b = y \<and> unat c = z"
  "map unat bs = [x, y, z, w] \<Longrightarrow>
     \<exists>a b c d. bs = [a, b, c, d] \<and> unat a = x \<and> unat b = y \<and> unat c = z \<and> unat d = w"
  by auto

text \<open>Encoding a scalar value gives a legal sequence that reads back as it.\<close>

lemma utf8_encode:
  assumes "scalar ch"
  shows "length (utf8_bytes (utf8_len ch) ch) = utf8_len ch \<and>
    trailingBytesForUTF8 ! unat (hd (utf8_bytes (utf8_len ch) ch)) = utf8_len ch - 1 \<and>
    isLegalUTF8 (utf8_bytes (utf8_len ch) ch @ t) (utf8_len ch) \<and>
    utf8_read (utf8_bytes (utf8_len ch) ch @ t) (utf8_len ch - 1) = ch"
proof -
  let ?n = "unat ch"
  have n: "?n \<le> 0x10FFFF" "\<not> (0xD800 \<le> ?n \<and> ?n \<le> 0xDFFF)"
    using assms by (simp_all add: scalar_nat)
  note dg = digits64 [of ?n]
  consider (one) "?n < 0x80" | (two) "0x80 \<le> ?n" "?n < 0x800" | (three) "0x800 \<le> ?n" "?n < 0x10000"
    | (four) "0x10000 \<le> ?n" by linarith
  then show ?thesis
  proof cases
    case one
    then have k: "utf8_len ch = 1" by (simp add: utf8_len_nat)
    from map_unat_eqD(1) [OF map_unat_utf8_bytes(1) [OF one]] obtain a where
      bs: "utf8_bytes 1 ch = [a]" "unat a = ?n" by blast
    have "utf8_read (a # t) 0 = of_nat ?n" by (rule utf8_read_eq) (simp_all add: bs)
    then show ?thesis
      using one bs k by (simp add: trailing_nat isLegalUTF8_def legal_nat)
  next
    case two
    then have k: "utf8_len ch = 2" by (simp add: utf8_len_nat)
    from map_unat_eqD(2) [OF map_unat_utf8_bytes(2) [OF two(2)]] obtain a b where
      bs: "utf8_bytes 2 ch = [a, b]" "unat a = 192 + ?n div 64" "unat b = 128 + ?n mod 64" by blast
    have "2 \<le> ?n div 64" "?n div 64 < 32" using two dg by linarith+
    moreover have "utf8_read (a # b # t) 1 = of_nat ?n"
      using dg by (intro utf8_read_eq) (simp_all add: bs)
    ultimately show ?thesis
      using bs k by (simp add: trailing_nat isLegalUTF8_def legal_nat)
  next
    case three
    then have k: "utf8_len ch = 3" by (simp add: utf8_len_nat)
    from map_unat_eqD(3) [OF map_unat_utf8_bytes(3) [OF three(2)]] obtain a b c where
      bs: "utf8_bytes 3 ch = [a, b, c]" "unat a = 224 + ?n div 4096"
        "unat b = 128 + ?n div 64 mod 64" "unat c = 128 + ?n mod 64" by blast
    have m: "?n mod 64 \<le> 63" "?n div 64 mod 64 \<le> 63" by (simp_all add: less_Suc_eq_le [symmetric])
    have lead: "?n div 4096 < 16" using three dg by linarith
    have "?n div 4096 = 0 \<longrightarrow> 32 \<le> ?n div 64 mod 64" "?n div 4096 = 13 \<longrightarrow> ?n div 64 mod 64 \<le> 31"
      using three n dg m by linarith+
    then have legal: "isLegalUTF8 (a # b # c # t) 3"
      using bs(2-4) lead m by (simp add: isLegalUTF8_def legal_nat numeral_2_eq_2)
    have "trailingBytesForUTF8 ! unat a = 2" using bs(2) lead by (simp add: trailing_nat)
    moreover have "utf8_read (a # b # c # t) 2 = of_nat ?n"
      using dg by (intro utf8_read_eq) (simp_all add: bs(2-4) numeral_2_eq_2)
    ultimately show ?thesis using legal by (simp add: k bs(1))
  next
    case four
    then have k: "utf8_len ch = 4" by (simp add: utf8_len_nat)
    have lt: "?n < 0x200000" using n by linarith
    from map_unat_eqD(4) [OF map_unat_utf8_bytes(4) [OF lt]] obtain a b c d where
      bs: "utf8_bytes 4 ch = [a, b, c, d]" "unat a = 240 + ?n div 262144"
        "unat b = 128 + ?n div 4096 mod 64" "unat c = 128 + ?n div 64 mod 64"
        "unat d = 128 + ?n mod 64" by blast
    have m: "?n mod 64 \<le> 63" "?n div 64 mod 64 \<le> 63" "?n div 4096 mod 64 \<le> 63"
      by (simp_all add: less_Suc_eq_le [symmetric])
    have lead: "?n div 262144 \<le> 4" using n dg by linarith
    have "?n div 262144 = 0 \<longrightarrow> 16 \<le> ?n div 4096 mod 64" "?n div 262144 = 4 \<longrightarrow> ?n div 4096 mod 64 \<le> 15"
      using four n dg m by linarith+
    then have legal: "isLegalUTF8 (a # b # c # d # t) 4"
      using bs(2-5) lead m by (simp add: isLegalUTF8_def legal_nat numeral_2_eq_2 numeral_3_eq_3)
    have "trailingBytesForUTF8 ! unat a = 3" using bs(2) lead by (simp add: trailing_nat)
    moreover have "utf8_read (a # b # c # d # t) 3 = of_nat ?n"
      using dg by (intro utf8_read_eq) (simp_all add: bs(2-5) numeral_3_eq_3)
    ultimately show ?thesis using legal by (simp add: k bs(1))
  qed
qed

section \<open>Surrogate pairs as numbers\<close>

text \<open>The unit or units that every writer of UTF-16 in the file produces for a scalar value.\<close>

definition utf16_units :: "UTF32 \<Rightarrow> UTF16 list" where
  "utf16_units ch =
     (if ch \<le> UNI_MAX_BMP then [ucast ch]
      else [ucast (drop_bit halfShift (ch - halfBase) + UNI_SUR_HIGH_START),
            ucast (((ch - halfBase) AND halfMask) + UNI_SUR_LOW_START)])"

lemma unat_ucast_u16: "unat (ch :: u32) < 65536 \<Longrightarrow> unat (ucast ch :: u16) = unat ch"
  by (simp add: unsigned_ucast_eq take_bit_eq_mod)

lemma unat_ucast_u16_u32: "unat (ucast (u :: u16) :: u32) = unat u"
  using unsigned_less [where 'a = nat, of u] by (simp add: unsigned_ucast_eq take_bit_eq_mod)

lemma unat_half:
  fixes c :: u32
  shows "unat (drop_bit 10 c) = unat c div 1024" and "unat (c AND 0x3FF) = unat c mod 1024"
proof -
  show "unat (drop_bit 10 c) = unat c div 1024"
    by (simp add: drop_bit_eq_div unat_div_distrib)
  have "c AND 0x3FF = take_bit 10 c"
    using take_bit_eq_mask [of 10 c] by (simp add: mask_eq_exp_minus_1)
  then show "unat (c AND 0x3FF) = unat c mod 1024"
    by (simp only: unsigned_take_bit_eq) (simp add: take_bit_eq_mod)
qed

lemma utf16_units_pair:
  assumes "0xFFFF < unat ch" and "unat ch \<le> 0x10FFFF"
  shows "\<exists>hi lo. utf16_units ch = [hi, lo] \<and>
    unat hi = 0xD800 + (unat ch - 0x10000) div 1024 \<and> unat lo = 0xDC00 + (unat ch - 0x10000) mod 1024"
proof -
  let ?c = "ch - 0x10000" and ?n = "unat ch - 0x10000"
  have c: "unat ?c = ?n" using assms by (simp add: unat_sub word_le_nat_alt)
  have n: "?n div 1024 \<le> 1023" "?n mod 1024 \<le> 1023" using assms by (auto simp: less_Suc_eq_le [symmetric])
  have "unat (drop_bit 10 ?c + 0xD800) = 0xD800 + ?n div 1024"
    using n by (simp only: unat_word_ariths unat_half c) simp
  moreover have "unat ((?c AND 0x3FF) + 0xDC00) = 0xDC00 + ?n mod 1024"
    using n by (simp only: unat_word_ariths unat_half c) simp
  ultimately have "unat (ucast (drop_bit 10 ?c + 0xD800) :: u16) = 0xD800 + ?n div 1024"
    "unat (ucast ((?c AND 0x3FF) + 0xDC00) :: u16) = 0xDC00 + ?n mod 1024"
    using n by (simp_all add: unat_ucast_u16)
  moreover have "\<not> ch \<le> 0xFFFF" using assms(1) by (simp add: word_le_nat_alt)
  ultimately show ?thesis by (auto simp: utf16_units_def uni_defs)
qed

lemma utf16_next_units:
  assumes "scalar ch"
  shows "\<exists>u us. utf16_units ch = u # us \<and> utf16_next flags u (us @ t) = Inr (ch, t)"
proof (cases "ch \<le> UNI_MAX_BMP")
  case True
  then have lt: "unat ch < 65536" by (simp add: uni_defs word_le_nat_alt)
  then have "ucast (ucast ch :: u16) = ch"
    by (simp add: word_unat_eq_iff unat_ucast_u16_u32 unat_ucast_u16)
  moreover have "\<not> (0xD800 \<le> unat ch \<and> unat ch \<le> 0xDFFF)" using assms by (simp add: scalar_nat)
  ultimately show ?thesis
    using True by (auto simp: utf16_units_def utf16_next.simps uni_defs word_le_nat_alt)
next
  case False
  let ?n = "unat ch - 0x10000"
  have n: "0xFFFF < unat ch" "unat ch \<le> 0x10FFFF"
    using False assms by (simp_all add: uni_defs word_le_nat_alt scalar_nat)
  from utf16_units_pair [OF this] obtain hi lo where p: "utf16_units ch = [hi, lo]"
    "unat hi = 0xD800 + ?n div 1024" "unat lo = 0xDC00 + ?n mod 1024" by blast
  have m: "?n div 1024 \<le> 1023" "?n mod 1024 \<le> 1023" using n by (auto simp: less_Suc_eq_le [symmetric])
  have hi_of_nat: "(ucast hi :: u32) = of_nat (0xD800 + ?n div 1024)"
    by (simp only: p(2) [symmetric] of_nat_unat)
  have hi: "(ucast hi - 0xD800 :: u32) = of_nat (?n div 1024)"
    by (simp add: hi_of_nat)
  have lo_of_nat: "(ucast lo :: u32) = of_nat (0xDC00 + ?n mod 1024)"
    by (simp only: p(3) [symmetric] of_nat_unat)
  have lo: "(ucast lo - 0xDC00 :: u32) = of_nat (?n mod 1024)"
    by (simp add: lo_of_nat)
  have "push_bit 10 (of_nat (?n div 1024)) + of_nat (?n mod 1024) + 0x10000 =
      (of_nat (?n div 1024 * 1024 + ?n mod 1024 + 0x10000) :: u32)"
    by (simp only: push_bit_eq_mult of_nat_add of_nat_mult of_nat_numeral) simp
  also have "?n div 1024 * 1024 + ?n mod 1024 + 0x10000 = unat ch" using n by simp
  finally have "push_bit 10 (of_nat (?n div 1024)) + of_nat (?n mod 1024) + 0x10000 = ch" by simp
  then show ?thesis
    using m p by (simp add: utf16_next.simps uni_defs word_le_nat_alt unat_ucast_u16_u32 hi lo Let_def)
qed

section \<open>The contract of a converter\<close>

text \<open>
  What a converter from one encoding of scalar values to another promises: it copies one value at a
  time, and stops in front of the first one that does not fit.
\<close>

locale scalar_converter =
  fixes conv :: "'s list \<Rightarrow> nat \<Rightarrow> ('s, 't) conversion"
    and encS :: "UTF32 \<Rightarrow> 's list" and encT :: "UTF32 \<Rightarrow> 't list"
  assumes conv_Nil: "conv [] room = Some (conversionOK, [], [])"
    and conv_fits: "\<lbrakk>scalar c; length (encT c) \<le> room\<rbrakk> \<Longrightarrow>
      conv (encS c @ s) room = write_units (encT c) room (conv s (room - length (encT c)))"
    and conv_full: "\<lbrakk>scalar c; room < length (encT c)\<rbrakk> \<Longrightarrow>
      conv (encS c @ s) room = Some (targetExhausted, encS c @ s, [])"

text \<open>How many of the values fit in the room.\<close>

fun fitting :: "(UTF32 \<Rightarrow> 't list) \<Rightarrow> UTF32 list \<Rightarrow> nat \<Rightarrow> nat" where
  "fitting enc [] room = 0"
| "fitting enc (c # cs) room =
     (if length (enc c) \<le> room then Suc (fitting enc cs (room - length (enc c))) else 0)"

lemma fitting_le: "fitting enc cs room \<le> length cs"
  by (induction enc cs room rule: fitting.induct) auto

lemma fitting_all: "length (concat (map enc cs)) \<le> room \<Longrightarrow> fitting enc cs room = length cs"
  by (induction enc cs room rule: fitting.induct) auto

lemma fitting_room: "length (concat (map enc (take (fitting enc cs room) cs))) \<le> room"
  by (induction enc cs room rule: fitting.induct) auto

definition converted ::
  "(UTF32 \<Rightarrow> 's list) \<Rightarrow> (UTF32 \<Rightarrow> 't list) \<Rightarrow> UTF32 list \<Rightarrow> nat \<Rightarrow> (ConversionResult \<times> 's list \<times> 't list)" where
  "converted encS encT cs room =
     (let k = fitting encT cs room
      in (if k = length cs then conversionOK else targetExhausted,
          concat (map encS (drop k cs)), concat (map encT (take k cs))))"

context scalar_converter
begin

lemma conv_scalars:
  "list_all scalar cs \<Longrightarrow> conv (concat (map encS cs)) room = Some (converted encS encT cs room)"
proof (induction cs arbitrary: room)
  case Nil
  then show ?case by (simp add: conv_Nil converted_def)
next
  case (Cons c cs)
  then show ?case
    by (cases "length (encT c) \<le> room")
      (simp_all add: conv_fits conv_full write_units_def converted_def Let_def not_le)
qed

end

section \<open>The six converters keep the contract\<close>

definition utf32_units :: "UTF32 \<Rightarrow> UTF32 list" where "utf32_units c = [c]"
definition utf8_units :: "UTF32 \<Rightarrow> UTF8 list" where "utf8_units c = utf8_bytes (utf8_len c) c"

lemma utf8_units_read:
  assumes "scalar c"
  obtains b bs where "utf8_units c = b # bs" "trailingBytesForUTF8 ! unat b = length bs"
    "isLegalUTF8 (b # bs @ t) (Suc (length bs))" "utf8_read (b # bs @ t) (length bs) = c"
proof -
  note e = utf8_encode [OF assms]
  have "0 < utf8_len c" by (simp add: utf8_len_def)
  with e obtain b bs where u: "utf8_units c = b # bs" unfolding utf8_units_def by (metis length_greater_0_conv neq_Nil_conv)
  then have "utf8_len c = Suc (length bs)" using e [of "[]"] by (simp add: utf8_units_def)
  with u e that show ?thesis by (simp add: utf8_units_def)
qed

lemma length_utf8_units: "scalar c \<Longrightarrow> length (utf8_units c) = utf8_len c"
  using utf8_encode by (simp add: utf8_units_def)

lemma scalar_range:
  "scalar c \<Longrightarrow> \<not> (UNI_SUR_HIGH_START \<le> c \<and> c \<le> UNI_SUR_LOW_END)"
  "scalar c \<Longrightarrow> c \<le> UNI_MAX_LEGAL_UTF32" "scalar c \<Longrightarrow> c \<le> UNI_MAX_UTF16" "scalar c \<Longrightarrow> c < 0x110000"
  by (auto simp: scalar_def uni_defs word_le_nat_alt word_less_nat_alt)

lemma write_32to16:
  assumes "scalar c"
  shows "ConvertUTF32toUTF16 flags r (c # s) room =
    (if length (utf16_units c) \<le> room
     then write_units (utf16_units c) room (ConvertUTF32toUTF16 flags r s (room - length (utf16_units c)))
     else Some (targetExhausted, c # s, []))"
proof -
  have mx: "\<not> UNI_MAX_LEGAL_UTF32 < c" by (simp add: not_less scalar_range(2) [OF assms])
  show ?thesis
    by (cases "c \<le> UNI_MAX_BMP")
      (simp_all add: mx scalar_range(1) [OF assms] utf16_units_def Let_def Suc_le_eq numeral_2_eq_2 not_less)
qed

lemma utf8_len_switch:
  assumes "scalar c"
  shows "(if c < 0x80 then (1, c) else if c < 0x800 then (2, c) else if c < 0x10000 then (3, c)
     else if c < 0x110000 then (4, c) else (3, UNI_REPLACEMENT_CHAR)) = (utf8_len c, c)"
    and "(if c < 0x80 then (1, c, r) else if c < 0x800 then (2, c, r) else if c < 0x10000 then (3, c, r)
     else if c \<le> UNI_MAX_LEGAL_UTF32 then (4, c, r) else (3, UNI_REPLACEMENT_CHAR, sourceIllegal)) = (utf8_len c, c, r)"
  using scalar_range [OF assms] by (simp_all add: utf8_len_def)

lemma write_32to8:
  assumes "scalar c"
  shows "ConvertUTF32toUTF8 flags r (c # s) room =
    (if length (utf8_units c) \<le> room
     then write_units (utf8_units c) room (ConvertUTF32toUTF8 flags r s (room - length (utf8_units c)))
     else Some (targetExhausted, c # s, []))"
  using scalar_range [OF assms]
  unfolding ConvertUTF32toUTF8.simps utf8_len_switch [OF assms] length_utf8_units [OF assms]
  by (auto simp: utf8_units_def not_less)

lemma write_16to32:
  assumes "scalar c"
  shows "ConvertUTF16toUTF32 flags (utf16_units c @ s) room =
    (if 1 \<le> room then write_units [c] room (ConvertUTF16toUTF32 flags s (room - 1))
     else Some (targetExhausted, utf16_units c @ s, []))"
  using utf16_next_units [OF assms, of flags s] by (auto simp: Suc_le_eq)

lemma write_16to8:
  assumes "scalar c"
  shows "ConvertUTF16toUTF8 flags (utf16_units c @ s) room =
    (if length (utf8_units c) \<le> room
     then write_units (utf8_units c) room (ConvertUTF16toUTF8 flags s (room - length (utf8_units c)))
     else Some (targetExhausted, utf16_units c @ s, []))"
proof -
  obtain u us where u: "utf16_units c = u # us" "utf16_next flags u (us @ s) = Inr (c, s)"
    using utf16_next_units [OF assms] by blast
  then show ?thesis
    by (simp only: append_Cons ConvertUTF16toUTF8.simps sum.case prod.case utf8_len_switch [OF assms]
        Let_def length_utf8_units [OF assms]) (simp add: utf8_units_def not_less)
qed

lemma write_8to32:
  assumes "scalar c"
  shows "ConvertUTF8toUTF32 flags r (utf8_units c @ s) room =
    (if 1 \<le> room then write_units [c] room (ConvertUTF8toUTF32 flags r s (room - 1))
     else Some (targetExhausted, utf8_units c @ s, []))"
proof -
  obtain b bs where u: "utf8_units c = b # bs" "trailingBytesForUTF8 ! unat b = length bs"
    "isLegalUTF8 (b # bs @ s) (Suc (length bs))" "utf8_read (b # bs @ s) (length bs) = c"
    by (rule utf8_units_read [OF assms])
  show ?thesis by (simp add: u scalar_range [OF assms] Suc_le_eq)
qed

lemma write_8to16:
  assumes "scalar c"
  shows "ConvertUTF8toUTF16 flags (utf8_units c @ s) room =
    (if length (utf16_units c) \<le> room
     then write_units (utf16_units c) room (ConvertUTF8toUTF16 flags s (room - length (utf16_units c)))
     else Some (targetExhausted, utf8_units c @ s, []))"
proof -
  obtain b bs where u: "utf8_units c = b # bs" "trailingBytesForUTF8 ! unat b = length bs"
    "isLegalUTF8 (b # bs @ s) (Suc (length bs))" "utf8_read (b # bs @ s) (length bs) = c"
    by (rule utf8_units_read [OF assms])
  have mx: "\<not> UNI_MAX_UTF16 < c" by (simp add: not_less scalar_range(3) [OF assms])
  show ?thesis
    by (cases "c \<le> UNI_MAX_BMP")
      (simp_all add: u mx scalar_range(1) [OF assms] utf16_units_def Let_def Suc_le_eq numeral_2_eq_2 not_less)
qed

interpretation utf32to16: scalar_converter "ConvertUTF32toUTF16 flags conversionOK" utf32_units utf16_units
  by unfold_locales (simp_all add: write_32to16 utf32_units_def del: ConvertUTF32toUTF16.simps(2))

interpretation utf32to8: scalar_converter "ConvertUTF32toUTF8 flags conversionOK" utf32_units utf8_units
  by unfold_locales (simp_all add: write_32to8 utf32_units_def del: ConvertUTF32toUTF8.simps(2))

interpretation utf16to32: scalar_converter "ConvertUTF16toUTF32 flags" utf16_units utf32_units
  by unfold_locales (simp_all add: write_16to32 utf32_units_def)

interpretation utf16to8: scalar_converter "ConvertUTF16toUTF8 flags" utf16_units utf8_units
  by unfold_locales (simp_all add: write_16to8)

interpretation utf8to32: scalar_converter "ConvertUTF8toUTF32 flags conversionOK" utf8_units utf32_units
  by unfold_locales (simp_all add: write_8to32 utf32_units_def)

interpretation utf8to16: scalar_converter "ConvertUTF8toUTF16 flags" utf8_units utf16_units
  by unfold_locales (simp_all add: write_8to16)

text \<open>
  C17. The six conversions agree on scalar values. For every list of scalar values, in either mode
  and with any room in the target, a conversion from its encoding in one form to another form writes
  the encodings of the longest prefix that fits, leaves exactly the encodings of the other values
  unread, and reports \<open>conversionOK\<close> if everything fitted and \<open>targetExhausted\<close> otherwise: no
  value is ever split or dropped, and converting forth and back is the identity.
\<close>

theorem conversions_agree:
  assumes "list_all scalar cs"
  shows "ConvertUTF32toUTF16 flags conversionOK cs room = Some (converted utf32_units utf16_units cs room) \<and>
    ConvertUTF32toUTF8 flags conversionOK cs room = Some (converted utf32_units utf8_units cs room) \<and>
    ConvertUTF16toUTF32 flags (concat (map utf16_units cs)) room = Some (converted utf16_units utf32_units cs room) \<and>
    ConvertUTF16toUTF8 flags (concat (map utf16_units cs)) room = Some (converted utf16_units utf8_units cs room) \<and>
    ConvertUTF8toUTF32 flags conversionOK (concat (map utf8_units cs)) room = Some (converted utf8_units utf32_units cs room) \<and>
    ConvertUTF8toUTF16 flags (concat (map utf8_units cs)) room = Some (converted utf8_units utf16_units cs room)"
proof -
  have "concat (map utf32_units cs) = cs" by (induction cs) (simp_all add: utf32_units_def)
  with utf32to16.conv_scalars [OF assms] utf32to8.conv_scalars [OF assms] show ?thesis
    by (simp add: utf16to32.conv_scalars [OF assms] utf16to8.conv_scalars [OF assms]
        utf8to32.conv_scalars [OF assms] utf8to16.conv_scalars [OF assms])
qed

theorem conversions_agree_witness:
  "list_all scalar [0x41, 0x20AC, 0x1F600] \<and>
   ConvertUTF32toUTF16 strictConversion conversionOK [0x41, 0x20AC, 0x1F600] 3 =
     Some (targetExhausted, [0x1F600], [0x41, 0x20AC]) \<and>
   ConvertUTF8toUTF32 strictConversion conversionOK (concat (map utf8_units [0x41, 0x20AC, 0x1F600])) 3 =
     Some (conversionOK, [], [0x41, 0x20AC, 0x1F600])"
proof -
  have s: "list_all scalar [0x41, 0x20AC, 0x1F600]" by (simp add: scalar_def)
  have "converted utf32_units utf16_units [0x41, 0x20AC, 0x1F600] 3 =
      (targetExhausted, [0x1F600], [0x41, 0x20AC])"
    "converted utf8_units utf32_units [0x41, 0x20AC, 0x1F600] 3 =
      (conversionOK, [], [0x41, 0x20AC, 0x1F600])"
    by (simp_all add: converted_def utf32_units_def utf16_units_def uni_defs)
  with s conversions_agree [OF s, of strictConversion 3] show ?thesis by simp
qed

section \<open>Every input\<close>

text \<open>What is guaranteed whatever the source holds.\<close>

definition safe_result :: "'s list \<Rightarrow> nat \<Rightarrow> ('s, 't) conversion \<Rightarrow> bool" where
  "safe_result source room res =
     (case res of None \<Rightarrow> False
      | Some (r, rest, out) \<Rightarrow> suffix rest source \<and> length out \<le> room \<and> (r = conversionOK \<longrightarrow> rest = []))"

lemma safe_stop [simp]: "r \<noteq> conversionOK \<Longrightarrow> safe_result source room (Some (r, source, []))"
  by (simp add: safe_result_def)

lemma safe_end [simp]: "safe_result [] room (Some (r, [], []))"
  by (simp add: safe_result_def)

lemma safe_write:
  assumes "safe_result s (room - n) k" and "length us = n" and "n \<le> room" and "suffix s source"
  shows "safe_result source room (write_units us room k)"
  using assms by (auto simp: safe_result_def write_units_def intro: suffix_order.trans split: option.splits)

lemma safe_skip: "safe_result s room k \<Longrightarrow> suffix s source \<Longrightarrow> safe_result source room k"
  by (auto simp: safe_result_def intro: suffix_order.trans split: option.splits)

lemma safe_if:
  "\<lbrakk>b \<Longrightarrow> safe_result source room x; \<not> b \<Longrightarrow> safe_result source room y\<rbrakk> \<Longrightarrow>
   safe_result source room (if b then x else y)"
  by simp

lemma length_utf8_bytes: "n \<le> 4 \<Longrightarrow> length (utf8_bytes n ch) = n"
proof -
  have "length (utf8_switch m n c acc) = n + length acc" for m c acc
    by (induction m n c acc rule: utf8_switch.induct) auto
  then show ?thesis by (simp add: utf8_bytes_def)
qed

lemma suffix_drop_Cons: "suffix (drop k bs) (b # bs)"
  by (meson suffix_ConsI suffix_drop)

lemma utf16_next_suffix: "utf16_next flags u source = Inr (ch, rest) \<Longrightarrow> suffix rest (u # source)"
  by (auto simp: utf16_next.simps Let_def suffix_Cons split: if_splits list.splits)

lemma utf16_next_not_ok: "utf16_next flags u source = Inl r \<Longrightarrow> r \<noteq> conversionOK"
  by (auto simp: utf16_next.simps Let_def split: if_splits list.splits)

lemma safe_32to16:
  "r = conversionOK \<or> r = sourceIllegal \<Longrightarrow> safe_result source room (ConvertUTF32toUTF16 flags r source room)"
proof (induction source arbitrary: r room)
  case (Cons ch source)
  have IH: "safe_result source m (ConvertUTF32toUTF16 flags q source m)"
    if "q = conversionOK \<or> q = sourceIllegal" for q m using Cons.IH that by blast
  have w: "safe_result (ch # source) room (write_units us room (ConvertUTF32toUTF16 flags r source (room - n)))"
    if "length us = n" "n \<le> room" for us :: "UTF16 list" and n
    by (rule safe_write [OF IH [OF Cons.prems]]) (simp_all add: that suffix_ConsI)
  have sk: "safe_result (ch # source) room (ConvertUTF32toUTF16 flags sourceIllegal source room)"
    by (rule safe_skip [OF IH]) (simp_all add: suffix_ConsI)
  show ?case
    unfolding ConvertUTF32toUTF16.simps Let_def by (intro safe_if safe_stop sk w) simp_all
qed simp

lemma safe_32to8:
  "safe_result source room (ConvertUTF32toUTF8 flags r source room)"
proof (induction source arbitrary: r room)
  case (Cons ch source)
  have w: "safe_result (ch # source) room
      (write_units (utf8_bytes n c) room (ConvertUTF32toUTF8 flags q source (room - n)))"
    if "n \<le> 4" "\<not> room < n" for n c q
    by (rule safe_write [OF Cons.IH]) (use that in \<open>simp_all add: length_utf8_bytes suffix_ConsI\<close>)
  show ?case by (simp add: w split: prod.split)
qed simp

lemma safe_16to32: "safe_result source room (ConvertUTF16toUTF32 flags source room)"
proof (induction flags source room rule: ConvertUTF16toUTF32.induct)
  case (2 flags u source room)
  then show ?case
    by (auto simp: utf16_next_not_ok split: sum.split intro!: safe_write [where n = 1] utf16_next_suffix)
qed simp

lemma safe_16to8: "safe_result source room (ConvertUTF16toUTF8 flags source room)"
proof (induction flags source room rule: ConvertUTF16toUTF8.induct)
  case (2 flags u source room)
  show ?case
  proof (cases "utf16_next flags u source")
    case (Inr p)
    obtain ch rest where p: "p = (ch, rest)" by (cases p)
    obtain n c where nc: "(if ch < 0x80 then (1, ch) else if ch < 0x800 then (2, ch)
       else if ch < 0x10000 then (3, ch) else if ch < 0x110000 then (4, ch)
       else (3 :: nat, UNI_REPLACEMENT_CHAR)) = (n, c)" by (rule prod.exhaust)
    then have "n \<le> 4" by (auto split: if_splits)
    then show ?thesis
      using 2 [OF Inr p [symmetric] refl nc [symmetric]] utf16_next_suffix [of flags u source ch rest] Inr p
      by (auto simp: nc length_utf8_bytes intro!: safe_write)
  qed (simp add: utf16_next_not_ok)
qed simp

lemma safe_8to16: "safe_result source room (ConvertUTF8toUTF16 flags source room)"
proof (induction source arbitrary: room rule: length_induct)
  case (1 source)
  show ?case
  proof (cases source)
    case (Cons b bs)
    have w: "safe_result (b # bs) room
        (write_units us room (ConvertUTF8toUTF16 flags (drop k bs) (room - n)))"
      if "length us = n" "n \<le> room" for us k n
      by (rule safe_write [OF 1 [rule_format]]) (simp_all add: that Cons suffix_drop_Cons)
    show ?thesis
      unfolding ConvertUTF8toUTF16.simps Let_def Cons by (intro safe_if safe_stop w) simp_all
  qed simp
qed

lemma safe_8to32:
  "r = conversionOK \<or> r = sourceIllegal \<Longrightarrow> safe_result source room (ConvertUTF8toUTF32 flags r source room)"
proof (induction source arbitrary: r room rule: length_induct)
  case (1 source)
  show ?case
  proof (cases source)
    case (Cons b bs)
    have w: "safe_result (b # bs) room
        (write_units us room (ConvertUTF8toUTF32 flags q (drop k bs) (room - n)))"
      if "q = conversionOK \<or> q = sourceIllegal" "length us = n" "n \<le> room" for us k n q
      by (rule safe_write [OF 1(1) [rule_format]]) (use that in \<open>simp_all add: Cons suffix_drop_Cons\<close>)
    show ?thesis
      unfolding ConvertUTF8toUTF32.simps Let_def Cons
      by (intro safe_if safe_stop w) (use "1.prems" in simp_all)
  qed simp
qed

text \<open>
  C24. Every conversion is memory safe and total: for arbitrary source units (legal or not), both
  modes and any room, each of the six functions returns a result without writing past the target, the
  unread units are a suffix of the source, and \<open>conversionOK\<close> is reported only when the whole
  source was consumed.
\<close>

theorem conversions_safe:
  "safe_result s32 room (ConvertUTF32toUTF16 flags conversionOK s32 room) \<and>
   safe_result s32 room (ConvertUTF32toUTF8 flags conversionOK s32 room) \<and>
   safe_result s16 room (ConvertUTF16toUTF32 flags s16 room) \<and>
   safe_result s16 room (ConvertUTF16toUTF8 flags s16 room) \<and>
   safe_result s8 room (ConvertUTF8toUTF32 flags conversionOK s8 room) \<and>
   safe_result s8 room (ConvertUTF8toUTF16 flags s8 room)"
  by (simp add: safe_32to16 safe_32to8 safe_16to32 safe_16to8 safe_8to32 safe_8to16)

section \<open>What isLegalUTF8 accepts\<close>

lemma utf8_units_of_nat:
  assumes "map unat (utf8_bytes k (of_nat n)) = map unat bs" and "utf8_len (of_nat n) = k"
  shows "utf8_units (of_nat n) = bs"
  using assms by (simp add: utf8_units_def inj_map_eq_map [OF inj_onI, where f = unat] word_unat_eq_iff)

lemma unat_of_nat_u32: "n \<le> 0x10FFFF \<Longrightarrow> unat (of_nat n :: u32) = n"
  by (simp add: unat_of_nat)

lemma digits64_of:
  fixes p q :: nat
  assumes "q < 64"
  shows "(64 * p + q) div 64 = p" and "(64 * p + q) mod 64 = q"
    and "(64 * p + q) div 4096 = p div 64" and "(64 * p + q) div 262144 = p div 4096"
proof -
  show d: "(64 * p + q) div 64 = p" and "(64 * p + q) mod 64 = q" using assms by simp_all
  have "(64 * p + q) div (64 * m) = p div m" for m by (simp add: div_mult2_eq assms)
  from this [of 64] this [of 4096]
  show "(64 * p + q) div 4096 = p div 64" and "(64 * p + q) div 262144 = p div 4096" by simp_all
qed

text \<open>Pairs, triples and quadruples of bytes in range are the encoding of the number they denote.\<close>

lemma encoded1: "unat b < 0x80 \<Longrightarrow> \<exists>c. scalar c \<and> utf8_units c = [b]"
  using map_unat_utf8_bytes(1) [of "of_nat (unat b)"]
  by (intro exI [of _ "of_nat (unat b)"] conjI utf8_units_of_nat [where k = 1])
    (simp_all add: scalar_nat utf8_len_nat unat_of_nat_u32 del: of_nat_unat)

lemma encoded2:
  assumes a: "194 \<le> unat a" "unat a < 224" and b: "128 \<le> unat b" "unat b \<le> 191"
  shows "\<exists>c. scalar c \<and> utf8_units c = [a, b]"
proof -
  define x y where "x = unat a - 192" and "y = unat b - 128"
  have xy: "unat a = 192 + x" "unat b = 128 + y" "2 \<le> x" "x < 32" "y < 64"
    using a b by (auto simp: x_def y_def)
  let ?n = "64 * x + y"
  have d: "?n div 64 = x" "?n mod 64 = y" using xy by auto
  have r: "0x80 \<le> ?n" "?n < 0x800" using xy by auto
  then have u: "unat (of_nat ?n :: u32) = ?n" by (intro unat_of_nat_u32) simp
  have "map unat (utf8_bytes 2 (of_nat ?n)) = map unat [a, b]"
    using map_unat_utf8_bytes(2) [of "of_nat ?n"] r d xy by (simp only: u) simp
  moreover have "utf8_len (of_nat ?n) = 2" using r by (simp only: utf8_len_nat u) simp
  ultimately have "utf8_units (of_nat ?n) = [a, b]" by (rule utf8_units_of_nat)
  moreover have "scalar (of_nat ?n)" using r by (simp only: scalar_nat u) simp
  ultimately show ?thesis by blast
qed

lemma encoded3:
  assumes a: "224 \<le> unat a" "unat a < 240" and b: "128 \<le> unat b" "unat b \<le> 191"
    and c: "128 \<le> unat c" "unat c \<le> 191"
    and ex: "unat a = 224 \<longrightarrow> 160 \<le> unat b" "unat a = 237 \<longrightarrow> unat b \<le> 159"
  shows "\<exists>ch. scalar ch \<and> utf8_units ch = [a, b, c]"
proof -
  define x y z where "x = unat a - 224" and "y = unat b - 128" and "z = unat c - 128"
  have xy: "unat a = 224 + x" "unat b = 128 + y" "unat c = 128 + z" "x < 16" "y < 64" "z < 64"
    "x = 0 \<longrightarrow> 32 \<le> y" "x = 13 \<longrightarrow> y < 32"
    using a b c ex by (auto simp: x_def y_def z_def)
  let ?n = "64 * (64 * x + y) + z"
  have d: "?n div 4096 = x" "?n div 64 mod 64 = y" "?n mod 64 = z"
    by (simp_all only: digits64_of xy)
  have r: "0x800 \<le> ?n" "?n < 0x10000" "\<not> (0xD800 \<le> ?n \<and> ?n \<le> 0xDFFF)"
    using xy(4-8) by (cases x "13 :: nat" rule: linorder_cases; cases "x = 0"; simp)+
  then have u: "unat (of_nat ?n :: u32) = ?n" by (intro unat_of_nat_u32) simp
  have "map unat (utf8_bytes 3 (of_nat ?n)) = map unat [a, b, c]"
    using map_unat_utf8_bytes(3) [of "of_nat ?n"] r d xy by (simp only: u) simp
  moreover have "utf8_len (of_nat ?n) = 3" using r by (simp only: utf8_len_nat u) simp
  ultimately have "utf8_units (of_nat ?n) = [a, b, c]" by (rule utf8_units_of_nat)
  moreover have "scalar (of_nat ?n)" using r by (simp only: scalar_nat u) simp
  ultimately show ?thesis by blast
qed

lemma encoded4:
  assumes a: "240 \<le> unat a" "unat a \<le> 244" and b: "128 \<le> unat b" "unat b \<le> 191"
    and c: "128 \<le> unat c" "unat c \<le> 191" and e: "128 \<le> unat e" "unat e \<le> 191"
    and ex: "unat a = 240 \<longrightarrow> 144 \<le> unat b" "unat a = 244 \<longrightarrow> unat b \<le> 143"
  shows "\<exists>ch. scalar ch \<and> utf8_units ch = [a, b, c, e]"
proof -
  define x y z w where "x = unat a - 240" and "y = unat b - 128" and "z = unat c - 128" and "w = unat e - 128"
  have xy: "unat a = 240 + x" "unat b = 128 + y" "unat c = 128 + z" "unat e = 128 + w"
    "x \<le> 4" "y < 64" "z < 64" "w < 64" "x = 0 \<longrightarrow> 16 \<le> y" "x = 4 \<longrightarrow> y < 16"
    using a b c e ex by (auto simp: x_def y_def z_def w_def)
  let ?n = "64 * (64 * (64 * x + y) + z) + w"
  have d: "?n div 262144 = x" "?n div 4096 mod 64 = y" "?n div 64 mod 64 = z" "?n mod 64 = w"
    by (simp_all only: digits64_of xy)
  have r: "0x10000 \<le> ?n" "?n \<le> 0x10FFFF"
    using xy(5-10) by auto
  then have u: "unat (of_nat ?n :: u32) = ?n" by (intro unat_of_nat_u32)
  have "map unat (utf8_bytes 4 (of_nat ?n)) = map unat [a, b, c, e]"
    using map_unat_utf8_bytes(4) [of "of_nat ?n"] r d xy by (simp only: u) simp
  moreover have "utf8_len (of_nat ?n) = 4" using r by (simp only: utf8_len_nat u) simp
  ultimately have "utf8_units (of_nat ?n) = [a, b, c, e]" by (rule utf8_units_of_nat)
  moreover have "scalar (of_nat ?n)" using r by (simp only: scalar_nat u) simp
  ultimately show ?thesis by blast
qed

text \<open>The ill-formed sequences that pass: the second byte after ED or F4 has no lower bound.\<close>

definition low_second :: "UTF8 list \<Rightarrow> bool" where
  "low_second source =
     (case source of
        a # b # c # t \<Rightarrow> unat b < 0x80 \<and> continuation_ok c \<and>
          (a = 0xED \<or> a = 0xF4 \<and> t \<noteq> [] \<and> continuation_ok (hd t))
      | _ \<Rightarrow> False)"

lemma encoded_appI: "\<exists>c. scalar c \<and> utf8_units c = bs \<Longrightarrow> \<exists>c t'. scalar c \<and> bs @ t = utf8_units c @ t'"
  by blast

lemma trailing_range_nat:
  assumes "k < 256"
  shows "trailingBytesForUTF8 ! k = 0 \<Longrightarrow> k < 192"
    and "trailingBytesForUTF8 ! k = 1 \<Longrightarrow> 192 \<le> k \<and> k < 224"
    and "trailingBytesForUTF8 ! k = 2 \<Longrightarrow> 224 \<le> k \<and> k < 240"
    and "trailingBytesForUTF8 ! k = 3 \<Longrightarrow> 240 \<le> k"
  by (simp_all add: trailing_nat [OF assms] split: if_splits)

lemmas trailing_range = trailing_range_nat [OF unat_u8_less]

lemma isLegalUTF8Sequence_sound:
  assumes "isLegalUTF8Sequence source" and "source \<noteq> []" and low: "\<not> low_second source"
  shows "\<exists>c t. scalar c \<and> source = utf8_units c @ t"
proof -
  obtain a t where s: "source = a # t" using assms(2) by (cases source) auto
  define len where "len = trailingBytesForUTF8 ! unat a + 1"
  have L: "len \<le> length source" "isLegalUTF8 source len"
    using assms(1) by (auto simp: isLegalUTF8Sequence_def s len_def split: if_splits)
  from L(2) consider "len = 1" | "len = 2" | "len = 3" | "len = 4"
    by (auto simp: isLegalUTF8_def Let_def split: if_splits)
  then show ?thesis
  proof cases
    case 1
    then have "unat a < 192" by (intro trailing_range) (simp add: len_def)
    moreover have "first_byte_ok a" using L(2) 1 by (simp add: isLegalUTF8_def s)
    ultimately have "unat a < 0x80" by (auto simp: legal_nat)
    from encoded_appI [OF encoded1 [OF this], of t] show ?thesis by (simp add: s)
  next
    case 2
    then obtain b u where t: "t = b # u" using L by (cases t) (auto simp: s)
    have "192 \<le> unat a \<and> unat a < 224" using 2 by (intro trailing_range) (simp add: len_def)
    moreover have "first_byte_ok a" "second_byte_ok a b" using L(2) 2 by (simp_all add: isLegalUTF8_def s t)
    ultimately have "194 \<le> unat a" "unat a < 224" "128 \<le> unat b" "unat b \<le> 191" by (auto simp: legal_nat)
    from encoded_appI [OF encoded2 [OF this], of u] show ?thesis by (simp add: s t)
  next
    case 3
    then obtain b c u where t: "t = b # c # u" using L by (auto simp: s Suc_le_length_iff numeral_3_eq_3)
    have "224 \<le> unat a \<and> unat a < 240" using 3 by (intro trailing_range) (simp add: len_def)
    moreover have "continuation_ok c" "second_byte_ok a b"
      using L(2) 3 by (simp_all add: isLegalUTF8_def s t numeral_2_eq_2)
    moreover from this low have "unat a = 237 \<longrightarrow> 128 \<le> unat b"
      by (auto simp: low_second_def s t word_unat_eq_iff)
    ultimately have "224 \<le> unat a" "unat a < 240" "128 \<le> unat b" "unat b \<le> 191" "128 \<le> unat c" "unat c \<le> 191"
      "unat a = 224 \<longrightarrow> 160 \<le> unat b" "unat a = 237 \<longrightarrow> unat b \<le> 159"
      by (auto simp: legal_nat split: if_splits)
    from encoded_appI [OF encoded3 [OF this], of u] show ?thesis by (simp add: s t)
  next
    case 4
    then obtain b c d u where t: "t = b # c # d # u"
      using L by (auto simp: s Suc_le_length_iff eval_nat_numeral)
    have "240 \<le> unat a" using 4 by (intro trailing_range) (simp add: len_def)
    moreover have "continuation_ok c" "continuation_ok d" "second_byte_ok a b" "first_byte_ok a"
      using L(2) 4 by (simp_all add: isLegalUTF8_def s t numeral_2_eq_2 numeral_3_eq_3)
    moreover from this low have "unat a = 244 \<longrightarrow> 128 \<le> unat b"
      by (auto simp: low_second_def s t word_unat_eq_iff)
    ultimately have "240 \<le> unat a" "unat a \<le> 244" "128 \<le> unat b" "unat b \<le> 191" "128 \<le> unat c" "unat c \<le> 191"
      "128 \<le> unat d" "unat d \<le> 191" "unat a = 240 \<longrightarrow> 144 \<le> unat b" "unat a = 244 \<longrightarrow> unat b \<le> 143"
      by (auto simp: legal_nat split: if_splits)
    from encoded_appI [OF encoded4 [OF this], of u] show ?thesis by (simp add: s t)
  qed
qed

lemma isLegalUTF8Sequence_low:
  assumes "low_second source"
  shows "isLegalUTF8Sequence source"
proof -
  obtain a b c t where s: "source = a # b # c # t"
    using assms by (auto simp: low_second_def split: list.splits)
  have bc: "unat b < 128" "continuation_ok c" using assms by (simp_all add: s low_second_def)
  from assms consider "unat a = 237" | d u where "unat a = 244" "t = d # u" "continuation_ok d"
    by (auto simp: s low_second_def neq_Nil_conv)
  then show ?thesis
    using bc by cases
      (simp_all add: s isLegalUTF8Sequence_def trailing_nat isLegalUTF8_def legal_nat numeral_2_eq_2 numeral_3_eq_3)
qed

text \<open>
  C34. What \<open>isLegalUTF8Sequence\<close> accepts, exactly: a non-empty buffer passes if and only if it
  starts with the UTF-8 encoding of a scalar value (no overlong form, no surrogate, nothing above
  10FFFF), or it starts with ED or F4 followed by a second byte below 80 and continuation bytes. The
  second half should not be there: the cases for ED and F4 test only an upper bound.
\<close>

theorem isLegalUTF8Sequence_exact:
  assumes "source \<noteq> []"
  shows "isLegalUTF8Sequence source \<longleftrightarrow>
    (\<exists>c t. scalar c \<and> source = utf8_units c @ t) \<or> low_second source"
proof -
  have "isLegalUTF8Sequence (utf8_units c @ t)" if c: "scalar c" for c t
  proof -
    obtain b bs where "utf8_units c = b # bs" "trailingBytesForUTF8 ! unat b = length bs"
      "isLegalUTF8 (b # bs @ t) (Suc (length bs))" "utf8_read (b # bs @ t) (length bs) = c"
      by (rule utf8_units_read [OF c])
    then show ?thesis by (simp add: isLegalUTF8Sequence_def)
  qed
  with assms show ?thesis
    using isLegalUTF8Sequence_sound isLegalUTF8Sequence_low by blast
qed

theorem isLegalUTF8Sequence_exact_witness:
  "isLegalUTF8Sequence [0xED, 0x41, 0x80] \<and> low_second [0xED, 0x41, 0x80] \<and>
   \<not> isLegalUTF8Sequence [0xC0, 0x80] \<and> (\<nexists>c t. scalar c \<and> [0xC0, 0x80] = utf8_units c @ t)"
proof -
  have low: "low_second [0xED, 0x41, 0x80]" by (simp add: low_second_def continuation_ok_def)
  have "\<not> isLegalUTF8Sequence [0xC0, 0x80]"
    by (simp add: isLegalUTF8Sequence_def trailing_nat isLegalUTF8_def legal_nat)
  then show ?thesis
    using low isLegalUTF8Sequence_exact [of "[0xED, 0x41, 0x80]"]
      isLegalUTF8Sequence_exact [of "[0xC0, 0x80]"] by simp
qed

end
