(* ===== verification/String_Conversion.thy ===== *)
theory String_Conversion
  imports Convert_UTF
begin

text \<open>
  \<^verbatim>\<open>common/string_conversion.cc\<close>: conversions between the strings of the program and UTF-16, on top of the
  converters of \<^verbatim>\<open>convert_UTF.cc\<close>.

  A source string is the list of its units before the terminating NUL. A \<open>std::vector\<close> has a size and
  a capacity, and the code lets the converter write up to the capacity: the capacity is an argument.
  The buffer that \<open>UTF16ToUTF8\<close> allocates is not initialised, so its contents are an argument too. \<open>None\<close>
  is an access outside a buffer. \<open>UTF32\<close> is 32 bits wide, as on the 32-bit targets of the build.
\<close>

section \<open>Vectors\<close>

text \<open>
  A vector of \<open>size0\<close> zeros into which \<open>us\<close> was written from the start, after \<open>resize (n)\<close>: elements past the
  old size are zero, whatever was written there.
\<close>

definition vector_resize :: "nat \<Rightarrow> UTF16 list \<Rightarrow> nat \<Rightarrow> UTF16 list" where
  "vector_resize size0 us n = take n (take size0 (us @ replicate size0 0) @ replicate n 0)"

lemma vector_resize_terminates:
  assumes "length us \<le> size0"
  shows "vector_resize size0 us (length us + 1) = us @ [0]"
proof -
  obtain k where "size0 = length us + k" using assms le_Suc_ex by blast
  then show ?thesis by (cases k) (simp_all add: vector_resize_def take_Cons')
qed

section \<open>The conversions\<close>

definition UTF8ToUTF16 :: "bytes \<Rightarrow> nat \<Rightarrow> UTF16 list option" where
  "UTF8ToUTF16 inp capacity =
     (case ConvertUTF8toUTF16 strictConversion inp capacity of
        None \<Rightarrow> None
      | Some (result, _, us) \<Rightarrow>
          Some (vector_resize (length inp) us (if result = conversionOK then length us + 1 else 0)))"

text \<open>
  \<open>UTF8ToUTF16Char\<close> retries with one byte more until a conversion succeeds or the input ends. The target
  pointer is not reset between the attempts: \<open>us\<close> holds what was written so far. The result is the number of
  bytes used and the units in \<open>out\<close>.
\<close>

function utf8_char_loop :: "bytes \<Rightarrow> int \<Rightarrow> nat \<Rightarrow> UTF16 list \<Rightarrow> (nat \<times> UTF16 list) option" where
  "utf8_char_loop inp in_length n us =
     (case ConvertUTF8toUTF16 strictConversion (take n inp) (2 - length us) of
        None \<Rightarrow> None
      | Some (result, rest, ws) \<Rightarrow>
          if result = conversionOK then Some (n - length rest, us @ ws)
          else if in_length < int (n + 1) then Some (0, us @ ws)
          else utf8_char_loop inp in_length (n + 1) (us @ ws))"
  by pat_completeness auto
termination
  by (relation "measure (\<lambda>(inp, in_length, n, us). nat (in_length + 1) - n)") auto

declare utf8_char_loop.simps [simp del]

definition out_pair :: "UTF16 list \<Rightarrow> UTF16 list" where
  "out_pair us = take 2 (us @ [0, 0])"

definition UTF8ToUTF16Char :: "bytes \<Rightarrow> int \<Rightarrow> (nat \<times> UTF16 list) option" where
  "UTF8ToUTF16Char inp in_length =
     map_option (\<lambda>(n, us). (n, out_pair us)) (utf8_char_loop inp in_length 1 [])"

definition UTF32ToUTF16 :: "UTF32 list \<Rightarrow> nat \<Rightarrow> UTF16 list option" where
  "UTF32ToUTF16 inp capacity =
     (case ConvertUTF32toUTF16 strictConversion conversionOK inp capacity of
        None \<Rightarrow> None
      | Some (result, _, us) \<Rightarrow>
          Some (vector_resize (length inp) us (if result = conversionOK then length us + 1 else 0)))"

definition UTF32ToUTF16Char :: "UTF32 \<Rightarrow> UTF16 list option" where
  "UTF32ToUTF16Char inp =
     (case ConvertUTF32toUTF16 strictConversion conversionOK [inp] 2 of
        None \<Rightarrow> None
      | Some (result, _, us) \<Rightarrow> Some (if result \<noteq> conversionOK then [0, 0] else out_pair us))"

definition Swap :: "UTF16 \<Rightarrow> UTF16" where
  "Swap v = drop_bit 8 v OR push_bit 8 v"

text \<open>
  \<open>junk\<close> is what the target buffer holds before the conversion; the result is read from it up to the first
  NUL, and a buffer without one is read past its end.
\<close>

definition UTF16ToUTF8 :: "UTF16 list \<Rightarrow> bool \<Rightarrow> bytes \<Rightarrow> bytes option" where
  "UTF16ToUTF8 inp swap junk =
     (let source = (if swap then map Swap inp else inp);
          target_capacity = length inp * 4
      in case ConvertUTF16toUTF8 strictConversion source target_capacity of
           None \<Rightarrow> None
         | Some (result, _, bs) \<Rightarrow>
             if result = conversionOK then
               let buffer = bs @ drop (length bs) (take target_capacity junk)
               in if nul_terminated buffer then Some (cstr buffer) else None
             else Some [])"

section \<open>Units of scalar values\<close>

lemma length_utf16_units: "length (utf16_units c) = (if c \<le> 0xFFFF then 1 else 2)"
  by (simp add: utf16_units_def uni_defs)

lemma utf16_shorter: "scalar c \<Longrightarrow> length (utf16_units c) \<le> length (utf8_units c)"
  by (auto simp: length_utf8_units length_utf16_units utf8_len_def word_less_nat_alt word_le_nat_alt)

lemma utf16_le_utf8: "list_all scalar cs \<Longrightarrow> length (concat (map utf16_units cs)) \<le> length (concat (map utf8_units cs))"
  using utf16_shorter by (induction cs) (fastforce simp: add_mono)+

lemma utf8_le_utf16: "scalar c \<Longrightarrow> length (utf8_units c) \<le> 4 * length (utf16_units c)"
  by (auto simp: length_utf8_units length_utf16_units utf8_len_def)

lemma utf8_le_utf16s: "list_all scalar cs \<Longrightarrow> length (concat (map utf8_units cs)) \<le> 4 * length (concat (map utf16_units cs))"
  using utf8_le_utf16 by (induction cs) (fastforce simp: add_mono)+

lemma converted_all:
  "length (concat (map encT cs)) \<le> room \<Longrightarrow> converted encS encT cs room = (conversionOK, [], concat (map encT cs))"
  by (simp add: converted_def fitting_all)

lemma fitting_not_all: "room < length (concat (map enc cs)) \<Longrightarrow> fitting enc cs room \<noteq> length cs"
  using fitting_room [of enc cs room] by auto

lemma bit_Swap: "bit (Swap v) n \<longleftrightarrow> n < 16 \<and> bit v (if n < 8 then n + 8 else n - 8)"
  by (auto simp: Swap_def bit_simps add.commute dest: bit_imp_le_length)

lemma Swap_Swap [simp]: "Swap (Swap v) = v"
  by (rule bit_word_eqI) (auto simp: bit_Swap)

lemma utf8_units_nonzero:
  assumes "scalar c" and "c \<noteq> 0"
  shows "0 \<notin> set (utf8_units c)"
proof -
  have n: "unat c \<le> 0x10FFFF" "unat c \<noteq> 0" using assms by (simp_all add: scalar_nat unat_eq_0)
  have nz: "0 \<notin> set xs" if "map unat xs = ys" "0 \<notin> set ys" for xs :: bytes and ys
    using that by (metis image_eqI list.set_map unsigned_0)
  show ?thesis
    unfolding utf8_units_def utf8_len_def word_less_nat_alt
    using n nz [OF map_unat_utf8_bytes(1), of c] nz [OF map_unat_utf8_bytes(2), of c]
        nz [OF map_unat_utf8_bytes(3), of c] nz [OF map_unat_utf8_bytes(4), of c] by auto
qed

section \<open>One character at a time\<close>

lemma convert_prefix:
  assumes "scalar c" and "0 < n" and "n < length (utf8_units c)"
  shows "\<exists>rest. ConvertUTF8toUTF16 flags (take n (utf8_units c @ t)) room = Some (sourceExhausted, rest, [])"
proof -
  obtain b bs where u: "utf8_units c = b # bs" "trailingBytesForUTF8 ! unat b = length bs"
    by (rule utf8_units_read [OF assms(1), of "[]"]) auto
  obtain m where "n = Suc m" using assms(2) by (cases n) auto
  then show ?thesis using assms(3) by (simp add: u)
qed

lemma convert_one:
  assumes "scalar c"
  shows "ConvertUTF8toUTF16 flags (utf8_units c) 2 = Some (conversionOK, [], utf16_units c)"
  using write_8to16 [OF assms, of flags "[]" 2] by (simp add: length_utf16_units write_units_def)

lemma utf8_char_loop_scalar:
  assumes "scalar c" and "0 < n" and "n \<le> length (utf8_units c)" and "int (length (utf8_units c)) \<le> in_length"
  shows "utf8_char_loop (utf8_units c @ t) in_length n [] = Some (length (utf8_units c), utf16_units c)"
  using assms(2,3)
proof (induction "length (utf8_units c) - n" arbitrary: n)
  case 0
  then show ?case using convert_one [OF assms(1)] by (simp add: utf8_char_loop.simps [of _ _ n])
next
  case (Suc k)
  then obtain rest where "ConvertUTF8toUTF16 strictConversion (take n (utf8_units c @ t)) 2 = Some (sourceExhausted, rest, [])"
    using convert_prefix [OF assms(1), of n] by fastforce
  moreover have "utf8_char_loop (utf8_units c @ t) in_length (n + 1) [] = Some (length (utf8_units c), utf16_units c)"
    using Suc by (intro Suc.hyps(1)) auto
  moreover have "\<not> in_length < int (n + 1)" using Suc.hyps(2) assms(4) by linarith
  ultimately show ?case using Suc by (simp add: utf8_char_loop.simps [of _ _ n])
qed

lemma UTF8ToUTF16Char_scalar:
  assumes "scalar c" and "int (length (utf8_units c)) \<le> in_length"
  shows "UTF8ToUTF16Char (utf8_units c @ t) in_length = Some (length (utf8_units c), out_pair (utf16_units c))"
proof -
  have "0 < length (utf8_units c)" using assms(1) by (simp add: length_utf8_units utf8_len_def)
  then show ?thesis using utf8_char_loop_scalar [OF assms(1), of 1] assms(2) by (simp add: UTF8ToUTF16Char_def Suc_le_eq)
qed

text \<open>No input makes the loop write outside the two units of \<open>out\<close>.\<close>

lemma utf8_char_loop_safe:
  "length us \<le> 2 \<Longrightarrow> \<exists>n' us'. utf8_char_loop inp in_length n us = Some (n', us') \<and> length us' \<le> 2 \<and> n' \<le> max n (nat in_length)"
proof (induction inp in_length n us rule: utf8_char_loop.induct)
  case (1 inp in_length n us)
  from safe_8to16 [of "take n inp" "2 - length us" strictConversion]
  obtain r rest ws where c: "ConvertUTF8toUTF16 strictConversion (take n inp) (2 - length us) = Some (r, rest, ws)"
    "length ws \<le> 2 - length us"
    by (auto simp: safe_result_def split: option.splits prod.splits)
  show ?case
  proof (cases "r = conversionOK \<or> in_length < int (n + 1)")
    case True
    then show ?thesis using c 1(2) by (auto simp: utf8_char_loop.simps [of _ _ n])
  next
    case False
    then show ?thesis
      using c 1(2) 1(1) [OF c(1) refl refl] by (auto simp: utf8_char_loop.simps [of _ _ n])
  qed
qed

section \<open>Whole strings\<close>

lemma UTF8ToUTF16_scalars:
  assumes "list_all scalar cs" and "length (concat (map utf8_units cs)) \<le> capacity"
  shows "UTF8ToUTF16 (concat (map utf8_units cs)) capacity = Some (concat (map utf16_units cs) @ [0])"
proof -
  have l: "length (concat (map utf16_units cs)) \<le> length (concat (map utf8_units cs))"
    by (rule utf16_le_utf8 [OF assms(1)])
  with assms(2) have "converted utf8_units utf16_units cs capacity = (conversionOK, [], concat (map utf16_units cs))"
    by (intro converted_all) linarith
  then show ?thesis
    using utf8to16.conv_scalars [OF assms(1), of strictConversion capacity] vector_resize_terminates [OF l]
    by (simp add: UTF8ToUTF16_def)
qed

lemma scalar_0: "scalar 0" "utf16_units 0 = [0]" "utf8_units 0 = [0]"
  by (simp_all add: scalar_def utf16_units_def utf8_units_def utf8_len_def uni_defs utf8_bytes_eq(1) [simplified])

lemma UTF16ToUTF8_scalars:
  assumes "list_all (\<lambda>c. scalar c \<and> c \<noteq> 0) cs" and "us = concat (map utf16_units cs) @ [0]"
  shows "UTF16ToUTF8 (if swap then map Swap us else us) swap junk = Some (concat (map utf8_units cs))"
proof -
  have sc: "list_all scalar (cs @ [0])" using assms(1) scalar_0(1) by (auto simp: list_all_iff)
  have us: "us = concat (map utf16_units (cs @ [0]))" by (simp add: assms(2) scalar_0)
  have "converted utf16_units utf8_units (cs @ [0]) (length us * 4) = (conversionOK, [], concat (map utf8_units cs) @ [0])"
    using converted_all [of utf8_units "cs @ [0]" "length us * 4" utf16_units] utf8_le_utf16s [OF sc]
    by (simp add: us scalar_0 del: length_concat)
  then have c: "ConvertUTF16toUTF8 strictConversion us (length us * 4) = Some (conversionOK, [], concat (map utf8_units cs) @ [0])"
    using utf16to8.conv_scalars [OF sc, of strictConversion "length us * 4"] us by simp
  have "0 \<notin> set (concat (map utf8_units cs))" using assms(1) utf8_units_nonzero by (auto simp: list_all_iff)
  then show ?thesis using c by (simp add: UTF16ToUTF8_def Let_def cstr_terminated comp_def)
qed

text \<open>
  C32. Strings survive the way to UTF-16 and back. For a string that is the UTF-8 encoding of scalar values other
  than NUL, \<open>UTF8ToUTF16\<close> gives its UTF-16 encoding with a terminating NUL, for every capacity of the vector,
  and \<open>UTF16ToUTF8\<close>, also on a vector in the other byte order, gives the string again, whatever its buffer held before.
\<close>

theorem string_conversion_roundtrip:
  assumes "list_all (\<lambda>c. scalar c \<and> c \<noteq> 0) cs" and "s = concat (map utf8_units cs)" and "length s \<le> capacity"
  shows "\<exists>us. UTF8ToUTF16 s capacity = Some us \<and> us = concat (map utf16_units cs) @ [0] \<and>
    UTF16ToUTF8 us False junk = Some s \<and> UTF16ToUTF8 (map Swap us) True junk = Some s"
proof -
  have "list_all scalar cs" using assms(1) by (auto simp: list_all_iff)
  then show ?thesis
    using UTF8ToUTF16_scalars [of cs capacity] assms UTF16ToUTF8_scalars [OF assms(1) refl, of False]
      UTF16ToUTF8_scalars [OF assms(1) refl, of True] by simp
qed

theorem string_conversion_roundtrip_witness:
  "\<exists>us. UTF8ToUTF16 (concat (map utf8_units [0x41, 0x20AC, 0x1F600])) 8 = Some us \<and>
     UTF16ToUTF8 us False [] = Some (concat (map utf8_units [0x41, 0x20AC, 0x1F600]))"
proof -
  have s: "list_all (\<lambda>c. scalar c \<and> c \<noteq> 0) [0x41, 0x20AC, 0x1F600]" by (simp add: scalar_def)
  have "list_all scalar [0x41, 0x20AC, 0x1F600]" by (simp add: scalar_def)
  then have "length (concat (map utf8_units [0x41, 0x20AC, 0x1F600])) \<le> 8"
    by (simp add: length_utf8_units utf8_len_def)
  from string_conversion_roundtrip [OF s refl this, of "[]"] show ?thesis by blast
qed

text \<open>
  \<open>UTF32ToUTF16\<close> sizes its vector for one unit per character. A string with a character outside the basic
  plane does not fit when the capacity is the size, and the result is empty.
\<close>

lemma UTF32ToUTF16_supplementary_lost:
  assumes "list_all scalar cs" and "length cs < length (concat (map utf16_units cs))"
  shows "UTF32ToUTF16 cs (length cs) = Some []"
proof -
  have "concat (map utf32_units cs) = cs" by (induction cs) (simp_all add: utf32_units_def)
  then have "ConvertUTF32toUTF16 strictConversion conversionOK cs (length cs) =
      Some (converted utf32_units utf16_units cs (length cs))"
    using utf32to16.conv_scalars [OF assms(1), of strictConversion "length cs"] by simp
  then show ?thesis
    using fitting_not_all [OF assms(2)] by (simp add: UTF32ToUTF16_def converted_def Let_def vector_resize_def)
qed

lemma UTF32ToUTF16Char_scalar: "scalar c \<Longrightarrow> UTF32ToUTF16Char c = Some (out_pair (utf16_units c))"
  using write_32to16 [of c strictConversion conversionOK "[]" 2]
  by (simp add: UTF32ToUTF16Char_def length_utf16_units write_units_def del: ConvertUTF32toUTF16.simps(2))

end
