(* ===== verification/C_Layout.thy ===== *)
theory C_Layout
  imports Prelude
begin

text \<open>
  How a C compiler lays a struct out in memory, for the headers that describe a file format by C
  types (\<^verbatim>\<open>google_breakpad/common/minidump_format.h\<close> and the headers it includes).

  An ABI is given by the alignment of a 64-bit integer in a struct: 4 on 32-bit x86 Linux, 8 on the
  other targets of the client. Smaller integers are aligned to their size on all of them.
  \<open>#pragma pack(push, n)\<close> caps the alignment of the members of a struct at \<open>n\<close>.
  The reference against which a layout is measured is \<open>packed\<close>: the members one after the
  other, with nothing in between.
\<close>

datatype ctype =
    CInt nat
  | CArr ctype nat
  | CStruct nat "(string \<times> ctype) list"
  | CUnion "(string \<times> ctype) list"

abbreviation uint8_t :: ctype where "uint8_t \<equiv> CInt 1"
abbreviation uint16_t :: ctype where "uint16_t \<equiv> CInt 2"
abbreviation uint32_t :: ctype where "uint32_t \<equiv> CInt 4"
abbreviation uint64_t :: ctype where "uint64_t \<equiv> CInt 8"
abbreviation int32_t :: ctype where "int32_t \<equiv> CInt 4"

text \<open>A struct without a pack pragma: no member is aligned to more than 16.\<close>

abbreviation struct :: "(string \<times> ctype) list \<Rightarrow> ctype" where "struct \<equiv> CStruct 16"

section \<open>Sizes, alignments and offsets\<close>

definition align_up :: "nat \<Rightarrow> nat \<Rightarrow> nat" where
  "align_up n a = n + (a - n mod a) mod a"

lemma align_up_ge: "n \<le> align_up n a"
  by (simp add: align_up_def)

lemma align_up_dvd: "0 < a \<Longrightarrow> a dvd align_up n a"
proof (cases "n mod a = 0")
  case False
  moreover assume "0 < a"
  ultimately have "align_up n a = n + (a - n mod a)" and "n mod a < a" by (simp_all add: align_up_def)
  then have "align_up n a = a * (n div a) + a" using mult_div_mod_eq [of a n] by linarith
  then show ?thesis by simp
qed (auto simp: align_up_def)

lemma align_up_less: "0 < a \<Longrightarrow> align_up n a < n + a"
  by (simp add: align_up_def)

fun place :: "nat \<Rightarrow> nat \<Rightarrow> (nat \<times> nat) list \<Rightarrow> nat list \<times> nat" where
  "place p off [] = ([], off)"
| "place p off ((s, a) # ls) =
     (let o1 = align_up off (min a p); (os, e) = place p (o1 + s) ls in (o1 # os, e))"

definition struct_align :: "nat \<Rightarrow> (nat \<times> nat) list \<Rightarrow> nat" where
  "struct_align p ls = foldr (\<lambda>(s, a) m. max (min a p) m) ls 1"

definition struct_size :: "nat \<Rightarrow> (nat \<times> nat) list \<Rightarrow> nat" where
  "struct_size p ls = align_up (snd (place p 0 ls)) (struct_align p ls)"

definition union_size :: "(nat \<times> nat) list \<Rightarrow> nat" where
  "union_size ls = align_up (foldr (\<lambda>(s, a) m. max s m) ls 0) (struct_align 16 ls)"

primrec lay :: "nat \<Rightarrow> ctype \<Rightarrow> nat \<times> nat" where
  "lay al (CInt k) = (k, min k al)"
| "lay al (CArr t n) = (n * fst (lay al t), snd (lay al t))"
| "lay al (CStruct p fs) =
     (let ls = map snd (map (map_prod id (lay al)) fs) in (struct_size p ls, struct_align p ls))"
| "lay al (CUnion fs) =
     (let ls = map snd (map (map_prod id (lay al)) fs) in (union_size ls, struct_align 16 ls))"

definition sizeof :: "nat \<Rightarrow> ctype \<Rightarrow> nat" where "sizeof al t = fst (lay al t)"
definition alignof :: "nat \<Rightarrow> ctype \<Rightarrow> nat" where "alignof al t = snd (lay al t)"

fun members :: "ctype \<Rightarrow> (string \<times> ctype) list" where
  "members (CStruct p fs) = fs"
| "members (CUnion fs) = fs"
| "members _ = []"

fun offsets :: "nat \<Rightarrow> ctype \<Rightarrow> nat list" where
  "offsets al (CStruct p fs) = fst (place p 0 (map (lay al \<circ> snd) fs))"
| "offsets al (CUnion fs) = map (\<lambda>_. 0) fs"
| "offsets al _ = []"

text \<open>\<open>offsetof(t, m)\<close>, \<open>None\<close> when there is no such member.\<close>

definition offsetof :: "nat \<Rightarrow> ctype \<Rightarrow> string \<Rightarrow> nat option" where
  "offsetof al t m = map_of (zip (map fst (members t)) (offsets al t)) m"

lemma place_end_simps [simp]:
  "snd (place p off []) = off"
  "snd (place p off ((s, a) # ls)) = snd (place p (align_up off (min a p) + s) ls)"
  by (simp_all add: Let_def split: prod.split)

lemma place_start_simps [simp]:
  "fst (place p off []) = []"
  "fst (place p off ((s, a) # ls)) = align_up off (min a p) # fst (place p (align_up off (min a p) + s) ls)"
  by (simp_all add: Let_def split: prod.split)

lemma align_up_numeral:
  "align_up (numeral m) (numeral k) = numeral m + (numeral k - numeral m mod numeral k) mod numeral k"
  "align_up 1 (numeral k) = 1 + (numeral k - 1 mod numeral k) mod numeral k"
  "align_up 0 a = 0" "align_up n 1 = n"
  by (simp_all add: align_up_def)

lemma struct_align_simps:
  "struct_align p [] = 1" "struct_align p ((s, a) # ls) = max (min a p) (struct_align p ls)"
  by (simp_all add: struct_align_def)

lemmas layout_simps = sizeof_def alignof_def struct_size_def struct_align_simps union_size_def
  align_up_numeral Let_def

lemmas layout_del = place.simps One_nat_def add_2_eq_Suc add_2_eq_Suc'

section \<open>Values in memory and in the file\<close>

datatype cvalue = VInt nat | VArr "cvalue list" | VStruct "cvalue list" | VUnion nat cvalue

fun le_int :: "nat \<Rightarrow> nat \<Rightarrow> bytes" where
  "le_int 0 n = []"
| "le_int (Suc k) n = of_nat n # le_int k (n div 256)"

fun le_nat :: "bytes \<Rightarrow> nat" where
  "le_nat [] = 0"
| "le_nat (b # bs) = unat b + 256 * le_nat bs"

lemma le_int_simps [simp]:
  "le_int (numeral k) n = of_nat n # le_int (pred_numeral k) (n div 256)"
  "le_int 1 n = [of_nat n]"
  by (subst numeral_eq_Suc, rule le_int.simps(2)) simp

fun has_type :: "ctype \<Rightarrow> cvalue \<Rightarrow> bool" where
  "has_type (CInt k) (VInt n) \<longleftrightarrow> n < 256 ^ k"
| "has_type (CArr t m) (VArr vs) \<longleftrightarrow> length vs = m \<and> list_all (has_type t) vs"
| "has_type (CStruct p []) (VStruct vs) \<longleftrightarrow> vs = []"
| "has_type (CStruct p (f # fs)) (VStruct vs) \<longleftrightarrow>
     (case vs of [] \<Rightarrow> False | v # vs' \<Rightarrow> has_type (snd f) v \<and> has_type (CStruct p fs) (VStruct vs'))"
| "has_type (CUnion fs) (VUnion i v) \<longleftrightarrow> i < length fs \<and> has_type (snd (fs ! i)) v"
| "has_type _ _ \<longleftrightarrow> False"

text \<open>What the compiler puts in memory for a value: the members at their offsets, zero bytes between.\<close>

function (sequential) store :: "nat \<Rightarrow> ctype \<Rightarrow> cvalue \<Rightarrow> bytes"
  and store_fields :: "nat \<Rightarrow> nat \<Rightarrow> nat \<Rightarrow> (string \<times> ctype) list \<Rightarrow> cvalue list \<Rightarrow> bytes" where
  "store al (CInt k) (VInt n) = le_int k n"
| "store al (CArr t m) (VArr vs) = concat (map (store al t) vs)"
| "store al (CStruct p fs) (VStruct vs) =
     (let b = store_fields al p 0 fs vs in b @ replicate (sizeof al (CStruct p fs) - length b) 0)"
| "store al (CUnion fs) (VUnion i v) =
     (let b = (if i < length fs then store al (snd (fs ! i)) v else [])
      in b @ replicate (sizeof al (CUnion fs) - length b) 0)"
| "store_fields al p off (f # fs) (v # vs) =
     (let o1 = align_up off (min (alignof al (snd f)) p)
      in replicate (o1 - off) 0 @ store al (snd f) v @ store_fields al p (o1 + sizeof al (snd f)) fs vs)"
| "store_fields al p off [] vs = []"
| "store_fields al p off (f # fs) [] = []"
| "store al _ _ = []"
  by pat_completeness auto
termination
  by (relation "measure (\<lambda>x. case x of Inl (al, t, v) \<Rightarrow> size v | Inr (al, p, off, fs, vs) \<Rightarrow> size_list size vs)")
    (auto simp: less_Suc_eq_le intro: size_list_estimation')

text \<open>The reference: no byte that is not part of a member, apart from the unused end of a union.\<close>

primrec psize :: "ctype \<Rightarrow> nat" where
  "psize (CInt k) = k"
| "psize (CArr t m) = m * psize t"
| "psize (CStruct p fs) = sum_list (map snd (map (map_prod id psize) fs))"
| "psize (CUnion fs) = foldr max (map snd (map (map_prod id psize) fs)) 0"

function (sequential) packed :: "ctype \<Rightarrow> cvalue \<Rightarrow> bytes"
  and packed_fields :: "(string \<times> ctype) list \<Rightarrow> cvalue list \<Rightarrow> bytes" where
  "packed (CInt k) (VInt n) = le_int k n"
| "packed (CArr t m) (VArr vs) = concat (map (packed t) vs)"
| "packed (CStruct p fs) (VStruct vs) = packed_fields fs vs"
| "packed (CUnion fs) (VUnion i v) =
     (let b = (if i < length fs then packed (snd (fs ! i)) v else [])
      in b @ replicate (psize (CUnion fs) - length b) 0)"
| "packed_fields (f # fs) (v # vs) = packed (snd f) v @ packed_fields fs vs"
| "packed_fields _ _ = []"
| "packed _ _ = []"
  by pat_completeness auto
termination
  by (relation "measure (\<lambda>x. case x of Inl (t, v) \<Rightarrow> size v | Inr (fs, vs) \<Rightarrow> size_list size vs)")
    (auto simp: less_Suc_eq_le intro: size_list_estimation')

text \<open>A type without padding anywhere inside, and one whose only padding is at its end.\<close>

primrec tight :: "nat \<Rightarrow> ctype \<Rightarrow> bool" where
  "tight al (CInt k) \<longleftrightarrow> True"
| "tight al (CArr t m) \<longleftrightarrow> tight al t"
| "tight al (CStruct p fs) \<longleftrightarrow>
     sizeof al (CStruct p fs) = psize (CStruct p fs) \<and> list_all snd (map (map_prod id (tight al)) fs)"
| "tight al (CUnion fs) \<longleftrightarrow>
     sizeof al (CUnion fs) = psize (CUnion fs) \<and> list_all snd (map (map_prod id (tight al)) fs)"

fun tail_padded :: "nat \<Rightarrow> ctype \<Rightarrow> bool" where
  "tail_padded al (CStruct p fs) \<longleftrightarrow>
     snd (place p 0 (map (lay al \<circ> snd) fs)) = psize (CStruct p fs) \<and> list_all (\<lambda>f. tight al (snd f)) fs"
| "tail_padded al t \<longleftrightarrow> tight al t"

section \<open>Layouts without gaps store what the reference stores\<close>

lemma place_end_ge: "off + sum_list (map fst ls) \<le> snd (place p off ls)"
proof (induction p off ls rule: place.induct)
  case (2 p off s a ls)
  from 2 [OF refl] align_up_ge [of off "min a p"] show ?case
    by (auto simp: Let_def split: prod.split)
qed simp

lemma sizeof_ge_end: "snd (place p 0 (map (lay al \<circ> snd) fs)) \<le> sizeof al (CStruct p fs)"
proof -
  have "map snd (map (map_prod id (lay al)) fs) = map (lay al \<circ> snd) fs" by simp
  then show ?thesis by (simp add: sizeof_def struct_size_def align_up_ge Let_def del: map_map)
qed

lemma tight_sizeof: "tight al t \<Longrightarrow> sizeof al t = psize t"
proof (induction t)
  case (CArr t m)
  then show ?case by (simp add: sizeof_def)
qed (simp_all add: sizeof_def)

lemma length_le_int [simp]: "length (le_int k n) = k"
  by (induction k n rule: le_int.induct) simp_all

lemma le_nat_le_int [simp]: "n < 256 ^ k \<Longrightarrow> le_nat (le_int k n) = n"
proof (induction k arbitrary: n)
  case (Suc k)
  have "n div 256 < 256 ^ k" using Suc.prems by (simp add: less_mult_imp_div_less mult.commute)
  moreover have "unat (of_nat n :: u8) = n mod 256" by (simp add: unsigned_of_nat take_bit_eq_mod)
  ultimately show ?case using Suc.IH by simp
qed simp

lemma foldr_max_ge: "x \<in> set xs \<Longrightarrow> x \<le> foldr max xs (0 :: nat)"
  by (induction xs) (auto simp: le_max_iff_disj)

lemma length_packed: "has_type t v \<Longrightarrow> length (packed t v) = psize t"
proof (induction t v rule: has_type.induct)
  case (2 t m vs)
  then have "v \<in> set vs \<Longrightarrow> length (packed t v) = psize t" for v by (simp add: list_all_iff)
  then have "map (length \<circ> packed t) vs = map (\<lambda>_. psize t) vs" by simp
  with 2 show ?case by (simp add: length_concat map_replicate_const sum_list_replicate)
next
  case (4 p f fs vs)
  then show ?case by (cases vs) simp_all
next
  case (5 fs i v)
  have "psize (snd (fs ! i)) \<in> set (map (snd \<circ> map_prod id psize) fs)"
    if "i < length fs" using that by (force simp: in_set_conv_nth)
  with 5 foldr_max_ge show ?case by (simp add: Let_def)
qed simp_all

lemma place_tight:
  assumes "snd (place p off (map (lay al \<circ> snd) (f # fs))) = off + sum_list (map (psize \<circ> snd) (f # fs))"
    and "list_all (\<lambda>g. tight al (snd g)) (f # fs)"
  shows "align_up off (min (alignof al (snd f)) p) = off"
    and "snd (place p (off + sizeof al (snd f)) (map (lay al \<circ> snd) fs)) =
      off + sizeof al (snd f) + sum_list (map (psize \<circ> snd) fs)"
proof -
  let ?o = "align_up off (min (alignof al (snd f)) p)"
  obtain s a where sa: "lay al (snd f) = (s, a)" by (cases "lay al (snd f)")
  have s: "s = psize (snd f)" "s = sizeof al (snd f)"
    using assms(2) tight_sizeof [of al "snd f"] by (simp_all add: sizeof_def sa)
  have e: "snd (place p (?o + s) (map (lay al \<circ> snd) fs)) = off + s + sum_list (map (psize \<circ> snd) fs)"
    using assms(1) by (simp add: sa s alignof_def Let_def split: prod.splits)
  have "map (fst \<circ> (lay al \<circ> snd)) fs = map (psize \<circ> snd) fs"
    using assms(2) tight_sizeof by (auto simp: sizeof_def list_all_iff)
  with place_end_ge [of "?o + s" "map (lay al \<circ> snd) fs" p]
  have "?o + s + sum_list (map (psize \<circ> snd) fs) \<le> snd (place p (?o + s) (map (lay al \<circ> snd) fs))" by simp
  with e show "?o = off" using align_up_ge [of off "min (alignof al (snd f)) p"] by simp
  with e s show "snd (place p (off + sizeof al (snd f)) (map (lay al \<circ> snd) fs)) =
      off + sizeof al (snd f) + sum_list (map (psize \<circ> snd) fs)" by simp
qed

lemma tight_end:
  assumes "tight al (CStruct p fs)"
  shows "snd (place p 0 (map (lay al \<circ> snd) fs)) = sum_list (map (psize \<circ> snd) fs)"
    and "list_all (\<lambda>g. tight al (snd g)) fs"
proof -
  show t: "list_all (\<lambda>g. tight al (snd g)) fs" using assms by (simp add: list_all_iff)
  have m: "map fst (map (lay al \<circ> snd) fs) = map (psize \<circ> snd) fs"
    using t tight_sizeof by (auto simp: sizeof_def list_all_iff)
  have "sizeof al (CStruct p fs) = sum_list (map (psize \<circ> snd) fs)" using assms by simp
  then show "snd (place p 0 (map (lay al \<circ> snd) fs)) = sum_list (map (psize \<circ> snd) fs)"
    using place_end_ge [of 0 "map (lay al \<circ> snd) fs" p] sizeof_ge_end [of p al fs]
    unfolding m by simp
qed

lemma store_packed:
  "tight al t \<and> has_type t v \<longrightarrow> store al t v = packed t v"
  "snd (place p off (map (lay al \<circ> snd) fs)) = off + sum_list (map (psize \<circ> snd) fs) \<and>
   list_all (\<lambda>g. tight al (snd g)) fs \<and> has_type (CStruct p fs) (VStruct vs) \<longrightarrow>
   store_fields al p off fs vs = packed_fields fs vs"
proof (induction al t v and al p off fs vs rule: store_store_fields.induct)
  case (2 al t m vs)
  then show ?case by (auto simp: list_all_iff intro!: arg_cong [of _ _ concat] map_cong)
next
  case (3 al p fs vs)
  show ?case
  proof
    assume a: "tight al (CStruct p fs) \<and> has_type (CStruct p fs) (VStruct vs)"
    then have "store_fields al p 0 fs vs = packed_fields fs vs" 
      using 3 tight_end [of al p fs] by (simp add: comp_def)
    moreover have "length (packed_fields fs vs) = sizeof al (CStruct p fs)"
      using length_packed [of "CStruct p fs" "VStruct vs"] tight_sizeof [of al "CStruct p fs"] a by simp
    ultimately show "store al (CStruct p fs) (VStruct vs) = packed (CStruct p fs) (VStruct vs)" by simp
  qed
next
  case (4 al fs i v)
  then show ?case using tight_sizeof [of al "CUnion fs"] by (auto simp: list_all_iff Let_def)
next
  case (5 al p off f fs v vs)
  show ?case
  proof
    assume a: "snd (place p off (map (lay al \<circ> snd) (f # fs))) = off + sum_list (map (psize \<circ> snd) (f # fs)) \<and>
      list_all (\<lambda>g. tight al (snd g)) (f # fs) \<and> has_type (CStruct p (f # fs)) (VStruct (v # vs))"
    with place_tight [of p off al f fs] 5
    show "store_fields al p off (f # fs) (v # vs) = packed_fields (f # fs) (v # vs)"
      by (simp add: Let_def comp_def)
  qed
qed simp_all

text \<open>
  A struct whose only padding is at its end: the first \<open>psize\<close> bytes are the reference.
\<close>

lemma store_tail_padded:
  assumes "tail_padded al (CStruct p fs)" and "has_type (CStruct p fs) v"
  shows "take (psize (CStruct p fs)) (store al (CStruct p fs) v) = packed (CStruct p fs) v"
proof -
  obtain vs where v: "v = VStruct vs" using assms(2) by (cases fs; cases v) simp_all
  have "store_fields al p 0 fs vs = packed_fields fs vs"
    using assms store_packed(2) [of p 0 al fs vs] by (simp add: v comp_def)
  moreover have "length (packed_fields fs vs) = psize (CStruct p fs)"
    using length_packed [OF assms(2)] by (simp add: v)
  ultimately show ?thesis by (simp add: v)
qed

lemma length_store_struct:
  assumes "t = CStruct p fs" and "tail_padded al t" and "has_type t v"
  shows "length (store al t v) = sizeof al t"
proof -
  obtain vs where v: "v = VStruct vs" using assms(1,3) by (cases fs; cases v) simp_all
  have "store_fields al p 0 fs vs = packed_fields fs vs"
    using assms store_packed(2) [of p 0 al fs vs] by (simp add: v comp_def)
  moreover have "length (packed_fields fs vs) = psize (CStruct p fs)"
    using length_packed [OF assms(3)] by (simp add: v assms(1))
  moreover have "psize (CStruct p fs) \<le> sizeof al (CStruct p fs)"
    using assms(1,2) sizeof_ge_end [of p al fs] by simp
  ultimately show ?thesis by (simp add: v assms(1))
qed

end
