(* ===== verification/Minidump_Contexts.thy ===== *)
theory Minidump_Contexts
  imports C_Layout
begin

text \<open>
  The CPU contexts of a minidump: \<^verbatim>\<open>google_breakpad/common/minidump_cpu_*.h\<close>, with
  \<open>uint128_struct\<close> of \<^verbatim>\<open>breakpad_types.h\<close> and the mask of \<^verbatim>\<open>minidump_format.h\<close>.
  Each struct is its list of members in order, each macro a constant; a register enum is the table of
  its enumerators. \<open>MD_CONTEXT_MIPS_ALL\<close> and \<open>MD_CONTEXT_MIPS64_ALL\<close> are left out: their macros lack
  an operator and do not expand to an expression.
\<close>

unbundle bit_operations_syntax

section \<open>breakpad\_types.h\<close>


definition uint128_struct :: ctype where
  "uint128_struct = struct
     [(''high'', uint64_t),
      (''low'', uint64_t)]"

section \<open>minidump\_format.h: the mask\<close>

definition MD_CONTEXT_IA64 :: u32 where "MD_CONTEXT_IA64 = 0x00080000"

definition MD_CONTEXT_SHX :: u32 where "MD_CONTEXT_SHX = 0x000000c0"

definition MD_CONTEXT_ALPHA :: u32 where "MD_CONTEXT_ALPHA = 0x00020000"

definition MD_CONTEXT_CPU_MASK :: u32 where "MD_CONTEXT_CPU_MASK = 0xffffff00"

section \<open>minidump\_cpu\_x86.h\<close>

definition MD_FLOATINGSAVEAREA_X86_REGISTERAREA_SIZE :: nat where
  "MD_FLOATINGSAVEAREA_X86_REGISTERAREA_SIZE = 80"

definition MDFloatingSaveAreaX86 :: ctype where
  "MDFloatingSaveAreaX86 = struct
     [(''control_word'', uint32_t),
      (''status_word'', uint32_t),
      (''tag_word'', uint32_t),
      (''error_offset'', uint32_t),
      (''error_selector'', uint32_t),
      (''data_offset'', uint32_t),
      (''data_selector'', uint32_t),
      (''register_area'', CArr uint8_t MD_FLOATINGSAVEAREA_X86_REGISTERAREA_SIZE),
      (''cr0_npx_state'', uint32_t)]"

definition MD_CONTEXT_X86_EXTENDED_REGISTERS_SIZE :: nat where
  "MD_CONTEXT_X86_EXTENDED_REGISTERS_SIZE = 512"

definition MDRawContextX86 :: ctype where
  "MDRawContextX86 = struct
     [(''context_flags'', uint32_t),
      (''dr0'', uint32_t),
      (''dr1'', uint32_t),
      (''dr2'', uint32_t),
      (''dr3'', uint32_t),
      (''dr6'', uint32_t),
      (''dr7'', uint32_t),
      (''float_save'', MDFloatingSaveAreaX86),
      (''gs'', uint32_t),
      (''fs'', uint32_t),
      (''es'', uint32_t),
      (''ds'', uint32_t),
      (''edi'', uint32_t),
      (''esi'', uint32_t),
      (''ebx'', uint32_t),
      (''edx'', uint32_t),
      (''ecx'', uint32_t),
      (''eax'', uint32_t),
      (''ebp'', uint32_t),
      (''eip'', uint32_t),
      (''cs'', uint32_t),
      (''eflags'', uint32_t),
      (''esp'', uint32_t),
      (''ss'', uint32_t),
      (''extended_registers'', CArr uint8_t MD_CONTEXT_X86_EXTENDED_REGISTERS_SIZE)]"

definition MD_CONTEXT_X86 :: u32 where "MD_CONTEXT_X86 = 0x00010000"

definition MD_CONTEXT_X86_CONTROL :: u32 where "MD_CONTEXT_X86_CONTROL = MD_CONTEXT_X86 OR 0x00000001"

definition MD_CONTEXT_X86_INTEGER :: u32 where "MD_CONTEXT_X86_INTEGER = MD_CONTEXT_X86 OR 0x00000002"

definition MD_CONTEXT_X86_SEGMENTS :: u32 where "MD_CONTEXT_X86_SEGMENTS = MD_CONTEXT_X86 OR 0x00000004"

definition MD_CONTEXT_X86_FLOATING_POINT :: u32 where
  "MD_CONTEXT_X86_FLOATING_POINT = MD_CONTEXT_X86 OR 0x00000008"

definition MD_CONTEXT_X86_DEBUG_REGISTERS :: u32 where
  "MD_CONTEXT_X86_DEBUG_REGISTERS = MD_CONTEXT_X86 OR 0x00000010"

definition MD_CONTEXT_X86_EXTENDED_REGISTERS :: u32 where
  "MD_CONTEXT_X86_EXTENDED_REGISTERS = MD_CONTEXT_X86 OR 0x00000020"

definition MD_CONTEXT_X86_XSTATE :: u32 where "MD_CONTEXT_X86_XSTATE = MD_CONTEXT_X86 OR 0x00000040"

definition MD_CONTEXT_X86_FULL :: u32 where
  "MD_CONTEXT_X86_FULL = MD_CONTEXT_X86_CONTROL OR MD_CONTEXT_X86_INTEGER OR MD_CONTEXT_X86_SEGMENTS"

definition MD_CONTEXT_X86_ALL :: u32 where
  "MD_CONTEXT_X86_ALL = MD_CONTEXT_X86_FULL OR MD_CONTEXT_X86_FLOATING_POINT OR MD_CONTEXT_X86_DEBUG_REGISTERS OR MD_CONTEXT_X86_EXTENDED_REGISTERS"

section \<open>minidump\_cpu\_amd64.h\<close>

definition MDXmmSaveArea32AMD64 :: ctype where
  "MDXmmSaveArea32AMD64 = struct
     [(''control_word'', uint16_t),
      (''status_word'', uint16_t),
      (''tag_word'', uint8_t),
      (''reserved1'', uint8_t),
      (''error_opcode'', uint16_t),
      (''error_offset'', uint32_t),
      (''error_selector'', uint16_t),
      (''reserved2'', uint16_t),
      (''data_offset'', uint32_t),
      (''data_selector'', uint16_t),
      (''reserved3'', uint16_t),
      (''mx_csr'', uint32_t),
      (''mx_csr_mask'', uint32_t),
      (''float_registers'', CArr uint128_struct 8),
      (''xmm_registers'', CArr uint128_struct 16),
      (''reserved4'', CArr uint8_t 96)]"

definition MD_CONTEXT_AMD64_VR_COUNT :: nat where "MD_CONTEXT_AMD64_VR_COUNT = 26"

definition MDRawContextAMD64 :: ctype where
  "MDRawContextAMD64 = struct
     [(''p1_home'', uint64_t),
      (''p2_home'', uint64_t),
      (''p3_home'', uint64_t),
      (''p4_home'', uint64_t),
      (''p5_home'', uint64_t),
      (''p6_home'', uint64_t),
      (''context_flags'', uint32_t),
      (''mx_csr'', uint32_t),
      (''cs'', uint16_t),
      (''ds'', uint16_t),
      (''es'', uint16_t),
      (''fs'', uint16_t),
      (''gs'', uint16_t),
      (''ss'', uint16_t),
      (''eflags'', uint32_t),
      (''dr0'', uint64_t),
      (''dr1'', uint64_t),
      (''dr2'', uint64_t),
      (''dr3'', uint64_t),
      (''dr6'', uint64_t),
      (''dr7'', uint64_t),
      (''rax'', uint64_t),
      (''rcx'', uint64_t),
      (''rdx'', uint64_t),
      (''rbx'', uint64_t),
      (''rsp'', uint64_t),
      (''rbp'', uint64_t),
      (''rsi'', uint64_t),
      (''rdi'', uint64_t),
      (''r8'', uint64_t),
      (''r9'', uint64_t),
      (''r10'', uint64_t),
      (''r11'', uint64_t),
      (''r12'', uint64_t),
      (''r13'', uint64_t),
      (''r14'', uint64_t),
      (''r15'', uint64_t),
      (''rip'', uint64_t),
      ('''', CUnion [(''flt_save'', MDXmmSaveArea32AMD64),
        (''sse_registers'', struct [(''header'', CArr uint128_struct 2),
        (''legacy'', CArr uint128_struct 8),
        (''xmm0'', uint128_struct),
        (''xmm1'', uint128_struct),
        (''xmm2'', uint128_struct),
        (''xmm3'', uint128_struct),
        (''xmm4'', uint128_struct),
        (''xmm5'', uint128_struct),
        (''xmm6'', uint128_struct),
        (''xmm7'', uint128_struct),
        (''xmm8'', uint128_struct),
        (''xmm9'', uint128_struct),
        (''xmm10'', uint128_struct),
        (''xmm11'', uint128_struct),
        (''xmm12'', uint128_struct),
        (''xmm13'', uint128_struct),
        (''xmm14'', uint128_struct),
        (''xmm15'', uint128_struct)])]),
      (''vector_register'', CArr uint128_struct MD_CONTEXT_AMD64_VR_COUNT),
      (''vector_control'', uint64_t),
      (''debug_control'', uint64_t),
      (''last_branch_to_rip'', uint64_t),
      (''last_branch_from_rip'', uint64_t),
      (''last_exception_to_rip'', uint64_t),
      (''last_exception_from_rip'', uint64_t)]"

definition MD_CONTEXT_AMD64 :: u32 where "MD_CONTEXT_AMD64 = 0x00100000"

definition MD_CONTEXT_AMD64_CONTROL :: u32 where
  "MD_CONTEXT_AMD64_CONTROL = MD_CONTEXT_AMD64 OR 0x00000001"

definition MD_CONTEXT_AMD64_INTEGER :: u32 where
  "MD_CONTEXT_AMD64_INTEGER = MD_CONTEXT_AMD64 OR 0x00000002"

definition MD_CONTEXT_AMD64_SEGMENTS :: u32 where
  "MD_CONTEXT_AMD64_SEGMENTS = MD_CONTEXT_AMD64 OR 0x00000004"

definition MD_CONTEXT_AMD64_FLOATING_POINT :: u32 where
  "MD_CONTEXT_AMD64_FLOATING_POINT = MD_CONTEXT_AMD64 OR 0x00000008"

definition MD_CONTEXT_AMD64_DEBUG_REGISTERS :: u32 where
  "MD_CONTEXT_AMD64_DEBUG_REGISTERS = MD_CONTEXT_AMD64 OR 0x00000010"

definition MD_CONTEXT_AMD64_XSTATE :: u32 where
  "MD_CONTEXT_AMD64_XSTATE = MD_CONTEXT_AMD64 OR 0x00000040"

definition MD_CONTEXT_AMD64_FULL :: u32 where
  "MD_CONTEXT_AMD64_FULL = MD_CONTEXT_AMD64_CONTROL OR MD_CONTEXT_AMD64_INTEGER OR MD_CONTEXT_AMD64_FLOATING_POINT"

definition MD_CONTEXT_AMD64_ALL :: u32 where
  "MD_CONTEXT_AMD64_ALL = MD_CONTEXT_AMD64_FULL OR MD_CONTEXT_AMD64_SEGMENTS OR MD_CONTEXT_X86_DEBUG_REGISTERS"

section \<open>minidump\_cpu\_arm.h\<close>

definition MD_FLOATINGSAVEAREA_ARM_FPR_COUNT :: nat where "MD_FLOATINGSAVEAREA_ARM_FPR_COUNT = 32"

definition MD_FLOATINGSAVEAREA_ARM_FPEXTRA_COUNT :: nat where "MD_FLOATINGSAVEAREA_ARM_FPEXTRA_COUNT = 8"

definition MDFloatingSaveAreaARM :: ctype where
  "MDFloatingSaveAreaARM = struct
     [(''fpscr'', uint64_t),
      (''regs'', CArr uint64_t MD_FLOATINGSAVEAREA_ARM_FPR_COUNT),
      (''extra'', CArr uint32_t MD_FLOATINGSAVEAREA_ARM_FPEXTRA_COUNT)]"

definition MD_CONTEXT_ARM_GPR_COUNT :: nat where "MD_CONTEXT_ARM_GPR_COUNT = 16"

definition MDRawContextARM :: ctype where
  "MDRawContextARM = struct
     [(''context_flags'', uint32_t),
      (''iregs'', CArr uint32_t MD_CONTEXT_ARM_GPR_COUNT),
      (''cpsr'', uint32_t),
      (''float_save'', MDFloatingSaveAreaARM)]"

definition MDARMRegisterNumbers :: "(string \<times> nat) list" where
  "MDARMRegisterNumbers =
     [(''MD_CONTEXT_ARM_REG_IOS_FP'', 7),
      (''MD_CONTEXT_ARM_REG_FP'', 11),
      (''MD_CONTEXT_ARM_REG_SP'', 13),
      (''MD_CONTEXT_ARM_REG_LR'', 14),
      (''MD_CONTEXT_ARM_REG_PC'', 15)]"

definition MD_CONTEXT_ARM_OLD :: u32 where "MD_CONTEXT_ARM_OLD = 0x00000040"

definition MD_CONTEXT_ARM :: u32 where "MD_CONTEXT_ARM = 0x40000000"

definition MD_CONTEXT_ARM_INTEGER :: u32 where "MD_CONTEXT_ARM_INTEGER = MD_CONTEXT_ARM OR 0x00000002"

definition MD_CONTEXT_ARM_FLOATING_POINT :: u32 where
  "MD_CONTEXT_ARM_FLOATING_POINT = MD_CONTEXT_ARM OR 0x00000004"

definition MD_CONTEXT_ARM_FULL :: u32 where
  "MD_CONTEXT_ARM_FULL = MD_CONTEXT_ARM_INTEGER OR MD_CONTEXT_ARM_FLOATING_POINT"

definition MD_CONTEXT_ARM_ALL :: u32 where
  "MD_CONTEXT_ARM_ALL = MD_CONTEXT_ARM_INTEGER OR MD_CONTEXT_ARM_FLOATING_POINT"

section \<open>minidump\_cpu\_arm64.h\<close>

definition MD_FLOATINGSAVEAREA_ARM64_FPR_COUNT :: nat where "MD_FLOATINGSAVEAREA_ARM64_FPR_COUNT = 32"

definition MD_CONTEXT_ARM64_GPR_COUNT :: nat where "MD_CONTEXT_ARM64_GPR_COUNT = 33"

definition MDFloatingSaveAreaARM64 :: ctype where
  "MDFloatingSaveAreaARM64 = struct
     [(''regs'', CArr uint128_struct MD_FLOATINGSAVEAREA_ARM64_FPR_COUNT),
      (''fpcr'', uint32_t),
      (''fpsr'', uint32_t)]"

definition MD_CONTEXT_ARM64 :: u32 where "MD_CONTEXT_ARM64 = 0x00400000"

definition MD_CONTEXT_ARM64_CONTROL :: u32 where
  "MD_CONTEXT_ARM64_CONTROL = MD_CONTEXT_ARM64 OR 0x00000001"

definition MD_CONTEXT_ARM64_INTEGER :: u32 where
  "MD_CONTEXT_ARM64_INTEGER = MD_CONTEXT_ARM64 OR 0x00000002"

definition MD_CONTEXT_ARM64_FLOATING_POINT :: u32 where
  "MD_CONTEXT_ARM64_FLOATING_POINT = MD_CONTEXT_ARM64 OR 0x00000004"

definition MD_CONTEXT_ARM64_DEBUG :: u32 where "MD_CONTEXT_ARM64_DEBUG = MD_CONTEXT_ARM64 OR 0x00000008"

definition MD_CONTEXT_ARM64_FULL :: u32 where
  "MD_CONTEXT_ARM64_FULL = MD_CONTEXT_ARM64_CONTROL OR MD_CONTEXT_ARM64_INTEGER OR MD_CONTEXT_ARM64_FLOATING_POINT"

definition MD_CONTEXT_ARM64_ALL :: u32 where
  "MD_CONTEXT_ARM64_ALL = MD_CONTEXT_ARM64_FULL OR MD_CONTEXT_ARM64_DEBUG"

definition MDRawContextARM64 :: ctype where
  "MDRawContextARM64 = struct
     [(''context_flags'', uint32_t),
      (''cpsr'', uint32_t),
      (''iregs'', CArr uint64_t MD_CONTEXT_ARM64_GPR_COUNT),
      (''float_save'', MDFloatingSaveAreaARM64),
      (''bcr'', CArr uint32_t 8),
      (''bvr'', CArr uint64_t 8),
      (''wcr'', CArr uint32_t 2),
      (''wvr'', CArr uint64_t 2)]"

definition MDFloatingSaveAreaARM64_Old :: ctype where
  "MDFloatingSaveAreaARM64_Old = struct
     [(''fpsr'', uint32_t),
      (''fpcr'', uint32_t),
      (''regs'', CArr uint128_struct MD_FLOATINGSAVEAREA_ARM64_FPR_COUNT)]"

definition MDRawContextARM64_Old :: ctype where
  "MDRawContextARM64_Old = CStruct 4
     [(''context_flags'', uint64_t),
      (''iregs'', CArr uint64_t MD_CONTEXT_ARM64_GPR_COUNT),
      (''cpsr'', uint32_t),
      (''float_save'', MDFloatingSaveAreaARM64_Old)]"

definition MDARM64RegisterNumbers :: "(string \<times> nat) list" where
  "MDARM64RegisterNumbers =
     [(''MD_CONTEXT_ARM64_REG_FP'', 29),
      (''MD_CONTEXT_ARM64_REG_LR'', 30),
      (''MD_CONTEXT_ARM64_REG_SP'', 31),
      (''MD_CONTEXT_ARM64_REG_PC'', 0x20)]"

definition MD_CONTEXT_ARM64_OLD :: u32 where "MD_CONTEXT_ARM64_OLD = 0x80000000"

definition MD_CONTEXT_ARM64_INTEGER_OLD :: u32 where
  "MD_CONTEXT_ARM64_INTEGER_OLD = MD_CONTEXT_ARM64_OLD OR 0x00000002"

definition MD_CONTEXT_ARM64_FLOATING_POINT_OLD :: u32 where
  "MD_CONTEXT_ARM64_FLOATING_POINT_OLD = MD_CONTEXT_ARM64_OLD OR 0x00000004"

definition MD_CONTEXT_ARM64_FULL_OLD :: u32 where
  "MD_CONTEXT_ARM64_FULL_OLD = MD_CONTEXT_ARM64_INTEGER_OLD OR MD_CONTEXT_ARM64_FLOATING_POINT_OLD"

definition MD_CONTEXT_ARM64_ALL_OLD :: u32 where
  "MD_CONTEXT_ARM64_ALL_OLD = MD_CONTEXT_ARM64_INTEGER_OLD OR MD_CONTEXT_ARM64_FLOATING_POINT_OLD"

section \<open>minidump\_cpu\_mips.h\<close>

definition MD_CONTEXT_MIPS_GPR_COUNT :: nat where "MD_CONTEXT_MIPS_GPR_COUNT = 32"

definition MD_FLOATINGSAVEAREA_MIPS_FPR_COUNT :: nat where "MD_FLOATINGSAVEAREA_MIPS_FPR_COUNT = 32"

definition MD_CONTEXT_MIPS_DSP_COUNT :: nat where "MD_CONTEXT_MIPS_DSP_COUNT = 3"

definition MDFloatingSaveAreaMIPS :: ctype where
  "MDFloatingSaveAreaMIPS = struct
     [(''regs'', CArr uint64_t MD_FLOATINGSAVEAREA_MIPS_FPR_COUNT),
      (''fpcsr'', uint32_t),
      (''fir'', uint32_t)]"

definition MDRawContextMIPS :: ctype where
  "MDRawContextMIPS = struct
     [(''context_flags'', uint32_t),
      (''_pad0'', uint32_t),
      (''iregs'', CArr uint64_t MD_CONTEXT_MIPS_GPR_COUNT),
      (''mdhi'', uint64_t),
      (''mdlo'', uint64_t),
      (''hi'', CArr uint32_t MD_CONTEXT_MIPS_DSP_COUNT),
      (''lo'', CArr uint32_t MD_CONTEXT_MIPS_DSP_COUNT),
      (''dsp_control'', uint32_t),
      (''_pad1'', uint32_t),
      (''epc'', uint64_t),
      (''badvaddr'', uint64_t),
      (''status'', uint32_t),
      (''cause'', uint32_t),
      (''float_save'', MDFloatingSaveAreaMIPS)]"

definition MDMIPSRegisterNumbers :: "(string \<times> nat) list" where
  "MDMIPSRegisterNumbers =
     [(''MD_CONTEXT_MIPS_REG_S0'', 16),
      (''MD_CONTEXT_MIPS_REG_S1'', 17),
      (''MD_CONTEXT_MIPS_REG_S2'', 18),
      (''MD_CONTEXT_MIPS_REG_S3'', 19),
      (''MD_CONTEXT_MIPS_REG_S4'', 20),
      (''MD_CONTEXT_MIPS_REG_S5'', 21),
      (''MD_CONTEXT_MIPS_REG_S6'', 22),
      (''MD_CONTEXT_MIPS_REG_S7'', 23),
      (''MD_CONTEXT_MIPS_REG_GP'', 28),
      (''MD_CONTEXT_MIPS_REG_SP'', 29),
      (''MD_CONTEXT_MIPS_REG_FP'', 30),
      (''MD_CONTEXT_MIPS_REG_RA'', 31)]"

definition MD_CONTEXT_MIPS :: u32 where "MD_CONTEXT_MIPS = 0x00040000"

definition MD_CONTEXT_MIPS_INTEGER :: u32 where "MD_CONTEXT_MIPS_INTEGER = MD_CONTEXT_MIPS OR 0x00000002"

definition MD_CONTEXT_MIPS_FLOATING_POINT :: u32 where
  "MD_CONTEXT_MIPS_FLOATING_POINT = MD_CONTEXT_MIPS OR 0x00000004"

definition MD_CONTEXT_MIPS_DSP :: u32 where "MD_CONTEXT_MIPS_DSP = MD_CONTEXT_MIPS OR 0x00000008"

definition MD_CONTEXT_MIPS_FULL :: u32 where
  "MD_CONTEXT_MIPS_FULL = MD_CONTEXT_MIPS_INTEGER OR MD_CONTEXT_MIPS_FLOATING_POINT OR MD_CONTEXT_MIPS_DSP"

definition MD_CONTEXT_MIPS64 :: u32 where "MD_CONTEXT_MIPS64 = 0x00080000"

definition MD_CONTEXT_MIPS64_INTEGER :: u32 where
  "MD_CONTEXT_MIPS64_INTEGER = MD_CONTEXT_MIPS64 OR 0x00000002"

definition MD_CONTEXT_MIPS64_FLOATING_POINT :: u32 where
  "MD_CONTEXT_MIPS64_FLOATING_POINT = MD_CONTEXT_MIPS64 OR 0x00000004"

definition MD_CONTEXT_MIPS64_DSP :: u32 where "MD_CONTEXT_MIPS64_DSP = MD_CONTEXT_MIPS64 OR 0x00000008"

definition MD_CONTEXT_MIPS64_FULL :: u32 where
  "MD_CONTEXT_MIPS64_FULL = MD_CONTEXT_MIPS64_INTEGER OR MD_CONTEXT_MIPS64_FLOATING_POINT OR MD_CONTEXT_MIPS64_DSP"

section \<open>minidump\_cpu\_ppc.h\<close>

definition MD_FLOATINGSAVEAREA_PPC_FPR_COUNT :: nat where "MD_FLOATINGSAVEAREA_PPC_FPR_COUNT = 32"

definition MDFloatingSaveAreaPPC :: ctype where
  "MDFloatingSaveAreaPPC = struct
     [(''fpregs'', CArr uint64_t MD_FLOATINGSAVEAREA_PPC_FPR_COUNT),
      (''fpscr_pad'', uint32_t),
      (''fpscr'', uint32_t)]"

definition MD_VECTORSAVEAREA_PPC_VR_COUNT :: nat where "MD_VECTORSAVEAREA_PPC_VR_COUNT = 32"

definition MDVectorSaveAreaPPC :: ctype where
  "MDVectorSaveAreaPPC = struct
     [(''save_vr'', CArr uint128_struct MD_VECTORSAVEAREA_PPC_VR_COUNT),
      (''save_vscr'', uint128_struct),
      (''save_pad5'', CArr uint32_t 4),
      (''save_vrvalid'', uint32_t),
      (''save_pad6'', CArr uint32_t 7)]"

definition MD_CONTEXT_PPC_GPR_COUNT :: nat where "MD_CONTEXT_PPC_GPR_COUNT = 32"

definition MDRawContextPPC :: ctype where
  "MDRawContextPPC = CStruct 4
     [(''context_flags'', uint32_t),
      (''srr0'', uint32_t),
      (''srr1'', uint32_t),
      (''gpr'', CArr uint32_t MD_CONTEXT_PPC_GPR_COUNT),
      (''cr'', uint32_t),
      (''xer'', uint32_t),
      (''lr'', uint32_t),
      (''ctr'', uint32_t),
      (''mq'', uint32_t),
      (''vrsave'', uint32_t),
      (''float_save'', MDFloatingSaveAreaPPC),
      (''vector_save'', MDVectorSaveAreaPPC)]"

definition MDPPCRegisterNumbers :: "(string \<times> nat) list" where
  "MDPPCRegisterNumbers =
     [(''MD_CONTEXT_PPC_REG_SP'', 1)]"

definition MD_CONTEXT_PPC :: u32 where "MD_CONTEXT_PPC = 0x20000000"

definition MD_CONTEXT_PPC_BASE :: u32 where "MD_CONTEXT_PPC_BASE = MD_CONTEXT_PPC OR 0x00000001"

definition MD_CONTEXT_PPC_FLOATING_POINT :: u32 where
  "MD_CONTEXT_PPC_FLOATING_POINT = MD_CONTEXT_PPC OR 0x00000008"

definition MD_CONTEXT_PPC_VECTOR :: u32 where "MD_CONTEXT_PPC_VECTOR = MD_CONTEXT_PPC OR 0x00000020"

definition MD_CONTEXT_PPC_FULL :: u32 where "MD_CONTEXT_PPC_FULL = MD_CONTEXT_PPC_BASE"

definition MD_CONTEXT_PPC_ALL :: u32 where
  "MD_CONTEXT_PPC_ALL = MD_CONTEXT_PPC_FULL OR MD_CONTEXT_PPC_FLOATING_POINT OR MD_CONTEXT_PPC_VECTOR"

section \<open>minidump\_cpu\_ppc64.h\<close>

definition MDFloatingSaveAreaPPC64 :: ctype where "MDFloatingSaveAreaPPC64 = MDFloatingSaveAreaPPC"

definition MDVectorSaveAreaPPC64 :: ctype where "MDVectorSaveAreaPPC64 = MDVectorSaveAreaPPC"

definition MD_CONTEXT_PPC64_GPR_COUNT :: nat where
  "MD_CONTEXT_PPC64_GPR_COUNT = MD_CONTEXT_PPC_GPR_COUNT"

definition MDRawContextPPC64 :: ctype where
  "MDRawContextPPC64 = struct
     [(''context_flags'', uint64_t),
      (''srr0'', uint64_t),
      (''srr1'', uint64_t),
      (''gpr'', CArr uint64_t MD_CONTEXT_PPC64_GPR_COUNT),
      (''cr'', uint64_t),
      (''xer'', uint64_t),
      (''lr'', uint64_t),
      (''ctr'', uint64_t),
      (''vrsave'', uint64_t),
      (''float_save'', MDFloatingSaveAreaPPC),
      (''vector_save'', MDVectorSaveAreaPPC)]"

definition MDPPC64RegisterNumbers :: "(string \<times> nat) list" where
  "MDPPC64RegisterNumbers =
     [(''MD_CONTEXT_PPC64_REG_SP'', 1)]"

definition MD_CONTEXT_PPC64 :: u32 where "MD_CONTEXT_PPC64 = 0x01000000"

definition MD_CONTEXT_PPC64_BASE :: u32 where "MD_CONTEXT_PPC64_BASE = MD_CONTEXT_PPC64 OR 0x00000001"

definition MD_CONTEXT_PPC64_FLOATING_POINT :: u32 where
  "MD_CONTEXT_PPC64_FLOATING_POINT = MD_CONTEXT_PPC64 OR 0x00000008"

definition MD_CONTEXT_PPC64_VECTOR :: u32 where
  "MD_CONTEXT_PPC64_VECTOR = MD_CONTEXT_PPC64 OR 0x00000020"

definition MD_CONTEXT_PPC64_FULL :: u32 where "MD_CONTEXT_PPC64_FULL = MD_CONTEXT_PPC64_BASE"

definition MD_CONTEXT_PPC64_ALL :: u32 where
  "MD_CONTEXT_PPC64_ALL = MD_CONTEXT_PPC64_FULL OR MD_CONTEXT_PPC64_FLOATING_POINT OR MD_CONTEXT_PPC64_VECTOR"

section \<open>minidump\_cpu\_sparc.h\<close>

definition MD_FLOATINGSAVEAREA_SPARC_FPR_COUNT :: nat where "MD_FLOATINGSAVEAREA_SPARC_FPR_COUNT = 32"

definition MDFloatingSaveAreaSPARC :: ctype where
  "MDFloatingSaveAreaSPARC = struct
     [(''regs'', CArr uint64_t MD_FLOATINGSAVEAREA_SPARC_FPR_COUNT),
      (''filler'', uint64_t),
      (''fsr'', uint64_t)]"

definition MD_CONTEXT_SPARC_GPR_COUNT :: nat where "MD_CONTEXT_SPARC_GPR_COUNT = 32"

definition MDRawContextSPARC :: ctype where
  "MDRawContextSPARC = struct
     [(''context_flags'', uint32_t),
      (''flag_pad'', uint32_t),
      (''g_r'', CArr uint64_t MD_CONTEXT_SPARC_GPR_COUNT),
      (''ccr'', uint64_t),
      (''pc'', uint64_t),
      (''npc'', uint64_t),
      (''y'', uint64_t),
      (''asi'', uint64_t),
      (''fprs'', uint64_t),
      (''float_save'', MDFloatingSaveAreaSPARC)]"

definition MDSPARCRegisterNumbers :: "(string \<times> nat) list" where
  "MDSPARCRegisterNumbers =
     [(''MD_CONTEXT_SPARC_REG_SP'', 14)]"

definition MD_CONTEXT_SPARC :: u32 where "MD_CONTEXT_SPARC = 0x10000000"

definition MD_CONTEXT_SPARC_CONTROL :: u32 where
  "MD_CONTEXT_SPARC_CONTROL = MD_CONTEXT_SPARC OR 0x00000001"

definition MD_CONTEXT_SPARC_INTEGER :: u32 where
  "MD_CONTEXT_SPARC_INTEGER = MD_CONTEXT_SPARC OR 0x00000002"

definition MD_CONTEXT_SAPARC_FLOATING_POINT :: u32 where
  "MD_CONTEXT_SAPARC_FLOATING_POINT = MD_CONTEXT_SPARC OR 0x00000004"

definition MD_CONTEXT_SAPARC_EXTRA :: u32 where
  "MD_CONTEXT_SAPARC_EXTRA = MD_CONTEXT_SPARC OR 0x00000008"

definition MD_CONTEXT_SPARC_FULL :: u32 where
  "MD_CONTEXT_SPARC_FULL = MD_CONTEXT_SPARC_CONTROL OR MD_CONTEXT_SPARC_INTEGER"

definition MD_CONTEXT_SPARC_ALL :: u32 where
  "MD_CONTEXT_SPARC_ALL = MD_CONTEXT_SPARC_FULL OR MD_CONTEXT_SAPARC_FLOATING_POINT OR MD_CONTEXT_SAPARC_EXTRA"

section \<open>Sizes under the two alignments of 64-bit integers\<close>

lemma uint128_struct_layout:
  "lay 4 uint128_struct = (16, 4)"
  "lay 8 uint128_struct = (16, 8)"
  "psize uint128_struct = 16"
  "tight 4 uint128_struct"
  "tight 8 uint128_struct"
  by (simp_all add: uint128_struct_def layout_simps del: layout_del)

lemma MDFloatingSaveAreaX86_layout:
  "lay 4 MDFloatingSaveAreaX86 = (112, 4)"
  "lay 8 MDFloatingSaveAreaX86 = (112, 4)"
  "psize MDFloatingSaveAreaX86 = 112"
  "tight 4 MDFloatingSaveAreaX86"
  "tight 8 MDFloatingSaveAreaX86"
  by (simp_all add: MDFloatingSaveAreaX86_def MD_FLOATINGSAVEAREA_X86_REGISTERAREA_SIZE_def layout_simps del: layout_del)

lemma MDRawContextX86_layout:
  "lay 4 MDRawContextX86 = (716, 4)"
  "lay 8 MDRawContextX86 = (716, 4)"
  "psize MDRawContextX86 = 716"
  "tight 4 MDRawContextX86"
  "tight 8 MDRawContextX86"
  by (simp_all add: MDRawContextX86_def MDFloatingSaveAreaX86_layout MD_CONTEXT_X86_EXTENDED_REGISTERS_SIZE_def layout_simps del: layout_del)

lemma MDXmmSaveArea32AMD64_layout:
  "lay 4 MDXmmSaveArea32AMD64 = (512, 4)"
  "lay 8 MDXmmSaveArea32AMD64 = (512, 8)"
  "psize MDXmmSaveArea32AMD64 = 512"
  "tight 4 MDXmmSaveArea32AMD64"
  "tight 8 MDXmmSaveArea32AMD64"
  by (simp_all add: MDXmmSaveArea32AMD64_def uint128_struct_layout layout_simps del: layout_del)

lemma MDRawContextAMD64_layout:
  "lay 4 MDRawContextAMD64 = (1232, 4)"
  "lay 8 MDRawContextAMD64 = (1232, 8)"
  "psize MDRawContextAMD64 = 1232"
  "tight 4 MDRawContextAMD64"
  "tight 8 MDRawContextAMD64"
  by (simp_all add: MDRawContextAMD64_def MDXmmSaveArea32AMD64_layout MD_CONTEXT_AMD64_VR_COUNT_def uint128_struct_layout layout_simps del: layout_del)

lemma MDFloatingSaveAreaARM_layout:
  "lay 4 MDFloatingSaveAreaARM = (296, 4)"
  "lay 8 MDFloatingSaveAreaARM = (296, 8)"
  "psize MDFloatingSaveAreaARM = 296"
  "tight 4 MDFloatingSaveAreaARM"
  "tight 8 MDFloatingSaveAreaARM"
  by (simp_all add: MDFloatingSaveAreaARM_def MD_FLOATINGSAVEAREA_ARM_FPEXTRA_COUNT_def MD_FLOATINGSAVEAREA_ARM_FPR_COUNT_def layout_simps del: layout_del)

lemma MDRawContextARM_layout:
  "lay 4 MDRawContextARM = (368, 4)"
  "lay 8 MDRawContextARM = (368, 8)"
  "psize MDRawContextARM = 368"
  "tight 4 MDRawContextARM"
  "tight 8 MDRawContextARM"
  by (simp_all add: MDRawContextARM_def MDFloatingSaveAreaARM_layout MD_CONTEXT_ARM_GPR_COUNT_def layout_simps del: layout_del)

lemma MDFloatingSaveAreaARM64_layout:
  "lay 4 MDFloatingSaveAreaARM64 = (520, 4)"
  "lay 8 MDFloatingSaveAreaARM64 = (520, 8)"
  "psize MDFloatingSaveAreaARM64 = 520"
  "tight 4 MDFloatingSaveAreaARM64"
  "tight 8 MDFloatingSaveAreaARM64"
  by (simp_all add: MDFloatingSaveAreaARM64_def MD_FLOATINGSAVEAREA_ARM64_FPR_COUNT_def uint128_struct_layout layout_simps del: layout_del)

lemma MDRawContextARM64_layout:
  "lay 4 MDRawContextARM64 = (912, 4)"
  "lay 8 MDRawContextARM64 = (912, 8)"
  "psize MDRawContextARM64 = 912"
  "tight 4 MDRawContextARM64"
  "tight 8 MDRawContextARM64"
  by (simp_all add: MDRawContextARM64_def MDFloatingSaveAreaARM64_layout MD_CONTEXT_ARM64_GPR_COUNT_def layout_simps del: layout_del)

lemma MDFloatingSaveAreaARM64_Old_layout:
  "lay 4 MDFloatingSaveAreaARM64_Old = (520, 4)"
  "lay 8 MDFloatingSaveAreaARM64_Old = (520, 8)"
  "psize MDFloatingSaveAreaARM64_Old = 520"
  "tight 4 MDFloatingSaveAreaARM64_Old"
  "tight 8 MDFloatingSaveAreaARM64_Old"
  by (simp_all add: MDFloatingSaveAreaARM64_Old_def MD_FLOATINGSAVEAREA_ARM64_FPR_COUNT_def uint128_struct_layout layout_simps del: layout_del)

lemma MDRawContextARM64_Old_layout:
  "lay 4 MDRawContextARM64_Old = (796, 4)"
  "lay 8 MDRawContextARM64_Old = (796, 4)"
  "psize MDRawContextARM64_Old = 796"
  "tight 4 MDRawContextARM64_Old"
  "tight 8 MDRawContextARM64_Old"
  by (simp_all add: MDRawContextARM64_Old_def MDFloatingSaveAreaARM64_Old_layout MD_CONTEXT_ARM64_GPR_COUNT_def layout_simps del: layout_del)

lemma MDFloatingSaveAreaMIPS_layout:
  "lay 4 MDFloatingSaveAreaMIPS = (264, 4)"
  "lay 8 MDFloatingSaveAreaMIPS = (264, 8)"
  "psize MDFloatingSaveAreaMIPS = 264"
  "tight 4 MDFloatingSaveAreaMIPS"
  "tight 8 MDFloatingSaveAreaMIPS"
  by (simp_all add: MDFloatingSaveAreaMIPS_def MD_FLOATINGSAVEAREA_MIPS_FPR_COUNT_def layout_simps del: layout_del)

lemma MDRawContextMIPS_layout:
  "lay 4 MDRawContextMIPS = (600, 4)"
  "lay 8 MDRawContextMIPS = (600, 8)"
  "psize MDRawContextMIPS = 600"
  "tight 4 MDRawContextMIPS"
  "tight 8 MDRawContextMIPS"
  by (simp_all add: MDRawContextMIPS_def MDFloatingSaveAreaMIPS_layout MD_CONTEXT_MIPS_DSP_COUNT_def MD_CONTEXT_MIPS_GPR_COUNT_def layout_simps del: layout_del)

lemma MDFloatingSaveAreaPPC_layout:
  "lay 4 MDFloatingSaveAreaPPC = (264, 4)"
  "lay 8 MDFloatingSaveAreaPPC = (264, 8)"
  "psize MDFloatingSaveAreaPPC = 264"
  "tight 4 MDFloatingSaveAreaPPC"
  "tight 8 MDFloatingSaveAreaPPC"
  by (simp_all add: MDFloatingSaveAreaPPC_def MD_FLOATINGSAVEAREA_PPC_FPR_COUNT_def layout_simps del: layout_del)

lemma MDVectorSaveAreaPPC_layout:
  "lay 4 MDVectorSaveAreaPPC = (576, 4)"
  "lay 8 MDVectorSaveAreaPPC = (576, 8)"
  "psize MDVectorSaveAreaPPC = 576"
  "tight 4 MDVectorSaveAreaPPC"
  "tight 8 MDVectorSaveAreaPPC"
  by (simp_all add: MDVectorSaveAreaPPC_def MD_VECTORSAVEAREA_PPC_VR_COUNT_def uint128_struct_layout layout_simps del: layout_del)

lemma MDRawContextPPC_layout:
  "lay 4 MDRawContextPPC = (1004, 4)"
  "lay 8 MDRawContextPPC = (1004, 4)"
  "psize MDRawContextPPC = 1004"
  "tight 4 MDRawContextPPC"
  "tight 8 MDRawContextPPC"
  by (simp_all add: MDRawContextPPC_def MDFloatingSaveAreaPPC_layout MDVectorSaveAreaPPC_layout MD_CONTEXT_PPC_GPR_COUNT_def layout_simps del: layout_del)

lemma MDRawContextPPC64_layout:
  "lay 4 MDRawContextPPC64 = (1160, 4)"
  "lay 8 MDRawContextPPC64 = (1160, 8)"
  "psize MDRawContextPPC64 = 1160"
  "tight 4 MDRawContextPPC64"
  "tight 8 MDRawContextPPC64"
  by (simp_all add: MDRawContextPPC64_def MDFloatingSaveAreaPPC_layout MDVectorSaveAreaPPC_layout MD_CONTEXT_PPC64_GPR_COUNT_def MD_CONTEXT_PPC_GPR_COUNT_def layout_simps del: layout_del)

lemma MDFloatingSaveAreaSPARC_layout:
  "lay 4 MDFloatingSaveAreaSPARC = (272, 4)"
  "lay 8 MDFloatingSaveAreaSPARC = (272, 8)"
  "psize MDFloatingSaveAreaSPARC = 272"
  "tight 4 MDFloatingSaveAreaSPARC"
  "tight 8 MDFloatingSaveAreaSPARC"
  by (simp_all add: MDFloatingSaveAreaSPARC_def MD_FLOATINGSAVEAREA_SPARC_FPR_COUNT_def layout_simps del: layout_del)

lemma MDRawContextSPARC_layout:
  "lay 4 MDRawContextSPARC = (584, 4)"
  "lay 8 MDRawContextSPARC = (584, 8)"
  "psize MDRawContextSPARC = 584"
  "tight 4 MDRawContextSPARC"
  "tight 8 MDRawContextSPARC"
  by (simp_all add: MDRawContextSPARC_def MDFloatingSaveAreaSPARC_layout MD_CONTEXT_SPARC_GPR_COUNT_def layout_simps del: layout_del)

lemmas context_layouts =
  uint128_struct_layout MDFloatingSaveAreaX86_layout MDRawContextX86_layout
  MDXmmSaveArea32AMD64_layout MDRawContextAMD64_layout MDFloatingSaveAreaARM_layout
  MDRawContextARM_layout MDFloatingSaveAreaARM64_layout MDRawContextARM64_layout
  MDFloatingSaveAreaARM64_Old_layout MDRawContextARM64_Old_layout MDFloatingSaveAreaMIPS_layout
  MDRawContextMIPS_layout MDFloatingSaveAreaPPC_layout MDVectorSaveAreaPPC_layout
  MDRawContextPPC_layout MDRawContextPPC64_layout MDFloatingSaveAreaSPARC_layout
  MDRawContextSPARC_layout

lemmas context_flag_defs =
  MD_CONTEXT_IA64_def MD_CONTEXT_SHX_def MD_CONTEXT_ALPHA_def MD_CONTEXT_CPU_MASK_def
  MD_CONTEXT_X86_def MD_CONTEXT_X86_CONTROL_def MD_CONTEXT_X86_INTEGER_def
  MD_CONTEXT_X86_SEGMENTS_def MD_CONTEXT_X86_FLOATING_POINT_def MD_CONTEXT_X86_DEBUG_REGISTERS_def
  MD_CONTEXT_X86_EXTENDED_REGISTERS_def MD_CONTEXT_X86_XSTATE_def MD_CONTEXT_X86_FULL_def
  MD_CONTEXT_X86_ALL_def MD_CONTEXT_AMD64_def MD_CONTEXT_AMD64_CONTROL_def
  MD_CONTEXT_AMD64_INTEGER_def MD_CONTEXT_AMD64_SEGMENTS_def MD_CONTEXT_AMD64_FLOATING_POINT_def
  MD_CONTEXT_AMD64_DEBUG_REGISTERS_def MD_CONTEXT_AMD64_XSTATE_def MD_CONTEXT_AMD64_FULL_def
  MD_CONTEXT_AMD64_ALL_def MD_CONTEXT_ARM_OLD_def MD_CONTEXT_ARM_def MD_CONTEXT_ARM_INTEGER_def
  MD_CONTEXT_ARM_FLOATING_POINT_def MD_CONTEXT_ARM_FULL_def MD_CONTEXT_ARM_ALL_def
  MD_CONTEXT_ARM64_def MD_CONTEXT_ARM64_CONTROL_def MD_CONTEXT_ARM64_INTEGER_def
  MD_CONTEXT_ARM64_FLOATING_POINT_def MD_CONTEXT_ARM64_DEBUG_def MD_CONTEXT_ARM64_FULL_def
  MD_CONTEXT_ARM64_ALL_def MD_CONTEXT_ARM64_OLD_def MD_CONTEXT_ARM64_INTEGER_OLD_def
  MD_CONTEXT_ARM64_FLOATING_POINT_OLD_def MD_CONTEXT_ARM64_FULL_OLD_def MD_CONTEXT_ARM64_ALL_OLD_def
  MD_CONTEXT_MIPS_def MD_CONTEXT_MIPS_INTEGER_def MD_CONTEXT_MIPS_FLOATING_POINT_def
  MD_CONTEXT_MIPS_DSP_def MD_CONTEXT_MIPS_FULL_def MD_CONTEXT_MIPS64_def
  MD_CONTEXT_MIPS64_INTEGER_def MD_CONTEXT_MIPS64_FLOATING_POINT_def MD_CONTEXT_MIPS64_DSP_def
  MD_CONTEXT_MIPS64_FULL_def MD_CONTEXT_PPC_def MD_CONTEXT_PPC_BASE_def
  MD_CONTEXT_PPC_FLOATING_POINT_def MD_CONTEXT_PPC_VECTOR_def MD_CONTEXT_PPC_FULL_def
  MD_CONTEXT_PPC_ALL_def MD_CONTEXT_PPC64_def MD_CONTEXT_PPC64_BASE_def
  MD_CONTEXT_PPC64_FLOATING_POINT_def MD_CONTEXT_PPC64_VECTOR_def MD_CONTEXT_PPC64_FULL_def
  MD_CONTEXT_PPC64_ALL_def MD_CONTEXT_SPARC_def MD_CONTEXT_SPARC_CONTROL_def
  MD_CONTEXT_SPARC_INTEGER_def MD_CONTEXT_SAPARC_FLOATING_POINT_def MD_CONTEXT_SAPARC_EXTRA_def
  MD_CONTEXT_SPARC_FULL_def MD_CONTEXT_SPARC_ALL_def

section \<open>What the headers rely on\<close>

definition context_types :: "(string \<times> ctype) list" where
  "context_types =
     [(''X86'', MDRawContextX86), (''AMD64'', MDRawContextAMD64), (''ARM'', MDRawContextARM),
      (''ARM64'', MDRawContextARM64), (''ARM64_Old'', MDRawContextARM64_Old), (''MIPS'', MDRawContextMIPS),
      (''PPC'', MDRawContextPPC), (''PPC64'', MDRawContextPPC64), (''SPARC'', MDRawContextSPARC)]"

lemma context_types_tight:
  "list_all (\<lambda>t. tight 4 t \<and> tight 8 t) (map snd context_types)"
  by (simp add: context_types_def context_layouts)

text \<open>The CPU identifier of each context with the flag sets built from it.\<close>

definition context_flag_sets :: "(u32 \<times> u32 list) list" where
  "context_flag_sets =
     [(MD_CONTEXT_X86, [MD_CONTEXT_X86_CONTROL, MD_CONTEXT_X86_INTEGER, MD_CONTEXT_X86_SEGMENTS,
         MD_CONTEXT_X86_FLOATING_POINT, MD_CONTEXT_X86_DEBUG_REGISTERS, MD_CONTEXT_X86_EXTENDED_REGISTERS,
         MD_CONTEXT_X86_XSTATE, MD_CONTEXT_X86_FULL, MD_CONTEXT_X86_ALL]),
      (MD_CONTEXT_AMD64, [MD_CONTEXT_AMD64_CONTROL, MD_CONTEXT_AMD64_INTEGER, MD_CONTEXT_AMD64_SEGMENTS,
         MD_CONTEXT_AMD64_FLOATING_POINT, MD_CONTEXT_AMD64_DEBUG_REGISTERS, MD_CONTEXT_AMD64_XSTATE,
         MD_CONTEXT_AMD64_FULL]),
      (MD_CONTEXT_ARM, [MD_CONTEXT_ARM_INTEGER, MD_CONTEXT_ARM_FLOATING_POINT, MD_CONTEXT_ARM_FULL,
         MD_CONTEXT_ARM_ALL]),
      (MD_CONTEXT_ARM64, [MD_CONTEXT_ARM64_CONTROL, MD_CONTEXT_ARM64_INTEGER,
         MD_CONTEXT_ARM64_FLOATING_POINT, MD_CONTEXT_ARM64_DEBUG, MD_CONTEXT_ARM64_FULL, MD_CONTEXT_ARM64_ALL]),
      (MD_CONTEXT_ARM64_OLD, [MD_CONTEXT_ARM64_INTEGER_OLD, MD_CONTEXT_ARM64_FLOATING_POINT_OLD,
         MD_CONTEXT_ARM64_FULL_OLD, MD_CONTEXT_ARM64_ALL_OLD]),
      (MD_CONTEXT_MIPS, [MD_CONTEXT_MIPS_INTEGER, MD_CONTEXT_MIPS_FLOATING_POINT, MD_CONTEXT_MIPS_DSP,
         MD_CONTEXT_MIPS_FULL]),
      (MD_CONTEXT_MIPS64, [MD_CONTEXT_MIPS64_INTEGER, MD_CONTEXT_MIPS64_FLOATING_POINT,
         MD_CONTEXT_MIPS64_DSP, MD_CONTEXT_MIPS64_FULL]),
      (MD_CONTEXT_PPC, [MD_CONTEXT_PPC_BASE, MD_CONTEXT_PPC_FLOATING_POINT, MD_CONTEXT_PPC_VECTOR,
         MD_CONTEXT_PPC_FULL, MD_CONTEXT_PPC_ALL]),
      (MD_CONTEXT_PPC64, [MD_CONTEXT_PPC64_BASE, MD_CONTEXT_PPC64_FLOATING_POINT, MD_CONTEXT_PPC64_VECTOR,
         MD_CONTEXT_PPC64_FULL, MD_CONTEXT_PPC64_ALL]),
      (MD_CONTEXT_SPARC, [MD_CONTEXT_SPARC_CONTROL, MD_CONTEXT_SPARC_INTEGER,
         MD_CONTEXT_SAPARC_FLOATING_POINT, MD_CONTEXT_SAPARC_EXTRA, MD_CONTEXT_SPARC_FULL,
         MD_CONTEXT_SPARC_ALL])]"

text \<open>
  The CPU of a context can be told from its flags: the identifiers are pairwise different, and
  masking any flag set built for a CPU with \<open>MD_CONTEXT_CPU_MASK\<close> gives back that CPU. The exception
  is \<open>MD_CONTEXT_AMD64_ALL\<close>, which is built with \<open>MD_CONTEXT_X86_DEBUG_REGISTERS\<close> and so
  carries the x86 identifier as well.
\<close>

lemma context_flags_identify_cpu:
  "distinct (map fst context_flag_sets) \<and>
   list_all (\<lambda>(cpu, sets). list_all (\<lambda>f. f AND MD_CONTEXT_CPU_MASK = cpu) sets) context_flag_sets \<and>
   MD_CONTEXT_AMD64_ALL AND MD_CONTEXT_CPU_MASK = (MD_CONTEXT_AMD64 OR MD_CONTEXT_X86) \<and>
   MD_CONTEXT_AMD64_ALL AND MD_CONTEXT_CPU_MASK \<noteq> MD_CONTEXT_AMD64"
  by (simp add: context_flag_sets_def context_flag_defs)

text \<open>
  C26. CPU contexts are portable: for each of the nine contexts and both alignments of 64-bit
  integers, the compiler inserts no padding, so that the bytes in memory are exactly the members one
  after the other, and a context written under one ABI is read correctly under the other.
\<close>

theorem contexts_portable:
  assumes "t \<in> set (map snd context_types)" and "al \<in> {4, 8}" and "has_type t v"
  shows "store al t v = packed t v \<and> sizeof al t = psize t \<and> length (store al t v) = psize t"
proof -
  have "tight al t" using assms(1,2) context_types_tight by (auto simp: list_all_iff)
  then show ?thesis
    using assms(3) store_packed(1) [of al t v] tight_sizeof length_packed by simp
qed

text \<open>A context of all zero bytes, to have a value of each type.\<close>

primrec zero_value :: "ctype \<Rightarrow> cvalue" where
  "zero_value (CInt k) = VInt 0"
| "zero_value (CArr t m) = VArr (replicate m (zero_value t))"
| "zero_value (CStruct p fs) = VStruct (map snd (map (map_prod id zero_value) fs))"
| "zero_value (CUnion fs) = VUnion 0 (hd (map snd (map (map_prod id zero_value) fs)))"

theorem contexts_portable_witness:
  "sizeof 4 MDRawContextARM = 368 \<and> sizeof 8 MDRawContextARM = 368 \<and>
   store 4 MDRawContextARM (zero_value MDRawContextARM) = store 8 MDRawContextARM (zero_value MDRawContextARM)"
proof -
  have m: "MDRawContextARM \<in> set (map snd context_types)" by (simp add: context_types_def)
  have t: "has_type MDRawContextARM (zero_value MDRawContextARM)"
    by (simp add: MDRawContextARM_def MDFloatingSaveAreaARM_def list_all_iff)
  show ?thesis
    using contexts_portable [OF m _ t, of 4] contexts_portable [OF m _ t, of 8] by (simp add: context_layouts)
qed

end
