(* ===== verification/Minidump_Format.thy ===== *)
theory Minidump_Format
  imports Minidump_Contexts
begin

text \<open>
  The structures of a minidump file: \<^verbatim>\<open>google_breakpad/common/minidump_format.h\<close> and the sizes
  \<^verbatim>\<open>minidump_size.h\<close> gives them. Each struct is its list of members in order, an enum the
  table of its enumerators, an \<open>offsetof\<close> constant a function of the ABI.
\<close>


definition MDGUID :: ctype where
  "MDGUID = struct
     [(''data1'', uint32_t),
      (''data2'', uint16_t),
      (''data3'', uint16_t),
      (''data4'', CArr uint8_t 8)]"

definition MDRawContextBase :: ctype where
  "MDRawContextBase = struct
     [(''context_flags'', uint32_t)]"

definition MDVSFixedFileInfo :: ctype where
  "MDVSFixedFileInfo = struct
     [(''signature'', uint32_t),
      (''struct_version'', uint32_t),
      (''file_version_hi'', uint32_t),
      (''file_version_lo'', uint32_t),
      (''product_version_hi'', uint32_t),
      (''product_version_lo'', uint32_t),
      (''file_flags_mask'', uint32_t),
      (''file_flags'', uint32_t),
      (''file_os'', uint32_t),
      (''file_type'', uint32_t),
      (''file_subtype'', uint32_t),
      (''file_date_hi'', uint32_t),
      (''file_date_lo'', uint32_t)]"

definition MD_VSFIXEDFILEINFO_SIGNATURE :: u32 where "MD_VSFIXEDFILEINFO_SIGNATURE = 0xfeef04bd"

definition MD_VSFIXEDFILEINFO_VERSION :: u32 where "MD_VSFIXEDFILEINFO_VERSION = 0x00010000"

definition MD_VSFIXEDFILEINFO_FILE_FLAGS :: "(string \<times> u32) list" where
  "MD_VSFIXEDFILEINFO_FILE_FLAGS =
     [(''MD_VSFIXEDFILEINFO_FILE_FLAGS_DEBUG'', 0x00000001),
      (''MD_VSFIXEDFILEINFO_FILE_FLAGS_PRERELEASE'', 0x00000002),
      (''MD_VSFIXEDFILEINFO_FILE_FLAGS_PATCHED'', 0x00000004),
      (''MD_VSFIXEDFILEINFO_FILE_FLAGS_PRIVATEBUILD'', 0x00000008),
      (''MD_VSFIXEDFILEINFO_FILE_FLAGS_INFOINFERRED'', 0x00000010),
      (''MD_VSFIXEDFILEINFO_FILE_FLAGS_SPECIALBUILD'', 0x00000020)]"

definition MD_VSFIXEDFILEINFO_FILE_OS :: "(string \<times> u32) list" where
  "MD_VSFIXEDFILEINFO_FILE_OS =
     [(''MD_VSFIXEDFILEINFO_FILE_OS_UNKNOWN'', 0),
      (''MD_VSFIXEDFILEINFO_FILE_OS_DOS'', 0x10000),
      (''MD_VSFIXEDFILEINFO_FILE_OS_OS216'', 0x20000),
      (''MD_VSFIXEDFILEINFO_FILE_OS_OS232'', 0x30000),
      (''MD_VSFIXEDFILEINFO_FILE_OS_NT'', 0x40000),
      (''MD_VSFIXEDFILEINFO_FILE_OS_WINCE'', 0x50000),
      (''MD_VSFIXEDFILEINFO_FILE_OS__BASE'', 0),
      (''MD_VSFIXEDFILEINFO_FILE_OS__WINDOWS16'', 1),
      (''MD_VSFIXEDFILEINFO_FILE_OS__PM16'', 2),
      (''MD_VSFIXEDFILEINFO_FILE_OS__PM32'', 3),
      (''MD_VSFIXEDFILEINFO_FILE_OS__WINDOWS32'', 4)]"

definition MD_VSFIXEDFILEINFO_FILE_TYPE :: "(string \<times> u32) list" where
  "MD_VSFIXEDFILEINFO_FILE_TYPE =
     [(''MD_VSFIXEDFILEINFO_FILE_TYPE_UNKNOWN'', 0),
      (''MD_VSFIXEDFILEINFO_FILE_TYPE_APP'', 1),
      (''MD_VSFIXEDFILEINFO_FILE_TYPE_DLL'', 2),
      (''MD_VSFIXEDFILEINFO_FILE_TYPE_DRV'', 3),
      (''MD_VSFIXEDFILEINFO_FILE_TYPE_FONT'', 4),
      (''MD_VSFIXEDFILEINFO_FILE_TYPE_VXD'', 5),
      (''MD_VSFIXEDFILEINFO_FILE_TYPE_STATIC_LIB'', 7)]"

definition MD_VSFIXEDFILEINFO_FILE_SUBTYPE :: "(string \<times> u32) list" where
  "MD_VSFIXEDFILEINFO_FILE_SUBTYPE =
     [(''MD_VSFIXEDFILEINFO_FILE_SUBTYPE_UNKNOWN'', 0),
      (''MD_VSFIXEDFILEINFO_FILE_SUBTYPE_DRV_PRINTER'', 1),
      (''MD_VSFIXEDFILEINFO_FILE_SUBTYPE_DRV_KEYBOARD'', 2),
      (''MD_VSFIXEDFILEINFO_FILE_SUBTYPE_DRV_LANGUAGE'', 3),
      (''MD_VSFIXEDFILEINFO_FILE_SUBTYPE_DRV_DISPLAY'', 4),
      (''MD_VSFIXEDFILEINFO_FILE_SUBTYPE_DRV_MOUSE'', 5),
      (''MD_VSFIXEDFILEINFO_FILE_SUBTYPE_DRV_NETWORK'', 6),
      (''MD_VSFIXEDFILEINFO_FILE_SUBTYPE_DRV_SYSTEM'', 7),
      (''MD_VSFIXEDFILEINFO_FILE_SUBTYPE_DRV_INSTALLABLE'', 8),
      (''MD_VSFIXEDFILEINFO_FILE_SUBTYPE_DRV_SOUND'', 9),
      (''MD_VSFIXEDFILEINFO_FILE_SUBTYPE_DRV_COMM'', 10),
      (''MD_VSFIXEDFILEINFO_FILE_SUBTYPE_DRV_INPUTMETHOD'', 11),
      (''MD_VSFIXEDFILEINFO_FILE_SUBTYPE_DRV_VERSIONED_PRINTER'', 12),
      (''MD_VSFIXEDFILEINFO_FILE_SUBTYPE_FONT_RASTER'', 1),
      (''MD_VSFIXEDFILEINFO_FILE_SUBTYPE_FONT_VECTOR'', 2),
      (''MD_VSFIXEDFILEINFO_FILE_SUBTYPE_FONT_TRUETYPE'', 3)]"

definition MDRVA :: ctype where "MDRVA = uint32_t"

definition MDLocationDescriptor :: ctype where
  "MDLocationDescriptor = struct
     [(''data_size'', uint32_t),
      (''rva'', MDRVA)]"

definition MDMemoryDescriptor :: ctype where
  "MDMemoryDescriptor = struct
     [(''start_of_memory_range'', uint64_t),
      (''memory'', MDLocationDescriptor)]"

definition MDRawHeader :: ctype where
  "MDRawHeader = struct
     [(''signature'', uint32_t),
      (''version'', uint32_t),
      (''stream_count'', uint32_t),
      (''stream_directory_rva'', MDRVA),
      (''checksum'', uint32_t),
      (''time_date_stamp'', uint32_t),
      (''flags'', uint64_t)]"

definition MD_HEADER_SIGNATURE :: u32 where "MD_HEADER_SIGNATURE = 0x504d444d"

definition MD_HEADER_VERSION :: u32 where "MD_HEADER_VERSION = 0x0000a793"

definition MDType :: "(string \<times> nat) list" where
  "MDType =
     [(''MD_NORMAL'', 0),
      (''MD_WITH_DATA_SEGS'', 1),
      (''MD_WITH_FULL_MEMORY'', 2),
      (''MD_WITH_HANDLE_DATA'', 4),
      (''MD_FILTER_MEMORY'', 8),
      (''MD_SCAN_MEMORY'', 16),
      (''MD_WITH_UNLOADED_MODULES'', 0x20),
      (''MD_WITH_INDIRECTLY_REFERENCED_MEMORY'', 0x40),
      (''MD_FILTER_MODULE_PATHS'', 0x80),
      (''MD_WITH_PROCESS_THREAD_DATA'', 0x100),
      (''MD_WITH_PRIVATE_READ_WRITE_MEMORY'', 0x200),
      (''MD_WITHOUT_OPTIONAL_DATA'', 0x400),
      (''MD_WITH_FULL_MEMORY_INFO'', 0x800),
      (''MD_WITH_THREAD_INFO'', 0x1000),
      (''MD_WITH_CODE_SEGS'', 0x2000),
      (''MD_WITHOUT_AUXILLIARY_SEGS'', 0x4000),
      (''MD_WITH_FULL_AUXILLIARY_STATE'', 0x8000),
      (''MD_WITH_PRIVATE_WRITE_COPY_MEMORY'', 0x10000),
      (''MD_IGNORE_INACCESSIBLE_MEMORY'', 0x20000),
      (''MD_WITH_TOKEN_INFORMATION'', 0x40000)]"

definition MDRawDirectory :: ctype where
  "MDRawDirectory = struct
     [(''stream_type'', uint32_t),
      (''location'', MDLocationDescriptor)]"

definition MDStreamType :: "(string \<times> nat) list" where
  "MDStreamType =
     [(''MD_UNUSED_STREAM'', 0),
      (''MD_RESERVED_STREAM_0'', 1),
      (''MD_RESERVED_STREAM_1'', 2),
      (''MD_THREAD_LIST_STREAM'', 3),
      (''MD_MODULE_LIST_STREAM'', 4),
      (''MD_MEMORY_LIST_STREAM'', 5),
      (''MD_EXCEPTION_STREAM'', 6),
      (''MD_SYSTEM_INFO_STREAM'', 7),
      (''MD_THREAD_EX_LIST_STREAM'', 8),
      (''MD_MEMORY_64_LIST_STREAM'', 9),
      (''MD_COMMENT_STREAM_A'', 10),
      (''MD_COMMENT_STREAM_W'', 11),
      (''MD_HANDLE_DATA_STREAM'', 12),
      (''MD_FUNCTION_TABLE_STREAM'', 13),
      (''MD_UNLOADED_MODULE_LIST_STREAM'', 14),
      (''MD_MISC_INFO_STREAM'', 15),
      (''MD_MEMORY_INFO_LIST_STREAM'', 16),
      (''MD_THREAD_INFO_LIST_STREAM'', 17),
      (''MD_HANDLE_OPERATION_LIST_STREAM'', 18),
      (''MD_TOKEN_STREAM'', 19),
      (''MD_JAVASCRIPT_DATA_STREAM'', 20),
      (''MD_SYSTEM_MEMORY_INFO_STREAM'', 21),
      (''MD_PROCESS_VM_COUNTERS_STREAM'', 22),
      (''MD_LAST_RESERVED_STREAM'', 0xffff),
      (''MD_BREAKPAD_INFO_STREAM'', 0x47670001),
      (''MD_ASSERTION_INFO_STREAM'', 0x47670002),
      (''MD_LINUX_CPU_INFO'', 0x47670003),
      (''MD_LINUX_PROC_STATUS'', 0x47670004),
      (''MD_LINUX_LSB_RELEASE'', 0x47670005),
      (''MD_LINUX_CMD_LINE'', 0x47670006),
      (''MD_LINUX_ENVIRON'', 0x47670007),
      (''MD_LINUX_AUXV'', 0x47670008),
      (''MD_LINUX_MAPS'', 0x47670009),
      (''MD_LINUX_DSO_DEBUG'', 0x4767000a),
      (''MD_CRASHPAD_INFO_STREAM'', 0x43500001)]"

definition MDString :: ctype where
  "MDString = struct
     [(''length'', uint32_t),
      (''buffer'', CArr uint16_t 1)]"

definition MDString_minsize :: "nat \<Rightarrow> nat" where
  "MDString_minsize al = the (offsetof al MDString ''buffer'')"

definition MDRawThread :: ctype where
  "MDRawThread = struct
     [(''thread_id'', uint32_t),
      (''suspend_count'', uint32_t),
      (''priority_class'', uint32_t),
      (''priority'', uint32_t),
      (''teb'', uint64_t),
      (''stack'', MDMemoryDescriptor),
      (''thread_context'', MDLocationDescriptor)]"

definition MDRawThreadList :: ctype where
  "MDRawThreadList = struct
     [(''number_of_threads'', uint32_t),
      (''threads'', CArr MDRawThread 1)]"

definition MDRawThreadList_minsize :: "nat \<Rightarrow> nat" where
  "MDRawThreadList_minsize al = the (offsetof al MDRawThreadList ''threads'')"

definition MDRawModule :: ctype where
  "MDRawModule = struct
     [(''base_of_image'', uint64_t),
      (''size_of_image'', uint32_t),
      (''checksum'', uint32_t),
      (''time_date_stamp'', uint32_t),
      (''module_name_rva'', MDRVA),
      (''version_info'', MDVSFixedFileInfo),
      (''cv_record'', MDLocationDescriptor),
      (''misc_record'', MDLocationDescriptor),
      (''reserved0'', CArr uint32_t 2),
      (''reserved1'', CArr uint32_t 2)]"

definition MD_MODULE_SIZE :: nat where "MD_MODULE_SIZE = 108"

definition MDCVHeader :: ctype where
  "MDCVHeader = struct
     [(''signature'', uint32_t),
      (''offset'', uint32_t)]"

definition MDCVInfoPDB20 :: ctype where
  "MDCVInfoPDB20 = struct
     [(''cv_header'', MDCVHeader),
      (''signature'', uint32_t),
      (''age'', uint32_t),
      (''pdb_file_name'', CArr uint8_t 1)]"

definition MDCVInfoPDB20_minsize :: "nat \<Rightarrow> nat" where
  "MDCVInfoPDB20_minsize al = the (offsetof al MDCVInfoPDB20 ''pdb_file_name'')"

definition MD_CVINFOPDB20_SIGNATURE :: u32 where "MD_CVINFOPDB20_SIGNATURE = 0x3031424e"

definition MDCVInfoPDB70 :: ctype where
  "MDCVInfoPDB70 = struct
     [(''cv_signature'', uint32_t),
      (''signature'', MDGUID),
      (''age'', uint32_t),
      (''pdb_file_name'', CArr uint8_t 1)]"

definition MDCVInfoPDB70_minsize :: "nat \<Rightarrow> nat" where
  "MDCVInfoPDB70_minsize al = the (offsetof al MDCVInfoPDB70 ''pdb_file_name'')"

definition MD_CVINFOPDB70_SIGNATURE :: u32 where "MD_CVINFOPDB70_SIGNATURE = 0x53445352"

definition MDCVInfoELF :: ctype where
  "MDCVInfoELF = struct
     [(''cv_signature'', uint32_t),
      (''build_id'', CArr uint8_t 1)]"

definition MDCVInfoELF_minsize :: "nat \<Rightarrow> nat" where
  "MDCVInfoELF_minsize al = the (offsetof al MDCVInfoELF ''build_id'')"

definition MD_CVINFOELF_SIGNATURE :: u32 where "MD_CVINFOELF_SIGNATURE = 0x4270454c"

definition MD_CVINFOCV41_SIGNATURE :: u32 where "MD_CVINFOCV41_SIGNATURE = 0x3930424e"

definition MD_CVINFOCV50_SIGNATURE :: u32 where "MD_CVINFOCV50_SIGNATURE = 0x3131424e"

definition MD_CVINFOUNKNOWN_SIGNATURE :: u32 where "MD_CVINFOUNKNOWN_SIGNATURE = 0xffffffff"

definition MDImageDebugMisc :: ctype where
  "MDImageDebugMisc = struct
     [(''data_type'', uint32_t),
      (''length'', uint32_t),
      (''unicode'', uint8_t),
      (''reserved'', CArr uint8_t 3),
      (''data'', CArr uint8_t 1)]"

definition MDImageDebugMisc_minsize :: "nat \<Rightarrow> nat" where
  "MDImageDebugMisc_minsize al = the (offsetof al MDImageDebugMisc ''data'')"

definition MDRawModuleList :: ctype where
  "MDRawModuleList = struct
     [(''number_of_modules'', uint32_t),
      (''modules'', CArr MDRawModule 1)]"

definition MDRawModuleList_minsize :: "nat \<Rightarrow> nat" where
  "MDRawModuleList_minsize al = the (offsetof al MDRawModuleList ''modules'')"

definition MDRawMemoryList :: ctype where
  "MDRawMemoryList = struct
     [(''number_of_memory_ranges'', uint32_t),
      (''memory_ranges'', CArr MDMemoryDescriptor 1)]"

definition MDRawMemoryList_minsize :: "nat \<Rightarrow> nat" where
  "MDRawMemoryList_minsize al = the (offsetof al MDRawMemoryList ''memory_ranges'')"

definition MD_EXCEPTION_MAXIMUM_PARAMETERS :: nat where "MD_EXCEPTION_MAXIMUM_PARAMETERS = 15"

definition MDException :: ctype where
  "MDException = struct
     [(''exception_code'', uint32_t),
      (''exception_flags'', uint32_t),
      (''exception_record'', uint64_t),
      (''exception_address'', uint64_t),
      (''number_parameters'', uint32_t),
      (''__align'', uint32_t),
      (''exception_information'', CArr uint64_t MD_EXCEPTION_MAXIMUM_PARAMETERS)]"

definition MDRawExceptionStream :: ctype where
  "MDRawExceptionStream = struct
     [(''thread_id'', uint32_t),
      (''__align'', uint32_t),
      (''exception_record'', MDException),
      (''thread_context'', MDLocationDescriptor)]"

definition MDCPUInformation :: ctype where
  "MDCPUInformation = CUnion
     [(''x86_cpu_info'', struct [(''vendor_id'', CArr uint32_t 3),
        (''version_information'', uint32_t),
        (''feature_information'', uint32_t),
        (''amd_extended_cpu_features'', uint32_t)]),
      (''arm_cpu_info'', struct [(''cpuid'', uint32_t),
        (''elf_hwcaps'', uint32_t)]),
      (''other_cpu_info'', struct [(''processor_features'', CArr uint64_t 2)])]"

definition MDCPUInformationARMElfHwCaps :: "(string \<times> nat) list" where
  "MDCPUInformationARMElfHwCaps =
     [(''MD_CPU_ARM_ELF_HWCAP_SWP'', 1),
      (''MD_CPU_ARM_ELF_HWCAP_HALF'', 2),
      (''MD_CPU_ARM_ELF_HWCAP_THUMB'', 4),
      (''MD_CPU_ARM_ELF_HWCAP_26BIT'', 8),
      (''MD_CPU_ARM_ELF_HWCAP_FAST_MULT'', 16),
      (''MD_CPU_ARM_ELF_HWCAP_FPA'', 0x20),
      (''MD_CPU_ARM_ELF_HWCAP_VFP'', 0x40),
      (''MD_CPU_ARM_ELF_HWCAP_EDSP'', 0x80),
      (''MD_CPU_ARM_ELF_HWCAP_JAVA'', 0x100),
      (''MD_CPU_ARM_ELF_HWCAP_IWMMXT'', 0x200),
      (''MD_CPU_ARM_ELF_HWCAP_CRUNCH'', 0x400),
      (''MD_CPU_ARM_ELF_HWCAP_THUMBEE'', 0x800),
      (''MD_CPU_ARM_ELF_HWCAP_NEON'', 0x1000),
      (''MD_CPU_ARM_ELF_HWCAP_VFPv3'', 0x2000),
      (''MD_CPU_ARM_ELF_HWCAP_VFPv3D16'', 0x4000),
      (''MD_CPU_ARM_ELF_HWCAP_TLS'', 0x8000),
      (''MD_CPU_ARM_ELF_HWCAP_VFPv4'', 0x10000),
      (''MD_CPU_ARM_ELF_HWCAP_IDIVA'', 0x20000),
      (''MD_CPU_ARM_ELF_HWCAP_IDIVT'', 0x40000)]"

definition MDRawSystemInfo :: ctype where
  "MDRawSystemInfo = struct
     [(''processor_architecture'', uint16_t),
      (''processor_level'', uint16_t),
      (''processor_revision'', uint16_t),
      (''number_of_processors'', uint8_t),
      (''product_type'', uint8_t),
      (''major_version'', uint32_t),
      (''minor_version'', uint32_t),
      (''build_number'', uint32_t),
      (''platform_id'', uint32_t),
      (''csd_version_rva'', MDRVA),
      (''suite_mask'', uint16_t),
      (''reserved2'', uint16_t),
      (''cpu'', MDCPUInformation)]"

definition MDCPUArchitecture :: "(string \<times> nat) list" where
  "MDCPUArchitecture =
     [(''MD_CPU_ARCHITECTURE_X86'', 0),
      (''MD_CPU_ARCHITECTURE_MIPS'', 1),
      (''MD_CPU_ARCHITECTURE_ALPHA'', 2),
      (''MD_CPU_ARCHITECTURE_PPC'', 3),
      (''MD_CPU_ARCHITECTURE_SHX'', 4),
      (''MD_CPU_ARCHITECTURE_ARM'', 5),
      (''MD_CPU_ARCHITECTURE_IA64'', 6),
      (''MD_CPU_ARCHITECTURE_ALPHA64'', 7),
      (''MD_CPU_ARCHITECTURE_MSIL'', 8),
      (''MD_CPU_ARCHITECTURE_AMD64'', 9),
      (''MD_CPU_ARCHITECTURE_X86_WIN64'', 10),
      (''MD_CPU_ARCHITECTURE_ARM64'', 12),
      (''MD_CPU_ARCHITECTURE_SPARC'', 0x8001),
      (''MD_CPU_ARCHITECTURE_PPC64'', 0x8002),
      (''MD_CPU_ARCHITECTURE_ARM64_OLD'', 0x8003),
      (''MD_CPU_ARCHITECTURE_MIPS64'', 0x8004),
      (''MD_CPU_ARCHITECTURE_UNKNOWN'', 0xffff)]"

definition MDOSPlatform :: "(string \<times> nat) list" where
  "MDOSPlatform =
     [(''MD_OS_WIN32S'', 0),
      (''MD_OS_WIN32_WINDOWS'', 1),
      (''MD_OS_WIN32_NT'', 2),
      (''MD_OS_WIN32_CE'', 3),
      (''MD_OS_UNIX'', 0x8000),
      (''MD_OS_MAC_OS_X'', 0x8101),
      (''MD_OS_IOS'', 0x8102),
      (''MD_OS_LINUX'', 0x8201),
      (''MD_OS_SOLARIS'', 0x8202),
      (''MD_OS_ANDROID'', 0x8203),
      (''MD_OS_PS3'', 0x8204),
      (''MD_OS_NACL'', 0x8205),
      (''MD_OS_FUCHSIA'', 0x8206)]"

definition MDRawUnloadedModule :: ctype where
  "MDRawUnloadedModule = struct
     [(''base_of_image'', uint64_t),
      (''size_of_image'', uint32_t),
      (''checksum'', uint32_t),
      (''time_date_stamp'', uint32_t),
      (''module_name_rva'', MDRVA)]"

definition MDRawUnloadedModuleList :: ctype where
  "MDRawUnloadedModuleList = struct
     [(''size_of_header'', uint32_t),
      (''size_of_entry'', uint32_t),
      (''number_of_entries'', uint32_t)]"

definition MDSystemTime :: ctype where
  "MDSystemTime = struct
     [(''year'', uint16_t),
      (''month'', uint16_t),
      (''day_of_week'', uint16_t),
      (''day'', uint16_t),
      (''hour'', uint16_t),
      (''minute'', uint16_t),
      (''second'', uint16_t),
      (''milliseconds'', uint16_t)]"

definition MDTimeZoneInformation :: ctype where
  "MDTimeZoneInformation = struct
     [(''bias'', int32_t),
      (''standard_name'', CArr uint16_t 32),
      (''standard_date'', MDSystemTime),
      (''standard_bias'', int32_t),
      (''daylight_name'', CArr uint16_t 32),
      (''daylight_date'', MDSystemTime),
      (''daylight_bias'', int32_t)]"

definition MD_MAX_PATH :: nat where "MD_MAX_PATH = 260"

definition MDXStateFeature :: ctype where
  "MDXStateFeature = struct
     [(''offset'', uint32_t),
      (''size'', uint32_t)]"

definition MDXStateFeatureFlag :: "(string \<times> nat) list" where
  "MDXStateFeatureFlag =
     [(''MD_XSTATE_LEGACY_FLOATING_POINT'', 0),
      (''MD_XSTATE_LEGACY_SSE'', 1),
      (''MD_XSTATE_GSSE'', 2),
      (''MD_XSTATE_AVX'', 2),
      (''MD_XSTATE_MPX_BNDREGS'', 3),
      (''MD_XSTATE_MPX_BNDCSR'', 4),
      (''MD_XSTATE_AVX512_KMASK'', 5),
      (''MD_XSTATE_AVX512_ZMM_H'', 6),
      (''MD_XSTATE_AVX512_ZMM'', 7),
      (''MD_XSTATE_IPT'', 8),
      (''MD_XSTATE_LWP'', 0x3e)]"

definition MD_MAXIMUM_XSTATE_FEATURES :: nat where "MD_MAXIMUM_XSTATE_FEATURES = 64"

definition MDXStateConfigFeatureMscInfo :: ctype where
  "MDXStateConfigFeatureMscInfo = struct
     [(''size_of_info'', uint32_t),
      (''context_size'', uint32_t),
      (''enabled_features'', uint64_t),
      (''features'', CArr MDXStateFeature MD_MAXIMUM_XSTATE_FEATURES)]"

definition MDRawMiscInfo :: ctype where
  "MDRawMiscInfo = struct
     [(''size_of_info'', uint32_t),
      (''flags1'', uint32_t),
      (''process_id'', uint32_t),
      (''process_create_time'', uint32_t),
      (''process_user_time'', uint32_t),
      (''process_kernel_time'', uint32_t),
      (''processor_max_mhz'', uint32_t),
      (''processor_current_mhz'', uint32_t),
      (''processor_mhz_limit'', uint32_t),
      (''processor_max_idle_state'', uint32_t),
      (''processor_current_idle_state'', uint32_t),
      (''process_integrity_level'', uint32_t),
      (''process_execute_flags'', uint32_t),
      (''protected_process'', uint32_t),
      (''time_zone_id'', uint32_t),
      (''time_zone'', MDTimeZoneInformation),
      (''build_string'', CArr uint16_t MD_MAX_PATH),
      (''dbg_bld_str'', CArr uint16_t 40),
      (''xstate_data'', MDXStateConfigFeatureMscInfo),
      (''process_cookie'', uint32_t)]"

definition MD_MISCINFO_SIZE :: "nat \<Rightarrow> nat" where
  "MD_MISCINFO_SIZE al = the (offsetof al MDRawMiscInfo ''processor_max_mhz'')"

definition MD_MISCINFO2_SIZE :: "nat \<Rightarrow> nat" where
  "MD_MISCINFO2_SIZE al = the (offsetof al MDRawMiscInfo ''process_integrity_level'')"

definition MD_MISCINFO3_SIZE :: "nat \<Rightarrow> nat" where
  "MD_MISCINFO3_SIZE al = the (offsetof al MDRawMiscInfo ''build_string'')"

definition MD_MISCINFO4_SIZE :: "nat \<Rightarrow> nat" where
  "MD_MISCINFO4_SIZE al = the (offsetof al MDRawMiscInfo ''xstate_data'')"

definition MD_MISCINFO5_SIZE :: "nat \<Rightarrow> nat" where
  "MD_MISCINFO5_SIZE al = the (offsetof al MDRawMiscInfo ''process_cookie'') + sizeof al uint32_t"

definition MDMiscInfoFlags1 :: "(string \<times> nat) list" where
  "MDMiscInfoFlags1 =
     [(''MD_MISCINFO_FLAGS1_PROCESS_ID'', 1),
      (''MD_MISCINFO_FLAGS1_PROCESS_TIMES'', 2),
      (''MD_MISCINFO_FLAGS1_PROCESSOR_POWER_INFO'', 4),
      (''MD_MISCINFO_FLAGS1_PROCESS_INTEGRITY'', 16),
      (''MD_MISCINFO_FLAGS1_PROCESS_EXECUTE_FLAGS'', 0x20),
      (''MD_MISCINFO_FLAGS1_TIMEZONE'', 0x40),
      (''MD_MISCINFO_FLAGS1_PROTECTED_PROCESS'', 0x80),
      (''MD_MISCINFO_FLAGS1_BUILDSTRING'', 0x100),
      (''MD_MISCINFO_FLAGS1_PROCESS_COOKIE'', 0x200)]"

definition MDRawMemoryInfoList :: ctype where
  "MDRawMemoryInfoList = struct
     [(''size_of_header'', uint32_t),
      (''size_of_entry'', uint32_t),
      (''number_of_entries'', uint64_t)]"

definition MDRawMemoryInfo :: ctype where
  "MDRawMemoryInfo = struct
     [(''base_address'', uint64_t),
      (''allocation_base'', uint64_t),
      (''allocation_protection'', uint32_t),
      (''__alignment1'', uint32_t),
      (''region_size'', uint64_t),
      (''state'', uint32_t),
      (''protection'', uint32_t),
      (''type'', uint32_t),
      (''__alignment2'', uint32_t)]"

definition MDMemoryState :: "(string \<times> nat) list" where
  "MDMemoryState =
     [(''MD_MEMORY_STATE_COMMIT'', 0x1000),
      (''MD_MEMORY_STATE_RESERVE'', 0x2000),
      (''MD_MEMORY_STATE_FREE'', 0x10000)]"

definition MDMemoryProtection :: "(string \<times> nat) list" where
  "MDMemoryProtection =
     [(''MD_MEMORY_PROTECT_NOACCESS'', 1),
      (''MD_MEMORY_PROTECT_READONLY'', 2),
      (''MD_MEMORY_PROTECT_READWRITE'', 4),
      (''MD_MEMORY_PROTECT_WRITECOPY'', 8),
      (''MD_MEMORY_PROTECT_EXECUTE'', 16),
      (''MD_MEMORY_PROTECT_EXECUTE_READ'', 0x20),
      (''MD_MEMORY_PROTECT_EXECUTE_READWRITE'', 0x40),
      (''MD_MEMORY_PROTECT_EXECUTE_WRITECOPY'', 0x80),
      (''MD_MEMORY_PROTECT_GUARD'', 0x100),
      (''MD_MEMORY_PROTECT_NOCACHE'', 0x200),
      (''MD_MEMORY_PROTECT_WRITECOMBINE'', 0x400)]"

definition MD_MEMORY_PROTECTION_ACCESS_MASK :: u32 where "MD_MEMORY_PROTECTION_ACCESS_MASK = 0xFF"

definition MDMemoryType :: "(string \<times> nat) list" where
  "MDMemoryType =
     [(''MD_MEMORY_TYPE_PRIVATE'', 0x20000),
      (''MD_MEMORY_TYPE_MAPPED'', 0x40000),
      (''MD_MEMORY_TYPE_IMAGE'', 0x1000000)]"

definition MDRawBreakpadInfo :: ctype where
  "MDRawBreakpadInfo = struct
     [(''validity'', uint32_t),
      (''dump_thread_id'', uint32_t),
      (''requesting_thread_id'', uint32_t)]"

definition MDBreakpadInfoValidity :: "(string \<times> nat) list" where
  "MDBreakpadInfoValidity =
     [(''MD_BREAKPAD_INFO_VALID_DUMP_THREAD_ID'', 1),
      (''MD_BREAKPAD_INFO_VALID_REQUESTING_THREAD_ID'', 2)]"

definition MDRawAssertionInfo :: ctype where
  "MDRawAssertionInfo = struct
     [(''expression'', CArr uint16_t 128),
      (''function'', CArr uint16_t 128),
      (''file'', CArr uint16_t 128),
      (''line'', uint32_t),
      (''type'', uint32_t)]"

definition MDAssertionInfoData :: "(string \<times> nat) list" where
  "MDAssertionInfoData =
     [(''MD_ASSERTION_INFO_TYPE_UNKNOWN'', 0),
      (''MD_ASSERTION_INFO_TYPE_INVALID_PARAMETER'', 1),
      (''MD_ASSERTION_INFO_TYPE_PURE_VIRTUAL_CALL'', 2)]"

definition MDRawLinkMap32 :: ctype where
  "MDRawLinkMap32 = struct
     [(''addr'', uint32_t),
      (''name'', MDRVA),
      (''ld'', uint32_t)]"

definition MDRawDebug32 :: ctype where
  "MDRawDebug32 = struct
     [(''version'', uint32_t),
      (''map'', MDRVA),
      (''dso_count'', uint32_t),
      (''brk'', uint32_t),
      (''ldbase'', uint32_t),
      (''dynamic'', uint32_t)]"

definition MDRawLinkMap64 :: ctype where
  "MDRawLinkMap64 = struct
     [(''addr'', uint64_t),
      (''name'', MDRVA),
      (''ld'', uint64_t)]"

definition MDRawDebug64 :: ctype where
  "MDRawDebug64 = struct
     [(''version'', uint32_t),
      (''map'', MDRVA),
      (''dso_count'', uint32_t),
      (''brk'', uint64_t),
      (''ldbase'', uint64_t),
      (''dynamic'', uint64_t)]"

definition MDRawSimpleStringDictionaryEntry :: ctype where
  "MDRawSimpleStringDictionaryEntry = struct
     [(''key'', MDRVA),
      (''value'', MDRVA)]"

definition MDRawSimpleStringDictionary :: ctype where
  "MDRawSimpleStringDictionary = struct
     [(''count'', uint32_t),
      (''entries'', CArr MDRawSimpleStringDictionaryEntry 0)]"

definition MDRawModuleCrashpadInfo :: ctype where
  "MDRawModuleCrashpadInfo = struct
     [(''version'', uint32_t),
      (''list_annotations'', MDLocationDescriptor),
      (''simple_annotations'', MDLocationDescriptor)]"

definition MDRawModuleCrashpadInfoLink :: ctype where
  "MDRawModuleCrashpadInfoLink = struct
     [(''minidump_module_list_index'', uint32_t),
      (''location'', MDLocationDescriptor)]"

definition MDRawModuleCrashpadInfoList :: ctype where
  "MDRawModuleCrashpadInfoList = struct
     [(''count'', uint32_t),
      (''modules'', CArr MDLocationDescriptor 0)]"

definition MDRawCrashpadInfo :: ctype where
  "MDRawCrashpadInfo = struct
     [(''version'', uint32_t),
      (''report_id'', MDGUID),
      (''client_id'', MDGUID),
      (''simple_annotations'', MDLocationDescriptor),
      (''module_list'', MDLocationDescriptor)]"

section \<open>Sizes under the two alignments of 64-bit integers\<close>

lemma MDGUID_layout:
  "lay 4 MDGUID = (16, 4)"
  "lay 8 MDGUID = (16, 4)"
  "psize MDGUID = 16"
  "tight 4 MDGUID"
  "tight 8 MDGUID"
  by (simp_all add: MDGUID_def layout_simps del: layout_del)

lemma MDRawContextBase_layout:
  "lay 4 MDRawContextBase = (4, 4)"
  "lay 8 MDRawContextBase = (4, 4)"
  "psize MDRawContextBase = 4"
  "tight 4 MDRawContextBase"
  "tight 8 MDRawContextBase"
  by (simp_all add: MDRawContextBase_def layout_simps del: layout_del)

lemma MDVSFixedFileInfo_layout:
  "lay 4 MDVSFixedFileInfo = (52, 4)"
  "lay 8 MDVSFixedFileInfo = (52, 4)"
  "psize MDVSFixedFileInfo = 52"
  "tight 4 MDVSFixedFileInfo"
  "tight 8 MDVSFixedFileInfo"
  by (simp_all add: MDVSFixedFileInfo_def layout_simps del: layout_del)

lemma MDLocationDescriptor_layout:
  "lay 4 MDLocationDescriptor = (8, 4)"
  "lay 8 MDLocationDescriptor = (8, 4)"
  "psize MDLocationDescriptor = 8"
  "tight 4 MDLocationDescriptor"
  "tight 8 MDLocationDescriptor"
  by (simp_all add: MDLocationDescriptor_def MDRVA_def layout_simps del: layout_del)

lemma MDMemoryDescriptor_layout:
  "lay 4 MDMemoryDescriptor = (16, 4)"
  "lay 8 MDMemoryDescriptor = (16, 8)"
  "psize MDMemoryDescriptor = 16"
  "tight 4 MDMemoryDescriptor"
  "tight 8 MDMemoryDescriptor"
  by (simp_all add: MDMemoryDescriptor_def MDLocationDescriptor_layout layout_simps del: layout_del)

lemma MDRawHeader_layout:
  "lay 4 MDRawHeader = (32, 4)"
  "lay 8 MDRawHeader = (32, 8)"
  "psize MDRawHeader = 32"
  "tight 4 MDRawHeader"
  "tight 8 MDRawHeader"
  by (simp_all add: MDRawHeader_def MDRVA_def layout_simps del: layout_del)

lemma MDRawDirectory_layout:
  "lay 4 MDRawDirectory = (12, 4)"
  "lay 8 MDRawDirectory = (12, 4)"
  "psize MDRawDirectory = 12"
  "tight 4 MDRawDirectory"
  "tight 8 MDRawDirectory"
  by (simp_all add: MDRawDirectory_def MDLocationDescriptor_layout layout_simps del: layout_del)

lemma MDString_layout:
  "lay 4 MDString = (8, 4)" "lay 8 MDString = (8, 4)" "psize MDString = 6"
  by (simp_all add: MDString_def layout_simps del: layout_del)

lemma MDRawThread_layout:
  "lay 4 MDRawThread = (48, 4)"
  "lay 8 MDRawThread = (48, 8)"
  "psize MDRawThread = 48"
  "tight 4 MDRawThread"
  "tight 8 MDRawThread"
  by (simp_all add: MDRawThread_def MDLocationDescriptor_layout MDMemoryDescriptor_layout layout_simps del: layout_del)

lemma MDRawThreadList_layout:
  "lay 4 MDRawThreadList = (52, 4)"
  "lay 8 MDRawThreadList = (56, 8)"
  "psize MDRawThreadList = 52"
  "tight 4 MDRawThreadList"
  by (simp_all add: MDRawThreadList_def MDRawThread_layout layout_simps del: layout_del)

lemma MDRawModule_layout:
  "lay 4 MDRawModule = (108, 4)"
  "lay 8 MDRawModule = (112, 8)"
  "psize MDRawModule = 108"
  "tight 4 MDRawModule"
  by (simp_all add: MDRawModule_def MDLocationDescriptor_layout MDRVA_def MDVSFixedFileInfo_layout layout_simps del: layout_del)

lemma MDCVHeader_layout:
  "lay 4 MDCVHeader = (8, 4)"
  "lay 8 MDCVHeader = (8, 4)"
  "psize MDCVHeader = 8"
  "tight 4 MDCVHeader"
  "tight 8 MDCVHeader"
  by (simp_all add: MDCVHeader_def layout_simps del: layout_del)

lemma MDCVInfoPDB20_layout:
  "lay 4 MDCVInfoPDB20 = (20, 4)" "lay 8 MDCVInfoPDB20 = (20, 4)" "psize MDCVInfoPDB20 = 17"
  by (simp_all add: MDCVInfoPDB20_def MDCVHeader_layout layout_simps del: layout_del)

lemma MDCVInfoPDB70_layout:
  "lay 4 MDCVInfoPDB70 = (28, 4)" "lay 8 MDCVInfoPDB70 = (28, 4)" "psize MDCVInfoPDB70 = 25"
  by (simp_all add: MDCVInfoPDB70_def MDGUID_layout layout_simps del: layout_del)

lemma MDCVInfoELF_layout:
  "lay 4 MDCVInfoELF = (8, 4)" "lay 8 MDCVInfoELF = (8, 4)" "psize MDCVInfoELF = 5"
  by (simp_all add: MDCVInfoELF_def layout_simps del: layout_del)

lemma MDImageDebugMisc_layout:
  "lay 4 MDImageDebugMisc = (16, 4)"
  "lay 8 MDImageDebugMisc = (16, 4)"
  "psize MDImageDebugMisc = 13"
  by (simp_all add: MDImageDebugMisc_def layout_simps del: layout_del)

lemma MDRawModuleList_layout:
  "lay 4 MDRawModuleList = (112, 4)"
  "lay 8 MDRawModuleList = (120, 8)"
  "psize MDRawModuleList = 112"
  "tight 4 MDRawModuleList"
  by (simp_all add: MDRawModuleList_def MDRawModule_layout layout_simps del: layout_del)

lemma MDRawMemoryList_layout:
  "lay 4 MDRawMemoryList = (20, 4)"
  "lay 8 MDRawMemoryList = (24, 8)"
  "psize MDRawMemoryList = 20"
  "tight 4 MDRawMemoryList"
  by (simp_all add: MDRawMemoryList_def MDMemoryDescriptor_layout layout_simps del: layout_del)

lemma MDException_layout:
  "lay 4 MDException = (152, 4)"
  "lay 8 MDException = (152, 8)"
  "psize MDException = 152"
  "tight 4 MDException"
  "tight 8 MDException"
  by (simp_all add: MDException_def MD_EXCEPTION_MAXIMUM_PARAMETERS_def layout_simps del: layout_del)

lemma MDRawExceptionStream_layout:
  "lay 4 MDRawExceptionStream = (168, 4)"
  "lay 8 MDRawExceptionStream = (168, 8)"
  "psize MDRawExceptionStream = 168"
  "tight 4 MDRawExceptionStream"
  "tight 8 MDRawExceptionStream"
  by (simp_all add: MDRawExceptionStream_def MDException_layout MDLocationDescriptor_layout layout_simps del: layout_del)

lemma MDCPUInformation_layout:
  "lay 4 MDCPUInformation = (24, 4)"
  "lay 8 MDCPUInformation = (24, 8)"
  "psize MDCPUInformation = 24"
  "tight 4 MDCPUInformation"
  "tight 8 MDCPUInformation"
  by (simp_all add: MDCPUInformation_def layout_simps del: layout_del)

lemma MDRawSystemInfo_layout:
  "lay 4 MDRawSystemInfo = (56, 4)"
  "lay 8 MDRawSystemInfo = (56, 8)"
  "psize MDRawSystemInfo = 56"
  "tight 4 MDRawSystemInfo"
  "tight 8 MDRawSystemInfo"
  by (simp_all add: MDRawSystemInfo_def MDCPUInformation_layout MDRVA_def layout_simps del: layout_del)

lemma MDRawUnloadedModule_layout:
  "lay 4 MDRawUnloadedModule = (24, 4)"
  "lay 8 MDRawUnloadedModule = (24, 8)"
  "psize MDRawUnloadedModule = 24"
  "tight 4 MDRawUnloadedModule"
  "tight 8 MDRawUnloadedModule"
  by (simp_all add: MDRawUnloadedModule_def MDRVA_def layout_simps del: layout_del)

lemma MDRawUnloadedModuleList_layout:
  "lay 4 MDRawUnloadedModuleList = (12, 4)"
  "lay 8 MDRawUnloadedModuleList = (12, 4)"
  "psize MDRawUnloadedModuleList = 12"
  "tight 4 MDRawUnloadedModuleList"
  "tight 8 MDRawUnloadedModuleList"
  by (simp_all add: MDRawUnloadedModuleList_def layout_simps del: layout_del)

lemma MDSystemTime_layout:
  "lay 4 MDSystemTime = (16, 2)"
  "lay 8 MDSystemTime = (16, 2)"
  "psize MDSystemTime = 16"
  "tight 4 MDSystemTime"
  "tight 8 MDSystemTime"
  by (simp_all add: MDSystemTime_def layout_simps del: layout_del)

lemma MDTimeZoneInformation_layout:
  "lay 4 MDTimeZoneInformation = (172, 4)"
  "lay 8 MDTimeZoneInformation = (172, 4)"
  "psize MDTimeZoneInformation = 172"
  "tight 4 MDTimeZoneInformation"
  "tight 8 MDTimeZoneInformation"
  by (simp_all add: MDTimeZoneInformation_def MDSystemTime_layout layout_simps del: layout_del)

lemma MDXStateFeature_layout:
  "lay 4 MDXStateFeature = (8, 4)"
  "lay 8 MDXStateFeature = (8, 4)"
  "psize MDXStateFeature = 8"
  "tight 4 MDXStateFeature"
  "tight 8 MDXStateFeature"
  by (simp_all add: MDXStateFeature_def layout_simps del: layout_del)

lemma MDXStateConfigFeatureMscInfo_layout:
  "lay 4 MDXStateConfigFeatureMscInfo = (528, 4)"
  "lay 8 MDXStateConfigFeatureMscInfo = (528, 8)"
  "psize MDXStateConfigFeatureMscInfo = 528"
  "tight 4 MDXStateConfigFeatureMscInfo"
  "tight 8 MDXStateConfigFeatureMscInfo"
  by (simp_all add: MDXStateConfigFeatureMscInfo_def MDXStateFeature_layout MD_MAXIMUM_XSTATE_FEATURES_def layout_simps del: layout_del)

lemma MDRawMiscInfo_layout:
  "lay 4 MDRawMiscInfo = (1364, 4)"
  "lay 8 MDRawMiscInfo = (1368, 8)"
  "psize MDRawMiscInfo = 1364"
  "tight 4 MDRawMiscInfo"
  by (simp_all add: MDRawMiscInfo_def MDTimeZoneInformation_layout MDXStateConfigFeatureMscInfo_layout MD_MAX_PATH_def layout_simps del: layout_del)

lemma MDRawMemoryInfoList_layout:
  "lay 4 MDRawMemoryInfoList = (16, 4)"
  "lay 8 MDRawMemoryInfoList = (16, 8)"
  "psize MDRawMemoryInfoList = 16"
  "tight 4 MDRawMemoryInfoList"
  "tight 8 MDRawMemoryInfoList"
  by (simp_all add: MDRawMemoryInfoList_def layout_simps del: layout_del)

lemma MDRawMemoryInfo_layout:
  "lay 4 MDRawMemoryInfo = (48, 4)"
  "lay 8 MDRawMemoryInfo = (48, 8)"
  "psize MDRawMemoryInfo = 48"
  "tight 4 MDRawMemoryInfo"
  "tight 8 MDRawMemoryInfo"
  by (simp_all add: MDRawMemoryInfo_def layout_simps del: layout_del)

lemma MDRawBreakpadInfo_layout:
  "lay 4 MDRawBreakpadInfo = (12, 4)"
  "lay 8 MDRawBreakpadInfo = (12, 4)"
  "psize MDRawBreakpadInfo = 12"
  "tight 4 MDRawBreakpadInfo"
  "tight 8 MDRawBreakpadInfo"
  by (simp_all add: MDRawBreakpadInfo_def layout_simps del: layout_del)

lemma MDRawAssertionInfo_layout:
  "lay 4 MDRawAssertionInfo = (776, 4)"
  "lay 8 MDRawAssertionInfo = (776, 4)"
  "psize MDRawAssertionInfo = 776"
  "tight 4 MDRawAssertionInfo"
  "tight 8 MDRawAssertionInfo"
  by (simp_all add: MDRawAssertionInfo_def layout_simps del: layout_del)

lemma MDRawLinkMap32_layout:
  "lay 4 MDRawLinkMap32 = (12, 4)"
  "lay 8 MDRawLinkMap32 = (12, 4)"
  "psize MDRawLinkMap32 = 12"
  "tight 4 MDRawLinkMap32"
  "tight 8 MDRawLinkMap32"
  by (simp_all add: MDRawLinkMap32_def MDRVA_def layout_simps del: layout_del)

lemma MDRawDebug32_layout:
  "lay 4 MDRawDebug32 = (24, 4)"
  "lay 8 MDRawDebug32 = (24, 4)"
  "psize MDRawDebug32 = 24"
  "tight 4 MDRawDebug32"
  "tight 8 MDRawDebug32"
  by (simp_all add: MDRawDebug32_def MDRVA_def layout_simps del: layout_del)

lemma MDRawLinkMap64_layout:
  "lay 4 MDRawLinkMap64 = (20, 4)"
  "lay 8 MDRawLinkMap64 = (24, 8)"
  "psize MDRawLinkMap64 = 20"
  "tight 4 MDRawLinkMap64"
  by (simp_all add: MDRawLinkMap64_def MDRVA_def layout_simps del: layout_del)

lemma MDRawDebug64_layout:
  "lay 4 MDRawDebug64 = (36, 4)"
  "lay 8 MDRawDebug64 = (40, 8)"
  "psize MDRawDebug64 = 36"
  "tight 4 MDRawDebug64"
  by (simp_all add: MDRawDebug64_def MDRVA_def layout_simps del: layout_del)

lemma MDRawSimpleStringDictionaryEntry_layout:
  "lay 4 MDRawSimpleStringDictionaryEntry = (8, 4)"
  "lay 8 MDRawSimpleStringDictionaryEntry = (8, 4)"
  "psize MDRawSimpleStringDictionaryEntry = 8"
  "tight 4 MDRawSimpleStringDictionaryEntry"
  "tight 8 MDRawSimpleStringDictionaryEntry"
  by (simp_all add: MDRawSimpleStringDictionaryEntry_def MDRVA_def layout_simps del: layout_del)

lemma MDRawSimpleStringDictionary_layout:
  "lay 4 MDRawSimpleStringDictionary = (4, 4)"
  "lay 8 MDRawSimpleStringDictionary = (4, 4)"
  "psize MDRawSimpleStringDictionary = 4"
  "tight 4 MDRawSimpleStringDictionary"
  "tight 8 MDRawSimpleStringDictionary"
  by (simp_all add: MDRawSimpleStringDictionary_def MDRawSimpleStringDictionaryEntry_layout layout_simps del: layout_del)

lemma MDRawModuleCrashpadInfo_layout:
  "lay 4 MDRawModuleCrashpadInfo = (20, 4)"
  "lay 8 MDRawModuleCrashpadInfo = (20, 4)"
  "psize MDRawModuleCrashpadInfo = 20"
  "tight 4 MDRawModuleCrashpadInfo"
  "tight 8 MDRawModuleCrashpadInfo"
  by (simp_all add: MDRawModuleCrashpadInfo_def MDLocationDescriptor_layout layout_simps del: layout_del)

lemma MDRawModuleCrashpadInfoLink_layout:
  "lay 4 MDRawModuleCrashpadInfoLink = (12, 4)"
  "lay 8 MDRawModuleCrashpadInfoLink = (12, 4)"
  "psize MDRawModuleCrashpadInfoLink = 12"
  "tight 4 MDRawModuleCrashpadInfoLink"
  "tight 8 MDRawModuleCrashpadInfoLink"
  by (simp_all add: MDRawModuleCrashpadInfoLink_def MDLocationDescriptor_layout layout_simps del: layout_del)

lemma MDRawModuleCrashpadInfoList_layout:
  "lay 4 MDRawModuleCrashpadInfoList = (4, 4)"
  "lay 8 MDRawModuleCrashpadInfoList = (4, 4)"
  "psize MDRawModuleCrashpadInfoList = 4"
  "tight 4 MDRawModuleCrashpadInfoList"
  "tight 8 MDRawModuleCrashpadInfoList"
  by (simp_all add: MDRawModuleCrashpadInfoList_def MDLocationDescriptor_layout layout_simps del: layout_del)

lemma MDRawCrashpadInfo_layout:
  "lay 4 MDRawCrashpadInfo = (52, 4)"
  "lay 8 MDRawCrashpadInfo = (52, 4)"
  "psize MDRawCrashpadInfo = 52"
  "tight 4 MDRawCrashpadInfo"
  "tight 8 MDRawCrashpadInfo"
  by (simp_all add: MDRawCrashpadInfo_def MDGUID_layout MDLocationDescriptor_layout layout_simps del: layout_del)

lemmas format_layouts =
  MDGUID_layout MDRawContextBase_layout MDVSFixedFileInfo_layout MDLocationDescriptor_layout
  MDMemoryDescriptor_layout MDRawHeader_layout MDRawDirectory_layout MDString_layout
  MDRawThread_layout MDRawThreadList_layout MDRawModule_layout MDCVHeader_layout
  MDCVInfoPDB20_layout MDCVInfoPDB70_layout MDCVInfoELF_layout MDImageDebugMisc_layout
  MDRawModuleList_layout MDRawMemoryList_layout MDException_layout MDRawExceptionStream_layout
  MDCPUInformation_layout MDRawSystemInfo_layout MDRawUnloadedModule_layout
  MDRawUnloadedModuleList_layout MDSystemTime_layout MDTimeZoneInformation_layout
  MDXStateFeature_layout MDXStateConfigFeatureMscInfo_layout MDRawMiscInfo_layout
  MDRawMemoryInfoList_layout MDRawMemoryInfo_layout MDRawBreakpadInfo_layout
  MDRawAssertionInfo_layout MDRawLinkMap32_layout MDRawDebug32_layout MDRawLinkMap64_layout
  MDRawDebug64_layout MDRawSimpleStringDictionaryEntry_layout MDRawSimpleStringDictionary_layout
  MDRawModuleCrashpadInfo_layout MDRawModuleCrashpadInfoLink_layout
  MDRawModuleCrashpadInfoList_layout MDRawCrashpadInfo_layout

section \<open>minidump\_size.h\<close>

text \<open>The class template \<open>minidump_size\<close>: its specialisations, then the generic case.\<close>

definition minidump_size :: "nat \<Rightarrow> ctype \<Rightarrow> nat" where
  "minidump_size al t =
     (if t = MDString then MDString_minsize al
      else if t = MDRawThreadList then MDRawThreadList_minsize al
      else if t = MDCVInfoPDB20 then MDCVInfoPDB20_minsize al
      else if t = MDCVInfoPDB70 then MDCVInfoPDB70_minsize al
      else if t = MDCVInfoELF then MDCVInfoELF_minsize al
      else if t = MDImageDebugMisc then MDImageDebugMisc_minsize al
      else if t = MDRawModuleList then MDRawModuleList_minsize al
      else if t = MDRawMemoryList then MDRawMemoryList_minsize al
      else if t = MDRawModule then MD_MODULE_SIZE
      else sizeof al t)"

definition specialised :: "ctype list" where
  "specialised = [MDString, MDRawThreadList, MDCVInfoPDB20, MDCVInfoPDB70, MDCVInfoELF, MDImageDebugMisc,
     MDRawModuleList, MDRawMemoryList, MDRawModule]"

lemma neq_psize: "psize s \<noteq> psize t \<Longrightarrow> (s = t) = False"
  by auto

lemma minidump_size_specialised:
  "map (minidump_size al) specialised =
     [MDString_minsize al, MDRawThreadList_minsize al, MDCVInfoPDB20_minsize al, MDCVInfoPDB70_minsize al,
      MDCVInfoELF_minsize al, MDImageDebugMisc_minsize al, MDRawModuleList_minsize al,
      MDRawMemoryList_minsize al, MD_MODULE_SIZE]"
  by (simp add: specialised_def minidump_size_def neq_psize format_layouts)

section \<open>What the format relies on\<close>

lemma MDRawModule_tail: "tail_padded 4 MDRawModule" "tail_padded 8 MDRawModule"
  by (simp_all add: MDRawModule_def MDRVA_def format_layouts layout_simps del: layout_del)

lemma MDRawMiscInfo_tail: "tail_padded 4 MDRawMiscInfo" "tail_padded 8 MDRawMiscInfo"
  by (simp_all add: MDRawMiscInfo_def MD_MAX_PATH_def format_layouts layout_simps del: layout_del)

lemma misc_info_sizes:
  assumes "al \<in> {4, 8}"
  shows "MD_MISCINFO_SIZE al = 24" "MD_MISCINFO2_SIZE al = 44" "MD_MISCINFO3_SIZE al = 232"
    "MD_MISCINFO4_SIZE al = 832" "MD_MISCINFO5_SIZE al = 1364"
  using assms
  by (auto simp: MD_MISCINFO_SIZE_def MD_MISCINFO2_SIZE_def MD_MISCINFO3_SIZE_def MD_MISCINFO4_SIZE_def
      MD_MISCINFO5_SIZE_def offsetof_def MDRawMiscInfo_def MD_MAX_PATH_def format_layouts layout_simps
      simp del: layout_del)

lemma tail_padded_take:
  assumes "tail_padded al t" and "has_type t v" and "t = CStruct p fs"
  shows "take (psize t) (store al t v) = packed t v"
  using store_tail_padded assms by blast

text \<open>
  All structures of \<^verbatim>\<open>minidump_format.h\<close>. Those that end in an array of one byte or 16-bit unit, the place-holder of a
  string, are padded behind it under every ABI, \<open>MDRawModule\<close> and \<open>MDRawMiscInfo\<close> are padded at the end where 64-bit integers are
  aligned to 8, and there five structures have padding in front of one of their members.
\<close>

definition format_types :: "ctype list" where
  "format_types =
     [MDGUID, MDRawContextBase, MDVSFixedFileInfo, MDLocationDescriptor, MDMemoryDescriptor, MDRawHeader,
      MDRawDirectory, MDString, MDRawThread, MDRawThreadList, MDRawModule, MDCVHeader, MDCVInfoPDB20,
      MDCVInfoPDB70, MDCVInfoELF, MDImageDebugMisc, MDRawModuleList, MDRawMemoryList, MDException,
      MDRawExceptionStream, MDCPUInformation, MDRawSystemInfo, MDRawUnloadedModule, MDRawUnloadedModuleList,
      MDSystemTime, MDTimeZoneInformation, MDXStateFeature, MDXStateConfigFeatureMscInfo, MDRawMiscInfo,
      MDRawMemoryInfoList, MDRawMemoryInfo, MDRawBreakpadInfo, MDRawAssertionInfo, MDRawLinkMap32,
      MDRawDebug32, MDRawLinkMap64, MDRawDebug64, MDRawSimpleStringDictionaryEntry,
      MDRawSimpleStringDictionary, MDRawModuleCrashpadInfo, MDRawModuleCrashpadInfoLink,
      MDRawModuleCrashpadInfoList, MDRawCrashpadInfo]"

definition end_padded :: "nat \<Rightarrow> ctype list" where
  "end_padded al = [MDString, MDCVInfoPDB20, MDCVInfoPDB70, MDCVInfoELF, MDImageDebugMisc] @
     (if al = 8 then [MDRawModule, MDRawMiscInfo] else [])"

definition inner_padded :: "nat \<Rightarrow> (ctype \<times> string) list" where
  "inner_padded al = (if al = 8 then [(MDRawThreadList, ''threads''), (MDRawModuleList, ''modules''),
     (MDRawMemoryList, ''memory_ranges''), (MDRawLinkMap64, ''ld''), (MDRawDebug64, ''brk'')] else [])"

text \<open>Where a member is when the members follow each other without padding.\<close>

definition packed_offset :: "ctype \<Rightarrow> string \<Rightarrow> nat" where
  "packed_offset t m = sum_list (map (psize \<circ> snd) (takeWhile (\<lambda>f. fst f \<noteq> m) (members t)))"

lemma unpadded_tight:
  assumes "t \<in> set format_types" and "al \<in> {4, 8}" and "t \<notin> set (end_padded al)" and "t \<notin> set (map fst (inner_padded al))"
  shows "tight al t"
proof -
  have "t \<notin> {MDRawThreadList, MDRawModuleList, MDRawMemoryList, MDRawLinkMap64, MDRawDebug64}" if "al = 8"
    using assms(4) by (simp add: inner_padded_def that)
  then show ?thesis using assms(1-3) by (auto simp: format_types_def end_padded_def format_layouts)
qed

lemma end_padded_tail:
  assumes "t \<in> set (end_padded al)" and "al \<in> {4, 8}"
  shows "psize t < sizeof al t" and "tail_padded al t" and "\<exists>p fs. t = CStruct p fs"
proof -
  show "psize t < sizeof al t" using assms by (auto simp: end_padded_def sizeof_def format_layouts split: if_splits)
  have "tail_padded al MDString" "tail_padded al MDCVInfoPDB20" "tail_padded al MDCVInfoPDB70" "tail_padded al MDCVInfoELF"
    "tail_padded al MDImageDebugMisc"
    using assms(2) by (auto simp: MDString_def MDCVInfoPDB20_def MDCVInfoPDB70_def MDCVInfoELF_def MDImageDebugMisc_def
        format_layouts layout_simps simp del: layout_del)
  then show "tail_padded al t" using assms by (auto simp: end_padded_def MDRawModule_tail MDRawMiscInfo_tail split: if_splits)
  show "\<exists>p fs. t = CStruct p fs"
    using assms by (auto simp: end_padded_def MDString_def MDCVInfoPDB20_def MDCVInfoPDB70_def MDCVInfoELF_def MDImageDebugMisc_def
        MDRawModule_def MDRawMiscInfo_def split: if_splits)
qed

lemma inner_padded_offset:
  assumes "(t, m) \<in> set (inner_padded al)"
  shows "offsetof al t m = Some (packed_offset t m + 4)" and "psize t < sizeof al t"
proof -
  have 8: "al = 8" using assms by (auto simp: inner_padded_def split: if_splits)
  have "offsetof 8 MDRawThreadList ''threads'' = Some (packed_offset MDRawThreadList ''threads'' + 4)"
    "offsetof 8 MDRawModuleList ''modules'' = Some (packed_offset MDRawModuleList ''modules'' + 4)"
    "offsetof 8 MDRawMemoryList ''memory_ranges'' = Some (packed_offset MDRawMemoryList ''memory_ranges'' + 4)"
    "offsetof 8 MDRawLinkMap64 ''ld'' = Some (packed_offset MDRawLinkMap64 ''ld'' + 4)"
    "offsetof 8 MDRawDebug64 ''brk'' = Some (packed_offset MDRawDebug64 ''brk'' + 4)"
    by (simp_all add: packed_offset_def offsetof_def MDRawThreadList_def MDRawModuleList_def MDRawMemoryList_def MDRawLinkMap64_def
        MDRawDebug64_def MDRVA_def format_layouts layout_simps del: layout_del)
  then show "offsetof al t m = Some (packed_offset t m + 4)" using assms unfolding 8 by (auto simp: inner_padded_def)
  show "psize t < sizeof al t" using assms unfolding 8 by (auto simp: inner_padded_def sizeof_def format_layouts)
qed

text \<open>
  C25. Which structures of the format have one layout. For both alignments of 64-bit integers every structure of the format is of
  one of three kinds. The bytes of an unpadded one in memory are its members one after the other and nothing else, so what the client
  copies to the file is the same on every target. One of \<open>end_padded\<close> is larger than its members, and its first \<open>psize\<close> bytes
  are the members: cutting it there gives the same bytes on every target, and \<open>minidump_size\<close> and \<open>MD_MISCINFO5_SIZE\<close> cut
  \<open>MDRawModule\<close> and \<open>MDRawMiscInfo\<close> there. One of \<open>inner_padded\<close>, under the alignment 8 only, has four bytes of padding in front of the
  member named: its bytes differ between the targets. These are the thread, module and memory lists, which the client writes as a
  32-bit count and the entries, and the 64-bit DSO debug records, which it writes as they are.
\<close>

theorem structs_portable:
  assumes "t \<in> set format_types" and "al \<in> {4, 8}" and "has_type t v"
  shows "(t \<notin> set (end_padded al) \<and> t \<notin> set (map fst (inner_padded al)) \<longrightarrow>
      store al t v = packed t v \<and> sizeof al t = psize t \<and> length (store al t v) = psize t) \<and>
    (t \<in> set (end_padded al) \<longrightarrow> psize t < sizeof al t \<and> take (psize t) (store al t v) = packed t v) \<and>
    (\<forall>m. (t, m) \<in> set (inner_padded al) \<longrightarrow> psize t < sizeof al t \<and> offsetof al t m = Some (packed_offset t m + 4)) \<and>
    minidump_size al MDRawModule = psize MDRawModule \<and> MD_MISCINFO5_SIZE al = psize MDRawMiscInfo"
proof (intro conjI impI allI)
  assume "t \<notin> set (end_padded al) \<and> t \<notin> set (map fst (inner_padded al))"
  then have "tight al t" using assms(1,2) unpadded_tight by blast
  then show "store al t v = packed t v" "sizeof al t = psize t" "length (store al t v) = psize t"
    using assms(3) store_packed(1) [of al t v] tight_sizeof length_packed by simp_all
next
  assume "t \<in> set (end_padded al)"
  then show "psize t < sizeof al t" "take (psize t) (store al t v) = packed t v"
    using end_padded_tail [OF _ assms(2)] tail_padded_take assms(3) by blast+
qed (use inner_padded_offset minidump_size_specialised [of al] misc_info_sizes [OF assms(2)]
  in \<open>simp_all add: specialised_def MD_MODULE_SIZE_def format_layouts\<close>)

theorem structs_portable_witness:
  "store 8 MDMemoryDescriptor (VStruct [VInt 0x10, VStruct [VInt 3, VInt 0x100]]) =
     [0x10, 0, 0, 0, 0, 0, 0, 0, 3, 0, 0, 0, 0, 1, 0, 0] \<and>
   take 108 (store 8 MDRawModule (zero_value MDRawModule)) = packed MDRawModule (zero_value MDRawModule) \<and>
   offsetof 8 MDRawLinkMap64 ''ld'' = Some 16"
proof -
  let ?v = "VStruct [VInt 0x10, VStruct [VInt 3, VInt 0x100]]" and ?l = "VStruct [VInt 1, VInt 2, VInt 3]"
  have t: "has_type MDMemoryDescriptor ?v" "has_type MDRawLinkMap64 ?l"
    by (simp_all add: MDMemoryDescriptor_def MDLocationDescriptor_def MDRVA_def MDRawLinkMap64_def)
  have m: "has_type MDRawModule (zero_value MDRawModule)"
    by (simp add: MDRawModule_def MDRVA_def MDVSFixedFileInfo_def MDLocationDescriptor_def list_all_iff)
  have i: "MDMemoryDescriptor \<in> set format_types" "MDRawModule \<in> set format_types" "MDRawLinkMap64 \<in> set format_types"
    by (simp_all add: format_types_def)
  have n: "MDMemoryDescriptor \<notin> set (end_padded 8)" "MDMemoryDescriptor \<notin> set (map fst (inner_padded 8))"
    by (auto simp: end_padded_def inner_padded_def neq_psize format_layouts)
  have k: "MDRawModule \<in> set (end_padded 8)" "(MDRawLinkMap64, ''ld'') \<in> set (inner_padded 8)"
    by (simp_all add: end_padded_def inner_padded_def)
  have "packed MDMemoryDescriptor ?v = [0x10, 0, 0, 0, 0, 0, 0, 0, 3, 0, 0, 0, 0, 1, 0, 0]"
    by (simp add: MDMemoryDescriptor_def MDLocationDescriptor_def MDRVA_def)
  then have "store 8 MDMemoryDescriptor ?v = [0x10, 0, 0, 0, 0, 0, 0, 0, 3, 0, 0, 0, 0, 1, 0, 0]"
    using structs_portable [OF i(1) _ t(1), of 8] n by simp
  moreover have "take 108 (store 8 MDRawModule (zero_value MDRawModule)) = packed MDRawModule (zero_value MDRawModule)"
    using structs_portable [OF i(2) _ m, of 8] k(1) by (simp add: MDRawModule_layout)
  moreover have "packed_offset MDRawLinkMap64 ''ld'' = 12" by (simp add: packed_offset_def MDRawLinkMap64_def MDRVA_def)
  then have "offsetof 8 MDRawLinkMap64 ''ld'' = Some 16" using structs_portable [OF i(3) _ t(2), of 8] k(2) by simp
  ultimately show ?thesis by blast
qed

text \<open>
  The sizes \<open>minidump_size\<close> gives the structures with a variable-length end are the sizes of
  their fixed parts, the same under both alignments, with three exceptions: a thread, module or memory list
  has four bytes of header, but with 64-bit integers aligned to 8 the constants say 8. The
  DSO debug records for 64-bit clients depend on the ABI in the same way.
\<close>

lemma minidump_sizes:
  "map (minidump_size 4) specialised = [4, 4, 16, 24, 4, 12, 4, 4, 108] \<and>
   map (minidump_size 8) specialised = [4, 8, 16, 24, 4, 12, 8, 8, 108] \<and>
   (sizeof 4 MDRawLinkMap64, sizeof 8 MDRawLinkMap64) = (20, 24) \<and>
   (sizeof 4 MDRawDebug64, sizeof 8 MDRawDebug64) = (36, 40)"
  unfolding minidump_size_specialised
  by (simp add: MDString_minsize_def MDRawThreadList_minsize_def MDCVInfoPDB20_minsize_def
      MDCVInfoPDB70_minsize_def MDCVInfoELF_minsize_def MDImageDebugMisc_minsize_def MD_MODULE_SIZE_def
      MDRawModuleList_minsize_def MDRawMemoryList_minsize_def offsetof_def MDString_def MDRawThreadList_def
      MDCVInfoPDB20_def MDCVInfoPDB70_def MDCVInfoELF_def MDImageDebugMisc_def MDRawModuleList_def
      MDRawMemoryList_def format_layouts layout_simps del: layout_del)

end
