(* ===== verification/Exception_Codes.thy ===== *)
theory Exception_Codes
  imports Prelude
begin

text \<open>
  The exception codes of the platforms a minidump can come from:
  \<^verbatim>\<open>google_breakpad/common/minidump_exception_*.h\<close>. Each enum is the table of its enumerators.
\<close>


section \<open>minidump\_exception\_linux.h\<close>

definition MDExceptionCodeLinux :: "(string \<times> nat) list" where
  "MDExceptionCodeLinux =
     [(''MD_EXCEPTION_CODE_LIN_SIGHUP'', 1),
      (''MD_EXCEPTION_CODE_LIN_SIGINT'', 2),
      (''MD_EXCEPTION_CODE_LIN_SIGQUIT'', 3),
      (''MD_EXCEPTION_CODE_LIN_SIGILL'', 4),
      (''MD_EXCEPTION_CODE_LIN_SIGTRAP'', 5),
      (''MD_EXCEPTION_CODE_LIN_SIGABRT'', 6),
      (''MD_EXCEPTION_CODE_LIN_SIGBUS'', 7),
      (''MD_EXCEPTION_CODE_LIN_SIGFPE'', 8),
      (''MD_EXCEPTION_CODE_LIN_SIGKILL'', 9),
      (''MD_EXCEPTION_CODE_LIN_SIGUSR1'', 10),
      (''MD_EXCEPTION_CODE_LIN_SIGSEGV'', 11),
      (''MD_EXCEPTION_CODE_LIN_SIGUSR2'', 12),
      (''MD_EXCEPTION_CODE_LIN_SIGPIPE'', 13),
      (''MD_EXCEPTION_CODE_LIN_SIGALRM'', 14),
      (''MD_EXCEPTION_CODE_LIN_SIGTERM'', 15),
      (''MD_EXCEPTION_CODE_LIN_SIGSTKFLT'', 16),
      (''MD_EXCEPTION_CODE_LIN_SIGCHLD'', 17),
      (''MD_EXCEPTION_CODE_LIN_SIGCONT'', 18),
      (''MD_EXCEPTION_CODE_LIN_SIGSTOP'', 19),
      (''MD_EXCEPTION_CODE_LIN_SIGTSTP'', 20),
      (''MD_EXCEPTION_CODE_LIN_SIGTTIN'', 21),
      (''MD_EXCEPTION_CODE_LIN_SIGTTOU'', 22),
      (''MD_EXCEPTION_CODE_LIN_SIGURG'', 23),
      (''MD_EXCEPTION_CODE_LIN_SIGXCPU'', 24),
      (''MD_EXCEPTION_CODE_LIN_SIGXFSZ'', 25),
      (''MD_EXCEPTION_CODE_LIN_SIGVTALRM'', 26),
      (''MD_EXCEPTION_CODE_LIN_SIGPROF'', 27),
      (''MD_EXCEPTION_CODE_LIN_SIGWINCH'', 28),
      (''MD_EXCEPTION_CODE_LIN_SIGIO'', 29),
      (''MD_EXCEPTION_CODE_LIN_SIGPWR'', 30),
      (''MD_EXCEPTION_CODE_LIN_SIGSYS'', 31),
      (''MD_EXCEPTION_CODE_LIN_DUMP_REQUESTED'', 0xffffffff)]"

definition MDExceptionFlagLinux :: "(string \<times> nat) list" where
  "MDExceptionFlagLinux =
     [(''MD_EXCEPTION_FLAG_LIN_ILL_ILLOPC'', 1),
      (''MD_EXCEPTION_FLAG_LIN_ILL_ILLOPN'', 2),
      (''MD_EXCEPTION_FLAG_LIN_ILL_ILLADR'', 3),
      (''MD_EXCEPTION_FLAG_LIN_ILL_ILLTRP'', 4),
      (''MD_EXCEPTION_FLAG_LIN_ILL_PRVOPC'', 5),
      (''MD_EXCEPTION_FLAG_LIN_ILL_PRVREG'', 6),
      (''MD_EXCEPTION_FLAG_LIN_ILL_COPROC'', 7),
      (''MD_EXCEPTION_FLAG_LIN_ILL_BADSTK'', 8),
      (''MD_EXCEPTION_FLAG_LIN_FPE_INTDIV'', 1),
      (''MD_EXCEPTION_FLAG_LIN_FPE_INTOVF'', 2),
      (''MD_EXCEPTION_FLAG_LIN_FPE_FLTDIV'', 3),
      (''MD_EXCEPTION_FLAG_LIN_FPE_FLTOVF'', 4),
      (''MD_EXCEPTION_FLAG_LIN_FPE_FLTUND'', 5),
      (''MD_EXCEPTION_FLAG_LIN_FPE_FLTRES'', 6),
      (''MD_EXCEPTION_FLAG_LIN_FPE_FLTINV'', 7),
      (''MD_EXCEPTION_FLAG_LIN_FPE_FLTSUB'', 8),
      (''MD_EXCEPTION_FLAG_LIN_SEGV_MAPERR'', 1),
      (''MD_EXCEPTION_FLAG_LIN_SEGV_ACCERR'', 2),
      (''MD_EXCEPTION_FLAG_LIN_SEGV_BNDERR'', 3),
      (''MD_EXCEPTION_FLAG_LIN_SEGV_PKUERR'', 4),
      (''MD_EXCEPTION_FLAG_LIN_BUS_ADRALN'', 1),
      (''MD_EXCEPTION_FLAG_LIN_BUS_ADRERR'', 2),
      (''MD_EXCEPTION_FLAG_LIN_BUS_OBJERR'', 3),
      (''MD_EXCEPTION_FLAG_LIN_BUS_MCEERR_AR'', 4),
      (''MD_EXCEPTION_FLAG_LIN_BUS_MCEERR_AO'', 5)]"

section \<open>minidump\_exception\_mac.h\<close>

definition MDExceptionMac :: "(string \<times> nat) list" where
  "MDExceptionMac =
     [(''MD_EXCEPTION_MAC_BAD_ACCESS'', 1),
      (''MD_EXCEPTION_MAC_BAD_INSTRUCTION'', 2),
      (''MD_EXCEPTION_MAC_ARITHMETIC'', 3),
      (''MD_EXCEPTION_MAC_EMULATION'', 4),
      (''MD_EXCEPTION_MAC_SOFTWARE'', 5),
      (''MD_EXCEPTION_MAC_BREAKPOINT'', 6),
      (''MD_EXCEPTION_MAC_SYSCALL'', 7),
      (''MD_EXCEPTION_MAC_MACH_SYSCALL'', 8),
      (''MD_EXCEPTION_MAC_RPC_ALERT'', 9),
      (''MD_EXCEPTION_MAC_SIMULATED'', 0x43507378)]"

definition MDExceptionCodeMac :: "(string \<times> nat) list" where
  "MDExceptionCodeMac =
     [(''MD_EXCEPTION_CODE_MAC_INVALID_ADDRESS'', 1),
      (''MD_EXCEPTION_CODE_MAC_PROTECTION_FAILURE'', 2),
      (''MD_EXCEPTION_CODE_MAC_NO_ACCESS'', 8),
      (''MD_EXCEPTION_CODE_MAC_MEMORY_FAILURE'', 9),
      (''MD_EXCEPTION_CODE_MAC_MEMORY_ERROR'', 10),
      (''MD_EXCEPTION_CODE_MAC_CODESIGN_ERROR'', 0x32),
      (''MD_EXCEPTION_CODE_MAC_BAD_SYSCALL'', 0x10000),
      (''MD_EXCEPTION_CODE_MAC_BAD_PIPE'', 0x10001),
      (''MD_EXCEPTION_CODE_MAC_ABORT'', 0x10002),
      (''MD_EXCEPTION_CODE_MAC_NS_EXCEPTION'', 0xdeadc0de),
      (''MD_EXCEPTION_CODE_MAC_ARM_DA_ALIGN'', 0x101),
      (''MD_EXCEPTION_CODE_MAC_ARM_DA_DEBUG'', 0x102),
      (''MD_EXCEPTION_CODE_MAC_ARM_UNDEFINED'', 1),
      (''MD_EXCEPTION_CODE_MAC_ARM_BREAKPOINT'', 1),
      (''MD_EXCEPTION_CODE_MAC_PPC_VM_PROT_READ'', 0x101),
      (''MD_EXCEPTION_CODE_MAC_PPC_BADSPACE'', 0x102),
      (''MD_EXCEPTION_CODE_MAC_PPC_UNALIGNED'', 0x103),
      (''MD_EXCEPTION_CODE_MAC_PPC_INVALID_SYSCALL'', 1),
      (''MD_EXCEPTION_CODE_MAC_PPC_UNIMPLEMENTED_INSTRUCTION'', 2),
      (''MD_EXCEPTION_CODE_MAC_PPC_PRIVILEGED_INSTRUCTION'', 3),
      (''MD_EXCEPTION_CODE_MAC_PPC_PRIVILEGED_REGISTER'', 4),
      (''MD_EXCEPTION_CODE_MAC_PPC_TRACE'', 5),
      (''MD_EXCEPTION_CODE_MAC_PPC_PERFORMANCE_MONITOR'', 6),
      (''MD_EXCEPTION_CODE_MAC_PPC_OVERFLOW'', 1),
      (''MD_EXCEPTION_CODE_MAC_PPC_ZERO_DIVIDE'', 2),
      (''MD_EXCEPTION_CODE_MAC_PPC_FLOAT_INEXACT'', 3),
      (''MD_EXCEPTION_CODE_MAC_PPC_FLOAT_ZERO_DIVIDE'', 4),
      (''MD_EXCEPTION_CODE_MAC_PPC_FLOAT_UNDERFLOW'', 5),
      (''MD_EXCEPTION_CODE_MAC_PPC_FLOAT_OVERFLOW'', 6),
      (''MD_EXCEPTION_CODE_MAC_PPC_FLOAT_NOT_A_NUMBER'', 7),
      (''MD_EXCEPTION_CODE_MAC_PPC_NO_EMULATION'', 8),
      (''MD_EXCEPTION_CODE_MAC_PPC_ALTIVEC_ASSIST'', 9),
      (''MD_EXCEPTION_CODE_MAC_PPC_TRAP'', 1),
      (''MD_EXCEPTION_CODE_MAC_PPC_MIGRATE'', 0x10100),
      (''MD_EXCEPTION_CODE_MAC_PPC_BREAKPOINT'', 1),
      (''MD_EXCEPTION_CODE_MAC_X86_INVALID_OPERATION'', 1),
      (''MD_EXCEPTION_CODE_MAC_X86_DIV'', 1),
      (''MD_EXCEPTION_CODE_MAC_X86_INTO'', 2),
      (''MD_EXCEPTION_CODE_MAC_X86_NOEXT'', 3),
      (''MD_EXCEPTION_CODE_MAC_X86_EXTOVR'', 4),
      (''MD_EXCEPTION_CODE_MAC_X86_EXTERR'', 5),
      (''MD_EXCEPTION_CODE_MAC_X86_EMERR'', 6),
      (''MD_EXCEPTION_CODE_MAC_X86_BOUND'', 7),
      (''MD_EXCEPTION_CODE_MAC_X86_SSEEXTERR'', 8),
      (''MD_EXCEPTION_CODE_MAC_X86_SGL'', 1),
      (''MD_EXCEPTION_CODE_MAC_X86_BPT'', 2),
      (''MD_EXCEPTION_CODE_MAC_X86_INVALID_TASK_STATE_SEGMENT'', 10),
      (''MD_EXCEPTION_CODE_MAC_X86_SEGMENT_NOT_PRESENT'', 11),
      (''MD_EXCEPTION_CODE_MAC_X86_STACK_FAULT'', 12),
      (''MD_EXCEPTION_CODE_MAC_X86_GENERAL_PROTECTION_FAULT'', 13),
      (''MD_EXCEPTION_CODE_MAC_X86_ALIGNMENT_FAULT'', 17)]"

section \<open>minidump\_exception\_ps3.h\<close>

definition MDExceptionCodePS3 :: "(string \<times> nat) list" where
  "MDExceptionCodePS3 =
     [(''MD_EXCEPTION_CODE_PS3_UNKNOWN'', 0),
      (''MD_EXCEPTION_CODE_PS3_TRAP_EXCEP'', 1),
      (''MD_EXCEPTION_CODE_PS3_PRIV_INSTR'', 2),
      (''MD_EXCEPTION_CODE_PS3_ILLEGAL_INSTR'', 3),
      (''MD_EXCEPTION_CODE_PS3_INSTR_STORAGE'', 4),
      (''MD_EXCEPTION_CODE_PS3_INSTR_SEGMENT'', 5),
      (''MD_EXCEPTION_CODE_PS3_DATA_STORAGE'', 6),
      (''MD_EXCEPTION_CODE_PS3_DATA_SEGMENT'', 7),
      (''MD_EXCEPTION_CODE_PS3_FLOAT_POINT'', 8),
      (''MD_EXCEPTION_CODE_PS3_DABR_MATCH'', 9),
      (''MD_EXCEPTION_CODE_PS3_ALIGN_EXCEP'', 10),
      (''MD_EXCEPTION_CODE_PS3_MEMORY_ACCESS'', 11),
      (''MD_EXCEPTION_CODE_PS3_COPRO_ALIGN'', 12),
      (''MD_EXCEPTION_CODE_PS3_COPRO_INVALID_COM'', 13),
      (''MD_EXCEPTION_CODE_PS3_COPRO_ERR'', 14),
      (''MD_EXCEPTION_CODE_PS3_COPRO_FIR'', 15),
      (''MD_EXCEPTION_CODE_PS3_COPRO_DATA_SEGMENT'', 16),
      (''MD_EXCEPTION_CODE_PS3_COPRO_DATA_STORAGE'', 17),
      (''MD_EXCEPTION_CODE_PS3_COPRO_STOP_INSTR'', 18),
      (''MD_EXCEPTION_CODE_PS3_COPRO_HALT_INSTR'', 19),
      (''MD_EXCEPTION_CODE_PS3_COPRO_HALTINST_UNKNOWN'', 20),
      (''MD_EXCEPTION_CODE_PS3_COPRO_MEMORY_ACCESS'', 21),
      (''MD_EXCEPTION_CODE_PS3_GRAPHIC'', 22)]"

section \<open>minidump\_exception\_solaris.h\<close>

definition MDExceptionCodeSolaris :: "(string \<times> nat) list" where
  "MDExceptionCodeSolaris =
     [(''MD_EXCEPTION_CODE_SOL_SIGHUP'', 1),
      (''MD_EXCEPTION_CODE_SOL_SIGINT'', 2),
      (''MD_EXCEPTION_CODE_SOL_SIGQUIT'', 3),
      (''MD_EXCEPTION_CODE_SOL_SIGILL'', 4),
      (''MD_EXCEPTION_CODE_SOL_SIGTRAP'', 5),
      (''MD_EXCEPTION_CODE_SOL_SIGIOT'', 6),
      (''MD_EXCEPTION_CODE_SOL_SIGABRT'', 6),
      (''MD_EXCEPTION_CODE_SOL_SIGEMT'', 7),
      (''MD_EXCEPTION_CODE_SOL_SIGFPE'', 8),
      (''MD_EXCEPTION_CODE_SOL_SIGKILL'', 9),
      (''MD_EXCEPTION_CODE_SOL_SIGBUS'', 10),
      (''MD_EXCEPTION_CODE_SOL_SIGSEGV'', 11),
      (''MD_EXCEPTION_CODE_SOL_SIGSYS'', 12),
      (''MD_EXCEPTION_CODE_SOL_SIGPIPE'', 13),
      (''MD_EXCEPTION_CODE_SOL_SIGALRM'', 14),
      (''MD_EXCEPTION_CODE_SOL_SIGTERM'', 15),
      (''MD_EXCEPTION_CODE_SOL_SIGUSR1'', 16),
      (''MD_EXCEPTION_CODE_SOL_SIGUSR2'', 17),
      (''MD_EXCEPTION_CODE_SOL_SIGCLD'', 18),
      (''MD_EXCEPTION_CODE_SOL_SIGCHLD'', 18),
      (''MD_EXCEPTION_CODE_SOL_SIGPWR'', 19),
      (''MD_EXCEPTION_CODE_SOL_SIGWINCH'', 20),
      (''MD_EXCEPTION_CODE_SOL_SIGURG'', 21),
      (''MD_EXCEPTION_CODE_SOL_SIGPOLL'', 22),
      (''MD_EXCEPTION_CODE_SOL_SIGIO'', 22),
      (''MD_EXCEPTION_CODE_SOL_SIGSTOP'', 23),
      (''MD_EXCEPTION_CODE_SOL_SIGTSTP'', 24),
      (''MD_EXCEPTION_CODE_SOL_SIGCONT'', 25),
      (''MD_EXCEPTION_CODE_SOL_SIGTTIN'', 26),
      (''MD_EXCEPTION_CODE_SOL_SIGTTOU'', 27),
      (''MD_EXCEPTION_CODE_SOL_SIGVTALRM'', 28),
      (''MD_EXCEPTION_CODE_SOL_SIGPROF'', 29),
      (''MD_EXCEPTION_CODE_SOL_SIGXCPU'', 30),
      (''MD_EXCEPTION_CODE_SOL_SIGXFSZ'', 31),
      (''MD_EXCEPTION_CODE_SOL_SIGWAITING'', 0x20),
      (''MD_EXCEPTION_CODE_SOL_SIGLWP'', 0x21),
      (''MD_EXCEPTION_CODE_SOL_SIGFREEZE'', 0x22),
      (''MD_EXCEPTION_CODE_SOL_SIGTHAW'', 0x23),
      (''MD_EXCEPTION_CODE_SOL_SIGCANCEL'', 0x24),
      (''MD_EXCEPTION_CODE_SOL_SIGLOST'', 0x25),
      (''MD_EXCEPTION_CODE_SOL_SIGXRES'', 0x26),
      (''MD_EXCEPTION_CODE_SOL_SIGJVM1'', 0x27),
      (''MD_EXCEPTION_CODE_SOL_SIGJVM2'', 0x28)]"

section \<open>minidump\_exception\_fuchsia.h\<close>

definition MDExceptionCodeFuchsia :: "(string \<times> nat) list" where
  "MDExceptionCodeFuchsia =
     [(''MD_EXCEPTION_CODE_FUCHSIA_GENERAL'', 8),
      (''MD_EXCEPTION_CODE_FUCHSIA_FATAL_PAGE_FAULT'', 0x108),
      (''MD_EXCEPTION_CODE_FUCHSIA_UNDEFINED_INSTRUCTION'', 0x208),
      (''MD_EXCEPTION_CODE_FUCHSIA_SW_BREAKPOINT'', 0x308),
      (''MD_EXCEPTION_CODE_FUCHSIA_HW_BREAKPOINT'', 0x408),
      (''MD_EXCEPTION_CODE_FUCHSIA_UNALIGNED_ACCESS'', 0x508),
      (''MD_EXCEPTION_CODE_FUCHSIA_THREAD_STARTING'', 0x8008),
      (''MD_EXCEPTION_CODE_FUCHSIA_THREAD_EXITING'', 0x8108),
      (''MD_EXCEPTION_CODE_FUCHSIA_POLICY_ERROR'', 0x8208),
      (''MD_EXCEPTION_CODE_FUCHSIA_PROCESS_STARTING'', 0x8308)]"

section \<open>minidump\_exception\_win32.h\<close>

definition MDExceptionCodeWin :: "(string \<times> nat) list" where
  "MDExceptionCodeWin =
     [(''MD_EXCEPTION_CODE_WIN_CONTROL_C'', 0x40010005),
      (''MD_EXCEPTION_CODE_WIN_GUARD_PAGE_VIOLATION'', 0x80000001),
      (''MD_EXCEPTION_CODE_WIN_DATATYPE_MISALIGNMENT'', 0x80000002),
      (''MD_EXCEPTION_CODE_WIN_BREAKPOINT'', 0x80000003),
      (''MD_EXCEPTION_CODE_WIN_SINGLE_STEP'', 0x80000004),
      (''MD_EXCEPTION_CODE_WIN_ACCESS_VIOLATION'', 0xc0000005),
      (''MD_EXCEPTION_CODE_WIN_IN_PAGE_ERROR'', 0xc0000006),
      (''MD_EXCEPTION_CODE_WIN_INVALID_HANDLE'', 0xc0000008),
      (''MD_EXCEPTION_CODE_WIN_ILLEGAL_INSTRUCTION'', 0xc000001d),
      (''MD_EXCEPTION_CODE_WIN_NONCONTINUABLE_EXCEPTION'', 0xc0000025),
      (''MD_EXCEPTION_CODE_WIN_INVALID_DISPOSITION'', 0xc0000026),
      (''MD_EXCEPTION_CODE_WIN_ARRAY_BOUNDS_EXCEEDED'', 0xc000008c),
      (''MD_EXCEPTION_CODE_WIN_FLOAT_DENORMAL_OPERAND'', 0xc000008d),
      (''MD_EXCEPTION_CODE_WIN_FLOAT_DIVIDE_BY_ZERO'', 0xc000008e),
      (''MD_EXCEPTION_CODE_WIN_FLOAT_INEXACT_RESULT'', 0xc000008f),
      (''MD_EXCEPTION_CODE_WIN_FLOAT_INVALID_OPERATION'', 0xc0000090),
      (''MD_EXCEPTION_CODE_WIN_FLOAT_OVERFLOW'', 0xc0000091),
      (''MD_EXCEPTION_CODE_WIN_FLOAT_STACK_CHECK'', 0xc0000092),
      (''MD_EXCEPTION_CODE_WIN_FLOAT_UNDERFLOW'', 0xc0000093),
      (''MD_EXCEPTION_CODE_WIN_INTEGER_DIVIDE_BY_ZERO'', 0xc0000094),
      (''MD_EXCEPTION_CODE_WIN_INTEGER_OVERFLOW'', 0xc0000095),
      (''MD_EXCEPTION_CODE_WIN_PRIVILEGED_INSTRUCTION'', 0xc0000096),
      (''MD_EXCEPTION_CODE_WIN_STACK_OVERFLOW'', 0xc00000fd),
      (''MD_EXCEPTION_CODE_WIN_BAD_FUNCTION_TABLE'', 0xc00000ff),
      (''MD_EXCEPTION_CODE_WIN_POSSIBLE_DEADLOCK'', 0xc0000194),
      (''MD_EXCEPTION_CODE_WIN_STACK_BUFFER_OVERRUN'', 0xc0000409),
      (''MD_EXCEPTION_CODE_WIN_HEAP_CORRUPTION'', 0xc0000374),
      (''MD_EXCEPTION_OUT_OF_MEMORY'', 0xe0000008),
      (''MD_EXCEPTION_CODE_WIN_UNHANDLED_CPP_EXCEPTION'', 0xe06d7363),
      (''MD_EXCEPTION_CODE_WIN_SIMULATED'', 0x517a7ed)]"

definition MDAccessViolationTypeWin :: "(string \<times> nat) list" where
  "MDAccessViolationTypeWin =
     [(''MD_ACCESS_VIOLATION_WIN_READ'', 0),
      (''MD_ACCESS_VIOLATION_WIN_WRITE'', 1),
      (''MD_ACCESS_VIOLATION_WIN_EXEC'', 8)]"

definition MDInPageErrorTypeWin :: "(string \<times> nat) list" where
  "MDInPageErrorTypeWin =
     [(''MD_IN_PAGE_ERROR_WIN_READ'', 0),
      (''MD_IN_PAGE_ERROR_WIN_WRITE'', 1),
      (''MD_IN_PAGE_ERROR_WIN_EXEC'', 8)]"

end
