(* ===== verification/Page_Allocator.thy ===== *)
theory Page_Allocator
  imports Prelude
begin

text \<open>
  \<^verbatim>\<open>common/memory_allocator.h\<close>: the allocator that takes pages from the kernel, for use
  when the heap may be corrupted.

  Addresses and sizes are 64-bit words (an LP64 target, where \<open>sizeof(PageHeader)\<close> is 16), so that
  every wrap-around of the source is in the definitions; NULL is 0. The chain of page headers is the list of
  their addresses with the number of pages of each, newest first. The system call \<open>mmap\<close> is an
  argument: it takes and returns the state of the kernel, and \<open>mmap_contract\<close> is what its manual
  page promises.
\<close>

type_synonym 'k mmap_call = "'k \<Rightarrow> u64 \<Rightarrow> u64 option \<times> 'k"

definition span :: "u64 \<Rightarrow> nat \<Rightarrow> nat set" where
  "span a n = {unat a..<unat a + n}"

definition mmap_contract :: "'k mmap_call \<Rightarrow> ('k \<Rightarrow> nat set) \<Rightarrow> bool" where
  "mmap_contract mmap mapped \<longleftrightarrow>
     (\<forall>k len r k'. mmap k len = (r, k') \<longrightarrow>
        (case r of
           None \<Rightarrow> mapped k' = mapped k
         | Some a \<Rightarrow> 0 < unat a \<and> 0 < unat len \<and> unat a + unat len < 2 ^ 64 \<and>
             span a (unat len) \<inter> mapped k = {} \<and> mapped k' = mapped k \<union> span a (unat len)))"

section \<open>PageAllocator\<close>

record page_allocator =
  pa_page_size :: u64
  pa_last :: "(u64 \<times> u64) list"
  pa_current_page :: u64
  pa_page_offset :: u64
  pa_pages_allocated :: u64

definition sizeof_PageHeader :: u64 where "sizeof_PageHeader = 16"

definition PageAllocator :: "u64 \<Rightarrow> page_allocator" where
  "PageAllocator pagesize =
     \<lparr>pa_page_size = pagesize, pa_last = [], pa_current_page = 0, pa_page_offset = 0, pa_pages_allocated = 0\<rparr>"

definition GetNPages :: "'k mmap_call \<Rightarrow> 'k \<Rightarrow> page_allocator \<Rightarrow> u64 \<Rightarrow> u64 option \<times> 'k \<times> page_allocator" where
  "GetNPages mmap k pa num_pages =
     (case mmap k (pa_page_size pa * num_pages) of
        (None, k') \<Rightarrow> (None, k', pa)
      | (Some a, k') \<Rightarrow>
          (Some a, k', pa\<lparr>pa_last := (a, num_pages) # pa_last pa,
                          pa_pages_allocated := pa_pages_allocated pa + num_pages\<rparr>))"

definition Alloc :: "'k mmap_call \<Rightarrow> 'k \<times> page_allocator \<Rightarrow> u64 \<Rightarrow> u64 option \<times> 'k \<times> page_allocator" where
  "Alloc mmap s bytes =
     (let (k, pa) = s; ps = pa_page_size pa
      in if bytes = 0 then (None, k, pa)
         else if pa_current_page pa \<noteq> 0 \<and> bytes \<le> ps - pa_page_offset pa then
           (let ret = pa_current_page pa + pa_page_offset pa;
                off = pa_page_offset pa + bytes
            in (Some ret, k,
                if off = ps then pa\<lparr>pa_page_offset := 0, pa_current_page := 0\<rparr> else pa\<lparr>pa_page_offset := off\<rparr>))
         else
           (let pages = (bytes + sizeof_PageHeader + ps - 1) div ps
            in case GetNPages mmap k pa pages of
                 (None, k', pa') \<Rightarrow> (None, k', pa')
               | (Some ret, k', pa') \<Rightarrow>
                   (let off = (ps - (ps * pages - (bytes + sizeof_PageHeader))) mod ps
                    in (Some (ret + sizeof_PageHeader), k',
                        pa'\<lparr>pa_page_offset := off,
                            pa_current_page := if off \<noteq> 0 then ret + ps * (pages - 1) else 0\<rparr>))))"

fun owns_from :: "u64 \<Rightarrow> (u64 \<times> u64) list \<Rightarrow> u64 \<Rightarrow> bool" where
  "owns_from ps [] p = False"
| "owns_from ps ((header, num_pages) # hs) p =
     (if header \<le> p \<and> p < header + num_pages * ps then True else owns_from ps hs p)"

definition OwnsPointer :: "page_allocator \<Rightarrow> u64 \<Rightarrow> bool" where
  "OwnsPointer pa p = owns_from (pa_page_size pa) (pa_last pa) p"

text \<open>\<open>FreeAll\<close>, which the destructor calls: the arguments of its calls of \<open>munmap\<close>.\<close>

definition FreeAll :: "page_allocator \<Rightarrow> (u64 \<times> u64) list" where
  "FreeAll pa = map (\<lambda>(cur, num_pages). (cur, num_pages * pa_page_size pa)) (pa_last pa)"

text \<open>\<open>PageStdAllocator::allocate\<close>, with the size of the element type and the block on the stack.\<close>

definition PageStdAllocator_allocate ::
  "'k mmap_call \<Rightarrow> u64 \<Rightarrow> u64 \<Rightarrow> u64 \<Rightarrow> 'k \<times> page_allocator \<Rightarrow> u64 \<Rightarrow> u64 option \<times> 'k \<times> page_allocator" where
  "PageStdAllocator_allocate mmap sizeof_T stackdata stackdata_size s n =
     (let size = sizeof_T * n
      in if size \<le> stackdata_size then (Some stackdata, s) else Alloc mmap s size)"

section \<open>What is in use\<close>

definition region :: "u64 \<Rightarrow> u64 \<times> u64 \<Rightarrow> nat set" where
  "region ps h = span (fst h) (unat (snd h) * unat ps)"

definition body :: "u64 \<Rightarrow> u64 \<times> u64 \<Rightarrow> nat set" where
  "body ps h = {unat (fst h) + 16..<unat (fst h) + unat (snd h) * unat ps}"

definition free_tail :: "page_allocator \<Rightarrow> nat set" where
  "free_tail pa =
     (if pa_current_page pa = 0 then {}
      else {unat (pa_current_page pa) + unat (pa_page_offset pa)..<unat (pa_current_page pa) + unat (pa_page_size pa)})"

text \<open>The addresses that have been handed out, or skipped for good.\<close>

definition in_use :: "page_allocator \<Rightarrow> nat set" where
  "in_use pa = (\<Union>h\<in>set (pa_last pa). body (pa_page_size pa) h) - free_tail pa"

definition headers :: "page_allocator \<Rightarrow> nat set" where
  "headers pa = (\<Union>h\<in>set (pa_last pa). span (fst h) 16)"

definition pa_inv :: "('k \<Rightarrow> nat set) \<Rightarrow> 'k \<times> page_allocator \<Rightarrow> bool" where
  "pa_inv mapped s \<longleftrightarrow>
     (let (k, pa) = s; ps = unat (pa_page_size pa)
      in 32 \<le> ps \<and>
         (\<forall>h\<in>set (pa_last pa). 0 < unat (fst h) \<and> 0 < unat (snd h) \<and>
            unat (fst h) + unat (snd h) * ps < 2 ^ 64 \<and> region (pa_page_size pa) h \<subseteq> mapped k) \<and>
         sorted_wrt (\<lambda>g h. region (pa_page_size pa) g \<inter> region (pa_page_size pa) h = {}) (pa_last pa) \<and>
         (if pa_current_page pa = 0 then pa_page_offset pa = 0
          else pa_last pa \<noteq> [] \<and>
            unat (pa_current_page pa) = unat (fst (hd (pa_last pa))) + (unat (snd (hd (pa_last pa))) - 1) * ps \<and>
            unat (pa_page_offset pa) < ps \<and> 0 < pa_page_offset pa \<and>
            (unat (snd (hd (pa_last pa))) = 1 \<longrightarrow> 16 < unat (pa_page_offset pa))))"

section \<open>The arithmetic of a new allocation\<close>

lemma slow_path_arith:
  assumes ps: "32 \<le> unat (ps :: u64)" and b: "bytes \<noteq> (0 :: u64)"
    and no_wrap: "unat bytes + 16 + unat ps \<le> 2 ^ 64"
  defines "pages \<equiv> (bytes + sizeof_PageHeader + ps - 1) div ps"
    and "off \<equiv> (ps - (ps * ((bytes + sizeof_PageHeader + ps - 1) div ps) - (bytes + sizeof_PageHeader))) mod ps"
  shows "unat pages = (unat bytes + 15 + unat ps) div unat ps"
    and "unat (ps * pages) = unat ps * unat pages"
    and "unat off = (unat bytes + 16) mod unat ps"
    and "unat bytes + 16 \<le> unat pages * unat ps" and "unat pages * unat ps < unat bytes + 16 + unat ps"
proof -
  let ?b = "unat bytes" and ?p = "unat ps"
  let ?q = "(?b + 15 + ?p) div ?p"
  have b0: "0 < ?b" using b by (simp add: unat_gt_0)
  have s16: "unat (bytes + 16) = ?b + 16" using no_wrap ps by (simp add: unat_word_ariths)
  have s: "unat (bytes + 16 + ps - 1) = ?b + 15 + ?p"
  proof -
    have "bytes + 16 + ps - 1 = bytes + 15 + ps" by simp
    then show ?thesis using no_wrap by (simp add: unat_word_ariths)
  qed
  show q: "unat pages = ?q" unfolding pages_def sizeof_PageHeader_def by (simp only: unat_div s)
  have m: "?q * ?p + (?b + 15 + ?p) mod ?p = ?b + 15 + ?p" by (rule div_mult_mod_eq)
  have lt: "(?b + 15 + ?p) mod ?p < ?p" using ps by simp
  have le: "?q * ?p \<le> ?b + 15 + ?p" and ge: "?b + 16 \<le> ?q * ?p" using m lt by linarith+
  then show "unat bytes + 16 \<le> unat pages * unat ps" "unat pages * unat ps < unat bytes + 16 + unat ps"
    unfolding q by linarith+
  have "?p * ?q < 2 ^ 64" using le no_wrap mult.commute [of ?p ?q] by linarith
  then have pp: "unat (ps * pages) = ?p * ?q"
    by (simp add: unat_word_ariths q)
  then show "unat (ps * pages) = unat ps * unat pages" using q by simp
  have ge': "?b + 16 \<le> ?p * ?q" using ge mult.commute [of ?p ?q] by linarith
  have d: "unat (ps * pages - (bytes + 16)) = ?p * ?q - (?b + 16)"
    using ge' by (subst unat_sub) (simp_all add: word_le_nat_alt pp s16)
  have d_le: "?p * ?q - (?b + 16) < ?p" using le ge' mult.commute [of ?p ?q] ps by linarith
  have "unat (ps - (ps * pages - (bytes + 16))) = ?p - (?p * ?q - (?b + 16))"
    using d d_le by (subst unat_sub) (simp_all add: word_le_nat_alt)
  then have "unat off = (?p - (?p * ?q - (?b + 16))) mod ?p"
    unfolding off_def pages_def sizeof_PageHeader_def by (simp add: unat_mod)
  also have "?p - (?p * ?q - (?b + 16)) = ?b + 16 + ?p - ?q * ?p"
    using ge' d_le mult.commute [of ?p ?q] by linarith
  also have "\<dots> mod ?p = (?b + 16) mod ?p"
  proof -
    have "(?b + 16 + ?p - ?q * ?p) mod ?p = (?b + 16 + ?p - ?q * ?p + ?q * ?p) mod ?p" by (simp only: mod_mult_self1)
    also have "?b + 16 + ?p - ?q * ?p + ?q * ?p = ?b + 16 + ?p" using le by linarith
    finally show ?thesis by simp
  qed
  finally show "unat off = (?b + 16) mod ?p" .
qed

section \<open>The contract of an allocator that never frees\<close>

locale block_allocator =
  fixes alloc :: "'s \<Rightarrow> u64 \<Rightarrow> u64 option \<times> 's"
    and inv :: "'s \<Rightarrow> bool" and admissible :: "'s \<Rightarrow> u64 \<Rightarrow> bool" and used :: "'s \<Rightarrow> nat set"
  assumes alloc_inv: "\<lbrakk>inv s; admissible s n; alloc s n = (r, s')\<rbrakk> \<Longrightarrow> inv s'"
    and alloc_fresh: "\<lbrakk>inv s; admissible s n; alloc s n = (Some p, s')\<rbrakk> \<Longrightarrow>
      span p (unat n) \<inter> used s = {} \<and> used s \<union> span p (unat n) \<subseteq> used s'"
    and alloc_fails: "\<lbrakk>inv s; admissible s n; alloc s n = (None, s')\<rbrakk> \<Longrightarrow> used s' = used s"
    and alloc_admissible: "alloc s n = (r, s') \<Longrightarrow> admissible s' m \<longleftrightarrow> admissible s m"

text \<open>The blocks a sequence of requests obtains.\<close>

fun alloc_run :: "('s \<Rightarrow> u64 \<Rightarrow> u64 option \<times> 's) \<Rightarrow> 's \<Rightarrow> u64 list \<Rightarrow> (u64 \<times> u64) list \<times> 's" where
  "alloc_run alloc s [] = ([], s)"
| "alloc_run alloc s (n # ns) =
     (case alloc s n of
        (None, s') \<Rightarrow> alloc_run alloc s' ns
      | (Some p, s') \<Rightarrow> let (bs, s'') = alloc_run alloc s' ns in ((p, n) # bs, s''))"

context block_allocator
begin

lemma run_disjoint:
  assumes "inv s" and "list_all (admissible s) ns" and "alloc_run alloc s ns = (bs, s')"
  shows "inv s' \<and> used s \<subseteq> used s' \<and>
    (\<forall>(p, n)\<in>set bs. span p (unat n) \<inter> used s = {} \<and> span p (unat n) \<subseteq> used s') \<and>
    sorted_wrt (\<lambda>(p, n) (q, m). span p (unat n) \<inter> span q (unat m) = {}) bs"
  using assms
proof (induction ns arbitrary: s bs)
  case (Cons n ns)
  obtain r t where a: "alloc s n = (r, t)" by (cases "alloc s n")
  have adm: "admissible s n" using Cons.prems by simp
  have inv_t: "inv t" by (rule alloc_inv [OF Cons.prems(1) adm a])
  obtain bs' where run: "alloc_run alloc t ns = (bs', s')" and
    bs: "bs = (case r of None \<Rightarrow> bs' | Some p \<Rightarrow> (p, n) # bs')"
    using Cons.prems(3) a by (cases r) (auto split: prod.splits)
  have "list_all (admissible t) ns"
    using Cons.prems(2) alloc_admissible [OF a] by (simp add: list_all_iff)
  note IH = Cons.IH [OF inv_t this run]
  show ?case
  proof (cases r)
    case None
    with alloc_fails [OF Cons.prems(1) adm] a IH bs show ?thesis by simp
  next
    case (Some p)
    have f: "span p (unat n) \<inter> used s = {} \<and> used s \<union> span p (unat n) \<subseteq> used t"
      using alloc_fresh [OF Cons.prems(1) adm] a Some by simp
    have I: "inv s' \<and> used t \<subseteq> used s' \<and>
      (\<forall>(p, n)\<in>set bs'. span p (unat n) \<inter> used t = {} \<and> span p (unat n) \<subseteq> used s') \<and>
      sorted_wrt (\<lambda>(p, n) (q, m). span p (unat n) \<inter> span q (unat m) = {}) bs'"
      using IH by simp
    have new: "span p (unat n) \<inter> span q (unat m) = {} \<and> span q (unat m) \<inter> used s = {} \<and>
      span q (unat m) \<subseteq> used s'" if "(q, m) \<in> set bs'" for q m
      using that f I by blast
    have "used s \<subseteq> used s'" "span p (unat n) \<subseteq> used s'" using f I by blast+
    then show ?thesis using f I by (auto simp: bs Some disjoint_iff dest!: new)
  qed
qed simp

end

section \<open>PageAllocator keeps the contract\<close>

definition pa_fits :: "'k \<times> page_allocator \<Rightarrow> u64 \<Rightarrow> bool" where
  "pa_fits s n \<longleftrightarrow> unat n + 16 + unat (pa_page_size (snd s)) \<le> 2 ^ 64"

lemma pa_invD:
  assumes "pa_inv mapped (k, pa)"
  shows "32 \<le> unat (pa_page_size pa)"
    and "h \<in> set (pa_last pa) \<Longrightarrow> 0 < unat (fst h) \<and> 0 < unat (snd h) \<and>
      unat (fst h) + unat (snd h) * unat (pa_page_size pa) < 2 ^ 64 \<and> region (pa_page_size pa) h \<subseteq> mapped k"
    and "sorted_wrt (\<lambda>g h. region (pa_page_size pa) g \<inter> region (pa_page_size pa) h = {}) (pa_last pa)"
  using assms by (auto simp: pa_inv_def Let_def)

text \<open>The page allocations are cut from, when there is one: the last page of the newest set.\<close>

lemma current_pageD:
  assumes inv: "pa_inv mapped (k, pa)" and cp: "pa_current_page pa \<noteq> 0"
  obtains h hs where "pa_last pa = h # hs" and "0 < unat (pa_page_offset pa)"
    and "unat (pa_page_offset pa) < unat (pa_page_size pa)"
    and "unat (pa_current_page pa) + unat (pa_page_size pa) = unat (fst h) + unat (snd h) * unat (pa_page_size pa)"
    and "unat (fst h) + 16 \<le> unat (pa_current_page pa) + unat (pa_page_offset pa)"
proof -
  let ?ps = "unat (pa_page_size pa)"
  obtain h hs where l: "pa_last pa = h # hs"
    using assms by (cases "pa_last pa") (auto simp: pa_inv_def Let_def)
  have c: "unat (pa_current_page pa) = unat (fst h) + (unat (snd h) - 1) * ?ps"
    and o: "unat (pa_page_offset pa) < ?ps" "0 < pa_page_offset pa"
      "unat (snd h) = 1 \<longrightarrow> 16 < unat (pa_page_offset pa)"
    using assms l by (auto simp: pa_inv_def Let_def)
  have n: "0 < unat (snd h)" and ps: "32 \<le> ?ps"
    using pa_invD(2) [OF inv, of h] pa_invD(1) [OF inv] l by auto
  have e: "unat (pa_current_page pa) + ?ps = unat (fst h) + unat (snd h) * ?ps"
  proof -
    obtain m where "unat (snd h) = Suc m" using n by (cases "unat (snd h)") auto
    then show ?thesis using c by simp
  qed
  have "16 \<le> (unat (snd h) - 1) * ?ps + unat (pa_page_offset pa)"
  proof (cases "unat (snd h) = 1")
    case False
    then have "1 * ?ps \<le> (unat (snd h) - 1) * ?ps" using n by (intro mult_le_mono1) simp
    with ps show ?thesis by linarith
  qed (use o in simp)
  then have "unat (fst h) + 16 \<le> unat (pa_current_page pa) + unat (pa_page_offset pa)" using c by linarith
  with that l o e show ?thesis by (simp add: word_less_nat_alt)
qed

lemma Alloc_fast:
  assumes inv: "pa_inv mapped (k, pa)" and cp: "pa_current_page pa \<noteq> 0"
    and b: "n \<noteq> 0" "n \<le> pa_page_size pa - pa_page_offset pa"
  shows "\<exists>p pa'. Alloc mmap (k, pa) n = (Some p, k, pa') \<and> pa_inv mapped (k, pa') \<and>
    span p (unat n) \<subseteq> free_tail pa \<and> in_use pa' = in_use pa \<union> span p (unat n) \<and> pa_last pa' = pa_last pa"
proof -
  let ?ps = "unat (pa_page_size pa)" and ?o = "unat (pa_page_offset pa)" and ?c = "unat (pa_current_page pa)"
  obtain h hs where l: "pa_last pa = h # hs" and o: "0 < ?o" "?o < ?ps"
    and e: "?c + ?ps = unat (fst h) + unat (snd h) * ?ps" and st: "unat (fst h) + 16 \<le> ?c + ?o"
    by (rule current_pageD [OF inv cp])
  have top: "unat (fst h) + unat (snd h) * ?ps < 2 ^ 64" using pa_invD(2) [OF inv, of h] l by auto
  have "unat (pa_page_size pa - pa_page_offset pa) = ?ps - ?o"
    using o by (intro unat_sub) (simp add: word_le_nat_alt)
  then have nb: "unat n \<le> ?ps - ?o" using b(2) by (simp add: word_le_nat_alt)
  define p where "p = pa_current_page pa + pa_page_offset pa"
  define q where "q = pa_page_offset pa + n"
  have p: "unat p = ?c + ?o" using e o top by (simp add: p_def unat_word_ariths)
  have q: "unat q = ?o + unat n" using nb o unsigned_less [where 'a = nat, of "pa_page_size pa"] by (simp add: q_def unat_word_ariths)
  define pa' where
    "pa' = (if q = pa_page_size pa then pa\<lparr>pa_page_offset := 0, pa_current_page := 0\<rparr> else pa\<lparr>pa_page_offset := q\<rparr>)"
  have A: "Alloc mmap (k, pa) n = (Some p, k, pa')"
    using b cp by (simp add: Alloc_def p_def q_def pa'_def)
  have l': "pa_last pa' = pa_last pa" "pa_page_size pa' = pa_page_size pa" by (simp_all add: pa'_def)
  have F: "free_tail pa = {?c + ?o..<?c + ?ps}" using cp by (simp add: free_tail_def)
  have S: "span p (unat n) = {?c + ?o..<?c + ?o + unat n}" by (simp add: span_def p)
  have qp: "q = pa_page_size pa \<longleftrightarrow> ?o + unat n = ?ps" using q by (simp add: word_unat_eq_iff)
  have F': "free_tail pa' = {?c + ?o + unat n..<?c + ?ps}"
    using cp qp q by (auto simp: free_tail_def pa'_def)
  have sub: "span p (unat n) \<subseteq> free_tail pa" using nb o by (auto simp: F S)
  have "x \<in> body (pa_page_size pa) h" if "?c + ?o \<le> x" "x < ?c + ?ps" for x
    using that st e by (simp add: body_def)
  then have U: "in_use pa' = in_use pa \<union> span p (unat n)"
    using nb o unfolding in_use_def F F' S l' l by auto
  have "0 < q" using q o by (simp add: word_less_nat_alt)
  moreover have "unat q < ?ps" if "q \<noteq> pa_page_size pa" using that qp nb o q by linarith
  ultimately have "pa_inv mapped (k, pa')"
    using inv cp l q unfolding pa'_def by (auto simp: pa_inv_def Let_def)
  with A sub U l' show ?thesis by blast
qed

lemma in_use_regions: "in_use pa \<subseteq> (\<Union>h\<in>set (pa_last pa). region (pa_page_size pa) h)"
  by (auto simp: in_use_def body_def region_def span_def)

lemma Alloc_slow:
  assumes con: "mmap_contract mmap mapped" and inv: "pa_inv mapped (k, pa)" and b: "n \<noteq> 0" and fits: "pa_fits (k, pa) n"
    and slow: "\<not> (pa_current_page pa \<noteq> 0 \<and> n \<le> pa_page_size pa - pa_page_offset pa)"
    and A: "Alloc mmap (k, pa) n = (Some p, k', pa')"
  shows "pa_inv mapped (k', pa') \<and> span p (unat n) \<inter> in_use pa = {} \<and> in_use pa \<union> span p (unat n) \<subseteq> in_use pa'"
proof -
  let ?w = "pa_page_size pa"
  let ?ps = "unat ?w"
  define pages where "pages = (n + sizeof_PageHeader + ?w - 1) div ?w"
  define off where "off = (?w - (?w * pages - (n + sizeof_PageHeader))) mod ?w"
  have ps: "32 \<le> ?ps" by (rule pa_invD(1) [OF inv])
  note ar = slow_path_arith [OF ps b, folded pages_def, folded off_def]
  have nw: "unat n + 16 + ?ps \<le> 2 ^ 64" using fits by (simp add: pa_fits_def)
  obtain a where m: "mmap k (?w * pages) = (Some a, k')" and p: "p = a + sizeof_PageHeader"
    and pa': "pa' = pa\<lparr>pa_last := (a, pages) # pa_last pa, pa_pages_allocated := pa_pages_allocated pa + pages,
      pa_page_offset := off, pa_current_page := if off \<noteq> 0 then a + ?w * (pages - 1) else 0\<rparr>"
    using A b slow
    by (auto simp: Alloc_def Let_def GetNPages_def pages_def off_def split: option.splits prod.splits)
  have len: "unat (?w * pages) = unat pages * ?ps" using ar(2) [OF nw] by (simp add: mult.commute)
  from con m have mm: "0 < unat a" "0 < unat pages * ?ps" "unat a + unat pages * ?ps < 2 ^ 64"
    "span a (unat pages * ?ps) \<inter> mapped k = {}" "mapped k' = mapped k \<union> span a (unat pages * ?ps)"
    unfolding mmap_contract_def by (fastforce simp: len)+
  obtain m where pg: "unat pages = Suc m" using mm(2) by (cases "unat pages") auto
  define r where "r = unat n + 16 - m * ?ps"
  have r: "unat n + 16 = m * ?ps + r" "0 < r" "r \<le> ?ps" using ar(4,5) [OF nw] by (auto simp: pg r_def)
  have o: "unat off = (if r = ?ps then 0 else r)" using ar(3) [OF nw] r by (simp add: mod_add_left_eq [symmetric])
  have o0: "off \<noteq> 0 \<longleftrightarrow> r < ?ps" using o r by (auto simp: word_unat_eq_iff)
  have c: "unat (a + ?w * (pages - 1)) = unat a + m * ?ps"
  proof -
    have "unat (pages - 1) = m" using pg by (subst unat_sub) (simp_all add: word_le_nat_alt)
    moreover have "unat a + m * ?ps < 2 ^ 64" using mm(3) pg by simp
    ultimately show ?thesis by (simp add: unat_word_ariths mult.commute mod_add_right_eq)
  qed
  have lp: "pa_last pa' = (a, pages) # pa_last pa" "pa_page_size pa' = ?w" by (simp_all add: pa')
  have new: "region ?w (a, pages) = {unat a..<unat a + Suc m * ?ps}" "body ?w (a, pages) = {unat a + 16..<unat a + Suc m * ?ps}"
    by (simp_all add: region_def body_def span_def pg)
  have F: "free_tail pa' = {unat a + 16 + unat n..<unat a + Suc m * ?ps}"
    using r o o0 c mm(1) by (auto simp: free_tail_def pa' word_unat_eq_iff)
  have up: "unat p = unat a + 16"
    using mm(3) r pg by (simp add: p sizeof_PageHeader_def unat_word_ariths)
  have S: "span p (unat n) = {unat a + 16..<unat a + 16 + unat n}" by (simp add: span_def up)
  have old: "region ?w h \<inter> region ?w (a, pages) = {}" if "h \<in> set (pa_last pa)" for h
    using pa_invD(2) [OF inv that] mm(4) by (auto simp: region_def)
  have iu: "in_use pa \<inter> region ?w (a, pages) = {}" using in_use_regions [of pa] old by blast
  have bnd: "16 + unat n \<le> Suc m * ?ps" using r by simp
  have "span p (unat n) \<inter> in_use pa = {}" using iu bnd unfolding new S by auto
  moreover have "in_use pa \<union> span p (unat n) \<subseteq> in_use pa'"
  proof -
    have "in_use pa \<inter> free_tail pa' = {}" using iu unfolding new F by auto
    then have "in_use pa \<subseteq> in_use pa'" unfolding in_use_def lp by auto
    moreover have "span p (unat n) \<subseteq> in_use pa'" using bnd unfolding in_use_def lp F S by (auto simp: new)
    ultimately show ?thesis by blast
  qed
  moreover have "pa_inv mapped (k', pa')"
  proof -
    have "\<forall>h\<in>set (pa_last pa'). 0 < unat (fst h) \<and> 0 < unat (snd h) \<and>
        unat (fst h) + unat (snd h) * ?ps < 2 ^ 64 \<and> region ?w h \<subseteq> mapped k'"
      using pa_invD(2) [OF inv] mm pg by (auto simp: lp region_def)
    moreover have "sorted_wrt (\<lambda>g h. region ?w g \<inter> region ?w h = {}) (pa_last pa')"
      using pa_invD(3) [OF inv] old by (auto simp: lp)
    moreover have "m = 0 \<longrightarrow> 16 < r" using r b by (auto simp: unat_gt_0)
    moreover have "pa_current_page pa' = 0 \<longleftrightarrow> off = 0"
      using c mm(1) by (auto simp: pa' word_unat_eq_iff)
    ultimately show ?thesis
      using ps r o o0 c pg by (auto simp: pa_inv_def Let_def lp pa' word_less_nat_alt)
  qed
  ultimately show ?thesis by blast
qed

text \<open>The allocator with the kernel it calls, as one state.\<close>

type_synonym 'k pa_state = "'k mmap_call \<times> ('k \<Rightarrow> nat set) \<times> 'k \<times> page_allocator"

fun pas_inv :: "'k pa_state \<Rightarrow> bool" where
  "pas_inv (mmap, mapped, s) \<longleftrightarrow> mmap_contract mmap mapped \<and> pa_inv mapped s"

fun pas_fits :: "'k pa_state \<Rightarrow> u64 \<Rightarrow> bool" where
  "pas_fits (mmap, mapped, s) n \<longleftrightarrow> pa_fits s n"

fun pas_used :: "'k pa_state \<Rightarrow> nat set" where
  "pas_used (mmap, mapped, s) = in_use (snd s)"

fun pas_alloc :: "'k pa_state \<Rightarrow> u64 \<Rightarrow> u64 option \<times> 'k pa_state" where
  "pas_alloc (mmap, mapped, s) n = (let (r, s') = Alloc mmap s n in (r, mmap, mapped, s'))"

lemma Alloc_contract:
  assumes "mmap_contract mmap mapped" and inv: "pa_inv mapped (k, pa)" and "pa_fits (k, pa) n"
    and A: "Alloc mmap (k, pa) n = (r, k', pa')"
  shows "pa_inv mapped (k', pa')"
    and "r = Some p \<Longrightarrow> span p (unat n) \<inter> in_use pa = {} \<and> in_use pa \<union> span p (unat n) \<subseteq> in_use pa'"
    and "r = None \<Longrightarrow> in_use pa' = in_use pa"
proof -
  have none: "pa_inv mapped (k', pa') \<and> in_use pa' = in_use pa" if "r = None"
  proof -
    have "pa' = pa \<and> mapped k' = mapped k"
      using A that assms(1)
      by (fastforce simp: Alloc_def Let_def GetNPages_def mmap_contract_def split: if_splits option.splits prod.splits)
    then show ?thesis using inv by (auto simp: pa_inv_def Let_def)
  qed
  have some: "pa_inv mapped (k', pa') \<and> span q (unat n) \<inter> in_use pa = {} \<and> in_use pa \<union> span q (unat n) \<subseteq> in_use pa'"
    if r: "r = Some q" for q
  proof -
    have n: "n \<noteq> 0" using A r by (auto simp: Alloc_def Let_def)
    show ?thesis
    proof (cases "pa_current_page pa \<noteq> 0 \<and> n \<le> pa_page_size pa - pa_page_offset pa")
      case True
      then have "span q (unat n) \<subseteq> free_tail pa \<and> in_use pa' = in_use pa \<union> span q (unat n) \<and> pa_inv mapped (k', pa')"
        using Alloc_fast [OF inv _ n, of mmap] A r by auto
      then show ?thesis by (auto simp: in_use_def)
    next
      case False
      then show ?thesis using Alloc_slow [OF assms(1) inv n assms(3)] A r by blast
    qed
  qed
  show "pa_inv mapped (k', pa')" using none some by (cases r) auto
  show "r = Some p \<Longrightarrow> span p (unat n) \<inter> in_use pa = {} \<and> in_use pa \<union> span p (unat n) \<subseteq> in_use pa'"
    using some by blast
  show "r = None \<Longrightarrow> in_use pa' = in_use pa" using none by blast
qed

lemma Alloc_page_size: "Alloc mmap (k, pa) n = (r, k', pa') \<Longrightarrow> pa_page_size pa' = pa_page_size pa"
  by (auto simp: Alloc_def GetNPages_def Let_def split: if_splits option.splits prod.splits)

interpretation pas: block_allocator pas_alloc pas_inv pas_fits pas_used
proof unfold_locales
  fix s s' :: "'k pa_state" and n r p
  obtain mmap mapped k pa where s: "s = (mmap, mapped, k, pa)" by (cases s)
  assume a: "pas_inv s" "pas_fits s n"
  note con = Alloc_contract [of mmap mapped k pa n]
  show "pas_alloc s n = (r, s') \<Longrightarrow> pas_inv s'"
    using a con(1) by (auto simp: s split: prod.splits)
  show "pas_alloc s n = (Some p, s') \<Longrightarrow>
      span p (unat n) \<inter> pas_used s = {} \<and> pas_used s \<union> span p (unat n) \<subseteq> pas_used s'"
    using a con(2) by (auto simp: s split: prod.splits)
  show "pas_alloc s n = (None, s') \<Longrightarrow> pas_used s' = pas_used s"
    using a con(3) by (auto simp: s split: prod.splits)
next
  fix s s' :: "'k pa_state" and n m r
  show "pas_alloc s n = (r, s') \<Longrightarrow> pas_fits s' m = pas_fits s m"
    using Alloc_page_size by (cases s) (fastforce simp: pa_fits_def split: prod.splits)
qed

lemma sorted_wrt_disjoint:
  assumes "sorted_wrt (\<lambda>x y. f x \<inter> f y = {}) xs" and "x \<in> set xs" and "y \<in> set xs" and "x \<noteq> y"
  shows "f x \<inter> f y = {}"
proof -
  obtain i j where ij: "i < length xs" "xs ! i = x" "j < length xs" "xs ! j = y"
    using assms(2,3) by (auto simp: in_set_conv_nth)
  with assms(1,4) show ?thesis
    by (cases i j rule: linorder_cases) (fastforce simp: sorted_wrt_iff_nth_less)+
qed

lemma headers_not_in_use:
  assumes inv: "pa_inv mapped (k, pa)"
  shows "in_use pa \<inter> headers pa = {}"
proof -
  let ?w = "pa_page_size pa"
  have "body ?w h \<inter> span (fst g) 16 = {}" if "h \<in> set (pa_last pa)" "g \<in> set (pa_last pa)" for g h
  proof (cases "g = h")
    case False
    have "0 < unat (snd g)" "32 \<le> unat ?w"
      using pa_invD(2) [OF inv that(2)] pa_invD(1) [OF inv] by simp_all
    then have "1 * 32 \<le> unat (snd g) * unat ?w" by (intro mult_le_mono) simp_all
    then have "span (fst g) 16 \<subseteq> region ?w g" by (auto simp: span_def region_def)
    moreover have "body ?w h \<subseteq> region ?w h" by (auto simp: body_def region_def span_def)
    ultimately show ?thesis
      using sorted_wrt_disjoint [OF pa_invD(3) [OF inv] that(1) that(2)] False by blast
  qed (auto simp: body_def span_def)
  then have "x \<notin> headers pa" if "x \<in> in_use pa" for x
    using that by (fastforce simp: in_use_def headers_def)
  then show ?thesis by blast
qed

lemma PageAllocator_inv: "32 \<le> unat ps \<Longrightarrow> pa_inv mapped (k, PageAllocator ps)"
  by (simp add: pa_inv_def PageAllocator_def Let_def)

text \<open>
  C8. Blocks never overlap. From a new allocator, whatever sizes are requested in whatever order
  (each small enough for the size computation not to wrap) and however the kernel places the
  pages, the blocks handed out are pairwise disjoint and none overlaps a page header, so writing within
  a block damages neither another block nor the chain of pages that the destructor walks.
\<close>

theorem PageAllocator_blocks_disjoint:
  assumes "mmap_contract mmap mapped" and "32 \<le> unat ps"
    and "list_all (\<lambda>n. unat n + 16 + unat ps \<le> 2 ^ 64) ns"
    and run: "alloc_run pas_alloc (mmap, mapped, k, PageAllocator ps) ns = (bs, mmap', mapped', k', pa')"
  shows "sorted_wrt (\<lambda>(p, n) (q, m). span p (unat n) \<inter> span q (unat m) = {}) bs \<and>
    list_all (\<lambda>(p, n). span p (unat n) \<inter> headers pa' = {}) bs"
proof -
  have inv: "pas_inv (mmap, mapped, k, PageAllocator ps)"
    using assms(1,2) by (simp add: PageAllocator_inv)
  have "list_all (pas_fits (mmap, mapped, k, PageAllocator ps)) ns"
    using assms(3) by (simp add: list_all_iff pa_fits_def PageAllocator_def)
  note d = pas.run_disjoint [OF inv this run]
  then have "in_use pa' \<inter> headers pa' = {}"
    using headers_not_in_use [of mapped' k' pa'] by simp
  with d show ?thesis by (fastforce simp: list_all_iff)
qed

text \<open>A kernel that maps pages one after the other.\<close>

definition bump_mmap :: "nat mmap_call" where
  "bump_mmap k len =
     (if 0 < k \<and> 0 < unat len \<and> k + unat len < 2 ^ 64 then (Some (of_nat k), k + unat len) else (None, k))"

lemma bump_mmap_contract: "mmap_contract bump_mmap (\<lambda>k. {..<k})"
proof -
  have "unat (of_nat k :: u64) = k" if "k < 2 ^ 64" for k using that by (simp add: unat_of_nat)
  then show ?thesis
    by (auto simp: mmap_contract_def bump_mmap_def span_def split: if_splits)
qed

theorem PageAllocator_blocks_disjoint_witness:
  "\<exists>st. alloc_run pas_alloc (bump_mmap, \<lambda>k. {..<k}, 65536, PageAllocator 4096) [100, 5000, 8] =
     ([(65552, 100), (69648, 5000), (74648, 8)], st) \<and>
   span 65552 100 \<inter> span 69648 5000 = {} \<and> span 69648 5000 \<inter> span 74648 8 = {}"
proof -
  obtain k' pa' where run: "alloc_run pas_alloc (bump_mmap, \<lambda>k. {..<k}, 65536, PageAllocator 4096) [100, 5000, 8] =
     ([(65552, 100), (69648, 5000), (74648, 8)], bump_mmap, \<lambda>k. {..<k}, k', pa')"
    by (simp add: Alloc_def GetNPages_def PageAllocator_def bump_mmap_def sizeof_PageHeader_def)
  have "list_all (\<lambda>n :: u64. unat n + 16 + unat (4096 :: u64) \<le> 2 ^ 64) [100, 5000, 8]" by simp
  from PageAllocator_blocks_disjoint [OF bump_mmap_contract _ this run] run show ?thesis by auto
qed

section \<open>Ownership, release and the size computation\<close>

lemma owns_from_iff:
  assumes "\<And>h. h \<in> set hs \<Longrightarrow> unat (fst h) + unat (snd h) * unat ps < 2 ^ 64"
  shows "owns_from ps hs p \<longleftrightarrow> (\<exists>h\<in>set hs. unat p \<in> region ps h)"
  using assms
proof (induction hs)
  case (Cons h hs)
  obtain a n where h: "h = (a, n)" by (cases h)
  have "unat a + unat n * unat ps < 2 ^ 64" using Cons.prems [of h] by (simp add: h)
  then have "unat (a + n * ps) = unat a + unat n * unat ps" by (simp add: unat_word_ariths mod_add_right_eq)
  then have "a \<le> p \<and> p < a + n * ps \<longleftrightarrow> unat p \<in> region ps h"
    by (simp add: h region_def span_def word_le_nat_alt word_less_nat_alt)
  with Cons show ?case by (simp add: h)
qed simp

text \<open>
  C36. \<open>OwnsPointer\<close> answers true exactly for the addresses in the page sets of the
  allocator, which include every block handed out, and \<open>FreeAll\<close> unmaps exactly these sets.
\<close>

theorem PageAllocator_owns_and_frees:
  assumes "pa_inv mapped (k, pa)"
  shows "(OwnsPointer pa p \<longleftrightarrow> (\<exists>(a, len)\<in>set (FreeAll pa). unat p \<in> span a (unat len))) \<and>
    (\<Union>(a, len)\<in>set (FreeAll pa). span a (unat len)) \<subseteq> mapped k \<and>
    in_use pa \<subseteq> (\<Union>(a, len)\<in>set (FreeAll pa). span a (unat len))"
proof -
  let ?w = "pa_page_size pa"
  have b: "unat (fst h) + unat (snd h) * unat ?w < 2 ^ 64" if "h \<in> set (pa_last pa)" for h
    using pa_invD(2) [OF assms that] by simp
  have "span a (unat (n * ?w)) = region ?w (a, n)" if "(a, n) \<in> set (pa_last pa)" for a n
  proof -
    have "unat n * unat ?w < 2 ^ 64" using b [OF that] by simp
    then show ?thesis by (simp add: region_def unat_word_ariths)
  qed
  then have F: "(\<Union>(a, len)\<in>set (FreeAll pa). span a (unat len)) = (\<Union>h\<in>set (pa_last pa). region ?w h)"
    by (auto simp: FreeAll_def)
  have "OwnsPointer pa p \<longleftrightarrow> unat p \<in> (\<Union>h\<in>set (pa_last pa). region ?w h)"
    using owns_from_iff [OF b] by (simp add: OwnsPointer_def)
  then have "OwnsPointer pa p \<longleftrightarrow> (\<exists>(a, len)\<in>set (FreeAll pa). unat p \<in> span a (unat len))"
    using F by blast
  moreover have "(\<Union>h\<in>set (pa_last pa). region ?w h) \<subseteq> mapped k" using pa_invD(2) [OF assms] by blast
  ultimately show ?thesis using F in_use_regions [of pa] by simp
qed

theorem PageAllocator_owns_and_frees_witness:
  "OwnsPointer (PageAllocator 4096 \<lparr>pa_last := [(65536, 2)]\<rparr>) 73727 \<and>
   \<not> OwnsPointer (PageAllocator 4096 \<lparr>pa_last := [(65536, 2)]\<rparr>) 73728"
proof -
  let ?pa = "PageAllocator 4096 \<lparr>pa_last := [(65536, 2)]\<rparr>"
  have inv: "pa_inv (\<lambda>k. {..<k}) (100000, ?pa)"
    by (auto simp: pa_inv_def PageAllocator_def region_def span_def Let_def)
  show ?thesis
    using PageAllocator_owns_and_frees [OF inv, of 73727] PageAllocator_owns_and_frees [OF inv, of 73728]
    by (simp add: FreeAll_def PageAllocator_def span_def)
qed

lemma unat_add3: "unat (x + y + z :: u64) = (unat x + unat y + unat z) mod 2 ^ 64"
  by (simp only: unat_word_ariths(1) mod_add_left_eq) simp

text \<open>
  The size computation can wrap: a request of more than $2^{64} - 16$ bytes maps a single page
  and still returns a block, at offset 16 of that page.
\<close>

lemma Alloc_size_wraps:
  assumes "2 ^ 64 - 16 < unat n" and "32 \<le> unat ps" and "unat ps < 2 ^ 63" and m: "mmap k ps = (Some a, k')"
  shows "fst (Alloc mmap (k, PageAllocator ps) n) = Some (a + 16) \<and>
    pa_last (snd (snd (Alloc mmap (k, PageAllocator ps) n))) = [(a, 1)]"
proof -
  define r where "r = unat n + 16 - 2 ^ 64"
  have r: "unat n + 15 = 2 ^ 64 + (r - 1)" "0 < r" "r < 16"
    using assms(1) unsigned_less [where 'a = nat, of n] by (auto simp: r_def)
  have "n + 16 + ps - 1 = n + 15 + ps" by simp
  then have "unat (n + 16 + ps - 1) = (unat n + unat (15 :: u64) + unat ps) mod 2 ^ 64"
    by (simp only: unat_add3)
  then have "unat (n + 16 + ps - 1) = (unat n + 15 + unat ps) mod 2 ^ 64" by simp
  also have "\<dots> = (r - 1 + unat ps) mod 2 ^ 64"
  proof -
    have "unat n + 15 + unat ps = r - 1 + unat ps + 2 ^ 64" using r by linarith
    then show ?thesis by (simp only: mod_add_self2)
  qed
  also have "\<dots> = r - 1 + unat ps" using r assms(3) by (intro mod_less) simp
  finally have "unat (n + 16 + ps - 1) = r - 1 + unat ps" .
  then have "unat ((n + 16 + ps - 1) div ps) = 1"
    using r assms(2) by (simp only: unat_div) (intro div_nat_eqI, simp_all)
  then have pages: "(n + 16 + ps - 1) div ps = 1" by (simp add: word_unat_eq_iff)
  have "n \<noteq> 0" using assms(1) by auto
  with pages m show ?thesis
    by (simp add: Alloc_def PageAllocator_def GetNPages_def sizeof_PageHeader_def Let_def)
qed

lemma Alloc_size_wraps_witness:
  "fst (Alloc bump_mmap (65536, PageAllocator 4096) (- 10)) = Some 65552"
proof -
  have "(2 :: nat) ^ 64 - 16 < unat (- 10 :: u64)" by simp
  moreover have "bump_mmap 65536 4096 = (Some 65536, 69632)" by (simp add: bump_mmap_def)
  ultimately show ?thesis using Alloc_size_wraps [of "- 10" 4096 bump_mmap 65536 65536 69632] by simp
qed

end
