(* ===== verification/String_Dictionary.thy ===== *)
theory String_Dictionary
  imports Prelude
begin

text \<open>
  \<^verbatim>\<open>common/simple_string_dictionary.h\<close> and \<^verbatim>\<open>common/long_string_dictionary.cc\<close>: the map with
  fixed storage that holds crash annotations, and the dictionary on top of it that splits
  long values over several entries.

  An entry is its two character arrays; the template parameters are arguments. A string argument is the
  list of its characters, without the terminating NUL, and \<open>None\<close> for a null pointer. The C library
  functions \<open>strncpy\<close> and \<open>strncmp\<close> are modelled as the standard describes them.
\<close>

section \<open>NonAllocatingMap\<close>

record map_entry =
  e_key :: bytes
  e_value :: bytes

type_synonym nmap = "map_entry list"

definition strncpy_buf :: "bytes \<Rightarrow> nat \<Rightarrow> bytes" where
  "strncpy_buf s n = take n (s @ replicate n 0)"

definition strncmp_eq :: "bytes \<Rightarrow> bytes \<Rightarrow> nat \<Rightarrow> bool" where
  "strncmp_eq s buf n \<longleftrightarrow> take n s = take n (cstr buf)"

definition is_active :: "map_entry \<Rightarrow> bool" where
  "is_active e \<longleftrightarrow> e_key e ! 0 \<noteq> 0"

definition NonAllocatingMap :: "nat \<Rightarrow> nat \<Rightarrow> nat \<Rightarrow> nmap" where
  "NonAllocatingMap KeySize ValueSize NumEntries =
     replicate NumEntries \<lparr>e_key = replicate KeySize 0, e_value = replicate ValueSize 0\<rparr>"

text \<open>\<open>Iterator::Next\<close>: the next active entry and the new position.\<close>

function Next :: "nmap \<Rightarrow> nat \<Rightarrow> map_entry option \<times> nat" where
  "Next entries current =
     (if current < length entries then
        (if is_active (entries ! current) then (Some (entries ! current), current + 1)
         else Next entries (current + 1))
      else (None, current))"
  by pat_completeness auto
termination by (relation "measure (\<lambda>(entries, current). length entries - current)") auto

declare Next.simps [simp del]

definition GetCount :: "nmap \<Rightarrow> nat" where
  "GetCount entries = length (filter is_active entries)"

fun GetEntryIndexForKey :: "nat \<Rightarrow> nmap \<Rightarrow> bytes \<Rightarrow> nat" where
  "GetEntryIndexForKey KeySize [] key = 0"
| "GetEntryIndexForKey KeySize (e # es) key =
     (if strncmp_eq key (e_key e) KeySize then 0 else Suc (GetEntryIndexForKey KeySize es key))"

definition GetValueForKey :: "nat \<Rightarrow> nmap \<Rightarrow> bytes option \<Rightarrow> bytes option" where
  "GetValueForKey KeySize entries key =
     (case key of None \<Rightarrow> None
      | Some k \<Rightarrow>
          let index = GetEntryIndexForKey KeySize entries k
          in if index = length entries then None else Some (cstr (e_value (entries ! index))))"

definition RemoveAtIndex :: "nmap \<Rightarrow> nat \<Rightarrow> bool \<times> nmap" where
  "RemoveAtIndex entries index =
     (if length entries \<le> index then (False, entries)
      else (True, entries[index := \<lparr>e_key = (e_key (entries ! index))[0 := 0],
                                    e_value = (e_value (entries ! index))[0 := 0]\<rparr>]))"

definition RemoveKey :: "nat \<Rightarrow> nmap \<Rightarrow> bytes option \<Rightarrow> bool \<times> nmap" where
  "RemoveKey KeySize entries key =
     (case key of None \<Rightarrow> (False, entries)
      | Some k \<Rightarrow> RemoveAtIndex entries (GetEntryIndexForKey KeySize entries k))"

definition SetValueAtIndex :: "nat \<Rightarrow> nmap \<Rightarrow> nat \<Rightarrow> bytes \<Rightarrow> nmap" where
  "SetValueAtIndex ValueSize entries index v =
     (if length entries \<le> index then entries
      else entries[index := (entries ! index)\<lparr>e_value := (strncpy_buf v ValueSize)[ValueSize - 1 := 0]\<rparr>])"

text \<open>The first loop of \<open>SetKeyValue\<close>: the first entry that is not active.\<close>

fun first_inactive :: "nmap \<Rightarrow> nat" where
  "first_inactive [] = 0"
| "first_inactive (e # es) = (if \<not> is_active e then 0 else Suc (first_inactive es))"

definition SetKeyValue :: "nat \<Rightarrow> nat \<Rightarrow> nmap \<Rightarrow> bytes option \<Rightarrow> bytes option \<Rightarrow> nat \<times> nmap" where
  "SetKeyValue KeySize ValueSize entries key val =
     (let num_entries = length entries
      in case val of
           None \<Rightarrow> (num_entries, snd (RemoveKey KeySize entries key))
         | Some v \<Rightarrow>
             (case key of
                None \<Rightarrow> (num_entries, entries)
              | Some k \<Rightarrow>
                  if k = [] then (num_entries, entries)
                  else
                    let found = GetEntryIndexForKey KeySize entries k;
                        index = (if found = num_entries then first_inactive entries else found);
                        entries1 =
                          (if found = num_entries \<and> index < num_entries
                           then entries[index := (entries ! index)\<lparr>e_key := (strncpy_buf k KeySize)[KeySize - 1 := 0]\<rparr>]
                           else entries)
                    in if index = num_entries then (num_entries, entries1)
                       else (index, SetValueAtIndex ValueSize entries1 index v)))"

text \<open>\<open>Serialize\<close> and the deserialising constructor: the bytes of the entries.\<close>

definition Serialize :: "nmap \<Rightarrow> bytes" where
  "Serialize entries = concat (map (\<lambda>e. e_key e @ e_value e) entries)"

fun entries_of :: "nat \<Rightarrow> nat \<Rightarrow> nat \<Rightarrow> bytes \<Rightarrow> nmap" where
  "entries_of KeySize ValueSize 0 bs = []"
| "entries_of KeySize ValueSize (Suc n) bs =
     \<lparr>e_key = take KeySize bs, e_value = take ValueSize (drop KeySize bs)\<rparr>
       # entries_of KeySize ValueSize n (drop (KeySize + ValueSize) bs)"

text \<open>A buffer of another size is not copied: the entries keep their indeterminate contents, the argument \<open>entries\<close>.\<close>

definition deserialize :: "nat \<Rightarrow> nat \<Rightarrow> nmap \<Rightarrow> bytes \<Rightarrow> nmap" where
  "deserialize KeySize ValueSize entries bs =
     (if length bs = length entries * (KeySize + ValueSize)
      then entries_of KeySize ValueSize (length entries) bs else entries)"

section \<open>LongStringDictionary\<close>

definition kSuffixes :: "bytes list" where
  "kSuffixes = map (map (\<lambda>c. of_nat (of_char c)))
     [''__1'', ''__2'', ''__3'', ''__4'', ''__5'', ''__6'', ''__7'', ''__8'', ''__9'', ''__10'']"

text \<open>
  The operations of the base class the dictionary calls are arguments of its loops. The key of a
  segment is built by \<open>strcpy\<close> in an array of \<open>KeySize\<close> characters; \<open>None\<close> is a write past its end. (The
  assertion on the length of the key is not compiled in a release build.)
\<close>

definition segment_key :: "nat \<Rightarrow> bytes \<Rightarrow> bytes \<Rightarrow> bytes option" where
  "segment_key KeySize key suf = (if length key + length suf < KeySize then Some (key @ suf) else None)"

fun set_segments ::
  "('s \<Rightarrow> bytes \<Rightarrow> bytes \<Rightarrow> 's) \<Rightarrow> nat \<Rightarrow> nat \<Rightarrow> bytes \<Rightarrow> bytes list \<Rightarrow> bytes \<Rightarrow> 's \<Rightarrow> 's option" where
  "set_segments setk KeySize vmax key [] remain s = Some s"
| "set_segments setk KeySize vmax key (suf # sufs) remain s =
     (if remain = [] then Some s
      else let seg = min (length remain) vmax
           in case segment_key KeySize key suf of
                None \<Rightarrow> None
              | Some sk \<Rightarrow> set_segments setk KeySize vmax key sufs (drop seg remain) (setk s sk (take seg remain)))"

fun remove_segments ::
  "('s \<Rightarrow> bytes \<Rightarrow> bool \<times> 's) \<Rightarrow> nat \<Rightarrow> bytes \<Rightarrow> bytes list \<Rightarrow> nat \<Rightarrow> 's \<Rightarrow> (nat \<times> 's) option" where
  "remove_segments rem KeySize key [] i s = Some (i, s)"
| "remove_segments rem KeySize key (suf # sufs) i s =
     (case segment_key KeySize key suf of
        None \<Rightarrow> None
      | Some sk \<Rightarrow>
          (case rem s sk of
             (True, s') \<Rightarrow> remove_segments rem KeySize key sufs (Suc i) s'
           | (False, s') \<Rightarrow> Some (i, s')))"

fun get_segments ::
  "('s \<Rightarrow> bytes \<Rightarrow> bytes option) \<Rightarrow> nat \<Rightarrow> bytes \<Rightarrow> bytes list \<Rightarrow> 's \<Rightarrow> bytes option" where
  "get_segments getk KeySize key [] s = Some []"
| "get_segments getk KeySize key (suf # sufs) s =
     (case segment_key KeySize key suf of
        None \<Rightarrow> None
      | Some sk \<Rightarrow>
          (case getk s sk of
             Some seg \<Rightarrow> map_option ((@) seg) (get_segments getk KeySize key sufs s)
           | None \<Rightarrow> Some []))"

definition Long_RemoveKey ::
  "('s \<Rightarrow> bytes \<Rightarrow> bool \<times> 's) \<Rightarrow> nat \<Rightarrow> 's \<Rightarrow> bytes option \<Rightarrow> (bool \<times> 's) option" where
  "Long_RemoveKey rem KeySize s key =
     (case key of None \<Rightarrow> Some (False, s)
      | Some k \<Rightarrow>
          (case rem s k of
             (True, s') \<Rightarrow> Some (True, s')
           | (False, s') \<Rightarrow>
               if KeySize \<le> length k then None
               else map_option (\<lambda>(i, s''). (i \<noteq> 0, s'')) (remove_segments rem KeySize k kSuffixes 0 s')))"

definition Long_SetKeyValue ::
  "('s \<Rightarrow> bytes \<Rightarrow> bytes \<Rightarrow> 's) \<Rightarrow> ('s \<Rightarrow> bytes \<Rightarrow> bool \<times> 's) \<Rightarrow> nat \<Rightarrow> nat \<Rightarrow> 's \<Rightarrow> bytes option \<Rightarrow> bytes option \<Rightarrow> 's option" where
  "Long_SetKeyValue setk rem KeySize vmax s key val =
     (case key of None \<Rightarrow> Some s
      | Some k \<Rightarrow>
          (case Long_RemoveKey rem KeySize s key of
             None \<Rightarrow> None
           | Some (_, s1) \<Rightarrow>
               (case val of None \<Rightarrow> Some s1
                | Some v \<Rightarrow>
                    if k = [] then Some s1
                    else if length v \<le> vmax then Some (setk s1 k v)
                    else if KeySize \<le> length k then None
                    else set_segments setk KeySize vmax k kSuffixes v s1)))"

definition Long_GetValueForKey :: "('s \<Rightarrow> bytes \<Rightarrow> bytes option) \<Rightarrow> nat \<Rightarrow> 's \<Rightarrow> bytes option \<Rightarrow> bytes option" where
  "Long_GetValueForKey getk KeySize s key =
     (case key of None \<Rightarrow> Some []
      | Some k \<Rightarrow>
          if k = [] then Some []
          else (case getk s k of
                  Some v \<Rightarrow> Some v
                | None \<Rightarrow> if KeySize \<le> length k then None else get_segments getk KeySize k kSuffixes s))"

section \<open>The contract of a store with bounded keys, values and room\<close>

text \<open>A key or value the store can hold unchanged.\<close>

definition ok_string :: "nat \<Rightarrow> bytes \<Rightarrow> bool" where
  "ok_string sz s \<longleftrightarrow> length s < sz \<and> 0 \<notin> set s"

locale string_store =
  fixes getk :: "'s \<Rightarrow> bytes \<Rightarrow> bytes option" and setk :: "'s \<Rightarrow> bytes \<Rightarrow> bytes \<Rightarrow> 's"
    and rem :: "'s \<Rightarrow> bytes \<Rightarrow> bool \<times> 's"
    and inv :: "'s \<Rightarrow> bool" and room :: "'s \<Rightarrow> nat" and KeySize ValueSize :: nat
  assumes set_inv: "\<lbrakk>inv s; ok_string KeySize k; k \<noteq> []; ok_string ValueSize v\<rbrakk> \<Longrightarrow> inv (setk s k v)"
    and rem_inv: "\<lbrakk>inv s; ok_string KeySize k; k \<noteq> []; rem s k = (b, s')\<rbrakk> \<Longrightarrow> inv s'"
    and set_get: "\<lbrakk>inv s; ok_string KeySize k; k \<noteq> []; ok_string ValueSize v; getk s k \<noteq> None \<or> 0 < room s;
        ok_string KeySize k'; k' \<noteq> []\<rbrakk> \<Longrightarrow> getk (setk s k v) k' = (if k' = k then Some v else getk s k')"
    and set_room: "\<lbrakk>inv s; ok_string KeySize k; k \<noteq> []; ok_string ValueSize v\<rbrakk> \<Longrightarrow>
        room (setk s k v) = (if getk s k = None then room s - 1 else room s)"
    and rem_get: "\<lbrakk>inv s; ok_string KeySize k; k \<noteq> []; rem s k = (b, s'); ok_string KeySize k'; k' \<noteq> []\<rbrakk> \<Longrightarrow>
        getk s' k' = (if k' = k then None else getk s k')"
    and rem_found: "\<lbrakk>inv s; ok_string KeySize k; k \<noteq> []; rem s k = (b, s')\<rbrakk> \<Longrightarrow> b \<longleftrightarrow> getk s k \<noteq> None"
    and rem_room: "\<lbrakk>inv s; ok_string KeySize k; k \<noteq> []; rem s k = (b, s')\<rbrakk> \<Longrightarrow>
        room s' = (if b then room s + 1 else room s)"

text \<open>The segments that are present come first.\<close>

fun contiguous :: "('s \<Rightarrow> bytes \<Rightarrow> bytes option) \<Rightarrow> bytes \<Rightarrow> bytes list \<Rightarrow> 's \<Rightarrow> bool" where
  "contiguous getk key [] s = True"
| "contiguous getk key (suf # sufs) s =
     (if getk s (key @ suf) = None then list_all (\<lambda>x. getk s (key @ x) = None) sufs
      else contiguous getk key sufs s)"

lemma contiguous_cong:
  "(\<And>suf. suf \<in> set sufs \<Longrightarrow> getk t (key @ suf) = getk s (key @ suf)) \<Longrightarrow>
   contiguous getk key sufs t = contiguous getk key sufs s"
  by (induction sufs) (auto simp: list_all_iff)

definition stored_once :: "('s \<Rightarrow> bytes \<Rightarrow> bytes option) \<Rightarrow> bytes \<Rightarrow> 's \<Rightarrow> bool" where
  "stored_once getk key s \<longleftrightarrow>
     (if getk s key = None then contiguous getk key kSuffixes s
      else list_all (\<lambda>suf. getk s (key @ suf) = None) kSuffixes)"

context string_store
begin

definition seg_ok :: "bytes \<Rightarrow> bytes list \<Rightarrow> bool" where
  "seg_ok k sufs \<longleftrightarrow> distinct sufs \<and> k \<noteq> [] \<and> list_all (\<lambda>suf. ok_string KeySize (k @ suf)) sufs"

lemma seg_okD:
  assumes "seg_ok k (suf # sufs)"
  shows "ok_string KeySize (k @ suf)" "k @ suf \<noteq> []" "segment_key KeySize k suf = Some (k @ suf)"
    "seg_ok k sufs" "suf \<notin> set sufs"
  using assms by (auto simp: seg_ok_def ok_string_def segment_key_def)

lemma seg_ok_mem: "seg_ok k sufs \<Longrightarrow> suf \<in> set sufs \<Longrightarrow> ok_string KeySize (k @ suf) \<and> k @ suf \<noteq> []"
  by (auto simp: seg_ok_def list_all_iff)

lemma remove_segments_spec:
  assumes "inv s" and "seg_ok k sufs" and "contiguous getk k sufs s"
  shows "\<exists>i' s'. remove_segments rem KeySize k sufs i s = Some (i', s') \<and> inv s' \<and> room s \<le> room s' \<and>
    (\<forall>k'. ok_string KeySize k' \<and> k' \<noteq> [] \<longrightarrow>
       getk s' k' = (if k' \<in> (@) k ` set sufs then None else getk s k'))"
  using assms
proof (induction sufs arbitrary: i s)
  case (Cons suf sufs)
  note ok = seg_okD [OF Cons.prems(2)]
  obtain b t where r: "rem s (k @ suf) = (b, t)" by (cases "rem s (k @ suf)")
  note rl = rem_inv [OF Cons.prems(1) ok(1,2) r] rem_found [OF Cons.prems(1) ok(1,2) r]
    rem_room [OF Cons.prems(1) ok(1,2) r] rem_get [OF Cons.prems(1) ok(1,2) r]
  show ?case
  proof (cases b)
    case False
    with rl(2) Cons.prems(3) have "\<forall>x\<in>set sufs. getk s (k @ x) = None" "getk s (k @ suf) = None"
      by (auto simp: list_all_iff)
    then show ?thesis
      using False ok(3) r rl(1,3,4) by auto
  next
    case True
    have "getk t (k @ x) = getk s (k @ x)" if "x \<in> set sufs" for x
      using rl(4) seg_ok_mem [OF ok(4) that] that ok(5) by auto
    then have "contiguous getk k sufs t"
      using contiguous_cong [of sufs getk t k s] Cons.prems(3) rl(2) True by simp
    from Cons.IH [OF rl(1) ok(4) this, of "Suc i"] True ok(3) r rl(3,4)
    show ?thesis by auto
  qed
qed simp

lemma set_segments_spec:
  assumes "inv s" and "seg_ok k sufs" and "list_all (\<lambda>suf. getk s (k @ suf) = None) sufs"
    and "0 < vmax" and "vmax < ValueSize" and "0 \<notin> set v" and "length v \<le> length sufs * vmax"
    and "length v \<le> room s * vmax"
  shows "\<exists>s'. set_segments setk KeySize vmax k sufs v s = Some s' \<and> inv s' \<and>
    get_segments getk KeySize k sufs s' = Some v \<and> contiguous getk k sufs s' \<and>
    (\<forall>k'. ok_string KeySize k' \<and> k' \<noteq> [] \<and> k' \<notin> (@) k ` set sufs \<longrightarrow> getk s' k' = getk s k')"
  using assms
proof (induction sufs arbitrary: s v)
  case Nil
  then show ?case by simp
next
  case (Cons suf sufs)
  note ok = seg_okD [OF Cons.prems(2)]
  show ?case
  proof (cases "v = []")
    case True
    then show ?thesis using Cons.prems(1,3) ok(3) by (auto simp: list_all_iff)
  next
    case False
    define m where "m = min (length v) vmax"
    define t where "t = setk s (k @ suf) (take m v)"
    have m: "0 < m" "m \<le> vmax" "m \<le> length v" using False Cons.prems(4) by (auto simp: m_def)
    have vok: "ok_string ValueSize (take m v)"
      using Cons.prems(5,6) m by (auto simp: ok_string_def dest: in_set_takeD)
    have r0: "0 < room s" using Cons.prems(8) False by (cases "room s") auto
    have none: "getk s (k @ suf) = None" using Cons.prems(3) by simp
    have inv: "inv t" unfolding t_def by (rule set_inv [OF Cons.prems(1) ok(1,2) vok])
    have rm: "room t = room s - 1" using set_room [OF Cons.prems(1) ok(1,2) vok] none by (simp add: t_def)
    have gt: "getk t k' = (if k' = k @ suf then Some (take m v) else getk s k')"
      if "ok_string KeySize k'" "k' \<noteq> []" for k'
      unfolding t_def using set_get [OF Cons.prems(1) ok(1,2) vok _ that] r0 by simp
    have "list_all (\<lambda>x. getk t (k @ x) = None) sufs"
      using Cons.prems(3) gt seg_ok_mem [OF ok(4)] ok(5) by (auto simp: list_all_iff)
    moreover have "length (drop m v) \<le> length sufs * vmax" "length (drop m v) \<le> room t * vmax"
      using Cons.prems(7,8) r0 by (auto simp: m_def rm diff_mult_distrib)
    moreover have "0 \<notin> set (drop m v)" using Cons.prems(6) by (auto dest: in_set_dropD)
    ultimately obtain s' where s': "set_segments setk KeySize vmax k sufs (drop m v) t = Some s'" "inv s'"
      "get_segments getk KeySize k sufs s' = Some (drop m v)" "contiguous getk k sufs s'"
      "\<forall>k'. ok_string KeySize k' \<and> k' \<noteq> [] \<and> k' \<notin> (@) k ` set sufs \<longrightarrow> getk s' k' = getk t k'"
      using Cons.IH [OF inv ok(4)] Cons.prems(4,5) by blast
    have "getk s' (k @ suf) = Some (take m v)" using s'(5) gt ok by auto
    then have g: "get_segments getk KeySize k (suf # sufs) s' = Some v" using s'(3) ok(3) by simp
    have "set_segments setk KeySize vmax k (suf # sufs) v s = Some s'"
      using False s'(1) ok(3) by (simp add: Let_def m_def t_def)
    then show ?thesis using g s' gt \<open>getk s' (k @ suf) = Some (take m v)\<close> by auto
  qed
qed

end

lemma kSuffixes_simps:
  "distinct kSuffixes" "suf \<in> set kSuffixes \<Longrightarrow> suf \<noteq> [] \<and> length suf \<le> 4 \<and> 0 \<notin> set suf" "length kSuffixes = 10"
  by (auto simp: kSuffixes_def)

context string_store
begin

lemma seg_ok_suffixes:
  assumes "ok_string KeySize k" and "k \<noteq> []" and "length k + 4 < KeySize"
  shows "seg_ok k kSuffixes"
  using assms kSuffixes_simps by (fastforce simp: seg_ok_def list_all_iff ok_string_def)

lemma Long_RemoveKey_spec:
  assumes "inv s" and k: "ok_string KeySize k" "k \<noteq> []" "length k + 4 < KeySize" and once: "stored_once getk k s"
  shows "\<exists>b s'. Long_RemoveKey rem KeySize s (Some k) = Some (b, s') \<and> inv s' \<and> room s \<le> room s' \<and>
    (\<forall>k'. ok_string KeySize k' \<and> k' \<noteq> [] \<longrightarrow>
       getk s' k' = (if k' = k \<or> k' \<in> (@) k ` set kSuffixes then None else getk s k'))"
proof -
  obtain b t where r: "rem s k = (b, t)" by (cases "rem s k")
  note rl = rem_inv [OF assms(1) k(1,2) r] rem_found [OF assms(1) k(1,2) r]
    rem_room [OF assms(1) k(1,2) r] rem_get [OF assms(1) k(1,2) r]
  note so = seg_ok_suffixes [OF k]
  show ?thesis
  proof (cases b)
    case True
    then have "\<forall>suf\<in>set kSuffixes. getk s (k @ suf) = None"
      using once rl(2) by (auto simp: stored_once_def list_all_iff)
    then show ?thesis using True r rl(1,3,4) by (auto simp: Long_RemoveKey_def)
  next
    case False
    then have none: "getk s k = None" and c: "contiguous getk k kSuffixes s"
      using once rl(2) by (auto simp: stored_once_def)
    have "getk t (k @ suf) = getk s (k @ suf)" if "suf \<in> set kSuffixes" for suf
      using rl(4) seg_ok_mem [OF so that] kSuffixes_simps(2) [OF that] by simp
    with c have "contiguous getk k kSuffixes t" using contiguous_cong by metis
    from remove_segments_spec [OF rl(1) so this, of 0] none k(3) False r rl(3,4)
    show ?thesis by (auto simp: Long_RemoveKey_def)
  qed
qed

lemma Long_roundtrip:
  assumes "inv s" and k: "ok_string KeySize k" "k \<noteq> []" "length k + 4 < KeySize" and "stored_once getk k s"
    and v: "0 \<notin> set v" "length v \<le> 10 * (ValueSize - 1)" "length v \<le> room s * (ValueSize - 1)"
    and "0 < room s" and "1 < ValueSize"
  shows "\<exists>s'. Long_SetKeyValue setk rem KeySize (ValueSize - 1) s (Some k) (Some v) = Some s' \<and> inv s' \<and>
    Long_GetValueForKey getk KeySize s' (Some k) = Some v \<and> stored_once getk k s' \<and>
    (\<forall>k'. ok_string KeySize k' \<and> k' \<noteq> [] \<and> k' \<noteq> k \<and> k' \<notin> (@) k ` set kSuffixes \<longrightarrow> getk s' k' = getk s k')"
proof -
  obtain b t where t: "Long_RemoveKey rem KeySize s (Some k) = Some (b, t)" "inv t" "room s \<le> room t"
    and g: "\<And>k'. ok_string KeySize k' \<and> k' \<noteq> [] \<Longrightarrow>
       getk t k' = (if k' = k \<or> k' \<in> (@) k ` set kSuffixes then None else getk s k')"
    using Long_RemoveKey_spec [OF assms(1) k assms(5)] by blast
  note so = seg_ok_suffixes [OF k]
  have none: "getk t k = None" "\<And>suf. suf \<in> set kSuffixes \<Longrightarrow> getk t (k @ suf) = None"
    using g k(1,2) seg_ok_mem [OF so] by auto
  have nk: "k @ suf \<noteq> k" if "suf \<in> set kSuffixes" for suf using kSuffixes_simps(2) [OF that] by simp
  show ?thesis
  proof (cases "length v \<le> ValueSize - 1")
    case True
    then have vok: "ok_string ValueSize v" using v(1) assms(10) by (simp add: ok_string_def)
    let ?u = "setk t k v"
    have gu: "getk ?u k' = (if k' = k then Some v else getk t k')" if "ok_string KeySize k'" "k' \<noteq> []" for k'
      using set_get [OF t(2) k(1,2) vok _ that] assms(9) t(3) by simp
    have "stored_once getk k ?u"
      using gu k(1,2) none nk seg_ok_mem [OF so] by (auto simp: stored_once_def list_all_iff)
    moreover have "Long_GetValueForKey getk KeySize ?u (Some k) = Some v"
      using gu k by (simp add: Long_GetValueForKey_def)
    moreover have "Long_SetKeyValue setk rem KeySize (ValueSize - 1) s (Some k) (Some v) = Some ?u"
      using t(1) k(2) True by (simp add: Long_SetKeyValue_def)
    ultimately show ?thesis using gu g set_inv [OF t(2) k(1,2) vok] by auto
  next
    case False
    have "length v \<le> room t * (ValueSize - 1)" using v(3) t(3) by (meson le_trans mult_le_mono1)
    then obtain u where u: "set_segments setk KeySize (ValueSize - 1) k kSuffixes v t = Some u" "inv u"
      "get_segments getk KeySize k kSuffixes u = Some v" "contiguous getk k kSuffixes u"
      and fr: "\<And>k'. ok_string KeySize k' \<and> k' \<noteq> [] \<and> k' \<notin> (@) k ` set kSuffixes \<Longrightarrow> getk u k' = getk t k'"
      using set_segments_spec [OF t(2) so, of "ValueSize - 1" v] none(2) v(1,2) assms(10)
      by (auto simp: list_all_iff kSuffixes_simps(3))
    have un: "getk u k = None" using fr [of k] k(1,2) none(1) nk by force
    have "Long_SetKeyValue setk rem KeySize (ValueSize - 1) s (Some k) (Some v) = Some u"
      using t(1) k False u(1) by (simp add: Long_SetKeyValue_def)
    moreover have "Long_GetValueForKey getk KeySize u (Some k) = Some v"
      using un k u(3) by (simp add: Long_GetValueForKey_def)
    ultimately show ?thesis using u(2,4) un fr g by (auto simp: stored_once_def)
  qed
qed

end

section \<open>NonAllocatingMap keeps the contract\<close>

definition ck :: "map_entry \<Rightarrow> bytes" where "ck e = cstr (e_key e)"

definition entry_ok :: "nat \<Rightarrow> nat \<Rightarrow> map_entry \<Rightarrow> bool" where
  "entry_ok KS VS e \<longleftrightarrow> length (e_key e) = KS \<and> length (e_value e) = VS \<and>
     nul_terminated (e_key e) \<and> nul_terminated (e_value e)"

definition nm_inv :: "nat \<Rightarrow> nat \<Rightarrow> nmap \<Rightarrow> bool" where
  "nm_inv KS VS es \<longleftrightarrow> 1 < KS \<and> 1 < VS \<and> list_all (entry_ok KS VS) es \<and>
     (\<forall>i<length es. \<forall>j<length es. i \<noteq> j \<and> ck (es ! i) = ck (es ! j) \<longrightarrow> ck (es ! i) = [])"

definition nm_room :: "nmap \<Rightarrow> nat" where
  "nm_room es = length (filter (\<lambda>e. \<not> is_active e) es)"

definition nm_alist :: "nmap \<Rightarrow> (bytes \<times> bytes) list" where
  "nm_alist es = map (\<lambda>e. (ck e, cstr (e_value e))) es"

definition nm_get :: "nat \<Rightarrow> nmap \<Rightarrow> bytes \<Rightarrow> bytes option" where
  "nm_get KS es k = GetValueForKey KS es (Some k)"

definition nm_set :: "nat \<Rightarrow> nat \<Rightarrow> nmap \<Rightarrow> bytes \<Rightarrow> bytes \<Rightarrow> nmap" where
  "nm_set KS VS es k v = snd (SetKeyValue KS VS es (Some k) (Some v))"

definition nm_rem :: "nat \<Rightarrow> nmap \<Rightarrow> bytes \<Rightarrow> bool \<times> nmap" where
  "nm_rem KS es k = RemoveKey KS es (Some k)"

lemma cstr_eq_Nil: "s \<noteq> [] \<Longrightarrow> cstr s = [] \<longleftrightarrow> s ! 0 = 0"
  by (cases s) auto

lemma is_active_iff: "entry_ok KS VS e \<Longrightarrow> 1 < KS \<Longrightarrow> is_active e \<longleftrightarrow> ck e \<noteq> []"
  using cstr_eq_Nil [of "e_key e"] by (cases "e_key e") (auto simp: is_active_def ck_def entry_ok_def)

lemma strncmp_eq_iff:
  "entry_ok KS VS e \<Longrightarrow> ok_string KS k \<Longrightarrow> strncmp_eq k (e_key e) KS \<longleftrightarrow> k = ck e"
  using length_cstr_less [of "e_key e"] by (auto simp: strncmp_eq_def ok_string_def entry_ok_def ck_def)

lemma cstr_strncpy:
  assumes "ok_string n s"
  shows "cstr ((strncpy_buf s n)[n - 1 := 0]) = s" "length ((strncpy_buf s n)[n - 1 := 0]) = n"
    "nul_terminated ((strncpy_buf s n)[n - 1 := 0])"
proof -
  obtain m where m: "n = length s + Suc m" using assms by (auto simp: ok_string_def less_iff_Suc_add)
  have "strncpy_buf s n = s @ replicate (Suc m) 0" by (simp add: strncpy_buf_def m)
  moreover have "(replicate (Suc m) (0::u8))[m := 0] = replicate (Suc m) 0"
    by (metis lessI list_update_id nth_replicate)
  ultimately have "(strncpy_buf s n)[n - 1 := 0] = s @ 0 # replicate m 0"
    by (simp add: m list_update_append del: list_update.simps)
  then show "cstr ((strncpy_buf s n)[n - 1 := 0]) = s" "length ((strncpy_buf s n)[n - 1 := 0]) = n"
    "nul_terminated ((strncpy_buf s n)[n - 1 := 0])"
    using assms by (simp_all add: ok_string_def cstr_terminated m)
qed

lemma GetEntryIndex_spec:
  assumes "list_all (entry_ok KS VS) es" and "ok_string KS k"
  shows "(GetEntryIndexForKey KS es k = length es \<and> k \<notin> ck ` set es) \<or>
    (GetEntryIndexForKey KS es k < length es \<and> ck (es ! GetEntryIndexForKey KS es k) = k)"
  using assms by (induction es) (auto simp: strncmp_eq_iff)

lemma nm_get_map_of:
  assumes "list_all (entry_ok KS VS) es" and "ok_string KS k"
  shows "nm_get KS es k = map_of (nm_alist es) k"
  using assms
proof (induction es)
  case (Cons e es)
  then show ?case
    by (auto simp: nm_get_def GetValueForKey_def nm_alist_def strncmp_eq_iff Let_def split: if_splits)
qed (simp add: nm_get_def GetValueForKey_def nm_alist_def)

lemma map_of_update:
  assumes "i < length xs" and "\<And>j. j < length xs \<Longrightarrow> j \<noteq> i \<Longrightarrow> fst (xs ! j) \<noteq> k" 
  shows "map_of (xs[i := (a, b)]) k = (if k = a then Some b else None)"
  using assms
proof (induction xs arbitrary: i)
  case (Cons x xs)
  show ?case
  proof (cases i)
    case 0
    have "k \<notin> fst ` set xs" using Cons.prems(2) [of "Suc _"] 0 by (force simp: in_set_conv_nth)
    then show ?thesis using 0 by (simp add: map_of_eq_None_iff)
  next
    case (Suc j)
    have "fst x \<noteq> k" using Cons.prems(2) [of 0] Suc by simp
    moreover have "\<And>l. l < length xs \<Longrightarrow> l \<noteq> j \<Longrightarrow> fst (xs ! l) \<noteq> k" using Cons.prems(2) [of "Suc _"] Suc by fastforce
    ultimately show ?thesis using Cons Suc by (cases x) simp
  qed
qed simp

lemma map_of_update_other:
  assumes "k \<noteq> a" and "k \<noteq> fst (xs ! i)"
  shows "map_of (xs[i := (a, b)]) k = map_of xs k"
  using assms
proof (induction xs arbitrary: i)
  case (Cons x xs)
  then show ?case by (cases i; cases x) auto
qed simp

lemma filter_update:
  "i < length xs \<Longrightarrow> length (filter P (xs[i := y])) + (if P (xs ! i) then 1 else 0) =
     length (filter P xs) + (if P y then 1 else 0)"
proof (induction xs arbitrary: i)
  case (Cons x xs)
  then show ?case by (cases i) auto
qed simp

lemma nm_invD:
  assumes "nm_inv KS VS es"
  shows "1 < KS" "1 < VS" "list_all (entry_ok KS VS) es" "i < length es \<Longrightarrow> entry_ok KS VS (es ! i)"
    "\<lbrakk>i < length es; j < length es; i \<noteq> j; ck (es ! i) \<noteq> []\<rbrakk> \<Longrightarrow> ck (es ! j) \<noteq> ck (es ! i)"
  using assms by (auto simp: nm_inv_def list_all_length)

lemma nm_get_None: "nm_inv KS VS es \<Longrightarrow> ok_string KS k \<Longrightarrow> nm_get KS es k = None \<longleftrightarrow> k \<notin> ck ` set es"
  using nm_get_map_of [OF nm_invD(3), of KS VS es k]
  by (simp add: nm_alist_def map_of_eq_None_iff image_image)

text \<open>Writing one entry, with a key no other entry has.\<close>

definition fresh_at :: "nmap \<Rightarrow> nat \<Rightarrow> bytes \<Rightarrow> bool" where
  "fresh_at es i k \<longleftrightarrow> i < length es \<and> (k = [] \<or> (\<forall>j<length es. j \<noteq> i \<longrightarrow> ck (es ! j) \<noteq> k))"

lemma update_inv:
  assumes "nm_inv KS VS es" and "entry_ok KS VS e" and "fresh_at es i (ck e)"
  shows "nm_inv KS VS (es[i := e])"
proof -
  have "ck (es[i := e] ! a) = []"
    if "a < length es" "b < length es" "a \<noteq> b" "ck (es[i := e] ! a) = ck (es[i := e] ! b)" for a b
    using that assms(3) nm_invD(5) [OF assms(1), of a b]
    by (cases "a = i"; cases "b = i") (auto simp: fresh_at_def)
  moreover have "list_all (entry_ok KS VS) (es[i := e])"
    using nm_invD(4) [OF assms(1)] assms(2,3) by (auto simp: list_all_length nth_list_update fresh_at_def)
  ultimately show ?thesis using nm_invD(1,2) [OF assms(1)] by (simp add: nm_inv_def)
qed

lemma update_get:
  assumes inv: "nm_inv KS VS es" and e: "entry_ok KS VS e" and fr: "fresh_at es i (ck e)"
    and k: "ok_string KS k" "k \<noteq> []"
  shows "nm_get KS (es[i := e]) k =
    (if k = ck e then Some (cstr (e_value e)) else if k = ck (es ! i) then None else nm_get KS es k)"
proof -
  let ?xs = "nm_alist es"
  have i: "i < length es" using fr by (simp add: fresh_at_def)
  have "nm_get KS (es[i := e]) k = map_of (?xs[i := (ck e, cstr (e_value e))]) k"
    using nm_get_map_of [OF nm_invD(3) [OF update_inv [OF inv e fr]] k(1)] by (simp add: nm_alist_def map_update)
  also have "\<dots> = (if k = ck e then Some (cstr (e_value e)) else if k = ck (es ! i) then None else nm_get KS es k)"
  proof (cases "k = ck e \<or> k = ck (es ! i)")
    case True
    have "fst (?xs ! j) \<noteq> k" if "j < length ?xs" "j \<noteq> i" for j
      using True that fr i k(2) nm_invD(5) [OF inv i, of j] by (auto simp: nm_alist_def fresh_at_def)
    then show ?thesis using map_of_update [of i ?xs k] i True by (auto simp: nm_alist_def)
  next
    case False
    then show ?thesis
      using map_of_update_other [of k "ck e" ?xs i] i nm_get_map_of [OF nm_invD(3) [OF inv] k(1)]
      by (simp add: nm_alist_def)
  qed
  finally show ?thesis .
qed

lemma update_room:
  assumes "nm_inv KS VS es" and "entry_ok KS VS e" and "i < length es"
  shows "nm_room (es[i := e]) + (if ck (es ! i) = [] then 1 else 0) = nm_room es + (if ck e = [] then 1 else 0)"
  using filter_update [OF assms(3), of "\<lambda>e. \<not> is_active e" e]
    is_active_iff [OF nm_invD(4) [OF assms(1,3)] nm_invD(1) [OF assms(1)]]
    is_active_iff [OF assms(2) nm_invD(1) [OF assms(1)]]
  by (simp add: nm_room_def)

lemma first_inactive_spec:
  "list_all (entry_ok KS VS) es \<Longrightarrow> 1 < KS \<Longrightarrow>
   (first_inactive es < length es \<and> ck (es ! first_inactive es) = []) \<or>
   (first_inactive es = length es \<and> nm_room es = 0)"
  by (induction es) (auto simp: is_active_iff nm_room_def)

text \<open>What \<open>SetKeyValue\<close> does: one entry is written, or the map is full and stays as it is.\<close>

lemma nm_set_cases:
  assumes inv: "nm_inv KS VS es" and k: "ok_string KS k" "k \<noteq> []" and v: "ok_string VS v"
  obtains i e where "nm_set KS VS es k v = es[i := e]" "entry_ok KS VS e" "ck e = k" "cstr (e_value e) = v"
      "fresh_at es i k" "ck (es ! i) = k \<or> (ck (es ! i) = [] \<and> k \<notin> ck ` set es)"
    | "nm_set KS VS es k v = es" "k \<notin> ck ` set es" "nm_room es = 0"
proof -
  let ?i = "GetEntryIndexForKey KS es k" and ?j = "first_inactive es"
  let ?key = "(strncpy_buf k KS)[KS - 1 := 0]" and ?val = "(strncpy_buf v VS)[VS - 1 := 0]"
  consider "?i < length es" "ck (es ! ?i) = k"
    | "?i = length es" "k \<notin> ck ` set es" "?j < length es" "ck (es ! ?j) = []"
    | "?i = length es" "k \<notin> ck ` set es" "?j = length es" "nm_room es = 0"
    using GetEntryIndex_spec [OF nm_invD(3) [OF inv] k(1)]
      first_inactive_spec [OF nm_invD(3) [OF inv] nm_invD(1) [OF inv]] by argo
  then show thesis
  proof cases
    case 1
    have "fresh_at es ?i k" using 1 nm_invD(5) [OF inv 1(1)] k(2) by (auto simp: fresh_at_def)
    moreover have "nm_set KS VS es k v = es[?i := (es ! ?i)\<lparr>e_value := ?val\<rparr>]"
      using 1 k(2) by (simp add: nm_set_def SetKeyValue_def SetValueAtIndex_def Let_def)
    ultimately show thesis
      using that(1) [of ?i] 1 nm_invD(4) [OF inv 1(1)] cstr_strncpy [OF v] by (simp add: entry_ok_def ck_def)
  next
    case 2
    have "fresh_at es ?j k" using 2 by (auto simp: fresh_at_def)
    moreover have "nm_set KS VS es k v = es[?j := (es ! ?j)\<lparr>e_key := ?key, e_value := ?val\<rparr>]"
      using 2 k(2) by (simp add: nm_set_def SetKeyValue_def SetValueAtIndex_def Let_def)
    ultimately show thesis
      using that(1) [of ?j] 2 cstr_strncpy [OF v] cstr_strncpy [OF k(1)] by (simp add: entry_ok_def ck_def)
  next
    case 3
    then show thesis using that(2) k(2) by (simp add: nm_set_def SetKeyValue_def)
  qed
qed

lemma nm_rem_cases:
  assumes inv: "nm_inv KS VS es" and k: "ok_string KS k" "k \<noteq> []"
  obtains i e where "nm_rem KS es k = (True, es[i := e])" "entry_ok KS VS e" "ck e = []" "i < length es" "ck (es ! i) = k"
    | "nm_rem KS es k = (False, es)" "k \<notin> ck ` set es"
proof -
  let ?i = "GetEntryIndexForKey KS es k"
  consider "?i < length es" "ck (es ! ?i) = k" | "?i = length es" "k \<notin> ck ` set es"
    using GetEntryIndex_spec [OF nm_invD(3) [OF inv] k(1)] by blast
  then show thesis
  proof cases
    case 1
    have e: "entry_ok KS VS (es ! ?i)" by (rule nm_invD(4) [OF inv 1(1)])
    have "entry_ok KS VS \<lparr>e_key = (e_key (es ! ?i))[0 := 0], e_value = (e_value (es ! ?i))[0 := 0]\<rparr>"
      using e nm_invD(1,2) [OF inv]
      by (cases "e_key (es ! ?i)"; cases "e_value (es ! ?i)") (auto simp: entry_ok_def nul_terminated_def)
    then show thesis
      using that(1) 1 e nm_invD(1) [OF inv]
      by (cases "e_key (es ! ?i)") (auto simp: nm_rem_def RemoveKey_def RemoveAtIndex_def ck_def entry_ok_def)
  next
    case 2
    then show thesis using that(2) by (simp add: nm_rem_def RemoveKey_def RemoveAtIndex_def)
  qed
qed

lemma nm_set_law:
  assumes "nm_inv KS VS es" and "ok_string KS k" and "k \<noteq> []" and "ok_string VS v"
  shows "nm_inv KS VS (nm_set KS VS es k v)"
    and "nm_get KS es k \<noteq> None \<or> 0 < nm_room es \<Longrightarrow> ok_string KS k' \<Longrightarrow> k' \<noteq> [] \<Longrightarrow>
      nm_get KS (nm_set KS VS es k v) k' = (if k' = k then Some v else nm_get KS es k')"
    and "nm_room (nm_set KS VS es k v) = (if nm_get KS es k = None then nm_room es - 1 else nm_room es)"
    and "length (nm_set KS VS es k v) = length es"
proof (atomize (full), rule nm_set_cases [OF assms], goal_cases)
  case (1 i e)
  note fr = 1(5) [folded 1(3)]
  have i: "i < length es" using fr by (simp add: fresh_at_def)
  have old: "nm_get KS es k = None \<longleftrightarrow> ck (es ! i) \<noteq> k"
    using 1(6) nm_get_None [OF assms(1,2)] i assms(3) by auto
  show ?case
    using update_inv [OF assms(1) 1(2) fr] update_get [OF assms(1) 1(2) fr, of k']
      update_room [OF assms(1) 1(2) i] 1 old assms(3) nm_get_None [OF assms(1), of k'] by auto
next
  case 2
  then show ?case using assms nm_get_None [OF assms(1,2)] by simp
qed

lemma nm_rem_law:
  assumes "nm_inv KS VS es" and "ok_string KS k" and "k \<noteq> []" and "nm_rem KS es k = (b, es')"
  shows "nm_inv KS VS es'" and "b \<longleftrightarrow> nm_get KS es k \<noteq> None"
    and "ok_string KS k' \<Longrightarrow> k' \<noteq> [] \<Longrightarrow> nm_get KS es' k' = (if k' = k then None else nm_get KS es k')"
    and "nm_room es' = (if b then nm_room es + 1 else nm_room es)"
    and "length es' = length es"
proof (atomize (full), rule nm_rem_cases [OF assms(1-3)], goal_cases)
  case (1 i e)
  have fr: "fresh_at es i (ck e)" using 1 by (simp add: fresh_at_def)
  show ?case
    using update_inv [OF assms(1) 1(2) fr] update_get [OF assms(1) 1(2) fr, of k']
      update_room [OF assms(1) 1(2,4)] 1 assms(3,4) nm_get_None [OF assms(1,2)] by auto
next
  case 2
  then show ?case using assms nm_get_None [OF assms(1,2)] by auto
qed

interpretation nas: string_store "nm_get KS" "nm_set KS VS" "nm_rem KS" "nm_inv KS VS" nm_room KS VS for KS VS
  by unfold_locales (auto simp: nm_set_law nm_rem_law(1,3,4) dest: nm_rem_law(2))

section \<open>A map with bounded domain as the specification\<close>

datatype dict_op = Set_op bytes bytes | Remove_op bytes

fun ok_op :: "nat \<Rightarrow> nat \<Rightarrow> dict_op \<Rightarrow> bool" where
  "ok_op KS VS (Set_op k v) \<longleftrightarrow> ok_string KS k \<and> k \<noteq> [] \<and> ok_string VS v"
| "ok_op KS VS (Remove_op k) \<longleftrightarrow> ok_string KS k \<and> k \<noteq> []"

fun run_op :: "nat \<Rightarrow> nat \<Rightarrow> nmap \<Rightarrow> dict_op \<Rightarrow> nmap" where
  "run_op KS VS es (Set_op k v) = snd (SetKeyValue KS VS es (Some k) (Some v))"
| "run_op KS VS es (Remove_op k) = snd (RemoveKey KS es (Some k))"

fun spec_op :: "nat \<Rightarrow> (bytes \<rightharpoonup> bytes) \<Rightarrow> dict_op \<Rightarrow> (bytes \<rightharpoonup> bytes)" where
  "spec_op N m (Set_op k v) = (if k \<in> dom m \<or> card (dom m) < N then m(k \<mapsto> v) else m)"
| "spec_op N m (Remove_op k) = m(k := None)"

definition nm_abs :: "nat \<Rightarrow> nmap \<Rightarrow> bytes \<rightharpoonup> bytes" where
  "nm_abs KS es k = (if ok_string KS k \<and> k \<noteq> [] then nm_get KS es k else None)"

lemma entry_ok_ck: "entry_ok KS VS e \<Longrightarrow> ok_string KS (ck e)"
  using length_cstr_less [of "e_key e"] by (auto simp: entry_ok_def ok_string_def ck_def)

lemma dom_nm_abs:
  assumes "nm_inv KS VS es"
  shows "dom (nm_abs KS es) = ck ` {e \<in> set es. ck e \<noteq> []}"
proof -
  have "nm_abs KS es k \<noteq> None \<longleftrightarrow> k \<in> ck ` set es \<and> k \<noteq> []" for k
    using nm_get_None [OF assms, of k] entry_ok_ck nm_invD(3) [OF assms]
    by (auto simp: nm_abs_def list_all_iff)
  then show ?thesis by (auto simp: dom_def)
qed

lemma distinct_active:
  "list_all (\<lambda>e. ck e \<noteq> []) xs \<Longrightarrow> (\<And>i j. i < j \<Longrightarrow> j < length xs \<Longrightarrow> ck (xs ! i) \<noteq> ck (xs ! j)) \<Longrightarrow>
   distinct (map ck xs)"
  by (auto simp: distinct_conv_nth) (metis linorder_neqE_nat)

lemma active_keys_distinct:
  assumes "\<And>i j. i < j \<Longrightarrow> j < length es \<Longrightarrow> ck (es ! i) = ck (es ! j) \<Longrightarrow> ck (es ! i) = []"
  shows "distinct (map ck (filter (\<lambda>e. ck e \<noteq> []) es))"
  using assms
proof (induction es)
  case (Cons e es)
  have "distinct (map ck (filter (\<lambda>e. ck e \<noteq> []) es))"
    using Cons.prems [of "Suc _" "Suc _"] by (intro Cons.IH) fastforce
  moreover have "ck e \<noteq> ck x" if "x \<in> set es" "ck e \<noteq> []" for x
    using Cons.prems [of 0 "Suc _"] that by (fastforce simp: in_set_conv_nth)
  ultimately show ?case by auto
qed simp

lemma active_filter:
  assumes "nm_inv KS VS es"
  shows "filter is_active es = filter (\<lambda>e. ck e \<noteq> []) es"
    and "distinct (map ck (filter is_active es))"
proof -
  show act: "filter is_active es = filter (\<lambda>e. ck e \<noteq> []) es"
    using nm_invD(1,3) [OF assms] by (intro filter_cong) (auto simp: is_active_iff list_all_iff)
  show "distinct (map ck (filter is_active es))"
    unfolding act using nm_invD(5) [OF assms] by (intro active_keys_distinct) (metis less_trans nat_neq_iff)
qed

lemma GetCount_card:
  assumes "nm_inv KS VS es"
  shows "GetCount es = card (dom (nm_abs KS es))" and "GetCount es + nm_room es = length es"
proof -
  note act = active_filter(1) [OF assms]
  have "distinct (map ck (filter (\<lambda>e. ck e \<noteq> []) es))"
    using active_filter [OF assms] by simp
  then have "card (ck ` set (filter (\<lambda>e. ck e \<noteq> []) es)) = length (filter (\<lambda>e. ck e \<noteq> []) es)"
    using distinct_card by fastforce
  then show "GetCount es = card (dom (nm_abs KS es))"
    by (simp add: GetCount_def act dom_nm_abs [OF assms])
  show "GetCount es + nm_room es = length es"
    using sum_length_filter_compl [of is_active es] by (simp add: GetCount_def nm_room_def)
qed

lemma nm_set_full:
  assumes "nm_inv KS VS es" and "ok_string KS k" and "k \<noteq> []" and "ok_string VS v"
    and "nm_get KS es k = None" and "nm_room es = 0"
  shows "nm_set KS VS es k v = es"
proof (rule nm_set_cases [OF assms(1-4)])
  fix i e assume e: "entry_ok KS VS e" "ck e = k" "fresh_at es i k" "ck (es ! i) = k \<or> (ck (es ! i) = [] \<and> k \<notin> ck ` set es)"
  have i: "i < length es" using e(3) by (simp add: fresh_at_def)
  have "ck (es ! i) \<noteq> k" using nm_get_None [OF assms(1,2)] assms(5) i by force
  then show ?thesis using e(2,4) update_room [OF assms(1) e(1) i] assms(3,6) by simp
qed

lemma run_op_refines:
  assumes inv: "nm_inv KS VS es" and ok: "ok_op KS VS opn"
  shows "nm_inv KS VS (run_op KS VS es opn)" and "length (run_op KS VS es opn) = length es"
    and "nm_abs KS (run_op KS VS es opn) = spec_op (length es) (nm_abs KS es) opn"
proof (atomize (full), cases opn)
  case (Set_op k v)
  then have k: "ok_string KS k" "k \<noteq> []" "ok_string VS v" using ok by auto
  note law = nm_set_law [OF inv k]
  note full = nm_set_full [OF inv k]
  have room: "0 < nm_room es \<longleftrightarrow> card (dom (nm_abs KS es)) < length es"
    using GetCount_card [OF inv] by linarith
  show "nm_inv KS VS (run_op KS VS es opn) \<and> length (run_op KS VS es opn) = length es \<and>
      nm_abs KS (run_op KS VS es opn) = spec_op (length es) (nm_abs KS es) opn"
  proof (cases "k \<in> dom (nm_abs KS es) \<or> 0 < nm_room es")
    case True
    then have "nm_get KS es k \<noteq> None \<or> 0 < nm_room es" by (auto simp: nm_abs_def split: if_splits)
    then have "nm_abs KS (nm_set KS VS es k v) = (nm_abs KS es)(k \<mapsto> v)"
      using law(2) k by (auto simp: nm_abs_def fun_eq_iff)
    then show ?thesis using True law(1,4) room Set_op by (auto simp: nm_set_def)
  next
    case False
    then have "nm_get KS es k = None" using k by (auto simp: nm_abs_def dom_def)
    then show ?thesis using False full law(1,4) room Set_op by (auto simp: nm_set_def)
  qed
next
  case (Remove_op k)
  then have k: "ok_string KS k" "k \<noteq> []" using ok by auto
  obtain b es' where r: "nm_rem KS es k = (b, es')" by (cases "nm_rem KS es k")
  note law = nm_rem_law [OF inv k r]
  show "nm_inv KS VS (run_op KS VS es opn) \<and> length (run_op KS VS es opn) = length es \<and>
      nm_abs KS (run_op KS VS es opn) = spec_op (length es) (nm_abs KS es) opn"
    using law r Remove_op by (auto simp: nm_rem_def nm_abs_def fun_eq_iff)
qed

lemma NonAllocatingMap_init:
  assumes "1 < KS" and "1 < VS"
  shows "nm_inv KS VS (NonAllocatingMap KS VS N)" and "nm_abs KS (NonAllocatingMap KS VS N) = Map.empty"
    and "nm_room (NonAllocatingMap KS VS N) = N"
proof -
  let ?e = "\<lparr>e_key = replicate KS 0, e_value = replicate VS 0\<rparr>"
  have e: "entry_ok KS VS ?e" "ck ?e = []"
    using assms by (cases KS; cases VS; auto simp: entry_ok_def ck_def)+
  show inv: "nm_inv KS VS (NonAllocatingMap KS VS N)"
    using e assms by (simp add: nm_inv_def NonAllocatingMap_def list_all_length)
  have "dom (nm_abs KS (NonAllocatingMap KS VS N)) = {}"
    unfolding dom_nm_abs [OF inv] using e(2) by (auto simp: NonAllocatingMap_def)
  then show "nm_abs KS (NonAllocatingMap KS VS N) = Map.empty" by simp
  show "nm_room (NonAllocatingMap KS VS N) = N"
    using is_active_iff [OF e(1) assms(1)] e(2) by (simp add: nm_room_def NonAllocatingMap_def)
qed

lemma run_ops_refine:
  assumes "nm_inv KS VS es" and "list_all (ok_op KS VS) ops"
  shows "nm_inv KS VS (foldl (run_op KS VS) es ops) \<and> length (foldl (run_op KS VS) es ops) = length es \<and>
    nm_abs KS (foldl (run_op KS VS) es ops) = foldl (spec_op (length es)) (nm_abs KS es) ops"
  using assms
proof (induction ops arbitrary: es)
  case (Cons opn ops)
  with run_op_refines [of KS VS es opn] show ?case by simp
qed simp

section \<open>Iteration\<close>

fun iterate :: "nat \<Rightarrow> nmap \<Rightarrow> nat \<Rightarrow> map_entry list" where
  "iterate 0 es c = []"
| "iterate (Suc n) es c =
     (case Next es c of (None, c') \<Rightarrow> [] | (Some e, c') \<Rightarrow> e # iterate n es c')"

lemma Next_Some_drop:
  "Next es c = (r, c') \<Longrightarrow>
   (case r of None \<Rightarrow> filter is_active (drop c es) = []
    | Some e \<Rightarrow> filter is_active (drop c es) = e # filter is_active (drop c' es))"
proof (induction es c rule: Next.induct)
  case (1 es c)
  show ?case
  proof (cases "c < length es")
    case True
    then show ?thesis
      using 1 Cons_nth_drop_Suc [OF True, symmetric]
      by (auto simp: Next.simps [of es c] split: if_splits option.splits)
  next
    case False
    then show ?thesis using 1(2) by (auto simp: Next.simps [of es c])
  qed
qed

lemma iterate_active:
  "length (filter is_active (drop c es)) < n \<Longrightarrow> iterate n es c = filter is_active (drop c es)"
proof (induction n arbitrary: c)
  case (Suc n)
  obtain r c' where r: "Next es c = (r, c')" by (cases "Next es c")
  show ?case using Next_Some_drop [OF r] Suc r by (cases r) auto
qed simp

section \<open>Properties\<close>

text \<open>
  C11. A map of fixed storage implements a finite map whose domain has at most \<open>NumEntries\<close> keys. For every
  sequence of \<open>SetKeyValue\<close> and \<open>RemoveKey\<close> calls on a new map, with keys and values that fit their arrays:
  \<open>GetValueForKey\<close> returns what the map of the specification holds, \<open>GetCount\<close> is the number of its keys,
  and an iterator delivers every key exactly once. A set on a full map is ignored.
\<close>

theorem dictionary_refines_map:
  assumes "1 < KS" and "1 < VS" and "list_all (ok_op KS VS) ops"
    and "es = foldl (run_op KS VS) (NonAllocatingMap KS VS N) ops" and "m = foldl (spec_op N) Map.empty ops"
    and "keys = map (\<lambda>e. cstr (e_key e)) (iterate (N + 1) es 0)"
  shows "length es = N \<and> GetCount es = card (dom m) \<and> distinct keys \<and> set keys = dom m \<and>
    (\<forall>k. ok_string KS k \<and> k \<noteq> [] \<longrightarrow> GetValueForKey KS es (Some k) = m k)"
proof -
  note init = NonAllocatingMap_init [OF assms(1,2), of N]
  have len: "length (NonAllocatingMap KS VS N) = N" by (simp add: NonAllocatingMap_def)
  have inv: "nm_inv KS VS es" and l: "length es = N" and abs: "nm_abs KS es = m"
    using run_ops_refine [OF init(1) assms(3)] init(2) len assms(4,5) by auto
  have keys: "keys = map ck (filter is_active es)"
    using iterate_active [of 0 es "N + 1"] length_filter_le [of is_active es] l assms(6)
    by (simp add: ck_def [abs_def])
  then have "distinct keys" "set keys = dom m"
    using active_filter [OF inv] dom_nm_abs [OF inv] abs by auto
  moreover have "GetValueForKey KS es (Some k) = m k" if "ok_string KS k" "k \<noteq> []" for k
    using that abs by (auto simp: nm_abs_def nm_get_def)
  ultimately show ?thesis using GetCount_card(1) [OF inv] l abs by simp
qed

theorem dictionary_refines_map_witness:
  "GetCount (foldl (run_op 4 4) (NonAllocatingMap 4 4 1) [Set_op [97] [98], Set_op [99] [100]]) =
     card (dom (foldl (spec_op 1) Map.empty [Set_op [97] [98], Set_op [99] [100]]))
   \<and> GetValueForKey 4 (foldl (run_op 4 4) (NonAllocatingMap 4 4 1) [Set_op [97] [98], Set_op [99] [100]]) (Some [97]) = Some [98]
   \<and> GetValueForKey 4 (foldl (run_op 4 4) (NonAllocatingMap 4 4 1) [Set_op [97] [98], Set_op [99] [100]]) (Some [99]) = None"
  using dictionary_refines_map [of 4 4 "[Set_op [97] [98], Set_op [99] [100]]" _ 1, OF _ _ _ refl refl refl]
  by (simp add: ok_string_def)

text \<open>
  C21. The annotations of a crash are a \<open>LongStringDictionary\<close>, 64 entries of 256 characters. In a state of
  its invariant where the key is stored at most once, setting a value of up to 2550 characters, with room
  for its segments, succeeds, is read back whole and keeps every other entry.
\<close>

theorem LongStringDictionary_roundtrip:
  assumes "nm_inv 256 256 es" and "ok_string 256 k" and "k \<noteq> []" and "length k + 4 < 256"
    and "stored_once (nm_get 256) k es" and "0 \<notin> set v" and "length v \<le> 2550"
    and "length v \<le> nm_room es * 255" and "0 < nm_room es"
  shows "\<exists>es'. Long_SetKeyValue (nm_set 256 256) (nm_rem 256) 256 255 es (Some k) (Some v) = Some es' \<and>
    nm_inv 256 256 es' \<and> stored_once (nm_get 256) k es' \<and>
    Long_GetValueForKey (nm_get 256) 256 es' (Some k) = Some v \<and>
    (\<forall>k'. ok_string 256 k' \<and> k' \<noteq> [] \<and> k' \<noteq> k \<and> k' \<notin> (@) k ` set kSuffixes \<longrightarrow> nm_get 256 es' k' = nm_get 256 es k')"
  using nas.Long_roundtrip [of 256 256 es k v] assms by (simp, blast)

theorem LongStringDictionary_roundtrip_witness:
  "\<exists>es'. Long_SetKeyValue (nm_set 256 256) (nm_rem 256) 256 255 (NonAllocatingMap 256 256 64) (Some [107])
       (Some (replicate 1000 65)) = Some es' \<and>
     Long_GetValueForKey (nm_get 256) 256 es' (Some [107]) = Some (replicate 1000 65)"
proof -
  have init: "nm_inv 256 256 (NonAllocatingMap 256 256 64)" "nm_room (NonAllocatingMap 256 256 64) = 64"
    by (rule NonAllocatingMap_init, simp, simp)+
  have "nm_abs 256 (NonAllocatingMap 256 256 64) k = None" for k
    using NonAllocatingMap_init(2) [of 256 256 64] by simp
  then have none: "nm_get 256 (NonAllocatingMap 256 256 64) k = None" if "ok_string 256 k" "k \<noteq> []" for k
    using that unfolding nm_abs_def by (metis (no_types, lifting))
  have sub: "ok_string 256 ([107] @ suf)" if "suf \<in> set kSuffixes" for suf
    using kSuffixes_simps(2) [OF that] by (auto simp: ok_string_def)
  have c: "contiguous g key sufs s" if "list_all (\<lambda>suf. g s (key @ suf) = None) sufs"
    for g :: "nmap \<Rightarrow> bytes \<Rightarrow> bytes option" and key sufs s
    using that by (induction sufs) auto
  have "stored_once (nm_get 256) [107] (NonAllocatingMap 256 256 64)"
    using none sub c by (auto simp: stored_once_def list_all_iff ok_string_def)
  then show ?thesis
    using LongStringDictionary_roundtrip [of "NonAllocatingMap 256 256 64" "[107]" "replicate 1000 65"] init
    by (auto simp: ok_string_def)
qed

lemma entries_of_Serialize:
  "list_all (entry_ok KS VS) es \<Longrightarrow> entries_of KS VS (length es) (Serialize es) = es \<and>
    length (Serialize es) = length es * (KS + VS)"
  by (induction es) (auto simp: Serialize_def entry_ok_def)

lemma deserialize_Serialize:
  assumes "nm_inv KS VS es" and "length entries = length es"
  shows "deserialize KS VS entries (Serialize es) = es"
  using entries_of_Serialize [OF nm_invD(3) [OF assms(1)]] assms(2) by (simp add: deserialize_def)

lemma GetEntryIndex_overlong:
  "list_all (entry_ok KS VS) es \<Longrightarrow> KS \<le> length k \<Longrightarrow> GetEntryIndexForKey KS es k = length es"
proof (induction es)
  case (Cons e es)
  then have "length (cstr (e_key e)) < KS" using length_cstr_less [of "e_key e"] by (simp add: entry_ok_def)
  then have "\<not> strncmp_eq k (e_key e) KS" using Cons.prems by (auto simp: strncmp_eq_def dest: arg_cong [of _ _ length])
  then show ?case using Cons by simp
qed simp



text \<open>
  The empty key is not a key: \<open>SetKeyValue\<close> ignores it, yet on every map with a free entry
  \<open>GetValueForKey\<close> and \<open>RemoveKey\<close> report it as present.
\<close>

lemma dictionary_empty_key:
  assumes "nm_inv KS VS es" and "GetCount es < length es"
  shows "snd (SetKeyValue KS VS es (Some []) (Some v)) = es \<and> GetValueForKey KS es (Some []) \<noteq> None \<and>
    fst (RemoveKey KS es (Some []))"
proof -
  note inv = nm_invD [OF assms(1)]
  have "nm_room es \<noteq> 0" using GetCount_card(2) [OF assms(1)] assms(2) by linarith
  then have "[] \<in> ck ` set es" using first_inactive_spec [OF inv(3,1)] by (metis imageI nth_mem)
  moreover have "ok_string KS []" using inv(1) by (simp add: ok_string_def)
  ultimately show ?thesis
    using GetEntryIndex_spec [OF inv(3), of "[]"]
    by (auto simp: SetKeyValue_def GetValueForKey_def RemoveKey_def RemoveAtIndex_def)
qed

lemma dictionary_empty_key_witness:
  "GetValueForKey 2 (NonAllocatingMap 2 2 1) (Some []) \<noteq> None \<and> fst (RemoveKey 2 (NonAllocatingMap 2 2 1) (Some []))"
  using dictionary_empty_key [OF NonAllocatingMap_init(1), of 2 2 1]
  by (simp add: GetCount_def NonAllocatingMap_def is_active_def)

end
