(* ===== verification/Minidump_File_Writer.thy ===== *)
theory Minidump_File_Writer
  imports String_Conversion C_Layout
begin

text \<open>
  \<^verbatim>\<open>client/minidump_file_writer.cc\<close>, \<^verbatim>\<open>minidump_file_writer.h\<close> and \<^verbatim>\<open>minidump_file_writer-inl.h\<close>: the file
  a minidump is written to, its allocation and the objects written into it, as compiled for a 64-bit
  Android target (\<open>size_t\<close> has 64 bits, \<open>MDRVA\<close> has 32).

  The file behind the descriptor is the list of its bytes with an offset. Every system call takes the next
  element of a schedule of outcomes: it works, fails with an error number, or (for \<open>write\<close>) writes only some of the
  bytes; an exhausted schedule means that calls work. Assertions are not compiled.
\<close>

section \<open>The file\<close>

datatype outcome = Works | Fails int | Short nat

record os_file =
  f_content :: bytes
  f_offset :: nat
  f_schedule :: "outcome list"

definition outcome_of :: "os_file \<Rightarrow> outcome" where
  "outcome_of f = (case f_schedule f of [] \<Rightarrow> Works | r # _ \<Rightarrow> r)"

definition consume :: "os_file \<Rightarrow> os_file" where
  "consume f = f\<lparr>f_schedule := tl (f_schedule f)\<rparr>"

text \<open>\<open>ftruncate\<close>: the error number, 0 for success, and the file, cut or extended with zeros.\<close>

definition truncated :: "nat \<Rightarrow> bytes \<Rightarrow> bytes" where
  "truncated n c = take n c @ replicate (n - length c) 0"

definition sys_ftruncate :: "nat \<Rightarrow> os_file \<Rightarrow> int \<times> os_file" where
  "sys_ftruncate n f =
     (case outcome_of f of
        Fails e \<Rightarrow> (if e = 0 then -1 else e, consume f)
      | _ \<Rightarrow> (0, (consume f)\<lparr>f_content := truncated n (f_content f)\<rparr>))"

definition sys_lseek_set :: "nat \<Rightarrow> os_file \<Rightarrow> int \<times> os_file" where
  "sys_lseek_set p f =
     (case outcome_of f of
        Fails e \<Rightarrow> (-1, consume f)
      | _ \<Rightarrow> (int p, (consume f)\<lparr>f_offset := p\<rparr>))"

definition sys_lseek_end :: "os_file \<Rightarrow> int \<times> os_file" where
  "sys_lseek_end f =
     (case outcome_of f of
        Fails e \<Rightarrow> (-1, consume f)
      | _ \<Rightarrow> (int (length (f_content f)), (consume f)\<lparr>f_offset := length (f_content f)\<rparr>))"

definition written :: "bytes \<Rightarrow> nat \<Rightarrow> bytes \<Rightarrow> bytes" where
  "written c p bs = blit (c @ replicate (p + length bs - length c) 0) p bs"

definition sys_write :: "bytes \<Rightarrow> os_file \<Rightarrow> int \<times> os_file" where
  "sys_write bs f =
     (case outcome_of f of
        Fails e \<Rightarrow> (-1, consume f)
      | r \<Rightarrow>
          let n = (case r of Short k \<Rightarrow> min k (length bs) | _ \<Rightarrow> length bs)
          in (int n, (consume f)\<lparr>f_content := written (f_content f) (f_offset f) (take n bs),
                                  f_offset := f_offset f + n\<rparr>))"

definition sys_close :: "os_file \<Rightarrow> int \<times> os_file" where
  "sys_close f = (case outcome_of f of Fails e \<Rightarrow> (-1, consume f) | _ \<Rightarrow> (0, consume f))"

section \<open>MinidumpFileWriter\<close>

text \<open>The two flags of the truncation workaround are globals of the source; they are part of the record.\<close>

record writer =
  w_file :: int
  w_close_file_when_destroyed :: bool
  w_position :: u32
  w_size :: u64
  w_os :: os_file
  w_need_ftruncate_workaround :: bool
  w_checked_need_ftruncate_workaround :: bool

definition kInvalidMDRVA :: u32 where "kInvalidMDRVA = -1"

definition EACCES :: int where "EACCES = 13"

definition CheckNeedsFTruncateWorkAround :: "writer \<Rightarrow> writer" where
  "CheckNeedsFTruncateWorkAround w =
     (if w_checked_need_ftruncate_workaround w then w
      else let w1 = w\<lparr>w_checked_need_ftruncate_workaround := True\<rparr>;
               (off, f) = sys_lseek_end (w_os w1)
           in if off = -1 then w1\<lparr>w_os := f\<rparr>
              else let (err, f') = sys_ftruncate (nat off) f
                   in if err = EACCES then w1\<lparr>w_os := f', w_need_ftruncate_workaround := True\<rparr>
                      else w1\<lparr>w_os := f'\<rparr>)"

definition MinidumpFileWriter :: "os_file \<Rightarrow> bool \<Rightarrow> bool \<Rightarrow> writer" where
  "MinidumpFileWriter os need checked =
     \<lparr>w_file = -1, w_close_file_when_destroyed = True, w_position = 0, w_size = 0, w_os = os,
      w_need_ftruncate_workaround = need, w_checked_need_ftruncate_workaround = checked\<rparr>"

text \<open>\<open>Open\<close>: \<open>fd\<close> is the result of the system call, which creates an empty file.\<close>

definition Open :: "int \<Rightarrow> writer \<Rightarrow> bool \<times> writer" where
  "Open fd w = (fd \<noteq> -1, w\<lparr>w_file := fd\<rparr>)"

definition SetFile :: "int \<Rightarrow> writer \<Rightarrow> writer" where
  "SetFile file w = CheckNeedsFTruncateWorkAround (w\<lparr>w_file := file, w_close_file_when_destroyed := False\<rparr>)"

definition Close :: "writer \<Rightarrow> bool \<times> writer" where
  "Close w =
     (if w_file w \<noteq> -1 then
        let (err, f) = (if \<not> w_need_ftruncate_workaround w then sys_ftruncate (unat (w_position w)) (w_os w)
                        else (0, w_os w))
        in if err \<noteq> 0 then (False, w\<lparr>w_os := f\<rparr>)
           else let (r, f') = sys_close f in (r = 0, w\<lparr>w_file := -1, w_os := f'\<rparr>)
      else (True, w))"

definition Destroy :: "writer \<Rightarrow> writer" where
  "Destroy w = (if w_close_file_when_destroyed w then snd (Close w) else w)"

definition Allocate :: "u64 \<Rightarrow> u64 \<Rightarrow> writer \<Rightarrow> u32 \<times> writer" where
  "Allocate pagesize sz w =
     (if w_need_ftruncate_workaround w
      then (w_position w, w\<lparr>w_size := w_size w + sz, w_position := w_position w + ucast sz\<rparr>)
      else
        let aligned_size = (sz + 7) AND NOT 7;
            (ok, w1) =
              (if w_size w < ucast (w_position w) + aligned_size then
                 let growth = max aligned_size pagesize;
                     new_size = w_size w + growth;
                     (err, f) = sys_ftruncate (unat new_size) (w_os w)
                 in if err \<noteq> 0 then (False, w\<lparr>w_os := f\<rparr>)
                    else (True, w\<lparr>w_os := f, w_size := new_size\<rparr>)
               else (True, w))
        in if \<not> ok then (kInvalidMDRVA, w1)
           else (w_position w1, w1\<lparr>w_position := w_position w1 + ucast aligned_size\<rparr>))"

definition Copy :: "u32 \<Rightarrow> bytes \<Rightarrow> writer \<Rightarrow> bool \<times> writer" where
  "Copy position src w =
     (if w_size w < of_nat (length src) + ucast position then (False, w)
      else let (p, f) = sys_lseek_set (unat position) (w_os w)
           in if p = int (unat position) then
                let (n, f') = sys_write src f
                in (n = int (length src), w\<lparr>w_os := f'\<rparr>)
              else (False, w\<lparr>w_os := f\<rparr>))"

section \<open>Objects in the file\<close>

text \<open>\<open>UntypedMDRVA\<close>, and \<open>MDLocationDescriptor\<close>.\<close>

record mdrva =
  m_position :: u32
  m_size :: u64

record location =
  l_data_size :: u32
  l_rva :: u32

definition location_of :: "mdrva \<Rightarrow> location" where
  "location_of m = \<lparr>l_data_size = ucast (m_size m), l_rva = m_position m\<rparr>"

definition Untyped_Allocate :: "u64 \<Rightarrow> u64 \<Rightarrow> writer \<Rightarrow> bool \<times> mdrva \<times> writer" where
  "Untyped_Allocate pagesize sz w =
     (let (p, w') = Allocate pagesize sz w
      in (p \<noteq> kInvalidMDRVA, \<lparr>m_position = p, m_size = sz\<rparr>, w'))"

text \<open>
  \<open>TypedMDRVA\<close>: \<open>tsize\<close> is \<open>minidump_size<MDType>::size ()\<close>, \<open>data\<close> the bytes of the object \<open>data_\<close>.
\<close>

definition Typed_Allocate :: "u64 \<Rightarrow> nat \<Rightarrow> u64 \<Rightarrow> writer \<Rightarrow> bool \<times> mdrva \<times> writer" where
  "Typed_Allocate pagesize tsize additional = Untyped_Allocate pagesize (of_nat tsize + additional)"

definition AllocateArray :: "u64 \<Rightarrow> nat \<Rightarrow> u64 \<Rightarrow> writer \<Rightarrow> bool \<times> mdrva \<times> writer" where
  "AllocateArray pagesize tsize count = Untyped_Allocate pagesize (of_nat tsize * count)"

definition AllocateObjectAndArray :: "u64 \<Rightarrow> nat \<Rightarrow> u64 \<Rightarrow> u64 \<Rightarrow> writer \<Rightarrow> bool \<times> mdrva \<times> writer" where
  "AllocateObjectAndArray pagesize tsize count len = Untyped_Allocate pagesize (of_nat tsize + count * len)"

definition CopyIndex :: "nat \<Rightarrow> mdrva \<Rightarrow> u32 \<Rightarrow> bytes \<Rightarrow> writer \<Rightarrow> bool \<times> writer" where
  "CopyIndex tsize m index item =
     Copy (ucast (ucast (m_position m) + ucast index * of_nat tsize :: u64)) item"

definition CopyIndexAfterObject :: "nat \<Rightarrow> mdrva \<Rightarrow> u32 \<Rightarrow> bytes \<Rightarrow> writer \<Rightarrow> bool \<times> writer" where
  "CopyIndexAfterObject tsize m index src =
     Copy (ucast (ucast (m_position m) + of_nat tsize + ucast index * of_nat (length src) :: u64)) src"

definition Flush :: "mdrva \<Rightarrow> bytes \<Rightarrow> writer \<Rightarrow> bool \<times> writer" where
  "Flush m data = Copy (m_position m) data"

section \<open>Memory and strings\<close>

text \<open>
  \<open>WriteMemory\<close>: \<open>src\<close> are the bytes at the address \<open>addr\<close>; the result is the \<open>MDMemoryDescriptor\<close>, a start address and a location.
\<close>

definition WriteMemory :: "u64 \<Rightarrow> u64 \<Rightarrow> bytes \<Rightarrow> writer \<Rightarrow> (u64 \<times> location) option \<times> writer" where
  "WriteMemory pagesize addr src w =
     (let (ok, mem, w1) = Untyped_Allocate pagesize (of_nat (length src)) w
      in if \<not> ok then (None, w1)
         else let (copied, w2) = Copy (m_position mem) src w1
              in if \<not> copied then (None, w2) else (Some (addr, location_of mem), w2))"

text \<open>The bytes of UTF-16 units in memory, little endian.\<close>

definition unit_bytes :: "UTF16 list \<Rightarrow> bytes" where
  "unit_bytes us = concat (map (\<lambda>u. [ucast u, ucast (drop_bit 8 u)]) us)"

definition MDString_size :: nat where "MDString_size = 4"

text \<open>
  \<open>CopyStringToMDString\<close> for \<open>char\<close>: \<open>str\<close> is what is left of the string, of \<open>length\<close> characters.
\<close>

function CopyStringToMDString :: "bytes \<Rightarrow> nat \<Rightarrow> mdrva \<Rightarrow> writer \<Rightarrow> bool \<times> writer" where
  "CopyStringToMDString str out_idx m w =
     (if str = [] then (True, w)
      else case UTF8ToUTF16Char str (int (length str)) of
             None \<Rightarrow> (False, w)
           | Some (count, out) \<Rightarrow>
               if count = 0 then (False, w)
               else let out_count = (if out ! 1 \<noteq> 0 then 2 else 1);
                        (ok, w') = CopyIndexAfterObject MDString_size m (of_nat out_idx) (unit_bytes (take out_count out)) w
                    in if ok then CopyStringToMDString (drop count str) (out_idx + out_count) m w'
                       else (False, w'))"
  by pat_completeness auto
termination
  by (relation "measure (\<lambda>(str, out_idx, m, w). length str)") auto

declare CopyStringToMDString.simps [simp del]

text \<open>
  The same for \<open>wchar_t\<close>, which has 32 bits here.
\<close>

fun CopyWStringToMDString :: "UTF32 list \<Rightarrow> nat \<Rightarrow> mdrva \<Rightarrow> writer \<Rightarrow> bool \<times> writer" where
  "CopyWStringToMDString [] out_idx m w = (True, w)"
| "CopyWStringToMDString (ch # str) out_idx m w =
     (case UTF32ToUTF16Char ch of
        None \<Rightarrow> (False, w)
      | Some out \<Rightarrow>
          if out ! 0 = 0 then (False, w)
          else let out_count = (if out ! 1 \<noteq> 0 then 2 else 1);
                   (ok, w') = CopyIndexAfterObject MDString_size m (of_nat out_idx) (unit_bytes (take out_count out)) w
               in if ok then CopyWStringToMDString str (out_idx + out_count) m w'
                  else (False, w'))"

text \<open>
  \<open>WriteStringCore\<close>, with \<open>str\<close> the characters before the NUL and \<open>copy\<close> the copy function for its character type. The destructor of \<open>mdstring\<close> writes the
  length of the string on every way out of the function.
\<close>

definition INT_MAX :: nat where "INT_MAX = 2 ^ 31 - 1"

definition WriteStringCore ::
  "('c list \<Rightarrow> nat \<Rightarrow> mdrva \<Rightarrow> writer \<Rightarrow> bool \<times> writer) \<Rightarrow> u64 \<Rightarrow> 'c list \<Rightarrow> nat \<Rightarrow> writer \<Rightarrow> location option \<times> writer" where
  "WriteStringCore copy pagesize str len w =
     (let limit = (if len = 0 then INT_MAX else len);
          mdstring_length = min (length str) limit;
          (ok, m, w1) = AllocateObjectAndArray pagesize MDString_size (of_nat (mdstring_length + 1)) 2 w
      in if \<not> ok then (None, snd (Flush m (le_int 4 0) w1))
         else
           let data = le_int 4 (mdstring_length * 2);
               (copied, w2) = copy (take mdstring_length str) 0 m w1;
               (result, w3) =
                 (if copied then CopyIndexAfterObject MDString_size m (of_nat mdstring_length) (unit_bytes [0]) w2
                  else (False, w2));
               w4 = snd (Flush m data w3)
           in (if result then Some (location_of m) else None, w4))"

definition WriteString :: "u64 \<Rightarrow> bytes \<Rightarrow> nat \<Rightarrow> writer \<Rightarrow> location option \<times> writer" where
  "WriteString = WriteStringCore CopyStringToMDString"

definition WriteWString :: "u64 \<Rightarrow> UTF32 list \<Rightarrow> nat \<Rightarrow> writer \<Rightarrow> location option \<times> writer" where
  "WriteWString = WriteStringCore CopyWStringToMDString"

section \<open>Words as numbers\<close>

definition aligned8 :: "nat \<Rightarrow> nat" where
  "aligned8 n = (n + 7) div 8 * 8"

lemma aligned8_bounds: "n \<le> aligned8 n" "aligned8 n < n + 8" "8 dvd aligned8 n"
  unfolding aligned8_def by presburger+

lemma and_not_7: "(x :: u64) AND NOT 7 = push_bit 3 (drop_bit 3 x)"
proof -
  have "(7 :: u64) = mask 3" by (simp add: mask_eq_exp_minus_1)
  show ?thesis unfolding \<open>7 = mask 3\<close> by (rule bit_word_eqI) (auto simp: bit_simps)
qed

lemma unat_aligned:
  assumes "unat (sz :: u64) + 7 < 2 ^ 64"
  shows "unat ((sz + 7) AND NOT 7) = aligned8 (unat sz)"
proof -
  have s: "unat (sz + 7) = unat sz + 7" using assms by (simp add: unat_plus_if')
  have "unat (sz + 7) div 8 * 8 < 2 ^ 64"
    unfolding s by (rule le_less_trans [OF div_times_less_eq_dividend assms])
  then have "unat (push_bit 3 (drop_bit 3 (sz + 7))) = unat (sz + 7) div 8 * 8"
    by (simp add: push_bit_eq_mult drop_bit_eq_div unat_word_ariths(2) unat_div)
  also have "\<dots> = aligned8 (unat sz)" by (simp add: s aligned8_def)
  finally show ?thesis by (simp only: and_not_7)
qed

lemma unat_add_small: "unat (a :: 'a::len word) + unat b < 2 ^ LENGTH('a) \<Longrightarrow> unat (a + b) = unat a + unat b"
  by (simp add: unat_plus_if')

lemma unat_of_nat_small: "n < 2 ^ 64 \<Longrightarrow> unat (of_nat n :: u64) = n"
  by (simp add: unsigned_of_nat take_bit_nat_eq_self_iff)

lemma unat_of_nat_small32: "n < 2 ^ 32 \<Longrightarrow> unat (of_nat n :: u32) = n"
  by (simp add: unsigned_of_nat take_bit_nat_eq_self_iff)

lemma unat_ucast_32_64 [simp]: "unat (ucast (p :: u32) :: u64) = unat p"
  by (simp add: unsigned_ucast_eq take_bit_nat_eq_self_iff less_trans [OF unsigned_less])

lemma unat_ucast_64_32: "unat (p :: u64) < 2 ^ 32 \<Longrightarrow> unat (ucast p :: u32) = unat p"
  by (simp add: unsigned_ucast_eq take_bit_nat_eq_self_iff)

lemma ucast_of_nat_down: "(ucast (of_nat n :: u64) :: u32) = of_nat n"
  by (rule bit_word_eqI) (simp add: bit_simps)

lemma ucast_of_nat_up: "n < 2 ^ 32 \<Longrightarrow> (ucast (of_nat n :: u32) :: u64) = of_nat n"
  by (simp add: word_unat_eq_iff unsigned_of_nat take_bit_nat_eq_self)

section \<open>The image of the file\<close>

text \<open>
  The abstract view of a writer is the image of the file up to the current position, with zeros where nothing was
  written yet. Allocation appends zeros to it and a copy overwrites a part of it.
\<close>

lemma length_truncated [simp]: "length (truncated n c) = n"
  by (simp add: truncated_def)

lemma nth_truncated: "i < n \<Longrightarrow> truncated n c ! i = (if i < length c then c ! i else 0)"
  by (auto simp: truncated_def nth_append)

lemma length_written: "length (written c p bs) = max (length c) (p + length bs)"
  by (simp add: written_def)

lemma nth_written:
  "i < length (written c p bs) \<Longrightarrow>
   written c p bs ! i = (if p \<le> i \<and> i < p + length bs then bs ! (i - p) else if i < length c then c ! i else 0)"
  unfolding length_written by (auto simp: written_def nth_blit nth_append)

definition w_image :: "writer \<Rightarrow> bytes" where
  "w_image w = truncated (unat (w_position w)) (f_content (w_os w))"

lemma length_image [simp]: "length (w_image w) = unat (w_position w)"
  by (simp add: w_image_def)

definition winv :: "u64 \<Rightarrow> writer \<Rightarrow> bool" where
  "winv pagesize w \<longleftrightarrow> 0 < unat pagesize \<and> unat pagesize < 2 ^ 32 \<and>
     (let c = f_content (w_os w); p = unat (w_position w)
      in if w_need_ftruncate_workaround w then length c \<le> p \<and> unat (w_size w) = p
         else length c = unat (w_size w) \<and> p \<le> unat (w_size w) \<and> unat (w_size w) \<le> p + unat pagesize \<and>
           (\<forall>i<length c. p \<le> i \<longrightarrow> c ! i = 0))"

text \<open>No system call will fail.\<close>

definition calm :: "writer \<Rightarrow> bool" where
  "calm w \<longleftrightarrow> f_schedule (w_os w) = []"

definition alloc_size :: "writer \<Rightarrow> nat \<Rightarrow> nat" where
  "alloc_size w n = (if w_need_ftruncate_workaround w then n else aligned8 n)"

lemma calm_calls:
  assumes "f_schedule f = []"
  shows "sys_ftruncate n f = (0, f\<lparr>f_content := truncated n (f_content f)\<rparr>)"
    and "sys_lseek_set p f = (int p, f\<lparr>f_offset := p\<rparr>)"
    and "sys_lseek_end f = (int (length (f_content f)), f\<lparr>f_offset := length (f_content f)\<rparr>)"
    and "sys_write bs f = (int (length bs), f\<lparr>f_content := written (f_content f) (f_offset f) bs, f_offset := f_offset f + length bs\<rparr>)"
    and "sys_close f = (0, f)"
  using assms
  by (cases f; simp add: sys_ftruncate_def sys_lseek_set_def sys_lseek_end_def sys_write_def sys_close_def
      outcome_of_def consume_def Let_def)+

lemma winvD:
  assumes "winv pg w"
  shows "length (f_content (w_os w)) \<le> unat (w_size w)" "unat (w_position w) \<le> unat (w_size w)"
    "unat (w_size w) \<le> unat (w_position w) + unat pg" "0 < unat pg" "unat pg < 2 ^ 32"
    "\<And>i. i < length (f_content (w_os w)) \<Longrightarrow> unat (w_position w) \<le> i \<Longrightarrow> f_content (w_os w) ! i = 0"
    "\<not> w_need_ftruncate_workaround w \<Longrightarrow> length (f_content (w_os w)) = unat (w_size w)"
    "w_need_ftruncate_workaround w \<Longrightarrow> unat (w_size w) = unat (w_position w) \<and> length (f_content (w_os w)) \<le> unat (w_position w)"
  using assms by (auto simp: winv_def Let_def split: if_splits)

text \<open>What an allocation does to the image, in one step.\<close>

lemma truncated_grow:
  assumes "\<And>i. i < length c \<Longrightarrow> n \<le> i \<Longrightarrow> c ! i = 0"
  shows "truncated (n + a) (c @ replicate k 0) = truncated n c @ replicate a 0"
  using assms by (intro nth_equalityI) (auto simp: nth_truncated nth_append)

lemma truncated_extends: "length c \<le> n \<Longrightarrow> truncated n c = c @ replicate (n - length c) 0"
  by (simp add: truncated_def)

lemma Allocate_workaround:
  assumes "winv pg w" and "w_need_ftruncate_workaround w" and "unat (w_position w) + unat sz < 2 ^ 32"
  shows "\<exists>w'. Allocate pg sz w = (w_position w, w') \<and> unat (w_position w') = unat (w_position w) + unat sz \<and>
    unat (w_size w') = unat (w_position w) + unat sz \<and> w_os w' = w_os w \<and> w_need_ftruncate_workaround w' \<and> w_file w' = w_file w"
proof -
  have "unat (ucast sz :: u32) = unat sz" using assms(3) by (intro unat_ucast_64_32) simp
  then have "unat (w_position w + ucast sz) = unat (w_position w) + unat sz"
    using assms(3) by (simp add: unat_add_small)
  moreover have "unat (w_size w + sz) = unat (w_position w) + unat sz"
    using winvD(8) [OF assms(1,2)] assms(3) by (simp add: unat_add_small)
  ultimately show ?thesis using assms(2) by (simp add: Allocate_def)
qed

lemma Allocate_normal:
  assumes inv: "winv pg w" and "calm w" and nw: "\<not> w_need_ftruncate_workaround w"
    and fits: "unat (w_position w) + aligned8 (unat sz) < 2 ^ 32"
  shows "\<exists>k w'. Allocate pg sz w = (w_position w, w') \<and>
    unat (w_position w') = unat (w_position w) + aligned8 (unat sz) \<and> unat (w_size w') = unat (w_size w) + k \<and>
    unat (w_position w') \<le> unat (w_size w') \<and> unat (w_size w') \<le> unat (w_position w') + unat pg \<and>
    w_os w' = (w_os w)\<lparr>f_content := f_content (w_os w) @ replicate k 0\<rparr> \<and>
    \<not> w_need_ftruncate_workaround w' \<and> w_file w' = w_file w"
proof -
  note D = winvD [OF inv]
  define a where "a = (sz + 7) AND NOT 7"
  have "unat sz < 2 ^ 32" using aligned8_bounds(1) [of "unat sz"] fits by linarith
  then have a: "unat a = aligned8 (unat sz)" unfolding a_def by (intro unat_aligned) simp
  have ua: "unat (ucast a :: u32) = aligned8 (unat sz)" using fits a by (subst unat_ucast_64_32) auto
  have sum: "unat (ucast (w_position w) + a) = unat (w_position w) + aligned8 (unat sz)"
    using fits a by (subst unat_add_small) auto
  have p': "unat (w_position w + ucast a) = unat (w_position w) + aligned8 (unat sz)"
    using fits ua by (subst unat_add_small) auto
  have len: "length (f_content (w_os w)) = unat (w_size w)" by (rule D(7) [OF nw])
  show ?thesis
  proof (cases "w_size w < ucast (w_position w) + a")
    case True
    let ?g = "max a pg"
    have lt: "unat (w_size w) < unat (w_position w) + aligned8 (unat sz)" using True sum by (simp add: word_less_nat_alt)
    have g: "unat ?g = max (aligned8 (unat sz)) (unat pg)" by (simp add: max_def word_le_nat_alt a)
    have ns: "unat (w_size w + ?g) = unat (w_size w) + max (aligned8 (unat sz)) (unat pg)"
      using g D(5) fits lt by (subst unat_add_small) auto
    have "Allocate pg sz w = (w_position w, w\<lparr>w_os := (w_os w)\<lparr>f_content := truncated (unat (w_size w + ?g)) (f_content (w_os w))\<rparr>,
        w_size := w_size w + ?g, w_position := w_position w + ucast a\<rparr>)"
      using True nw assms(2) by (simp only: Allocate_def Let_def a_def [symmetric] calm_def calm_calls prod.case if_True if_False simp_thms) simp
    moreover have "truncated (unat (w_size w + ?g)) (f_content (w_os w)) =
        f_content (w_os w) @ replicate (max (aligned8 (unat sz)) (unat pg)) 0"
      using len ns by (simp add: truncated_extends)
    ultimately show ?thesis
      using p' ns lt D(2,3) nw by (intro exI [of _ "max (aligned8 (unat sz)) (unat pg)"]) auto
  next
    case False
    have "Allocate pg sz w = (w_position w, w\<lparr>w_position := w_position w + ucast a\<rparr>)"
      using False nw by (simp only: Allocate_def Let_def a_def [symmetric] prod.case if_True if_False simp_thms)
    then show ?thesis
      using p' False sum D(2,3) nw by (intro exI [of _ 0]) (auto simp: word_less_nat_alt not_less)
  qed
qed

lemma Allocate_refines:
  assumes inv: "winv pg w" and calm: "calm w" and sz: "0 < unat sz"
    and fits: "unat (w_position w) + alloc_size w (unat sz) < 2 ^ 32"
  shows "\<exists>w'. Allocate pg sz w = (w_position w, w') \<and> w_position w \<noteq> kInvalidMDRVA \<and> winv pg w' \<and> calm w' \<and>
    w_image w' = w_image w @ replicate (alloc_size w (unat sz)) 0 \<and>
    w_need_ftruncate_workaround w' = w_need_ftruncate_workaround w \<and> w_file w' = w_file w"
proof -
  note D = winvD [OF inv]
  have "0 < alloc_size w (unat sz)" using sz aligned8_bounds(1) [of "unat sz"] by (simp add: alloc_size_def)
  then have nk: "w_position w \<noteq> kInvalidMDRVA" using fits by (auto simp: kInvalidMDRVA_def unsigned_minus_1_eq_mask mask_eq_exp_minus_1)
  show ?thesis
  proof (cases "w_need_ftruncate_workaround w")
    case True
    then obtain w' where w': "Allocate pg sz w = (w_position w, w')" "unat (w_position w') = unat (w_position w) + unat sz"
      "unat (w_size w') = unat (w_position w) + unat sz" "w_os w' = w_os w" "w_need_ftruncate_workaround w'" "w_file w' = w_file w"
      using Allocate_workaround [OF inv True, of sz] fits by (auto simp: alloc_size_def)
    have "w_image w' = w_image w @ replicate (alloc_size w (unat sz)) 0"
      using truncated_grow [of "f_content (w_os w)" "unat (w_position w)" "unat sz" 0] D(6) True w'(2,4)
      by (simp add: w_image_def alloc_size_def)
    then show ?thesis using w' nk D(4,5,8) calm True by (auto simp: winv_def Let_def calm_def)
  next
    case False
    then obtain k w' where w': "Allocate pg sz w = (w_position w, w')"
      "unat (w_position w') = unat (w_position w) + aligned8 (unat sz)" "unat (w_size w') = unat (w_size w) + k"
      "unat (w_position w') \<le> unat (w_size w')" "unat (w_size w') \<le> unat (w_position w') + unat pg"
      "w_os w' = (w_os w)\<lparr>f_content := f_content (w_os w) @ replicate k 0\<rparr>" "\<not> w_need_ftruncate_workaround w'" "w_file w' = w_file w"
      using Allocate_normal [OF inv calm False, of sz] fits by (auto simp: alloc_size_def)
    have "w_image w' = w_image w @ replicate (alloc_size w (unat sz)) 0"
      using truncated_grow [of "f_content (w_os w)" "unat (w_position w)" "aligned8 (unat sz)" k] D(6) False w'(2,6)
      by (simp add: w_image_def alloc_size_def)
    moreover have "winv pg w'" using w' D(4,5,6) D(7) [OF False] by (auto simp: winv_def Let_def nth_append)
    ultimately show ?thesis using w' nk calm False by (auto simp: calm_def)
  qed
qed

text \<open>A copy inside the image overwrites a part of it.\<close>

lemma truncated_written:
  assumes "p + length bs \<le> n"
  shows "truncated n (written c p bs) = blit (truncated n c) p bs"
  using assms
  by (intro nth_equalityI) (auto simp: nth_truncated nth_blit nth_written length_written)

lemma Copy_content:
  assumes "calm w" and "unat p + length bs \<le> unat (w_size w)"
  shows "Copy p bs w = (True, w\<lparr>w_os := (w_os w)\<lparr>f_content := written (f_content (w_os w)) (unat p) bs,
    f_offset := unat p + length bs\<rparr>\<rparr>)"
proof -
  have lt: "unat p + length bs < 2 ^ 64" using assms(2) unsigned_less [of "w_size w", where ?'a = nat] by simp
  then have "unat (of_nat (length bs) :: u64) = length bs" by (intro unat_of_nat_small) simp
  then have "unat (of_nat (length bs) + ucast p :: u64) = length bs + unat p"
    using lt by (subst unat_add_small) auto
  then have "\<not> w_size w < of_nat (length bs) + ucast p"
    using assms(2) by (simp add: word_less_nat_alt not_less)
  then show ?thesis using assms(1) by (simp add: Copy_def calm_def calm_calls)
qed

lemma Copy_refines:
  assumes inv: "winv pg w" and calm: "calm w" and fits: "unat p + length bs \<le> unat (w_position w)"
  shows "\<exists>w'. Copy p bs w = (True, w') \<and> winv pg w' \<and> calm w' \<and> w_image w' = blit (w_image w) (unat p) bs \<and>
    w_position w' = w_position w \<and> w_size w' = w_size w \<and>
    w_need_ftruncate_workaround w' = w_need_ftruncate_workaround w \<and> w_file w' = w_file w"
proof -
  note D = winvD [OF inv]
  let ?c = "f_content (w_os w)"
  have cp: "Copy p bs w = (True, w\<lparr>w_os := (w_os w)\<lparr>f_content := written ?c (unat p) bs, f_offset := unat p + length bs\<rparr>\<rparr>)"
    using Copy_content [OF calm, of p bs] fits D(2) by simp
  moreover have "w_image (w\<lparr>w_os := (w_os w)\<lparr>f_content := written ?c (unat p) bs, f_offset := unat p + length bs\<rparr>\<rparr>)
      = blit (w_image w) (unat p) bs"
    using fits by (simp add: w_image_def truncated_written)
  moreover have "winv pg (w\<lparr>w_os := (w_os w)\<lparr>f_content := written ?c (unat p) bs, f_offset := unat p + length bs\<rparr>\<rparr>)"
  proof (cases "w_need_ftruncate_workaround w")
    case True
    then show ?thesis using D(4,5,8) fits by (simp add: winv_def Let_def length_written)
  next
    case False
    then have "length (written ?c (unat p) bs) = unat (w_size w)"
      using D(7) D(2) fits by (simp add: length_written)
    then show ?thesis
      using False D(2-7) fits by (simp add: winv_def Let_def) (auto simp: nth_written)
  qed
  ultimately show ?thesis using calm by (simp add: calm_def)
qed

lemma Close_image:
  assumes inv: "winv pg w" and calm: "calm w" and fd: "w_file w \<noteq> -1"
  shows "\<exists>w'. Close w = (True, w') \<and> w_file w' = -1 \<and>
    w_image w = truncated (unat (w_position w)) (f_content (w_os w')) \<and>
    (if w_need_ftruncate_workaround w then length (f_content (w_os w')) \<le> unat (w_position w)
     else f_content (w_os w') = w_image w)"
  using calm fd winvD(8) [OF inv]
  by (auto simp: Close_def calm_def calm_calls w_image_def nth_truncated intro!: nth_equalityI)

section \<open>Blocks and strings append to the image\<close>

lemma blit_blit: "a + length ys + length zs \<le> length xs \<Longrightarrow> blit (blit xs a ys) (a + length ys) zs = blit xs a (ys @ zs)"
  by (intro nth_equalityI) (auto simp: nth_blit nth_append)

lemma blit_append_zeros:
  assumes "length bs \<le> a"
  shows "blit (xs @ replicate a z) (length xs) bs = xs @ bs @ replicate (a - length bs) z"
  using assms by (simp add: blit_def)

definition padded :: "writer \<Rightarrow> bytes \<Rightarrow> bytes" where
  "padded w bs = bs @ replicate (alloc_size w (length bs) - length bs) 0"

lemma length_padded [simp]: "length (padded w bs) = alloc_size w (length bs)"
  using aligned8_bounds(1) [of "length bs"] by (simp add: padded_def alloc_size_def)

lemma alloc_size_ge: "n \<le> alloc_size w n"
  using aligned8_bounds(1) [of n] by (simp add: alloc_size_def)

definition same_mode :: "writer \<Rightarrow> writer \<Rightarrow> bool" where
  "same_mode w w' \<longleftrightarrow> w_need_ftruncate_workaround w' = w_need_ftruncate_workaround w \<and> w_file w' = w_file w"

lemma same_mode_size: "same_mode w w' \<Longrightarrow> alloc_size w' = alloc_size w" "same_mode w w' \<Longrightarrow> padded w' = padded w"
  by (auto simp: same_mode_def alloc_size_def padded_def fun_eq_iff)

lemma same_mode_trans: "same_mode w w' \<Longrightarrow> same_mode w' w'' \<Longrightarrow> same_mode w w''"
  by (simp add: same_mode_def)

text \<open>Allocating an object, for a size given as a number.\<close>

lemma Untyped_Allocate_refines:
  assumes "winv pg w" and "calm w" and "unat sz = n" and "0 < n" and "unat (w_position w) + alloc_size w n < 2 ^ 32"
  shows "\<exists>w'. Untyped_Allocate pg sz w = (True, \<lparr>m_position = w_position w, m_size = sz\<rparr>, w') \<and>
    winv pg w' \<and> calm w' \<and> same_mode w w' \<and> w_image w' = w_image w @ replicate (alloc_size w n) 0 \<and>
    unat (w_position w') = unat (w_position w) + alloc_size w n"
proof -
  have "0 < unat sz" "unat (w_position w) + alloc_size w (unat sz) < 2 ^ 32" using assms(3-5) by simp_all
  then obtain w' where w': "Allocate pg sz w = (w_position w, w')" "w_position w \<noteq> kInvalidMDRVA" "winv pg w'" "calm w'"
    "w_image w' = w_image w @ replicate (alloc_size w (unat sz)) 0"
    "w_need_ftruncate_workaround w' = w_need_ftruncate_workaround w" "w_file w' = w_file w"
    using Allocate_refines [OF assms(1,2)] by blast
  have "unat (w_position w') = unat (w_position w) + alloc_size w (unat sz)"
    using arg_cong [OF w'(5), of length] by simp
  then show ?thesis using w' assms(3) by (simp add: Untyped_Allocate_def same_mode_def)
qed

lemma WriteMemory_refines:
  assumes "winv pg w" and "calm w" and "src \<noteq> []" and "unat (w_position w) + alloc_size w (length src) < 2 ^ 32"
  shows "\<exists>w'. WriteMemory pg addr src w = (Some (addr, \<lparr>l_data_size = of_nat (length src), l_rva = w_position w\<rparr>), w') \<and>
    winv pg w' \<and> calm w' \<and> same_mode w w' \<and> w_image w' = w_image w @ padded w src"
proof -
  have len: "length src < 2 ^ 32" using assms(4) alloc_size_ge [of "length src" w] by linarith
  then have u: "unat (of_nat (length src) :: u64) = length src" by (intro unat_of_nat_small) simp
  obtain w1 where w1: "Untyped_Allocate pg (of_nat (length src)) w = (True, \<lparr>m_position = w_position w, m_size = of_nat (length src)\<rparr>, w1)"
    "winv pg w1" "calm w1" "same_mode w w1" "w_image w1 = w_image w @ replicate (alloc_size w (length src)) 0"
    "unat (w_position w1) = unat (w_position w) + alloc_size w (length src)"
    using Untyped_Allocate_refines [OF assms(1,2) u _ assms(4)] assms(3) by auto
  obtain w2 where w2: "Copy (w_position w) src w1 = (True, w2)" "winv pg w2" "calm w2"
    "w_image w2 = blit (w_image w1) (unat (w_position w)) src" "same_mode w1 w2"
    using Copy_refines [OF w1(2,3), of "w_position w" src] w1(6) alloc_size_ge [of "length src" w] by (auto simp: same_mode_def)
  have "w_image w2 = w_image w @ padded w src"
    using blit_append_zeros [OF alloc_size_ge, of "w_image w" w src 0] by (simp add: w2(4) w1(5) padded_def)
  then show ?thesis using w1 w2 same_mode_trans [OF w1(4) w2(5)] by (simp add: WriteMemory_def location_of_def ucast_of_nat_down)
qed

lemma length_unit_bytes [simp]: "length (unit_bytes us) = 2 * length us"
  by (induction us) (simp_all add: unit_bytes_def)

lemma unit_bytes_append [simp]: "unit_bytes (us @ vs) = unit_bytes us @ unit_bytes vs"
  by (simp add: unit_bytes_def)

lemma CopyIndexAfterObject_pos:
  assumes "unat (m_position m) + tsize + idx * length src < 2 ^ 32" and "src \<noteq> []"
  shows "CopyIndexAfterObject tsize m (of_nat idx) src w =
    Copy (of_nat (unat (m_position m) + tsize + idx * length src)) src w"
proof -
  have "idx \<le> idx * length src" using assms(2) by (cases src) auto
  then have "idx < 2 ^ 32" using assms(1) by linarith
  then have "ucast (m_position m) + of_nat tsize + ucast (of_nat idx :: u32) * of_nat (length src) =
      (of_nat (unat (m_position m) + tsize + idx * length src) :: u64)"
    by (simp add: ucast_of_nat_up of_nat_unat)
  then show ?thesis by (simp only: CopyIndexAfterObject_def ucast_of_nat_down)
qed

lemma CopyIndexAfterObject_refines:
  assumes inv: "winv pg w" "calm w" and src: "src \<noteq> []"
    and fits: "unat (m_position m) + tsize + idx * length src + length src \<le> unat (w_position w)"
  shows "\<exists>w'. CopyIndexAfterObject tsize m (of_nat idx) src w = (True, w') \<and> winv pg w' \<and> calm w' \<and> same_mode w w' \<and>
    w_position w' = w_position w \<and> w_size w' = w_size w \<and>
    w_image w' = blit (w_image w) (unat (m_position m) + tsize + idx * length src) src"
proof -
  let ?p = "unat (m_position m) + tsize + idx * length src"
  have lt: "?p < 2 ^ 32" using fits unsigned_less [of "w_position w", where ?'a = nat] src by (cases src) auto
  then have "unat (of_nat ?p :: u32) = ?p" by (rule unat_of_nat_small32)
  then show ?thesis
    using Copy_refines [OF inv, of "of_nat ?p" src] CopyIndexAfterObject_pos [OF lt src] fits by (auto simp: same_mode_def)
qed

text \<open>Characters of the basic plane: every one is written after the one before.\<close>

lemma out_pair_bmp:
  assumes "c \<le> 0xFFFF" and "c \<noteq> 0"
  shows "out_pair (utf16_units c) = [ucast c, 0]"
  using assms by (simp add: out_pair_def utf16_units_def uni_defs)

lemma CopyString_prefix:
  assumes "winv pg w" and "calm w" and "list_all (\<lambda>c. scalar c \<and> c \<noteq> 0 \<and> c \<le> 0xFFFF) cs"
    and "unat (m_position m) + MDString_size + 2 * idx + 2 * length cs \<le> unat (w_position w)"
  shows "\<exists>w'. CopyStringToMDString (concat (map utf8_units cs) @ rest) idx m w = CopyStringToMDString rest (idx + length cs) m w' \<and>
    winv pg w' \<and> calm w' \<and> same_mode w w' \<and> w_position w' = w_position w \<and> w_size w' = w_size w \<and>
    w_image w' = blit (w_image w) (unat (m_position m) + MDString_size + 2 * idx) (unit_bytes (map ucast cs))"
  using assms
proof (induction cs arbitrary: idx w)
  case Nil
  have "unat (m_position m) + MDString_size + 2 * idx \<le> unat (w_position w)" using Nil(4) by simp
  then show ?case using Nil by (intro exI [of _ w]) (simp add: unit_bytes_def same_mode_def)
next
  case (Cons c cs)
  let ?str = "utf8_units c @ concat (map utf8_units cs) @ rest"
  have c: "scalar c" "c \<noteq> 0" "c \<le> 0xFFFF" using Cons.prems(3) by auto
  have pos: "utf8_units c \<noteq> []" using length_utf8_units [OF c(1)] by (auto simp: utf8_len_def split: if_splits)
  have ch: "UTF8ToUTF16Char ?str (int (length ?str)) = Some (length (utf8_units c), [ucast c, 0])"
    using UTF8ToUTF16Char_scalar [OF c(1)] out_pair_bmp [OF c(3,2)] by simp
  let ?bs = "unit_bytes [ucast c]"
  have bs: "length ?bs = 2" "?bs \<noteq> []" by (simp_all add: unit_bytes_def)
  obtain w1 where w1: "CopyIndexAfterObject MDString_size m (of_nat idx) ?bs w = (True, w1)" "winv pg w1" "calm w1"
    "same_mode w w1" "w_position w1 = w_position w" "w_size w1 = w_size w"
    "w_image w1 = blit (w_image w) (unat (m_position m) + MDString_size + 2 * idx) ?bs"
    using CopyIndexAfterObject_refines [OF Cons.prems(1,2) bs(2), of m MDString_size idx] Cons.prems(4) bs(1)
    by (auto simp: mult.commute)
  obtain w2 where w2: "CopyStringToMDString (concat (map utf8_units cs) @ rest) (idx + 1) m w1 =
      CopyStringToMDString rest (idx + 1 + length cs) m w2"
    "winv pg w2" "calm w2" "same_mode w1 w2" "w_position w2 = w_position w1" "w_size w2 = w_size w1"
    "w_image w2 = blit (w_image w1) (unat (m_position m) + MDString_size + 2 * (idx + 1)) (unit_bytes (map ucast cs))"
    using Cons.IH [OF w1(2,3), of "idx + 1"] Cons.prems(3,4) w1(5) by auto
  have "w_image w2 = blit (w_image w) (unat (m_position m) + MDString_size + 2 * idx) (?bs @ unit_bytes (map ucast cs))"
    using blit_blit [of "unat (m_position m) + MDString_size + 2 * idx" ?bs "unit_bytes (map ucast cs)" "w_image w"]
      w2(7) w1(7) bs(1) Cons.prems(4) by simp
  then have "w_image w2 = blit (w_image w) (unat (m_position m) + MDString_size + 2 * idx) (unit_bytes (map ucast (c # cs)))"
    by (simp add: unit_bytes_def)
  moreover have "CopyStringToMDString ?str idx m w = CopyStringToMDString rest (idx + length (c # cs)) m w2"
    using pos ch w1(1) w2(1) by (subst CopyStringToMDString.simps) (simp add: Let_def)
  ultimately show ?case using w2 w1(4-6) same_mode_trans [OF w1(4) w2(4)] by auto
qed

definition mdstring_bytes :: "UTF32 list \<Rightarrow> bytes" where
  "mdstring_bytes cs =
     (let n = length (concat (map utf8_units cs))
      in le_int 4 (n * 2) @ unit_bytes (map ucast cs) @ replicate (2 * (n - length cs)) 0 @ [0, 0])"

lemma length_le_utf8: "list_all scalar cs \<Longrightarrow> length cs \<le> length (concat (map utf8_units cs))"
proof (induction cs)
  case (Cons c cs)
  have "0 < length (utf8_units c)" using Cons.prems by (simp add: length_utf8_units utf8_len_def)
  then show ?case using Cons by (cases "utf8_units c") auto
qed simp

lemma length_mdstring_bytes:
  "list_all scalar cs \<Longrightarrow> length (mdstring_bytes cs) = 4 + 2 * (length (concat (map utf8_units cs)) + 1)"
  using length_le_utf8 [of cs] by (simp add: mdstring_bytes_def Let_def)

lemma blit_same: "take (length ys) (drop a xs) = ys \<Longrightarrow> blit xs a ys = xs"
  by (metis add.commute append_take_drop_id blit_def drop_drop)

text \<open>The four writes of a string, on the image.\<close>

lemma mdstring_blits:
  fixes img U L :: bytes
  assumes "length L = 4" and "length U \<le> 2 * n" and "4 + 2 * (n + 1) \<le> A"
  shows "blit (blit (blit (img @ replicate A 0) (length img + 4) U) (length img + 4 + 2 * n) [0, 0]) (length img) L
    = img @ L @ U @ replicate (A - 4 - length U) 0"
proof -
  have "replicate A (0 :: u8) = replicate 4 0 @ replicate (A - 4) 0"
    using assms(3) by (simp flip: replicate_add)
  then have w2: "blit (img @ replicate A 0) (length img + 4) U = img @ replicate 4 0 @ U @ replicate (A - 4 - length U) 0"
    using assms by (simp add: blit_def)
  have "blit (img @ replicate 4 0 @ U @ replicate (A - 4 - length U) 0) (length img + 4 + 2 * n) [0, 0]
      = img @ replicate 4 0 @ U @ replicate (A - 4 - length U) 0"
  proof (rule blit_same)
    have z: "[0, 0 :: u8] = replicate 2 0" by (simp add: numeral_2_eq_2)
    show "take (length [0, 0 :: u8]) (drop (length img + 4 + 2 * n) (img @ replicate 4 0 @ U @ replicate (A - 4 - length U) 0)) = [0, 0]"
      unfolding z using assms by simp
  qed
  then show ?thesis using assms unfolding w2 by (simp add: blit_def)
qed

lemma WriteString_refines:
  assumes inv: "winv pg w" "calm w" and cs: "list_all (\<lambda>c. scalar c \<and> c \<noteq> 0 \<and> c \<le> 0xFFFF) cs"
    and s: "s = concat (map utf8_units cs)" and n: "length s \<le> INT_MAX"
    and fits: "unat (w_position w) + alloc_size w (length (mdstring_bytes cs)) < 2 ^ 32"
  shows "\<exists>w'. WriteString pg s 0 w =
      (Some \<lparr>l_data_size = of_nat (length (mdstring_bytes cs)), l_rva = w_position w\<rparr>, w') \<and>
    winv pg w' \<and> calm w' \<and> same_mode w w' \<and> w_image w' = w_image w @ padded w (mdstring_bytes cs)"
proof -
  let ?n = "length s" and ?p = "unat (w_position w)"
  let ?m = "\<lparr>m_position = w_position w, m_size = of_nat 4 + of_nat (?n + 1) * 2\<rparr>"
  let ?L = "le_int 4 (?n * 2)" and ?U = "unit_bytes (map ucast cs)" and ?A = "alloc_size w (4 + 2 * (?n + 1))"
  have sc: "list_all scalar cs" using cs by (auto simp: list_all_iff)
  note lm = length_mdstring_bytes [OF sc, folded s]
  have lc: "length cs \<le> ?n" using length_le_utf8 [OF sc] s by simp
  have A: "4 + 2 * (?n + 1) \<le> ?A" by (rule alloc_size_ge)
  have szw: "(of_nat 4 + of_nat (?n + 1) * 2 :: u64) = of_nat (4 + 2 * (?n + 1))" by (simp add: algebra_simps)
  have sz: "unat (of_nat 4 + of_nat (?n + 1) * 2 :: u64) = 4 + 2 * (?n + 1)"
    unfolding szw using n by (intro unat_of_nat_small) (simp add: INT_MAX_def)
  obtain w1 where w1: "Untyped_Allocate pg (of_nat 4 + of_nat (?n + 1) * 2) w = (True, ?m, w1)" "winv pg w1" "calm w1" "same_mode w w1"
    "w_image w1 = w_image w @ replicate ?A 0" "unat (w_position w1) = ?p + ?A"
    using Untyped_Allocate_refines [OF inv sz] fits lm by auto
  have f1: "?p + MDString_size + 2 * 0 + 2 * length cs \<le> unat (w_position w1)" using w1(6) A lc by (simp add: MDString_size_def)
  obtain w2 where w2: "CopyStringToMDString s 0 ?m w1 = (True, w2)" "winv pg w2" "calm w2" "same_mode w1 w2"
    "w_position w2 = w_position w1" "w_image w2 = blit (w_image w1) (?p + 4) ?U"
    using CopyString_prefix [OF w1(2,3) cs, of ?m 0 "[]"] f1 s
    by (auto simp: MDString_size_def CopyStringToMDString.simps [of "[]"])
  have z: "unit_bytes [0] = [0, 0]" by (simp add: unit_bytes_def)
  obtain w3 where w3: "CopyIndexAfterObject MDString_size ?m (of_nat ?n) [0, 0] w2 = (True, w3)" "winv pg w3" "calm w3" "same_mode w2 w3"
    "w_position w3 = w_position w2" "w_image w3 = blit (w_image w2) (?p + 4 + 2 * ?n) [0, 0]"
    using CopyIndexAfterObject_refines [OF w2(2,3), of "[0, 0]" ?m MDString_size ?n] w1(6) w2(5) A by (auto simp: MDString_size_def algebra_simps)
  obtain w4 where w4: "Copy (w_position w) ?L w3 = (True, w4)" "winv pg w4" "calm w4" "same_mode w3 w4"
    "w_image w4 = blit (w_image w3) ?p ?L"
    using Copy_refines [OF w3(2,3), of "w_position w" ?L] w1(6) w2(5) w3(5) A by (auto simp: same_mode_def)
  have "w_image w4 = w_image w @ ?L @ ?U @ replicate (?A - 4 - length ?U) 0"
    using mdstring_blits [of ?L ?U ?n ?A "w_image w"] A lc by (simp add: w4(5) w3(6) w2(6) w1(5))
  moreover have "replicate (2 * (?n - length cs)) 0 @ [0, 0 :: u8] @ replicate (?A - (4 + 2 * (?n + 1))) 0 = replicate (?A - 4 - length ?U) 0"
  proof -
    have "[0, 0 :: u8] = replicate 2 0" by (simp add: numeral_2_eq_2)
    moreover have "2 * (?n - length cs) + (2 + (?A - (4 + 2 * (?n + 1)))) = ?A - 4 - length ?U" using A lc by simp
    ultimately show ?thesis by (simp only: replicate_add [symmetric])
  qed
  moreover have "padded w (mdstring_bytes cs) =
      ?L @ ?U @ replicate (2 * (?n - length cs)) 0 @ [0, 0] @ replicate (?A - (4 + 2 * (?n + 1))) 0"
    by (simp only: padded_def lm) (simp only: mdstring_bytes_def Let_def s append_assoc)
  ultimately have "w_image w4 = w_image w @ padded w (mdstring_bytes cs)" by simp
  moreover have "WriteString pg s 0 w = (Some (location_of ?m), w4)"
    using w1(1) w2(1) w3(1) w4(1) n z
    by (simp add: WriteString_def WriteStringCore_def AllocateObjectAndArray_def MDString_size_def Flush_def Let_def)
  moreover have "same_mode w w4" using w1(4) w2(4) w3(4) w4(4) same_mode_trans by blast
  ultimately show ?thesis
    using w4 lm szw by (simp add: location_of_def ucast_of_nat_down del: of_nat_add of_nat_mult)
qed

section \<open>A file is what was written to it\<close>

datatype item = Block u64 bytes | Text "UTF32 list"

fun item_bytes :: "item \<Rightarrow> bytes" where
  "item_bytes (Block addr bs) = bs"
| "item_bytes (Text cs) = mdstring_bytes cs"

fun item_ok :: "item \<Rightarrow> bool" where
  "item_ok (Block addr bs) \<longleftrightarrow> bs \<noteq> []"
| "item_ok (Text cs) \<longleftrightarrow> list_all (\<lambda>c. scalar c \<and> c \<noteq> 0 \<and> c \<le> 0xFFFF) cs \<and> length (concat (map utf8_units cs)) \<le> INT_MAX"

fun write_item :: "u64 \<Rightarrow> item \<Rightarrow> writer \<Rightarrow> location option \<times> writer" where
  "write_item pg (Block addr bs) w = (let (d, w') = WriteMemory pg addr bs w in (map_option snd d, w'))"
| "write_item pg (Text cs) w = WriteString pg (concat (map utf8_units cs)) 0 w"

fun write_items :: "u64 \<Rightarrow> item list \<Rightarrow> writer \<Rightarrow> location option list \<times> writer" where
  "write_items pg [] w = ([], w)"
| "write_items pg (it # its) w =
     (let (l, w1) = write_item pg it w; (ls, w2) = write_items pg its w1 in (l # ls, w2))"

fun locations :: "writer \<Rightarrow> nat \<Rightarrow> item list \<Rightarrow> location list" where
  "locations w p [] = []"
| "locations w p (it # its) =
     \<lparr>l_data_size = of_nat (length (item_bytes it)), l_rva = of_nat p\<rparr>
       # locations w (p + alloc_size w (length (item_bytes it))) its"

lemma write_item_refines:
  assumes "winv pg w" and "calm w" and "item_ok it" and "unat (w_position w) + alloc_size w (length (item_bytes it)) < 2 ^ 32"
  shows "\<exists>w'. write_item pg it w = (Some \<lparr>l_data_size = of_nat (length (item_bytes it)), l_rva = w_position w\<rparr>, w') \<and>
    winv pg w' \<and> calm w' \<and> same_mode w w' \<and> w_image w' = w_image w @ padded w (item_bytes it)"
proof (cases it)
  case (Block addr bs)
  then obtain w' where "WriteMemory pg addr bs w = (Some (addr, \<lparr>l_data_size = of_nat (length bs), l_rva = w_position w\<rparr>), w')"
    "winv pg w'" "calm w'" "same_mode w w'" "w_image w' = w_image w @ padded w bs"
    using WriteMemory_refines [OF assms(1,2), of bs addr] assms(3,4) by auto
  then show ?thesis by (simp add: Block)
next
  case (Text cs)
  then show ?thesis using WriteString_refines [OF assms(1,2)] assms(3,4) by auto
qed

lemma locations_mode: "same_mode w w' \<Longrightarrow> locations w' p its = locations w p its"
  by (induction its arbitrary: p) (auto simp: same_mode_size(1) [of w w'])

lemma write_items_refine:
  assumes "winv pg w" and "calm w" and "list_all item_ok its"
    and "unat (w_position w) + sum_list (map (\<lambda>it. alloc_size w (length (item_bytes it))) its) < 2 ^ 32"
  shows "\<exists>w'. write_items pg its w = (map Some (locations w (unat (w_position w)) its), w') \<and>
    winv pg w' \<and> calm w' \<and> same_mode w w' \<and> w_image w' = w_image w @ concat (map (\<lambda>it. padded w (item_bytes it)) its)"
  using assms
proof (induction its arbitrary: w)
  case Nil
  then show ?case by (simp add: same_mode_def)
next
  case (Cons it its)
  obtain w1 where w1: "write_item pg it w = (Some \<lparr>l_data_size = of_nat (length (item_bytes it)), l_rva = w_position w\<rparr>, w1)"
    "winv pg w1" "calm w1" "same_mode w w1" "w_image w1 = w_image w @ padded w (item_bytes it)"
    using write_item_refines [OF Cons.prems(1,2), of it] Cons.prems(3,4) by auto
  have p1: "unat (w_position w1) = unat (w_position w) + alloc_size w (length (item_bytes it))"
    using arg_cong [OF w1(5), of length] by simp
  note sz = same_mode_size [OF w1(4)]
  obtain w2 where w2: "write_items pg its w1 = (map Some (locations w1 (unat (w_position w1)) its), w2)" "winv pg w2" "calm w2"
    "same_mode w1 w2" "w_image w2 = w_image w1 @ concat (map (\<lambda>it. padded w1 (item_bytes it)) its)"
    using Cons.IH [OF w1(2,3)] Cons.prems(3,4) p1 sz by (auto simp: add.assoc)
  then show ?case
    using w1 p1 sz same_mode_trans [OF w1(4) w2(4)] locations_mode [OF w1(4)] by (auto simp: of_nat_unat)
qed

definition new_file :: os_file where
  "new_file = \<lparr>f_content = [], f_offset = 0, f_schedule = []\<rparr>"

lemma new_writer:
  assumes "0 < unat pg" and "unat pg < 2 ^ 32" and "w = snd (Open fd (MinidumpFileWriter new_file need checked))"
  shows "winv pg w" "calm w" "w_image w = []" "w_position w = 0" "w_file w = fd" "w_need_ftruncate_workaround w = need"
  using assms
  by (simp_all add: Open_def MinidumpFileWriter_def new_file_def winv_def Let_def calm_def w_image_def truncated_def)

text \<open>
  C1. What is written to a minidump file is what the file holds. A new writer on an empty file, with or without the
  truncation workaround, is given any sequence of blocks and strings of the basic plane that
  stays below 4 GiB. Every write succeeds and returns the size and the position of its data; the positions are
  consecutive (multiples of 8 without the workaround); and after \<open>Close\<close> the file is the concatenation
  of the data, each filled up with zeros to its allocation.
\<close>

theorem MinidumpFileWriter_log:
  assumes "0 < unat pg" and "unat pg < 2 ^ 32" and "fd \<noteq> -1"
    and "w = snd (Open fd (MinidumpFileWriter new_file need checked))"
    and "list_all item_ok its" and "sum_list (map (\<lambda>it. alloc_size w (length (item_bytes it))) its) < 2 ^ 32"
    and "write_items pg its w = (ls, w1)" and "Close w1 = (closed, w2)"
    and "img = concat (map (\<lambda>it. padded w (item_bytes it)) its)"
  shows "ls = map Some (locations w 0 its) \<and> closed \<and> w_file w2 = -1 \<and> unat (w_position w1) = length img \<and>
    truncated (length img) (f_content (w_os w2)) = img \<and> length (f_content (w_os w2)) \<le> length img \<and>
    (\<not> need \<longrightarrow> f_content (w_os w2) = img)"
proof -
  note nw = new_writer [OF assms(1,2,4)]
  obtain w' where w': "write_items pg its w = (map Some (locations w 0 its), w')" "winv pg w'" "calm w'" "same_mode w w'"
    "w_image w' = img"
    using write_items_refine [OF nw(1,2) assms(5)] assms(6,9) nw(3,4) by auto
  have "w1 = w'" "w_file w' \<noteq> -1" "w_need_ftruncate_workaround w' = need"
    using w'(1,4) assms(3,7) nw(5,6) by (auto simp: same_mode_def)
  then obtain c where c: "Close w1 = (True, c)" "w_file c = -1"
    "img = truncated (unat (w_position w')) (f_content (w_os c))"
    "if need then length (f_content (w_os c)) \<le> unat (w_position w') else f_content (w_os c) = img"
    using Close_image [OF w'(2,3)] w'(5) by auto
  have "c = w2" "closed" "ls = map Some (locations w 0 its)" "w1 = w'" using c(1) assms(7,8) w'(1) by auto
  moreover have len: "unat (w_position w') = length img" using length_image [of w'] w'(5) by simp
  moreover have "truncated (length img) (f_content (w_os c)) = img" using c(3) unfolding len by (rule sym)
  ultimately show ?thesis using c(2,4) by (cases need) simp_all
qed

theorem MinidumpFileWriter_log_witness:
  "\<exists>w1 w2. write_items 4096 [Block 0x1000 [1, 2, 3], Text [0x41]] (snd (Open 3 (MinidumpFileWriter new_file False True))) =
       ([Some \<lparr>l_data_size = 3, l_rva = 0\<rparr>, Some \<lparr>l_data_size = 8, l_rva = 8\<rparr>], w1) \<and>
     Close w1 = (True, w2) \<and> f_content (w_os w2) = [1, 2, 3, 0, 0, 0, 0, 0, 2, 0, 0, 0, 0x41, 0, 0, 0]"
proof -
  let ?w = "snd (Open 3 (MinidumpFileWriter new_file False True))" and ?its = "[Block 0x1000 [1, 2, 3], Text [0x41]]"
  obtain ls w1 closed w2 where r: "write_items 4096 ?its ?w = (ls, w1)" "Close w1 = (closed, w2)"
    by (meson surj_pair)
  have u: "utf8_units 0x41 = [0x41]" by (simp add: utf8_units_def utf8_len_def utf8_bytes_eq(1) [simplified])
  have al: "alloc_size ?w n = aligned8 n" for n by (simp add: alloc_size_def Open_def MinidumpFileWriter_def)
  have t: "mdstring_bytes [0x41] = [2, 0, 0, 0, 0x41, 0, 0, 0]" by (simp add: mdstring_bytes_def u unit_bytes_def)
  have ok: "list_all item_ok ?its" by (simp add: scalar_def u INT_MAX_def)
  have z: "replicate 5 (0 :: u8) = [0, 0, 0, 0, 0]" by (simp add: numeral_eq_Suc)
  have img: "concat (map (\<lambda>it. padded ?w (item_bytes it)) ?its) = [1, 2, 3, 0, 0, 0, 0, 0, 2, 0, 0, 0, 0x41, 0, 0, 0]"
    by (simp add: padded_def al aligned8_def t z)
  have loc: "locations ?w 0 ?its = [\<lparr>l_data_size = 3, l_rva = 0\<rparr>, \<lparr>l_data_size = 8, l_rva = 8\<rparr>]"
    by (simp add: al aligned8_def t)
  have "sum_list (map (\<lambda>it. alloc_size ?w (length (item_bytes it))) ?its) < 2 ^ 32" by (simp add: al aligned8_def t)
  from MinidumpFileWriter_log [OF _ _ _ refl ok this r img [symmetric]] r loc show ?thesis by simp
qed

text \<open>
  C33. Failures are reported and leave no trace in the allocation. For any schedule of outcomes of the system calls:
  a copy that returns true has put exactly its bytes at their position, and one that would pass the end of the file
  returns false and changes nothing; no copy moves the position or the size; an allocation that cannot
  extend the file returns \<open>kInvalidMDRVA\<close> with position, size and contents as before.
\<close>

theorem writer_errors:
  assumes "Copy p bs w = (copied, w1)" and "length bs < 2 ^ 62" and "Allocate pg sz w = (q, w2)" and "w_position w \<noteq> kInvalidMDRVA"
  shows "(copied \<longrightarrow> unat p + length bs \<le> unat (w_size w) \<and> f_content (w_os w1) = written (f_content (w_os w)) (unat p) bs) \<and>
    (unat (w_size w) < unat p + length bs \<longrightarrow> \<not> copied \<and> w1 = w) \<and>
    w_position w1 = w_position w \<and> w_size w1 = w_size w \<and>
    (q = kInvalidMDRVA \<longrightarrow> w_position w2 = w_position w \<and> w_size w2 = w_size w \<and> f_content (w_os w2) = f_content (w_os w))"
proof -
  have "unat (of_nat (length bs) :: u64) = length bs" using assms(2) by (intro unat_of_nat_small) simp
  then have sum: "unat (of_nat (length bs) + ucast p :: u64) = length bs + unat p"
    using assms(2) unsigned_less [of p, where ?'a = nat] by (subst unat_add_small) auto
  have pre: "w_size w < of_nat (length bs) + ucast p \<longleftrightarrow> unat (w_size w) < unat p + length bs"
    unfolding word_less_nat_alt sum by linarith
  have nn: "- 1 \<noteq> uint p" using unsigned_greater_eq [of p, where ?'a = int] by linarith
  have copy: "(copied \<longrightarrow> f_content (w_os w1) = written (f_content (w_os w)) (unat p) bs) \<and>
    (copied \<longrightarrow> \<not> unat (w_size w) < unat p + length bs) \<and> (unat (w_size w) < unat p + length bs \<longrightarrow> \<not> copied \<and> w1 = w) \<and>
    w_position w1 = w_position w \<and> w_size w1 = w_size w"
    using assms(1) nn
    by (auto simp: Copy_def pre sys_lseek_set_def sys_write_def consume_def Let_def split: if_splits outcome.splits prod.splits)
  have "q = kInvalidMDRVA \<longrightarrow> w_position w2 = w_position w \<and> w_size w2 = w_size w \<and> f_content (w_os w2) = f_content (w_os w)"
    using assms(3,4)
    by (auto simp: Allocate_def sys_ftruncate_def consume_def Let_def split: if_splits outcome.splits prod.splits)
  with copy show ?thesis by (simp add: not_less)
qed

theorem writer_errors_witness:
  "\<exists>w1 w2. Copy 0 [1, 2] ((snd (Open 3 (MinidumpFileWriter new_file False True)))\<lparr>w_os := new_file\<lparr>f_schedule := [Fails 28]\<rparr>\<rparr>) = (False, w1) \<and>
     Allocate 4096 10 ((snd (Open 3 (MinidumpFileWriter new_file False True)))\<lparr>w_os := new_file\<lparr>f_schedule := [Fails 28]\<rparr>\<rparr>) = (kInvalidMDRVA, w2) \<and>
     w_position w2 = 0 \<and> f_content (w_os w2) = []"
proof -
  let ?w = "(snd (Open 3 (MinidumpFileWriter new_file False True)))\<lparr>w_os := new_file\<lparr>f_schedule := [Fails 28]\<rparr>\<rparr>"
  obtain copied w1 q w2 where r: "Copy 0 [1, 2] ?w = (copied, w1)" "Allocate 4096 10 ?w = (q, w2)" by (meson surj_pair)
  have "q = kInvalidMDRVA"
    using r(2) by (auto simp: Allocate_def Open_def MinidumpFileWriter_def new_file_def sys_ftruncate_def outcome_of_def max_def)
  then show ?thesis
    using writer_errors [OF r(1) _ r(2)] r
    by (auto simp: Open_def MinidumpFileWriter_def new_file_def kInvalidMDRVA_def)
qed

section \<open>Characters outside the basic plane\<close>

lemma out_pair_supplementary:
  assumes "scalar c" and "0xFFFF < c"
  shows "out_pair (utf16_units c) = utf16_units c" "length (utf16_units c) = 2" "utf16_units c ! 1 \<noteq> 0"
proof -
  have "0xFFFF < unat c" "unat c \<le> 0x10FFFF" using assms by (auto simp: scalar_def word_le_nat_alt word_less_nat_alt)
  then obtain hi lo where u: "utf16_units c = [hi, lo]" "unat lo = 0xDC00 + (unat c - 0x10000) mod 1024"
    using utf16_units_pair by blast
  then have "lo \<noteq> 0" by auto
  with u show "out_pair (utf16_units c) = utf16_units c" "length (utf16_units c) = 2" "utf16_units c ! 1 \<noteq> 0"
    by (simp_all add: out_pair_def)
qed

lemma length_utf8_supplementary: "scalar c \<Longrightarrow> 0xFFFF < c \<Longrightarrow> length (utf8_units c) = 4"
  by (auto simp: length_utf8_units utf8_len_def word_less_nat_alt)

lemma length_utf8_ascii: "list_all (\<lambda>c. 0 < c \<and> c < 0x80) pre \<Longrightarrow> length (concat (map utf8_units pre)) = length pre"
proof (induction pre)
  case (Cons c pre)
  have "scalar c" using Cons.prems by (auto simp: scalar_def word_less_nat_alt word_le_nat_alt)
  then show ?case using Cons by (simp add: length_utf8_units utf8_len_def)
qed simp

text \<open>One character outside the basic plane, at index \<open>idx\<close> of the string, goes to offset \<open>4 * idx\<close>.\<close>

lemma CopyString_supplementary:
  assumes "calm w" and "scalar c" and "0xFFFF < c"
    and "unat (m_position m) + MDString_size + idx * 4 + 4 \<le> unat (w_size w)"
    and "unat (m_position m) + MDString_size + idx * 4 < 2 ^ 32"
  shows "\<exists>f. CopyStringToMDString (utf8_units c) idx m w = (True, w\<lparr>w_os := f\<rparr>) \<and> f_schedule f = [] \<and>
    f_content f = written (f_content (w_os w)) (unat (m_position m) + MDString_size + idx * 4) (unit_bytes (utf16_units c))"
proof -
  let ?p = "unat (m_position m) + MDString_size + idx * 4" and ?bs = "unit_bytes (utf16_units c)"
  note sup = out_pair_supplementary [OF assms(2,3)] and len = length_utf8_supplementary [OF assms(2,3)]
  have bs: "length ?bs = 4" using sup(2) by simp
  then have ne: "?bs \<noteq> []" by (metis list.size(3) zero_neq_numeral)
  have ch: "UTF8ToUTF16Char (utf8_units c) (int (length (utf8_units c))) = Some (4, utf16_units c)"
    using UTF8ToUTF16Char_scalar [OF assms(2), of _ "[]"] sup(1) len by simp
  have lt: "?p < 2 ^ 32" using assms(5) .
  then have ci: "CopyIndexAfterObject MDString_size m (of_nat idx) ?bs w = Copy (of_nat ?p) ?bs w"
    using CopyIndexAfterObject_pos [of m MDString_size idx ?bs w] ne by (simp only: bs simp_thms)
  have "unat (of_nat ?p :: u32) = ?p" using lt by (rule unat_of_nat_small32)
  then have cp: "CopyIndexAfterObject MDString_size m (of_nat idx) ?bs w = (True, w\<lparr>w_os := (w_os w)\<lparr>f_content := written (f_content (w_os w)) ?p ?bs,
      f_offset := ?p + 4\<rparr>\<rparr>)"
    using Copy_content [OF assms(1), of "of_nat ?p" ?bs] assms(4) by (simp only: ci bs)
  have "utf8_units c \<noteq> []" using len by auto
  then have "CopyStringToMDString (utf8_units c) idx m w = (True, w\<lparr>w_os := (w_os w)\<lparr>f_content := written (f_content (w_os w)) ?p ?bs,
      f_offset := ?p + 4\<rparr>\<rparr>)"
    using ch sup cp len by (subst CopyStringToMDString.simps) (simp add: Let_def CopyStringToMDString.simps [of "[]"])
  then show ?thesis using assms(1)
    by (intro exI [of _ "(w_os w)\<lparr>f_content := written (f_content (w_os w)) ?p ?bs, f_offset := ?p + 4\<rparr>"])
      (simp add: calm_def)
qed

lemma Copy_refused:
  assumes "unat (w_size w) < unat p + length bs" and "length bs < 2 ^ 32"
  shows "Copy p bs w = (False, w)"
proof -
  have "unat (of_nat (length bs) :: u64) = length bs" using assms(2) by (intro unat_of_nat_small) simp
  then have "unat (of_nat (length bs) + ucast p :: u64) = length bs + unat p"
    using assms(2) unsigned_less [of p, where ?'a = nat] by (subst unat_add_small) auto
  then show ?thesis using assms(1) by (simp add: Copy_def word_less_nat_alt)
qed

lemma CopyString_supplementary_refused:
  assumes "scalar c" and "0xFFFF < c" and "unat (w_size w) < unat (m_position m) + MDString_size + idx * 4 + 4"
    and "unat (m_position m) + MDString_size + idx * 4 < 2 ^ 32"
  shows "CopyStringToMDString (utf8_units c) idx m w = (False, w)"
proof -
  let ?p = "unat (m_position m) + MDString_size + idx * 4" and ?bs = "unit_bytes (utf16_units c)"
  note sup = out_pair_supplementary [OF assms(1,2)] and len = length_utf8_supplementary [OF assms(1,2)]
  have bs: "length ?bs = 4" using sup(2) by simp
  then have ne: "?bs \<noteq> []" by (metis list.size(3) zero_neq_numeral)
  have ch: "UTF8ToUTF16Char (utf8_units c) (int (length (utf8_units c))) = Some (4, utf16_units c)"
    using UTF8ToUTF16Char_scalar [OF assms(1), of _ "[]"] sup(1) len by simp
  have "unat (of_nat ?p :: u32) = ?p" using assms(4) by (rule unat_of_nat_small32)
  then have "CopyIndexAfterObject MDString_size m (of_nat idx) ?bs w = (False, w)"
    using CopyIndexAfterObject_pos [of m MDString_size idx ?bs w] ne assms(3,4) Copy_refused [of w "of_nat ?p" ?bs] by (simp only: bs simp_thms) simp
  moreover have "utf8_units c \<noteq> []" using len by auto
  ultimately show ?thesis using ch sup len by (subst CopyStringToMDString.simps) (simp add: Let_def)
qed

text \<open>The three copies after the prefix: the pair, the terminating NUL and the length. None of the last two touches the pair.\<close>

lemma supplementary_copies:
  assumes "calm w" and "scalar c" and "0xFFFF < c" and "n \<noteq> 3" and "n \<noteq> 4" and "unat (m_position m) = p" and "p + 4 * n + 32 < 2 ^ 32"
    and "p + 2 * n + 14 \<le> unat (w_size w)" and "p + 4 * n + 8 \<le> unat (w_size w)"
  shows "\<exists>f g h. CopyStringToMDString (utf8_units c) n m w = (True, w\<lparr>w_os := f\<rparr>) \<and>
    CopyIndexAfterObject MDString_size m (of_nat (n + 4)) [0, 0] (w\<lparr>w_os := f\<rparr>) = (True, w\<lparr>w_os := g\<rparr>) \<and>
    Copy (m_position m) (le_int 4 ((n + 4) * 2)) (w\<lparr>w_os := g\<rparr>) = (True, w\<lparr>w_os := h\<rparr>) \<and>
    take 4 (drop (p + 4 + 4 * n) (f_content h)) = unit_bytes (utf16_units c)"
proof -
  let ?k = "n + 4" and ?L = "le_int 4 ((n + 4) * 2)" and ?z = "p + 4 + (n + 4) * 2"
  have pos: "unat (m_position m) + MDString_size + n * 4 = p + 4 + 4 * n" using assms(6) by (simp add: MDString_size_def)
  obtain f where f: "CopyStringToMDString (utf8_units c) n m w = (True, w\<lparr>w_os := f\<rparr>)" "f_schedule f = []"
    "f_content f = written (f_content (w_os w)) (p + 4 + 4 * n) (unit_bytes (utf16_units c))"
    using CopyString_supplementary [OF assms(1-3), of m n] assms(7,9) unfolding pos by auto
  have z: "unat (m_position m) + MDString_size + ?k * length [0, 0 :: u8] = ?z" using assms(6) by (simp add: MDString_size_def)
  have uz: "unat (of_nat ?z :: u32) = ?z" using assms(7) by (intro unat_of_nat_small32) simp
  have "CopyIndexAfterObject MDString_size m (of_nat ?k) [0, 0] v = Copy (of_nat ?z) [0, 0] v" for v
    using CopyIndexAfterObject_pos [of m MDString_size ?k "[0, 0]" v] assms(7) unfolding z by simp
  then obtain g where g: "CopyIndexAfterObject MDString_size m (of_nat ?k) [0, 0] (w\<lparr>w_os := f\<rparr>) = (True, w\<lparr>w_os := g\<rparr>)" "f_schedule g = []"
    "f_content g = written (f_content f) ?z [0, 0]"
    using Copy_content [of "w\<lparr>w_os := f\<rparr>" "of_nat ?z" "[0, 0]"] f(2) assms(8) unfolding uz by (simp add: calm_def)
  obtain h where h: "Copy (m_position m) ?L (w\<lparr>w_os := g\<rparr>) = (True, w\<lparr>w_os := h\<rparr>)" "f_content h = written (f_content g) p ?L"
    using Copy_content [of "w\<lparr>w_os := g\<rparr>" "m_position m" ?L] g(2) assms(6,8) by (simp add: calm_def)
  have "take 4 (drop (p + 4 + 4 * n) (f_content h)) = unit_bytes (utf16_units c)"
    using out_pair_supplementary(2) [OF assms(2,3)] assms(4,5)
    by (intro nth_equalityI) (auto simp: h(2) g(3) f(3) nth_written length_written)
  then show ?thesis using f(1) g(1) h(1) by blast
qed

text \<open>
  C38. A character outside the basic plane is misplaced. \<open>CopyIndexAfterObject\<close> multiplies the index, counted in
  UTF-16 units, by the length of the copy, which is 4 for a surrogate pair. A string of \<open>n\<close> ASCII characters, \<open>n\<close> not 3 or 4, and one character
  outside the basic plane, written at any position of a working file, is allocated \<open>2 * n + 14\<close> bytes. The pair belongs \<open>4 + 2 * n\<close> bytes after the
  start of the string. If the file is large enough, the write is reported as successful but the pair lies \<open>4 + 4 * n\<close> bytes after it, which from
  \<open>n = 5\<close> on is outside the bytes the location names, and for \<open>n = 5\<close> and from \<open>n = 7\<close> on at or after the position where the next object will be placed.
  If the file is not large enough, the write fails. (For \<open>n\<close> 3 or 4 the terminating NUL is written over a half of the pair.)
\<close>

theorem WriteString_supplementary_escapes:
  assumes "winv pg w" and "calm w" and "list_all (\<lambda>a. 0 < a \<and> a < 0x80) pre" and "scalar c" and "0xFFFF < c"
    and "n = length pre" and "n \<noteq> 3" and "n \<noteq> 4" and "p = unat (w_position w)" and "p + 4 * n + 32 < 2 ^ 32"
    and "WriteString pg (concat (map utf8_units pre) @ utf8_units c) 0 w = (r, w')"
  shows "unat (w_position w') = p + alloc_size w (2 * n + 14) \<and>
    w_size w' = w_size (snd (Allocate pg (of_nat (2 * n + 14)) w)) \<and>
    (if p + 4 * n + 8 \<le> unat (w_size w')
     then r = Some \<lparr>l_data_size = of_nat (2 * n + 14), l_rva = w_position w\<rparr> \<and>
       take 4 (drop (p + 4 + 4 * n) (f_content (w_os w'))) = unit_bytes (utf16_units c) \<and>
       (5 \<le> n \<longrightarrow> p + (2 * n + 14) \<le> p + 4 + 4 * n) \<and> (n = 5 \<or> 7 \<le> n \<longrightarrow> unat (w_position w') \<le> p + 4 + 4 * n)
     else r = None)"
proof -
  let ?s = "concat (map utf8_units pre) @ utf8_units c" and ?k = "n + 4" and ?A = "alloc_size w (2 * n + 14)"
  let ?m = "\<lparr>m_position = w_position w, m_size = of_nat 4 + of_nat (?k + 1) * 2\<rparr>" and ?L = "le_int 4 (?k * 2)"
  have len: "length ?s = ?k" using length_utf8_ascii [OF assms(3)] length_utf8_supplementary [OF assms(4,5)] assms(6) by simp
  have A: "2 * n + 14 \<le> ?A" "?A < 2 * n + 22" using aligned8_bounds(1,2) [of "2 * n + 14"] by (auto simp: alloc_size_def)
  have szw: "(of_nat 4 + of_nat (?k + 1) * 2 :: u64) = of_nat (2 * n + 14)" by (simp add: algebra_simps)
  have sz: "unat (of_nat 4 + of_nat (?k + 1) * 2 :: u64) = 2 * n + 14" unfolding szw using assms(10) by (intro unat_of_nat_small) simp
  obtain w1 where w1: "Untyped_Allocate pg (of_nat 4 + of_nat (?k + 1) * 2) w = (True, ?m, w1)" "winv pg w1" "calm w1"
    "unat (w_position w1) = p + ?A"
    using Untyped_Allocate_refines [OF assms(1,2) sz] A assms(9,10) by auto
  have al: "snd (Allocate pg (of_nat (2 * n + 14)) w) = w1"
    using w1(1) unfolding szw by (simp add: Untyped_Allocate_def split: prod.splits)
  have loc: "location_of ?m = \<lparr>l_data_size = of_nat (2 * n + 14), l_rva = w_position w\<rparr>"
    by (simp only: location_of_def mdrva.simps szw ucast_of_nat_down)
  have bmp: "list_all (\<lambda>a. scalar a \<and> a \<noteq> 0 \<and> a \<le> 0xFFFF) pre"
    using assms(3) by (auto simp: list_all_iff scalar_def word_less_nat_alt word_le_nat_alt)
  obtain w2 where w2: "CopyStringToMDString ?s 0 ?m w1 = CopyStringToMDString (utf8_units c) n ?m w2"
    "calm w2" "w_position w2 = w_position w1" "w_size w2 = w_size w1"
    using CopyString_prefix [OF w1(2,3) bmp, of ?m 0 "utf8_units c"] assms(6,9) w1(4) A by (auto simp: MDString_size_def)
  have room: "p + ?A \<le> unat (w_size w2)" using winvD(2) [OF w1(2)] w1(4) w2(4) by simp
  have pos: "unat (m_position ?m) + MDString_size + n * 4 = p + 4 + 4 * n" using assms(9) by (simp add: MDString_size_def)
  have str: "WriteString pg ?s 0 w = (if fst (CopyStringToMDString (utf8_units c) n ?m w2)
      then let (ok, w3) = CopyIndexAfterObject MDString_size ?m (of_nat ?k) [0, 0] (snd (CopyStringToMDString (utf8_units c) n ?m w2))
        in (if ok then Some (location_of ?m) else None, snd (Copy (w_position w) ?L w3))
      else (None, snd (Copy (w_position w) ?L (snd (CopyStringToMDString (utf8_units c) n ?m w2)))))"
    using w1(1) w2(1) len assms(10)
    by (simp add: WriteString_def WriteStringCore_def AllocateObjectAndArray_def MDString_size_def Flush_def Let_def INT_MAX_def
        unit_bytes_def split: prod.split del: le_int_simps)
  show ?thesis
  proof (cases "p + 4 * n + 8 \<le> unat (w_size w2)")
    case True
    obtain f g h where f: "CopyStringToMDString (utf8_units c) n ?m w2 = (True, w2\<lparr>w_os := f\<rparr>)"
      and g: "CopyIndexAfterObject MDString_size ?m (of_nat ?k) [0, 0] (w2\<lparr>w_os := f\<rparr>) = (True, w2\<lparr>w_os := g\<rparr>)"
      and h: "Copy (m_position ?m) ?L (w2\<lparr>w_os := g\<rparr>) = (True, w2\<lparr>w_os := h\<rparr>)"
        "take 4 (drop (p + 4 + 4 * n) (f_content h)) = unit_bytes (utf16_units c)"
      using supplementary_copies [OF w2(2) assms(4,5,7,8) _ assms(10), of ?m] room A(1) assms(9) True by auto
    have "n = 5 \<or> 7 \<le> n \<longrightarrow> ?A \<le> 4 + 4 * n"
      unfolding alloc_size_def aligned8_def by (cases "w_need_ftruncate_workaround w"; simp; presburger)
    then show ?thesis
      using str [unfolded loc] f g h assms(11) w2(3,4) w1(4) al True by (simp del: of_nat_add of_nat_mult le_int_simps)
  next
    case False
    then have "CopyStringToMDString (utf8_units c) n ?m w2 = (False, w2)"
      using CopyString_supplementary_refused [OF assms(4,5), of w2 ?m n] assms(10) unfolding pos by simp
    moreover have "Copy (w_position w) ?L w2 = (True, w2\<lparr>w_os := (w_os w2)\<lparr>f_content := written (f_content (w_os w2)) p ?L, f_offset := p + 4\<rparr>\<rparr>)"
      using Copy_content [OF w2(2), of "w_position w" ?L] room A(1) assms(9) by simp
    ultimately show ?thesis using str assms(11) w2(3,4) w1(4) al False by auto
  qed
qed

theorem WriteString_supplementary_escapes_witness:
  "\<exists>r w'. WriteString 4096 (concat (map utf8_units [0x61, 0x62, 0x63, 0x64, 0x65]) @ utf8_units 0x1F600) 0
       (snd (Open 3 (MinidumpFileWriter new_file False True))) = (r, w') \<and>
     unat (w_position w') = 24 \<and> w_size w' = 4096 \<and> r = Some \<lparr>l_data_size = 24, l_rva = 0\<rparr> \<and>
     take 4 (drop 24 (f_content (w_os w'))) = [0x3D, 0xD8, 0x00, 0xDE]"
proof -
  let ?w = "snd (Open 3 (MinidumpFileWriter new_file False True))"
  obtain r w' where r: "WriteString 4096 (concat (map utf8_units [0x61, 0x62, 0x63, 0x64, 0x65]) @ utf8_units 0x1F600) 0 ?w = (r, w')"
    by (meson surj_pair)
  have nw: "winv 4096 ?w" "calm ?w" "w_position ?w = 0" "alloc_size ?w 24 = 24"
    using new_writer [of 4096 ?w 3 False True] by (simp_all add: alloc_size_def aligned8_def)
  have s: "scalar 0x1F600" by (simp add: scalar_def)
  have "unit_bytes (utf16_units 0x1F600) = [0x3D, 0xD8, 0x00, 0xDE]"
    by (simp add: unit_bytes_def utf16_units_def uni_defs)
  moreover have "w_size (snd (Allocate 4096 24 ?w)) = 4096"
    by (simp add: Allocate_def Open_def MinidumpFileWriter_def new_file_def sys_ftruncate_def outcome_of_def max_def)
  ultimately show ?thesis
    using WriteString_supplementary_escapes [where n = 5 and p = 0, OF nw(1,2) _ s _ _ _ _ _ _ r] r nw(3,4)
    by (auto split: if_splits)
qed

end
