(* ===== verification/Linux_Dumper.thy ===== *)
theory Linux_Dumper
  imports Libc_Support Line_Reader Exception_Codes
begin

text \<open>
  \<^verbatim>\<open>client/linux/minidump_writer/linux_dumper.cc\<close>: what the dumper learns about the crashed process from
  \<^verbatim>\<open>/proc\<close>, on a 64-bit target.

  A line of \<^verbatim>\<open>/proc/<pid>/maps\<close> is given as the contents of the line reader's buffer from the start of the line: the line, a
  NUL, and whatever follows. \<open>None\<close> is an access outside a buffer. The structures that
  \<open>CopyFromProcess\<close> reads from the process (a virtual function) are given by functions of their address. \<open>sg\<close> is
  the signedness of \<open>char\<close>.
\<close>

section \<open>MappingInfo\<close>

definition NAME_MAX :: nat where "NAME_MAX = 255"
definition PATH_MAX :: nat where "PATH_MAX = 4096"

record mapping_info =
  mi_start_addr :: u64
  mi_size :: u64
  mi_sys_start :: u64
  mi_sys_end :: u64
  mi_offset :: u64
  mi_exec :: bool
  mi_name :: bytes

definition chars :: "string \<Rightarrow> bytes" where
  "chars s = map (\<lambda>c. of_nat (of_char c)) s"

definition kMappedFileUnsafePrefix :: bytes where "kMappedFileUnsafePrefix = chars ''/dev/'' @ [0]"
definition kDeletedSuffix :: bytes where "kDeletedSuffix = chars '' (deleted)'' @ [0]"
definition kLinuxGateLibraryName :: bytes where "kLinuxGateLibraryName = chars ''linux-gate.so'' @ [0]"

definition IsMappedFileOpenUnsafe :: "bool \<Rightarrow> mapping_info \<Rightarrow> bool option" where
  "IsMappedFileOpenUnsafe sg m =
     map_option (\<lambda>r. r = 0) (my_strncmp sg (mi_name m) kMappedFileUnsafePrefix (length kMappedFileUnsafePrefix - 1))"

definition MappingContainsAddress :: "mapping_info \<Rightarrow> u64 \<Rightarrow> bool" where
  "MappingContainsAddress m address \<longleftrightarrow> mi_sys_start m \<le> address \<and> address < mi_sys_end m"

section \<open>The auxiliary vector\<close>

definition AT_NULL :: u64 where "AT_NULL = 0"
definition AT_ENTRY :: nat where "AT_ENTRY = 9"
definition AT_SYSINFO_EHDR :: nat where "AT_SYSINFO_EHDR = 33"
definition AT_MAX :: nat where "AT_MAX = AT_SYSINFO_EHDR"

text \<open>\<open>ReadAuxv\<close>: the entries are those that were read whole; the result is \<open>res\<close> and the vector.\<close>

fun ReadAuxv :: "(u64 \<times> u64) list \<Rightarrow> bool \<Rightarrow> u64 list \<Rightarrow> bool \<times> u64 list" where
  "ReadAuxv [] res auxv = (res, auxv)"
| "ReadAuxv ((a_type, a_val) # es) res auxv =
     (if a_type = AT_NULL then (res, auxv)
      else if a_type \<le> of_nat AT_MAX then ReadAuxv es True (auxv[unat a_type := a_val])
      else ReadAuxv es res auxv)"

section \<open>Mappings\<close>

text \<open>The fields of a line: start, end, offset and the execute bit; \<open>Some None\<close> for a line of another form.\<close>

definition parse_maps_line :: "bytes \<Rightarrow> (u64 \<times> u64 \<times> u64 \<times> bool) option option" where
  "parse_maps_line line =
     do {
       (start_addr, i1) \<leftarrow> my_read_hex_ptr line;
       c1 \<leftarrow> rd line i1;
       if c1 \<noteq> 45 then Some None
       else do {
         (end_addr, n2) \<leftarrow> my_read_hex_ptr (drop (i1 + 1) line);
         let i2 = i1 + 1 + n2;
         c2 \<leftarrow> rd line i2;
         if c2 \<noteq> 32 then Some None
         else do {
           x \<leftarrow> rd line (i2 + 3);
           (offset, n3) \<leftarrow> my_read_hex_ptr (drop (i2 + 6) line);
           c3 \<leftarrow> rd line (i2 + 6 + n3);
           if c3 \<noteq> 32 then Some None
           else Some (Some (start_addr, end_addr, offset, x = 120))
         }
       }
     }"

text \<open>The name of a mapping: a path in the line, or the VDSO image at its known address, which also has offset 0.\<close>

definition mapping_name :: "u64 \<Rightarrow> bytes \<Rightarrow> u64 \<Rightarrow> u64 \<Rightarrow> (bytes option \<times> u64) option" where
  "mapping_name linux_gate_loc line start_addr offset =
     map_option
       (\<lambda>p. case p of
          Some i \<Rightarrow> (Some (drop i line), offset)
        | None \<Rightarrow> if linux_gate_loc \<noteq> 0 \<and> start_addr = linux_gate_loc then (Some kLinuxGateLibraryName, 0)
                  else (None, offset))
       (my_strchr line 47)"

definition mergeable :: "bool \<Rightarrow> bytes option \<Rightarrow> u64 \<Rightarrow> bool \<Rightarrow> mapping_info list \<Rightarrow> bool option" where
  "mergeable sg name start_addr exec mappings =
     (case name of
        None \<Rightarrow> Some False
      | Some nm \<Rightarrow>
          if mappings = [] then Some False
          else
            let module = last mappings
            in if start_addr \<noteq> mi_start_addr module + mi_size module then Some False
               else do {
                 l1 \<leftarrow> my_strlen nm;
                 l2 \<leftarrow> my_strlen (mi_name module);
                 if l1 \<noteq> l2 then Some False
                 else do {
                   c \<leftarrow> my_strncmp sg nm (mi_name module) l1;
                   Some (c = 0 \<and> (exec = mi_exec module \<or> (\<not> mi_exec module \<and> exec)))
                 }
               })"

definition new_mapping :: "u64 \<Rightarrow> u64 \<Rightarrow> u64 \<Rightarrow> bool \<Rightarrow> bytes option \<Rightarrow> mapping_info option" where
  "new_mapping start_addr end_addr offset exec name =
     do {
       nm \<leftarrow> (case name of
                None \<Rightarrow> Some (replicate NAME_MAX 0)
              | Some s \<Rightarrow> do {
                  l \<leftarrow> my_strlen s;
                  Some (if l < NAME_MAX then blit (replicate NAME_MAX 0) 0 (take l s) else replicate NAME_MAX 0)
                });
       Some \<lparr>mi_start_addr = start_addr, mi_size = end_addr - start_addr, mi_sys_start = start_addr, mi_sys_end = end_addr,
             mi_offset = offset, mi_exec = exec, mi_name = nm\<rparr>
     }"

definition add_line :: "bool \<Rightarrow> u64 \<Rightarrow> mapping_info list \<Rightarrow> bytes \<Rightarrow> mapping_info list option" where
  "add_line sg linux_gate_loc mappings line =
     do {
       r \<leftarrow> parse_maps_line line;
       (case r of
          None \<Rightarrow> Some mappings
        | Some (start_addr, end_addr, offset0, exec) \<Rightarrow> do {
            (name, offset) \<leftarrow> mapping_name linux_gate_loc line start_addr offset0;
            mg \<leftarrow> mergeable sg name start_addr exec mappings;
            if mg then
              let module = last mappings
              in Some (butlast mappings @
                   [module\<lparr>mi_sys_end := end_addr, mi_size := end_addr - mi_start_addr module,
                           mi_exec := (mi_exec module \<or> exec)\<rparr>])
            else do {
              m \<leftarrow> new_mapping start_addr end_addr offset exec name;
              Some (mappings @ [m])
            }
          })
     }"

fun add_lines :: "bool \<Rightarrow> u64 \<Rightarrow> mapping_info list \<Rightarrow> bytes list \<Rightarrow> mapping_info list option" where
  "add_lines sg gate mappings [] = Some mappings"
| "add_lines sg gate mappings (line # lines) =
     (case add_line sg gate mappings line of None \<Rightarrow> None | Some ms \<Rightarrow> add_lines sg gate ms lines)"

text \<open>The module with the entry point becomes the first one; the modules before it move up by one.\<close>

definition contains_entry :: "u64 \<Rightarrow> mapping_info \<Rightarrow> bool" where
  "contains_entry entry m \<longleftrightarrow> mi_start_addr m \<le> entry \<and> entry < mi_start_addr m + mi_size m"

fun entry_index :: "u64 \<Rightarrow> mapping_info list \<Rightarrow> nat option" where
  "entry_index entry [] = None"
| "entry_index entry (m # ms) = (if contains_entry entry m then Some 0 else map_option Suc (entry_index entry ms))"

fun shift_up :: "mapping_info list \<Rightarrow> nat \<Rightarrow> mapping_info list" where
  "shift_up ms 0 = ms"
| "shift_up ms (Suc j) = shift_up (ms[Suc j := ms ! j]) j"

definition entry_first :: "u64 \<Rightarrow> mapping_info list \<Rightarrow> mapping_info list" where
  "entry_first entry ms =
     (if entry = 0 then ms
      else case entry_index entry ms of
             None \<Rightarrow> ms
           | Some i \<Rightarrow> (shift_up ms i)[0 := ms ! i])"

text \<open>\<open>maps\<close> are the lines of the maps file, \<open>None\<close> when its path cannot be built or it cannot be opened.\<close>

definition EnumerateMappings :: "bool \<Rightarrow> u64 list \<Rightarrow> bytes list option \<Rightarrow> (bool \<times> mapping_info list) option" where
  "EnumerateMappings sg auxv maps =
     (case maps of
        None \<Rightarrow> Some (False, [])
      | Some lines \<Rightarrow>
          do {
            ms \<leftarrow> add_lines sg (auxv ! AT_SYSINFO_EHDR) [] lines;
            let ms' = entry_first (auxv ! AT_ENTRY) ms;
            Some (ms' \<noteq> [], ms')
          })"

section \<open>Looking up addresses\<close>

fun FindMapping :: "mapping_info list \<Rightarrow> u64 \<Rightarrow> mapping_info option" where
  "FindMapping [] addr = None"
| "FindMapping (m # ms) addr =
     (if mi_start_addr m \<le> addr \<and> addr - mi_start_addr m < mi_size m then Some m else FindMapping ms addr)"

fun FindMappingNoBias :: "mapping_info list \<Rightarrow> u64 \<Rightarrow> mapping_info option" where
  "FindMappingNoBias [] address = None"
| "FindMappingNoBias (m # ms) address =
     (if mi_sys_start m \<le> address \<and> address < mi_sys_end m then Some m else FindMappingNoBias ms address)"

definition kStackToCapture :: int where "kStackToCapture = 32 * 1024"

text \<open>\<open>GetStackInfo\<close>: the start and the length of the stack to copy; \<open>ptrdiff_t\<close> is a signed 64-bit integer.\<close>

definition GetStackInfo :: "u64 \<Rightarrow> mapping_info list \<Rightarrow> u64 \<Rightarrow> (u64 \<times> u64) option" where
  "GetStackInfo page_size ms int_stack_pointer =
     (let stack_pointer = int_stack_pointer AND NOT (page_size - 1)
      in case FindMapping ms stack_pointer of
           None \<Rightarrow> None
         | Some m \<Rightarrow>
             let offset = stack_pointer - mi_start_addr m;
                 distance_to_end = mi_size m - offset
             in Some (stack_pointer,
                      if kStackToCapture < sint distance_to_end then word_of_int kStackToCapture else distance_to_end))"

section \<open>Packed relocations on Android\<close>

record phdr =
  p_type :: u32
  p_vaddr :: u64
  p_memsz :: u64

record ehdr =
  e_type :: u16
  e_phoff :: u64
  e_phnum :: u16

definition PT_LOAD :: u32 where "PT_LOAD = 1"
definition PT_DYNAMIC :: u32 where "PT_DYNAMIC = 2"
definition ET_DYN :: u16 where "ET_DYN = 3"
definition DT_ANDROID_REL :: u64 where "DT_ANDROID_REL = 0x6000000d + 2"
definition DT_ANDROID_RELA :: u64 where "DT_ANDROID_RELA = 0x6000000d + 4"
definition sizeof_Phdr :: u64 where "sizeof_Phdr = 56"
definition sizeof_Dyn :: u64 where "sizeof_Dyn = 16"

fun program_headers :: "(u64 \<Rightarrow> phdr) \<Rightarrow> u64 \<Rightarrow> nat \<Rightarrow> u64 \<times> u64 \<times> u64 \<Rightarrow> u64 \<times> u64 \<times> u64" where
  "program_headers read_phdr phdr_addr 0 acc = acc"
| "program_headers read_phdr phdr_addr (Suc n) (min_vaddr, dyn_vaddr, dyn_count) =
     (let phdr = read_phdr phdr_addr;
          min_vaddr' = (if p_type phdr = PT_LOAD \<and> p_vaddr phdr < min_vaddr then p_vaddr phdr else min_vaddr);
          dyn' = (if p_type phdr = PT_DYNAMIC then (p_vaddr phdr, p_memsz phdr div sizeof_Dyn) else (dyn_vaddr, dyn_count))
      in program_headers read_phdr (phdr_addr + sizeof_Phdr) n (min_vaddr', dyn'))"

definition ParseLoadedElfProgramHeaders :: "(u64 \<Rightarrow> phdr) \<Rightarrow> ehdr \<Rightarrow> u64 \<Rightarrow> u64 \<times> u64 \<times> u64" where
  "ParseLoadedElfProgramHeaders read_phdr eh start_addr =
     program_headers read_phdr (start_addr + e_phoff eh) (unat (e_phnum eh)) (-1, 0, 0)"

fun has_packed_tag :: "(u64 \<Rightarrow> u64) \<Rightarrow> u64 \<Rightarrow> nat \<Rightarrow> bool" where
  "has_packed_tag read_dyn_tag dyn_addr 0 = False"
| "has_packed_tag read_dyn_tag dyn_addr (Suc n) =
     (if read_dyn_tag dyn_addr = DT_ANDROID_REL \<or> read_dyn_tag dyn_addr = DT_ANDROID_RELA then True
      else has_packed_tag read_dyn_tag (dyn_addr + sizeof_Dyn) n)"

definition HasAndroidPackedRelocations :: "(u64 \<Rightarrow> u64) \<Rightarrow> u64 \<Rightarrow> u64 \<Rightarrow> u64 \<Rightarrow> bool" where
  "HasAndroidPackedRelocations read_dyn_tag load_bias dyn_vaddr dyn_count =
     has_packed_tag read_dyn_tag (load_bias + dyn_vaddr) (unat dyn_count)"

definition GetEffectiveLoadBias :: "(u64 \<Rightarrow> phdr) \<Rightarrow> (u64 \<Rightarrow> u64) \<Rightarrow> ehdr \<Rightarrow> u64 \<Rightarrow> u64" where
  "GetEffectiveLoadBias read_phdr read_dyn_tag eh start_addr =
     (let (min_vaddr, dyn_vaddr, dyn_count) = ParseLoadedElfProgramHeaders read_phdr eh start_addr
      in if min_vaddr \<noteq> 0 \<and> HasAndroidPackedRelocations read_dyn_tag (start_addr - min_vaddr) dyn_vaddr dyn_count
         then start_addr - min_vaddr else start_addr)"

text \<open>\<open>read_ehdr\<close> gives the header at an address if it starts with the ELF magic.\<close>

definition postprocess_mapping ::
  "(u64 \<Rightarrow> ehdr option) \<Rightarrow> (u64 \<Rightarrow> phdr) \<Rightarrow> (u64 \<Rightarrow> u64) \<Rightarrow> mapping_info \<Rightarrow> mapping_info" where
  "postprocess_mapping read_ehdr read_phdr read_dyn_tag m =
     (if \<not> (mi_exec m \<and> mi_name m ! 0 = 47) then m
      else case read_ehdr (mi_start_addr m) of
             None \<Rightarrow> m
           | Some eh \<Rightarrow>
               if e_type eh = ET_DYN then
                 let load_bias = GetEffectiveLoadBias read_phdr read_dyn_tag eh (mi_start_addr m)
                 in m\<lparr>mi_size := mi_size m + (mi_start_addr m - load_bias), mi_start_addr := load_bias\<rparr>
               else m)"

definition LatePostprocessMappings ::
  "(u64 \<Rightarrow> ehdr option) \<Rightarrow> (u64 \<Rightarrow> phdr) \<Rightarrow> (u64 \<Rightarrow> u64) \<Rightarrow> mapping_info list \<Rightarrow> mapping_info list" where
  "LatePostprocessMappings read_ehdr read_phdr read_dyn_tag ms = map (postprocess_mapping read_ehdr read_phdr read_dyn_tag) ms"

section \<open>Lines of the maps file\<close>

text \<open>
  The parts of a line as the kernel prints it: the digits of the numbers, the permissions, the device and inode with
  their spaces, and the path.
\<close>

record maps_entry =
  me_start_digits :: bytes
  me_end_digits :: bytes
  me_perms :: bytes
  me_offset_digits :: bytes
  me_device :: bytes
  me_path :: bytes

definition maps_line :: "maps_entry \<Rightarrow> bytes \<Rightarrow> bytes" where
  "maps_line en u = me_start_digits en @ 45 # me_end_digits en @ 32 # me_perms en @ 32 # me_offset_digits en @ 32 #
     me_device en @ me_path en @ 0 # u"

definition is_hex :: "u8 \<Rightarrow> bool" where "is_hex c \<longleftrightarrow> hex_digit c \<noteq> None"

definition entry_wf :: "maps_entry \<Rightarrow> bool" where
  "entry_wf en \<longleftrightarrow> list_all is_hex (me_start_digits en @ me_end_digits en @ me_offset_digits en) \<and>
     length (me_perms en) = 4 \<and> list_all (\<lambda>c. c \<noteq> 0 \<and> c \<noteq> 47) (me_perms en @ me_device en) \<and>
     list_all (\<lambda>c. c \<noteq> 0) (me_path en) \<and> (me_path en \<noteq> [] \<longrightarrow> hd (me_path en) = 47) \<and> length (me_path en) < NAME_MAX"

definition me_start :: "maps_entry \<Rightarrow> u64" where "me_start en = of_nat (hex_val 0 (me_start_digits en))"
definition me_end :: "maps_entry \<Rightarrow> u64" where "me_end en = of_nat (hex_val 0 (me_end_digits en))"
definition me_offset :: "maps_entry \<Rightarrow> u64" where "me_offset en = of_nat (hex_val 0 (me_offset_digits en))"
definition me_exec :: "maps_entry \<Rightarrow> bool" where "me_exec en \<longleftrightarrow> me_perms en ! 2 = 120"

lemma hex_digit_sep [simp]: "hex_digit 45 = None" "hex_digit 32 = None" "hex_digit 47 = None" "hex_digit 0 = None"
  by (simp_all add: hex_digit_def)

lemma is_hex_plain: "is_hex c \<Longrightarrow> c \<noteq> 0 \<and> c \<noteq> 47"
  by (auto simp: is_hex_def)

lemma read_hex_prefix:
  assumes "list_all is_hex hs" and "hex_digit c = None"
  shows "my_read_hex_ptr (hs @ c # t) = Some (of_nat (hex_val 0 hs), length hs)"
proof -
  have "takeWhile (\<lambda>c. hex_digit c \<noteq> None) (hs @ c # t) = hs"
    using assms by (induction hs) (auto simp: is_hex_def)
  moreover have "\<exists>c\<in>set (hs @ c # t). hex_digit c = None" using assms(2) by auto
  ultimately show ?thesis using my_read_hex_ptr_eq by metis
qed

lemma rd_append_length [simp]: "rd (xs @ c # ys) (length xs) = Some c"
  by (simp add: rd_def)

lemma parse_maps_line_entry:
  assumes "entry_wf en"
  shows "parse_maps_line (maps_line en u) = Some (Some (me_start en, me_end en, me_offset en, me_exec en))"
proof -
  obtain a b x d where p: "me_perms en = [a, b, x, d]"
    using assms by (auto simp: entry_wf_def length_Suc_conv numeral_eq_Suc)
  let ?s = "me_start_digits en" and ?e = "me_end_digits en" and ?o = "me_offset_digits en"
  let ?t2 = "a # b # x # d # 32 # ?o @ 32 # me_device en @ me_path en @ 0 # u"
  let ?t3 = "me_device en @ me_path en @ 0 # u"
  have line: "maps_line en u = ?s @ 45 # ?e @ 32 # ?t2" by (simp add: maps_line_def p)
  have hex: "list_all is_hex ?s" "list_all is_hex ?e" "list_all is_hex ?o" using assms by (auto simp: entry_wf_def)
  have r1: "my_read_hex_ptr (maps_line en u) = Some (me_start en, length ?s)"
    unfolding line me_start_def by (rule read_hex_prefix [OF hex(1)]) simp
  have r2: "my_read_hex_ptr (drop (length ?s + 1) (maps_line en u)) = Some (me_end en, length ?e)"
    unfolding line me_end_def using read_hex_prefix [OF hex(2), of 32] by simp
  have d6: "drop (length ?s + 1 + length ?e + 6) (maps_line en u) = ?o @ 32 # ?t3"
  proof -
    have "maps_line en u = (?s @ 45 # ?e @ [32, a, b, x, d, 32]) @ ?o @ 32 # ?t3" by (simp add: line)
    moreover have "length ?s + 1 + length ?e + 6 = length (?s @ 45 # ?e @ [32, a, b, x, d, 32])" by simp
    ultimately show ?thesis by (metis append_eq_conv_conj)
  qed
  have r3: "my_read_hex_ptr (drop (length ?s + 1 + length ?e + 6) (maps_line en u)) = Some (me_offset en, length ?o)"
    unfolding d6 me_offset_def by (rule read_hex_prefix [OF hex(3)]) simp
  have c1: "rd (maps_line en u) (length ?s) = Some 45" by (simp add: line)
  have c2: "rd (maps_line en u) (length ?s + 1 + length ?e) = Some 32" by (simp add: line rd_def nth_append)
  have c3: "rd (maps_line en u) (length ?s + 1 + length ?e + 3) = Some x" by (simp add: line rd_def nth_append)
  have c4: "rd (maps_line en u) (length ?s + 1 + length ?e + 6 + length ?o) = Some 32" by (simp add: line rd_def nth_append)
  show ?thesis
    by (simp only: parse_maps_line_def r1 r2 r3 c1 c2 c3 c4 Option.bind.simps prod.case Let_def if_False if_True simp_thms)
      (simp add: p me_exec_def)
qed

lemma drop_length_diff: "drop (length (a @ b) - length b) (a @ b) = b"
  by simp

lemma path_of_line:
  assumes "entry_wf en"
  shows "my_strchr (maps_line en u) 47 =
      Some (if me_path en = [] then None else Some (length (maps_line en u) - length (me_path en @ 0 # u)))"
    and "drop (length (maps_line en u) - length (me_path en @ 0 # u)) (maps_line en u) = me_path en @ 0 # u"
proof -
  let ?pre = "me_start_digits en @ 45 # me_end_digits en @ 32 # me_perms en @ 32 # me_offset_digits en @ 32 # me_device en"
  have line: "maps_line en u = ?pre @ me_path en @ 0 # u" by (simp add: maps_line_def)
  have pre: "0 \<notin> set ?pre" "47 \<notin> set ?pre"
    using assms is_hex_plain by (auto simp: entry_wf_def list_all_iff)
  have path: "0 \<notin> set (me_path en)" using assms by (auto simp: entry_wf_def list_all_iff)
  have c: "cstr (maps_line en u) = ?pre @ me_path en" "nul_terminated (maps_line en u)"
    using cstr_terminated [of "?pre @ me_path en" u] pre(1) path by (simp_all add: line)
  show "drop (length (maps_line en u) - length (me_path en @ 0 # u)) (maps_line en u) = me_path en @ 0 # u"
    unfolding line by (rule drop_length_diff)
  show "my_strchr (maps_line en u) 47 =
      Some (if me_path en = [] then None else Some (length (maps_line en u) - length (me_path en @ 0 # u)))"
  proof (cases "me_path en")
    case Nil
    then show ?thesis using my_strchr_from_eq [OF c(2), of 47 0] pre(2) by (simp add: my_strchr_def c(1))
  next
    case (Cons a p)
    then have "a = 47" using assms by (simp add: entry_wf_def)
    then have "takeWhile (\<lambda>c. c \<noteq> 47) (?pre @ me_path en) = ?pre"
      using pre(2) Cons by (subst takeWhile_append2) auto
    moreover have "length (maps_line en u) - length (me_path en @ 0 # u) = length ?pre" by (simp add: line)
    ultimately show ?thesis
      using my_strchr_from_eq [OF c(2), of 47 0] Cons \<open>a = 47\<close> by (simp add: my_strchr_def c(1) del: takeWhile_append)
  qed
qed

section \<open>The list of mappings\<close>

definition entry_name :: "u64 \<Rightarrow> maps_entry \<Rightarrow> bytes option" where
  "entry_name gate en =
     (if me_path en \<noteq> [] then Some (me_path en)
      else if gate \<noteq> 0 \<and> me_start en = gate then Some (chars ''linux-gate.so'') else None)"

definition entry_offset :: "u64 \<Rightarrow> maps_entry \<Rightarrow> u64" where
  "entry_offset gate en = (if me_path en = [] \<and> gate \<noteq> 0 \<and> me_start en = gate then 0 else me_offset en)"

definition fixed_name :: "bytes option \<Rightarrow> bytes" where
  "fixed_name name = (case name of None \<Rightarrow> replicate NAME_MAX 0 | Some s \<Rightarrow> s @ replicate (NAME_MAX - length s) 0)"

definition entry_mapping :: "u64 \<Rightarrow> maps_entry \<Rightarrow> mapping_info" where
  "entry_mapping gate en =
     \<lparr>mi_start_addr = me_start en, mi_size = me_end en - me_start en, mi_sys_start = me_start en, mi_sys_end = me_end en,
      mi_offset = entry_offset gate en, mi_exec = me_exec en, mi_name = fixed_name (entry_name gate en)\<rparr>"

text \<open>Adjacent mappings of one file are one module, unless an executable part is followed by one that is not.\<close>

definition joins :: "u64 \<Rightarrow> mapping_info list \<Rightarrow> maps_entry \<Rightarrow> bool" where
  "joins gate ms en \<longleftrightarrow> ms \<noteq> [] \<and> me_start en = mi_start_addr (last ms) + mi_size (last ms) \<and>
     entry_name gate en = Some (cstr (mi_name (last ms))) \<and> (mi_exec (last ms) \<longrightarrow> me_exec en)"

definition add_entry :: "u64 \<Rightarrow> mapping_info list \<Rightarrow> maps_entry \<Rightarrow> mapping_info list" where
  "add_entry gate ms en =
     (if joins gate ms en
      then butlast ms @ [(last ms)\<lparr>mi_sys_end := me_end en, mi_size := me_end en - mi_start_addr (last ms),
                                    mi_exec := (mi_exec (last ms) \<or> me_exec en)\<rparr>]
      else ms @ [entry_mapping gate en])"

definition named :: "mapping_info \<Rightarrow> bool" where
  "named m \<longleftrightarrow> nul_terminated (mi_name m)"

lemma chars_gate: "0 \<notin> set (chars ''linux-gate.so'')" "length (chars ''linux-gate.so'') = 13"
  by (simp_all add: chars_def)

lemma entry_name_ok:
  assumes "entry_wf en" and "entry_name gate en = Some s"
  shows "0 \<notin> set s" "length s < NAME_MAX" "s \<noteq> []"
  using assms chars_gate
  by (auto simp: entry_name_def entry_wf_def list_all_iff NAME_MAX_def chars_def split: if_splits)

lemma named_entry_mapping: "entry_wf en \<Longrightarrow> named (entry_mapping gate en)"
  using entry_name_ok(2) [of en gate]
  by (auto simp: named_def entry_mapping_def fixed_name_def NAME_MAX_def nul_terminated_def split: option.splits)

lemma mapping_name_entry:
  assumes "entry_wf en"
  shows "\<exists>nm. mapping_name gate (maps_line en u) (me_start en) (me_offset en) = Some (nm, entry_offset gate en) \<and>
    map_option cstr nm = entry_name gate en \<and> (case nm of None \<Rightarrow> True | Some b \<Rightarrow> nul_terminated b)"
proof (cases "me_path en = []")
  case True
  have "cstr kLinuxGateLibraryName = chars ''linux-gate.so''" "nul_terminated kLinuxGateLibraryName"
    using chars_gate(1) by (simp_all add: kLinuxGateLibraryName_def cstr_terminated)
  then show ?thesis
    using True path_of_line(1) [OF assms] by (auto simp: mapping_name_def entry_name_def entry_offset_def)
next
  case False
  have "0 \<notin> set (me_path en)" using assms by (auto simp: entry_wf_def list_all_iff)
  then show ?thesis
    using False path_of_line [OF assms, of u] by (auto simp: mapping_name_def entry_name_def entry_offset_def cstr_terminated)
qed

lemma mergeable_entry:
  assumes "list_all named ms" and "map_option cstr nm = entry_name gate en"
    and "case nm of None \<Rightarrow> True | Some b \<Rightarrow> nul_terminated b"
  shows "mergeable sg nm (me_start en) (me_exec en) ms = Some (joins gate ms en)"
proof (cases nm)
  case None
  then show ?thesis using assms(2) by (auto simp: mergeable_def joins_def)
next
  case (Some b)
  then have b: "nul_terminated b" "entry_name gate en = Some (cstr b)" using assms(2,3) by auto
  show ?thesis
  proof (cases "ms = [] \<or> me_start en \<noteq> mi_start_addr (last ms) + mi_size (last ms)")
    case True
    then show ?thesis by (auto simp: Some mergeable_def joins_def Let_def)
  next
    case False
    then have nt: "nul_terminated (mi_name (last ms))" using assms(1) by (auto simp: list_all_iff named_def)
    have "\<exists>r\<in>{-1, 0, 1}. my_strncmp sg b (mi_name (last ms)) (length (cstr b)) = Some r"
      using b(1) nt by (intro my_strncmp_total) auto
    then obtain r where r: "my_strncmp sg b (mi_name (last ms)) (length (cstr b)) = Some r" by blast
    have "r = 0 \<longleftrightarrow> cstr b = take (length (cstr b)) (cstr (mi_name (last ms)))"
      using my_strncmp_zero_iff [of b "length (cstr b)" "mi_name (last ms)" sg] r b(1) nt by auto
    then have "length (cstr b) = length (cstr (mi_name (last ms))) \<Longrightarrow> r = 0 \<longleftrightarrow> cstr b = cstr (mi_name (last ms))"
      by simp
    then show ?thesis
      using False b nt r by (auto simp: Some mergeable_def joins_def Let_def my_strlen_eq)
  qed
qed

lemma new_mapping_entry:
  assumes "entry_wf en" and "map_option cstr nm = entry_name gate en"
    and "case nm of None \<Rightarrow> True | Some b \<Rightarrow> nul_terminated b"
  shows "new_mapping (me_start en) (me_end en) (entry_offset gate en) (me_exec en) nm = Some (entry_mapping gate en)"
proof (cases nm)
  case None
  then show ?thesis using assms(2) by (auto simp: new_mapping_def entry_mapping_def fixed_name_def)
next
  case (Some b)
  then have b: "nul_terminated b" "entry_name gate en = Some (cstr b)" using assms(2,3) by auto
  then have "length (cstr b) < NAME_MAX" using entry_name_ok(2) [OF assms(1)] by blast
  then show ?thesis
    using b take_length_cstr [of b]
    by (simp add: Some new_mapping_def entry_mapping_def fixed_name_def my_strlen_eq blit_def)
qed

lemma add_line_entry:
  assumes "entry_wf en" and "list_all named ms"
  shows "add_line sg gate ms (maps_line en u) = Some (add_entry gate ms en)" and "list_all named (add_entry gate ms en)"
proof -
  obtain nm where nm: "mapping_name gate (maps_line en u) (me_start en) (me_offset en) = Some (nm, entry_offset gate en)"
    "map_option cstr nm = entry_name gate en" "case nm of None \<Rightarrow> True | Some b \<Rightarrow> nul_terminated b"
    using mapping_name_entry [OF assms(1)] by blast
  then show "add_line sg gate ms (maps_line en u) = Some (add_entry gate ms en)"
    using parse_maps_line_entry [OF assms(1)] mergeable_entry [OF assms(2) nm(2,3)] new_mapping_entry [OF assms(1) nm(2,3)]
    by (simp add: add_line_def add_entry_def Let_def)
  have "list_all named (butlast ms)" "ms \<noteq> [] \<Longrightarrow> named (last ms)"
    using assms(2) by (auto simp: list_all_iff dest: in_set_butlastD)
  then show "list_all named (add_entry gate ms en)"
    using assms(2) named_entry_mapping [OF assms(1)] by (auto simp: add_entry_def joins_def named_def)
qed

lemma add_lines_entries:
  assumes "list_all (entry_wf \<circ> fst) ens" and "list_all named ms"
  shows "add_lines sg gate ms (map (\<lambda>(en, u). maps_line en u) ens) = Some (foldl (add_entry gate) ms (map fst ens))"
  using assms
proof (induction ens arbitrary: ms)
  case (Cons x ens)
  then show ?case using add_line_entry [of "fst x" ms] by (cases x) simp
qed simp

section \<open>Mappings partition the address space\<close>

definition sys_range :: "mapping_info \<Rightarrow> u64 set" where
  "sys_range m = {mi_sys_start m..<mi_sys_end m}"

definition entry_range :: "maps_entry \<Rightarrow> u64 set" where
  "entry_range en = {me_start en..<me_end en}"

definition plain :: "mapping_info \<Rightarrow> bool" where
  "plain m \<longleftrightarrow> mi_sys_start m < mi_sys_end m \<and> mi_start_addr m = mi_sys_start m \<and> mi_size m = mi_sys_end m - mi_sys_start m"

definition ordered :: "mapping_info list \<Rightarrow> bool" where
  "ordered ms \<longleftrightarrow> list_all plain ms \<and> sorted_wrt (\<lambda>m m'. mi_sys_end m \<le> mi_sys_start m') ms"

fun ascending :: "u64 \<Rightarrow> maps_entry list \<Rightarrow> bool" where
  "ascending lo [] = True"
| "ascending lo (en # ens) \<longleftrightarrow> lo \<le> me_start en \<and> me_start en < me_end en \<and> ascending (me_end en) ens"

definition top_addr :: "mapping_info list \<Rightarrow> u64" where
  "top_addr ms = (if ms = [] then 0 else mi_sys_end (last ms))"

lemma ordered_snoc:
  "ordered (ms @ [m]) \<longleftrightarrow> ordered ms \<and> plain m \<and> list_all (\<lambda>m'. mi_sys_end m' \<le> mi_sys_start m) ms"
  by (auto simp: ordered_def sorted_wrt_append list_all_iff)

lemma ordered_below_top:
  assumes "ordered ms" and "m \<in> set ms"
  shows "mi_sys_end m \<le> top_addr ms"
proof -
  obtain ns l where ms: "ms = ns @ [l]" using assms(2) by (cases ms rule: rev_cases) auto
  then show ?thesis using assms by (auto simp: ordered_snoc top_addr_def list_all_iff plain_def) 
qed

lemma add_entry_ordered:
  assumes ord: "ordered ms" and lo: "top_addr ms \<le> me_start en" and lt: "me_start en < me_end en"
  shows "ordered (add_entry gate ms en) \<and> top_addr (add_entry gate ms en) = me_end en \<and>
    \<Union> (sys_range ` set (add_entry gate ms en)) = \<Union> (sys_range ` set ms) \<union> entry_range en"
proof (cases "joins gate ms en")
  case False
  have "plain (entry_mapping gate en)" using lt by (simp add: plain_def entry_mapping_def)
  moreover have "list_all (\<lambda>m'. mi_sys_end m' \<le> me_start en) ms"
    using order_trans [OF ordered_below_top [OF ord] lo] by (auto simp: list_all_iff)
  ultimately show ?thesis
    using False ord by (auto simp: add_entry_def ordered_snoc entry_mapping_def top_addr_def sys_range_def entry_range_def)
next
  case True
  then obtain ns l where ms: "ms = ns @ [l]" by (cases ms rule: rev_cases) (auto simp: joins_def)
  have l: "plain l" "list_all (\<lambda>m'. mi_sys_end m' \<le> mi_sys_start l) ns" "ordered ns" using ord by (auto simp: ms ordered_snoc)
  have st: "me_start en = mi_sys_end l" using True l(1) by (simp add: joins_def ms plain_def)
  let ?l = "l\<lparr>mi_sys_end := me_end en, mi_size := me_end en - mi_start_addr l, mi_exec := mi_exec l \<or> me_exec en\<rparr>"
  have "plain ?l" using l(1) lt st by (auto simp: plain_def)
  moreover have "sys_range ?l = sys_range l \<union> entry_range en"
    using l(1) lt st by (auto simp: sys_range_def entry_range_def plain_def)
  ultimately show ?thesis
    using True l by (auto simp: add_entry_def ms ordered_snoc top_addr_def)
qed

lemma add_entries_ordered:
  assumes "ordered ms" and "ascending lo ens" and "top_addr ms \<le> lo"
  shows "ordered (foldl (add_entry gate) ms ens) \<and>
    \<Union> (sys_range ` set (foldl (add_entry gate) ms ens)) = \<Union> (sys_range ` set ms) \<union> \<Union> (entry_range ` set ens)"
  using assms
proof (induction ens arbitrary: ms lo)
  case (Cons en ens)
  have s: "top_addr ms \<le> me_start en" using Cons.prems(2,3) by auto
  show ?case
    using Cons.IH [of "add_entry gate ms en" "me_end en"] add_entry_ordered [OF Cons.prems(1) s, of gate] Cons.prems(2) by auto
qed simp

lemma entry_index_spec:
  "(entry_index e ms = None \<and> list_all (\<lambda>m. \<not> contains_entry e m) ms) \<or>
   (\<exists>i<length ms. entry_index e ms = Some i \<and> contains_entry e (ms ! i))"
  by (induction ms) auto

lemma shift_up_nth:
  "i < length ms \<Longrightarrow> length (shift_up ms i) = length ms \<and>
   (\<forall>k<length ms. shift_up ms i ! k = (if k = 0 \<or> i < k then ms ! k else ms ! (k - 1)))"
proof (induction i arbitrary: ms)
  case (Suc j)
  show ?case
  proof (intro conjI allI impI)
    show "length (shift_up ms (Suc j)) = length ms" using Suc by simp
    fix k assume k: "k < length ms"
    show "shift_up ms (Suc j) ! k = (if k = 0 \<or> Suc j < k then ms ! k else ms ! (k - 1))"
      using Suc.IH [of "ms[Suc j := ms ! j]"] Suc.prems k by (cases "k = Suc j") (auto simp: nth_list_update)
  qed
qed auto

lemma hd_update: "xs \<noteq> [] \<Longrightarrow> hd (xs[0 := x]) = x"
  by (cases xs) auto

text \<open>The rotation of the source is the move of one element to the front.\<close>

lemma entry_first_eq:
  "entry_first e ms = ms \<or>
   (\<exists>i<length ms. e \<noteq> 0 \<and> contains_entry e (ms ! i) \<and> entry_first e ms = ms ! i # take i ms @ drop (Suc i) ms)"
proof (cases "e = 0 \<or> entry_index e ms = None")
  case True
  then show ?thesis by (auto simp: entry_first_def)
next
  case False
  then obtain i where i: "i < length ms" "entry_index e ms = Some i" "contains_entry e (ms ! i)"
    using entry_index_spec [of e ms] by auto
  have "(shift_up ms i)[0 := ms ! i] = ms ! i # take i ms @ drop (Suc i) ms"
    using shift_up_nth [OF i(1)] i(1)
    by (intro nth_equalityI) (auto simp: nth_list_update nth_Cons' nth_append)
  then show ?thesis using False i by (auto simp: entry_first_def)
qed

lemma set_entry_first [simp]: "set (entry_first e ms) = set ms"
proof -
  consider "entry_first e ms = ms" | i where "i < length ms" "entry_first e ms = ms ! i # take i ms @ drop (Suc i) ms"
    using entry_first_eq [of e ms] by blast
  then show ?thesis
  proof cases
    case 2
    then have "set ms = set (take i ms @ ms ! i # drop (Suc i) ms)" by (simp flip: id_take_nth_drop)
    then show ?thesis using 2 by auto
  qed simp
qed

definition disjoint_ranges :: "mapping_info list \<Rightarrow> bool" where
  "disjoint_ranges ms \<longleftrightarrow> sorted_wrt (\<lambda>m m'. sys_range m \<inter> sys_range m' = {}) ms"

lemma disjoint_entry_first:
  assumes "disjoint_ranges ms"
  shows "disjoint_ranges (entry_first e ms)"
proof -
  consider "entry_first e ms = ms" | i where "i < length ms" "entry_first e ms = ms ! i # take i ms @ drop (Suc i) ms"
    using entry_first_eq [of e ms] by blast
  then show ?thesis
  proof cases
    case 2
    have "disjoint_ranges (take i ms @ ms ! i # drop (Suc i) ms)" using assms 2(1) by (simp flip: id_take_nth_drop)
    then show ?thesis unfolding 2(2) by (auto simp: disjoint_ranges_def sorted_wrt_append)
  qed (use assms in simp)
qed

lemma ordered_disjoint: "ordered ms \<Longrightarrow> disjoint_ranges ms"
  by (auto simp: ordered_def disjoint_ranges_def sys_range_def elim!: sorted_wrt_mono_rel [rotated])

text \<open>Under the partition, a lookup finds the one mapping that holds the address.\<close>

lemma FindMappingNoBias_iff:
  assumes "disjoint_ranges ms"
  shows "FindMappingNoBias ms a = Some m \<longleftrightarrow> m \<in> set ms \<and> a \<in> sys_range m"
  using assms by (induction ms) (auto simp: disjoint_ranges_def sys_range_def)

lemma plain_contains: "plain m \<Longrightarrow> (mi_start_addr m \<le> a \<and> a - mi_start_addr m < mi_size m) \<longleftrightarrow> a \<in> sys_range m"
  by (auto simp: plain_def sys_range_def word_le_nat_alt word_less_nat_alt unat_sub)

lemma FindMapping_plain: "list_all plain ms \<Longrightarrow> FindMapping ms a = FindMappingNoBias ms a"
proof (induction ms)
  case (Cons m ms)
  then show ?case using plain_contains [of m a] by (auto simp: sys_range_def)
qed simp

lemma plain_entry: "plain m \<Longrightarrow> contains_entry a m \<longleftrightarrow> a \<in> sys_range m"
  by (auto simp: plain_def contains_entry_def sys_range_def)

text \<open>
  C12. The mappings of the dumper partition the mapped addresses. For the lines of a maps file whose entries ascend (as the
  kernel prints them), with paths below \<open>NAME_MAX\<close>, and whatever follows them in the buffer, \<open>EnumerateMappings\<close> succeeds with
  mappings that are pairwise disjoint and cover exactly the addresses of the entries; both lookups find,
  for every address, exactly the mapping that holds it; and if the entry point is mapped, the first mapping holds it.
  Without a maps file it fails and there are no mappings.
\<close>

theorem EnumerateMappings_partition:
  assumes "list_all (entry_wf \<circ> fst) ens" and "ascending 0 (map fst ens)"
  shows "\<exists>ms. EnumerateMappings sg auxv (Some (map (\<lambda>(en, u). maps_line en u) ens)) = Some (ens \<noteq> [], ms) \<and>
    disjoint_ranges ms \<and> \<Union> (sys_range ` set ms) = \<Union> (entry_range ` set (map fst ens)) \<and>
    (\<forall>a m. FindMapping ms a = Some m \<longleftrightarrow> m \<in> set ms \<and> a \<in> sys_range m) \<and>
    (\<forall>a m. FindMappingNoBias ms a = Some m \<longleftrightarrow> m \<in> set ms \<and> a \<in> sys_range m) \<and>
    (auxv ! AT_ENTRY \<noteq> 0 \<and> auxv ! AT_ENTRY \<in> \<Union> (sys_range ` set ms) \<longrightarrow> auxv ! AT_ENTRY \<in> sys_range (hd ms)) \<and>
    EnumerateMappings sg auxv None = Some (False, [])"
proof -
  let ?gate = "auxv ! AT_SYSINFO_EHDR" and ?e = "auxv ! AT_ENTRY"
  let ?base = "foldl (add_entry ?gate) [] (map fst ens)"
  let ?ms = "entry_first ?e ?base"
  have ord: "ordered ?base" and cov: "\<Union> (sys_range ` set ?base) = \<Union> (entry_range ` set (map fst ens))"
    using add_entries_ordered [of "[]" 0 "map fst ens" ?gate] assms(2) by (auto simp: ordered_def top_addr_def)
  have pl: "list_all plain ?ms" using ord by (simp add: ordered_def list_all_iff)
  have dj: "disjoint_ranges ?ms" by (rule disjoint_entry_first [OF ordered_disjoint [OF ord]])
  have ne: "?ms \<noteq> [] \<longleftrightarrow> ens \<noteq> []"
  proof -
    have "foldl (add_entry g) ns xs \<noteq> []" if "ns \<noteq> [] \<or> xs \<noteq> []" for g ns xs
      using that by (induction xs arbitrary: ns) (auto simp: add_entry_def)
    then show ?thesis by (metis foldl_Nil list.map_disc_iff map_is_Nil_conv set_empty set_entry_first)
  qed
  have hd: "?e \<in> sys_range (hd ?ms)" if "?e \<noteq> 0" "?e \<in> \<Union> (sys_range ` set ?ms)"
  proof -
    have plm: "plain m" if "m \<in> set ?base" for m using ord that by (auto simp: ordered_def list_all_iff)
    have "\<not> list_all (\<lambda>m. \<not> contains_entry ?e m) ?base"
      using that(2) plain_entry [OF plm] by (auto simp: list_all_iff)
    then obtain i where i: "i < length ?base" "entry_index ?e ?base = Some i" "contains_entry ?e (?base ! i)"
      using entry_index_spec [of ?e ?base] by auto
    have "length (shift_up ?base i) = length ?base" using shift_up_nth [OF i(1)] by blast
    then have "shift_up ?base i \<noteq> []" using i(1) by (metis length_0_conv not_less0)
    then have "hd ?ms = ?base ! i" using that(1) i(2) by (simp add: entry_first_def hd_update)
    then show ?thesis using i(1,3) plain_entry [OF plm] by simp
  qed
  have "EnumerateMappings sg auxv (Some (map (\<lambda>(en, u). maps_line en u) ens)) = Some (ens \<noteq> [], ?ms)"
    using add_lines_entries [OF assms(1), of "[]" sg ?gate] ne by (simp add: EnumerateMappings_def Let_def)
  then show ?thesis
    using dj cov hd FindMapping_plain [OF pl] FindMappingNoBias_iff [OF dj]
    by (intro exI [of _ ?ms]) (auto simp: EnumerateMappings_def [of _ _ None])
qed

definition sample_entry :: "bytes \<Rightarrow> bytes \<Rightarrow> maps_entry" where
  "sample_entry from to =
     \<lparr>me_start_digits = from, me_end_digits = to, me_perms = [114, 45, 120, 112], me_offset_digits = [48],
      me_device = [48, 58, 48, 32, 49, 32], me_path = [47, 97]\<rparr>"

theorem EnumerateMappings_partition_witness:
  "\<exists>ms. EnumerateMappings True (replicate 34 0)
       (Some [maps_line (sample_entry [49, 48] [50, 48]) [], maps_line (sample_entry [51, 48] [52, 48]) []]) = Some (True, ms) \<and>
     disjoint_ranges ms \<and> \<Union> (sys_range ` set ms) = {0x10..<0x20} \<union> {0x30..<0x40}"
proof -
  let ?ens = "[(sample_entry [49, 48] [50, 48], []), (sample_entry [51, 48] [52, 48], [])]"
  have wf: "list_all (entry_wf \<circ> fst) ?ens"
    by (simp add: sample_entry_def entry_wf_def is_hex_def hex_digit_def NAME_MAX_def)
  have r: "me_start (sample_entry [49, 48] [50, 48]) = 0x10" "me_end (sample_entry [49, 48] [50, 48]) = 0x20"
    "me_start (sample_entry [51, 48] [52, 48]) = 0x30" "me_end (sample_entry [51, 48] [52, 48]) = 0x40"
    by (simp_all add: sample_entry_def me_start_def me_end_def hex_digit_def)
  have "ascending 0 (map fst ?ens)" by (simp add: r)
  from EnumerateMappings_partition [OF wf this, of True "replicate 34 0"] show ?thesis
    by (auto simp: r entry_range_def)
qed

section \<open>Adjusted mappings and the stack\<close>

definition adjusted :: "mapping_info \<Rightarrow> bool" where
  "adjusted m \<longleftrightarrow> mi_sys_start m < mi_sys_end m \<and> mi_start_addr m \<le> mi_sys_start m \<and>
     mi_start_addr m + mi_size m = mi_sys_end m"

lemma plain_adjusted: "plain m \<Longrightarrow> adjusted m"
  by (auto simp: plain_def adjusted_def)

text \<open>The adjustment for packed relocations keeps the end of a mapping and everything the kernel reported.\<close>

lemma postprocess_keeps:
  "mi_start_addr (postprocess_mapping r p d m) + mi_size (postprocess_mapping r p d m) = mi_start_addr m + mi_size m"
  "mi_sys_start (postprocess_mapping r p d m) = mi_sys_start m" "mi_sys_end (postprocess_mapping r p d m) = mi_sys_end m"
  "mi_exec (postprocess_mapping r p d m) = mi_exec m" "mi_name (postprocess_mapping r p d m) = mi_name m"
  by (auto simp: postprocess_mapping_def Let_def split: option.splits)

lemma FindMapping_Some:
  "FindMapping ms a = Some m \<Longrightarrow> m \<in> set ms \<and> mi_start_addr m \<le> a \<and> a - mi_start_addr m < mi_size m"
  by (induction ms) (auto split: if_splits)

lemma FindMapping_None:
  "FindMapping ms a = None \<Longrightarrow> m \<in> set ms \<Longrightarrow> \<not> (mi_start_addr m \<le> a \<and> a - mi_start_addr m < mi_size m)"
  by (induction ms) (auto split: if_splits)

lemma and_not_page:
  assumes "page_size = 2 ^ k" and "k < 64"
  shows "(x :: u64) AND NOT (page_size - 1) \<le> x" "x - (x AND NOT (page_size - 1)) < page_size"
proof -
  show "x AND NOT (page_size - 1) \<le> x" by (rule word_and_le2)
  have "page_size - 1 = mask k" using assms by (simp add: mask_eq_exp_minus_1)
  then have "x AND NOT (page_size - 1) = push_bit k (drop_bit k x)"
    by (intro bit_word_eqI) (auto simp: bit_simps)
  then have "x - (x AND NOT (page_size - 1)) = take_bit k x" using bits_ident [of k x] by (simp add: eq_diff_eq diff_eq_eq algebra_simps)
  moreover have "take_bit k x < 2 ^ k"
  proof -
    have "(2 :: nat) ^ k < 2 ^ 64" using assms(2) by (intro power_strict_increasing) auto
    then have "unat (of_nat (2 ^ k) :: u64) = 2 ^ k" by (simp only: unsigned_of_nat len_num0 len_bit0 take_bit_nat_eq_self) (simp add: assms(2))
    then have "unat (2 ^ k :: u64) = 2 ^ k" by simp
    then show ?thesis by (simp add: word_less_nat_alt unsigned_take_bit_eq)
  qed
  ultimately show "x - (x AND NOT (page_size - 1)) < page_size" using assms(1) by simp
qed

lemma GetStackInfo_range:
  assumes "list_all adjusted ms" and "list_all (\<lambda>m. unat (mi_sys_end m) < 2 ^ 63) ms" and "page = sp AND NOT (page_size - 1)"
  shows "case GetStackInfo page_size ms sp of
       None \<Rightarrow> (\<forall>m. m \<in> set ms \<longrightarrow> \<not> (mi_start_addr m \<le> page \<and> page < mi_sys_end m))
     | Some (stack, len) \<Rightarrow> stack = page \<and> 0 < unat len \<and> unat len \<le> 32 * 1024 \<and>
         (\<exists>m. m \<in> set ms \<and> mi_start_addr m \<le> page \<and> unat page + unat len \<le> unat (mi_sys_end m))"
proof -
  have range: "mi_start_addr m \<le> a \<and> a - mi_start_addr m < mi_size m \<longleftrightarrow> mi_start_addr m \<le> a \<and> a < mi_sys_end m"
    and size: "unat (mi_start_addr m) + unat (mi_size m) = unat (mi_sys_end m)" if m: "m \<in> set ms" for m a
  proof -
    have ad: "mi_start_addr m \<le> mi_sys_end m" "mi_size m = mi_sys_end m - mi_start_addr m"
      using assms(1) m by (auto simp: list_all_iff adjusted_def algebra_simps)
    then show "unat (mi_start_addr m) + unat (mi_size m) = unat (mi_sys_end m)"
      by (simp add: unat_sub word_le_nat_alt)
    then show "mi_start_addr m \<le> a \<and> a - mi_start_addr m < mi_size m \<longleftrightarrow> mi_start_addr m \<le> a \<and> a < mi_sys_end m"
      by (auto simp: word_le_nat_alt word_less_nat_alt unat_sub)
  qed
  show ?thesis
  proof (cases "FindMapping ms page")
    case None
    then show ?thesis
      using FindMapping_None [OF None] range by (auto simp: GetStackInfo_def assms(3) [symmetric] Let_def)
  next
    case (Some m)
    note fm = FindMapping_Some [OF Some]
    let ?d = "mi_size m - (page - mi_start_addr m)"
    have d: "unat page + unat ?d = unat (mi_sys_end m)" "0 < unat ?d"
      using fm size [of m] by (auto simp: word_le_nat_alt word_less_nat_alt unat_sub)
    have "unat (mi_sys_end m) < 2 ^ 63" using assms(2) fm by (auto simp: list_all_iff)
    then have "unat ?d < 2 ^ 63" using d by linarith
    then have "int (unat ?d) < int (2 ^ 63)" by (rule of_nat_less_iff [THEN iffD2])
    then have "uint ?d < 2 ^ 63" by simp
    then have sd: "sint ?d = int (unat ?d)"
      by (simp add: sint_uint signed_take_bit_int_eq_self order_trans [OF _ unsigned_greater_eq])
    have cmp: "kStackToCapture < sint ?d \<longleftrightarrow> 32768 < unat ?d" unfolding sd kStackToCapture_def by linarith
    let ?len = "if kStackToCapture < sint ?d then word_of_int kStackToCapture else ?d"
    have "0 < unat ?len" "unat ?len \<le> 32 * 1024" "unat ?len \<le> unat ?d"
      using d(2) by (auto simp: cmp) (simp_all add: kStackToCapture_def)
    then show ?thesis
      using Some fm d by (auto simp: GetStackInfo_def assms(3) [symmetric] Let_def intro!: exI [of _ m])
  qed
qed

text \<open>
  C28. The stack that is copied lies in the mapping of the stack pointer. For a page size that is a power of two and
  mappings below \<open>2^63\<close>, adjusted for packed relocations or not: \<open>GetStackInfo\<close> fails exactly when no mapping holds
  the page of the stack pointer; otherwise it gives this page's start, at most a page below the stack
  pointer, and a length of at least one byte and at most 32 KiB that does not pass the end of the mapping.
\<close>

theorem GetStackInfo_bounds:
  assumes "page_size = 2 ^ k" and "k < 64" and "list_all adjusted ms" and "list_all (\<lambda>m. unat (mi_sys_end m) < 2 ^ 63) ms"
    and "page = sp AND NOT (page_size - 1)"
  shows "page \<le> sp \<and> sp - page < page_size \<and>
    (case GetStackInfo page_size ms sp of
       None \<Rightarrow> (\<forall>m. m \<in> set ms \<longrightarrow> \<not> (mi_start_addr m \<le> page \<and> page < mi_sys_end m))
     | Some (stack, len) \<Rightarrow> stack = page \<and> 0 < unat len \<and> unat len \<le> 32 * 1024 \<and>
         (\<exists>m. m \<in> set ms \<and> mi_start_addr m \<le> page \<and> unat page + unat len \<le> unat (mi_sys_end m)))"
  using GetStackInfo_range [OF assms(3-5)] and_not_page [OF assms(1,2), of sp] assms(5) by blast

definition sample_mapping :: "u64 \<Rightarrow> u64 \<Rightarrow> bool \<Rightarrow> mapping_info" where
  "sample_mapping s e x =
     \<lparr>mi_start_addr = s, mi_size = e - s, mi_sys_start = s, mi_sys_end = e, mi_offset = 0, mi_exec = x,
      mi_name = replicate NAME_MAX 0\<rparr>"

theorem GetStackInfo_bounds_witness:
  "GetStackInfo 4096 [sample_mapping 0x10000 0x30000 False] 0x12345 = Some (0x12000, 0x8000) \<and>
   (0x12000 :: u64) \<le> 0x12345 \<and> (0x12345 :: u64) - 0x12000 < 4096"
proof -
  have "GetStackInfo 4096 [sample_mapping 0x10000 0x30000 False] 0x12345 = Some (0x12000, 0x8000)"
    by (simp add: GetStackInfo_def sample_mapping_def kStackToCapture_def)
  moreover have "list_all adjusted [sample_mapping 0x10000 0x30000 False]"
    by (simp add: adjusted_def sample_mapping_def)
  ultimately show ?thesis
    using GetStackInfo_bounds [of 4096 12 "[sample_mapping 0x10000 0x30000 False]" "0x12000" "0x12345"]
    by (simp add: sample_mapping_def)
qed

end
