(* ===== verification/Stack_Sanitizer.thy ===== *)
theory Stack_Sanitizer
  imports Linux_Dumper C_Layout
begin

text \<open>
  \<open>SanitizeStackCopy\<close> and \<open>StackHasPointerToMapping\<close> of \<^verbatim>\<open>client/linux/minidump_writer/linux_dumper.cc\<close>, on a 64-bit
  little-endian target: the copy of a stack is stripped of everything that is neither a small number nor a pointer into
  the stack or into code, with three optimisations of the search for the mapping of a pointer.
\<close>

section \<open>Words in a buffer\<close>

definition load_word :: "bytes \<Rightarrow> u64" where
  "load_word bs = of_nat (le_nat bs)"

definition store_word :: "u64 \<Rightarrow> bytes" where
  "store_word w = map (\<lambda>i. ucast (drop_bit (8 * i) w)) [0..<8]"

definition defaced :: u64 where "defaced = 0x0defaced0defaced"

definition small_int_magnitude :: int where "small_int_magnitude = 4096"

definition shift :: nat where "shift = 32 - 11"

definition array_size :: nat where "array_size = 2 ^ (11 - 3)"

section \<open>The bit field\<close>

definition hit_byte :: "u64 \<Rightarrow> nat" where "hit_byte b = unat (drop_bit 3 b AND 255)"
definition hit_bit :: "u64 \<Rightarrow> nat" where "hit_bit b = unat (b AND 7)"

definition could_hit :: "bytes \<Rightarrow> u64 \<Rightarrow> bool" where
  "could_hit arr test = bit (arr ! hit_byte test) (hit_bit test)"

definition mark_bit :: "bytes \<Rightarrow> u64 \<Rightarrow> bytes" where
  "mark_bit arr b = arr[hit_byte b := arr ! hit_byte b OR push_bit (hit_bit b) 1]"

text \<open>One mapping; the bounds of the loop are below \<open>2^43\<close>, so its counter does not wrap.\<close>

definition mark_mapping :: "bytes \<Rightarrow> mapping_info \<Rightarrow> bytes" where
  "mark_mapping arr m =
     (if \<not> mi_exec m then arr
      else let start = drop_bit shift (mi_start_addr m);
               fin = drop_bit shift (mi_start_addr m + mi_size m)
           in foldl mark_bit arr (map of_nat [unat start..<Suc (unat fin)]))"

definition could_hit_mapping :: "mapping_info list \<Rightarrow> bytes" where
  "could_hit_mapping ms = foldl mark_mapping (replicate array_size 0) ms"

section \<open>Sanitising\<close>

text \<open>What happens to one word: whether it is kept, and the mapping that was hit last.\<close>

definition keep_word ::
  "mapping_info list \<Rightarrow> mapping_info option \<Rightarrow> bytes \<Rightarrow> mapping_info option \<Rightarrow> u64 \<Rightarrow> bool \<times> mapping_info option" where
  "keep_word ms stack_mapping arr last_hit addr =
     (if sint addr \<le> small_int_magnitude \<and> - small_int_magnitude \<le> sint addr then (True, last_hit)
      else if (case stack_mapping of None \<Rightarrow> False | Some m \<Rightarrow> MappingContainsAddress m addr) then (True, last_hit)
      else if (case last_hit of None \<Rightarrow> False | Some m \<Rightarrow> MappingContainsAddress m addr) then (True, last_hit)
      else if could_hit arr (drop_bit shift addr) then
        (case FindMappingNoBias ms addr of
           None \<Rightarrow> (False, last_hit)
         | Some m \<Rightarrow> if mi_exec m then (True, Some m) else (False, last_hit))
      else (False, last_hit))"

function sanitize_words ::
  "mapping_info list \<Rightarrow> mapping_info option \<Rightarrow> bytes \<Rightarrow> mapping_info option \<Rightarrow> bytes \<Rightarrow> bytes" where
  "sanitize_words ms stack_mapping arr last_hit sp =
     (if length sp < 8 then replicate (length sp) 0
      else let (keep, hit) = keep_word ms stack_mapping arr last_hit (load_word (take 8 sp))
           in (if keep then take 8 sp else store_word defaced) @
                sanitize_words ms stack_mapping arr hit (drop 8 sp))"
  by pat_completeness auto
termination
  by (relation "measure (\<lambda>(ms, stack_mapping, arr, last_hit, sp). length sp)") auto

declare sanitize_words.simps [simp del]

text \<open>The offset of the first whole word at or above the stack pointer.\<close>

definition aligned_offset :: "u64 \<Rightarrow> u64" where
  "aligned_offset sp_offset = (sp_offset + 8 - 1) AND NOT (8 - 1)"

definition SanitizeStackCopy :: "mapping_info list \<Rightarrow> bytes \<Rightarrow> u64 \<Rightarrow> u64 \<Rightarrow> bytes option" where
  "SanitizeStackCopy ms stack_copy stack_pointer sp_offset =
     (let stack_mapping = FindMappingNoBias ms stack_pointer;
          arr = could_hit_mapping ms;
          offset = unat (aligned_offset sp_offset)
      in map_option (\<lambda>buf. take offset buf @ sanitize_words ms stack_mapping arr None (drop offset buf))
           (if offset \<noteq> 0 then my_memset stack_copy 0 offset else Some stack_copy))"

function stack_words :: "bytes \<Rightarrow> u64 list" where
  "stack_words sp = (if length sp < 8 then [] else load_word (take 8 sp) # stack_words (drop 8 sp))"
  by pat_completeness auto
termination
  by (relation "measure length") auto

declare stack_words.simps [simp del]

definition StackHasPointerToMapping :: "bytes \<Rightarrow> u64 \<Rightarrow> mapping_info \<Rightarrow> bool" where
  "StackHasPointerToMapping stack_copy sp_offset m =
     list_ex (\<lambda>addr. mi_sys_start m \<le> addr \<and> addr \<le> mi_sys_end m)
       (stack_words (drop (unat (aligned_offset sp_offset)) stack_copy))"

section \<open>The bit field has no false negatives\<close>

lemma hit_bounds: "hit_byte b < array_size" "hit_bit b < 8"
proof -
  have "drop_bit 3 b AND 255 \<le> 255" "b AND 7 \<le> 7" by (rule word_and_le1)+
  then show "hit_byte b < array_size" "hit_bit b < 8"
    by (simp_all add: hit_byte_def hit_bit_def array_size_def word_le_nat_alt)
qed

lemma length_mark_bit [simp]: "length (mark_bit arr b) = length arr"
  by (simp add: mark_bit_def)

lemma could_hit_mark:
  assumes "length arr = array_size"
  shows "could_hit (mark_bit arr b) b" and "could_hit arr c \<Longrightarrow> could_hit (mark_bit arr b) c"
  using assms hit_bounds [of b] hit_bounds [of c]
  by (auto simp: could_hit_def mark_bit_def nth_list_update bit_simps)

lemma could_hit_marks:
  assumes "length arr = array_size"
  shows "length (foldl mark_bit arr bs) = array_size \<and> (\<forall>c. could_hit arr c \<or> c \<in> set bs \<longrightarrow> could_hit (foldl mark_bit arr bs) c)"
  using assms
proof (induction bs arbitrary: arr)
  case (Cons b bs)
  then show ?case using Cons.IH [of "mark_bit arr b"] could_hit_mark [OF Cons.prems] by auto
qed simp

lemma could_hit_mark_mapping:
  assumes "length arr = array_size"
  shows "length (mark_mapping arr m) = array_size" and "could_hit arr c \<Longrightarrow> could_hit (mark_mapping arr m) c"
    and "\<lbrakk>mi_exec m; drop_bit shift (mi_start_addr m) \<le> c; c \<le> drop_bit shift (mi_start_addr m + mi_size m)\<rbrakk> \<Longrightarrow>
      could_hit (mark_mapping arr m) c"
proof -
  show "length (mark_mapping arr m) = array_size" "could_hit arr c \<Longrightarrow> could_hit (mark_mapping arr m) c"
    using could_hit_marks [OF assms] assms by (auto simp: mark_mapping_def Let_def)
  show "could_hit (mark_mapping arr m) c"
    if x: "mi_exec m" and c: "drop_bit shift (mi_start_addr m) \<le> c" "c \<le> drop_bit shift (mi_start_addr m + mi_size m)"
  proof -
    let ?bs = "map of_nat [unat (drop_bit shift (mi_start_addr m))..<Suc (unat (drop_bit shift (mi_start_addr m + mi_size m)))] :: u64 list"
    have "(of_nat (unat c) :: u64) \<in> set ?bs" using c unfolding set_map word_le_nat_alt by (intro imageI) auto
    then have "c \<in> set ?bs" by simp
    then show ?thesis using could_hit_marks [OF assms, of ?bs] x by (simp only: mark_mapping_def Let_def) simp
  qed
qed

lemma could_hit_all:
  assumes "length arr = array_size"
  shows "length (foldl mark_mapping arr ms) = array_size \<and>
    (\<forall>c. could_hit arr c \<or> (\<exists>m\<in>set ms. mi_exec m \<and> drop_bit shift (mi_start_addr m) \<le> c \<and> c \<le> drop_bit shift (mi_start_addr m + mi_size m))
       \<longrightarrow> could_hit (foldl mark_mapping arr ms) c)"
  using assms
proof (induction ms arbitrary: arr)
  case (Cons m ms)
  note mm = could_hit_mark_mapping [OF Cons.prems]
  show ?case using Cons.IH [OF mm(1)] mm(2,3) [where m = m] by (auto 4 4)
qed simp

lemma drop_bit_mono:
  assumes "a \<le> b"
  shows "drop_bit n (a :: u64) \<le> drop_bit n b"
proof -
  have "take_bit 64 (unat x) = unat x" for x :: u64
    using unsigned_less [of x, where ?'a = nat] by (intro take_bit_nat_eq_self) simp
  then show ?thesis
    using assms by (simp only: word_le_nat_alt unsigned_drop_bit_eq) (simp add: drop_bit_eq_div div_le_mono)
qed

lemma could_hit_code:
  assumes "list_all adjusted ms" and "m \<in> set ms" and "mi_exec m" and "a \<in> sys_range m"
  shows "could_hit (could_hit_mapping ms) (drop_bit shift a)"
proof -
  have m: "mi_start_addr m \<le> a" "a \<le> mi_start_addr m + mi_size m"
    using assms by (auto simp: list_all_iff adjusted_def sys_range_def)
  show ?thesis
    using could_hit_all [of "replicate array_size 0" ms] drop_bit_mono [OF m(1)] drop_bit_mono [OF m(2)] assms(2,3)
    by (auto simp: could_hit_mapping_def)
qed

section \<open>The reference\<close>

definition harmless :: "mapping_info list \<Rightarrow> mapping_info option \<Rightarrow> u64 \<Rightarrow> bool" where
  "harmless ms stack_mapping addr \<longleftrightarrow> \<bar>sint addr\<bar> \<le> 4096 \<or>
     (case stack_mapping of None \<Rightarrow> False | Some m \<Rightarrow> addr \<in> sys_range m) \<or>
     (\<exists>m\<in>set ms. mi_exec m \<and> addr \<in> sys_range m)"

function reference_words :: "(u64 \<Rightarrow> bool) \<Rightarrow> bytes \<Rightarrow> bytes" where
  "reference_words ok sp =
     (if length sp < 8 then replicate (length sp) 0
      else (if ok (load_word (take 8 sp)) then take 8 sp else store_word defaced) @ reference_words ok (drop 8 sp))"
  by pat_completeness auto
termination
  by (relation "measure (\<lambda>(ok, sp). length sp)") auto

declare reference_words.simps [simp del]

lemma keep_word_harmless:
  assumes dj: "disjoint_ranges ms" and ad: "list_all adjusted ms"
    and last: "case last_hit of None \<Rightarrow> True | Some m \<Rightarrow> m \<in> set ms \<and> mi_exec m"
    and kw: "keep_word ms stk (could_hit_mapping ms) last_hit addr = (keep, hit)"
  shows "keep = harmless ms stk addr" and "case hit of None \<Rightarrow> True | Some m \<Rightarrow> m \<in> set ms \<and> mi_exec m"
proof -
  have small: "(sint addr \<le> small_int_magnitude \<and> - small_int_magnitude \<le> sint addr) \<longleftrightarrow> \<bar>sint addr\<bar> \<le> 4096"
    by (auto simp: small_int_magnitude_def)
  have mc: "MappingContainsAddress m addr \<longleftrightarrow> addr \<in> sys_range m" for m
    by (simp add: MappingContainsAddress_def sys_range_def)
  note fm = FindMappingNoBias_iff [OF dj, of addr]
  have nf: "FindMappingNoBias ms addr = None \<longleftrightarrow> (\<forall>m\<in>set ms. addr \<notin> sys_range m)"
    using fm by (metis not_None_eq)
  have unique: "FindMappingNoBias ms addr = Some m \<Longrightarrow> (\<exists>m\<in>set ms. mi_exec m \<and> addr \<in> sys_range m) \<longleftrightarrow> mi_exec m" for m
    using fm by (metis option.inject)
  have bits: "(\<exists>m\<in>set ms. mi_exec m \<and> addr \<in> sys_range m) \<Longrightarrow> could_hit (could_hit_mapping ms) (drop_bit shift addr)"
    using could_hit_code [OF ad] by blast
  let ?stk = "case stk of None \<Rightarrow> False | Some m \<Rightarrow> addr \<in> sys_range m"
  let ?last = "case last_hit of None \<Rightarrow> False | Some m \<Rightarrow> addr \<in> sys_range m"
  have "keep = harmless ms stk addr \<and> (case hit of None \<Rightarrow> True | Some m \<Rightarrow> m \<in> set ms \<and> mi_exec m)"
  proof (cases "\<bar>sint addr\<bar> \<le> 4096 \<or> ?stk \<or> ?last")
    case True
    then have "keep \<and> hit = last_hit" using kw unfolding keep_word_def small mc by (auto split: if_splits)
    moreover have "harmless ms stk addr" using True last by (auto simp: harmless_def split: option.splits)
    ultimately show ?thesis using last by simp
  next
    case False
    then have h: "harmless ms stk addr \<longleftrightarrow> (\<exists>m\<in>set ms. mi_exec m \<and> addr \<in> sys_range m)" by (simp add: harmless_def)
    show ?thesis
    proof (cases "FindMappingNoBias ms addr")
      case None
      then have "keep = False \<and> hit = last_hit" using kw False unfolding keep_word_def small mc by (auto split: if_splits)
      then show ?thesis using h nf None last by auto
    next
      case (Some m)
      then have hm: "harmless ms stk addr \<longleftrightarrow> mi_exec m" "m \<in> set ms" using h unique fm by auto
      show ?thesis
      proof (cases "mi_exec m")
        case True
        then have "could_hit (could_hit_mapping ms) (drop_bit shift addr)" using h hm(1) bits by blast
        then have "keep \<and> hit = Some m" using kw False Some True unfolding keep_word_def small mc by simp
        then show ?thesis using hm True by simp
      next
        case no: False
        then have "keep = False \<and> hit = last_hit" using kw False Some unfolding keep_word_def small mc by (auto split: if_splits)
        then show ?thesis using hm no last by simp
      qed
    qed
  qed
  then show "keep = harmless ms stk addr" and "case hit of None \<Rightarrow> True | Some m \<Rightarrow> m \<in> set ms \<and> mi_exec m" by auto
qed

lemma sanitize_words_reference:
  assumes "disjoint_ranges ms" and "list_all adjusted ms"
    and "case last_hit of None \<Rightarrow> True | Some m \<Rightarrow> m \<in> set ms \<and> mi_exec m"
  shows "sanitize_words ms stk (could_hit_mapping ms) last_hit sp = reference_words (harmless ms stk) sp"
  using assms(3)
proof (induction "length sp" arbitrary: sp last_hit rule: less_induct)
  case less
  obtain keep hit where k: "keep_word ms stk (could_hit_mapping ms) last_hit (load_word (take 8 sp)) = (keep, hit)"
    by (cases "keep_word ms stk (could_hit_mapping ms) last_hit (load_word (take 8 sp))")
  note kh = keep_word_harmless [OF assms(1,2) less.prems k]
  show ?case
    using less.hyps [of "drop 8 sp" hit] kh k
    by (simp add: sanitize_words.simps [of _ _ _ _ sp] reference_words.simps [of _ sp])
qed

text \<open>
  C9. The optimised search keeps exactly the harmless words. For disjoint mappings, adjusted or not, and a stack copy that
  reaches at least to the first whole word above the stack pointer, \<open>SanitizeStackCopy\<close> writes inside the
  copy, keeps its length, clears everything below that word and a partial word at the end, and replaces every word between that is
  neither a number of magnitude at most 4096, nor a pointer into the mapping of the stack, nor a pointer into executable
  memory: the cached stack mapping, the last hit and the bit field change nothing.
\<close>

theorem SanitizeStackCopy_reference:
  assumes "disjoint_ranges ms" and "list_all adjusted ms" and "off = unat (aligned_offset sp_offset)" and "off \<le> length stack_copy"
  shows "SanitizeStackCopy ms stack_copy stack_pointer sp_offset =
    Some (replicate off 0 @ reference_words (harmless ms (FindMappingNoBias ms stack_pointer)) (drop off stack_copy))"
  using sanitize_words_reference [OF assms(1,2), of None] assms(3,4)
  by (auto simp: SanitizeStackCopy_def Let_def my_memset_eq)

theorem SanitizeStackCopy_reference_witness:
  "SanitizeStackCopy [sample_mapping 0x10000 0x30000 True] ([1, 2, 3, 4, 5, 6, 7, 8] @ store_word 0x12345 @ store_word 0x99999) 0x7f0000 4 =
     Some (replicate 8 0 @ store_word 0x12345 @ store_word defaced)"
proof -
  let ?ms = "[sample_mapping 0x10000 0x30000 True]"
  have ms: "disjoint_ranges ?ms" "list_all adjusted ?ms"
    by (simp_all add: disjoint_ranges_def adjusted_def sample_mapping_def)
  have off: "8 = unat (aligned_offset 4)" by (simp add: aligned_offset_def)
  have st: "store_word 0x12345 = [0x45, 0x23, 1, 0, 0, 0, 0, 0]" "store_word 0x99999 = [0x99, 0x99, 9, 0, 0, 0, 0, 0]"
    by (simp_all add: store_word_def upt_rec)
  have w: "load_word [0x45, 0x23, 1, 0, 0, 0, 0, 0] = 0x12345" "load_word [0x99, 0x99, 9, 0, 0, 0, 0, 0] = 0x99999"
    by (simp_all add: load_word_def)
  have h: "harmless ?ms None 0x12345" "\<not> harmless ?ms None 0x99999"
    by (simp_all add: harmless_def sys_range_def sample_mapping_def)
  have n: "FindMappingNoBias ?ms 0x7f0000 = None" by (simp add: sample_mapping_def)
  show ?thesis
    using SanitizeStackCopy_reference [OF ms off, where stack_pointer = "0x7f0000" and stack_copy = "[1, 2, 3, 4, 5, 6, 7, 8] @ store_word 0x12345 @ store_word 0x99999"]
    by (simp add: n st reference_words.simps w h del: FindMappingNoBias.simps)
qed

text \<open>
  \<open>StackHasPointerToMapping\<close> counts the end address of the mapping, which is outside it.
\<close>

lemma StackHasPointer_end:
  assumes "load_word w = mi_sys_end m" and "length w = 8" and "mi_sys_start m < mi_sys_end m"
  shows "StackHasPointerToMapping w 0 m" and "mi_sys_end m \<notin> sys_range m"
  using assms by (auto simp: StackHasPointerToMapping_def aligned_offset_def stack_words.simps [of w] sys_range_def)

end
