(* ===== verification/Mapping_Names.thy ===== *)
theory Mapping_Names
  imports Linux_Dumper
begin

text \<open>
  Paths and names in \<^verbatim>\<open>client/linux/minidump_writer/linux_dumper.cc\<close>, the paths below \<^verbatim>\<open>/proc\<close> of
  \<^verbatim>\<open>linux_ptrace_dumper.cc\<close>, the reading of links (\<^verbatim>\<open>common/linux/safe_readlink.cc\<close>) and the names of signals. A buffer is
  the list of its bytes, its size the length of the list. What is read from ELF files and from the file system is given by
  arguments.
\<close>

section \<open>Paths below /proc\<close>

text \<open>\<open>BuildProcPath\<close>, with the node's characters and a positive process identifier; the result is \<open>false\<close> or the path.\<close>

definition BuildProcPath :: "bytes \<Rightarrow> int \<Rightarrow> bytes \<Rightarrow> (bool \<times> bytes) option" where
  "BuildProcPath path pid node =
     (if pid \<le> 0 then Some (False, path)
      else do {
        node_len \<leftarrow> my_strlen node;
        if node_len = 0 then Some (False, path)
        else
          let pid_len = my_uint_len (nat pid);
              total_length = 6 + pid_len + 1 + node_len
          in if NAME_MAX \<le> total_length then Some (False, path)
             else do {
               let p1 = blit path 0 (chars ''/proc/'');
               digits \<leftarrow> my_uitos (drop 6 p1) (nat pid) pid_len;
               let p2 = take 6 p1 @ digits;
               p3 \<leftarrow> wr p2 (6 + pid_len) 47;
               let p4 = blit p3 (6 + pid_len + 1) (take node_len node);
               p5 \<leftarrow> wr p4 total_length 0;
               Some (True, p5)
             }
      })"

text \<open>\<open>SafeReadLink\<close>: \<open>target\<close> is what \<open>readlink\<close> reads, cut at the size of the buffer; \<open>None\<close> for an error.\<close>

definition SafeReadLink :: "bytes option \<Rightarrow> bytes \<Rightarrow> bool \<times> bytes" where
  "SafeReadLink target buffer =
     (case target of
        None \<Rightarrow> (False, buffer)
      | Some t \<Rightarrow>
          let n = min (length t) (length buffer); buffer' = blit buffer 0 (take n t)
          in if n < length buffer then (True, buffer'[n := 0]) else (False, buffer'))"

section \<open>Paths of mappings\<close>

definition GetMappingAbsolutePath :: "bytes \<Rightarrow> bytes \<Rightarrow> bytes \<Rightarrow> (bool \<times> bytes) option" where
  "GetMappingAbsolutePath root_prefix name path =
     do {
       (p1, n1) \<leftarrow> my_strlcpy path root_prefix PATH_MAX;
       if n1 < PATH_MAX then do {
         (p2, n2) \<leftarrow> my_strlcat p1 name PATH_MAX;
         Some (n2 < PATH_MAX, p2)
       } else Some (False, p1)
     }"

text \<open>
  \<open>so\<close> is \<open>ElfFileSoName\<close>: whether the file has a SONAME, and the buffer for the name after the call.
\<close>

definition GetMappingEffectiveNameAndPath ::
  "(bytes \<Rightarrow> bool \<times> bytes) \<Rightarrow> mapping_info \<Rightarrow> bytes \<Rightarrow> bytes \<Rightarrow> (bytes \<times> bytes) option" where
  "GetMappingEffectiveNameAndPath so m file_path0 file_name0 =
     do {
       (file_path, _) \<leftarrow> my_strlcpy file_path0 (mi_name m) (length file_path0);
       let (found, file_name) = so file_name0;
       slash \<leftarrow> my_strrchr file_path 47;
       if \<not> found then do {
         (file_name', _) \<leftarrow> my_strlcpy file_name (case slash of None \<Rightarrow> file_path | Some i \<Rightarrow> drop (i + 1) file_path) (length file_name);
         Some (file_path, file_name')
       } else if mi_exec m \<and> mi_offset m \<noteq> 0 then do {
         l1 \<leftarrow> my_strlen file_path;
         l2 \<leftarrow> my_strlen file_name;
         if l1 + 1 + l2 < length file_path then do {
           (p1, _) \<leftarrow> my_strlcat file_path [47, 0] (length file_path);
           (p2, _) \<leftarrow> my_strlcat p1 file_name (length file_path);
           Some (p2, file_name)
         } else Some (file_path, file_name)
       } else
         (case slash of
            Some i \<Rightarrow> do {
              l1 \<leftarrow> my_strlen file_path;
              l2 \<leftarrow> my_strlen (drop (i + 1) file_path);
              (p, _) \<leftarrow> my_strlcpy_at file_path (i + 1) file_name (length file_path - l1 + l2);
              Some (p, file_name)
            }
          | None \<Rightarrow> do {
              (p, _) \<leftarrow> my_strlcpy file_path file_name (length file_path);
              Some (p, file_name)
            })
     }"

text \<open>
  \<open>HandleDeletedFileInMapping\<close>: \<open>exe_target\<close> is what the link \<^verbatim>\<open>/proc/<pid>/exe\<close> holds and \<open>same_file\<close> whether
  both \<open>stat\<close> calls succeed with the same device and inode.
\<close>

definition HandleDeletedFileInMapping ::
  "bool \<Rightarrow> bytes \<Rightarrow> int \<Rightarrow> bytes option \<Rightarrow> bool \<Rightarrow> bytes \<Rightarrow> (bool \<times> bytes) option" where
  "HandleDeletedFileInMapping sg root_prefix pid exe_target same_file path =
     do {
       let suffix_len = length kDeletedSuffix - 1;
       path_len \<leftarrow> my_strlen path;
       if path_len < suffix_len + 2 then Some (False, path)
       else do {
         c \<leftarrow> my_strncmp sg (drop (path_len - suffix_len) path) kDeletedSuffix suffix_len;
         if c \<noteq> 0 then Some (False, path)
         else do {
           (built, exe_link) \<leftarrow> BuildProcPath (replicate NAME_MAX 0) pid (chars ''exe'' @ [0]);
           if \<not> built then Some (False, path)
           else
             let (linked, name) = SafeReadLink exe_target (replicate NAME_MAX 0)
             in if \<not> linked then Some (False, path)
                else do {
                  (absolute, new_path) \<leftarrow> GetMappingAbsolutePath root_prefix name (replicate PATH_MAX 0);
                  if \<not> absolute then Some (False, path)
                  else do {
                    d \<leftarrow> my_strcmp sg path new_path;
                    if d \<noteq> 0 then Some (False, path)
                    else if same_file then Some (False, path)
                    else if length path < NAME_MAX then None
                    else Some (True, blit path 0 exe_link)
                  }
                }
         }
       }
     }"

section \<open>Names of signals\<close>

text \<open>The cases of the switch, with the values of their constants.\<close>

definition signal_strings :: "(nat \<times> string) list" where
  "signal_strings =
     [(1, ''SIGHUP''), (2, ''SIGINT''), (3, ''SIGQUIT''), (4, ''SIGILL''), (5, ''SIGTRAP''), (6, ''SIGABRT''),
      (7, ''SIGBUS''), (8, ''SIGFPE''), (9, ''SIGKILL''), (10, ''SIGUSR1''), (11, ''SIGSEGV''), (12, ''SIGUSR2''),
      (13, ''SIGPIPE''), (14, ''SIGALRM''), (15, ''SIGTERM''), (16, ''SIGSTKFLT''), (17, ''SIGCHLD''), (18, ''SIGCONT''),
      (19, ''SIGSTOP''), (20, ''SIGTSTP''), (21, ''SIGTTIN''), (22, ''SIGTTOU''), (23, ''SIGURG''), (24, ''SIGXCPU''),
      (25, ''SIGXFSZ''), (26, ''SIGVTALRM''), (27, ''SIGPROF''), (28, ''SIGWINCH''), (29, ''SIGIO''), (30, ''SIGPWR''),
      (31, ''SIGSYS''), (0xffffffff, ''DUMP_REQUESTED'')]"

definition GetCrashSignalString :: "nat \<Rightarrow> string" where
  "GetCrashSignalString crash_signal =
     (case map_of signal_strings crash_signal of None \<Rightarrow> ''UNKNOWN'' | Some s \<Rightarrow> s)"

text \<open>The switch has exactly the codes of the enumeration, each with its own name.\<close>

lemma signal_strings_enum:
  "map (\<lambda>(v, s). (''MD_EXCEPTION_CODE_LIN_'' @ s, v)) signal_strings = MDExceptionCodeLinux"
  by (simp add: signal_strings_def MDExceptionCodeLinux_def)

section \<open>Copies into buffers\<close>

lemma cstr_blit:
  assumes "n + length t < length s" and "0 \<notin> set (take n s)" and "0 \<notin> set t"
  shows "length (blit s n (t @ [0])) = length s" "cstr (blit s n (t @ [0])) = take n s @ t" "nul_terminated (blit s n (t @ [0]))"
proof -
  show len: "length (blit s n (t @ [0])) = length s" using assms(1) by simp
  show "cstr (blit s n (t @ [0])) = take n s @ t"
    using blit_terminated(2) [of n t "length s" s] assms len by simp
  show "nul_terminated (blit s n (t @ [0]))" by (simp add: blit_def)
qed

lemma strlcpy_at_string:
  assumes "nul_terminated s2" and "base + len = length s1" and "0 < len" and "0 \<notin> set (take base s1)"
  shows "\<exists>d. my_strlcpy_at s1 base s2 len = Some (d, length (cstr s2)) \<and> length d = length s1 \<and> nul_terminated d \<and>
    cstr d = take base s1 @ take (len - 1) (cstr s2)"
proof -
  have z: "0 \<notin> set (take (len - 1) (cstr s2))" by (meson in_set_takeD zero_notin_cstr)
  show ?thesis
    using my_strlcpy_at_eq [OF assms(1), of base len s1] cstr_blit [of base "take (len - 1) (cstr s2)" s1, OF _ assms(4) z] assms(2,3)
    by auto
qed

lemma strlcpy_string:
  assumes "nul_terminated s2" and "0 < length s1"
  shows "\<exists>d. my_strlcpy s1 s2 (length s1) = Some (d, length (cstr s2)) \<and> length d = length s1 \<and> nul_terminated d \<and>
    cstr d = take (length s1 - 1) (cstr s2)"
  using strlcpy_at_string [OF assms(1), of 0 "length s1" s1] assms(2) by (simp add: my_strlcpy_def)

lemma strlcat_string:
  assumes "nul_terminated s2" and "nul_terminated s1"
  shows "\<exists>d. my_strlcat s1 s2 (length s1) = Some (d, length (cstr s1) + length (cstr s2)) \<and> length d = length s1 \<and>
    nul_terminated d \<and> cstr d = take (length s1 - 1) (cstr s1 @ cstr s2)"
proof -
  let ?n = "length (cstr s1)" and ?t = "take (length s1 - length (cstr s1) - 1) (cstr s2)"
  have n: "?n < length s1" by (rule length_cstr_less [OF assms(2)])
  have z: "0 \<notin> set ?t" by (meson in_set_takeD zero_notin_cstr)
  have "take ?n s1 = cstr s1" by (rule take_length_cstr)
  then show ?thesis
    using my_strlcat_eq [OF assms(1), of "length s1" s1] n cstr_blit [of ?n ?t s1, OF _ _ z] by (auto simp: Let_def)
qed

section \<open>Names of modules\<close>

definition base_name :: "bytes \<Rightarrow> bytes" where
  "base_name p = rev (takeWhile (\<lambda>c. c \<noteq> 47) (rev p))"

definition dir_part :: "bytes \<Rightarrow> bytes" where
  "dir_part p = take (length p - length (base_name p)) p"

lemma base_name_dir:
  "dir_part p @ base_name p = p" "47 \<in> set p \<longleftrightarrow> dir_part p \<noteq> []" "length (dir_part p) = length p - length (base_name p)"
proof -
  have "rev p = takeWhile (\<lambda>c. c \<noteq> 47) (rev p) @ dropWhile (\<lambda>c. c \<noteq> 47) (rev p)" by simp
  then have p: "p = rev (dropWhile (\<lambda>c. c \<noteq> 47) (rev p)) @ base_name p"
    unfolding base_name_def by (metis rev_append rev_rev_ident)
  then have d: "dir_part p = rev (dropWhile (\<lambda>c. c \<noteq> 47) (rev p))"
    unfolding dir_part_def by (metis append_eq_conv_conj diff_add_inverse2 length_append)
  then show "dir_part p @ base_name p = p" using p by simp
  show "47 \<in> set p \<longleftrightarrow> dir_part p \<noteq> []" unfolding d by (auto simp: dropWhile_eq_Nil_conv)
  show "length (dir_part p) = length p - length (base_name p)" by (simp add: dir_part_def)
qed

lemma my_strrchr_slash:
  assumes "nul_terminated b"
  shows "my_strrchr b 47 = Some (if dir_part (cstr b) = [] then None else Some (length (dir_part (cstr b)) - 1))"
  using my_strrchr_from_eq [OF assms, of 47 0 None] base_name_dir [of "cstr b"]
  by (auto simp: my_strrchr_def base_name_def)

lemma nul_terminated_drop:
  assumes "nul_terminated b" and "n \<le> length (cstr b)"
  shows "nul_terminated (drop n b) \<and> cstr (drop n b) = drop n (cstr b)"
proof -
  obtain s u where u: "b = s @ 0 # u" "cstr b = s" using assms(1) by (rule nul_terminated_split) metis
  have "0 \<notin> set (drop n s)" using u(2) by (metis in_set_dropD zero_notin_cstr)
  moreover have "n \<le> length s" using assms(2) u(2) by simp
  ultimately show ?thesis unfolding u(2) by (simp add: u(1) cstr_terminated)
qed

lemma strlcpy_base_name:
  assumes "nul_terminated fp"
  defines "src \<equiv> (if dir_part (cstr fp) = [] then fp else drop (length (dir_part (cstr fp))) fp)"
  shows "nul_terminated src" and "cstr src = base_name (cstr fp)"
proof -
  note bd = base_name_dir [of "cstr fp"]
  have l: "length (dir_part (cstr fp)) \<le> length (cstr fp)" by (simp add: dir_part_def)
  have "drop (length (dir_part (cstr fp))) (cstr fp) = base_name (cstr fp)" using bd(1) by (metis append_eq_conv_conj)
  moreover have "dir_part (cstr fp) = [] \<Longrightarrow> base_name (cstr fp) = cstr fp" using bd(1) by (metis append_Nil)
  ultimately show "nul_terminated src" "cstr src = base_name (cstr fp)"
    using nul_terminated_drop [OF assms(1) l] assms(1) by (simp_all add: src_def)
qed

lemma GetMappingEffectiveNameAndPath_result:
  assumes "nul_terminated (mi_name m)" and "0 < length file_path" and "0 < length file_name"
    and "so file_name = (found, fname)" and "length fname = length file_name" and "nul_terminated fname"
    and "path = take (length file_path - 1) (cstr (mi_name m))"
  shows "\<exists>p n. GetMappingEffectiveNameAndPath so m file_path file_name = Some (p, n) \<and>
    length p = length file_path \<and> length n = length file_name \<and> nul_terminated p \<and> nul_terminated n \<and>
    cstr n = (if found then cstr fname else take (length file_name - 1) (base_name path)) \<and>
    cstr p = (if \<not> found then path
      else if mi_exec m \<and> mi_offset m \<noteq> 0 then
        (if length path + 1 + length (cstr fname) < length file_path then path @ 47 # cstr fname else path)
      else take (length file_path - 1) (dir_part path @ cstr fname))"
proof -
  obtain fp where fp: "my_strlcpy file_path (mi_name m) (length file_path) = Some (fp, length (cstr (mi_name m)))"
    "length fp = length file_path" "nul_terminated fp" "cstr fp = path"
    using strlcpy_string [OF assms(1,2)] assms(7) by blast
  note sl = my_strrchr_slash [OF fp(3), unfolded fp(4)] and bd = base_name_dir [of path]
  have lp: "length path < length file_path" using length_cstr_less [OF fp(3)] fp by simp
  consider (plain) "\<not> found" | (archive) "found" "mi_exec m \<and> mi_offset m \<noteq> 0" | (lib) "found" "\<not> (mi_exec m \<and> mi_offset m \<noteq> 0)"
    by blast
  then show ?thesis
  proof cases
    case plain
    let ?src = "if dir_part path = [] then fp else drop (length (dir_part path)) fp"
    note src = strlcpy_base_name [OF fp(3), unfolded fp(4)]
    have "0 < length fname" using assms(3,5) by simp
    from strlcpy_string [OF src(1) this] obtain n where
      "my_strlcpy fname ?src (length fname) = Some (n, length (cstr ?src))" "length n = length fname" "nul_terminated n"
      "cstr n = take (length fname - 1) (base_name path)" using src(2) by auto
    then show ?thesis
      using plain fp(1-4) sl assms(4,5) by (auto simp: GetMappingEffectiveNameAndPath_def Let_def split: if_splits)
  next
    case archive
    show ?thesis
    proof (cases "length path + 1 + length (cstr fname) < length fp")
      case True
      have "nul_terminated [47, 0]" by simp
      from strlcat_string [OF this fp(3)] obtain p1 where p1: "my_strlcat fp [47, 0] (length fp) = Some (p1, length path + 1)"
        "length p1 = length fp" "nul_terminated p1" "cstr p1 = path @ [47]" using True fp(4) by auto
      from strlcat_string [OF assms(6) p1(3)] obtain p2 where p2:
        "my_strlcat p1 fname (length fp) = Some (p2, length path + 1 + length (cstr fname))"
        "length p2 = length fp" "nul_terminated p2" "cstr p2 = path @ 47 # cstr fname" using True p1(2,4) by auto
      show ?thesis
        using archive True fp sl assms(4-6) p1 p2
        by (simp add: GetMappingEffectiveNameAndPath_def Let_def my_strlen_eq)
    next
      case False
      then show ?thesis
        using archive fp sl assms(4-6) by (simp add: GetMappingEffectiveNameAndPath_def Let_def my_strlen_eq)
    qed
  next
    case lib
    then have c: "(mi_exec m \<and> mi_offset m \<noteq> 0) = False" by simp
    show ?thesis
    proof (cases "dir_part path = []")
      case True
      have "0 < length fp" using assms(2) fp(2) by simp
      from strlcpy_string [OF assms(6) this] obtain p where "my_strlcpy fp fname (length fp) = Some (p, length (cstr fname))"
        "length p = length fp" "nul_terminated p" "cstr p = take (length fp - 1) (cstr fname)" by auto
      then show ?thesis
        using lib(1) True fp sl assms(4-6) by (auto simp: GetMappingEffectiveNameAndPath_def Let_def c)
    next
      case False
      let ?i = "length (dir_part path)"
      have i: "0 < ?i" "?i \<le> length path" using False by (simp_all add: dir_part_def)
      then have si: "Suc (?i - 1) = ?i" by simp
      have b: "nul_terminated (drop ?i fp)" "length (cstr (drop ?i fp)) = length path - ?i"
        using nul_terminated_drop [OF fp(3), of ?i] i(2) fp(4) by auto
      have t: "take ?i fp = dir_part path"
        using take_length_cstr [of fp] fp(4) i(2) bd(1) by (metis append_eq_conv_conj min.absorb1 take_take)
      then have z: "0 \<notin> set (take ?i fp)" using bd(1) fp(4) by (metis Un_iff set_append zero_notin_cstr)
      have len: "?i + (length fp - length path + (length path - ?i)) = length fp" "0 < length fp - length path + (length path - ?i)"
        using i lp fp(2) by auto
      from strlcpy_at_string [OF assms(6) len z] obtain p where p:
        "my_strlcpy_at fp ?i fname (length fp - length path + (length path - ?i)) = Some (p, length (cstr fname))"
        "length p = length fp" "nul_terminated p"
        "cstr p = dir_part path @ take (length fp - length path + (length path - ?i) - 1) (cstr fname)" using t by auto
      have "cstr p = take (length fp - 1) (dir_part path @ cstr fname)"
        using p(4) len i lp fp(2) by simp
      then show ?thesis
        using lib(1) False fp sl assms(4-6) p(1-3) b si
        by (simp add: GetMappingEffectiveNameAndPath_def Let_def my_strlen_eq c)
    qed
  qed
qed

text \<open>
  C30. The name and the path of a module are written inside their buffers, terminated, and are what the comments of the source
  say: without a SONAME the file name is the last component of the path; with a SONAME, the path of an
  executable part inside an archive gets the SONAME as a further component if it fits, and otherwise the last component of
  the path is replaced by the SONAME.
\<close>

theorem GetMappingEffectiveNameAndPath_correct:
  assumes "nul_terminated (mi_name m)" and "0 < length file_path" and "0 < length file_name"
    and "so file_name = (found, fname)" and "length fname = length file_name" and "nul_terminated fname"
    and "path = take (length file_path - 1) (cstr (mi_name m))"
  shows "\<exists>p n. GetMappingEffectiveNameAndPath so m file_path file_name = Some (p, n) \<and>
    length p = length file_path \<and> length n = length file_name \<and> nul_terminated p \<and> nul_terminated n \<and>
    cstr n = (if found then cstr fname else take (length file_name - 1) (base_name path)) \<and>
    cstr p = (if \<not> found then path
      else if mi_exec m \<and> mi_offset m \<noteq> 0 then
        (if length path + 1 + length (cstr fname) < length file_path then path @ 47 # cstr fname else path)
      else take (length file_path - 1) (dir_part path @ cstr fname))"
  using assms by (rule GetMappingEffectiveNameAndPath_result)

theorem GetMappingEffectiveNameAndPath_correct_witness:
  "\<exists>p n. GetMappingEffectiveNameAndPath (\<lambda>b. (True, [99, 46, 115, 111, 0, 0]))
       ((sample_mapping 0x10000 0x20000 True)\<lparr>mi_name := [47, 97, 47, 98, 0]\<rparr>) (replicate 12 0) (replicate 6 0) = Some (p, n) \<and>
     cstr p = [47, 97, 47, 99, 46, 115, 111] \<and> cstr n = [99, 46, 115, 111]"
proof -
  have "dir_part [47, 97, 47, 98] = [47, 97, 47]" by (simp add: dir_part_def base_name_def)
  then show ?thesis
    using GetMappingEffectiveNameAndPath_correct [of "(sample_mapping 0x10000 0x20000 True)\<lparr>mi_name := [47, 97, 47, 98, 0]\<rparr>"
        "replicate 12 0" "replicate 6 0" "\<lambda>b. (True, [99, 46, 115, 111, 0, 0])" True "[99, 46, 115, 111, 0, 0]" "[47, 97, 47, 98]"]
    by (auto simp: sample_mapping_def)
qed

text \<open>The other paths of the dumper are written inside their buffers too.\<close>

lemma GetMappingAbsolutePath_correct:
  assumes "nul_terminated root" and "nul_terminated name" and "length path = PATH_MAX"
  shows "\<exists>p. GetMappingAbsolutePath root name path = Some (length (cstr root) + length (cstr name) < PATH_MAX, p) \<and>
    length p = PATH_MAX \<and> nul_terminated p \<and> cstr p = take (PATH_MAX - 1) (if length (cstr root) < PATH_MAX then cstr root @ cstr name else cstr root)"
proof -
  obtain p1 where p1: "my_strlcpy path root PATH_MAX = Some (p1, length (cstr root))" "length p1 = PATH_MAX" "nul_terminated p1"
    "cstr p1 = take (PATH_MAX - 1) (cstr root)"
    using strlcpy_string [OF assms(1), of path] assms(3) by (auto simp: PATH_MAX_def)
  from strlcat_string [OF assms(2) p1(3)] obtain p2 where p2: "my_strlcat p1 name PATH_MAX = Some (p2, length (cstr p1) + length (cstr name))"
    "length p2 = PATH_MAX" "nul_terminated p2" "cstr p2 = take (PATH_MAX - 1) (cstr p1 @ cstr name)"
    using p1(2) by auto
  show ?thesis
    using p1 p2 by (cases "length (cstr root) < PATH_MAX") (auto simp: GetMappingAbsolutePath_def)
qed

lemma split_two:
  assumes "n + 2 \<le> length r"
  obtains x r1 y r2 where "r = x # r1 @ y # r2" "length r1 = n"
proof -
  obtain x t where r: "r = x # t" using assms by (cases r) auto
  then have n: "n < length t" using assms by simp
  have "r = x # take n t @ t ! n # drop (Suc n) t" using r id_take_nth_drop [OF n] by simp
  then show thesis using that n by simp
qed

lemma BuildProcPath_correct:
  assumes "nul_terminated node" and "cstr node \<noteq> []" and "0 < pid" and "length path = NAME_MAX"
    and "6 + my_uint_len (nat pid) + 1 + length (cstr node) < NAME_MAX"
  shows "\<exists>p. BuildProcPath path pid node = Some (True, p) \<and> length p = NAME_MAX \<and>
    cstr p = chars ''/proc/'' @ dec_digits (my_uint_len (nat pid)) (nat pid) @ 47 # cstr node"
proof -
  define k where "k = my_uint_len (nat pid)"
  define d where "d = dec_digits k (nat pid)"
  define pre where "pre = chars ''/proc/''"
  have ld: "length d = k" "length pre = 6" by (simp_all add: d_def pre_def chars_def)
  have "length (cstr node) + 2 \<le> length (drop (6 + k) path)" using assms(4,5) by (simp add: k_def)
  then obtain x r1 y r2 where r: "drop (6 + k) path = x # r1 @ y # r2" "length r1 = length (cstr node)" by (rule split_two)
  have p1: "blit path 0 pre = pre @ drop 6 path" using ld by (simp add: blit_def)
  have "k \<le> length (drop 6 path)" using assms(4,5) by (simp add: k_def)
  then have u: "my_uitos (drop 6 path) (nat pid) k = Some (d @ x # r1 @ y # r2)"
    using my_uitos_eq [of k "drop 6 path" "nat pid"] r(1) by (simp add: d_def add.commute)
  let ?p5 = "pre @ d @ 47 # cstr node @ 0 # r2"
  have w3: "wr (pre @ d @ x # r1 @ y # r2) (6 + k) 47 = Some (pre @ d @ 47 # r1 @ y # r2)"
    using ld by (simp add: wr_def list_update_append)
  have w4: "blit (pre @ d @ 47 # r1 @ y # r2) (6 + k + 1) (cstr node) = pre @ d @ 47 # cstr node @ y # r2"
    using ld r(2) by (simp add: blit_def)
  have w5: "wr (pre @ d @ 47 # cstr node @ y # r2) (6 + k + 1 + length (cstr node)) 0 = Some ?p5"
    using ld by (simp add: wr_def list_update_append)
  have "BuildProcPath path pid node = Some (True, ?p5)"
    using assms(1-3,5) ld p1 u w3 w4 w5 take_length_cstr [of node]
    by (simp add: BuildProcPath_def Let_def my_strlen_eq flip: k_def pre_def)
  moreover have "length ?p5 = NAME_MAX" using arg_cong [OF r(1), of length] r(2) ld assms(4,5) by (simp add: k_def)
  moreover have "cstr ?p5 = pre @ d @ 47 # cstr node"
  proof -
    have "0 \<notin> set d" unfolding d_def using dec_digits_are_digits zero_notin_digits by blast
    then have "0 \<notin> set (pre @ d @ 47 # cstr node)" by (simp add: pre_def chars_def)
    then show ?thesis using cstr_terminated [of "pre @ d @ 47 # cstr node" r2] by simp
  qed
  ultimately show ?thesis by (auto simp: pre_def d_def k_def)
qed

end
