(* ===== verification/Exception_Handler.thy ===== *)
theory Exception_Handler
  imports Linux_Dumper String_Dictionary
begin

text \<open>
  \<^verbatim>\<open>client/linux/handler/exception_handler.cc\<close> with \<^verbatim>\<open>minidump_descriptor.cc\<close> and the client of out-of-process
  generation (\<^verbatim>\<open>client/linux/crash_generation/crash_generation_client.cc\<close>), as compiled for Android: the stack of
  exception handlers, the installation of the signal handlers and of the alternate stack, and what
  happens when a signal arrives.

  The kernel and the globals of the source are one record. \<open>sigaction\<close>, \<open>sigaltstack\<close> and \<open>tgkill\<close> take the next element
  of a schedule of failures (an exhausted schedule means success); the direct system call \<open>rt_sigaction\<close> of
  \<open>InstallDefaultHandler\<close>, whose documented errors are impossible with its arguments and whose result the source ignores,
  succeeds. Callbacks are what they return. The
  mutex serialises the operations; each operation below is one critical section.
\<close>

section \<open>Signals, stacks and descriptors\<close>

datatype sa_action = SIG_DFL | SIG_IGN | Breakpad_SignalHandler | Foreign nat

record sigaction =
  sa_handler :: sa_action
  sa_mask :: "nat list"
  sa_flags :: u32

definition SA_SIGINFO :: u32 where "SA_SIGINFO = 4"
definition SA_ONSTACK :: u32 where "SA_ONSTACK = 0x08000000"
definition SA_RESTART :: u32 where "SA_RESTART = 0x10000000"
definition SIGABRT :: nat where "SIGABRT = 6"
definition SI_USER :: int where "SI_USER = 0"
definition SI_TKILL :: int where "SI_TKILL = -6"

text \<open>SIGSEGV, SIGABRT, SIGFPE, SIGILL, SIGBUS and SIGTRAP.\<close>

definition kExceptionSignals :: "nat list" where
  "kExceptionSignals = [11, SIGABRT, 8, 4, 7, 5]"

record stack_t =
  ss_sp :: u64
  ss_size :: nat
  ss_flags :: u32

definition SS_DISABLE :: u32 where "SS_DISABLE = 2"

definition no_stack :: stack_t where
  "no_stack = \<lparr>ss_sp = 0, ss_size = 0, ss_flags = SS_DISABLE\<rparr>"

definition zero_stack :: stack_t where
  "zero_stack = \<lparr>ss_sp = 0, ss_size = 0, ss_flags = 0\<rparr>"

definition kSigStackSize :: nat where "kSigStackSize = max 16384 8192"

record siginfo =
  si_code :: int
  si_pid :: int

text \<open>The kernel and the globals. \<open>eh_alt\<close> is the alternate stack of each thread, \<open>eh_heap\<close> the blocks that are allocated.\<close>

record eh_world =
  eh_actions :: "nat \<Rightarrow> sigaction"
  eh_alt :: "nat \<Rightarrow> stack_t"
  eh_faults :: "bool list"
  eh_heap :: "u64 list"
  eh_old_handlers :: "sigaction list"
  eh_handlers_installed :: bool
  eh_old_stack :: stack_t
  eh_new_stack :: stack_t
  eh_stack_installed :: bool
  eh_handler_stack :: "nat list option"

definition faulty :: "eh_world \<Rightarrow> bool" where
  "faulty s = (case eh_faults s of [] \<Rightarrow> False | b # _ \<Rightarrow> b)"

definition tick :: "eh_world \<Rightarrow> eh_world" where
  "tick s = s\<lparr>eh_faults := tl (eh_faults s)\<rparr>"

definition sigaction_get :: "nat \<Rightarrow> eh_world \<Rightarrow> sigaction option \<times> eh_world" where
  "sigaction_get sig s = (if faulty s then None else Some (eh_actions s sig), tick s)"

definition sigaction_set :: "nat \<Rightarrow> sigaction \<Rightarrow> eh_world \<Rightarrow> bool \<times> eh_world" where
  "sigaction_set sig sa s =
     (if faulty s then (False, tick s)
      else (True, (tick s)\<lparr>eh_actions := (eh_actions s)(sig := sa)\<rparr>))"

definition sigaltstack_get :: "nat \<Rightarrow> eh_world \<Rightarrow> stack_t option \<times> eh_world" where
  "sigaltstack_get tid s = (if faulty s then None else Some (eh_alt s tid), tick s)"

definition sigaltstack_set :: "nat \<Rightarrow> stack_t \<Rightarrow> eh_world \<Rightarrow> bool \<times> eh_world" where
  "sigaltstack_set tid st s =
     (if faulty s then (False, tick s)
      else (True, (tick s)\<lparr>eh_alt := (eh_alt s)(tid := (if ss_flags st = SS_DISABLE then no_stack else st))\<rparr>))"

definition heap_calloc :: "u64 \<Rightarrow> eh_world \<Rightarrow> eh_world" where
  "heap_calloc a s = (if a = 0 then s else s\<lparr>eh_heap := a # eh_heap s\<rparr>)"

definition heap_free :: "u64 \<Rightarrow> eh_world \<Rightarrow> eh_world" where
  "heap_free a s = (if a = 0 then s else s\<lparr>eh_heap := remove1 a (eh_heap s)\<rparr>)"

section \<open>The alternate stack\<close>

text \<open>\<open>addr\<close> is the block that \<open>calloc\<close> returns, 0 for none.\<close>

definition InstallAlternateStackLocked :: "nat \<Rightarrow> u64 \<Rightarrow> eh_world \<Rightarrow> eh_world" where
  "InstallAlternateStackLocked tid addr s =
     (if eh_stack_installed s then s
      else
        let (old, s1) = sigaltstack_get tid s;
            s2 = s1\<lparr>eh_old_stack := (case old of None \<Rightarrow> zero_stack | Some st \<Rightarrow> st), eh_new_stack := zero_stack\<rparr>
        in if old = None \<or> ss_sp (eh_old_stack s2) = 0 \<or> ss_size (eh_old_stack s2) < kSigStackSize then
             let s3 = (heap_calloc addr s2)\<lparr>eh_new_stack := \<lparr>ss_sp = addr, ss_size = kSigStackSize, ss_flags = 0\<rparr>\<rparr>;
                 (ok, s4) = sigaltstack_set tid (eh_new_stack s3) s3
             in if \<not> ok then heap_free (ss_sp (eh_new_stack s4)) s4
                else s4\<lparr>eh_stack_installed := True\<rparr>
           else s2)"

definition RestoreAlternateStackLocked :: "nat \<Rightarrow> eh_world \<Rightarrow> eh_world" where
  "RestoreAlternateStackLocked tid s =
     (if \<not> eh_stack_installed s then s
      else case sigaltstack_get tid s of
        (None, s1) \<Rightarrow> s1
      | (Some current, s1) \<Rightarrow>
          let (ok, s2) =
            (if ss_sp current = ss_sp (eh_new_stack s1) then
               if ss_sp (eh_old_stack s1) \<noteq> 0 then sigaltstack_set tid (eh_old_stack s1) s1
               else sigaltstack_set tid no_stack s1
             else (True, s1))
          in if \<not> ok then s2
             else (heap_free (ss_sp (eh_new_stack s2)) s2)\<lparr>eh_stack_installed := False\<rparr>)"

section \<open>The signal handlers\<close>

definition default_action :: sigaction where
  "default_action = \<lparr>sa_handler = SIG_DFL, sa_mask = [], sa_flags = SA_RESTART\<rparr>"

definition InstallDefaultHandler :: "nat \<Rightarrow> eh_world \<Rightarrow> eh_world" where
  "InstallDefaultHandler sig s = s\<lparr>eh_actions := (eh_actions s)(sig := default_action)\<rparr>"

text \<open>The first loop of \<open>InstallHandlersLocked\<close>: saving the old handlers, from index \<open>i\<close>.\<close>

fun save_handlers :: "nat list \<Rightarrow> nat \<Rightarrow> eh_world \<Rightarrow> bool \<times> eh_world" where
  "save_handlers [] i s = (True, s)"
| "save_handlers (sig # sigs) i s =
     (case sigaction_get sig s of
        (None, s1) \<Rightarrow> (False, s1)
      | (Some sa, s1) \<Rightarrow> save_handlers sigs (Suc i) (s1\<lparr>eh_old_handlers := (eh_old_handlers s1)[i := sa]\<rparr>))"

definition breakpad_action :: "nat list \<Rightarrow> sigaction" where
  "breakpad_action sigs = \<lparr>sa_handler = Breakpad_SignalHandler, sa_mask = sigs, sa_flags = SA_ONSTACK OR SA_SIGINFO\<rparr>"

text \<open>The second loop; a failure is ignored.\<close>

fun set_handlers :: "nat list \<Rightarrow> eh_world \<Rightarrow> eh_world" where
  "set_handlers [] s = s"
| "set_handlers (sig # sigs) s =
     set_handlers sigs (snd (sigaction_set sig (breakpad_action kExceptionSignals) s))"

definition InstallHandlersLocked :: "eh_world \<Rightarrow> bool \<times> eh_world" where
  "InstallHandlersLocked s =
     (if eh_handlers_installed s then (False, s)
      else case save_handlers kExceptionSignals 0 s of
        (False, s1) \<Rightarrow> (False, s1)
      | (True, s1) \<Rightarrow> (True, (set_handlers kExceptionSignals s1)\<lparr>eh_handlers_installed := True\<rparr>))"

fun restore_handlers :: "nat list \<Rightarrow> nat \<Rightarrow> eh_world \<Rightarrow> eh_world" where
  "restore_handlers [] i s = s"
| "restore_handlers (sig # sigs) i s =
     (case sigaction_set sig (eh_old_handlers s ! i) s of
        (True, s1) \<Rightarrow> restore_handlers sigs (Suc i) s1
      | (False, s1) \<Rightarrow> restore_handlers sigs (Suc i) (InstallDefaultHandler sig s1))"

definition RestoreHandlersLocked :: "eh_world \<Rightarrow> eh_world" where
  "RestoreHandlersLocked s =
     (if \<not> eh_handlers_installed s then s
      else (restore_handlers kExceptionSignals 0 s)\<lparr>eh_handlers_installed := False\<rparr>)"

section \<open>Construction and destruction\<close>

definition push_handler :: "nat \<Rightarrow> eh_world \<Rightarrow> eh_world" where
  "push_handler h s = s\<lparr>eh_handler_stack := map_option (\<lambda>hs. hs @ [h]) (eh_handler_stack s)\<rparr>"

definition ExceptionHandler :: "nat \<Rightarrow> u64 \<Rightarrow> nat \<Rightarrow> bool \<Rightarrow> eh_world \<Rightarrow> eh_world" where
  "ExceptionHandler tid addr h install_handler s =
     (let s1 = (if eh_handler_stack s = None then s\<lparr>eh_handler_stack := Some []\<rparr> else s);
          s2 = (if install_handler then snd (InstallHandlersLocked (InstallAlternateStackLocked tid addr s1)) else s1)
      in push_handler h s2)"

text \<open>\<open>None\<close>: the handler stack is NULL, or the handler is not in it (\<open>erase\<close> of the end iterator).\<close>

definition Destroy_ExceptionHandler :: "nat \<Rightarrow> nat \<Rightarrow> eh_world \<Rightarrow> eh_world option" where
  "Destroy_ExceptionHandler tid h s =
     (case eh_handler_stack s of
        None \<Rightarrow> None
      | Some hs \<Rightarrow>
          if h \<notin> set hs then None
          else
            let s1 = s\<lparr>eh_handler_stack := Some (remove1 h hs)\<rparr>
            in if remove1 h hs = [] then
                 Some (RestoreHandlersLocked (RestoreAlternateStackLocked tid (s1\<lparr>eh_handler_stack := None\<rparr>)))
               else Some s1)"

section \<open>The descriptor of a dump\<close>

datatype dump_mode = kUninitialized | kWriteMinidumpToFile | kWriteMinidumpToFd | kWriteMicrodumpToConsole

record descriptor =
  d_mode :: dump_mode
  d_fd :: int
  d_directory :: string
  d_path :: string
  d_c_path :: "string option"
  d_size_limit :: int
  d_address_within_principal_mapping :: u64
  d_skip_dump :: bool
  d_sanitize_stacks :: bool

definition MinidumpDescriptor_dir :: "string \<Rightarrow> descriptor" where
  "MinidumpDescriptor_dir directory =
     \<lparr>d_mode = kWriteMinidumpToFile, d_fd = -1, d_directory = directory, d_path = [], d_c_path = None,
      d_size_limit = -1, d_address_within_principal_mapping = 0, d_skip_dump = False, d_sanitize_stacks = False\<rparr>"

definition MinidumpDescriptor_fd :: "int \<Rightarrow> descriptor" where
  "MinidumpDescriptor_fd fd =
     \<lparr>d_mode = kWriteMinidumpToFd, d_fd = fd, d_directory = [], d_path = [], d_c_path = None,
      d_size_limit = -1, d_address_within_principal_mapping = 0, d_skip_dump = False, d_sanitize_stacks = False\<rparr>"

definition MinidumpDescriptor_copy :: "descriptor \<Rightarrow> descriptor" where
  "MinidumpDescriptor_copy d = d\<lparr>d_path := [], d_c_path := None\<rparr>"

definition IsFD :: "descriptor \<Rightarrow> bool" where
  "IsFD d \<longleftrightarrow> d_mode d = kWriteMinidumpToFd"

definition IsMicrodumpOnConsole :: "descriptor \<Rightarrow> bool" where
  "IsMicrodumpOnConsole d \<longleftrightarrow> d_mode d = kWriteMicrodumpToConsole"

text \<open>\<open>guid\<close> is the string of the identifier that \<open>CreateGUID\<close> makes up.\<close>

definition UpdatePath :: "string \<Rightarrow> descriptor \<Rightarrow> descriptor" where
  "UpdatePath guid d =
     (let path = d_directory d @ ''/'' @ guid @ ''.dmp''
      in d\<lparr>d_path := path, d_c_path := Some path\<rparr>)"

definition assign_descriptor :: "string \<Rightarrow> descriptor \<Rightarrow> descriptor \<Rightarrow> descriptor" where
  "assign_descriptor guid this d =
     (let d1 = this\<lparr>d_mode := d_mode d, d_fd := d_fd d, d_directory := d_directory d, d_path := []\<rparr>;
          d2 = (if d_c_path d1 \<noteq> None then UpdatePath guid (d1\<lparr>d_c_path := None\<rparr>) else d1)
      in d2\<lparr>d_size_limit := d_size_limit d,
            d_address_within_principal_mapping := d_address_within_principal_mapping d,
            d_skip_dump := d_skip_dump d, d_sanitize_stacks := d_sanitize_stacks d\<rparr>)"

section \<open>A handler and its dumps\<close>

text \<open>
  The system calls and callbacks of a handler, as the trace of what it does. \<open>None\<close> is a NULL callback, \<open>Some b\<close> one
  that returns \<open>b\<close>.
\<close>

datatype call =
    Prctl_dumpable | Prctl_ptracer int
  | Pipe int int | Close int | WriteByte int | ReadByte int
  | Clone int | WaitChild int | SendMsg int int
  | Crash_handler | Callback bool | Dump

record app_memory =
  am_ptr :: u64
  am_length :: u64

record handler =
  h_filter :: "bool option"
  h_callback :: "(bool \<Rightarrow> bool) option"
  h_crash_handler :: "bool option"
  h_server_fd :: "int option"
  h_descriptor :: descriptor
  h_mapping_list :: "(mapping_info \<times> bytes) list"
  h_app_memory_list :: "app_memory list"

definition IsOutOfProcess :: "handler \<Rightarrow> bool" where
  "IsOutOfProcess h \<longleftrightarrow> h_server_fd h \<noteq> None"

text \<open>
  What the kernel answers during a dump: the process, whether the stack of the child could be allocated, the two
  ends of a pipe, the child (\<open>-1\<close> for an error), the status \<open>waitpid\<close> reports, and whether a message could be sent.
\<close>

record dump_env =
  de_pid :: int
  de_stack :: bool
  de_pipe :: "(int \<times> int) option"
  de_child :: int
  de_wait :: "nat option"
  de_send :: bool

definition WIFEXITED :: "nat \<Rightarrow> bool" where "WIFEXITED status \<longleftrightarrow> status mod 128 = 0"
definition WEXITSTATUS :: "nat \<Rightarrow> nat" where "WEXITSTATUS status = status div 256 mod 256"

text \<open>\<open>TryCreate\<close> and \<open>RequestDump\<close> of the client of a crash server.\<close>

definition TryCreate :: "int \<Rightarrow> int option" where
  "TryCreate server_fd = (if server_fd < 0 then None else Some server_fd)"

definition RequestDump :: "int \<Rightarrow> dump_env \<Rightarrow> bool \<times> call list" where
  "RequestDump server_fd e =
     (case de_pipe e of
        None \<Rightarrow> (False, [])
      | Some (fd0, fd1) \<Rightarrow>
          if \<not> de_send e then (False, [Pipe fd0 fd1, SendMsg server_fd fd1, Close fd1, Close fd0])
          else (True, [Pipe fd0 fd1, SendMsg server_fd fd1, Close fd1, ReadByte fd0, Close fd0]))"

text \<open>What the parent does after \<open>clone\<close>, and what the child does; both know the ends of the pipe.\<close>

definition parent_calls :: "int \<Rightarrow> int \<Rightarrow> int \<Rightarrow> call list" where
  "parent_calls fd0 fd1 child = [Close fd0, Prctl_ptracer child, WriteByte fd1, WaitChild child, Close fd1]"

definition ThreadEntry :: "int \<Rightarrow> int \<Rightarrow> call list" where
  "ThreadEntry fd0 fd1 = [Close fd1, ReadByte fd0, Close fd0, Dump]"

definition GenerateDump :: "handler \<Rightarrow> dump_env \<Rightarrow> bool \<times> call list" where
  "GenerateDump h e =
     (case h_server_fd h of
        Some server_fd \<Rightarrow> RequestDump server_fd e
      | None \<Rightarrow>
          if \<not> de_stack e then (False, [])
          else
            let (fd0, fd1, opened) = (case de_pipe e of None \<Rightarrow> (-1, -1, []) | Some (a, b) \<Rightarrow> (a, b, [Pipe a b]))
            in if de_child e = -1 then (False, opened @ [Clone (-1), Close fd0, Close fd1])
               else
                 let calls = opened @ [Clone (de_child e)] @ parent_calls fd0 fd1 (de_child e);
                     success = (case de_wait e of None \<Rightarrow> False | Some status \<Rightarrow> WIFEXITED status \<and> WEXITSTATUS status = 0)
                 in case h_callback h of
                      None \<Rightarrow> (success, calls)
                    | Some f \<Rightarrow> (f success, calls @ [Callback success]))"

definition HandleSignal :: "handler \<Rightarrow> dump_env \<Rightarrow> siginfo \<Rightarrow> bool \<times> call list" where
  "HandleSignal h e info =
     (if h_filter h = Some False then (False, [])
      else
        let signal_trusted = (0 < si_code info);
            signal_pid_trusted = (si_code info = SI_USER \<or> si_code info = SI_TKILL);
            c1 = (if signal_trusted \<or> signal_pid_trusted \<and> si_pid info = de_pid e then [Prctl_dumpable] else [])
        in case h_crash_handler h of
             None \<Rightarrow> (let (r, cs) = GenerateDump h e in (r, c1 @ cs))
           | Some True \<Rightarrow> (True, c1 @ [Crash_handler])
           | Some False \<Rightarrow> (let (r, cs) = GenerateDump h e in (r, c1 @ Crash_handler # cs)))"

definition SimulateSignalDelivery :: "handler \<Rightarrow> dump_env \<Rightarrow> bool \<times> call list" where
  "SimulateSignalDelivery h e = HandleSignal h e \<lparr>si_code = SI_USER, si_pid = de_pid e\<rparr>"

text \<open>Which writer the child calls, with the arguments taken from the descriptor.\<close>

datatype dump_target =
    WriteMicrodump bool u64 bool
  | WriteMinidump_fd int int bool u64 bool
  | WriteMinidump_path "string option" int bool u64 bool

definition DoDump :: "descriptor \<Rightarrow> dump_target" where
  "DoDump d =
     (if IsMicrodumpOnConsole d then
        WriteMicrodump (d_skip_dump d) (d_address_within_principal_mapping d) (d_sanitize_stacks d)
      else if IsFD d then
        WriteMinidump_fd (d_fd d) (d_size_limit d) (d_skip_dump d) (d_address_within_principal_mapping d) (d_sanitize_stacks d)
      else
        WriteMinidump_path (d_c_path d) (d_size_limit d) (d_skip_dump d) (d_address_within_principal_mapping d) (d_sanitize_stacks d))"

text \<open>
  \<open>WriteMinidump\<close>: a new path, or the file of the descriptor cut to nothing (the second component); then a dump, if
  \<open>getcontext\<close> works.
\<close>

definition WriteMinidump :: "string \<Rightarrow> bool \<Rightarrow> handler \<Rightarrow> dump_env \<Rightarrow> handler \<times> int option \<times> bool \<times> call list" where
  "WriteMinidump guid getcontext_ok h e =
     (let h1 = (if \<not> IsOutOfProcess h \<and> \<not> IsFD (h_descriptor h) \<and> \<not> IsMicrodumpOnConsole (h_descriptor h)
                then h\<lparr>h_descriptor := UpdatePath guid (h_descriptor h)\<rparr> else h);
          cut = (if \<not> (\<not> IsOutOfProcess h \<and> \<not> IsFD (h_descriptor h) \<and> \<not> IsMicrodumpOnConsole (h_descriptor h)) \<and> IsFD (h_descriptor h)
                 then Some (d_fd (h_descriptor h)) else None)
      in if \<not> getcontext_ok then (h1, cut, False, [Prctl_dumpable])
         else let (r, cs) = GenerateDump h1 e in (h1, cut, r, Prctl_dumpable # cs))"

definition RegisterAppMemory :: "u64 \<Rightarrow> u64 \<Rightarrow> handler \<Rightarrow> handler" where
  "RegisterAppMemory p n h =
     (if p \<in> am_ptr ` set (h_app_memory_list h) then h
      else h\<lparr>h_app_memory_list := h_app_memory_list h @ [\<lparr>am_ptr = p, am_length = n\<rparr>]\<rparr>)"

fun erase_ptr :: "u64 \<Rightarrow> app_memory list \<Rightarrow> app_memory list" where
  "erase_ptr p [] = []"
| "erase_ptr p (m # ms) = (if am_ptr m = p then ms else m # erase_ptr p ms)"

definition UnregisterAppMemory :: "u64 \<Rightarrow> handler \<Rightarrow> handler" where
  "UnregisterAppMemory p h = h\<lparr>h_app_memory_list := erase_ptr p (h_app_memory_list h)\<rparr>"

text \<open>\<open>AddMappingInfo\<close> fills four members of \<open>info\<close>, a local variable with arbitrary contents.\<close>

definition AddMappingInfo :: "mapping_info \<Rightarrow> bytes \<Rightarrow> bytes \<Rightarrow> u64 \<Rightarrow> u64 \<Rightarrow> u64 \<Rightarrow> handler \<Rightarrow> handler" where
  "AddMappingInfo info name identifier start_address mapping_size file_offset h =
     (let info1 = info\<lparr>mi_start_addr := start_address, mi_size := mapping_size, mi_offset := file_offset,
                       mi_name := (strncpy_buf (cstr name) (NAME_MAX - 1) @ [0])\<rparr>
      in h\<lparr>h_mapping_list := h_mapping_list h @ [(info1, take 16 identifier)]\<rparr>)"

text \<open>The members of a new handler.\<close>

definition new_handler ::
  "string \<Rightarrow> descriptor \<Rightarrow> bool option \<Rightarrow> (bool \<Rightarrow> bool) option \<Rightarrow> int \<Rightarrow> handler" where
  "new_handler guid d flt callback server_fd =
     (let h = \<lparr>h_filter = flt, h_callback = callback, h_crash_handler = None, h_server_fd = TryCreate server_fd,
               h_descriptor = MinidumpDescriptor_copy d, h_mapping_list = [], h_app_memory_list = []\<rparr>
      in if \<not> IsOutOfProcess h \<and> \<not> IsFD (h_descriptor h) \<and> \<not> IsMicrodumpOnConsole (h_descriptor h)
         then h\<lparr>h_descriptor := UpdatePath guid (h_descriptor h)\<rparr> else h)"

section \<open>A signal\<close>

text \<open>The loop over the handlers, newest first, with what each of them did.\<close>

fun try_handlers ::
  "(nat \<Rightarrow> handler) \<Rightarrow> (nat \<Rightarrow> dump_env) \<Rightarrow> siginfo \<Rightarrow> nat list \<Rightarrow> bool \<times> (nat \<times> call list) list" where
  "try_handlers H E info [] = (False, [])"
| "try_handlers H E info (i # is) =
     (let (handled, cs) = HandleSignal (H i) (E i) info
      in if handled then (True, [(i, cs)])
         else let (r, tr) = try_handlers H E info is in (r, (i, cs) # tr))"

datatype sig_result = Returned | Requeued | Exited

text \<open>
  \<open>SignalHandler\<close>; \<open>fc\<close> is the first chance handler. \<open>None\<close> is the access through a NULL handler stack.
\<close>

definition SignalHandler ::
  "(nat \<Rightarrow> handler) \<Rightarrow> (nat \<Rightarrow> dump_env) \<Rightarrow> bool option \<Rightarrow> nat \<Rightarrow> siginfo \<Rightarrow> eh_world \<Rightarrow>
   (sig_result \<times> eh_world \<times> (nat \<times> call list) list) option" where
  "SignalHandler H E fc sig info s =
     (if fc = Some True then Some (Returned, s, [])
      else
        let (cur, s1) = sigaction_get sig s
        in if (case cur of None \<Rightarrow> False
                         | Some sa \<Rightarrow> sa_handler sa = Breakpad_SignalHandler \<and> sa_flags sa AND SA_SIGINFO = 0) then
             let (ok, s2) = sigaction_set sig (breakpad_action [sig]) s1
             in Some (Returned, if ok then s2 else InstallDefaultHandler sig s2, [])
           else case eh_handler_stack s1 of
             None \<Rightarrow> None
           | Some hs \<Rightarrow>
               let (handled, tr) = try_handlers H E info (rev hs);
                   s2 = (if handled then InstallDefaultHandler sig s1 else RestoreHandlersLocked s1)
               in if si_code info \<le> 0 \<or> sig = SIGABRT
                  then Some (if faulty s2 then Exited else Requeued, tick s2, tr)
                  else Some (Returned, s2, tr))"

text \<open>
  The kernel. A signal goes to the handler that is installed. A fault (\<open>si_code > 0\<close>) is raised again when the handler
  returns, and ends the process if it is ignored; a queued signal is delivered after the return.
\<close>

datatype fate = Terminated | Exit_1 | Resumed | Passed nat

fun deliver ::
  "nat \<Rightarrow> (nat \<Rightarrow> handler) \<Rightarrow> (nat \<Rightarrow> dump_env) \<Rightarrow> bool option \<Rightarrow> nat \<Rightarrow> siginfo \<Rightarrow> eh_world \<Rightarrow>
   (fate \<times> eh_world \<times> (nat \<times> call list) list) option" where
  "deliver 0 H E fc sig info s = None"
| "deliver (Suc n) H E fc sig info s =
     (case sa_handler (eh_actions s sig) of
        SIG_DFL \<Rightarrow> Some (Terminated, s, [])
      | SIG_IGN \<Rightarrow> Some (if 0 < si_code info then Terminated else Resumed, s, [])
      | Foreign k \<Rightarrow> Some (Passed k, s, [])
      | Breakpad_SignalHandler \<Rightarrow>
          (case SignalHandler H E fc sig info s of
             None \<Rightarrow> None
           | Some (Exited, s', tr) \<Rightarrow> Some (Exit_1, s', tr)
           | Some (Requeued, s', tr) \<Rightarrow>
               map_option (\<lambda>(f, s'', tr'). (f, s'', tr @ tr')) (deliver n H E fc sig \<lparr>si_code = SI_TKILL, si_pid = si_pid info\<rparr> s')
           | Some (Returned, s', tr) \<Rightarrow>
               if 0 < si_code info
               then map_option (\<lambda>(f, s'', tr'). (f, s'', tr @ tr')) (deliver n H E fc sig info s')
               else Some (Resumed, s', tr)))"

section \<open>The handlers are tried newest first\<close>

definition handles :: "(nat \<Rightarrow> handler) \<Rightarrow> (nat \<Rightarrow> dump_env) \<Rightarrow> siginfo \<Rightarrow> nat \<Rightarrow> bool" where
  "handles H E info i = fst (HandleSignal (H i) (E i) info)"

text \<open>Those that refuse, up to and including the first that does not.\<close>

definition tried :: "('a \<Rightarrow> bool) \<Rightarrow> 'a list \<Rightarrow> 'a list" where
  "tried P xs = takeWhile (\<lambda>x. \<not> P x) xs @ take 1 (dropWhile (\<lambda>x. \<not> P x) xs)"

lemma try_handlers_eq:
  "try_handlers H E info is =
     (list_ex (handles H E info) is, map (\<lambda>i. (i, snd (HandleSignal (H i) (E i) info))) (tried (handles H E info) is))"
proof (induction "is")
  case (Cons i "is")
  then show ?case
    by (cases "HandleSignal (H i) (E i) info") (auto simp: handles_def tried_def)
qed (simp add: tried_def)

section \<open>Effects of the loops over the signals\<close>

named_theorems eh_simps \<open>system calls and loops of the exception handler\<close>

lemma tick_simps [simp]:
  "eh_actions (tick s) = eh_actions s" "eh_alt (tick s) = eh_alt s" "eh_heap (tick s) = eh_heap s"
  "eh_old_handlers (tick s) = eh_old_handlers s" "eh_handlers_installed (tick s) = eh_handlers_installed s"
  "eh_old_stack (tick s) = eh_old_stack s" "eh_new_stack (tick s) = eh_new_stack s"
  "eh_stack_installed (tick s) = eh_stack_installed s" "eh_handler_stack (tick s) = eh_handler_stack s"
  "eh_faults (tick s) = tl (eh_faults s)"
  by (simp_all add: tick_def)

lemma distinct_signals [simp]: "distinct kExceptionSignals" "length kExceptionSignals = 6"
  by (simp_all add: kExceptionSignals_def SIGABRT_def)

text \<open>What the loops do to the actions, whatever fails; the rest of the record is untouched.\<close>

definition rest_same :: "eh_world \<Rightarrow> eh_world \<Rightarrow> bool" where
  "rest_same s s' \<longleftrightarrow> eh_alt s' = eh_alt s \<and> eh_heap s' = eh_heap s \<and> eh_old_stack s' = eh_old_stack s \<and>
     eh_new_stack s' = eh_new_stack s \<and> eh_stack_installed s' = eh_stack_installed s \<and>
     eh_handler_stack s' = eh_handler_stack s \<and> (eh_faults s = [] \<longrightarrow> eh_faults s' = [])"

lemma rest_same_refl [simp]: "rest_same s s"
  by (simp add: rest_same_def)

lemma rest_same_trans: "rest_same s s' \<Longrightarrow> rest_same s' s'' \<Longrightarrow> rest_same s s''"
  by (auto simp: rest_same_def)

lemma save_handlers_spec:
  assumes "save_handlers sigs i s = (ok, s')" and "i + length sigs = length (eh_old_handlers s)"
  shows "rest_same s s' \<and> eh_actions s' = eh_actions s \<and> eh_handlers_installed s' = eh_handlers_installed s \<and>
    length (eh_old_handlers s') = length (eh_old_handlers s) \<and>
    (ok \<longrightarrow> eh_old_handlers s' = take i (eh_old_handlers s) @ map (eh_actions s) sigs) \<and> (eh_faults s = [] \<longrightarrow> ok)"
  using assms
proof (induction sigs arbitrary: i s)
  case (Cons sig sigs)
  show ?case
  proof (cases "faulty s")
    case True
    then show ?thesis using Cons.prems by (auto simp: sigaction_get_def rest_same_def faulty_def)
  next
    case False
    let ?s1 = "(tick s)\<lparr>eh_old_handlers := (eh_old_handlers s)[i := eh_actions s sig]\<rparr>"
    have "save_handlers sigs (Suc i) ?s1 = (ok, s')" "Suc i + length sigs = length (eh_old_handlers ?s1)"
      using Cons.prems False by (auto simp: sigaction_get_def)
    note ih = Cons.IH [OF this]
    have "take (Suc i) ((eh_old_handlers s)[i := eh_actions s sig]) = take i (eh_old_handlers s) @ [eh_actions s sig]"
      using Cons.prems(2) by (simp add: take_Suc_conv_app_nth)
    then show ?thesis using ih by (auto simp: rest_same_def)
  qed
qed auto

lemma set_handlers_spec:
  "rest_same s (set_handlers sigs s) \<and> eh_handlers_installed (set_handlers sigs s) = eh_handlers_installed s \<and>
   eh_old_handlers (set_handlers sigs s) = eh_old_handlers s \<and>
   (\<forall>sig. eh_actions (set_handlers sigs s) sig \<in> {eh_actions s sig, breakpad_action kExceptionSignals} \<and>
     (sig \<notin> set sigs \<longrightarrow> eh_actions (set_handlers sigs s) sig = eh_actions s sig) \<and>
     (sig \<in> set sigs \<and> eh_faults s = [] \<longrightarrow> eh_actions (set_handlers sigs s) sig = breakpad_action kExceptionSignals))"
proof (induction sigs arbitrary: s)
  case (Cons sig sigs)
  define s1 where "s1 = snd (sigaction_set sig (breakpad_action kExceptionSignals) s)"
  have s1: "rest_same s s1" "eh_handlers_installed s1 = eh_handlers_installed s" "eh_old_handlers s1 = eh_old_handlers s"
    "\<And>g. eh_actions s1 g = (if g = sig \<and> \<not> faulty s then breakpad_action kExceptionSignals else eh_actions s g)"
    "eh_faults s = [] \<Longrightarrow> eh_faults s1 = [] \<and> \<not> faulty s"
    by (auto simp: s1_def sigaction_set_def rest_same_def faulty_def)
  note ih = Cons.IH [of s1]
  have "eh_actions (set_handlers sigs s1) g \<in> {eh_actions s g, breakpad_action kExceptionSignals} \<and>
     (g \<notin> set (sig # sigs) \<longrightarrow> eh_actions (set_handlers sigs s1) g = eh_actions s g) \<and>
     (g \<in> set (sig # sigs) \<and> eh_faults s = [] \<longrightarrow> eh_actions (set_handlers sigs s1) g = breakpad_action kExceptionSignals)" for g
  proof -
    have "eh_actions (set_handlers sigs s1) g \<in> {eh_actions s1 g, breakpad_action kExceptionSignals}"
      "g \<notin> set sigs \<Longrightarrow> eh_actions (set_handlers sigs s1) g = eh_actions s1 g"
      "g \<in> set sigs \<and> eh_faults s1 = [] \<Longrightarrow> eh_actions (set_handlers sigs s1) g = breakpad_action kExceptionSignals"
      using ih by blast+
    then show ?thesis using s1(4) [of g] s1(5) by (auto split: if_splits)
  qed
  then show ?case using ih s1 rest_same_trans [OF s1(1)] by (simp add: s1_def [symmetric])
qed simp

lemma restore_handlers_spec:
  "rest_same s (restore_handlers sigs i s) \<and>
   eh_handlers_installed (restore_handlers sigs i s) = eh_handlers_installed s \<and>
   eh_old_handlers (restore_handlers sigs i s) = eh_old_handlers s \<and>
   (\<forall>sig. sig \<notin> set sigs \<longrightarrow> eh_actions (restore_handlers sigs i s) sig = eh_actions s sig) \<and>
   (distinct sigs \<longrightarrow> (\<forall>k<length sigs. eh_actions (restore_handlers sigs i s) (sigs ! k) \<in> {eh_old_handlers s ! (i + k), default_action} \<and>
     (eh_faults s = [] \<longrightarrow> eh_actions (restore_handlers sigs i s) (sigs ! k) = eh_old_handlers s ! (i + k))))"
proof (induction sigs arbitrary: i s)
  case (Cons sig sigs)
  define s1 where "s1 = (if faulty s then InstallDefaultHandler sig (tick s)
    else (tick s)\<lparr>eh_actions := (eh_actions s)(sig := eh_old_handlers s ! i)\<rparr>)"
  have r: "restore_handlers (sig # sigs) i s = restore_handlers sigs (Suc i) s1"
    by (simp add: sigaction_set_def s1_def)
  have s1: "rest_same s s1" "eh_handlers_installed s1 = eh_handlers_installed s" "eh_old_handlers s1 = eh_old_handlers s"
    "\<And>g. g \<noteq> sig \<Longrightarrow> eh_actions s1 g = eh_actions s g"
    "eh_actions s1 sig \<in> {eh_old_handlers s ! i, default_action}"
    "eh_faults s = [] \<Longrightarrow> eh_actions s1 sig = eh_old_handlers s ! i \<and> eh_faults s1 = []"
    by (auto simp: s1_def rest_same_def InstallDefaultHandler_def faulty_def)
  note ih = Cons.IH [of s1 "Suc i"]
  have "eh_actions (restore_handlers sigs (Suc i) s1) ((sig # sigs) ! k) \<in> {eh_old_handlers s ! (i + k), default_action} \<and>
     (eh_faults s = [] \<longrightarrow> eh_actions (restore_handlers sigs (Suc i) s1) ((sig # sigs) ! k) = eh_old_handlers s ! (i + k))"
    if "distinct (sig # sigs)" "k < length (sig # sigs)" for k
    using ih s1 that by (cases k) auto
  then show ?case unfolding r using ih s1 rest_same_trans [OF s1(1)] by simp
qed simp

lemma RestoreHandlers_spec:
  assumes "eh_handlers_installed s" and "length (eh_old_handlers s) = 6"
  shows "rest_same s (RestoreHandlersLocked s)" and "\<not> eh_handlers_installed (RestoreHandlersLocked s)"
    and "eh_old_handlers (RestoreHandlersLocked s) = eh_old_handlers s"
    and "sig \<notin> set kExceptionSignals \<Longrightarrow> eh_actions (RestoreHandlersLocked s) sig = eh_actions s sig"
    and "k < 6 \<Longrightarrow> eh_actions (RestoreHandlersLocked s) (kExceptionSignals ! k) \<in> {eh_old_handlers s ! k, default_action}"
    and "k < 6 \<Longrightarrow> eh_faults s = [] \<Longrightarrow> eh_actions (RestoreHandlersLocked s) (kExceptionSignals ! k) = eh_old_handlers s ! k"
  using assms restore_handlers_spec [of s kExceptionSignals 0]
  by (auto simp: RestoreHandlersLocked_def rest_same_def)

section \<open>A crash is never delivered in circles\<close>

definition kernel_fate :: "sa_action \<Rightarrow> bool \<Rightarrow> fate" where
  "kernel_fate a fault =
     (case a of
        SIG_IGN \<Rightarrow> if fault then Terminated else Resumed
      | Foreign k \<Rightarrow> Passed k
      | _ \<Rightarrow> Terminated)"

lemma deliver_final:
  assumes "sa_handler (eh_actions s sig) \<noteq> Breakpad_SignalHandler"
  shows "deliver (Suc n) H E fc sig info s = Some (kernel_fate (sa_handler (eh_actions s sig)) (0 < si_code info), s, [])"
  using assms by (auto simp: kernel_fate_def split: sa_action.splits)

text \<open>The handlers run: afterwards the signal is no longer Breakpad's.\<close>

lemma SignalHandler_handles:
  assumes k: "k < 6" "sig = kExceptionSignals ! k"
    and s: "fc \<noteq> Some True" "eh_handler_stack s = Some hs" "eh_handlers_installed s" "length (eh_old_handlers s) = 6"
    and fl: "sa_flags (eh_actions s sig) AND SA_SIGINFO \<noteq> 0 \<or> faulty s"
  shows "\<exists>r s'. SignalHandler H E fc sig info s =
      Some (r, s', map (\<lambda>i. (i, snd (HandleSignal (H i) (E i) info))) (tried (handles H E info) (rev hs))) \<and>
    (r = Returned \<longleftrightarrow> 0 < si_code info \<and> sig \<noteq> SIGABRT) \<and> (eh_faults s = [] \<longrightarrow> r \<noteq> Exited) \<and>
    eh_actions s' sig \<in> (if list_ex (handles H E info) hs then {default_action} else {eh_old_handlers s ! k, default_action}) \<and>
    (eh_faults s = [] \<and> \<not> list_ex (handles H E info) hs \<longrightarrow> eh_actions s' sig = eh_old_handlers s ! k)"
proof -
  let ?handled = "list_ex (handles H E info) hs"
  define s1 where "s1 = tick s"
  define s2 where "s2 = (if ?handled then InstallDefaultHandler sig s1 else RestoreHandlersLocked s1)"
  let ?tr = "map (\<lambda>i. (i, snd (HandleSignal (H i) (E i) info))) (tried (handles H E info) (rev hs))"
  have "SignalHandler H E fc sig info s =
    Some (if si_code info \<le> 0 \<or> sig = SIGABRT then (if faulty s2 then Exited else Requeued, tick s2, ?tr) else (Returned, s2, ?tr))"
    using s fl by (auto simp: SignalHandler_def sigaction_get_def try_handlers_eq list_ex_iff s1_def s2_def)
  moreover have "eh_actions s2 sig \<in> (if ?handled then {default_action} else {eh_old_handlers s ! k, default_action})"
    using RestoreHandlers_spec(5) [of s1 k] s k by (auto simp: s2_def InstallDefaultHandler_def s1_def)
  moreover have "eh_faults s = [] \<Longrightarrow> \<not> ?handled \<Longrightarrow> eh_actions s2 sig = eh_old_handlers s ! k"
    using RestoreHandlers_spec(6) [of s1 k] s k by (auto simp: s2_def s1_def)
  moreover have "eh_faults s = [] \<Longrightarrow> \<not> faulty s2"
    using RestoreHandlers_spec(1) [of s1] s by (auto simp: s2_def s1_def rest_same_def faulty_def InstallDefaultHandler_def)
  ultimately show ?thesis by (auto simp: not_le)
qed

lemma deliver_handled:
  assumes "k < 6" "sig = kExceptionSignals ! k" and act: "sa_handler (eh_actions s sig) = Breakpad_SignalHandler"
    and "fc \<noteq> Some True" "eh_handler_stack s = Some hs" "eh_handlers_installed s" "length (eh_old_handlers s) = 6"
    and "sa_flags (eh_actions s sig) AND SA_SIGINFO \<noteq> 0 \<or> faulty s"
    and old: "sa_handler (eh_old_handlers s ! k) \<noteq> Breakpad_SignalHandler"
  shows "\<exists>fate s'. deliver (Suc (Suc n)) H E fc sig info s =
      Some (fate, s', map (\<lambda>i. (i, snd (HandleSignal (H i) (E i) info))) (tried (handles H E info) (rev hs))) \<and>
    (if list_ex (handles H E info) hs then fate \<in> {Terminated, Exit_1}
     else fate \<in> {Terminated, Exit_1, kernel_fate (sa_handler (eh_old_handlers s ! k)) (0 < si_code info \<and> sig \<noteq> SIGABRT)}) \<and>
    (eh_faults s = [] \<longrightarrow> fate = (if list_ex (handles H E info) hs then Terminated
       else kernel_fate (sa_handler (eh_old_handlers s ! k)) (0 < si_code info \<and> sig \<noteq> SIGABRT)))"
proof -
  let ?handled = "list_ex (handles H E info) hs"
  let ?tr = "map (\<lambda>i. (i, snd (HandleSignal (H i) (E i) info))) (tried (handles H E info) (rev hs))"
  let ?old = "eh_old_handlers s ! k"
  obtain r s' where r: "SignalHandler H E fc sig info s = Some (r, s', ?tr)"
    "r = Returned \<longleftrightarrow> 0 < si_code info \<and> sig \<noteq> SIGABRT" "eh_faults s = [] \<Longrightarrow> r \<noteq> Exited"
    "eh_actions s' sig \<in> (if ?handled then {default_action} else {?old, default_action})"
    "eh_faults s = [] \<Longrightarrow> \<not> ?handled \<Longrightarrow> eh_actions s' sig = ?old"
    using SignalHandler_handles [OF assms(1,2,4-8), of H E info] by blast
  have d: "sa_handler default_action = SIG_DFL" by (simp add: default_action_def)
  have nb: "sa_handler (eh_actions s' sig) \<noteq> Breakpad_SignalHandler" using r(4) old d by (auto split: if_splits)
  let ?fate = "kernel_fate (sa_handler (eh_actions s' sig)) (0 < si_code info \<and> sig \<noteq> SIGABRT)"
  have kd: "kernel_fate SIG_DFL b = Terminated" for b by (simp add: kernel_fate_def)
  have dl: "deliver (Suc (Suc n)) H E fc sig info s = Some (if r = Exited then Exit_1 else ?fate, s', ?tr)"
    using r(1,2) act deliver_final [OF nb] by (cases r) (auto simp: SI_TKILL_def simp del: deliver.simps(2) simp add: deliver.simps(2) [of "Suc n"])
  have f1: "?handled \<Longrightarrow> ?fate = Terminated" using r(4) d kd by simp
  have f2: "\<not> ?handled \<Longrightarrow> ?fate \<in> {Terminated, kernel_fate (sa_handler ?old) (0 < si_code info \<and> sig \<noteq> SIGABRT)}"
    using r(4) d kd by auto
  show ?thesis unfolding dl using f1 f2 r(3,5) by auto
qed

text \<open>Samples for the witnesses: a handler that handles a signal or refuses it, a dump that works, three handlers.\<close>

definition sample_handler :: "bool \<Rightarrow> handler" where
  "sample_handler b = new_handler ''id'' (MinidumpDescriptor_dir ''/tmp'') (Some b) None (-1)"

definition sample_env :: dump_env where
  "sample_env = \<lparr>de_pid = 42, de_stack = True, de_pipe = Some (3, 4), de_child = 77, de_wait = Some 0, de_send = True\<rparr>"

definition sample_world :: eh_world where
  "sample_world = \<lparr>eh_actions = (\<lambda>_. breakpad_action kExceptionSignals), eh_alt = (\<lambda>_. no_stack), eh_faults = [], eh_heap = [],
     eh_old_handlers = replicate 6 default_action, eh_handlers_installed = True, eh_old_stack = zero_stack,
     eh_new_stack = zero_stack, eh_stack_installed = False, eh_handler_stack = Some [0, 1, 2]\<rparr>"

lemmas sample_defs = sample_handler_def sample_env_def sample_world_def new_handler_def MinidumpDescriptor_dir_def
  MinidumpDescriptor_copy_def IsOutOfProcess_def TryCreate_def UpdatePath_def

text \<open>When the flag that passes the arguments was lost, the first delivery only repairs it.\<close>

lemma SignalHandler_repairs:
  assumes "sa_handler (eh_actions s sig) = Breakpad_SignalHandler" "sa_flags (eh_actions s sig) AND SA_SIGINFO = 0"
    and "fc \<noteq> Some True" "\<not> faulty s"
  shows "\<exists>s'. SignalHandler H E fc sig info s = Some (Returned, s', []) \<and> eh_handler_stack s' = eh_handler_stack s \<and>
    eh_handlers_installed s' = eh_handlers_installed s \<and> eh_old_handlers s' = eh_old_handlers s \<and>
    eh_actions s' sig \<in> {breakpad_action [sig], default_action} \<and>
    (eh_faults s = [] \<longrightarrow> eh_faults s' = [] \<and> eh_actions s' sig = breakpad_action [sig])"
  using assms by (auto simp: SignalHandler_def sigaction_get_def sigaction_set_def InstallDefaultHandler_def faulty_def)

lemma breakpad_action_flags [simp]:
  "sa_handler (breakpad_action m) = Breakpad_SignalHandler" "sa_flags (breakpad_action m) AND SA_SIGINFO \<noteq> 0"
  by (simp_all add: breakpad_action_def SA_SIGINFO_def SA_ONSTACK_def)

text \<open>
  C10. A crash comes to an end. Let one of the six signals be delivered to Breakpad while its handlers are installed and
  no saved handler is Breakpad's own; the signal is a fault, or the flags of the handler are intact. Whatever system
  calls fail, at most three deliveries decide the fate of the process: if some handler handles the signal, the process ends; otherwise it
  ends or the handler that was installed before gets the signal. Without failures this is exact: the
  handlers are tried from the newest to the oldest, each once, until one handles the signal.
\<close>

theorem signal_delivery_ends:
  assumes "k < 6" and "sig = kExceptionSignals ! k"
    and "sa_handler (eh_actions s sig) = Breakpad_SignalHandler"
    and "sa_flags (eh_actions s sig) AND SA_SIGINFO \<noteq> 0 \<or> 0 < si_code info"
    and "fc \<noteq> Some True" and "eh_handler_stack s = Some hs" and "eh_handlers_installed s"
    and "length (eh_old_handlers s) = 6" and "sa_handler (eh_old_handlers s ! k) \<noteq> Breakpad_SignalHandler"
    and "next_fate = kernel_fate (sa_handler (eh_old_handlers s ! k)) (0 < si_code info \<and> sig \<noteq> SIGABRT)"
  shows "\<exists>fate s' tr. deliver 3 H E fc sig info s = Some (fate, s', tr) \<and>
    fate \<in> {Terminated, Exit_1} \<union> (if list_ex (handles H E info) hs then {} else {next_fate}) \<and>
    (eh_faults s = [] \<longrightarrow>
       fate = (if list_ex (handles H E info) hs then Terminated else next_fate) \<and>
       tr = map (\<lambda>i. (i, snd (HandleSignal (H i) (E i) info))) (tried (handles H E info) (rev hs)))"
proof (cases "sa_flags (eh_actions s sig) AND SA_SIGINFO \<noteq> 0 \<or> faulty s")
  case True
  show ?thesis
    using deliver_handled [OF assms(1-3,5-8) True assms(9), of 1 H E info]
    by (auto simp: numeral_3_eq_3 assms(10) simp del: deliver.simps split: if_splits)
next
  case False
  then have lost: "sa_flags (eh_actions s sig) AND SA_SIGINFO = 0" "\<not> faulty s" "0 < si_code info" using assms(4) by auto
  obtain s1 where s1: "SignalHandler H E fc sig info s = Some (Returned, s1, [])" "eh_handler_stack s1 = Some hs"
    "eh_handlers_installed s1" "eh_old_handlers s1 = eh_old_handlers s" "eh_actions s1 sig \<in> {breakpad_action [sig], default_action}"
    "eh_faults s = [] \<longrightarrow> eh_faults s1 = [] \<and> eh_actions s1 sig = breakpad_action [sig]"
    using SignalHandler_repairs [OF assms(3) lost(1) assms(5) lost(2), of H E info] assms(6,7) by auto
  have d: "deliver 3 H E fc sig info s = deliver 2 H E fc sig info s1"
    using s1(1) lost(3) assms(3)
    by (simp add: numeral_3_eq_3 numeral_2_eq_2 deliver.simps(2) [of "Suc (Suc 0)"] option.map_id case_prod_beta id_def
        flip: id_def del: deliver.simps)
  show ?thesis
  proof (cases "eh_actions s1 sig = breakpad_action [sig]")
    case True
    have "\<exists>fate s'. deliver 2 H E fc sig info s1 =
        Some (fate, s', map (\<lambda>i. (i, snd (HandleSignal (H i) (E i) info))) (tried (handles H E info) (rev hs))) \<and>
      (if list_ex (handles H E info) hs then fate \<in> {Terminated, Exit_1} else fate \<in> {Terminated, Exit_1, next_fate}) \<and>
      (eh_faults s1 = [] \<longrightarrow> fate = (if list_ex (handles H E info) hs then Terminated else next_fate))"
      unfolding assms(10) numeral_2_eq_2 s1(4) [symmetric]
      by (rule deliver_handled) (use assms(1,2,5,8,9) s1(2-4) True in simp_all)
    then show ?thesis unfolding d using s1(6) by (auto split: if_splits)
  next
    case False
    then have a: "eh_actions s1 sig = default_action" "eh_faults s \<noteq> []" using s1(5,6) by auto
    have "deliver 2 H E fc sig info s1 = Some (Terminated, s1, [])"
      using deliver_final [of s1 sig 1 H E fc info] a(1) by (simp add: default_action_def kernel_fate_def numeral_2_eq_2 del: deliver.simps)
    then show ?thesis using a(2) d by auto
  qed
qed

theorem signal_delivery_ends_witness:
  "\<exists>s'. deliver 3 (\<lambda>i. sample_handler (i = 1)) (\<lambda>_. sample_env) None 11 \<lparr>si_code = 1, si_pid = 0\<rparr> sample_world =
     Some (Terminated, s', [(2, []), (1, [Prctl_dumpable, Pipe 3 4, Clone 77, Close 3, Prctl_ptracer 77, WriteByte 4, WaitChild 77, Close 4])])"
proof -
  let ?H = "\<lambda>i. sample_handler (i = 1)" and ?E = "\<lambda>_ :: nat. sample_env" and ?i = "\<lparr>si_code = 1, si_pid = 0\<rparr>"
  have hs: "HandleSignal (sample_handler True) sample_env ?i =
      (True, [Prctl_dumpable, Pipe 3 4, Clone 77, Close 3, Prctl_ptracer 77, WriteByte 4, WaitChild 77, Close 4])"
    "HandleSignal (sample_handler False) sample_env ?i = (False, [])"
    by (simp_all add: HandleSignal_def GenerateDump_def WIFEXITED_def WEXITSTATUS_def parent_calls_def sample_defs
        IsFD_def IsMicrodumpOnConsole_def Let_def)
  have h: "handles ?H ?E ?i = (\<lambda>i. i = 1)"
  proof
    fix i show "handles ?H ?E ?i i = (i = 1)" by (cases "i = 1") (simp_all add: handles_def hs)
  qed
  show ?thesis
    using signal_delivery_ends [of 0 11 sample_world ?i None "[0, 1, 2]" Terminated ?H ?E] h hs
    by (simp add: kExceptionSignals_def SIGABRT_def sample_world_def default_action_def kernel_fate_def tried_def del: deliver.simps)
qed

text \<open>
  The two hypotheses on the saved handlers are needed: if Breakpad's handler is called while its handlers count as
  restored, and nobody handles the fault, the fault is delivered for ever.
\<close>

lemma delivery_in_circles:
  assumes "sa_handler (eh_actions s sig) = Breakpad_SignalHandler" "sa_flags (eh_actions s sig) AND SA_SIGINFO \<noteq> 0"
    and "fc \<noteq> Some True" "eh_handler_stack s = Some hs" "\<not> eh_handlers_installed s" "eh_faults s = []"
    and "\<not> list_ex (handles H E info) hs" "0 < si_code info" "sig \<noteq> SIGABRT"
  shows "deliver n H E fc sig info s = None"
proof (induction n)
  case (Suc n)
  have t: "tick s = s" using assms(6) by (simp add: tick_def)
  have "SignalHandler H E fc sig info s =
    Some (Returned, s, map (\<lambda>i. (i, snd (HandleSignal (H i) (E i) info))) (tried (handles H E info) (rev hs)))"
    using assms t by (auto simp: SignalHandler_def sigaction_get_def try_handlers_eq list_ex_iff RestoreHandlersLocked_def faulty_def)
  then show ?case using assms(1,8) Suc.IH by simp
qed simp

section \<open>Life cycle\<close>

text \<open>Handlers are made and destroyed by the threads of the set \<open>T\<close>, and signals that are Breakpad's arrive.\<close>

inductive lifecycle :: "nat set \<Rightarrow> eh_world \<Rightarrow> eh_world \<Rightarrow> bool" for T s0 where
  start: "lifecycle T s0 s0"
| construct: "lifecycle T s0 s \<Longrightarrow> tid \<in> T \<Longrightarrow> lifecycle T s0 (ExceptionHandler tid addr h install s)"
| destroy: "lifecycle T s0 s \<Longrightarrow> tid \<in> T \<Longrightarrow> Destroy_ExceptionHandler tid h s = Some s' \<Longrightarrow> lifecycle T s0 s'"
| signal: "lifecycle T s0 s \<Longrightarrow> sa_handler (eh_actions s sig) = Breakpad_SignalHandler \<Longrightarrow>
    SignalHandler H E fc sig info s = Some (r, s', tr) \<Longrightarrow> lifecycle T s0 s'"

definition pristine :: "eh_world \<Rightarrow> bool" where
  "pristine s \<longleftrightarrow> eh_handler_stack s = None \<and> \<not> eh_handlers_installed s \<and> \<not> eh_stack_installed s \<and>
     length (eh_old_handlers s) = 6 \<and> (\<forall>sig. sa_handler (eh_actions s sig) \<noteq> Breakpad_SignalHandler) \<and>
     (\<forall>tid. ss_sp (eh_alt s tid) = 0 \<or> ss_flags (eh_alt s tid) = SS_DISABLE \<longrightarrow> eh_alt s tid = no_stack)"

text \<open>The invariant, with what holds under failures and what holds without.\<close>

definition signals_inv :: "eh_world \<Rightarrow> eh_world \<Rightarrow> bool" where
  "signals_inv s0 s \<longleftrightarrow> length (eh_old_handlers s) = 6 \<and> eh_handler_stack s \<noteq> Some [] \<and>
     (eh_handlers_installed s \<longrightarrow> eh_handler_stack s \<noteq> None \<and>
        (\<forall>sa\<in>set (eh_old_handlers s). sa_handler sa \<noteq> Breakpad_SignalHandler) \<and>
        (eh_faults s0 = [] \<longrightarrow> eh_old_handlers s = map (eh_actions s0) kExceptionSignals)) \<and>
     (\<not> eh_handlers_installed s \<longrightarrow> (\<forall>sig. sa_handler (eh_actions s sig) \<noteq> Breakpad_SignalHandler) \<and>
        (eh_faults s0 = [] \<longrightarrow> eh_actions s = eh_actions s0)) \<and>
     (\<forall>sig. sig \<notin> set kExceptionSignals \<longrightarrow>
        eh_actions s sig = eh_actions s0 sig \<and> sa_handler (eh_actions s0 sig) \<noteq> Breakpad_SignalHandler)"

definition alt_inv :: "nat \<Rightarrow> eh_world \<Rightarrow> eh_world \<Rightarrow> bool" where
  "alt_inv tid s0 s \<longleftrightarrow> (eh_handler_stack s = None \<longrightarrow> \<not> eh_stack_installed s) \<and>
     (if eh_stack_installed s then
        eh_alt s = (eh_alt s0)(tid := eh_new_stack s) \<and> eh_old_stack s = eh_alt s0 tid \<and>
        eh_heap s = (if ss_sp (eh_new_stack s) = 0 then eh_heap s0 else ss_sp (eh_new_stack s) # eh_heap s0)
      else eh_alt s = eh_alt s0 \<and> eh_heap s = eh_heap s0)"

lemmas alt_defs = sigaltstack_get_def sigaltstack_set_def heap_calloc_def heap_free_def Let_def

lemma InstallAlternate_frame:
  assumes "s' = InstallAlternateStackLocked tid addr s"
  shows "eh_actions s' = eh_actions s \<and> eh_old_handlers s' = eh_old_handlers s \<and>
    eh_handlers_installed s' = eh_handlers_installed s \<and> eh_handler_stack s' = eh_handler_stack s \<and>
    (eh_faults s = [] \<longrightarrow> eh_faults s' = [])"
  unfolding assms InstallAlternateStackLocked_def alt_defs by simp

lemma RestoreAlternate_frame:
  assumes "s' = RestoreAlternateStackLocked tid s"
  shows "eh_actions s' = eh_actions s \<and> eh_old_handlers s' = eh_old_handlers s \<and>
    eh_handlers_installed s' = eh_handlers_installed s \<and> eh_handler_stack s' = eh_handler_stack s \<and>
    (eh_faults s = [] \<longrightarrow> eh_faults s' = [])"
  unfolding assms RestoreAlternateStackLocked_def alt_defs by simp

lemma signals_inv_cong:
  assumes "signals_inv s0 s" "eh_actions s' = eh_actions s" "eh_old_handlers s' = eh_old_handlers s"
    "eh_handlers_installed s' = eh_handlers_installed s"
    "eh_handler_stack s' = eh_handler_stack s \<or> eh_handler_stack s' \<noteq> Some [] \<and> (eh_handlers_installed s \<longrightarrow> eh_handler_stack s' \<noteq> None)"
  shows "signals_inv s0 s'"
  using assms unfolding signals_inv_def by auto

text \<open>\<open>signals_inv\<close> speaks of the stack of handlers only when the operation is over: during construction it is empty.\<close>

lemma InstallHandlers_inv:
  assumes inv: "signals_inv s0 s" and f: "eh_faults s0 = [] \<Longrightarrow> eh_faults s = []"
    and st: "eh_handler_stack s1 \<noteq> None" "eh_actions s1 = eh_actions s" "eh_old_handlers s1 = eh_old_handlers s"
      "eh_handlers_installed s1 = eh_handlers_installed s" "eh_faults s = [] \<longrightarrow> eh_faults s1 = []"
  shows "signals_inv s0 (push_handler h (snd (InstallHandlersLocked s1)))"
proof (cases "eh_handlers_installed s")
  case True
  then show ?thesis using inv st by (auto simp: InstallHandlersLocked_def push_handler_def intro: signals_inv_cong)
next
  case False
  obtain ok s2 where sv: "save_handlers kExceptionSignals 0 s1 = (ok, s2)" by fastforce
  have s2: "rest_same s1 s2" "eh_actions s2 = eh_actions s" "eh_handlers_installed s2 = eh_handlers_installed s"
    "length (eh_old_handlers s2) = 6" "ok \<Longrightarrow> eh_old_handlers s2 = map (eh_actions s) kExceptionSignals"
    using save_handlers_spec [OF sv] inv st by (auto simp: signals_inv_def)
  have clean: "\<forall>sig. sa_handler (eh_actions s sig) \<noteq> Breakpad_SignalHandler" "eh_faults s0 = [] \<Longrightarrow> eh_actions s = eh_actions s0"
    "\<forall>sig. sig \<notin> set kExceptionSignals \<longrightarrow> eh_actions s sig = eh_actions s0 sig \<and> sa_handler (eh_actions s0 sig) \<noteq> Breakpad_SignalHandler"
    using inv False by (auto simp: signals_inv_def)
  have hs: "eh_handler_stack s2 \<noteq> None" using s2(1) st by (simp add: rest_same_def)
  show ?thesis
  proof (cases ok)
    case True
    define s3 where "s3 = set_handlers kExceptionSignals s2"
    have s3: "eh_old_handlers s3 = map (eh_actions s) kExceptionSignals" "eh_handler_stack s3 \<noteq> None"
      "\<forall>sig. sig \<notin> set kExceptionSignals \<longrightarrow> eh_actions s3 sig = eh_actions s0 sig"
      using set_handlers_spec [of s2 kExceptionSignals] s2 hs True clean by (auto simp: s3_def rest_same_def)
    have "snd (InstallHandlersLocked s1) = s3\<lparr>eh_handlers_installed := True\<rparr>"
      using sv True False st by (simp add: InstallHandlersLocked_def s3_def)
    then show ?thesis using s3 clean by (auto simp: signals_inv_def push_handler_def)
  next
    case nok: False
    have "snd (InstallHandlersLocked s1) = s2" using sv nok False st by (simp add: InstallHandlersLocked_def)
    then show ?thesis using s2 hs clean False by (auto simp: signals_inv_def push_handler_def)
  qed
qed

lemma signal_index: "sig \<in> set kExceptionSignals \<Longrightarrow> \<exists>k<6. sig = kExceptionSignals ! k"
  using distinct_signals(2) by (metis in_set_conv_nth)

lemma RestoreHandlers_inv:
  assumes inv: "signals_inv s0 s" and f: "eh_faults s0 = [] \<Longrightarrow> eh_faults s1 = []"
    and st: "eh_actions s1 = eh_actions s" "eh_old_handlers s1 = eh_old_handlers s"
      "eh_handlers_installed s1 = eh_handlers_installed s" "eh_handler_stack s1 \<noteq> Some []"
  shows "signals_inv s0 (RestoreHandlersLocked s1)"
proof (cases "eh_handlers_installed s")
  case False
  then show ?thesis using inv st by (auto simp: RestoreHandlersLocked_def signals_inv_def)
next
  case True
  note l = inv [unfolded signals_inv_def]
  have i: "eh_handlers_installed s1" "length (eh_old_handlers s1) = 6" using True st l by auto
  note r = RestoreHandlers_spec [OF i]
  have d: "sa_handler default_action = SIG_DFL" by (simp add: default_action_def)
  have nb: "sa_handler (eh_actions (RestoreHandlersLocked s1) sig) \<noteq> Breakpad_SignalHandler"
    and eq: "eh_faults s0 = [] \<Longrightarrow> eh_actions (RestoreHandlersLocked s1) sig = eh_actions s0 sig" for sig
  proof -
    show "sa_handler (eh_actions (RestoreHandlersLocked s1) sig) \<noteq> Breakpad_SignalHandler"
    proof (cases "sig \<in> set kExceptionSignals")
      case True
      then obtain k where "k < 6" "sig = kExceptionSignals ! k" using signal_index by blast
      then show ?thesis using r(5) [of k] d l \<open>eh_handlers_installed s\<close> st(2) i(2) by (auto dest: nth_mem)
    next
      case no: False
      then show ?thesis using r(4) no l st(1) by simp
    qed
    show "eh_actions (RestoreHandlersLocked s1) sig = eh_actions s0 sig" if "eh_faults s0 = []"
    proof (cases "sig \<in> set kExceptionSignals")
      case True
      then obtain k where "k < 6" "sig = kExceptionSignals ! k" using signal_index by blast
      then show ?thesis using r(6) [of k] f that l \<open>eh_handlers_installed s\<close> st(2) by simp
    next
      case no: False
      then show ?thesis using r(4) l st(1) by simp
    qed
  qed
  show ?thesis using r(1-4) i(2) nb eq l st by (auto simp: signals_inv_def rest_same_def)
qed

lemma InstallHandlers_rest: "length (eh_old_handlers s) = 6 \<Longrightarrow> rest_same s (snd (InstallHandlersLocked s))"
proof (cases "save_handlers kExceptionSignals 0 s")
  case (Pair ok s1)
  assume "length (eh_old_handlers s) = 6"
  then have "rest_same s s1" using save_handlers_spec [OF Pair] by simp
  moreover have "rest_same s1 (set_handlers kExceptionSignals s1)" using set_handlers_spec by blast
  ultimately show ?thesis
    using Pair by (auto simp: InstallHandlersLocked_def rest_same_def split: bool.splits)
qed

lemma RestoreHandlers_rest: "length (eh_old_handlers s) = 6 \<Longrightarrow> rest_same s (RestoreHandlersLocked s)"
  using RestoreHandlers_spec(1) [of s] by (cases "eh_handlers_installed s") (auto simp: RestoreHandlersLocked_def)

lemma alt_inv_same: "alt_inv tid s0 s \<Longrightarrow> rest_same s s' \<Longrightarrow> alt_inv tid s0 s'"
  by (simp add: alt_inv_def rest_same_def)

lemma alt_inv_handlers:
  assumes "alt_inv tid s0 s" and "st = None \<longrightarrow> \<not> eh_stack_installed s"
  shows "alt_inv tid s0 (s\<lparr>eh_handler_stack := st\<rparr>)"
  using assms by (simp add: alt_inv_def)

lemma InstallAlternate_inv:
  assumes "alt_inv tid s0 s" "eh_faults s = []" "eh_handler_stack s \<noteq> None"
  shows "alt_inv tid s0 (InstallAlternateStackLocked tid addr s)"
  using assms
  by (auto simp: InstallAlternateStackLocked_def alt_defs alt_inv_def faulty_def SS_DISABLE_def)

lemma RestoreAlternate_inv:
  assumes p: "pristine s0" and a: "alt_inv tid s0 s" "eh_faults s = []"
  shows "\<not> eh_stack_installed (RestoreAlternateStackLocked tid (s\<lparr>eh_handler_stack := None\<rparr>))"
    and "alt_inv tid s0 (RestoreAlternateStackLocked tid (s\<lparr>eh_handler_stack := None\<rparr>))"
proof -
  have k: "ss_sp (eh_alt s0 tid) = 0 \<or> ss_flags (eh_alt s0 tid) = SS_DISABLE \<Longrightarrow> eh_alt s0 tid = no_stack"
    using p by (auto simp: pristine_def)
  have "\<not> eh_stack_installed (RestoreAlternateStackLocked tid (s\<lparr>eh_handler_stack := None\<rparr>)) \<and>
    alt_inv tid s0 (RestoreAlternateStackLocked tid (s\<lparr>eh_handler_stack := None\<rparr>))"
  proof (cases "eh_stack_installed s")
    case True
    have "(eh_alt s0)(tid := eh_alt s0 tid) = eh_alt s0" by simp
    then show ?thesis
      using a True k by (auto simp: RestoreAlternateStackLocked_def alt_defs alt_inv_def faulty_def no_stack_def SS_DISABLE_def fun_upd_def)
  next
    case False
    then show ?thesis using a by (simp add: RestoreAlternateStackLocked_def alt_inv_def)
  qed
  then show "\<not> eh_stack_installed (RestoreAlternateStackLocked tid (s\<lparr>eh_handler_stack := None\<rparr>))"
    and "alt_inv tid s0 (RestoreAlternateStackLocked tid (s\<lparr>eh_handler_stack := None\<rparr>))" by blast+
qed

lemma construct_inv:
  assumes s: "signals_inv s0 s" and f: "eh_faults s0 = [] \<Longrightarrow> eh_faults s = [] \<and> (one \<longrightarrow> alt_inv tid s0 s)"
    and s': "s' = ExceptionHandler tid addr h install s"
  shows "signals_inv s0 s' \<and> (eh_faults s0 = [] \<longrightarrow> eh_faults s' = [] \<and> (one \<longrightarrow> alt_inv tid s0 s'))"
proof -
  define s1 where "s1 = (if eh_handler_stack s = None then s\<lparr>eh_handler_stack := Some []\<rparr> else s)"
  define s2 where "s2 = InstallAlternateStackLocked tid addr s1"
  have s1: "eh_handler_stack s1 \<noteq> None" "eh_actions s1 = eh_actions s" "eh_old_handlers s1 = eh_old_handlers s"
    "eh_handlers_installed s1 = eh_handlers_installed s" "eh_faults s1 = eh_faults s"
    "eh_faults s0 = [] \<Longrightarrow> one \<Longrightarrow> alt_inv tid s0 s1"
    using f by (auto simp: s1_def intro: alt_inv_handlers)
  note fr = InstallAlternate_frame [OF s2_def]
  show ?thesis
  proof (cases install)
    case True
    have e: "s' = push_handler h (snd (InstallHandlersLocked s2))" using True by (simp add: s' ExceptionHandler_def s1_def s2_def)
    have l: "length (eh_old_handlers s2) = 6" using s fr s1 by (simp add: signals_inv_def)
    have "signals_inv s0 s'" unfolding e by (rule InstallHandlers_inv [OF s]) (use f fr s1 in auto)
    moreover have "eh_faults s' = [] \<and> (one \<longrightarrow> alt_inv tid s0 s')" if "eh_faults s0 = []"
    proof -
      have "one \<Longrightarrow> alt_inv tid s0 s2" using InstallAlternate_inv [of tid s0 s1] s1 f that by (simp add: s2_def)
      then have "one \<Longrightarrow> alt_inv tid s0 (snd (InstallHandlersLocked s2))" using alt_inv_same InstallHandlers_rest [OF l] by blast
      moreover have "eh_faults (snd (InstallHandlersLocked s2)) = []"
        using InstallHandlers_rest [OF l] fr s1 f that by (simp add: rest_same_def)
      moreover have "eh_handler_stack (snd (InstallHandlersLocked s2)) \<noteq> None"
        using InstallHandlers_rest [OF l] fr s1 by (simp add: rest_same_def)
      ultimately show ?thesis unfolding e push_handler_def by (auto intro: alt_inv_handlers)
    qed
    ultimately show ?thesis by blast
  next
    case False
    then have e: "s' = push_handler h s1" by (simp add: s' ExceptionHandler_def s1_def)
    have "signals_inv s0 s'" unfolding e by (rule signals_inv_cong [OF s]) (use s1 in \<open>auto simp: push_handler_def\<close>)
    then show ?thesis using s1 f by (auto simp: e push_handler_def intro: alt_inv_handlers)
  qed
qed

lemma destroy_inv:
  assumes p: "pristine s0" and s: "signals_inv s0 s" and f: "eh_faults s0 = [] \<Longrightarrow> eh_faults s = [] \<and> (one \<longrightarrow> alt_inv tid s0 s)"
    and d: "Destroy_ExceptionHandler tid h s = Some s'"
  shows "signals_inv s0 s' \<and> (eh_faults s0 = [] \<longrightarrow> eh_faults s' = [] \<and> (one \<longrightarrow> alt_inv tid s0 s'))"
proof -
  obtain hs where hs: "eh_handler_stack s = Some hs" using d by (auto simp: Destroy_ExceptionHandler_def split: option.splits)
  show ?thesis
  proof (cases "remove1 h hs = []")
    case True
    define s2 where "s2 = RestoreAlternateStackLocked tid (s\<lparr>eh_handler_stack := None\<rparr>)"
    have e: "s' = RestoreHandlersLocked s2"
      using d hs True by (auto simp: Destroy_ExceptionHandler_def s2_def Let_def split: if_splits)
    note fr = RestoreAlternate_frame [OF s2_def]
    have l: "length (eh_old_handlers s2) = 6" using s fr by (simp add: signals_inv_def)
    have "signals_inv s0 s'" unfolding e by (rule RestoreHandlers_inv [OF s]) (use f fr in auto)
    moreover have "eh_faults s0 = [] \<Longrightarrow> eh_faults s' = [] \<and> (one \<longrightarrow> alt_inv tid s0 s')"
      using RestoreAlternate_inv(2) [OF p, of tid s] f RestoreHandlers_rest [OF l] fr
      by (auto simp: e s2_def [symmetric] rest_same_def intro: alt_inv_same [OF _ RestoreHandlers_rest [OF l]])
    ultimately show ?thesis by blast
  next
    case False
    then have e: "s' = s\<lparr>eh_handler_stack := Some (remove1 h hs)\<rparr>"
      using d hs by (auto simp: Destroy_ExceptionHandler_def Let_def split: if_splits)
    have "signals_inv s0 s'" unfolding e by (rule signals_inv_cong [OF s]) (use False in auto)
    then show ?thesis using f by (auto simp: e intro: alt_inv_handlers)
  qed
qed

lemma signals_inv_action:
  assumes "signals_inv s0 s" "eh_handlers_installed s" "sig \<in> set kExceptionSignals"
  shows "signals_inv s0 (s\<lparr>eh_actions := (eh_actions s)(sig := a)\<rparr>)"
  using assms by (auto simp: signals_inv_def)

lemma signals_inv_tick: "signals_inv s0 s \<Longrightarrow> signals_inv s0 (tick s)"
  by (simp add: signals_inv_def)

lemma installed_of_action:
  assumes "signals_inv s0 s" "sa_handler (eh_actions s sig) = Breakpad_SignalHandler"
  shows "eh_handlers_installed s" and "sig \<in> set kExceptionSignals" and "eh_handler_stack s \<noteq> None"
  using assms by (auto simp: signals_inv_def)

lemma signal_inv:
  assumes s: "signals_inv s0 s" and f: "eh_faults s0 = [] \<Longrightarrow> eh_faults s = []"
    and act: "sa_handler (eh_actions s sig) = Breakpad_SignalHandler"
    and h: "SignalHandler H E fc sig info s = Some (r, s', tr)"
  shows "signals_inv s0 s' \<and> rest_same s s'"
proof -
  note i = installed_of_action [OF s act]
  have t: "signals_inv s0 (tick s)" "rest_same s (tick s)" using signals_inv_tick [OF s] by (auto simp: rest_same_def)
  have l: "length (eh_old_handlers (tick s)) = 6" using s by (simp add: signals_inv_def)
  have inst: "signals_inv s0 (InstallDefaultHandler sig s1) \<and> rest_same s (InstallDefaultHandler sig s1)"
    if "signals_inv s0 s1" "eh_handlers_installed s1" "rest_same s s1" for s1
    using signals_inv_action [OF that(1,2) i(2)] that(3) by (simp add: InstallDefaultHandler_def rest_same_def)
  have tck: "signals_inv s0 (tick s1) \<and> rest_same s (tick s1)" if "signals_inv s0 s1 \<and> rest_same s s1" for s1
    using that signals_inv_tick by (auto simp: rest_same_def)
  have set: "signals_inv s0 s2 \<and> rest_same s s2 \<and> eh_handlers_installed s2"
    if "sigaction_set sig a (tick s) = (ok, s2)" for a ok s2
    using that t i(1) signals_inv_action [OF signals_inv_tick [OF t(1)], of sig a] i(2) signals_inv_tick [OF t(1)]
    by (auto simp: sigaction_set_def rest_same_def split: if_splits)
  have res: "signals_inv s0 (RestoreHandlersLocked (tick s)) \<and> rest_same s (RestoreHandlersLocked (tick s))"
  proof
    show "signals_inv s0 (RestoreHandlersLocked (tick s))"
      by (rule RestoreHandlers_inv [OF s]) (use f s in \<open>auto simp: signals_inv_def\<close>)
    show "rest_same s (RestoreHandlersLocked (tick s))" using RestoreHandlers_rest [OF l] t(2) rest_same_trans by blast
  qed
  show ?thesis
    using h s inst [OF t(1) _ t(2)] i(1) res set inst tck [OF inst [OF t(1) _ t(2)]] tck [OF res]
    by (auto simp: SignalHandler_def sigaction_get_def Let_def split: if_splits option.splits prod.splits)
qed

lemma lifecycle_inv:
  assumes "lifecycle T s0 s" and "pristine s0"
  shows "signals_inv s0 s \<and> (eh_faults s0 = [] \<longrightarrow> eh_faults s = [] \<and> (T \<subseteq> {tid} \<longrightarrow> alt_inv tid s0 s))"
  using assms(1)
proof induction
  case start
  then show ?case using assms(2) by (auto simp: pristine_def signals_inv_def alt_inv_def)
next
  case (construct s tid' addr h install)
  then have "T \<subseteq> {tid} \<Longrightarrow> tid' = tid" by auto
  then show ?case using construct_inv [of s0 s "T \<subseteq> {tid}" tid' _ addr h install] construct.IH by auto
next
  case (destroy s tid' h s')
  then have "T \<subseteq> {tid} \<Longrightarrow> tid' = tid" by auto
  then show ?case using destroy_inv [OF assms(2), of s "T \<subseteq> {tid}" tid' h s'] destroy.IH destroy.hyps(3) by auto
next
  case (signal s sig H E fc info r s' tr)
  then show ?case using signal_inv [of s0 s sig] alt_inv_same by (auto simp: rest_same_def)
qed

text \<open>
  C14. The stack of handlers and the signal actions fit together. From a process without handlers, and through any
  sequence of constructions and destructions by any threads and of signals, whatever system calls fail: a signal that is Breakpad's finds a non-empty stack of
  handlers, so \<open>SignalHandler\<close> never follows the NULL pointer. If no call fails and no handler is left, all signal actions are what they were at first. If moreover
  all handlers were made and destroyed by one thread, the alternate stacks of all threads and the heap are what they were, too. With two threads this
  last part does not hold: \<open>altstack_freed_in_use\<close> below.
\<close>

theorem handlers_restored:
  assumes "pristine s0" and "lifecycle T s0 s"
  shows "(sa_handler (eh_actions s sig) = Breakpad_SignalHandler \<longrightarrow>
      (\<exists>hs. eh_handler_stack s = Some hs \<and> hs \<noteq> []) \<and> SignalHandler H E fc sig info s \<noteq> None) \<and>
    (eh_faults s0 = [] \<and> eh_handler_stack s = None \<longrightarrow>
      eh_actions s = eh_actions s0 \<and> (T \<subseteq> {tid} \<longrightarrow> eh_alt s = eh_alt s0 \<and> eh_heap s = eh_heap s0))"
proof -
  note inv = lifecycle_inv [OF assms(2,1), of tid]
  have "SignalHandler H E fc sig info s \<noteq> None" if "eh_handler_stack s \<noteq> None"
    using that by (auto simp: SignalHandler_def sigaction_get_def Let_def split: option.splits prod.splits)
  moreover have "sa_handler (eh_actions s sig) = Breakpad_SignalHandler \<Longrightarrow> \<exists>hs. eh_handler_stack s = Some hs \<and> hs \<noteq> []"
    using inv installed_of_action(3) [of s0 s sig] by (auto simp: signals_inv_def)
  ultimately show ?thesis using inv by (auto simp: signals_inv_def alt_inv_def)
qed

definition sample_process :: eh_world where
  "sample_process = \<lparr>eh_actions = (\<lambda>sig. \<lparr>sa_handler = Foreign sig, sa_mask = [], sa_flags = 0\<rparr>), eh_alt = (\<lambda>_. no_stack),
     eh_faults = [], eh_heap = [], eh_old_handlers = replicate 6 default_action, eh_handlers_installed = False,
     eh_old_stack = zero_stack, eh_new_stack = zero_stack, eh_stack_installed = False, eh_handler_stack = None\<rparr>"

lemma sample_process_pristine: "pristine sample_process"
  by (simp add: pristine_def sample_process_def)

lemmas eh_eval = ExceptionHandler_def Destroy_ExceptionHandler_def InstallAlternateStackLocked_def RestoreAlternateStackLocked_def
  InstallHandlersLocked_def RestoreHandlersLocked_def push_handler_def sigaction_get_def sigaction_set_def alt_defs faulty_def
  tick_def sample_process_def kExceptionSignals_def SIGABRT_def no_stack_def zero_stack_def SS_DISABLE_def kSigStackSize_def

theorem handlers_restored_witness:
  "\<exists>s. lifecycle {1, 2} sample_process s \<and> sa_handler (eh_actions s 11) = Breakpad_SignalHandler \<and>
     SignalHandler (\<lambda>_. sample_handler True) (\<lambda>_. sample_env) None 11 \<lparr>si_code = 1, si_pid = 0\<rparr> s \<noteq> None"
proof -
  let ?s = "ExceptionHandler 1 0x1000 5 True sample_process"
  have l: "lifecycle {1, 2} sample_process ?s" by (intro lifecycle.intros) simp
  have a: "sa_handler (eh_actions ?s 11) = Breakpad_SignalHandler"
    by (simp add: eh_eval breakpad_action_def)
  show ?thesis
    using handlers_restored [OF sample_process_pristine l, of 11 "\<lambda>_. sample_handler True" "\<lambda>_. sample_env" None "\<lparr>si_code = 1, si_pid = 0\<rparr>"] l a
    by blast
qed

text \<open>
  Alternate stacks belong to threads. A handler that is made by one thread and destroyed by another frees the stack the first thread
  still has installed.
\<close>

lemma altstack_freed_in_use:
  "\<exists>s. Destroy_ExceptionHandler 2 5 (ExceptionHandler 1 0x1000 5 True sample_process) = Some s \<and>
     ss_sp (eh_alt s 1) = 0x1000 \<and> 0x1000 \<notin> set (eh_heap s)"
  by (simp add: eh_eval breakpad_action_def)

section \<open>Registered memory and descriptors\<close>

text \<open>No pointer is registered twice; the list is a map from pointers to lengths in which the first registration stays.\<close>

definition app_map :: "handler \<Rightarrow> u64 \<rightharpoonup> u64" where
  "app_map h = map_of (map (\<lambda>m. (am_ptr m, am_length m)) (h_app_memory_list h))"

definition app_inv :: "handler \<Rightarrow> bool" where
  "app_inv h \<longleftrightarrow> distinct (map am_ptr (h_app_memory_list h))"

lemma erase_ptr_spec:
  "distinct (map am_ptr ms) \<Longrightarrow> distinct (map am_ptr (erase_ptr p ms)) \<and>
   map_of (map (\<lambda>m. (am_ptr m, am_length m)) (erase_ptr p ms)) = (map_of (map (\<lambda>m. (am_ptr m, am_length m)) ms))(p := None) \<and>
   am_ptr ` set (erase_ptr p ms) = am_ptr ` set ms - {p}"
proof (induction ms)
  case (Cons m ms)
  have "am_ptr m \<notin> am_ptr ` set ms \<Longrightarrow> map_of (map (\<lambda>m. (am_ptr m, am_length m)) ms) (am_ptr m) = None"
    by (auto simp: map_of_eq_None_iff)
  then show ?case using Cons by (auto simp: fun_eq_iff image_iff; metis)
qed simp

lemma app_memory_spec:
  assumes "app_inv h"
  shows "app_inv (RegisterAppMemory p n h)" and "app_inv (UnregisterAppMemory p h)"
    and "app_map (RegisterAppMemory p n h) = (if p \<in> dom (app_map h) then app_map h else (app_map h)(p \<mapsto> n))"
    and "app_map (UnregisterAppMemory p h) = (app_map h)(p := None)"
proof -
  have d: "dom (app_map h) = am_ptr ` set (h_app_memory_list h)" by (simp add: app_map_def dom_map_of_conv_image_fst image_image)
  show "app_map (RegisterAppMemory p n h) = (if p \<in> dom (app_map h) then app_map h else (app_map h)(p \<mapsto> n))"
  proof (cases "p \<in> dom (app_map h)")
    case False
    then have "app_map h p = None" by blast
    then show ?thesis using False d
      by (auto simp: RegisterAppMemory_def app_map_def fun_eq_iff map_add_def split: option.splits)
  qed (use d in \<open>simp add: RegisterAppMemory_def\<close>)
  show "app_inv (RegisterAppMemory p n h)" using assms by (auto simp: app_inv_def RegisterAppMemory_def)
  show "app_inv (UnregisterAppMemory p h)" "app_map (UnregisterAppMemory p h) = (app_map h)(p := None)"
    using assms erase_ptr_spec [of "h_app_memory_list h" p] by (simp_all add: app_inv_def UnregisterAppMemory_def app_map_def)
qed

end
