(* ===== verification/Dump_Protocol.thy ===== *)
theory Dump_Protocol
  imports Exception_Handler
begin

text \<open>
  The two processes of an in-process dump (\<open>GenerateDump\<close>, \<open>ThreadEntry\<close>, \<open>SendContinueSignalToChild\<close> and
  \<open>WaitForContinueSignal\<close> of \<^verbatim>\<open>client/linux/handler/exception_handler.cc\<close>). The crashed process clones a child, allows
  it to trace the parent, and then lets it go on by a byte through a pipe; the child reads that byte before it
  starts to dump. The child has its own copy of the descriptors (\<open>clone\<close> is called without \<open>CLONE_FILES\<close>).

  The calls of both processes (\<open>parent_calls\<close>, \<open>ThreadEntry\<close>) are interleaved in every way; either process may be
  killed at any time, and calls that are wrapped in \<open>HANDLE_EINTR\<close> may be interrupted and start again, a bounded number of times.
\<close>

section \<open>Configurations\<close>

record conf =
  p_prog :: "call list"
  c_prog :: "call list"
  p_open :: "int list"
  c_open :: "int list"
  pipe_bytes :: nat
  tracer :: bool
  p_alive :: bool
  c_alive :: bool
  dumped :: "(bool \<times> bool) option"
  interrupts :: nat

text \<open>
  A move of the parent; \<open>None\<close> when it has to wait. A write without a reader gives an error when the signal for it is ignored;
  otherwise it kills the parent, which is a step of its own. The child dumps with the permission and the parent it has at that moment.
\<close>

definition p_move :: "int \<Rightarrow> conf \<Rightarrow> conf option" where
  "p_move fd0 s =
     (case p_prog s of
        Close fd # cs \<Rightarrow> Some (s\<lparr>p_prog := cs, p_open := filter (\<lambda>f. f \<noteq> fd) (p_open s)\<rparr>)
      | Prctl_ptracer _ # cs \<Rightarrow> Some (s\<lparr>p_prog := cs, tracer := True\<rparr>)
      | WriteByte fd # cs \<Rightarrow>
          Some (if fd \<in> set (p_open s) \<and> fd0 \<in> set (p_open s @ c_open s)
                then s\<lparr>p_prog := cs, pipe_bytes := pipe_bytes s + 1\<rparr> else s\<lparr>p_prog := cs\<rparr>)
      | WaitChild _ # cs \<Rightarrow> if c_prog s = [] then Some (s\<lparr>p_prog := cs\<rparr>) else None
      | _ \<Rightarrow> None)"

definition c_move :: "int \<Rightarrow> conf \<Rightarrow> conf option" where
  "c_move fd1 s =
     (case c_prog s of
        Close fd # cs \<Rightarrow> Some (s\<lparr>c_prog := cs, c_open := filter (\<lambda>f. f \<noteq> fd) (c_open s)\<rparr>)
      | ReadByte fd # cs \<Rightarrow>
          if fd \<notin> set (c_open s) then Some (s\<lparr>c_prog := cs\<rparr>)
          else if 0 < pipe_bytes s then Some (s\<lparr>c_prog := cs, pipe_bytes := pipe_bytes s - 1\<rparr>)
          else if fd1 \<notin> set (p_open s @ c_open s) then Some (s\<lparr>c_prog := cs\<rparr>)
          else None
      | Dump # cs \<Rightarrow> Some (s\<lparr>c_prog := cs, dumped := Some (tracer s, p_alive s)\<rparr>)
      | _ \<Rightarrow> None)"

definition in_restartable :: "call list \<Rightarrow> bool" where
  "in_restartable cs = (case cs of WriteByte _ # _ \<Rightarrow> True | ReadByte _ # _ \<Rightarrow> True | WaitChild _ # _ \<Rightarrow> True | _ \<Rightarrow> False)"

inductive step :: "int \<Rightarrow> int \<Rightarrow> conf \<Rightarrow> conf \<Rightarrow> bool" for fd0 fd1 where
  parent: "p_move fd0 s = Some s' \<Longrightarrow> step fd0 fd1 s s'"
| child: "c_move fd1 s = Some s' \<Longrightarrow> step fd0 fd1 s s'"
| interrupt: "in_restartable (p_prog s) \<or> in_restartable (c_prog s) \<Longrightarrow> interrupts s = Suc n \<Longrightarrow>
    step fd0 fd1 s (s\<lparr>interrupts := n\<rparr>)"
| kill_parent: "p_prog s \<noteq> [] \<Longrightarrow> step fd0 fd1 s (s\<lparr>p_prog := [], p_open := [], p_alive := False\<rparr>)"
| kill_child: "c_prog s \<noteq> [] \<Longrightarrow> step fd0 fd1 s (s\<lparr>c_prog := [], c_open := [], c_alive := False\<rparr>)"

text \<open>The two processes right after \<open>clone\<close>; without a pipe both descriptors are \<open>-1\<close> and nothing is open.\<close>

definition cloned :: "int \<Rightarrow> int \<Rightarrow> int \<Rightarrow> nat \<Rightarrow> conf" where
  "cloned fd0 fd1 pid n =
     (let fds = (if fd0 = -1 then [] else [fd0, fd1])
      in \<lparr>p_prog = parent_calls fd0 fd1 pid, c_prog = ThreadEntry fd0 fd1, p_open = fds, c_open = fds, pipe_bytes = 0,
          tracer = False, p_alive = True, c_alive = True, dumped = None, interrupts = n\<rparr>)"

section \<open>The invariant\<close>

text \<open>
  \<open>i\<close> and \<open>j\<close> count the calls the processes have done; a process that was killed has done them all. Past its read (\<open>2 \<le> j\<close>) the child
  has the permission, or has lost its parent, or there is no pipe.
\<close>

definition at :: "int \<Rightarrow> int \<Rightarrow> int \<Rightarrow> nat \<Rightarrow> nat \<Rightarrow> conf \<Rightarrow> bool" where
  "at fd0 fd1 pid i j s \<longleftrightarrow> i \<le> 5 \<and> j \<le> 4 \<and>
     p_prog s = drop i (parent_calls fd0 fd1 pid) \<and> c_prog s = drop j (ThreadEntry fd0 fd1) \<and>
     p_open s = (if fd0 = -1 \<or> 5 \<le> i then [] else if i = 0 then [fd0, fd1] else [fd1]) \<and>
     c_open s = (if fd0 = -1 \<or> 3 \<le> j then [] else if j = 0 then [fd0, fd1] else [fd0]) \<and>
     (\<not> p_alive s \<longrightarrow> i = 5) \<and> (\<not> c_alive s \<longrightarrow> j = 4) \<and>
     (2 \<le> i \<and> p_alive s \<longrightarrow> tracer s) \<and> (0 < pipe_bytes s \<longrightarrow> tracer s) \<and>
     (4 \<le> i \<and> p_alive s \<longrightarrow> j = 4) \<and>
     (2 \<le> j \<and> c_alive s \<and> fd0 \<noteq> -1 \<longrightarrow> tracer s \<or> \<not> p_alive s) \<and>
     (3 = i \<and> j < 2 \<and> fd0 \<noteq> -1 \<longrightarrow> 0 < pipe_bytes s) \<and>
     (c_alive s \<longrightarrow> (dumped s \<noteq> None \<longleftrightarrow> j = 4)) \<and>
     (case dumped s of None \<Rightarrow> True | Some (t, a) \<Rightarrow> fd0 = -1 \<or> t \<or> \<not> a)"

lemmas prog_simps = parent_calls_def ThreadEntry_def

lemma p_move_at:
  assumes a: "at fd0 fd1 pid i j s" and m: "p_move fd0 s = Some s'" and fd: "fd0 \<noteq> fd1 \<or> fd0 = -1"
  shows "at fd0 fd1 pid (Suc i) j s'"
proof -
  have p: "p_prog s = drop i (parent_calls fd0 fd1 pid)" "i \<le> 5" using a by (simp_all add: at_def)
  consider "i = 0" | "i = 1" | "i = 2" | "i = 3" | "i = 4" | "i = 5" using p(2) by linarith
  then show ?thesis
  proof cases
    case 1
    have "s' = s\<lparr>p_prog := drop (Suc i) (parent_calls fd0 fd1 pid), p_open := filter (\<lambda>f. f \<noteq> fd0) (p_open s)\<rparr>"
      using m p 1 by (simp add: p_move_def prog_simps)
    then show ?thesis using a fd 1 by (cases "fd0 = -1") (auto simp add: at_def)
  next
    case 2
    have "s' = s\<lparr>p_prog := drop (Suc i) (parent_calls fd0 fd1 pid), tracer := True\<rparr>"
      using m p 2 by (simp add: p_move_def prog_simps)
    then show ?thesis using a 2 by (simp add: at_def)
  next
    case 3
    have "s' = (if fd1 \<in> set (p_open s) \<and> fd0 \<in> set (p_open s @ c_open s) then s\<lparr>p_prog := drop (Suc i) (parent_calls fd0 fd1 pid), pipe_bytes := pipe_bytes s + 1\<rparr>
      else s\<lparr>p_prog := drop (Suc i) (parent_calls fd0 fd1 pid)\<rparr>)"
      using m p 3 by (auto simp add: p_move_def prog_simps)
    then show ?thesis using a 3 by (cases "fd0 = -1") (auto simp add: at_def)
  next
    case 4
    have "s' = s\<lparr>p_prog := drop (Suc i) (parent_calls fd0 fd1 pid)\<rparr>" "c_prog s = []"
      using m p 4 by (simp_all add: p_move_def prog_simps split: if_splits)
    then show ?thesis using a 4 by (simp add: at_def prog_simps)
  next
    case 5
    have "s' = s\<lparr>p_prog := [], p_open := filter (\<lambda>f. f \<noteq> fd1) (p_open s)\<rparr>"
      using m p 5 by (simp add: p_move_def prog_simps)
    then show ?thesis using a 5 by (simp add: at_def prog_simps)
  next
    case 6
    then show ?thesis using m p by (simp add: p_move_def prog_simps)
  qed
qed

lemma c_move_at:
  assumes a: "at fd0 fd1 pid i j s" and m: "c_move fd1 s = Some s'" and fd: "fd0 \<noteq> fd1 \<or> fd0 = -1"
  shows "at fd0 fd1 pid i (Suc j) s'"
proof -
  have p: "c_prog s = drop j (ThreadEntry fd0 fd1)" "j \<le> 4" using a by (simp_all add: at_def)
  consider "j = 0" | "j = 1" | "j = 2" | "j = 3" | "j = 4" using p(2) by linarith
  then show ?thesis
  proof cases
    case 1
    have "s' = s\<lparr>c_prog := drop (Suc j) (ThreadEntry fd0 fd1), c_open := filter (\<lambda>f. f \<noteq> fd1) (c_open s)\<rparr>"
      using m p 1 by (simp add: c_move_def prog_simps)
    then show ?thesis using a fd 1 by (simp add: at_def)
  next
    case 2
    define b where "b = pipe_bytes s'"
    have s': "s' = s\<lparr>c_prog := drop (Suc j) (ThreadEntry fd0 fd1), pipe_bytes := b\<rparr>" "b \<le> pipe_bytes s"
      and r: "fd0 \<in> set (c_open s) \<Longrightarrow> 0 < pipe_bytes s \<or> fd1 \<notin> set (p_open s @ c_open s)"
      using m p 2 by (auto simp add: c_move_def prog_simps b_def split: if_splits)
    have t: "fd0 \<noteq> -1 \<Longrightarrow> tracer s \<or> \<not> p_alive s"
      using a r 2 by (cases "5 \<le> i") (auto simp: at_def split: if_splits)
    show ?thesis using a 2 t s'(2) unfolding s'(1) by (cases "fd0 = -1") (auto simp add: at_def)
  next
    case 3
    have "s' = s\<lparr>c_prog := drop (Suc j) (ThreadEntry fd0 fd1), c_open := filter (\<lambda>f. f \<noteq> fd0) (c_open s)\<rparr>"
      using m p 3 by (simp add: c_move_def prog_simps)
    then show ?thesis using a 3 by (simp add: at_def)
  next
    case 4
    have "s' = s\<lparr>c_prog := [], dumped := Some (tracer s, p_alive s)\<rparr>"
      using m p 4 by (simp add: c_move_def prog_simps)
    then show ?thesis using a 4 by (auto simp add: at_def prog_simps)
  next
    case 5
    then show ?thesis using m p by (simp add: c_move_def prog_simps)
  qed
qed

section \<open>Every execution\<close>

lemma step_at:
  assumes st: "step fd0 fd1 s s'" and a: "at fd0 fd1 pid i j s" and fd: "fd0 \<noteq> fd1 \<or> fd0 = -1"
  shows "\<exists>i j. at fd0 fd1 pid i j s'"
  using st
proof cases
  case parent
  then show ?thesis using p_move_at [OF a _ fd] by blast
next
  case child
  then show ?thesis using c_move_at [OF a _ fd] by blast
next
  case (interrupt n)
  have "at fd0 fd1 pid i j s'" using a by (simp add: interrupt at_def)
  then show ?thesis by blast
next
  case kill_parent
  have "at fd0 fd1 pid 5 j s'" using a by (auto simp: kill_parent at_def prog_simps)
  then show ?thesis by blast
next
  case kill_child
  have "at fd0 fd1 pid i 4 s'" using a by (auto simp: kill_child at_def prog_simps)
  then show ?thesis by blast
qed

definition work :: "conf \<Rightarrow> nat" where
  "work s = length (p_prog s) + length (c_prog s) + interrupts s"

lemma step_work:
  assumes "step fd0 fd1 s s'"
  shows "Suc (work s') \<le> work s"
  using assms
proof cases
  case parent
  then show ?thesis by (auto simp: work_def p_move_def split: list.splits call.splits if_splits)
next
  case child
  then show ?thesis by (auto simp: work_def c_move_def split: list.splits call.splits if_splits)
qed (auto simp: work_def Suc_le_eq)

lemma steps_at:
  assumes "(step fd0 fd1 ^^ n) (cloned fd0 fd1 pid k) s" and fd: "fd0 \<noteq> fd1 \<or> fd0 = -1"
  shows "(\<exists>i j. at fd0 fd1 pid i j s) \<and> n + work s \<le> 9 + k"
  using assms(1)
proof (induction n arbitrary: s)
  case 0
  then have s: "s = cloned fd0 fd1 pid k" by simp
  have "at fd0 fd1 pid 0 0 s" by (auto simp: s cloned_def at_def Let_def)
  moreover have "work s = 9 + k" by (simp add: s cloned_def work_def prog_simps Let_def)
  ultimately show ?case by (metis add_0 order_refl)
next
  case (Suc n)
  then obtain s1 where s1: "(step fd0 fd1 ^^ n) (cloned fd0 fd1 pid k) s1" "step fd0 fd1 s1 s" by auto
  have "\<exists>i j. at fd0 fd1 pid i j s" using Suc.IH [OF s1(1)] step_at [OF s1(2) _ fd] by blast
  then show ?case using Suc.IH [OF s1(1)] step_work [OF s1(2)] by auto
qed

text \<open>Somebody can always move: a child that waits for the byte has a parent that has yet to send it.\<close>

lemma progress_at:
  assumes a: "at fd0 fd1 pid i j s" and fd: "fd0 \<noteq> fd1 \<or> fd0 = -1" and "p_prog s \<noteq> [] \<or> c_prog s \<noteq> []"
  shows "p_move fd0 s \<noteq> None \<or> c_move fd1 s \<noteq> None"
proof -
  have p: "p_prog s = drop i (parent_calls fd0 fd1 pid)" "c_prog s = drop j (ThreadEntry fd0 fd1)" "i \<le> 5" "j \<le> 4"
    using a by (simp_all add: at_def)
  have pm: "p_move fd0 s \<noteq> None" if i: "i < 5" "i \<noteq> 3 \<or> j = 4"
  proof -
    consider "i = 0" | "i = 1" | "i = 2" | "i = 3" | "i = 4" using i(1) by linarith
    then show ?thesis using p i by cases (auto simp: p_move_def prog_simps)
  qed
  have cm: "c_move fd1 s \<noteq> None" if j: "j < 4" "j \<noteq> 1"
  proof -
    consider "j = 0" | "j = 2" | "j = 3" using j by fastforce
    then show ?thesis using p by cases (auto simp: c_move_def prog_simps)
  qed
  show ?thesis
  proof (cases "j = 1")
    case True
    have "i < 5 \<and> i \<noteq> 3" if "c_move fd1 s = None"
      using that a fd p(2) True by (auto simp: at_def c_move_def prog_simps split: if_splits)
    then show ?thesis using pm by blast
  next
    case False
    then show ?thesis using pm cm p assms(3) by (cases "j = 4") (auto simp: prog_simps)
  qed
qed

text \<open>A scheduler: \<open>True\<close> moves the parent.\<close>

fun run :: "int \<Rightarrow> int \<Rightarrow> bool list \<Rightarrow> conf \<Rightarrow> conf option" where
  "run fd0 fd1 [] s = Some s"
| "run fd0 fd1 (b # bs) s = Option.bind (if b then p_move fd0 s else c_move fd1 s) (run fd0 fd1 bs)"

lemma run_steps: "run fd0 fd1 bs s = Some s' \<Longrightarrow> (step fd0 fd1 ^^ length bs) s s'"
proof (induction bs arbitrary: s)
  case (Cons b bs)
  then obtain s1 where "step fd0 fd1 s s1" "run fd0 fd1 bs s1 = Some s'"
    by (auto simp: bind_eq_Some_conv split: if_splits intro: step.intros)
  then show ?case using Cons.IH by (metis length_Cons relpowp_Suc_I2)
qed simp

text \<open>
  Without a pipe nothing holds the child back: the read and the write fail at once, and the child may dump a living parent before
  it has the permission to trace it.
\<close>

lemma no_pipe_no_order: "\<exists>n s. (step (-1) (-1) ^^ n) (cloned (-1) (-1) pid k) s \<and> dumped s = Some (False, True)"
proof -
  let ?bs = "[False, False, False, False]"
  obtain s where s: "run (-1) (-1) ?bs (cloned (-1) (-1) pid k) = Some s" "dumped s = Some (False, True)"
    by (simp add: cloned_def Let_def prog_simps c_move_def)
  then show ?thesis using run_steps by blast
qed

text \<open>
  C7. The dump protocol is live, and safe when there is a pipe. For a pipe with two different ends, or after a failed \<open>sys_pipe\<close>, when both descriptors
  are \<open>-1\<close>, and for every interleaving of the two processes with \<open>k\<close> interruptions and with either process killed at any time: an execution has at
  most \<open>9 + k\<close> steps; while a process has calls left, one of the two can move; a process that is through has closed all descriptors of the pipe; a child
  that was not killed has dumped when it is through, and a parent that was not killed has waited for its child. With a pipe, the child dumps only with the permission to trace
  the parent, or when the parent is gone. Without one this order is not kept: from every start without a pipe an execution leads to a dump of the living parent without the
  permission.
\<close>

theorem dump_protocol:
  assumes "0 \<le> fd0 \<and> 0 \<le> fd1 \<and> fd0 \<noteq> fd1 \<or> fd0 = -1 \<and> fd1 = -1"
    and "(step fd0 fd1 ^^ n) (cloned fd0 fd1 pid k) s"
  shows "n \<le> 9 + k \<and>
    (p_prog s \<noteq> [] \<or> c_prog s \<noteq> [] \<longrightarrow> p_move fd0 s \<noteq> None \<or> c_move fd1 s \<noteq> None) \<and>
    (p_prog s = [] \<longrightarrow> p_open s = []) \<and> (c_prog s = [] \<longrightarrow> c_open s = []) \<and>
    (c_prog s = [] \<and> c_alive s \<longrightarrow> dumped s \<noteq> None) \<and>
    (p_prog s = [] \<and> p_alive s \<longrightarrow> c_prog s = []) \<and>
    (if fd0 \<noteq> -1 then \<forall>permitted parent_there. dumped s = Some (permitted, parent_there) \<longrightarrow> permitted \<or> \<not> parent_there
     else \<exists>n' s'. (step fd0 fd1 ^^ n') (cloned fd0 fd1 pid k) s' \<and> dumped s' = Some (False, True))"
proof -
  have fd: "fd0 \<noteq> fd1 \<or> fd0 = -1" using assms(1) by auto
  obtain i j where a: "at fd0 fd1 pid i j s" and n: "n + work s \<le> 9 + k" using steps_at [OF assms(2) fd] by blast
  have d: "p_prog s = drop i (parent_calls fd0 fd1 pid)" "c_prog s = drop j (ThreadEntry fd0 fd1)" using a by (simp_all add: at_def)
  have fin: "p_prog s = [] \<longleftrightarrow> 5 \<le> i" "c_prog s = [] \<longleftrightarrow> 4 \<le> j" unfolding d by (auto simp: prog_simps)
  have "5 \<le> i \<Longrightarrow> p_open s = []" "4 \<le> j \<Longrightarrow> c_open s = []" using a by (simp_all add: at_def)
  moreover have "dumped s = Some (permitted, parent_there) \<Longrightarrow> fd0 \<noteq> -1 \<Longrightarrow> permitted \<or> \<not> parent_there" for permitted parent_there
    using a by (simp add: at_def)
  moreover have "fd0 = -1 \<Longrightarrow> \<exists>n' s'. (step fd0 fd1 ^^ n') (cloned fd0 fd1 pid k) s' \<and> dumped s' = Some (False, True)"
    using no_pipe_no_order [of pid k] assms(1) by auto
  moreover have "4 \<le> j \<Longrightarrow> c_alive s \<Longrightarrow> dumped s \<noteq> None" "5 \<le> i \<Longrightarrow> p_alive s \<Longrightarrow> 4 \<le> j"
    using a by (simp_all add: at_def)
  ultimately show ?thesis using n progress_at [OF a fd] unfolding fin by (simp add: add_leD1)
qed

theorem dump_protocol_witness:
  "\<exists>s. (step 3 4 ^^ 9) (cloned 3 4 77 0) s \<and> dumped s = Some (True, True) \<and> p_open s = [] \<and> c_open s = []"
proof -
  let ?bs = "[False, True, True, True, False, False, False, True, True]"
  have len: "length ?bs = 9" by simp
  obtain s where s: "run 3 4 ?bs (cloned 3 4 77 0) = Some s" "dumped s = Some (True, True)" "p_prog s = []" "c_prog s = []"
    by (simp add: cloned_def Let_def prog_simps p_move_def c_move_def)
  have "(step 3 4 ^^ 9) (cloned 3 4 77 0) s" using run_steps [OF s(1)] len by metis
  then show ?thesis using dump_protocol [of 3 4 9 77 0 s] s by auto
qed

end
