(* ===== verification/Elf_File.thy ===== *)
theory Elf_File
  imports Stack_Sanitizer
begin

text \<open>
  \<^verbatim>\<open>common/linux/elfutils.cc\<close>, \<^verbatim>\<open>common/linux/elfutils-inl.h\<close> and \<^verbatim>\<open>common/linux/file_id.cc\<close>: finding sections and segments of an ELF
  image that is mapped into memory, the name of a shared object, and the identifier of a module, which is its build
  id or a hash of its code.

  The image is the list of its bytes, a pointer into it an index; reading outside the image is \<open>None\<close>. The structures of the file are those of
  \<^verbatim>\<open>third_party/musl/include/elf.h\<close>, laid out by the rules of \<open>C_Layout\<close>, little-endian, for both classes of ELF files.
\<close>

section \<open>Structures\<close>

definition Elf32_Ehdr :: ctype where
  "Elf32_Ehdr = struct
     [(''e_ident'', CArr uint8_t 16), (''e_type'', uint16_t), (''e_machine'', uint16_t), (''e_version'', uint32_t),
      (''e_entry'', uint32_t), (''e_phoff'', uint32_t), (''e_shoff'', uint32_t), (''e_flags'', uint32_t), (''e_ehsize'', uint16_t),
      (''e_phentsize'', uint16_t), (''e_phnum'', uint16_t), (''e_shentsize'', uint16_t), (''e_shnum'', uint16_t), (''e_shstrndx'', uint16_t)]"

definition Elf64_Ehdr :: ctype where
  "Elf64_Ehdr = struct
     [(''e_ident'', CArr uint8_t 16), (''e_type'', uint16_t), (''e_machine'', uint16_t), (''e_version'', uint32_t),
      (''e_entry'', uint64_t), (''e_phoff'', uint64_t), (''e_shoff'', uint64_t), (''e_flags'', uint32_t), (''e_ehsize'', uint16_t),
      (''e_phentsize'', uint16_t), (''e_phnum'', uint16_t), (''e_shentsize'', uint16_t), (''e_shnum'', uint16_t), (''e_shstrndx'', uint16_t)]"

definition Elf32_Shdr :: ctype where
  "Elf32_Shdr = struct
     [(''sh_name'', uint32_t), (''sh_type'', uint32_t), (''sh_flags'', uint32_t), (''sh_addr'', uint32_t), (''sh_offset'', uint32_t),
      (''sh_size'', uint32_t), (''sh_link'', uint32_t), (''sh_info'', uint32_t), (''sh_addralign'', uint32_t), (''sh_entsize'', uint32_t)]"

definition Elf64_Shdr :: ctype where
  "Elf64_Shdr = struct
     [(''sh_name'', uint32_t), (''sh_type'', uint32_t), (''sh_flags'', uint64_t), (''sh_addr'', uint64_t), (''sh_offset'', uint64_t),
      (''sh_size'', uint64_t), (''sh_link'', uint32_t), (''sh_info'', uint32_t), (''sh_addralign'', uint64_t), (''sh_entsize'', uint64_t)]"

definition Elf32_Phdr :: ctype where
  "Elf32_Phdr = struct
     [(''p_type'', uint32_t), (''p_offset'', uint32_t), (''p_vaddr'', uint32_t), (''p_paddr'', uint32_t), (''p_filesz'', uint32_t),
      (''p_memsz'', uint32_t), (''p_flags'', uint32_t), (''p_align'', uint32_t)]"

definition Elf64_Phdr :: ctype where
  "Elf64_Phdr = struct
     [(''p_type'', uint32_t), (''p_flags'', uint32_t), (''p_offset'', uint64_t), (''p_vaddr'', uint64_t), (''p_paddr'', uint64_t),
      (''p_filesz'', uint64_t), (''p_memsz'', uint64_t), (''p_align'', uint64_t)]"

definition Elf32_Dyn :: ctype where
  "Elf32_Dyn = struct [(''d_tag'', int32_t), (''d_un'', CUnion [(''d_val'', uint32_t), (''d_ptr'', uint32_t)])]"

definition Elf64_Dyn :: ctype where
  "Elf64_Dyn = struct [(''d_tag'', uint64_t), (''d_un'', CUnion [(''d_val'', uint64_t), (''d_ptr'', uint64_t)])]"

definition Elf32_Nhdr :: ctype where
  "Elf32_Nhdr = struct [(''n_namesz'', uint32_t), (''n_descsz'', uint32_t), (''n_type'', uint32_t)]"

record elf_class =
  Ehdr :: ctype
  Phdr :: ctype
  Shdr :: ctype
  Dyn :: ctype

definition ElfClass32 :: elf_class where
  "ElfClass32 = \<lparr>Ehdr = Elf32_Ehdr, Phdr = Elf32_Phdr, Shdr = Elf32_Shdr, Dyn = Elf32_Dyn\<rparr>"

definition ElfClass64 :: elf_class where
  "ElfClass64 = \<lparr>Ehdr = Elf64_Ehdr, Phdr = Elf64_Phdr, Shdr = Elf64_Shdr, Dyn = Elf64_Dyn\<rparr>"

definition PT_NOTE :: nat where "PT_NOTE = 4"
definition SHT_PROGBITS :: nat where "SHT_PROGBITS = 1"
definition SHT_STRTAB :: nat where "SHT_STRTAB = 3"
definition SHT_DYNAMIC :: nat where "SHT_DYNAMIC = 6"
definition SHT_NOTE :: nat where "SHT_NOTE = 7"
definition DT_SONAME :: nat where "DT_SONAME = 14"
definition NT_GNU_BUILD_ID :: nat where "NT_GNU_BUILD_ID = 3"

text \<open>The member \<open>m\<close> of a structure of type \<open>t\<close> at index \<open>base\<close>.\<close>

definition get_member :: "bytes \<Rightarrow> nat \<Rightarrow> ctype \<Rightarrow> string \<Rightarrow> nat option" where
  "get_member img base t m =
     do {
       off \<leftarrow> offsetof 8 t m;
       mt \<leftarrow> map_of (members t) m;
       if base + off + sizeof 8 mt \<le> length img then Some (le_nat (take (sizeof 8 mt) (drop (base + off) img))) else None
     }"

section \<open>Sections and segments\<close>

definition IsValidElf :: "bool \<Rightarrow> bytes \<Rightarrow> bool option" where
  "IsValidElf sg elf_base = map_option (\<lambda>r. r = 0) (my_strncmp sg elf_base [127, 69, 76, 70, 0] 4)"

definition EI_CLASS :: "bytes \<Rightarrow> nat option" where
  "EI_CLASS elf_base = map_option unat (rd elf_base 4)"

text \<open>The loop of \<open>FindElfSectionByName\<close>, from section \<open>i\<close>, with \<open>n\<close> sections to go; \<open>Some None\<close> is NULL.\<close>

fun section_by_name ::
  "elf_class \<Rightarrow> bool \<Rightarrow> bytes \<Rightarrow> bytes \<Rightarrow> nat \<Rightarrow> nat \<Rightarrow> nat \<Rightarrow> nat \<Rightarrow> nat \<Rightarrow> nat \<Rightarrow> nat \<Rightarrow> nat option option" where
  "section_by_name c sg img name name_len section_type sections section_names names_end i 0 = Some None"
| "section_by_name c sg img name name_len section_type sections section_names names_end i (Suc n) =
     do {
       let shdr = sections + i * sizeof 8 (Shdr c);
       sh_name \<leftarrow> get_member img shdr (Shdr c) ''sh_name'';
       sh_type \<leftarrow> get_member img shdr (Shdr c) ''sh_type'';
       let section_name = section_names + sh_name;
       if sh_type = section_type \<and> int names_end - int section_name \<ge> int name_len + 1 then
         do {
           r \<leftarrow> my_strcmp sg name (drop section_name img);
           if r = 0 then Some (Some shdr)
           else section_by_name c sg img name name_len section_type sections section_names names_end (Suc i) n
         }
       else section_by_name c sg img name name_len section_type sections section_names names_end (Suc i) n
     }"

definition FindElfSectionByName ::
  "elf_class \<Rightarrow> bool \<Rightarrow> bytes \<Rightarrow> bytes \<Rightarrow> nat \<Rightarrow> nat \<Rightarrow> nat \<Rightarrow> nat \<Rightarrow> nat \<Rightarrow> nat option option" where
  "FindElfSectionByName c sg img name section_type sections section_names names_end nsection =
     do {
       name_len \<leftarrow> my_strlen name;
       if name_len = 0 then Some None
       else section_by_name c sg img name name_len section_type sections section_names names_end 0 nsection
     }"

text \<open>The start and the size of a section; \<open>None\<close> inside stands for the NULL start.\<close>

definition FindElfClassSection :: "elf_class \<Rightarrow> bool \<Rightarrow> bytes \<Rightarrow> bytes \<Rightarrow> nat \<Rightarrow> (nat \<times> nat) option option" where
  "FindElfClassSection c sg img section_name section_type =
     do {
       e_shoff \<leftarrow> get_member img 0 (Ehdr c) ''e_shoff'';
       if e_shoff = 0 then Some None
       else do {
         e_shstrndx \<leftarrow> get_member img 0 (Ehdr c) ''e_shstrndx'';
         e_shnum \<leftarrow> get_member img 0 (Ehdr c) ''e_shnum'';
         let section_names = e_shoff + e_shstrndx * sizeof 8 (Shdr c);
         names \<leftarrow> get_member img section_names (Shdr c) ''sh_offset'';
         names_size \<leftarrow> get_member img section_names (Shdr c) ''sh_size'';
         found \<leftarrow> FindElfSectionByName c sg img section_name section_type e_shoff names (names + names_size) e_shnum;
         (case found of
            None \<Rightarrow> Some None
          | Some shdr \<Rightarrow>
              do {
                size \<leftarrow> get_member img shdr (Shdr c) ''sh_size'';
                start \<leftarrow> get_member img shdr (Shdr c) ''sh_offset'';
                Some (if size > 0 then Some (start, size) else None)
              })
       }
     }"

definition FindElfSection :: "bool \<Rightarrow> bytes \<Rightarrow> bytes \<Rightarrow> nat \<Rightarrow> (nat \<times> nat) option option" where
  "FindElfSection sg img section_name section_type =
     do {
       ok \<leftarrow> IsValidElf sg img;
       if \<not> ok then Some None
       else do {
         cls \<leftarrow> EI_CLASS img;
         if cls = 1 then FindElfClassSection ElfClass32 sg img section_name section_type
         else if cls = 2 then FindElfClassSection ElfClass64 sg img section_name section_type
         else Some None
       }
     }"

fun class_segments :: "elf_class \<Rightarrow> bytes \<Rightarrow> nat \<Rightarrow> nat \<Rightarrow> nat \<Rightarrow> nat \<Rightarrow> (nat \<times> nat) list option" where
  "class_segments c img segment_type phdrs i 0 = Some []"
| "class_segments c img segment_type phdrs i (Suc n) =
     do {
       let phdr = phdrs + i * sizeof 8 (Phdr c);
       p_type \<leftarrow> get_member img phdr (Phdr c) ''p_type'';
       if p_type = segment_type then
         do {
           start \<leftarrow> get_member img phdr (Phdr c) ''p_offset'';
           size \<leftarrow> get_member img phdr (Phdr c) ''p_filesz'';
           segs \<leftarrow> class_segments c img segment_type phdrs (Suc i) n;
           Some ((start, size) # segs)
         }
       else class_segments c img segment_type phdrs (Suc i) n
     }"

definition FindElfClassSegment :: "elf_class \<Rightarrow> bytes \<Rightarrow> nat \<Rightarrow> (nat \<times> nat) list option" where
  "FindElfClassSegment c img segment_type =
     do {
       e_phoff \<leftarrow> get_member img 0 (Ehdr c) ''e_phoff'';
       e_phnum \<leftarrow> get_member img 0 (Ehdr c) ''e_phnum'';
       class_segments c img segment_type e_phoff 0 e_phnum
     }"

definition FindElfSegments :: "bool \<Rightarrow> bytes \<Rightarrow> nat \<Rightarrow> (bool \<times> (nat \<times> nat) list) option" where
  "FindElfSegments sg img segment_type =
     do {
       ok \<leftarrow> IsValidElf sg img;
       if \<not> ok then Some (False, [])
       else do {
         cls \<leftarrow> EI_CLASS img;
         if cls = 1 then map_option (Pair True) (FindElfClassSegment ElfClass32 img segment_type)
         else if cls = 2 then map_option (Pair True) (FindElfClassSegment ElfClass64 img segment_type)
         else Some (False, [])
       }
     }"

section \<open>The name of a shared object\<close>

fun soname_entry ::
  "elf_class \<Rightarrow> bytes \<Rightarrow> nat \<Rightarrow> nat \<Rightarrow> nat \<Rightarrow> nat \<Rightarrow> nat \<Rightarrow> bytes \<Rightarrow> (bool \<times> bytes) option" where
  "soname_entry c img dynamic dynstr_start dynstr_size i 0 soname = Some (False, soname)"
| "soname_entry c img dynamic dynstr_start dynstr_size i (Suc n) soname =
     do {
       let dyn = dynamic + i * sizeof 8 (Dyn c);
       d_tag \<leftarrow> get_member img dyn (Dyn c) ''d_tag'';
       if d_tag = DT_SONAME then
         do {
           d_val \<leftarrow> get_member img dyn (Dyn c) ''d_un'';
           if d_val \<ge> dynstr_size then Some (False, soname)
           else do {
             let maxsize = dynstr_size - d_val;
             (buf, _) \<leftarrow> my_strlcpy soname (drop (dynstr_start + d_val) img) (min maxsize (length soname));
             Some (True, buf)
           }
         }
       else soname_entry c img dynamic dynstr_start dynstr_size (Suc i) n soname
     }"

definition FindElfSoNameFromDynamicSection ::
  "elf_class \<Rightarrow> bytes \<Rightarrow> nat \<Rightarrow> nat \<Rightarrow> nat \<Rightarrow> nat \<Rightarrow> bytes \<Rightarrow> (bool \<times> bytes) option" where
  "FindElfSoNameFromDynamicSection c img section_start section_size dynstr_start dynstr_size soname =
     soname_entry c img section_start dynstr_start dynstr_size 0 (section_size div sizeof 8 (Dyn c)) soname"

definition ElfFileSoNameFromMappedFile :: "bool \<Rightarrow> bytes \<Rightarrow> bytes \<Rightarrow> (bool \<times> bytes) option" where
  "ElfFileSoNameFromMappedFile sg img soname =
     do {
       ok \<leftarrow> IsValidElf sg img;
       if \<not> ok then Some (False, soname)
       else do {
         dynamic \<leftarrow> FindElfSection sg img (chars ''.dynamic'' @ [0]) SHT_DYNAMIC;
         (case dynamic of
            None \<Rightarrow> Some (False, soname)
          | Some (segment_start, segment_size) \<Rightarrow>
              do {
                dynstr \<leftarrow> FindElfSection sg img (chars ''.dynstr'' @ [0]) SHT_STRTAB;
                (case dynstr of
                   None \<Rightarrow> Some (False, soname)
                 | Some (dynstr_start, dynstr_size) \<Rightarrow>
                     do {
                       cls \<leftarrow> EI_CLASS img;
                       FindElfSoNameFromDynamicSection (if cls = 1 then ElfClass32 else ElfClass64) img
                         segment_start segment_size dynstr_start dynstr_size soname
                     })
              })
       }
     }"

section \<open>The identifier of a module\<close>

definition NOTE_PADDING :: "nat \<Rightarrow> nat" where
  "NOTE_PADDING a = unat ((of_nat a + 3 :: u32) AND NOT 3)"

text \<open>The loop over the notes, from index \<open>note\<close>: where it stops.\<close>

function find_note :: "bytes \<Rightarrow> nat \<Rightarrow> nat \<Rightarrow> nat option" where
  "find_note img section_end note =
     (if note < section_end then
        do {
          n_type \<leftarrow> get_member img note Elf32_Nhdr ''n_type'';
          if n_type = NT_GNU_BUILD_ID then Some note
          else do {
            n_namesz \<leftarrow> get_member img note Elf32_Nhdr ''n_namesz'';
            n_descsz \<leftarrow> get_member img note Elf32_Nhdr ''n_descsz'';
            find_note img section_end (note + 12 + NOTE_PADDING n_namesz + NOTE_PADDING n_descsz)
          }
        }
      else Some note)"
  by pat_completeness auto
termination
  by (relation "measure (\<lambda>(img, section_end, note). section_end - note)") auto

declare find_note.simps [simp del]

definition ElfClassBuildIDNoteIdentifier :: "bytes \<Rightarrow> nat \<Rightarrow> nat \<Rightarrow> bytes \<Rightarrow> (bool \<times> bytes) option" where
  "ElfClassBuildIDNoteIdentifier img section_start len identifier =
     do {
       note \<leftarrow> find_note img (section_start + len) section_start;
       if note \<ge> section_start + len then Some (False, identifier)
       else do {
         n_descsz \<leftarrow> get_member img note Elf32_Nhdr ''n_descsz'';
         if n_descsz = 0 then Some (False, identifier)
         else do {
           n_namesz \<leftarrow> get_member img note Elf32_Nhdr ''n_namesz'';
           let build_id = note + 12 + NOTE_PADDING n_namesz;
           if build_id + n_descsz \<le> length img then Some (True, identifier @ take n_descsz (drop build_id img)) else None
         }
       }
     }"

fun note_in_segments :: "bytes \<Rightarrow> (nat \<times> nat) list \<Rightarrow> bytes \<Rightarrow> (bool \<times> bytes) option" where
  "note_in_segments img [] identifier = Some (False, identifier)"
| "note_in_segments img ((start, sz) # segs) identifier =
     do {
       (ok, ident) \<leftarrow> ElfClassBuildIDNoteIdentifier img start sz identifier;
       if ok then Some (True, ident) else note_in_segments img segs ident
     }"

definition FindElfBuildIDNote :: "bool \<Rightarrow> bytes \<Rightarrow> bytes \<Rightarrow> (bool \<times> bytes) option" where
  "FindElfBuildIDNote sg img identifier =
     do {
       (found, segs) \<leftarrow> FindElfSegments sg img PT_NOTE;
       (ok, ident) \<leftarrow> (if found then note_in_segments img segs identifier else Some (False, identifier));
       if ok then Some (True, ident)
       else do {
         section \<leftarrow> FindElfSection sg img (chars ''.note.gnu.build-id'' @ [0]) SHT_NOTE;
         (case section of
            None \<Rightarrow> Some (False, ident)
          | Some (note_section, note_size) \<Rightarrow> ElfClassBuildIDNoteIdentifier img note_section note_size ident)
       }
     }"

definition kMDGUIDSize :: nat where "kMDGUIDSize = 16"

text \<open>The hash loop; a block is read as a whole, also when it reaches past \<open>ptr_end\<close>.\<close>

function xor_blocks :: "bytes \<Rightarrow> nat \<Rightarrow> nat \<Rightarrow> bytes \<Rightarrow> bytes option" where
  "xor_blocks img p ptr_end identifier =
     (if p < ptr_end then
        (if p + kMDGUIDSize \<le> length img
         then xor_blocks img (p + kMDGUIDSize) ptr_end (map2 (XOR) identifier (take kMDGUIDSize (drop p img)))
         else None)
      else Some identifier)"
  by pat_completeness auto
termination
  by (relation "measure (\<lambda>(img, p, ptr_end, identifier). ptr_end - p)") (auto simp: kMDGUIDSize_def)

declare xor_blocks.simps [simp del]

definition HashElfTextSection :: "bool \<Rightarrow> bytes \<Rightarrow> bytes \<Rightarrow> (bool \<times> bytes) option" where
  "HashElfTextSection sg img identifier =
     (let ident = take kMDGUIDSize (identifier @ replicate kMDGUIDSize 0)
      in do {
        section \<leftarrow> FindElfSection sg img (chars ''.text'' @ [0]) SHT_PROGBITS;
        (case section of
           None \<Rightarrow> Some (False, ident)
         | Some (text_section, text_size) \<Rightarrow>
             do {
               ident0 \<leftarrow> my_memset ident 0 kMDGUIDSize;
               hash \<leftarrow> xor_blocks img text_section (text_section + min text_size 4096) ident0;
               Some (True, hash)
             })
      })"

definition ElfFileIdentifierFromMappedFile :: "bool \<Rightarrow> bytes \<Rightarrow> bytes \<Rightarrow> (bool \<times> bytes) option" where
  "ElfFileIdentifierFromMappedFile sg base identifier =
     do {
       (ok, ident) \<leftarrow> FindElfBuildIDNote sg base identifier;
       if ok then Some (True, ident) else HashElfTextSection sg base ident
     }"

text \<open>Printing; \<open>htonl\<close> and \<open>htons\<close> reverse the bytes on a little-endian machine.\<close>

definition hex_char :: "nat \<Rightarrow> char" where
  "hex_char d = (if d < 10 then char_of (48 + d) else char_of (55 + d))"

definition bytes_to_hex_string :: "bytes \<Rightarrow> string" where
  "bytes_to_hex_string bs = concat (map (\<lambda>b. [hex_char (unat b div 16), hex_char (unat b mod 16)]) bs)"

definition ConvertIdentifierToUUIDString :: "bytes \<Rightarrow> string" where
  "ConvertIdentifierToUUIDString identifier =
     (let b = take kMDGUIDSize (identifier @ replicate kMDGUIDSize 0)
      in bytes_to_hex_string (rev (take 4 b) @ rev (take 2 (drop 4 b)) @ rev (take 2 (drop 6 b)) @ drop 8 b))"

definition ConvertIdentifierToString :: "bytes \<Rightarrow> string" where
  "ConvertIdentifierToString identifier = bytes_to_hex_string identifier"

section \<open>Reading members\<close>

lemma Nhdr_members:
  "get_member img note Elf32_Nhdr ''n_namesz'' = (if note + 4 \<le> length img then Some (le_nat (take 4 (drop note img))) else None)"
  "get_member img note Elf32_Nhdr ''n_descsz'' = (if note + 8 \<le> length img then Some (le_nat (take 4 (drop (note + 4) img))) else None)"
  "get_member img note Elf32_Nhdr ''n_type'' = (if note + 12 \<le> length img then Some (le_nat (take 4 (drop (note + 8) img))) else None)"
  by (simp_all add: get_member_def Elf32_Nhdr_def offsetof_def sizeof_def align_up_def)

section \<open>Notes\<close>

type_synonym elf_note = "bytes \<times> nat \<times> bytes"

definition pad4 :: "bytes \<Rightarrow> bytes" where
  "pad4 bs = bs @ replicate (align_up (length bs) 4 - length bs) 0"

fun encode_note :: "elf_note \<Rightarrow> bytes" where
  "encode_note (name, ty, desc) =
     le_int 4 (length name) @ le_int 4 (length desc) @ le_int 4 ty @ pad4 name @ pad4 desc"

fun note_ok :: "elf_note \<Rightarrow> bool" where
  "note_ok (name, ty, desc) \<longleftrightarrow> length name < 2 ^ 31 \<and> ty < 2 ^ 32 \<and> length desc < 2 ^ 31"

text \<open>The notes \<open>ns\<close> fill the image from \<open>start\<close> for \<open>len\<close> bytes.\<close>

definition notes_at :: "bytes \<Rightarrow> nat \<Rightarrow> nat \<Rightarrow> elf_note list \<Rightarrow> bool" where
  "notes_at img start len ns \<longleftrightarrow> list_all note_ok ns \<and> start \<le> length img \<and>
     len = length (concat (map encode_note ns)) \<and> (\<exists>rest. drop start img = concat (map encode_note ns) @ rest)"

definition other_note :: "elf_note \<Rightarrow> bool" where
  "other_note n \<longleftrightarrow> fst (snd n) \<noteq> NT_GNU_BUILD_ID"

text \<open>The description of the first note of the type of a build id, unless it is empty.\<close>

definition build_id_of :: "elf_note list \<Rightarrow> bytes option" where
  "build_id_of ns =
     (case dropWhile other_note ns of [] \<Rightarrow> None | (name, ty, desc) # _ \<Rightarrow> if desc = [] then None else Some desc)"

lemma and_not_mask: "(w AND NOT (mask n) :: u32) = push_bit n (drop_bit n w)"
  by (rule bit_word_eqI) (auto simp: bit_simps)

lemma NOTE_PADDING_eq:
  assumes "n < 2 ^ 31"
  shows "NOTE_PADDING n = align_up n 4"
proof -
  define w where "w = (of_nat n + 3 :: u32)"
  have w: "unat w = n + 3"
    using assms by (simp add: w_def unat_word_ariths unsigned_of_nat take_bit_eq_mod)
  have "w AND NOT 3 = w div 4 * 4"
    using and_not_mask [of w 2] by (simp add: mask_eq_exp_minus_1 push_bit_eq_mult drop_bit_eq_div)
  moreover have "unat (w div 4) = (n + 3) div 4" by (simp add: unat_div w)
  moreover have "(n + 3) div 4 * 4 < 2 ^ 32" using assms by simp
  ultimately have "unat (w AND NOT 3) = (n + 3) div 4 * 4"
    by (simp only: unat_word_ariths) simp
  moreover have "align_up n 4 = (n + 3) div 4 * 4"
  proof -
    obtain q r where "n = 4 * q + r" "r < 4" by (metis mod_less_divisor mult_div_mod_eq zero_less_numeral)
    then consider "n = 4 * q" | "n = 4 * q + 1" | "n = 4 * q + 2" | "n = 4 * q + 3" by fastforce
    moreover have "(4 * q + 2) mod 4 = (2 :: nat)" by (metis mod_mult_self4 mod_less numeral_less_iff semiring_norm(76,78))
    ultimately show ?thesis by cases (simp_all add: align_up_def del: add_2_eq_Suc add_2_eq_Suc')
  qed
  ultimately show ?thesis by (simp add: NOTE_PADDING_def w_def)
qed

lemma length_pad4: "length (pad4 bs) = align_up (length bs) 4"
  using align_up_ge [of "length bs" 4] by (simp add: pad4_def)

lemma encode_note_fields:
  assumes "drop at img = encode_note (name, ty, desc) @ rest" and "at \<le> length img" and "note_ok (name, ty, desc)"
  shows "get_member img at Elf32_Nhdr ''n_namesz'' = Some (length name)"
    and "get_member img at Elf32_Nhdr ''n_descsz'' = Some (length desc)"
    and "get_member img at Elf32_Nhdr ''n_type'' = Some ty"
    and "at + 12 + NOTE_PADDING (length name) + NOTE_PADDING (length desc) = at + length (encode_note (name, ty, desc))"
    and "at + 12 + NOTE_PADDING (length name) + length desc \<le> length img"
    and "take (length desc) (drop (at + 12 + NOTE_PADDING (length name)) img) = desc"
proof -
  have len: "length img = at + length (encode_note (name, ty, desc) @ rest)"
    using assms(1,2) by (metis le_add_diff_inverse length_drop)
  have d: "drop (at + k) img = drop k (encode_note (name, ty, desc) @ rest)" for k
    using assms(1) by (metis add.commute drop_drop)
  have p: "NOTE_PADDING (length name) = align_up (length name) 4" "NOTE_PADDING (length desc) = align_up (length desc) 4"
    using assms(3) by (simp_all add: NOTE_PADDING_eq)
  have l: "length name < 256 ^ 4" "length desc < 256 ^ 4" "ty < 256 ^ 4" using assms(3) by simp_all
  show "get_member img at Elf32_Nhdr ''n_namesz'' = Some (length name)"
    using assms(1) len l(1) by (simp add: Nhdr_members del: le_int_simps)
  show "get_member img at Elf32_Nhdr ''n_descsz'' = Some (length desc)"
    using d [of 4] len l(2) by (simp add: Nhdr_members del: le_int_simps)
  show "get_member img at Elf32_Nhdr ''n_type'' = Some ty"
    using d [of 8] len l(3) by (simp add: Nhdr_members del: le_int_simps)
  show "at + 12 + NOTE_PADDING (length name) + NOTE_PADDING (length desc) = at + length (encode_note (name, ty, desc))"
    by (simp add: p length_pad4 del: le_int_simps)
  show "at + 12 + NOTE_PADDING (length name) + length desc \<le> length img"
    using len align_up_ge [of "length desc" 4] by (simp add: p length_pad4 del: le_int_simps)
  have "drop (12 + NOTE_PADDING (length name)) (encode_note (name, ty, desc) @ rest) = pad4 desc @ rest"
    by (simp add: p length_pad4 del: le_int_simps)
  then show "take (length desc) (drop (at + 12 + NOTE_PADDING (length name)) img) = desc"
    using d [of "12 + NOTE_PADDING (length name)"] by (simp add: add.assoc pad4_def)
qed

lemma find_note_spec:
  assumes "notes_at img at len ns"
  shows "find_note img (at + len) at = Some (at + length (concat (map encode_note (takeWhile other_note ns))))"
  using assms
proof (induction ns arbitrary: at len)
  case Nil
  then show ?case by (simp add: notes_at_def find_note.simps)
next
  case (Cons n ns)
  obtain name ty desc where n: "n = (name, ty, desc)" by (cases n)
  obtain rest where rest: "drop at img = encode_note n @ concat (map encode_note ns) @ rest" and ok: "note_ok n" "list_all note_ok ns"
    and le: "at \<le> length img" and l: "len = length (encode_note n) + length (concat (map encode_note ns))"
    using Cons.prems by (auto simp: notes_at_def)
  note f = encode_note_fields [OF rest [unfolded n] le ok(1) [unfolded n]]
  have pos: "0 < length (encode_note n)" by (simp add: n)
  show ?case
  proof (cases "ty = NT_GNU_BUILD_ID")
    case True
    then show ?thesis using f(3) l pos by (simp add: find_note.simps [of img _ at] n other_note_def)
  next
    case False
    have le': "at + length (encode_note n) \<le> length img"
      using arg_cong [OF rest, of length] le by simp
    have "drop (at + length (encode_note n)) img = concat (map encode_note ns) @ rest"
      using rest by (metis add.commute append_eq_conv_conj drop_drop)
    then have na: "notes_at img (at + length (encode_note n)) (length (concat (map encode_note ns))) ns"
      using ok(2) le' by (auto simp: notes_at_def)
    have "find_note img (at + len) at =
        find_note img (at + len) (at + 12 + NOTE_PADDING (length name) + NOTE_PADDING (length desc))"
      using f(1-3) False l pos by (simp add: find_note.simps [of img _ at])
    then have "find_note img (at + len) at = find_note img (at + len) (at + length (encode_note n))"
      unfolding f(4) n .
    then show ?thesis using Cons.IH [OF na] False l by (simp add: n other_note_def add.assoc)
  qed
qed

lemma notes_at_drop:
  assumes "notes_at img at len ns" and "ns = ns1 @ n # ns2"
  shows "\<exists>rest. drop (at + length (concat (map encode_note ns1))) img = encode_note n @ rest"
    and "at + length (concat (map encode_note ns1)) + length (encode_note n) \<le> length img"
    and "at + length (concat (map encode_note ns1)) < at + len" and "note_ok n"
proof -
  obtain rest where r: "drop at img = concat (map encode_note ns1) @ encode_note n @ concat (map encode_note ns2) @ rest"
    using assms by (auto simp: notes_at_def)
  have "drop (at + length (concat (map encode_note ns1))) img = encode_note n @ concat (map encode_note ns2) @ rest"
    using r by (metis add.commute append_eq_conv_conj drop_drop)
  then show "\<exists>rest. drop (at + length (concat (map encode_note ns1))) img = encode_note n @ rest" by blast
  have p: "0 < length (encode_note n)" by (cases n) simp
  have le: "at \<le> length img" using assms(1) by (simp add: notes_at_def)
  show "at + length (concat (map encode_note ns1)) + length (encode_note n) \<le> length img"
    using arg_cong [OF r, of length] le by simp
  show "at + length (concat (map encode_note ns1)) < at + len" using assms p by (auto simp: notes_at_def)
  show "note_ok n" using assms by (simp add: notes_at_def)
qed

lemma BuildIDNote_spec:
  assumes "notes_at img at len ns"
  shows "ElfClassBuildIDNoteIdentifier img at len identifier =
    Some (case build_id_of ns of None \<Rightarrow> (False, identifier) | Some bid \<Rightarrow> (True, identifier @ bid))"
proof (cases "dropWhile other_note ns")
  case Nil
  have b: "build_id_of ns = None" unfolding build_id_of_def Nil by simp
  have "takeWhile other_note ns = ns" using Nil by (metis append_Nil2 takeWhile_dropWhile_id)
  then have "find_note img (at + len) at = Some (at + len)"
    using find_note_spec [OF assms] assms by (simp only: notes_at_def)
  then show ?thesis by (simp add: ElfClassBuildIDNoteIdentifier_def b)
next
  case (Cons n ns2)
  obtain name ty desc where n: "n = (name, ty, desc)" by (cases n)
  let ?at = "at + length (concat (map encode_note (takeWhile other_note ns)))"
  have split: "ns = takeWhile other_note ns @ n # ns2" using Cons by (metis takeWhile_dropWhile_id)
  note d = notes_at_drop [OF assms split]
  obtain rest where r: "drop ?at img = encode_note n @ rest" using d(1) by blast
  have le: "?at \<le> length img" using d(2) by simp
  note f = encode_note_fields [OF r [unfolded n] le d(4) [unfolded n]]
  show ?thesis
    using find_note_spec [OF assms] d(3) f(1,2,5,6) Cons by (simp add: ElfClassBuildIDNoteIdentifier_def build_id_of_def n Let_def)
qed

text \<open>The first segment that has a build id decides.\<close>

fun first_build_id :: "elf_note list list \<Rightarrow> bytes option" where
  "first_build_id [] = None"
| "first_build_id (ns # nss) = (case build_id_of ns of None \<Rightarrow> first_build_id nss | Some bid \<Rightarrow> Some bid)"

lemma note_in_segments_spec:
  assumes "list_all2 (\<lambda>(start, sz) ns. notes_at img start sz ns) segs nss"
  shows "note_in_segments img segs identifier =
    Some (case first_build_id nss of None \<Rightarrow> (False, identifier) | Some bid \<Rightarrow> (True, identifier @ bid))"
  using assms
proof (induction segs nss rule: list_all2_induct)
  case (Cons seg segs ns nss)
  then show ?case using BuildIDNote_spec [of img "fst seg" "snd seg" ns]
    by (cases seg) (auto split: option.splits)
qed simp

section \<open>Header tables\<close>

definition phdr_at :: "elf_class \<Rightarrow> bytes \<Rightarrow> nat \<Rightarrow> (nat \<times> nat \<times> nat) option" where
  "phdr_at c img p =
     do {
       ty \<leftarrow> get_member img p (Phdr c) ''p_type''; start \<leftarrow> get_member img p (Phdr c) ''p_offset'';
       sz \<leftarrow> get_member img p (Phdr c) ''p_filesz''; Some (ty, start, sz)
     }"

definition shdr_at :: "elf_class \<Rightarrow> bytes \<Rightarrow> nat \<Rightarrow> (nat \<times> nat \<times> nat \<times> nat) option" where
  "shdr_at c img p =
     do {
       name \<leftarrow> get_member img p (Shdr c) ''sh_name''; ty \<leftarrow> get_member img p (Shdr c) ''sh_type'';
       start \<leftarrow> get_member img p (Shdr c) ''sh_offset''; sz \<leftarrow> get_member img p (Shdr c) ''sh_size''; Some (name, ty, start, sz)
     }"

text \<open>
  An image with its tables: the class, the program headers, the section headers, and the string table of the section names,
  all inside the image.
\<close>

definition elf_tables ::
  "elf_class \<Rightarrow> bytes \<Rightarrow> (nat \<times> nat \<times> nat) list \<Rightarrow> (nat \<times> nat \<times> nat \<times> nat) list \<Rightarrow> nat \<Rightarrow> nat \<Rightarrow> bool" where
  "elf_tables c img phs shs names names_end \<longleftrightarrow>
     4 < length img \<and> take 4 img = [127, 69, 76, 70] \<and> (c = ElfClass32 \<and> img ! 4 = 1 \<or> c = ElfClass64 \<and> img ! 4 = 2) \<and>
     get_member img 0 (Ehdr c) ''e_phnum'' = Some (length phs) \<and>
     (\<exists>phoff. get_member img 0 (Ehdr c) ''e_phoff'' = Some phoff \<and>
        list_all (\<lambda>i. phdr_at c img (phoff + i * sizeof 8 (Phdr c)) = Some (phs ! i)) [0..<length phs]) \<and>
     get_member img 0 (Ehdr c) ''e_shnum'' = Some (length shs) \<and>
     (\<exists>shoff ndx. get_member img 0 (Ehdr c) ''e_shoff'' = Some shoff \<and> 0 < shoff \<and>
        get_member img 0 (Ehdr c) ''e_shstrndx'' = Some ndx \<and> ndx < length shs \<and>
        list_all (\<lambda>i. shdr_at c img (shoff + i * sizeof 8 (Shdr c)) = Some (shs ! i)) [0..<length shs] \<and>
        names = fst (snd (snd (shs ! ndx))) \<and> names_end = names + snd (snd (snd (shs ! ndx))) \<and> names_end \<le> length img)"

lemma IsValidElf_magic:
  assumes "4 < length img"
  shows "IsValidElf sg img = Some (take 4 img = [127, 69, 76, 70])"
proof -
  obtain a b c d rest where "img = a # b # c # d # rest"
    using assms by (auto simp: less_eq_Suc_le Suc_le_length_iff numeral_eq_Suc)
  note img = this
  have m: "nul_terminated img \<or> 4 \<le> length img" "nul_terminated [127, 69, 76, 70, 0] \<or> 4 \<le> length [127, 69, 76, 70, 0 :: u8]"
    using assms by auto
  obtain r where r: "my_strncmp sg img [127, 69, 76, 70, 0] 4 = Some r" using my_strncmp_total [OF m] by blast
  have "r = 0 \<longleftrightarrow> take 4 (cstr img) = [127, 69, 76, 70]" using my_strncmp_zero_iff [OF m, of sg] r by simp
  also have "\<dots> \<longleftrightarrow> take 4 img = [127, 69, 76, 70]" by (auto simp: img)
  finally show ?thesis by (simp add: IsValidElf_def r)
qed

lemma class_segments_spec:
  assumes "list_all (\<lambda>k. phdr_at c img (phdrs + k * sizeof 8 (Phdr c)) = Some (phs ! k)) [0..<length phs]" and "i + n = length phs"
  shows "class_segments c img ty phdrs i n = Some (map snd (filter (\<lambda>ph. fst ph = ty) (drop i phs)))"
  using assms(2)
proof (induction n arbitrary: i)
  case (Suc n)
  have "phdr_at c img (phdrs + i * sizeof 8 (Phdr c)) = Some (phs ! i)" using assms(1) Suc.prems by (simp add: list_all_iff)
  then obtain y start sz where "phs ! i = (y, start, sz)"
    "get_member img (phdrs + i * sizeof 8 (Phdr c)) (Phdr c) ''p_type'' = Some y"
    "get_member img (phdrs + i * sizeof 8 (Phdr c)) (Phdr c) ''p_offset'' = Some start"
    "get_member img (phdrs + i * sizeof 8 (Phdr c)) (Phdr c) ''p_filesz'' = Some sz"
    by (auto simp: phdr_at_def bind_eq_Some_conv dest: sym)
  then show ?case using Suc.IH [of "Suc i"] Suc.prems
    by (simp add: Let_def Cons_nth_drop_Suc [symmetric, of i phs])
qed simp

lemma FindElfSegments_spec:
  assumes "elf_tables c img phs shs names names_end"
  shows "FindElfSegments sg img ty = Some (True, map snd (filter (\<lambda>ph. fst ph = ty) phs))"
proof -
  obtain phoff where "get_member img 0 (Ehdr c) ''e_phoff'' = Some phoff" "get_member img 0 (Ehdr c) ''e_phnum'' = Some (length phs)"
    "list_all (\<lambda>i. phdr_at c img (phoff + i * sizeof 8 (Phdr c)) = Some (phs ! i)) [0..<length phs]"
    using assms by (auto simp: elf_tables_def)
  then have "FindElfClassSegment c img ty = Some (map snd (filter (\<lambda>ph. fst ph = ty) phs))"
    using class_segments_spec [of c img phoff phs 0] by (simp add: FindElfClassSegment_def)
  moreover have "4 < length img" "take 4 img = [127, 69, 76, 70]" "c = ElfClass32 \<and> img ! 4 = 1 \<or> c = ElfClass64 \<and> img ! 4 = 2"
    using assms by (auto simp: elf_tables_def)
  ultimately show ?thesis by (auto simp: FindElfSegments_def IsValidElf_magic EI_CLASS_def rd_def)
qed

text \<open>The comparison with a section name needs no more bytes than the name has.\<close>

lemma my_strcmp_prefix:
  assumes "0 \<notin> set nm" and "length nm < length b"
  shows "\<exists>r. my_strcmp sg (nm @ [0]) b = Some r \<and> (r = 0 \<longleftrightarrow> take (Suc (length nm)) b = nm @ [0])"
  using assms
proof (induction nm arbitrary: b)
  case Nil
  then obtain y b' where "b = y # b'" by (cases b) auto
  then show ?case by (auto simp: not_less_iff_gr_or_eq)
next
  case (Cons x nm)
  then obtain y b' where b: "b = y # b'" "length nm < length b'" by (cases b) auto
  show ?case using Cons.IH [OF _ b(2)] Cons.prems by (auto simp: b(1))
qed

definition section_matches :: "bytes \<Rightarrow> nat \<Rightarrow> nat \<Rightarrow> bytes \<Rightarrow> nat \<Rightarrow> nat \<times> nat \<times> nat \<times> nat \<Rightarrow> bool" where
  "section_matches img names names_end nm ty sh \<longleftrightarrow>
     fst (snd sh) = ty \<and> names + fst sh + Suc (length nm) \<le> names_end \<and>
     take (Suc (length nm)) (drop (names + fst sh) img) = nm @ [0]"

text \<open>The first section of the type and the name, if it is not empty.\<close>

definition section_named ::
  "bytes \<Rightarrow> (nat \<times> nat \<times> nat \<times> nat) list \<Rightarrow> nat \<Rightarrow> nat \<Rightarrow> bytes \<Rightarrow> nat \<Rightarrow> (nat \<times> nat) option" where
  "section_named img shs names names_end nm ty =
     (case find (section_matches img names names_end nm ty) shs of
        None \<Rightarrow> None
      | Some (_, _, start, sz) \<Rightarrow> if sz > 0 then Some (start, sz) else None)"

lemma section_by_name_spec:
  assumes sh: "list_all (\<lambda>k. shdr_at c img (sections + k * sizeof 8 (Shdr c)) = Some (shs ! k)) [0..<length shs]"
    and nm: "0 \<notin> set nm" and e: "names_end \<le> length img" and n: "i + n = length shs"
  shows "\<exists>r. section_by_name c sg img (nm @ [0]) (length nm) ty sections names names_end i n = Some r \<and>
    (case r of None \<Rightarrow> find (section_matches img names names_end nm ty) (drop i shs) = None
     | Some p \<Rightarrow> \<exists>sh. shdr_at c img p = Some sh \<and> find (section_matches img names names_end nm ty) (drop i shs) = Some sh)"
  using n
proof (induction n arbitrary: i)
  case (Suc n)
  let ?p = "sections + i * sizeof 8 (Shdr c)"
  have sh': "shdr_at c img ?p = Some (shs ! i)" using sh Suc.prems by (simp add: list_all_iff)
  then obtain name t start sz where s: "shs ! i = (name, t, start, sz)"
    "get_member img ?p (Shdr c) ''sh_name'' = Some name" "get_member img ?p (Shdr c) ''sh_type'' = Some t"
    by (auto simp: shdr_at_def bind_eq_Some_conv dest: sym)
  have d: "drop i shs = shs ! i # drop (Suc i) shs" using Suc.prems by (simp add: Cons_nth_drop_Suc)
  show ?case
  proof (cases "t = ty \<and> names + name + Suc (length nm) \<le> names_end")
    case True
    then have "length nm < length (drop (names + name) img)" using e unfolding length_drop by linarith
    then obtain r where r: "my_strcmp sg (nm @ [0]) (drop (names + name) img) = Some r"
      "r = 0 \<longleftrightarrow> take (Suc (length nm)) (drop (names + name) img) = nm @ [0]"
      using my_strcmp_prefix [OF nm] by blast
    have g: "int names_end - int (names + name) \<ge> int (length nm) + 1" using True by linarith
    show ?thesis
    proof (cases "r = 0")
      case True
      then have "section_matches img names names_end nm ty (shs ! i)" using r(2) \<open>t = ty \<and> _\<close> by (simp add: section_matches_def s(1))
      then show ?thesis using True r(1) s(2,3) g sh' d \<open>t = ty \<and> _\<close> by (simp add: Let_def s(1))
    next
      case False
      then have "\<not> section_matches img names names_end nm ty (shs ! i)" using r(2) by (simp add: section_matches_def s(1))
      then have f: "find (section_matches img names names_end nm ty) (drop i shs) = find (section_matches img names names_end nm ty) (drop (Suc i) shs)"
        by (simp add: d)
      show ?thesis unfolding f using False r(1) s(2,3) g \<open>t = ty \<and> _\<close> Suc.IH [of "Suc i"] Suc.prems by (simp add: Let_def)
    qed
  next
    case False
    then have "\<not> (t = ty \<and> int names_end - int (names + name) \<ge> int (length nm) + 1)" by auto
    moreover have f: "find (section_matches img names names_end nm ty) (drop i shs) = find (section_matches img names names_end nm ty) (drop (Suc i) shs)"
      using False by (auto simp add: d section_matches_def s(1))
    ultimately show ?thesis unfolding f using s(2,3) Suc.IH [of "Suc i"] Suc.prems by (auto simp add: Let_def)
  qed
qed simp

lemma FindElfSection_spec:
  assumes t: "elf_tables c img phs shs names names_end" and nm: "0 \<notin> set nm" "nm \<noteq> []"
  shows "FindElfSection sg img (nm @ [0]) ty = Some (section_named img shs names names_end nm ty)"
proof -
  obtain shoff ndx where h: "get_member img 0 (Ehdr c) ''e_shoff'' = Some shoff" "0 < shoff"
      "get_member img 0 (Ehdr c) ''e_shstrndx'' = Some ndx" "ndx < length shs"
    and sh: "list_all (\<lambda>i. shdr_at c img (shoff + i * sizeof 8 (Shdr c)) = Some (shs ! i)) [0..<length shs]"
    and nn: "names = fst (snd (snd (shs ! ndx)))" "names_end = names + snd (snd (snd (shs ! ndx)))" "names_end \<le> length img"
    and num: "get_member img 0 (Ehdr c) ''e_shnum'' = Some (length shs)"
    using t by (auto simp: elf_tables_def)
  have "shdr_at c img (shoff + ndx * sizeof 8 (Shdr c)) = Some (shs ! ndx)" using sh h(4) by (simp add: list_all_iff)
  then have m: "get_member img (shoff + ndx * sizeof 8 (Shdr c)) (Shdr c) ''sh_offset'' = Some names"
    "get_member img (shoff + ndx * sizeof 8 (Shdr c)) (Shdr c) ''sh_size'' = Some (names_end - names)"
    using nn by (cases "shs ! ndx"; auto simp: shdr_at_def bind_eq_Some_conv)+
  have e: "names + (names_end - names) = names_end" using nn by simp
  obtain r where r: "section_by_name c sg img (nm @ [0]) (length nm) ty shoff names names_end 0 (length shs) = Some r"
    "case r of None \<Rightarrow> find (section_matches img names names_end nm ty) shs = None
     | Some p \<Rightarrow> \<exists>sh. shdr_at c img p = Some sh \<and> find (section_matches img names names_end nm ty) shs = Some sh"
    using section_by_name_spec [OF sh nm(1) nn(3), of 0 "length shs" sg ty names, unfolded drop_0] by auto
  have "FindElfSectionByName c sg img (nm @ [0]) ty shoff names names_end (length shs) = Some r"
    using r(1) nm by (simp add: FindElfSectionByName_def my_strlen_eq cstr_terminated)
  then have "FindElfClassSection c sg img (nm @ [0]) ty = Some (section_named img shs names names_end nm ty)"
    using h m num e r(2)
    by (auto simp: FindElfClassSection_def section_named_def shdr_at_def bind_eq_Some_conv Let_def split: option.splits)
  moreover have "4 < length img" "take 4 img = [127, 69, 76, 70]" "c = ElfClass32 \<and> img ! 4 = 1 \<or> c = ElfClass64 \<and> img ! 4 = 2"
    using t by (auto simp: elf_tables_def)
  ultimately show ?thesis by (auto simp: FindElfSection_def IsValidElf_magic EI_CLASS_def rd_def)
qed

section \<open>The hash\<close>

text \<open>Byte \<open>k\<close> of the hash is the exclusive or of the bytes \<open>k\<close> of the blocks.\<close>

definition column_hash :: "bytes \<Rightarrow> nat \<Rightarrow> nat \<Rightarrow> bytes" where
  "column_hash img start n =
     map (\<lambda>k. foldr (\<lambda>j h. img ! (start + 16 * j + k) XOR h) [0..<n] 0) [0..<16]"

lemma foldr_xor: "foldr (\<lambda>j h. f j XOR h) js (a :: u8) = foldr (\<lambda>j h. f j XOR h) js 0 XOR a"
  by (induction js) (simp_all add: xor.assoc)

lemma column_hash_Suc:
  assumes "start + 16 * Suc n \<le> length img"
  shows "map2 (XOR) (column_hash img start n) (take 16 (drop (start + 16 * n) img)) = column_hash img start (Suc n)"
proof (rule nth_equalityI)
  have l: "length (take 16 (drop (start + 16 * n) img)) = 16" using assms by simp
  show "length (map2 (XOR) (column_hash img start n) (take 16 (drop (start + 16 * n) img))) = length (column_hash img start (Suc n))"
    using l by (simp add: column_hash_def)
  fix k assume "k < length (map2 (XOR) (column_hash img start n) (take 16 (drop (start + 16 * n) img)))"
  then have k: "k < 16" by (simp add: column_hash_def)
  have "foldr (\<lambda>j h. img ! (start + 16 * j + k) XOR h) [0..<Suc n] 0 =
    foldr (\<lambda>j h. img ! (start + 16 * j + k) XOR h) [0..<n] 0 XOR img ! (start + 16 * n + k)"
    using foldr_xor [of "\<lambda>j. img ! (start + 16 * j + k)" "[0..<n]" "img ! (start + 16 * n + k)"] by simp
  then show "map2 (XOR) (column_hash img start n) (take 16 (drop (start + 16 * n) img)) ! k = column_hash img start (Suc n) ! k"
    using k l assms by (simp add: column_hash_def)
qed

definition blocks :: "nat \<Rightarrow> nat" where "blocks len = (len + 15) div 16"

lemma xor_blocks_spec:
  assumes "start + 16 * blocks len \<le> length img" and "n \<le> blocks len"
  shows "xor_blocks img (start + 16 * n) (start + len) (column_hash img start n) = Some (column_hash img start (blocks len))"
  using assms(2)
proof (induction "blocks len - n" arbitrary: n)
  case 0
  then have n: "n = blocks len" by simp
  then have "\<not> start + 16 * n < start + len" by (simp add: blocks_def)
  then show ?case by (simp add: xor_blocks.simps n)
next
  case (Suc d)
  have n: "n < blocks len" using Suc.hyps(2) by linarith
  then have lt: "16 * n < len" by (simp add: blocks_def)
  have "16 * Suc n \<le> 16 * blocks len" using n by (intro mult_le_mono2) simp
  then have le: "start + 16 * Suc n \<le> length img" using assms(1) by linarith
  have e: "start + 16 * Suc n = start + 16 * n + 16" by simp
  have "xor_blocks img (start + 16 * n) (start + len) (column_hash img start n) =
    xor_blocks img (start + 16 * Suc n) (start + len) (column_hash img start (Suc n))"
    unfolding column_hash_Suc [OF le, symmetric] using lt le unfolding e
    by (subst xor_blocks.simps) (simp add: kMDGUIDSize_def)
  then show ?case using Suc.hyps(1) [of "Suc n"] Suc.hyps(2) n by simp
qed

text \<open>
  C18. The identifier of a module is its build id, or a hash of its code. For an image of either class whose header tables lie
  inside the image: if all note segments consist of notes, the result is the description of the first note of the type of a build
  id in the first segment that has one; if there is none, the notes of the section \<^verbatim>\<open>.note.gnu.build-id\<close> are searched in the
  same way; if that fails, the result is the exclusive or of the 16-byte blocks of at most the first page of
  the section \<^verbatim>\<open>.text\<close>, provided the last block ends inside the image. Nothing outside the image is read.
\<close>

theorem ElfFileIdentifier_correct:
  assumes "elf_tables c img phs shs names names_end"
    and "list_all2 (\<lambda>(start, sz) ns. notes_at img start sz ns) (map snd (filter (\<lambda>ph. fst ph = PT_NOTE) phs)) nss"
    and "sec = section_named img shs names names_end (chars ''.note.gnu.build-id'') SHT_NOTE"
    and "case sec of None \<Rightarrow> sec_notes = [] | Some (start, sz) \<Rightarrow> notes_at img start sz sec_notes"
    and "text_sec = section_named img shs names names_end (chars ''.text'') SHT_PROGBITS"
    and "case text_sec of None \<Rightarrow> True | Some (start, sz) \<Rightarrow> start + 16 * blocks (min sz 4096) \<le> length img"
  shows "ElfFileIdentifierFromMappedFile sg img [] =
    Some (case first_build_id (nss @ [sec_notes]) of
            Some bid \<Rightarrow> (True, bid)
          | None \<Rightarrow> (case text_sec of
                      None \<Rightarrow> (False, replicate 16 0)
                    | Some (start, sz) \<Rightarrow> (True, column_hash img start (blocks (min sz 4096)))))"
proof -
  have nz: "0 \<notin> set (chars ''.note.gnu.build-id'')" "chars ''.note.gnu.build-id'' \<noteq> []"
    "0 \<notin> set (chars ''.text'')" "chars ''.text'' \<noteq> []"
    by (simp_all add: chars_def)
  have fs: "FindElfSection sg img (chars ''.note.gnu.build-id'' @ [0]) SHT_NOTE = Some sec"
    "FindElfSection sg img (chars ''.text'' @ [0]) SHT_PROGBITS = Some text_sec"
    using FindElfSection_spec [OF assms(1)] nz assms(3,5) by blast+
  have app: "first_build_id (nss @ [sec_notes]) = (case first_build_id nss of None \<Rightarrow> build_id_of sec_notes | Some bid \<Rightarrow> Some bid)"
    by (induction nss) (auto split: option.splits)
  have bn: "FindElfBuildIDNote sg img [] =
    Some (case first_build_id (nss @ [sec_notes]) of None \<Rightarrow> (False, []) | Some bid \<Rightarrow> (True, bid))"
    using FindElfSegments_spec [OF assms(1), of sg PT_NOTE] note_in_segments_spec [OF assms(2), of "[]"] fs(1) assms(4)
      BuildIDNote_spec [of img _ _ sec_notes]
    by (auto simp: FindElfBuildIDNote_def app build_id_of_def split: option.splits prod.splits)
  have ch: "column_hash img start 0 = replicate 16 0" for start
    by (simp add: column_hash_def map_replicate_const)
  have "HashElfTextSection sg img [] = Some (case text_sec of None \<Rightarrow> (False, replicate 16 0)
      | Some (start, sz) \<Rightarrow> (True, column_hash img start (blocks (min sz 4096))))"
  proof (cases text_sec)
    case (Some st)
    obtain start sz where st: "st = (start, sz)" by (cases st)
    then show ?thesis
      using fs(2) Some assms(6) xor_blocks_spec [of start "min sz 4096" img 0]
      by (simp add: HashElfTextSection_def my_memset_eq kMDGUIDSize_def ch)
  qed (use fs(2) in \<open>simp add: HashElfTextSection_def kMDGUIDSize_def\<close>)
  then show ?thesis using bn by (auto simp: ElfFileIdentifierFromMappedFile_def split: option.splits)
qed

text \<open>A 32-bit image with one note segment, for the witness.\<close>

definition sample_elf :: bytes where
  "sample_elf =
     [127, 69, 76, 70, 1, 1, 1, 0, 0, 0, 0, 0, 0, 0, 0, 0, 3, 0, 40, 0, 1, 0, 0, 0, 0, 0, 0, 0, 52, 0, 0, 0, 104, 0, 0, 0,
      0, 0, 0, 0, 52, 0, 32, 0, 1, 0, 40, 0, 1, 0, 0, 0,
      4, 0, 0, 0, 84, 0, 0, 0, 0, 0, 0, 0, 0, 0, 0, 0, 20, 0, 0, 0, 20, 0, 0, 0, 4, 0, 0, 0, 4, 0, 0, 0,
      4, 0, 0, 0, 4, 0, 0, 0, 3, 0, 0, 0, 71, 78, 85, 0, 0xDE, 0xAD, 0xBE, 0xEF,
      0, 0, 0, 0, 3, 0, 0, 0, 0, 0, 0, 0, 0, 0, 0, 0, 144, 0, 0, 0, 1, 0, 0, 0, 0, 0, 0, 0, 0, 0, 0, 0, 0, 0, 0, 0, 0, 0, 0, 0,
      0]"

lemma sample_elf_tables: "elf_tables ElfClass32 sample_elf [(4, 84, 20)] [(0, 3, 144, 1)] 144 145"
proof -
  have h: "get_member sample_elf 0 (Ehdr ElfClass32) ''e_phnum'' = Some 1" "get_member sample_elf 0 (Ehdr ElfClass32) ''e_phoff'' = Some 52"
    "get_member sample_elf 0 (Ehdr ElfClass32) ''e_shnum'' = Some 1" "get_member sample_elf 0 (Ehdr ElfClass32) ''e_shoff'' = Some 104"
    "get_member sample_elf 0 (Ehdr ElfClass32) ''e_shstrndx'' = Some 0"
    by code_simp+
  have t: "phdr_at ElfClass32 sample_elf 52 = Some (4, 84, 20)" "shdr_at ElfClass32 sample_elf 104 = Some (0, 3, 144, 1)"
    by code_simp+
  have l: "length sample_elf = 145" "take 4 sample_elf = [127, 69, 76, 70]" "sample_elf ! 4 = 1" by (simp_all add: sample_elf_def)
  show ?thesis unfolding elf_tables_def h l by (simp add: t)
qed

theorem ElfFileIdentifier_correct_witness:
  "ElfFileIdentifierFromMappedFile True sample_elf [] = Some (True, [0xDE, 0xAD, 0xBE, 0xEF])"
proof -
  have n: "list_all2 (\<lambda>(start, sz) ns. notes_at sample_elf start sz ns) (map snd (filter (\<lambda>ph. fst ph = PT_NOTE) [(4, 84, 20)]))
    [[([71, 78, 85, 0], 3, [0xDE, 0xAD, 0xBE, 0xEF])]]"
    by (simp add: PT_NOTE_def notes_at_def sample_elf_def pad4_def align_up_def)
  have s: "section_named sample_elf [(0, 3, 144, 1)] 144 145 (chars ''.note.gnu.build-id'') SHT_NOTE = None"
    "section_named sample_elf [(0, 3, 144, 1)] 144 145 (chars ''.text'') SHT_PROGBITS = None"
    by (simp_all add: section_named_def section_matches_def SHT_NOTE_def SHT_PROGBITS_def)
  show ?thesis
    using ElfFileIdentifier_correct [OF sample_elf_tables n refl _ refl, where sec_notes = "[]" and sg = True, unfolded s]
    by (simp add: build_id_of_def other_note_def NT_GNU_BUILD_ID_def)
qed

section \<open>Names and printing\<close>

text \<open>
  The name of a shared object is written inside its buffer and terminated, whatever the image holds, as long as the
  string of the name ends inside the image.
\<close>

lemma strlcpy_loop_unterminated: "\<not> nul_terminated s \<Longrightarrow> my_strlcpy_loop s1 base s len p1 p2 = None"
  by (induction s arbitrary: s1 p1 p2) (auto split: option.splits)

lemma soname_entry_safe:
  assumes "soname_entry c img dynamic dynstr_start dynstr_size i n soname = Some (True, buf)"
    and "soname \<noteq> []" and "nul_terminated soname"
  shows "length buf = length soname \<and> nul_terminated buf"
  using assms
proof (induction n arbitrary: i)
  case (Suc n)
  let ?d = "dynamic + i * sizeof 8 (Dyn c)"
  obtain tag where tag: "get_member img ?d (Dyn c) ''d_tag'' = Some tag"
    using Suc.prems by (auto simp: Let_def bind_eq_Some_conv)
  show ?case
  proof (cases "tag = DT_SONAME")
    case True
    then obtain d k where d: "d < dynstr_size"
      "my_strlcpy soname (drop (dynstr_start + d) img) (min (dynstr_size - d) (length soname)) = Some (buf, k)"
      using Suc.prems(1) tag by (auto simp: Let_def bind_eq_Some_conv not_le split: if_splits)
    have "nul_terminated (drop (dynstr_start + d) img)"
    proof (rule ccontr)
      assume "\<not> nul_terminated (drop (dynstr_start + d) img)"
      then show False using d(2) strlcpy_loop_unterminated by (simp add: my_strlcpy_def my_strlcpy_at_def)
    qed
    note nt = this
    define m where "m = min (dynstr_size - d) (length soname)"
    have m: "0 < m" "m \<le> length soname" using d(1) Suc.prems(2) by (auto simp: m_def)
    have "my_strlcpy soname (drop (dynstr_start + d) img) m =
      Some (blit soname 0 (take (m - 1) (cstr (drop (dynstr_start + d) img)) @ [0]), length (cstr (drop (dynstr_start + d) img)))"
      using my_strlcpy_at_eq [OF nt, of 0 m soname] m by (simp add: my_strlcpy_def)
    then show ?thesis using d(2) m by (auto simp: m_def [symmetric] blit_def)
  next
    case False
    then show ?thesis using Suc tag by (simp add: Let_def)
  qed
qed simp

text \<open>The printed form of an identifier determines it.\<close>

lemma hex_char_inj: "a < 16 \<Longrightarrow> b < 16 \<Longrightarrow> hex_char a = hex_char b \<longleftrightarrow> a = b"
  by (auto simp: hex_char_def split: if_splits dest: arg_cong [of _ _ of_char])

lemma bytes_to_hex_string_inj: "bytes_to_hex_string bs = bytes_to_hex_string cs \<Longrightarrow> bs = cs"
proof (induction bs arbitrary: cs)
  case Nil
  then show ?case by (cases cs) (auto simp: bytes_to_hex_string_def)
next
  case (Cons b bs)
  then obtain c cs' where cs: "cs = c # cs'" by (cases cs) (auto simp: bytes_to_hex_string_def)
  have lt: "unat x div 16 < 16" for x :: u8 using unsigned_less [of x, where ?'a = nat] by simp
  have "unat b div 16 = unat c div 16" "unat b mod 16 = unat c mod 16" "bytes_to_hex_string bs = bytes_to_hex_string cs'"
    using Cons.prems lt by (auto simp: bytes_to_hex_string_def cs hex_char_inj)
  then have "b = c" by (metis div_mult_mod_eq unsigned_word_eqI)
  then show ?case using Cons.IH \<open>bytes_to_hex_string bs = _\<close> by (simp add: cs)
qed

end
