(* ===== verification/Cpu_Set.thy ===== *)
theory Cpu_Set
  imports Libc_Support Line_Reader
begin

text \<open>
  \<^verbatim>\<open>client/linux/minidump_writer/cpu_set.h\<close>: a set of at most 1024 processors, read from a file of
  \<^verbatim>\<open>/sys/devices/system/cpu\<close> such as \<open>0-3,8,10-11\<close>. The minidump writer counts the processors that are both present and
  possible.

  The loop over the numbers of one item uses a counter of the width of its bounds. It is a \<open>partial_function\<close>: \<open>None\<close> is a loop
  that does not end, or a read outside the buffer.
\<close>

section \<open>The set\<close>

definition kMaxCpus :: nat where "kMaxCpus = 1024"
definition kMaskWordBits :: nat where "kMaskWordBits = 8 * 4"
definition kMaskWordCount :: nat where "kMaskWordCount = (kMaxCpus + kMaskWordBits - 1) div kMaskWordBits"

type_synonym cpu_mask = "u32 list"

definition CpuSet :: cpu_mask where
  "CpuSet = replicate kMaskWordCount 0"

definition SetBit :: "cpu_mask \<Rightarrow> u64 \<Rightarrow> cpu_mask" where
  "SetBit m index =
     (let nn = unat index
      in if nn < kMaxCpus
         then m[nn div kMaskWordBits := m ! (nn div kMaskWordBits) OR push_bit (nn mod kMaskWordBits) 1]
         else m)"

definition IntersectWith :: "cpu_mask \<Rightarrow> cpu_mask \<Rightarrow> cpu_mask" where
  "IntersectWith m other = map2 (AND) m other"

definition popcount :: "u32 \<Rightarrow> nat" where
  "popcount w = length (filter (bit w) [0..<32])"

definition CpuSet_GetCount :: "cpu_mask \<Rightarrow> nat" where
  "CpuSet_GetCount m = foldl (\<lambda>result w. result + popcount w) 0 m"

section \<open>Parsing\<close>

text \<open>\<^verbatim>\<open>while (start <= end) SetBit(start++)\<close>\<close>

partial_function (option) set_bits :: "u64 \<Rightarrow> u64 \<Rightarrow> cpu_mask \<Rightarrow> cpu_mask option" where
  "set_bits start fin m = (if start \<le> fin then set_bits (start + 1) fin (SetBit m start) else Some m)"

function skip_space :: "bool \<Rightarrow> bytes \<Rightarrow> nat \<Rightarrow> nat \<Rightarrow> nat" where
  "skip_space sg b p p_end = (if p < p_end \<and> my_isspace (cval sg (b ! p)) then skip_space sg b (p + 1) p_end else p)"
  by pat_completeness auto
termination
  by (relation "measure (\<lambda>(sg, b, p, p_end). p_end - p)") auto

function trim_space :: "bool \<Rightarrow> bytes \<Rightarrow> nat \<Rightarrow> nat \<Rightarrow> nat" where
  "trim_space sg b item item_next =
     (if item < item_next \<and> my_isspace (cval sg (b ! (item_next - 1))) then trim_space sg b item (item_next - 1) else item_next)"
  by pat_completeness auto
termination
  by (relation "measure (\<lambda>(sg, b, item, item_next). item_next)") auto

declare skip_space.simps [simp del] trim_space.simps [simp del]

lemma skip_space_ge: "p \<le> skip_space sg b p p_end"
  by (induction sg b p p_end rule: skip_space.induct) (subst skip_space.simps, auto)

text \<open>One round of the loop: where the next item starts, and the set.\<close>

definition item_bits :: "bytes \<Rightarrow> nat \<Rightarrow> cpu_mask \<Rightarrow> cpu_mask option" where
  "item_bits b item m =
     do {
       (start, n) \<leftarrow> my_read_decimal_ptr (drop item b);
       c \<leftarrow> rd b (item + n);
       fin \<leftarrow> (if c = 45 then map_option fst (my_read_decimal_ptr (drop (item + n + 1) b)) else Some start);
       set_bits start fin m
     }"

definition parse_item :: "bool \<Rightarrow> bytes \<Rightarrow> nat \<Rightarrow> nat \<Rightarrow> cpu_mask \<Rightarrow> (nat \<times> cpu_mask) option" where
  "parse_item sg b p_end p m =
     do {
       let item = skip_space sg b p p_end;
       found \<leftarrow> my_memchr (drop item b) 44 (p_end - item);
       let p' = (case found of None \<Rightarrow> p_end | Some k \<Rightarrow> item + k + 1);
       let item_next = trim_space sg b item (case found of None \<Rightarrow> p_end | Some k \<Rightarrow> item + k);
       if item_next = item then Some (p', m)
       else map_option (Pair p') (item_bits b item m)
     }"

lemma parse_item_later:
  "parse_item sg b p_end p m = Some (p', m') \<Longrightarrow> p < p_end \<Longrightarrow> p < p'"
  using skip_space_ge [of p sg b p_end]
  by (auto simp: parse_item_def Let_def bind_eq_Some_conv split: if_splits option.splits)

function parse_items :: "bool \<Rightarrow> bytes \<Rightarrow> nat \<Rightarrow> nat \<Rightarrow> cpu_mask \<Rightarrow> cpu_mask option" where
  "parse_items sg b p_end p m =
     (if p < p_end then
        (case parse_item sg b p_end p m of
           None \<Rightarrow> None
         | Some (p', m') \<Rightarrow> parse_items sg b p_end p' m')
      else Some m)"
  by pat_completeness auto
termination
  by (relation "measure (\<lambda>(sg, b, p_end, p, m). p_end - p)") (auto dest: parse_item_later)

declare parse_items.simps [simp del]

text \<open>\<open>ParseSysFile\<close> with the bytes that \<open>read\<close> puts into the buffer; \<open>None\<close> for an error of \<open>read\<close>.\<close>

definition ParseSysFile :: "bool \<Rightarrow> bytes \<Rightarrow> bytes option \<Rightarrow> cpu_mask \<Rightarrow> (bool \<times> cpu_mask) option" where
  "ParseSysFile sg garbage res m =
     (case res of
        None \<Rightarrow> Some (False, m)
      | Some bs \<Rightarrow>
          let buffer = (blit garbage 0 bs)[length bs := 0]
          in map_option (Pair True) (parse_items sg buffer (length bs) 0 m))"

section \<open>The set of numbers\<close>

definition mask_ok :: "cpu_mask \<Rightarrow> bool" where
  "mask_ok m \<longleftrightarrow> length m = 32"

definition cpus :: "cpu_mask \<Rightarrow> nat set" where
  "cpus m = {n. n < 1024 \<and> bit (m ! (n div 32)) (n mod 32)}"

lemmas mask_consts = kMaxCpus_def kMaskWordBits_def kMaskWordCount_def

lemma cpus_CpuSet: "mask_ok CpuSet" "cpus CpuSet = {}"
  by (auto simp: mask_ok_def CpuSet_def cpus_def mask_consts)

lemma SetBit_spec:
  assumes "mask_ok m"
  shows "mask_ok (SetBit m i)" and "cpus (SetBit m i) = cpus m \<union> ({unat i} \<inter> {..<1024})"
proof -
  show "mask_ok (SetBit m i)" using assms by (simp add: mask_ok_def SetBit_def Let_def)
  show "cpus (SetBit m i) = cpus m \<union> ({unat i} \<inter> {..<1024})"
  proof (cases "unat i < 1024")
    case True
    have d: "unat i div 32 < length m" using assms True by (simp add: mask_ok_def)
    have e: "n = unat i \<longleftrightarrow> n div 32 = unat i div 32 \<and> n mod 32 = unat i mod 32" for n by (metis div_mult_mod_eq)
    have "SetBit m i = m[unat i div 32 := m ! (unat i div 32) OR push_bit (unat i mod 32) 1]"
      using True by (simp add: SetBit_def mask_consts Let_def)
    then have "n \<in> cpus (SetBit m i) \<longleftrightarrow> n \<in> cpus m \<union> ({unat i} \<inter> {..<1024})" for n
      using d True e [of n]
      by (cases "n div 32 = unat i div 32") (auto simp: cpus_def bit_simps bit_1_iff)
    then show ?thesis by blast
  next
    case False
    then show ?thesis by (simp add: SetBit_def mask_consts)
  qed
qed

lemma IntersectWith_spec:
  assumes "mask_ok m" "mask_ok m'"
  shows "mask_ok (IntersectWith m m')" and "cpus (IntersectWith m m') = cpus m \<inter> cpus m'"
  using assms by (auto simp: mask_ok_def IntersectWith_def cpus_def bit_and_iff)

lemma CpuSet_GetCount_sum: "CpuSet_GetCount m = sum_list (map popcount m)"
proof -
  have "foldl (\<lambda>r w. r + popcount w) a m = a + sum_list (map popcount m)" for a
    by (induction m arbitrary: a) auto
  then show ?thesis by (simp add: CpuSet_GetCount_def)
qed

lemma CpuSet_GetCount_spec:
  assumes "mask_ok m"
  shows "CpuSet_GetCount m = card (cpus m)"
proof -
  let ?S = "\<lambda>k. {n. n div 32 = k \<and> bit (m ! k) (n mod 32)}"
  have "card (?S k) = popcount (m ! k)" for k
  proof -
    have "?S k = (\<lambda>j. 32 * k + j) ` {j. j < 32 \<and> bit (m ! k) j}"
    proof (intro equalityI subsetI)
      fix n assume "n \<in> ?S k"
      then have "n = 32 * k + n mod 32" "n mod 32 < 32 \<and> bit (m ! k) (n mod 32)" by auto
      then show "n \<in> (\<lambda>j. 32 * k + j) ` {j. j < 32 \<and> bit (m ! k) j}" by blast
    qed auto
    then have "card (?S k) = card {j. j < 32 \<and> bit (m ! k) j}" by (simp add: card_image)
    also have "{j. j < 32 \<and> bit (m ! k) j} = set (filter (bit (m ! k)) [0..<32])" by auto
    finally show ?thesis by (simp only: popcount_def distinct_card distinct_filter distinct_upt)
  qed
  moreover have "cpus m = (\<Union>k\<in>{..<32}. ?S k)" by (auto simp: cpus_def)
  moreover have "finite (?S k)" for k by (rule finite_subset [of _ "{..<32 * Suc k}"]) auto
  ultimately have "card (cpus m) = (\<Sum>k<32. popcount (m ! k))"
    by (simp only:) (subst card_UN_disjoint, auto)
  also have "\<dots> = sum_list (map popcount m)"
    using assms by (simp add: mask_ok_def sum_list_sum_nth atLeast0LessThan)
  finally show ?thesis by (simp add: CpuSet_GetCount_sum)
qed

section \<open>The counting loop\<close>

lemma set_bits_spec:
  assumes "fin \<noteq> -1" and "mask_ok m"
  shows "\<exists>m'. set_bits start fin m = Some m' \<and> mask_ok m' \<and> cpus m' = cpus m \<union> ({unat start..unat fin} \<inter> {..<1024})"
  using assms(2)
proof (induction "Suc (unat fin) - unat start" arbitrary: start m)
  case 0
  then have "\<not> start \<le> fin" by (simp add: word_le_nat_alt)
  then show ?case using 0 by (subst set_bits.simps) (simp add: word_le_nat_alt)
next
  case (Suc d)
  then have le: "unat start \<le> unat fin" by simp
  have "unat fin \<noteq> unat (-1 :: u64)" using assms(1) by (metis unsigned_word_eqI)
  then have lt: "unat fin < 2 ^ 64 - 1" using unsigned_less [of fin, where ?'a = nat]
    by (simp add: unsigned_minus_1_eq_mask mask_eq_exp_minus_1)
  then have s: "unat (start + 1) = Suc (unat start)" using le by (simp add: unat_word_ariths)
  obtain m' where m': "set_bits (start + 1) fin (SetBit m start) = Some m'" "mask_ok m'"
    "cpus m' = cpus (SetBit m start) \<union> ({unat (start + 1)..unat fin} \<inter> {..<1024})"
    using Suc.hyps(1) [of "start + 1" "SetBit m start"] Suc.hyps(2) SetBit_spec(1) [OF Suc.prems] s le by (auto simp: Suc_diff_le)
  have "set_bits start fin m = Some m'" using m'(1) le by (subst set_bits.simps) (simp add: word_le_nat_alt)
  moreover have "{unat start..unat fin} = insert (unat start) {Suc (unat start)..unat fin}" using le by auto
  ultimately show ?case using m'(2,3) SetBit_spec(2) [OF Suc.prems] s by auto
qed

text \<open>With the largest value of its type as the upper end, the counter wraps around and the loop goes on for ever.\<close>

lemma set_bits_ends:
  assumes "set_bits start fin m = Some m'"
  shows "fin \<noteq> -1"
proof (rule set_bits.raw_induct [where P = "\<lambda>start fin m m'. fin \<noteq> -1", OF _ assms], goal_cases)
  case (1 f start fin m m')
  show ?case
  proof (cases "start \<le> fin")
    case True
    then show ?thesis using 1(1) [of "start + 1" fin "SetBit m start" m'] 1(2) by simp
  qed auto
qed

lemma set_bits_endless: "set_bits start (-1) m = None"
  using set_bits_ends [of start "-1" m] by fastforce

section \<open>The format\<close>

text \<open>
  An item of the list: spaces, the digits of a number, the digits of the upper end if there is one, spaces. The text of the file is
  the items with commas between them.
\<close>

record cpu_item =
  ci_left :: bytes
  ci_first :: bytes
  ci_last :: "bytes option"
  ci_right :: bytes

definition ci_body :: "cpu_item \<Rightarrow> bytes" where
  "ci_body it = ci_first it @ (case ci_last it of None \<Rightarrow> [] | Some es \<Rightarrow> 45 # es)"

definition ci_text :: "cpu_item \<Rightarrow> bytes" where
  "ci_text it = ci_left it @ ci_body it @ ci_right it"

fun list_text :: "cpu_item list \<Rightarrow> bytes" where
  "list_text [] = []"
| "list_text [it] = ci_text it"
| "list_text (it # its) = ci_text it @ 44 # list_text its"

definition space :: "u8 \<Rightarrow> bool" where "space c \<longleftrightarrow> c \<in> {32, 9, 12, 10, 13, 11}"

definition number :: "bytes \<Rightarrow> bool" where
  "number ds \<longleftrightarrow> ds \<noteq> [] \<and> list_all is_dec_digit ds \<and> dec_val 0 ds < 2 ^ 64 - 1"

definition ci_ok :: "cpu_item \<Rightarrow> bool" where
  "ci_ok it \<longleftrightarrow> list_all space (ci_left it) \<and> list_all space (ci_right it) \<and> number (ci_first it) \<and>
     (case ci_last it of None \<Rightarrow> True | Some es \<Rightarrow> number es)"

definition ci_range :: "cpu_item \<Rightarrow> nat set" where
  "ci_range it = {dec_val 0 (ci_first it)..dec_val 0 (case ci_last it of None \<Rightarrow> ci_first it | Some es \<Rightarrow> es)}"

lemma is_dec_digit_iff: "is_dec_digit c \<longleftrightarrow> 48 \<le> c \<and> c \<le> 57"
  by (auto simp: is_dec_digit_def)

lemma isspace_iff: "my_isspace (cval sg c) \<longleftrightarrow> space c \<or> c = 0"
proof -
  have "cval sg c = cval sg d \<longleftrightarrow> c = d" for d by simp
  from this [of 32] this [of 9] this [of 12] this [of 10] this [of 13] this [of 11] this [of 0]
  show ?thesis by (auto simp: my_isspace_def spaces_def space_def cval_def split: if_splits)
qed

lemma digit_not_space: "is_dec_digit c \<Longrightarrow> \<not> space c \<and> c \<noteq> 0 \<and> c \<noteq> 44 \<and> c \<noteq> 45"
  by (auto simp: is_dec_digit_iff space_def)

lemma skip_space_spec:
  assumes "list_all space l" and "drop p b = l @ c # t" and "\<not> space c" "c \<noteq> 0" and "p + length l < p_end"
  shows "skip_space sg b p p_end = p + length l"
  using assms
proof (induction l arbitrary: p)
  case Nil
  then have "b ! p = c" by (metis append_Nil nth_via_drop)
  then show ?case using Nil by (subst skip_space.simps) (simp add: isspace_iff)
next
  case (Cons x l)
  have "b ! p = x" using Cons.prems(2) by (metis append_Cons nth_via_drop)
  moreover have "drop (Suc p) b = l @ c # t" using Cons.prems(2) by (metis append_Cons drop_Suc_Cons drop_drop plus_1_eq_Suc drop0)
  ultimately show ?case using Cons by (subst skip_space.simps) (simp add: isspace_iff)
qed

lemma trim_space_spec:
  assumes "list_all space r" and "drop item b = body @ r @ t" and "body \<noteq> []" and "\<not> space (List.last body)" "List.last body \<noteq> 0"
  shows "trim_space sg b item (item + length body + length r) = item + length body"
  using assms
proof (induction r arbitrary: t rule: rev_induct)
  case Nil
  have "b ! (item + length body - 1) = List.last body"
    using Nil.prems(2,3) nth_drop [of item b "length body - 1"]
    by (cases "item \<le> length b") (auto simp: nth_append last_conv_nth Nat.add_diff_assoc Suc_le_eq)
  then show ?case using Nil by (subst trim_space.simps) (simp add: isspace_iff)
next
  case (snoc x r)
  have "b ! (item + (length body + length r)) = x"
    using snoc.prems(2,3) nth_drop [of item b "length body + length r"]
    by (cases "item \<le> length b") (auto simp: nth_append)
  then have "trim_space sg b item (item + length body + length (r @ [x])) = trim_space sg b item (item + length body + length r)"
    using snoc.prems(1) by (subst trim_space.simps) (simp add: isspace_iff add.assoc)
  then show ?case using snoc.IH [of "x # t"] snoc.prems by simp
qed

lemma number_chars: "number ds \<Longrightarrow> c \<in> set ds \<Longrightarrow> is_dec_digit c"
  by (simp add: number_def list_all_iff)

lemma read_number:
  assumes "number ds" and "drop p b = ds @ c # t" and "\<not> is_dec_digit c"
  shows "my_read_decimal_ptr (drop p b) = Some (of_nat (dec_val 0 ds) :: u64, length ds)"
proof -
  have "takeWhile is_dec_digit (drop p b) = ds"
    using assms number_chars [OF assms(1)] by (simp add: takeWhile_append2)
  moreover have "\<exists>c\<in>set (drop p b). \<not> is_dec_digit c" using assms by auto
  ultimately show ?thesis by (simp add: my_read_decimal_ptr_eq)
qed

lemma number_word: "number ds \<Longrightarrow> unat (of_nat (dec_val 0 ds) :: u64) = dec_val 0 ds \<and> (of_nat (dec_val 0 ds) :: u64) \<noteq> -1"
proof -
  assume "number ds"
  then have v: "dec_val 0 ds < 2 ^ 64 - 1" by (simp add: number_def)
  then have u: "unat (of_nat (dec_val 0 ds) :: u64) = dec_val 0 ds" by (simp add: unsigned_of_nat take_bit_eq_mod)
  have "unat (-1 :: u64) = 2 ^ 64 - 1" by (simp add: unsigned_minus_1_eq_mask mask_eq_exp_minus_1)
  then show ?thesis using u v by auto
qed

lemma drop_add: "drop p b = xs @ ys \<Longrightarrow> drop (p + length xs) b = ys"
  by (metis add.commute append_eq_conv_conj drop_drop)

lemma item_bits_spec:
  assumes ok: "ci_ok it" and d: "drop p b = ci_body it @ c # t" and c: "\<not> is_dec_digit c" "c \<noteq> 45" and m: "mask_ok m"
  shows "\<exists>m'. item_bits b p m = Some m' \<and> mask_ok m' \<and> cpus m' = cpus m \<union> (ci_range it \<inter> {..<1024})"
proof -
  have n1: "number (ci_first it)" using ok by (simp add: ci_ok_def)
  note w1 = number_word [OF n1]
  show ?thesis
  proof (cases "ci_last it")
    case None
    have d1: "drop p b = ci_first it @ c # t" using d None by (simp add: ci_body_def)
    have r: "rd b (p + length (ci_first it)) = Some c"
      using drop_add [OF d1] by (metis drop_eq_Nil list.distinct(1) not_le nth_via_drop rd_Some)
    show ?thesis
      using read_number [OF n1 d1 c(1)] r c(2) set_bits_spec [OF conjunct2 [OF w1] m, of "of_nat (dec_val 0 (ci_first it))"] w1 None
      by (auto simp: item_bits_def ci_range_def)
  next
    case (Some es)
    have n2: "number es" using ok Some by (simp add: ci_ok_def)
    note w2 = number_word [OF n2]
    have d1: "drop p b = ci_first it @ 45 # es @ c # t" using d Some by (simp add: ci_body_def)
    have r: "rd b (p + length (ci_first it)) = Some 45"
      using drop_add [OF d1] by (metis drop_eq_Nil list.distinct(1) not_le nth_via_drop rd_Some)
    have d2: "drop (p + length (ci_first it) + 1) b = es @ c # t"
      using drop_add [of p b "ci_first it @ [45]" "es @ c # t"] d1 by simp
    have nd: "\<not> is_dec_digit 45" by (simp add: is_dec_digit_iff)
    show ?thesis using read_number [OF n1 d1 nd] read_number [OF n2 d2 c(1)] r set_bits_spec [OF conjunct2 [OF w2] m, of "of_nat (dec_val 0 (ci_first it))"] w1 w2 Some
      by (auto simp: item_bits_def ci_range_def)
  qed
qed

lemma body_chars:
  assumes "ci_ok it"
  shows "44 \<notin> set (ci_body it @ ci_right it)" and "ci_body it \<noteq> []" and "\<not> space (hd (ci_body it)) \<and> hd (ci_body it) \<noteq> 0"
    and "\<not> space (List.last (ci_body it)) \<and> List.last (ci_body it) \<noteq> 0"
proof -
  have n: "number (ci_first it)" "\<And>es. ci_last it = Some es \<Longrightarrow> number es" using assms by (auto simp: ci_ok_def)
  have ne: "ci_first it \<noteq> []" "\<And>es. ci_last it = Some es \<Longrightarrow> es \<noteq> []" using n by (auto simp: number_def)
  have dg: "c \<in> set (ci_first it) \<Longrightarrow> is_dec_digit c" "ci_last it = Some es \<Longrightarrow> c \<in> set es \<Longrightarrow> is_dec_digit c" for c es
    using n number_chars by auto
  show "ci_body it \<noteq> []" using ne by (simp add: ci_body_def)
  have "44 \<notin> set (ci_right it)" using assms by (auto simp: ci_ok_def list_all_iff space_def)
  then show "44 \<notin> set (ci_body it @ ci_right it)"
    using dg digit_not_space by (cases "ci_last it") (auto simp: ci_body_def)
  show "\<not> space (hd (ci_body it)) \<and> hd (ci_body it) \<noteq> 0"
    using ne(1) dg(1) [of "hd (ci_first it)"] digit_not_space by (simp add: ci_body_def)
  show "\<not> space (List.last (ci_body it)) \<and> List.last (ci_body it) \<noteq> 0"
    using ne dg(1) [of "List.last (ci_first it)"] dg(2) [of _ "List.last (the (ci_last it))"] digit_not_space
    by (cases "ci_last it") (auto simp: ci_body_def)
qed

lemma uint_comma: "uint (44 :: u8) = 44"
  by simp

lemma memchr_comma:
  assumes "drop p b = xs @ c # t" and "44 \<notin> set xs" and "e \<le> length b"
    and "c = 44 \<and> p + length xs < e \<or> e = p + length xs"
  shows "my_memchr (drop p b) 44 (e - p) = Some (if e = p + length xs then None else Some (length xs))"
proof -
  have u: "uint x = 44 \<longleftrightarrow> x = 44" for x :: u8 by (metis uint_comma word_uint_eq_iff)
  have le: "e - p \<le> length (drop p b)" using assms(3) by simp
  have pe: "p \<le> e" using assms(4) by auto
  show ?thesis
  proof (cases "e = p + length xs")
    case True
    then have t: "take (e - p) (drop p b) = xs" using assms(1) by simp
    have "44 \<notin> uint ` set xs" using assms(2) u by force
    then show ?thesis using my_memchr_eq [OF le, of 44] True unfolding t by simp
  next
    case False
    then have c: "c = 44" "p + length xs < e" using assms(4) by auto
    define k where "k = e - p - length xs - 1"
    have k: "e - p = length xs + Suc k" using c(2) by (simp add: k_def)
    have t: "take (e - p) (drop p b) = xs @ 44 # take k t" unfolding k using assms(1) c by simp
    have "takeWhile (\<lambda>c. uint c \<noteq> 44) (xs @ 44 # take k t) = xs"
      using assms(2) u by (subst takeWhile_append2) auto
    then show ?thesis using my_memchr_eq [OF le, of 44] False unfolding t by (simp add: image_iff)
  qed
qed

lemma parse_item_spec:
  assumes ok: "ci_ok it" and m: "mask_ok m" and d: "drop p b = ci_text it @ c # t"
    and e: "p_end \<le> length b" "c = 44 \<and> p + length (ci_text it) < p_end \<or> c = 0 \<and> p_end = p + length (ci_text it)"
  shows "\<exists>m'. parse_item sg b p_end p m = Some (if c = 44 then p + length (ci_text it) + 1 else p_end, m') \<and>
    mask_ok m' \<and> cpus m' = cpus m \<union> (ci_range it \<inter> {..<1024})"
proof -
  let ?item = "p + length (ci_left it)" and ?xs = "ci_body it @ ci_right it"
  note bc = body_chars [OF ok]
  have d1: "drop ?item b = ?xs @ c # t" using drop_add [of p b "ci_left it" "?xs @ c # t"] d by (simp add: ci_text_def)
  have len: "p + length (ci_text it) = ?item + length ?xs" by (simp add: ci_text_def)
  obtain x body' where b: "ci_body it = x # body'" using bc(2) by (cases "ci_body it") auto
  have skip: "skip_space sg b p p_end = ?item"
  proof (rule skip_space_spec [of "ci_left it" _ _ x "body' @ ci_right it @ c # t"])
    show "list_all space (ci_left it)" using ok by (simp add: ci_ok_def)
    show "drop p b = ci_left it @ x # body' @ ci_right it @ c # t" using d b by (simp add: ci_text_def)
    show "\<not> space x" "x \<noteq> 0" using bc(3) b by auto
    show "?item < p_end" using e(2) len b by auto
  qed
  have f: "my_memchr (drop ?item b) 44 (p_end - ?item) = Some (if c = 44 then Some (length ?xs) else None)"
    using memchr_comma [OF d1 bc(1) e(1)] e(2) len by auto
  have trim: "trim_space sg b ?item (?item + length ?xs) = ?item + length (ci_body it)"
    using trim_space_spec [of "ci_right it" ?item b "ci_body it" "c # t" sg] d1 ok bc(2,4) by (simp add: ci_ok_def add.assoc)
  have pe: "c \<noteq> 44 \<Longrightarrow> p_end = ?item + length ?xs" using e(2) len by auto
  have nx: "(case if c = 44 then Some (length ?xs) else None of None \<Rightarrow> p_end | Some k \<Rightarrow> ?item + k) = ?item + length ?xs"
    using pe by simp
  obtain y t' where y: "ci_right it @ c # t = y # t'" "\<not> is_dec_digit y" "y \<noteq> 45"
  proof (cases "ci_right it")
    case Nil
    then show ?thesis using that [of c t] e(2) by (auto simp: is_dec_digit_iff)
  next
    case (Cons z r)
    have "space z" using ok Cons by (simp add: ci_ok_def)
    then have "\<not> is_dec_digit z" "z \<noteq> 45" by (auto simp: is_dec_digit_iff space_def)
    then show ?thesis using that Cons by simp
  qed
  obtain m' where m': "item_bits b ?item m = Some m'" "mask_ok m'" "cpus m' = cpus m \<union> (ci_range it \<inter> {..<1024})"
    using item_bits_spec [OF ok _ y(2,3) m, of ?item b t'] d1 y(1) by auto
  have "parse_item sg b p_end p m = Some (if c = 44 then p + length (ci_text it) + 1 else p_end, m')"
    unfolding parse_item_def skip Let_def f bind.bind_lunit nx trim using m'(1) b len by simp
  then show ?thesis using m'(2,3) by blast
qed

lemma parse_items_spec:
  assumes "list_all ci_ok its" and "mask_ok m" and "drop p b = list_text its @ 0 # t" and "p_end = p + length (list_text its)"
  shows "\<exists>m'. parse_items sg b p_end p m = Some m' \<and> mask_ok m' \<and>
    cpus m' = cpus m \<union> (\<Union> (ci_range ` set its) \<inter> {..<1024})"
  using assms
proof (induction its arbitrary: p m rule: list_text.induct)
  case 1
  then show ?case by (subst parse_items.simps) simp
next
  case (2 it)
  have le: "p_end \<le> length b" using arg_cong [OF 2(3), of length] 2(4) by simp
  obtain m' where m': "parse_item sg b p_end p m = Some (p_end, m')" "mask_ok m'" "cpus m' = cpus m \<union> (ci_range it \<inter> {..<1024})"
    using parse_item_spec [of it m p b 0 t p_end sg] 2 le by auto
  have "p < p_end" using 2 body_chars(2) [of it] by (simp add: ci_text_def)
  then have "parse_items sg b p_end p m = Some m'" using m'(1) by (subst parse_items.simps) (simp add: parse_items.simps [of _ _ p_end p_end])
  then show ?case using m' by simp
next
  case (3 it it2 its)
  let ?its = "it2 # its"
  have le: "p_end \<le> length b" using arg_cong [OF 3(4), of length] 3(5) by simp
  have d: "drop p b = ci_text it @ 44 # list_text ?its @ 0 # t" using 3(4) by simp
  obtain m1 where m1: "parse_item sg b p_end p m = Some (p + length (ci_text it) + 1, m1)" "mask_ok m1"
    "cpus m1 = cpus m \<union> (ci_range it \<inter> {..<1024})"
    using parse_item_spec [of it m p b 44 "list_text ?its @ 0 # t" p_end sg] 3(2,3,5) d le by auto
  have d2: "drop (p + length (ci_text it) + 1) b = list_text ?its @ 0 # t"
    using drop_add [of p b "ci_text it @ [44]" "list_text ?its @ 0 # t"] d by simp
  have pe: "p_end = p + length (ci_text it) + 1 + length (list_text ?its)" using 3(5) by simp
  obtain m' where m': "parse_items sg b p_end (p + length (ci_text it) + 1) m1 = Some m'" "mask_ok m'"
    "cpus m' = cpus m1 \<union> (\<Union> (ci_range ` set ?its) \<inter> {..<1024})"
    using "3.IH" [OF _ m1(2) d2 pe] 3(2) by auto
  have "parse_items sg b p_end p m = Some m'" using m1(1) m'(1) pe by (subst parse_items.simps) simp
  then show ?case using m' m1(3) by auto
qed

lemma ParseSysFile_spec:
  assumes "mask_ok m" and "list_all ci_ok its" and "length (list_text its) \<le> 511" and "length garbage = 512"
  shows "\<exists>r. ParseSysFile sg garbage (Some (list_text its)) m = Some (True, r) \<and> mask_ok r \<and>
    cpus r = cpus m \<union> (\<Union> (ci_range ` set its) \<inter> {..<1024})"
proof -
  let ?bs = "list_text its"
  have "(blit garbage 0 ?bs)[length ?bs := 0] = ?bs @ 0 # drop (Suc (length ?bs)) garbage"
    using assms(3,4) by (simp add: blit_def list_update_append Cons_nth_drop_Suc [symmetric, of "length ?bs" garbage])
  then have "\<exists>r. parse_items sg ((blit garbage 0 ?bs)[length ?bs := 0]) (length ?bs) 0 m = Some r \<and> mask_ok r \<and>
      cpus r = cpus m \<union> (\<Union> (ci_range ` set its) \<inter> {..<1024})"
    using parse_items_spec [OF assms(2,1), of 0 _ "drop (Suc (length ?bs)) garbage" "length ?bs"] by simp
  then show ?thesis by (auto simp: ParseSysFile_def Let_def)
qed

text \<open>
  C20. A set of processors is a finite set below 1024. For every file of at most 511 bytes in the documented format, with spaces anywhere
  around the items and no bound equal to the largest number of a word, \<open>ParseSysFile\<close> returns and adds exactly the
  processors of the ranges, as far as they are below 1024; an error of \<open>read\<close> leaves the set as it is. \<open>IntersectWith\<close> is
  the intersection and \<open>CpuSet_GetCount\<close> the number of elements. With the largest number as upper bound the parser does not return.
\<close>

theorem CpuSet_refines:
  assumes "mask_ok m" and "mask_ok m'" and "list_all ci_ok its" and "length (list_text its) \<le> 511" and "length garbage = 512"
  shows "(\<exists>r. ParseSysFile sg garbage (Some (list_text its)) m = Some (True, r) \<and> mask_ok r \<and>
      cpus r = cpus m \<union> (\<Union> (ci_range ` set its) \<inter> {..<1024})) \<and>
    ParseSysFile sg garbage None m = Some (False, m) \<and>
    mask_ok (IntersectWith m m') \<and> cpus (IntersectWith m m') = cpus m \<inter> cpus m' \<and>
    CpuSet_GetCount m = card (cpus m) \<and> set_bits start (-1) m = None"
  using ParseSysFile_spec [OF assms(1,3-5)] IntersectWith_spec [OF assms(1,2)] CpuSet_GetCount_spec [OF assms(1)] set_bits_endless [of start m]
  by (simp add: ParseSysFile_def)

theorem CpuSet_refines_witness:
  "\<exists>r. ParseSysFile False (replicate 512 7) (Some [48, 45, 51, 44, 32, 56, 10]) CpuSet = Some (True, r) \<and> cpus r = {0, 1, 2, 3, 8}"
proof -
  let ?its = "[\<lparr>ci_left = [], ci_first = [48], ci_last = Some [51], ci_right = []\<rparr>,
    \<lparr>ci_left = [32], ci_first = [56], ci_last = None, ci_right = [10]\<rparr>]"
  have t: "list_text ?its = [48, 45, 51, 44, 32, 56, 10]" by (simp add: ci_text_def ci_body_def)
  have ok: "list_all ci_ok ?its" by (simp add: ci_ok_def number_def is_dec_digit_iff space_def)
  have r: "\<Union> (ci_range ` set ?its) \<inter> {..<1024} = {0, 1, 2, 3, 8}"
  proof -
    have "{0..3 :: nat} = {0, 1, 2, 3}" by auto
    then show ?thesis by (simp add: ci_range_def insert_commute)
  qed
  show ?thesis
    using CpuSet_refines [OF cpus_CpuSet(1) cpus_CpuSet(1) ok, of "replicate 512 7" False 0] unfolding t r by (auto simp: cpus_CpuSet(2))
qed

end
