(* ===== verification/Directory_Reader.thy ===== *)
theory Directory_Reader
  imports Line_Reader Libc_Support C_Layout
begin

text \<open>
  \<^verbatim>\<open>client/linux/minidump_writer/directory_reader.h\<close>: reading a directory through a fixed buffer without
  allocating memory.

  The system call \<open>getdents\<close> is a parameter. Its contract is what getdents(2) documents: it returns whole records of the entries that were
  not yet returned, and none only at the end of the directory. The records are those of a 64-bit target without
  the old call (\<open>kernel_dirent64\<close>): 16 bytes, the length of the record, the type, the name with its NUL, padding.
\<close>

section \<open>The reader\<close>

definition dir_buf_size :: nat where "dir_buf_size = 280 + 255 + 1"
definition d_reclen :: "bytes \<Rightarrow> nat" where "d_reclen buf = le_nat (take 2 (drop 16 buf))"
definition d_name :: "bytes \<Rightarrow> bytes" where "d_name buf = drop 19 buf"

record dir_reader =
  dr_hit_eof :: bool
  dr_buf_used :: nat
  dr_buf :: bytes

text \<open>The constructor sets only \<open>buf_used_\<close>.\<close>

definition DirectoryReader :: "bool \<Rightarrow> bytes \<Rightarrow> dir_reader" where
  "DirectoryReader eof garbage = \<lparr>dr_hit_eof = eof, dr_buf_used = 0, dr_buf = garbage\<rparr>"

definition GetNextEntry :: "'f read_call \<Rightarrow> 'f \<Rightarrow> dir_reader \<Rightarrow> (bool \<times> dir_reader \<times> 'f) option" where
  "GetNextEntry getdents f r =
     do {
       (go_on, r1, f1) \<leftarrow>
         (if dr_buf_used r = 0 then
            (case getdents f dir_buf_size of
               (None, f') \<Rightarrow> Some (False, r, f')
             | (Some bs, f') \<Rightarrow>
                 if bs = [] then Some (True, r\<lparr>dr_hit_eof := True\<rparr>, f')
                 else if length bs > dir_buf_size then None
                 else Some (True, r\<lparr>dr_buf := blit (dr_buf r) 0 bs, dr_buf_used := dr_buf_used r + length bs\<rparr>, f'))
          else Some (True, r, f));
       Some (go_on \<and> \<not> (dr_buf_used r1 = 0 \<and> dr_hit_eof r1), r1, f1)
     }"

definition PopEntry :: "dir_reader \<Rightarrow> dir_reader option" where
  "PopEntry r =
     (if dr_buf_used r = 0 then Some r
      else
        let reclen = d_reclen (dr_buf r)
        in if reclen \<le> dr_buf_used r
           then Some (r\<lparr>dr_buf_used := dr_buf_used r - reclen,
                        dr_buf := blit (dr_buf r) 0 (take (dr_buf_used r - reclen) (drop reclen (dr_buf r)))\<rparr>)
           else None)"

section \<open>A source of names\<close>

text \<open>
  What a client of the reader relies on: \<open>get\<close> gives a terminated string, the name of the first entry that is
  left, and \<open>pop\<close> takes that entry away.
\<close>

locale name_source =
  fixes invar :: "'s \<Rightarrow> bool"
    and rest :: "'s \<Rightarrow> bytes list"
    and reliable :: "'s \<Rightarrow> bool"
    and get :: "'s \<Rightarrow> (bytes option \<times> 's) option"
    and pop :: "'s \<Rightarrow> 's option"
  assumes get_total: "invar s \<Longrightarrow> \<exists>res s'. get s = Some (res, s')"
    and get_invar: "invar s \<Longrightarrow> get s = Some (res, s') \<Longrightarrow> invar s' \<and> (reliable s' \<longleftrightarrow> reliable s)"
    and get_name: "invar s \<Longrightarrow> get s = Some (Some nm, s') \<Longrightarrow> nul_terminated nm \<and> rest s \<noteq> [] \<and> cstr nm = hd (rest s)"
    and get_end: "invar s \<Longrightarrow> reliable s \<Longrightarrow> get s = Some (None, s') \<Longrightarrow> rest s = []"
    and pop_name: "invar s \<Longrightarrow> get s = Some (Some nm, s') \<Longrightarrow>
      \<exists>s''. pop s' = Some s'' \<and> invar s'' \<and> rest s'' = tl (rest s) \<and> (reliable s'' \<longleftrightarrow> reliable s)"

section \<open>The reader is a source of names\<close>

record dirent =
  de_head :: bytes
  de_type :: u8
  de_name :: bytes
  de_pad :: bytes

definition de_length :: "dirent \<Rightarrow> nat" where
  "de_length e = 19 + length (de_name e) + 1 + length (de_pad e)"

definition encode_dirent :: "dirent \<Rightarrow> bytes" where
  "encode_dirent e = de_head e @ le_int 2 (de_length e) @ [de_type e] @ de_name e @ 0 # de_pad e"

definition dirent_ok :: "dirent \<Rightarrow> bool" where
  "dirent_ok e \<longleftrightarrow> length (de_head e) = 16 \<and> 0 \<notin> set (de_name e) \<and> de_length e \<le> dir_buf_size"

definition getdents_contract :: "'f read_call \<Rightarrow> ('f \<Rightarrow> dirent list) \<Rightarrow> bool" where
  "getdents_contract getdents entries \<longleftrightarrow>
     (\<forall>f n bs f'. getdents f n = (Some bs, f') \<longrightarrow>
        (\<exists>es. bs = concat (map encode_dirent es) \<and> list_all dirent_ok es \<and> entries f = es @ entries f' \<and>
           length bs \<le> n \<and> (es = [] \<longrightarrow> entries f = [])))"

definition getdents_never_fails :: "'f read_call \<Rightarrow> bool" where
  "getdents_never_fails getdents \<longleftrightarrow> (\<forall>f. fst (getdents f dir_buf_size) \<noteq> None)"

text \<open>The names in a buffer of records.\<close>

function names_in :: "bytes \<Rightarrow> bytes list" where
  "names_in bs = (if length bs < 20 \<or> d_reclen bs < 20 then [] else cstr (d_name bs) # names_in (drop (d_reclen bs) bs))"
  by pat_completeness auto
termination
  by (relation "measure length") auto

declare names_in.simps [simp del]

lemma length_encode_dirent: "dirent_ok e \<Longrightarrow> length (encode_dirent e) = de_length e"
  by (simp add: encode_dirent_def de_length_def dirent_ok_def del: le_int_simps)

lemma encode_dirent_fields:
  assumes "dirent_ok e"
  shows "d_reclen (encode_dirent e @ t) = de_length e" and "cstr (d_name (encode_dirent e @ t)) = de_name e"
    and "nul_terminated (d_name (encode_dirent e @ t))" and "20 \<le> length (encode_dirent e @ t)" and "20 \<le> de_length e"
proof -
  have h: "length (de_head e) = 16" "de_length e < 256 ^ 2" using assms by (simp_all add: dirent_ok_def dir_buf_size_def)
  show "d_reclen (encode_dirent e @ t) = de_length e"
    using h by (simp add: d_reclen_def encode_dirent_def del: le_int_simps)
  have "d_name (encode_dirent e @ t) = de_name e @ 0 # de_pad e @ t"
    using h by (simp add: d_name_def encode_dirent_def del: le_int_simps)
  then show "cstr (d_name (encode_dirent e @ t)) = de_name e" "nul_terminated (d_name (encode_dirent e @ t))"
    using assms by (simp_all add: dirent_ok_def cstr_terminated)
  show "20 \<le> length (encode_dirent e @ t)" using length_encode_dirent [OF assms] by (simp add: de_length_def)
  show "20 \<le> de_length e" by (simp add: de_length_def)
qed

lemma names_in_encode: "list_all dirent_ok es \<Longrightarrow> names_in (concat (map encode_dirent es)) = map de_name es"
proof (induction es)
  case Nil
  then show ?case by (simp add: names_in.simps)
next
  case (Cons e es)
  then have ok: "dirent_ok e" "list_all dirent_ok es" by auto
  have "drop (de_length e) (encode_dirent e @ concat (map encode_dirent es)) = concat (map encode_dirent es)"
    by (simp flip: length_encode_dirent [OF ok(1)])
  then show ?case
    using encode_dirent_fields(1-4) [OF ok(1), where t = "concat (map encode_dirent es)"] encode_dirent_fields(5) [OF ok(1)] Cons.IH [OF ok(2)]
    by (subst names_in.simps) simp
qed

type_synonym 'f dir_state = "'f \<times> dir_reader"

fun dir_invar :: "'f read_call \<Rightarrow> ('f \<Rightarrow> dirent list) \<Rightarrow> 'f dir_state \<Rightarrow> bool" where
  "dir_invar g entries (f, r) \<longleftrightarrow> getdents_contract g entries \<and> length (dr_buf r) = dir_buf_size \<and> dr_buf_used r \<le> dir_buf_size \<and>
     (\<exists>es. list_all dirent_ok es \<and> take (dr_buf_used r) (dr_buf r) = concat (map encode_dirent es))"

fun dir_rest :: "('f \<Rightarrow> dirent list) \<Rightarrow> 'f dir_state \<Rightarrow> bytes list" where
  "dir_rest entries (f, r) = names_in (take (dr_buf_used r) (dr_buf r)) @ map de_name (entries f)"

fun dir_get :: "'f read_call \<Rightarrow> 'f dir_state \<Rightarrow> (bytes option \<times> 'f dir_state) option" where
  "dir_get getdents (f, r) =
     do {
       (ok, r, f) \<leftarrow> GetNextEntry getdents f r;
       Some (if ok then Some (d_name (dr_buf r)) else None, f, r)
     }"

fun dir_pop :: "'f dir_state \<Rightarrow> 'f dir_state option" where
  "dir_pop (f, r) = map_option (Pair f) (PopEntry r)"

lemma encode_nonempty: "concat (map encode_dirent es) = [] \<longleftrightarrow> es = []"
  by (cases es) (auto simp: encode_dirent_def)

lemma invar_record:
  assumes "dir_invar g entries (f, r)" and "dr_buf_used r \<noteq> 0"
  obtains e es t where "dirent_ok e" and "list_all dirent_ok es" and "dr_buf r = encode_dirent e @ concat (map encode_dirent es) @ t"
    and "dr_buf_used r = de_length e + length (concat (map encode_dirent es))"
proof -
  obtain es' where es': "list_all dirent_ok es'" "take (dr_buf_used r) (dr_buf r) = concat (map encode_dirent es')"
    using assms(1) by auto
  have "take (dr_buf_used r) (dr_buf r) \<noteq> []" using assms by (auto simp: dir_buf_size_def)
  then obtain e es where es: "es' = e # es" using es'(2) by (cases es') auto
  have e: "dirent_ok e" "list_all dirent_ok es" using es'(1) es by auto
  have "length (take (dr_buf_used r) (dr_buf r)) = dr_buf_used r" using assms(1) by auto
  then have used: "dr_buf_used r = de_length e + length (concat (map encode_dirent es))"
    using es'(2) es length_encode_dirent [OF e(1)] by simp
  have "dr_buf r = take (dr_buf_used r) (dr_buf r) @ drop (dr_buf_used r) (dr_buf r)" by simp
  then have "dr_buf r = encode_dirent e @ concat (map encode_dirent es) @ drop (dr_buf_used r) (dr_buf r)"
    using es'(2) es by simp
  then show ?thesis using that e used by blast
qed

text \<open>What a call of \<open>GetNextEntry\<close> does: either records are in the buffer, or the end or an error was met.\<close>

lemma GetNextEntry_spec:
  assumes inv: "dir_invar g entries (f, r)"
  obtains ok r' f' where "GetNextEntry g f r = Some (ok, r', f')" and "dir_invar g entries (f', r')"
    and "ok \<Longrightarrow> dr_buf_used r' \<noteq> 0 \<and> dir_rest entries (f', r') = dir_rest entries (f, r)"
    and "\<not> ok \<Longrightarrow> getdents_never_fails g \<Longrightarrow> dir_rest entries (f, r) = []"
proof (cases "dr_buf_used r = 0")
  case False
  then show ?thesis using that [of True r f] inv by (simp add: GetNextEntry_def)
next
  case used: True
  obtain res f' where g: "g f dir_buf_size = (res, f')" by (cases "g f dir_buf_size")
  have nil: "names_in [] = []" by (simp add: names_in.simps)
  show ?thesis
  proof (cases res)
    case None
    have "\<not> getdents_never_fails g" using g None by (auto simp: getdents_never_fails_def) (metis fst_conv)
    then show ?thesis using that [of False r f'] inv used g None by (simp add: GetNextEntry_def)
  next
    case (Some bs)
    obtain es where es: "bs = concat (map encode_dirent es)" "list_all dirent_ok es" "entries f = es @ entries f'"
        "length bs \<le> dir_buf_size" "es = [] \<longrightarrow> entries f = []"
      using inv g Some unfolding dir_invar.simps getdents_contract_def by blast
    show ?thesis
    proof (cases "bs = []")
      case True
      then have "es = []" using es(1) encode_nonempty by metis
      then have e: "entries f = []" using es(5) by blast
      show ?thesis
        by (rule that [of False "r\<lparr>dr_hit_eof := True\<rparr>" f']) (use inv used g Some True e nil in \<open>auto simp: GetNextEntry_def\<close>)
    next
      case False
      let ?r = "r\<lparr>dr_buf := blit (dr_buf r) 0 bs, dr_buf_used := length bs\<rparr>"
      have len: "length (dr_buf r) = dir_buf_size" using inv by simp
      have tk: "take (length bs) (blit (dr_buf r) 0 bs) = bs" using take_blit [of 0 bs "dr_buf r"] es(4) len by simp
      have "GetNextEntry g f r = Some (True, ?r, f')" using used g Some False es(4) by (simp add: GetNextEntry_def)
      moreover have "dir_invar g entries (f', ?r)" using inv es tk by auto
      moreover have "dir_rest entries (f', ?r) = dir_rest entries (f, r)"
        using tk es used nil names_in_encode [OF es(2)] by simp
      ultimately show ?thesis using that [of True ?r f'] False by simp
    qed
  qed
qed

lemma PopEntry_spec:
  assumes inv: "dir_invar g entries (f, r)" and used: "dr_buf_used r \<noteq> 0"
  obtains r' where "PopEntry r = Some r'" and "dir_invar g entries (f, r')"
    and "dir_rest entries (f, r) = cstr (d_name (dr_buf r)) # dir_rest entries (f, r')" and "nul_terminated (d_name (dr_buf r))"
proof -
  obtain e es t where e: "dirent_ok e" "list_all dirent_ok es" "dr_buf r = encode_dirent e @ concat (map encode_dirent es) @ t"
      "dr_buf_used r = de_length e + length (concat (map encode_dirent es))"
    using invar_record [OF assms] .
  let ?cs = "concat (map encode_dirent es)"
  let ?r = "r\<lparr>dr_buf_used := length ?cs, dr_buf := blit (dr_buf r) 0 ?cs\<rparr>"
  have len: "length (dr_buf r) = dir_buf_size" "dr_buf_used r \<le> dir_buf_size" using inv by auto
  have tk: "take (length ?cs) (blit (dr_buf r) 0 ?cs) = ?cs"
    using take_blit [of 0 ?cs "dr_buf r"] len e(4) by simp
  have f: "d_reclen (dr_buf r) = de_length e" "cstr (d_name (dr_buf r)) = de_name e" "nul_terminated (d_name (dr_buf r))"
    using encode_dirent_fields(1-3) [OF e(1)] unfolding e(3) by auto
  have "drop (de_length e) (dr_buf r) = ?cs @ t" unfolding e(3) by (simp flip: length_encode_dirent [OF e(1)])
  moreover have "de_length e \<noteq> 0" using encode_dirent_fields(5) [OF e(1)] by linarith
  ultimately have "PopEntry r = Some ?r" using e(4) f(1) by (simp add: PopEntry_def)
  moreover have "dir_invar g entries (f, ?r)" using inv len e(2,4) tk by auto
  moreover have "take (dr_buf_used r) (dr_buf r) = concat (map encode_dirent (e # es))"
    unfolding e(3,4) by (simp flip: length_encode_dirent [OF e(1)])
  then have "names_in (take (dr_buf_used r) (dr_buf r)) = de_name e # map de_name es"
    using names_in_encode [of "e # es"] e(1,2) by simp
  then have "dir_rest entries (f, r) = cstr (d_name (dr_buf r)) # dir_rest entries (f, ?r)"
    using tk names_in_encode [OF e(2)] f(2) by simp
  ultimately show ?thesis using that f(3) by blast
qed

interpretation dr: name_source "dir_invar g entries" "dir_rest entries" "\<lambda>_. getdents_never_fails g" "dir_get g" dir_pop
  for g :: "'f read_call" and entries :: "'f \<Rightarrow> dirent list"
proof
  fix s :: "'f dir_state" and res s'
  obtain f r where s: "s = (f, r)" by (cases s)
  assume inv: "dir_invar g entries s"
  then show "\<exists>res s'. dir_get g s = Some (res, s')" unfolding s by (rule GetNextEntry_spec) simp
  show "dir_invar g entries s' \<and> getdents_never_fails g = getdents_never_fails g" if "dir_get g s = Some (res, s')"
    by (rule GetNextEntry_spec [OF inv [unfolded s]]) (use that s in auto)
next
  fix s :: "'f dir_state" and nm s'
  obtain f r where s: "s = (f, r)" by (cases s)
  assume inv: "dir_invar g entries s" and get: "dir_get g s = Some (Some nm, s')"
  obtain ok r' f' where n: "GetNextEntry g f r = Some (ok, r', f')" "dir_invar g entries (f', r')"
      "ok \<Longrightarrow> dr_buf_used r' \<noteq> 0 \<and> dir_rest entries (f', r') = dir_rest entries (f, r)"
    using GetNextEntry_spec [OF inv [unfolded s]] by metis
  have s': ok "s' = (f', r')" "nm = d_name (dr_buf r')" using get s n(1) by (auto split: if_splits)
  obtain r'' where p: "PopEntry r' = Some r''" "dir_invar g entries (f', r'')"
      "dir_rest entries (f', r') = cstr (d_name (dr_buf r')) # dir_rest entries (f', r'')" "nul_terminated (d_name (dr_buf r'))"
    using PopEntry_spec [OF n(2)] n(3) s'(1) by metis
  show "nul_terminated nm \<and> dir_rest entries s \<noteq> [] \<and> cstr nm = hd (dir_rest entries s)" using n(3) s' p(3,4) s by simp
  show "\<exists>s''. dir_pop s' = Some s'' \<and> dir_invar g entries s'' \<and> dir_rest entries s'' = tl (dir_rest entries s) \<and> getdents_never_fails g = getdents_never_fails g"
    using n(3) s' p s by simp
next
  fix s :: "'f dir_state" and s'
  obtain f r where s: "s = (f, r)" by (cases s)
  assume inv: "dir_invar g entries s" and rel: "getdents_never_fails g" and get: "dir_get g s = Some (None, s')"
  obtain ok r' f' where n: "GetNextEntry g f r = Some (ok, r', f')"
      "\<not> ok \<Longrightarrow> getdents_never_fails g \<Longrightarrow> dir_rest entries (f, r) = []"
    using GetNextEntry_spec [OF inv [unfolded s]] by metis
  then have "\<not> ok" using get s by (auto split: if_splits)
  then show "dir_rest entries s = []" using n(2) rel s by simp
qed

end
