(* ===== verification/Thread_Context.thy ===== *)
theory Thread_Context
  imports Minidump_Contexts
begin

text \<open>
  \<^verbatim>\<open>client/linux/dump_writer_common/thread_info.cc\<close> and \<^verbatim>\<open>ucontext_reader.cc\<close>: the registers of a thread, as ptrace or the
  signal handler got them, are put into the CPU context of a minidump.

  A context is the buffer of its bytes; a fill is the list of its assignments, each to a path of members with an offset
  (of an array element, or of a write into a byte array) and the bytes assigned. The structures of the system headers
  are functions from the names of their members to the values, arrays are lists.
  The MIPS versions are left out: they convert floating point values to integers.
\<close>

section \<open>Assignments to members\<close>

fun path_offset :: "nat \<Rightarrow> ctype \<Rightarrow> string list \<Rightarrow> nat option" where
  "path_offset al t [] = Some 0"
| "path_offset al t (m # ms) =
     do {
       off \<leftarrow> offsetof al t m;
       mt \<leftarrow> map_of (members t) m;
       rest \<leftarrow> path_offset al mt ms;
       Some (off + rest)
     }"

type_synonym assignment = "string list \<times> nat \<times> bytes"

definition assign :: "nat \<Rightarrow> ctype \<Rightarrow> assignment \<Rightarrow> bytes \<Rightarrow> bytes option" where
  "assign al t a buf =
     (case a of (path, at, bs) \<Rightarrow>
        do {
          off \<leftarrow> path_offset al t path;
          if off + at + length bs \<le> length buf then Some (blit buf (off + at) bs) else None
        })"

fun assign_all :: "nat \<Rightarrow> ctype \<Rightarrow> assignment list \<Rightarrow> bytes \<Rightarrow> bytes option" where
  "assign_all al t [] buf = Some buf"
| "assign_all al t (a # as) buf = do { buf \<leftarrow> assign al t a buf; assign_all al t as buf }"

definition read_at :: "nat \<Rightarrow> ctype \<Rightarrow> string list \<Rightarrow> nat \<Rightarrow> nat \<Rightarrow> bytes \<Rightarrow> bytes option" where
  "read_at al t path at n buf =
     do {
       off \<leftarrow> path_offset al t path;
       if off + at + n \<le> length buf then Some (take n (drop (off + at) buf)) else None
     }"

text \<open>The value of an integer expression of any width, stored in a member of \<open>k\<close> bytes.\<close>

definition store_int :: "nat \<Rightarrow> 'a::len word \<Rightarrow> bytes" where
  "store_int k v = le_int k (unat v)"

definition word_array :: "string list \<Rightarrow> nat \<Rightarrow> 'a::len word list \<Rightarrow> assignment list" where
  "word_array path k vs = map (\<lambda>i. (path, k * i, store_int k (vs ! i))) [0..<length vs]"

section \<open>aarch64\<close>

record user_regs_arm64 =
  ur_regs :: "u64 list"
  ur_sp :: u64
  ur_pc :: u64
  ur_pstate :: u64

record user_fpsimd =
  fp_vregs :: bytes
  fp_fpsr :: u32
  fp_fpcr :: u32

definition MD_CONTEXT_ARM64_REG_SP :: nat where "MD_CONTEXT_ARM64_REG_SP = 31"
definition MD_CONTEXT_ARM64_REG_PC :: nat where "MD_CONTEXT_ARM64_REG_PC = 32"

definition fill_arm64_thread :: "user_regs_arm64 \<Rightarrow> user_fpsimd \<Rightarrow> assignment list" where
  "fill_arm64_thread regs fpregs =
     [([''context_flags''], 0, store_int 8 MD_CONTEXT_ARM64_FULL_OLD),
      ([''cpsr''], 0, store_int 4 (ucast (ur_pstate regs) :: u32))] @
     word_array [''iregs''] 8 (take MD_CONTEXT_ARM64_REG_SP (ur_regs regs)) @
     [([''iregs''], 8 * MD_CONTEXT_ARM64_REG_SP, store_int 8 (ur_sp regs)),
      ([''iregs''], 8 * MD_CONTEXT_ARM64_REG_PC, store_int 8 (ur_pc regs)),
      ([''float_save'', ''fpsr''], 0, store_int 4 (fp_fpsr fpregs)),
      ([''float_save'', ''fpcr''], 0, store_int 4 (fp_fpcr fpregs)),
      ([''float_save'', ''regs''], 0, take (MD_FLOATINGSAVEAREA_ARM64_FPR_COUNT * 16) (fp_vregs fpregs))]"

text \<open>From the signal handler: \<open>uc_mcontext\<close> has the registers under the same names.\<close>

definition fill_arm64_ucontext :: "user_regs_arm64 \<Rightarrow> user_fpsimd \<Rightarrow> assignment list" where
  "fill_arm64_ucontext uc_mcontext fpregs =
     [([''context_flags''], 0, store_int 8 MD_CONTEXT_ARM64_FULL_OLD),
      ([''cpsr''], 0, store_int 4 (ucast (ur_pstate uc_mcontext) :: u32))] @
     word_array [''iregs''] 8 (take MD_CONTEXT_ARM64_REG_SP (ur_regs uc_mcontext)) @
     [([''iregs''], 8 * MD_CONTEXT_ARM64_REG_SP, store_int 8 (ur_sp uc_mcontext)),
      ([''iregs''], 8 * MD_CONTEXT_ARM64_REG_PC, store_int 8 (ur_pc uc_mcontext)),
      ([''float_save'', ''fpsr''], 0, store_int 4 (fp_fpsr fpregs)),
      ([''float_save'', ''fpcr''], 0, store_int 4 (fp_fpcr fpregs)),
      ([''float_save'', ''regs''], 0, take (MD_FLOATINGSAVEAREA_ARM64_FPR_COUNT * 16) (fp_vregs fpregs))]"

section \<open>ARM\<close>

text \<open>On Android the floating point area is not touched by \<open>ThreadInfo::FillCPUContext\<close>.\<close>

definition fill_arm_thread :: "u32 list \<Rightarrow> assignment list" where
  "fill_arm_thread uregs =
     ([''context_flags''], 0, store_int 4 MD_CONTEXT_ARM_FULL) #
     word_array [''iregs''] 4 (take MD_CONTEXT_ARM_GPR_COUNT uregs) @
     [([''cpsr''], 0, store_int 4 (0 :: u32))]"

definition arm_names :: "string list" where
  "arm_names =
     [''arm_r0'', ''arm_r1'', ''arm_r2'', ''arm_r3'', ''arm_r4'', ''arm_r5'', ''arm_r6'', ''arm_r7'', ''arm_r8'',
      ''arm_r9'', ''arm_r10'', ''arm_fp'', ''arm_ip'', ''arm_sp'', ''arm_lr'', ''arm_pc'']"

definition fill_arm_ucontext :: "(string \<Rightarrow> u32) \<Rightarrow> assignment list" where
  "fill_arm_ucontext uc =
     ([''context_flags''], 0, store_int 4 MD_CONTEXT_ARM_FULL) #
     word_array [''iregs''] 4 (map uc arm_names) @
     [([''cpsr''], 0, store_int 4 (uc ''arm_cpsr'')),
      ([''float_save'', ''fpscr''], 0, store_int 8 (0 :: u64)),
      ([''float_save'', ''regs''], 0, replicate (sizeof 8 (CArr uint64_t MD_FLOATINGSAVEAREA_ARM_FPR_COUNT)) 0),
      ([''float_save'', ''extra''], 0, replicate (sizeof 8 (CArr uint32_t MD_FLOATINGSAVEAREA_ARM_FPEXTRA_COUNT)) 0)]"

section \<open>x86\_64\<close>

definition same_names :: "nat \<Rightarrow> (string \<Rightarrow> u64) \<Rightarrow> string list \<Rightarrow> assignment list" where
  "same_names k regs = map (\<lambda>m. ([m], 0, store_int k (regs m)))"

text \<open>\<open>flt_save\<close> is a member of an anonymous union.\<close>

definition flt_save :: "(string \<Rightarrow> u64) \<Rightarrow> bytes \<Rightarrow> bytes \<Rightarrow> assignment list" where
  "flt_save fpregs st_space xmm_space =
     [(['''', ''flt_save'', ''control_word''], 0, store_int 2 (fpregs ''cwd'')),
      (['''', ''flt_save'', ''status_word''], 0, store_int 2 (fpregs ''swd'')),
      (['''', ''flt_save'', ''tag_word''], 0, store_int 1 (fpregs ''ftw'')),
      (['''', ''flt_save'', ''error_opcode''], 0, store_int 2 (fpregs ''fop'')),
      (['''', ''flt_save'', ''error_offset''], 0, store_int 4 (fpregs ''rip'')),
      (['''', ''flt_save'', ''error_selector''], 0, store_int 2 (0 :: u16)),
      (['''', ''flt_save'', ''data_offset''], 0, store_int 4 (fpregs ''rdp'')),
      (['''', ''flt_save'', ''data_selector''], 0, store_int 2 (0 :: u16)),
      (['''', ''flt_save'', ''mx_csr''], 0, store_int 4 (fpregs ''mxcsr'')),
      (['''', ''flt_save'', ''mx_csr_mask''], 0, store_int 4 (fpregs ''mxcr_mask'')),
      (['''', ''flt_save'', ''float_registers''], 0, take (8 * 16) st_space),
      (['''', ''flt_save'', ''xmm_registers''], 0, take (16 * 16) xmm_space)]"

definition fill_amd64_thread :: "(string \<Rightarrow> u64) \<Rightarrow> u64 list \<Rightarrow> (string \<Rightarrow> u64) \<Rightarrow> bytes \<Rightarrow> bytes \<Rightarrow> assignment list" where
  "fill_amd64_thread regs dregs fpregs st_space xmm_space =
     [([''context_flags''], 0, store_int 4 (MD_CONTEXT_AMD64_FULL OR MD_CONTEXT_AMD64_SEGMENTS))] @
     same_names 2 regs [''cs'', ''ds'', ''es'', ''fs'', ''gs'', ''ss''] @
     same_names 4 regs [''eflags''] @
     map (\<lambda>(m, i). ([m], 0, store_int 8 (dregs ! i)))
       [(''dr0'', 0), (''dr1'', 1), (''dr2'', 2), (''dr3'', 3), (''dr6'', 6), (''dr7'', 7)] @
     same_names 8 regs
       [''rax'', ''rcx'', ''rdx'', ''rbx'', ''rsp'', ''rbp'', ''rsi'', ''rdi'', ''r8'', ''r9'', ''r10'', ''r11'', ''r12'',
        ''r13'', ''r14'', ''r15'', ''rip''] @
     flt_save fpregs st_space xmm_space"

definition fill_amd64_ucontext :: "(string \<Rightarrow> u64) \<Rightarrow> (string \<Rightarrow> u64) \<Rightarrow> bytes \<Rightarrow> bytes \<Rightarrow> assignment list" where
  "fill_amd64_ucontext gregs fpregs st_space xmm_space =
     [([''context_flags''], 0, store_int 4 MD_CONTEXT_AMD64_FULL),
      ([''cs''], 0, store_int 2 (gregs ''REG_CSGSFS'' AND 0xffff)),
      ([''fs''], 0, store_int 2 (drop_bit 32 (gregs ''REG_CSGSFS'') AND 0xffff)),
      ([''gs''], 0, store_int 2 (drop_bit 16 (gregs ''REG_CSGSFS'') AND 0xffff)),
      ([''eflags''], 0, store_int 4 (gregs ''REG_EFL''))] @
     map (\<lambda>(m, r). ([m], 0, store_int 8 (gregs r)))
       [(''rax'', ''REG_RAX''), (''rcx'', ''REG_RCX''), (''rdx'', ''REG_RDX''), (''rbx'', ''REG_RBX''),
        (''rsp'', ''REG_RSP''), (''rbp'', ''REG_RBP''), (''rsi'', ''REG_RSI''), (''rdi'', ''REG_RDI''),
        (''r8'', ''REG_R8''), (''r9'', ''REG_R9''), (''r10'', ''REG_R10''), (''r11'', ''REG_R11''), (''r12'', ''REG_R12''),
        (''r13'', ''REG_R13''), (''r14'', ''REG_R14''), (''r15'', ''REG_R15''), (''rip'', ''REG_RIP'')] @
     flt_save fpregs st_space xmm_space"

section \<open>x86\<close>

definition fill_x86_thread ::
  "(string \<Rightarrow> u32) \<Rightarrow> u32 list \<Rightarrow> (string \<Rightarrow> u32) \<Rightarrow> bytes \<Rightarrow> (string \<Rightarrow> u32) \<Rightarrow> bytes \<Rightarrow> bytes \<Rightarrow> assignment list" where
  "fill_x86_thread regs dregs fpregs st_space fpxregs st_space_x xmm_space =
     [([''context_flags''], 0, store_int 4 MD_CONTEXT_X86_ALL)] @
     map (\<lambda>(m, i). ([m], 0, store_int 4 (dregs ! i)))
       [(''dr0'', 0), (''dr1'', 1), (''dr2'', 2), (''dr3'', 3), (''dr6'', 6), (''dr7'', 7)] @
     map (\<lambda>(m, r). ([m], 0, store_int 4 (regs r)))
       [(''gs'', ''xgs''), (''fs'', ''xfs''), (''es'', ''xes''), (''ds'', ''xds''), (''edi'', ''edi''), (''esi'', ''esi''),
        (''ebx'', ''ebx''), (''edx'', ''edx''), (''ecx'', ''ecx''), (''eax'', ''eax''), (''ebp'', ''ebp''), (''eip'', ''eip''),
        (''cs'', ''xcs''), (''eflags'', ''eflags''), (''esp'', ''esp''), (''ss'', ''xss'')] @
     map (\<lambda>(m, r). ([''float_save'', m], 0, store_int 4 (fpregs r)))
       [(''control_word'', ''cwd''), (''status_word'', ''swd''), (''tag_word'', ''twd''), (''error_offset'', ''fip''),
        (''error_selector'', ''fcs''), (''data_offset'', ''foo''), (''data_selector'', ''fos'')] @
     [([''float_save'', ''register_area''], 0, take (10 * 8) st_space),
      ([''extended_registers''], 0, store_int 2 (fpregs ''cwd'')),
      ([''extended_registers''], 2, store_int 2 (fpregs ''swd'')),
      ([''extended_registers''], 4, store_int 2 (fpregs ''twd'')),
      ([''extended_registers''], 6, store_int 2 (fpxregs ''fop'')),
      ([''extended_registers''], 8, store_int 4 (fpxregs ''fip'')),
      ([''extended_registers''], 12, store_int 2 (fpxregs ''fcs'')),
      ([''extended_registers''], 16, store_int 4 (fpregs ''foo'')),
      ([''extended_registers''], 20, store_int 2 (fpregs ''fos'')),
      ([''extended_registers''], 24, store_int 4 (fpxregs ''mxcsr'')),
      ([''extended_registers''], 32, take 128 st_space_x),
      ([''extended_registers''], 160, take 128 xmm_space)]"

definition fill_x86_ucontext :: "(string \<Rightarrow> u32) \<Rightarrow> (string \<Rightarrow> u32) \<Rightarrow> bytes \<Rightarrow> assignment list" where
  "fill_x86_ucontext gregs fp st =
     [([''context_flags''], 0, store_int 4 (MD_CONTEXT_X86_FULL OR MD_CONTEXT_X86_FLOATING_POINT))] @
     map (\<lambda>(m, r). ([m], 0, store_int 4 (gregs r)))
       [(''gs'', ''REG_GS''), (''fs'', ''REG_FS''), (''es'', ''REG_ES''), (''ds'', ''REG_DS''), (''edi'', ''REG_EDI''),
        (''esi'', ''REG_ESI''), (''ebx'', ''REG_EBX''), (''edx'', ''REG_EDX''), (''ecx'', ''REG_ECX''), (''eax'', ''REG_EAX''),
        (''ebp'', ''REG_EBP''), (''eip'', ''REG_EIP''), (''cs'', ''REG_CS''), (''eflags'', ''REG_EFL''), (''esp'', ''REG_UESP''),
        (''ss'', ''REG_SS'')] @
     map (\<lambda>(m, r). ([''float_save'', m], 0, store_int 4 (fp r)))
       [(''control_word'', ''cw''), (''status_word'', ''sw''), (''tag_word'', ''tag''), (''error_offset'', ''ipoff''),
        (''error_selector'', ''cssel''), (''data_offset'', ''dataoff''), (''data_selector'', ''datasel'')] @
     [([''float_save'', ''register_area''], 0, take (10 * 8) st)]"

section \<open>Filling a context\<close>

text \<open>The callers allocate the context and clear it (\<open>my_memset\<close>) before they fill it.\<close>

definition FillCPUContext :: "nat \<Rightarrow> ctype \<Rightarrow> assignment list \<Rightarrow> bytes option" where
  "FillCPUContext al t as = assign_all al t as (replicate (sizeof al t) 0)"

section \<open>Assignments that do not overlap\<close>

fun span :: "nat \<Rightarrow> ctype \<Rightarrow> assignment \<Rightarrow> (nat \<times> nat) option" where
  "span al t (path, at, bs) = map_option (\<lambda>off. (off + at, length bs)) (path_offset al t path)"

fun apart :: "(nat \<times> nat) list \<Rightarrow> bool" where
  "apart [] \<longleftrightarrow> True"
| "apart ((a, n) # ss) \<longleftrightarrow> list_all (\<lambda>(b, m). a + n \<le> b \<or> b + m \<le> a) ss \<and> apart ss"

definition within :: "nat \<Rightarrow> nat \<times> nat \<Rightarrow> bool" where
  "within n s \<longleftrightarrow> fst s + snd s \<le> n"

text \<open>Every assignment is made, and no later one touches what it wrote.\<close>

definition fills :: "nat \<Rightarrow> ctype \<Rightarrow> assignment list \<Rightarrow> bool" where
  "fills al t as \<longleftrightarrow>
     (case FillCPUContext al t as of
        None \<Rightarrow> False
      | Some ctx \<Rightarrow> length ctx = sizeof al t \<and>
          list_all (\<lambda>(path, at, bs). read_at al t path at (length bs) ctx = Some bs) as)"

lemma assign_eq:
  "span al t a = Some (p, n) \<Longrightarrow> within (length buf) (p, n) \<Longrightarrow> assign al t a buf = Some (blit buf p (snd (snd a)))"
  by (cases a) (auto simp: assign_def within_def)

lemma assign_all_frame:
  assumes "map (span al t) as = map Some ss" and "list_all (within (length buf)) ss" and "assign_all al t as buf = Some buf'"
    and "list_all (\<lambda>(b, m). a + n \<le> b \<or> b + m \<le> a) ss" and "a + n \<le> length buf"
  shows "take n (drop a buf') = take n (drop a buf)"
  using assms
proof (induction as arbitrary: ss buf)
  case (Cons x as)
  obtain s ss' where ss: "ss = s # ss'" "span al t x = Some s" using Cons.prems(1) by (cases ss) auto
  obtain b m where s: "s = (b, m)" by (cases s)
  have m: "length (snd (snd x)) = m" using ss(2) s by (cases x) auto
  have w: "within (length buf) (b, m)" using Cons.prems(2) ss s by simp
  let ?buf = "blit buf b (snd (snd x))"
  have len: "length ?buf = length buf" using w m by (simp add: within_def)
  have "take n (drop a buf') = take n (drop a ?buf)"
    using Cons.IH [of ss' ?buf] Cons.prems ss assign_eq [OF ss(2) [unfolded s] w] len by auto
  also have "\<dots> = take n (drop a buf)"
    using Cons.prems(4,5) w len m ss s by (intro nth_equalityI) (auto simp: nth_blit within_def)
  finally show ?case .
qed simp

lemma assign_all_reads:
  assumes "map (span al t) as = map Some ss" and "list_all (within (length buf)) ss" and "apart ss"
  shows "\<exists>buf'. assign_all al t as buf = Some buf' \<and> length buf' = length buf \<and>
    list_all (\<lambda>(path, at, bs). read_at al t path at (length bs) buf' = Some bs) as"
  using assms
proof (induction as arbitrary: ss buf)
  case (Cons x as)
  obtain s ss' where ss: "ss = s # ss'" "span al t x = Some s" using Cons.prems(1) by (cases ss) auto
  obtain b m where s: "s = (b, m)" by (cases s)
  have m: "length (snd (snd x)) = m" using ss(2) s by (cases x) auto
  have w: "within (length buf) (b, m)" using Cons.prems(2) ss s by simp
  let ?buf = "blit buf b (snd (snd x))"
  have len: "length ?buf = length buf" using w m by (simp add: within_def)
  obtain buf' where b': "assign_all al t as ?buf = Some buf'" "length buf' = length ?buf"
      "list_all (\<lambda>(path, at, bs). read_at al t path at (length bs) buf' = Some bs) as"
    using Cons.IH [of ss' ?buf] Cons.prems ss len s by auto
  have "take m (drop b buf') = take m (drop b ?buf)"
    using assign_all_frame [OF _ _ b'(1), of ss' b m] Cons.prems ss s w [unfolded within_def] len by auto
  also have "\<dots> = snd (snd x)" using w m blit_take_middle [of b "snd (snd x)" buf] by (simp add: within_def)
  finally have "read_at al t (fst x) (fst (snd x)) (length (snd (snd x))) buf' = Some (snd (snd x))"
    using ss(2) s w len m b'(2) by (cases x) (auto simp: read_at_def within_def)
  then show ?case using b' len assign_eq [OF ss(2) [unfolded s] w] by (cases x) auto
qed simp

lemma fillsI:
  assumes "map (span al t) as = map Some ss" and "list_all (within (sizeof al t)) ss" and "apart ss"
  shows "fills al t as"
  using assign_all_reads [OF assms(1), of "replicate (sizeof al t) 0"] assms(2,3) by (auto simp: fills_def FillCPUContext_def)

lemma length_store_int [simp]: "length (store_int k v) = k"
  by (simp add: store_int_def)

lemma spans_word_array:
  "path_offset al t path = Some off \<Longrightarrow>
     map (span al t) (word_array path k vs) = map Some (map (\<lambda>i. (off + k * i, k)) [0..<length vs])"
  by (simp add: word_array_def)

declare path_offset.simps [simp del]

lemma member_offsets:
  assumes "distinct (map fst (members t))" and "length (offsets al t) = length (members t)"
  shows "map (\<lambda>m. path_offset al t [m]) (map fst (members t)) = map Some (offsets al t)"
proof -
  have "path_offset al t [fst (members t ! i)] = Some (offsets al t ! i)" if "i < length (members t)" for i
  proof -
    let ?m = "fst (members t ! i)"
    have "map_of (zip (map fst (members t)) (offsets al t)) ?m = Some (offsets al t ! i)"
      using assms that by (metis length_map map_of_zip_nth nth_map)
    moreover have "map_of (members t) ?m = Some (snd (members t ! i))"
      using assms(1) that by (simp add: map_of_eq_Some_iff)
    ultimately show ?thesis by (simp add: path_offset.simps offsetof_def)
  qed
  then show ?thesis using assms(2) by (intro nth_equalityI) auto
qed

lemma arm64_offsets:
  "path_offset 8 MDRawContextARM64_Old [''context_flags''] = Some 0"
  "path_offset 8 MDRawContextARM64_Old [''iregs''] = Some 8"
  "path_offset 8 MDRawContextARM64_Old [''cpsr''] = Some 272"
  "path_offset 8 MDRawContextARM64_Old [''float_save'', ''fpsr''] = Some 276"
  "path_offset 8 MDRawContextARM64_Old [''float_save'', ''fpcr''] = Some 280"
  "path_offset 8 MDRawContextARM64_Old [''float_save'', ''regs''] = Some 284"
  "sizeof 8 MDRawContextARM64_Old = 796"
  by (simp_all add: MDRawContextARM64_Old_def MDFloatingSaveAreaARM64_Old_def uint128_struct_def offsetof_def
      MD_CONTEXT_ARM64_GPR_COUNT_def MD_FLOATINGSAVEAREA_ARM64_FPR_COUNT_def path_offset.simps layout_simps del: layout_del)

lemma upt_31: "[0..<31] = [0, 1, 2, 3, 4, 5, 6, 7, 8, 9, 10, 11, 12, 13, 14, 15, 16, 17, 18, 19, 20, 21, 22, 23, 24, 25, 26, 27, 28, 29, 30]"
  by (simp add: upt_conv_Cons)

lemma arm64_fills:
  assumes "length (ur_regs r) = 31" and "length (fp_vregs f) = 512"
  shows "fills 8 MDRawContextARM64_Old (fill_arm64_thread r f)"
proof -
  have "map (span 8 MDRawContextARM64_Old) (fill_arm64_thread r f) =
    map Some ([(0, 8), (272, 4)] @ map (\<lambda>i. (8 + 8 * i, 8)) [0..<31] @ [(256, 8), (264, 8), (276, 4), (280, 4), (284, 512)])"
    using assms spans_word_array [OF arm64_offsets(2), of 8 "ur_regs r"]
    by (simp add: fill_arm64_thread_def arm64_offsets MD_CONTEXT_ARM64_REG_SP_def MD_CONTEXT_ARM64_REG_PC_def
        MD_FLOATINGSAVEAREA_ARM64_FPR_COUNT_def)
  then show ?thesis
    by (rule fillsI) (simp_all add: within_def arm64_offsets upt_31)
qed

lemmas amd64_layout = MDRawContextAMD64_def MDXmmSaveArea32AMD64_def uint128_struct_def MD_CONTEXT_AMD64_VR_COUNT_def layout_simps

lemma amd64_offset_list:
  "offsets 8 MDRawContextAMD64 = [0, 8, 16, 24, 32, 40, 48, 52, 56, 58, 60, 62, 64, 66, 68, 72, 80, 88, 96, 104, 112, 120, 128, 136,
    144, 152, 160, 168, 176, 184, 192, 200, 208, 216, 224, 232, 240, 248, 256, 768, 1184, 1192, 1200, 1208, 1216, 1224]"
  "offsets 8 MDXmmSaveArea32AMD64 = [0, 2, 4, 5, 6, 8, 12, 14, 16, 20, 22, 24, 28, 32, 160, 416]"
  "sizeof 8 MDRawContextAMD64 = 1232"
  by (simp_all add: amd64_layout del: layout_del)

lemma amd64_members:
  "members MDRawContextAMD64 =
     [(''p1_home'', uint64_t),
      (''p2_home'', uint64_t),
      (''p3_home'', uint64_t),
      (''p4_home'', uint64_t),
      (''p5_home'', uint64_t),
      (''p6_home'', uint64_t),
      (''context_flags'', uint32_t),
      (''mx_csr'', uint32_t),
      (''cs'', uint16_t),
      (''ds'', uint16_t),
      (''es'', uint16_t),
      (''fs'', uint16_t),
      (''gs'', uint16_t),
      (''ss'', uint16_t),
      (''eflags'', uint32_t),
      (''dr0'', uint64_t),
      (''dr1'', uint64_t),
      (''dr2'', uint64_t),
      (''dr3'', uint64_t),
      (''dr6'', uint64_t),
      (''dr7'', uint64_t),
      (''rax'', uint64_t),
      (''rcx'', uint64_t),
      (''rdx'', uint64_t),
      (''rbx'', uint64_t),
      (''rsp'', uint64_t),
      (''rbp'', uint64_t),
      (''rsi'', uint64_t),
      (''rdi'', uint64_t),
      (''r8'', uint64_t),
      (''r9'', uint64_t),
      (''r10'', uint64_t),
      (''r11'', uint64_t),
      (''r12'', uint64_t),
      (''r13'', uint64_t),
      (''r14'', uint64_t),
      (''r15'', uint64_t),
      (''rip'', uint64_t),
      ('''', CUnion [(''flt_save'', MDXmmSaveArea32AMD64),
        (''sse_registers'', struct [(''header'', CArr uint128_struct 2),
        (''legacy'', CArr uint128_struct 8),
        (''xmm0'', uint128_struct),
        (''xmm1'', uint128_struct),
        (''xmm2'', uint128_struct),
        (''xmm3'', uint128_struct),
        (''xmm4'', uint128_struct),
        (''xmm5'', uint128_struct),
        (''xmm6'', uint128_struct),
        (''xmm7'', uint128_struct),
        (''xmm8'', uint128_struct),
        (''xmm9'', uint128_struct),
        (''xmm10'', uint128_struct),
        (''xmm11'', uint128_struct),
        (''xmm12'', uint128_struct),
        (''xmm13'', uint128_struct),
        (''xmm14'', uint128_struct),
        (''xmm15'', uint128_struct)])]),
      (''vector_register'', CArr uint128_struct MD_CONTEXT_AMD64_VR_COUNT),
      (''vector_control'', uint64_t),
      (''debug_control'', uint64_t),
      (''last_branch_to_rip'', uint64_t),
      (''last_branch_from_rip'', uint64_t),
      (''last_exception_to_rip'', uint64_t),
      (''last_exception_from_rip'', uint64_t)]"
  "members MDXmmSaveArea32AMD64 =
     [(''control_word'', uint16_t),
      (''status_word'', uint16_t),
      (''tag_word'', uint8_t),
      (''reserved1'', uint8_t),
      (''error_opcode'', uint16_t),
      (''error_offset'', uint32_t),
      (''error_selector'', uint16_t),
      (''reserved2'', uint16_t),
      (''data_offset'', uint32_t),
      (''data_selector'', uint16_t),
      (''reserved3'', uint16_t),
      (''mx_csr'', uint32_t),
      (''mx_csr_mask'', uint32_t),
      (''float_registers'', CArr uint128_struct 8),
      (''xmm_registers'', CArr uint128_struct 16),
      (''reserved4'', CArr uint8_t 96)]"
  by (simp_all add: MDRawContextAMD64_def MDXmmSaveArea32AMD64_def)

lemma amd64_distinct: "distinct (map fst (members MDRawContextAMD64))" "distinct (map fst (members MDXmmSaveArea32AMD64))"
  unfolding amd64_members by code_simp+

lemmas amd64_offsets = member_offsets [OF amd64_distinct(1), of 8, unfolded amd64_members amd64_offset_list, simplified]
  member_offsets [OF amd64_distinct(2), of 8, unfolded amd64_members amd64_offset_list, simplified]

lemma amd64_xmm_offset:
  "path_offset 8 MDRawContextAMD64 ['''', ''flt_save'', m] = map_option (\<lambda>o1. 256 + o1) (path_offset 8 MDXmmSaveArea32AMD64 [m])"
  by (simp add: path_offset.simps offsetof_def amd64_offset_list amd64_members)

lemma amd64_flt_spans:
  assumes "length st = 128" and "length xmm = 256"
  shows "map (span 8 MDRawContextAMD64) (flt_save fp st xmm) =
    map Some [(256, 2), (258, 2), (260, 1), (262, 2), (264, 4), (268, 2), (272, 4), (276, 2), (280, 4), (284, 4), (288, 128), (416, 256)]"
  using assms
  by (simp add: flt_save_def amd64_xmm_offset)
    (simp add: amd64_offsets)

lemma amd64_fills:
  assumes "length st = 128" and "length xmm = 256"
  shows "fills 8 MDRawContextAMD64 (fill_amd64_thread regs dregs fp st xmm)" and "fills 8 MDRawContextAMD64 (fill_amd64_ucontext gregs fp st xmm)"
proof -
  have "map (span 8 MDRawContextAMD64) (fill_amd64_thread regs dregs fp st xmm) =
    map Some ([(48, 4), (56, 2), (58, 2), (60, 2), (62, 2), (64, 2), (66, 2), (68, 4), (72, 8), (80, 8), (88, 8), (96, 8), (104, 8), (112, 8),
      (120, 8), (128, 8), (136, 8), (144, 8), (152, 8), (160, 8), (168, 8), (176, 8), (184, 8), (192, 8), (200, 8), (208, 8), (216, 8),
      (224, 8), (232, 8), (240, 8), (248, 8)] @
      [(256, 2), (258, 2), (260, 1), (262, 2), (264, 4), (268, 2), (272, 4), (276, 2), (280, 4), (284, 4), (288, 128), (416, 256)])"
    by (simp add: fill_amd64_thread_def same_names_def amd64_flt_spans [OF assms])
      (simp add: amd64_offsets)
  then show "fills 8 MDRawContextAMD64 (fill_amd64_thread regs dregs fp st xmm)"
    by (rule fillsI) (simp_all add: within_def amd64_offset_list)
  have "map (span 8 MDRawContextAMD64) (fill_amd64_ucontext gregs fp st xmm) =
    map Some ([(48, 4), (56, 2), (62, 2), (64, 2), (68, 4),
      (120, 8), (128, 8), (136, 8), (144, 8), (152, 8), (160, 8), (168, 8), (176, 8), (184, 8), (192, 8), (200, 8), (208, 8), (216, 8),
      (224, 8), (232, 8), (240, 8), (248, 8)] @
      [(256, 2), (258, 2), (260, 1), (262, 2), (264, 4), (268, 2), (272, 4), (276, 2), (280, 4), (284, 4), (288, 128), (416, 256)])"
    by (simp add: fill_amd64_ucontext_def amd64_flt_spans [OF assms])
      (simp add: amd64_offsets)
  then show "fills 8 MDRawContextAMD64 (fill_amd64_ucontext gregs fp st xmm)"
    by (rule fillsI) (simp_all add: within_def amd64_offset_list)
qed

lemma x86_offset_list:
  "offsets 4 MDRawContextX86 = [0, 4, 8, 12, 16, 20, 24, 28, 140, 144, 148, 152, 156, 160, 164, 168, 172, 176, 180, 184, 188, 192, 196, 200, 204]"
  "offsets 4 MDFloatingSaveAreaX86 = [0, 4, 8, 12, 16, 20, 24, 28, 108]"
  "sizeof 4 MDRawContextX86 = 716"
  by (simp_all add: MDRawContextX86_def MDFloatingSaveAreaX86_def MD_FLOATINGSAVEAREA_X86_REGISTERAREA_SIZE_def
      MD_CONTEXT_X86_EXTENDED_REGISTERS_SIZE_def layout_simps del: layout_del)

lemma x86_members:
  "members MDRawContextX86 =
     [(''context_flags'', uint32_t),
      (''dr0'', uint32_t),
      (''dr1'', uint32_t),
      (''dr2'', uint32_t),
      (''dr3'', uint32_t),
      (''dr6'', uint32_t),
      (''dr7'', uint32_t),
      (''float_save'', MDFloatingSaveAreaX86),
      (''gs'', uint32_t),
      (''fs'', uint32_t),
      (''es'', uint32_t),
      (''ds'', uint32_t),
      (''edi'', uint32_t),
      (''esi'', uint32_t),
      (''ebx'', uint32_t),
      (''edx'', uint32_t),
      (''ecx'', uint32_t),
      (''eax'', uint32_t),
      (''ebp'', uint32_t),
      (''eip'', uint32_t),
      (''cs'', uint32_t),
      (''eflags'', uint32_t),
      (''esp'', uint32_t),
      (''ss'', uint32_t),
      (''extended_registers'', CArr uint8_t MD_CONTEXT_X86_EXTENDED_REGISTERS_SIZE)]"
  "members MDFloatingSaveAreaX86 =
     [(''control_word'', uint32_t),
      (''status_word'', uint32_t),
      (''tag_word'', uint32_t),
      (''error_offset'', uint32_t),
      (''error_selector'', uint32_t),
      (''data_offset'', uint32_t),
      (''data_selector'', uint32_t),
      (''register_area'', CArr uint8_t MD_FLOATINGSAVEAREA_X86_REGISTERAREA_SIZE),
      (''cr0_npx_state'', uint32_t)]"
  by (simp_all add: MDRawContextX86_def MDFloatingSaveAreaX86_def)

lemma x86_distinct: "distinct (map fst (members MDRawContextX86))" "distinct (map fst (members MDFloatingSaveAreaX86))"
  unfolding x86_members by code_simp+

lemmas x86_offsets = member_offsets [OF x86_distinct(1), of 4, unfolded x86_members x86_offset_list, simplified]
  member_offsets [OF x86_distinct(2), of 4, unfolded x86_members x86_offset_list, simplified]

lemma x86_float_offset:
  "path_offset 4 MDRawContextX86 [''float_save'', m] = map_option (\<lambda>o1. 28 + o1) (path_offset 4 MDFloatingSaveAreaX86 [m])"
  by (simp add: path_offset.simps offsetof_def x86_offset_list x86_members)

lemma x86_fills:
  assumes "length st = 80" and "length stx = 128" and "length xmm = 128"
  shows "fills 4 MDRawContextX86 (fill_x86_thread regs dregs fp st fpx stx xmm)" and "fills 4 MDRawContextX86 (fill_x86_ucontext gregs fpc st)"
proof -
  have "map (span 4 MDRawContextX86) (fill_x86_thread regs dregs fp st fpx stx xmm) =
    map Some [(0, 4), (4, 4), (8, 4), (12, 4), (16, 4), (20, 4), (24, 4), (140, 4), (144, 4), (148, 4), (152, 4), (156, 4), (160, 4),
      (164, 4), (168, 4), (172, 4), (176, 4), (180, 4), (184, 4), (188, 4), (192, 4), (196, 4), (200, 4),
      (28, 4), (32, 4), (36, 4), (40, 4), (44, 4), (48, 4), (52, 4), (56, 80),
      (204, 2), (206, 2), (208, 2), (210, 2), (212, 4), (216, 2), (220, 4), (224, 2), (228, 4), (236, 128), (364, 128)]"
    using assms by (simp add: fill_x86_thread_def x86_float_offset x86_offsets)
  then show "fills 4 MDRawContextX86 (fill_x86_thread regs dregs fp st fpx stx xmm)"
    by (rule fillsI) (simp_all add: within_def x86_offset_list)
  have "map (span 4 MDRawContextX86) (fill_x86_ucontext gregs fpc st) =
    map Some [(0, 4), (140, 4), (144, 4), (148, 4), (152, 4), (156, 4), (160, 4),
      (164, 4), (168, 4), (172, 4), (176, 4), (180, 4), (184, 4), (188, 4), (192, 4), (196, 4), (200, 4),
      (28, 4), (32, 4), (36, 4), (40, 4), (44, 4), (48, 4), (52, 4), (56, 80)]"
    using assms by (simp add: fill_x86_ucontext_def x86_float_offset x86_offsets)
  then show "fills 4 MDRawContextX86 (fill_x86_ucontext gregs fpc st)"
    by (rule fillsI) (simp_all add: within_def x86_offset_list)
qed
lemma arm_offsets:
  "path_offset 8 MDRawContextARM [''context_flags''] = Some 0"
  "path_offset 8 MDRawContextARM [''iregs''] = Some 4"
  "path_offset 8 MDRawContextARM [''cpsr''] = Some 68"
  "path_offset 8 MDRawContextARM [''float_save'', ''fpscr''] = Some 72"
  "path_offset 8 MDRawContextARM [''float_save'', ''regs''] = Some 80"
  "path_offset 8 MDRawContextARM [''float_save'', ''extra''] = Some 336"
  "sizeof 8 MDRawContextARM = 368"
  by (simp_all add: MDRawContextARM_def MDFloatingSaveAreaARM_def offsetof_def MD_CONTEXT_ARM_GPR_COUNT_def
      MD_FLOATINGSAVEAREA_ARM_FPR_COUNT_def MD_FLOATINGSAVEAREA_ARM_FPEXTRA_COUNT_def path_offset.simps layout_simps del: layout_del)

lemma upt_16: "[0..<16] = [0, 1, 2, 3, 4, 5, 6, 7, 8, 9, 10, 11, 12, 13, 14, 15]"
  by (simp add: upt_conv_Cons)

lemma arm_fills:
  shows "16 \<le> length uregs \<Longrightarrow> fills 8 MDRawContextARM (fill_arm_thread uregs)" and "fills 8 MDRawContextARM (fill_arm_ucontext uc)"
proof -
  let ?iregs = "map (\<lambda>i. (4 + 4 * i, 4)) [0..<16]"
  show "fills 8 MDRawContextARM (fill_arm_thread uregs)" if "16 \<le> length uregs"
  proof -
    have "map (span 8 MDRawContextARM) (fill_arm_thread uregs) = map Some ((0, 4) # ?iregs @ [(68, 4)])"
      using that spans_word_array [OF arm_offsets(2), of 4 "take 16 uregs"]
      by (simp add: fill_arm_thread_def arm_offsets MD_CONTEXT_ARM_GPR_COUNT_def)
    then show ?thesis by (rule fillsI) (simp_all add: within_def arm_offsets upt_16)
  qed
  have "length (map uc arm_names) = 16" by (simp add: arm_names_def)
  then have "map (span 8 MDRawContextARM) (fill_arm_ucontext uc) = map Some ((0, 4) # ?iregs @ [(68, 4), (72, 8), (80, 256), (336, 32)])"
    using spans_word_array [OF arm_offsets(2), of 4 "map uc arm_names"]
    by (simp add: fill_arm_ucontext_def arm_offsets sizeof_def MD_FLOATINGSAVEAREA_ARM_FPR_COUNT_def MD_FLOATINGSAVEAREA_ARM_FPEXTRA_COUNT_def)
  then show "fills 8 MDRawContextARM (fill_arm_ucontext uc)" by (rule fillsI) (simp_all add: within_def arm_offsets upt_16)
qed

section \<open>Reading a context\<close>

text \<open>
  What a reader of the minidump sees, independently of the assignments: the integer of a member, or of an element of an array, as wide as the
  structure declares it.
\<close>

fun path_type :: "ctype \<Rightarrow> string list \<Rightarrow> ctype option" where
  "path_type t [] = Some t"
| "path_type t (m # ms) = do { mt \<leftarrow> map_of (members t) m; path_type mt ms }"

definition width :: "ctype \<Rightarrow> string list \<Rightarrow> nat \<Rightarrow> nat option" where
  "width t path i =
     (case path_type t path of
        Some (CInt k) \<Rightarrow> if i = 0 then Some k else None
      | Some (CArr (CInt k) n) \<Rightarrow> if i < n then Some k else None
      | _ \<Rightarrow> None)"

definition int_member :: "nat \<Rightarrow> ctype \<Rightarrow> string list \<Rightarrow> nat \<Rightarrow> bytes \<Rightarrow> nat option" where
  "int_member al t path i ctx = do { k \<leftarrow> width t path i; map_option le_nat (read_at al t path (k * i) k ctx) }"

definition filled :: "nat \<Rightarrow> ctype \<Rightarrow> assignment list \<Rightarrow> (bytes \<Rightarrow> bool) \<Rightarrow> bool" where
  "filled al t as P \<longleftrightarrow> (case FillCPUContext al t as of None \<Rightarrow> False | Some ctx \<Rightarrow> length ctx = sizeof al t \<and> P ctx)"

definition holds :: "nat \<Rightarrow> ctype \<Rightarrow> (string list \<times> nat \<times> nat) list \<Rightarrow> bytes \<Rightarrow> bool" where
  "holds al t tbl ctx \<longleftrightarrow> list_all (\<lambda>(path, i, v). int_member al t path i ctx = Some v) tbl"

lemma le_nat_le_int_mod: "le_nat (le_int k n) = n mod 256 ^ k"
proof (induction k arbitrary: n)
  case (Suc k)
  have "n mod (256 * 256 ^ k) = 256 * (n div 256 mod 256 ^ k) + n mod 256" by (simp add: mod_mult2_eq)
  moreover have "unat (of_nat n :: u8) = n mod 256" by (simp add: unsigned_of_nat take_bit_eq_mod)
  ultimately show ?case by (simp add: Suc)
qed simp

lemma stored_int_value: "le_nat (store_int k v) = unat v mod 256 ^ k"
  by (simp add: store_int_def le_nat_le_int_mod)

lemma le_nat_store_whole [simp]:
  "le_nat (store_int 8 (x :: u64)) = unat x" "le_nat (store_int 4 (y :: u32)) = unat y" "le_nat (store_int 8 y) = unat y"
proof -
  have "unat x < 2 ^ LENGTH(64)" "unat y < 2 ^ LENGTH(32)" by (rule unsigned_less)+
  then show "le_nat (store_int 8 x) = unat x" "le_nat (store_int 4 y) = unat y" "le_nat (store_int 8 y) = unat y" by (simp_all add: stored_int_value)
qed

lemma le_nat_store_part:
  "le_nat (store_int (Suc 0) (x :: u64)) = unat x mod 256" "le_nat (store_int 2 x) = unat x mod 65536" "le_nat (store_int 4 x) = unat x mod 4294967296"
  by (simp_all add: stored_int_value)

text \<open>A fill without overlaps holds, under a path and an offset, the bytes that its first assignment there has.\<close>

definition assigned :: "assignment list \<Rightarrow> string list \<Rightarrow> nat \<Rightarrow> bytes option" where
  "assigned as path at = map_of (map (\<lambda>(path, at, bs). ((path, at), bs)) as) (path, at)"

lemma fills_read:
  assumes "fills al t as" and "FillCPUContext al t as = Some ctx" and "assigned as path at = Some bs"
  shows "read_at al t path at (length bs) ctx = Some bs"
proof -
  have "(path, at, bs) \<in> set as" using map_of_SomeD [OF assms(3) [unfolded assigned_def]] by auto
  then show ?thesis using assms(1,2) by (auto simp: fills_def list_all_iff)
qed

definition fill_agrees :: "ctype \<Rightarrow> assignment list \<Rightarrow> string list \<times> nat \<times> nat \<Rightarrow> bool" where
  "fill_agrees t as x = (case x of (path, i, v) \<Rightarrow>
     (case width t path i of None \<Rightarrow> False | Some k \<Rightarrow>
        (case assigned as path (k * i) of None \<Rightarrow> False | Some bs \<Rightarrow> length bs = k \<and> le_nat bs = v)))"

lemma fills_holds:
  assumes "fills al t as" and "FillCPUContext al t as = Some ctx" and "list_all (fill_agrees t as) tbl"
  shows "holds al t tbl ctx"
  using assms(3) fills_read [OF assms(1,2)]
  by (auto simp: holds_def list_all_iff int_member_def fill_agrees_def split: option.splits) fastforce

lemma fills_filled:
  assumes "fills al t as" and "\<And>ctx. FillCPUContext al t as = Some ctx \<Longrightarrow> P ctx"
  shows "filled al t as P"
  using assms by (auto simp: fills_def filled_def split: option.splits)

lemma assigned_simps [simp]:
  "assigned [] path at = None"
  "assigned ((p, a, bs) # as) path at = (if path = p \<and> at = a then Some bs else assigned as path at)"
  "assigned (as @ as') path at = (case assigned as path at of None \<Rightarrow> assigned as' path at | Some bs \<Rightarrow> Some bs)"
  by (auto simp: assigned_def map_add_def split: option.splits)

lemma map_of_upt:
  "0 < k \<Longrightarrow> map_of (map (\<lambda>i. ((p, k * i), f i)) [0..<n]) (path, at) =
     (if path = p \<and> k dvd at \<and> at < k * n then Some (f (at div k)) else None)" for k n at :: nat
proof (induction n)
  case (Suc n)
  have "k dvd at \<Longrightarrow> at < k * Suc n \<longleftrightarrow> at < k * n \<or> at = k * n" using Suc.prems by (auto simp: less_Suc_eq simp del: mult_Suc_right elim!: dvdE)
  then show ?case using Suc by (auto simp: map_add_def)
qed simp

lemma assigned_word_array [simp]:
  "0 < k \<Longrightarrow> assigned (word_array p k vs) path at =
     (if path = p \<and> k dvd at \<and> at < k * length vs then Some (store_int k (vs ! (at div k))) else None)"
  unfolding assigned_def word_array_def map_map comp_def prod.case by (rule map_of_upt)

lemma filled_mono:
  assumes "filled al t as P" and "\<And>ctx. P ctx \<Longrightarrow> Q ctx"
  shows "filled al t as Q"
  using assms by (auto simp: filled_def split: option.splits)

section \<open>The registers of the four architectures\<close>

definition arm64_registers :: "user_regs_arm64 \<Rightarrow> user_fpsimd \<Rightarrow> bytes \<Rightarrow> bool" where
  "arm64_registers r f ctx \<longleftrightarrow>
     holds 8 MDRawContextARM64_Old
       (map (\<lambda>i. ([''iregs''], i, unat (ur_regs r ! i))) [0..<31] @
        [([''iregs''], 31, unat (ur_sp r)), ([''iregs''], 32, unat (ur_pc r)), ([''cpsr''], 0, unat (ur_pstate r) mod 2 ^ 32),
         ([''float_save'', ''fpsr''], 0, unat (fp_fpsr f)), ([''float_save'', ''fpcr''], 0, unat (fp_fpcr f)),
         ([''context_flags''], 0, unat MD_CONTEXT_ARM64_FULL_OLD)]) ctx \<and>
     read_at 8 MDRawContextARM64_Old [''float_save'', ''regs''] 0 512 ctx = Some (fp_vregs f)"

lemma arm64_types:
  "width MDRawContextARM64_Old [''iregs''] i = (if i < 33 then Some 8 else None)"
  "width MDRawContextARM64_Old [''cpsr''] 0 = Some 4"
  "width MDRawContextARM64_Old [''context_flags''] 0 = Some 8"
  "width MDRawContextARM64_Old [''float_save'', ''fpsr''] 0 = Some 4"
  "width MDRawContextARM64_Old [''float_save'', ''fpcr''] 0 = Some 4"
  by (simp_all add: width_def MDRawContextARM64_Old_def MDFloatingSaveAreaARM64_Old_def MD_CONTEXT_ARM64_GPR_COUNT_def)

lemma arm64_holds:
  assumes "length (ur_regs r) = 31" and "length (fp_vregs f) = 512"
  shows "filled 8 MDRawContextARM64_Old (fill_arm64_thread r f) (arm64_registers r f)"
    and "filled 8 MDRawContextARM64_Old (fill_arm64_ucontext r f) (arm64_registers r f)"
proof -
  let ?t = "fill_arm64_thread r f"
  have v: "assigned ?t [''float_save'', ''regs''] 0 = Some (fp_vregs f)"
    using assms by (simp add: fill_arm64_thread_def MD_FLOATINGSAVEAREA_ARM64_FPR_COUNT_def)
  have "unat (ucast (ur_pstate r) :: u32) = unat (ur_pstate r) mod 2 ^ 32" by (simp add: unsigned_ucast_eq take_bit_eq_mod)
  then have a: "list_all (fill_agrees MDRawContextARM64_Old ?t)
      (map (\<lambda>i. ([''iregs''], i, unat (ur_regs r ! i))) [0..<31] @
        [([''iregs''], 31, unat (ur_sp r)), ([''iregs''], 32, unat (ur_pc r)), ([''cpsr''], 0, unat (ur_pstate r) mod 2 ^ 32),
         ([''float_save'', ''fpsr''], 0, unat (fp_fpsr f)), ([''float_save'', ''fpcr''], 0, unat (fp_fpcr f)),
         ([''context_flags''], 0, unat MD_CONTEXT_ARM64_FULL_OLD)])"
    using assms by (simp add: list_all_iff fill_agrees_def arm64_types fill_arm64_thread_def MD_CONTEXT_ARM64_REG_SP_def MD_CONTEXT_ARM64_REG_PC_def)
  have "filled 8 MDRawContextARM64_Old ?t (arm64_registers r f)"
    using fills_filled [OF arm64_fills [OF assms]] fills_holds [OF arm64_fills [OF assms] _ a] fills_read [OF arm64_fills [OF assms] _ v] assms
    by (simp add: arm64_registers_def)
  moreover have "fill_arm64_ucontext r f = ?t" by (simp add: fill_arm64_thread_def fill_arm64_ucontext_def)
  ultimately show "filled 8 MDRawContextARM64_Old ?t (arm64_registers r f)"
    "filled 8 MDRawContextARM64_Old (fill_arm64_ucontext r f) (arm64_registers r f)" by simp_all
qed

text \<open>ARM: the registers are numbered by ptrace and named in the signal frame.\<close>

definition arm_register :: "nat \<Rightarrow> string" where
  "arm_register i = (if i < 10 then ''arm_r'' @ [char_of (48 + i)] else [''arm_r10'', ''arm_fp'', ''arm_ip'', ''arm_sp'', ''arm_lr'', ''arm_pc''] ! (i - 10))"

definition arm_registers :: "(nat \<Rightarrow> u32) \<Rightarrow> u32 \<Rightarrow> bytes \<Rightarrow> bool" where
  "arm_registers reg cpsr = holds 8 MDRawContextARM
     (map (\<lambda>i. ([''iregs''], i, unat (reg i))) [0..<16] @ [([''cpsr''], 0, unat cpsr), ([''context_flags''], 0, unat MD_CONTEXT_ARM_FULL)])"

lemma arm_types:
  "width MDRawContextARM [''iregs''] i = (if i < 16 then Some 4 else None)"
  "width MDRawContextARM [''cpsr''] 0 = Some 4" "width MDRawContextARM [''context_flags''] 0 = Some 4"
  by (simp_all add: width_def MDRawContextARM_def MD_CONTEXT_ARM_GPR_COUNT_def)

lemma arm_names_numbered: "i < 16 \<Longrightarrow> arm_names ! i = arm_register i"
proof -
  have "arm_names = map arm_register [0..<16]" by code_simp
  then show "i < 16 \<Longrightarrow> arm_names ! i = arm_register i" using nth_map_upt [of i 16 0 arm_register] by (simp del: upt_rec_numeral)
qed

lemma arm_holds:
  shows "16 \<le> length uregs \<Longrightarrow> filled 8 MDRawContextARM (fill_arm_thread uregs) (arm_registers ((!) uregs) 0)"
    and "filled 8 MDRawContextARM (fill_arm_ucontext uc) (arm_registers (uc \<circ> arm_register) (uc ''arm_cpsr''))"
proof -
  show "filled 8 MDRawContextARM (fill_arm_thread uregs) (arm_registers ((!) uregs) 0)" if l: "16 \<le> length uregs"
    unfolding arm_registers_def using fills_filled [OF arm_fills(1) [OF l]] fills_holds [OF arm_fills(1) [OF l]] l
    by (simp add: list_all_iff fill_agrees_def arm_types fill_arm_thread_def MD_CONTEXT_ARM_GPR_COUNT_def)
  have "length arm_names = 16" by (simp add: arm_names_def)
  then show "filled 8 MDRawContextARM (fill_arm_ucontext uc) (arm_registers (uc \<circ> arm_register) (uc ''arm_cpsr''))"
    unfolding arm_registers_def using fills_filled [OF arm_fills(2)] fills_holds [OF arm_fills(2)]
    by (simp add: list_all_iff fill_agrees_def arm_types fill_arm_ucontext_def arm_names_numbered)
qed

text \<open>
  x86\_64: ptrace has the registers under the names of the members, the signal frame in upper case after \<open>REG_\<close>, with three segment
  registers in one word. The floating point members are those of an \<open>FXSAVE\<close> area.
\<close>

definition upper :: "string \<Rightarrow> string" where
  "upper = map (\<lambda>c. if of_char c < (97 :: nat) then c else char_of (of_char c - 32 :: nat))"

definition general_amd64 :: "string list" where
  "general_amd64 = [''rax'', ''rbx'', ''rcx'', ''rdx'', ''rsi'', ''rdi'', ''rbp'', ''rsp'', ''rip'', ''r8'', ''r9'', ''r10'', ''r11'', ''r12'',
     ''r13'', ''r14'', ''r15'']"

definition amd64_table :: "(string \<Rightarrow> nat) \<Rightarrow> (string \<Rightarrow> u64) \<Rightarrow> string list \<Rightarrow> (string list \<times> nat \<times> nat) list" where
  "amd64_table reg fp other =
     map (\<lambda>m. ([m], 0, reg m)) (general_amd64 @ other) @
     map (\<lambda>(m, r, k). (['''', ''flt_save'', m], 0, unat (fp r) mod 2 ^ k))
       [(''control_word'', ''cwd'', 16), (''status_word'', ''swd'', 16), (''tag_word'', ''ftw'', 8), (''error_opcode'', ''fop'', 16),
        (''error_offset'', ''rip'', 32), (''data_offset'', ''rdp'', 32), (''mx_csr'', ''mxcsr'', 32), (''mx_csr_mask'', ''mxcr_mask'', 32)]"

definition amd64_registers :: "(string \<Rightarrow> nat) \<Rightarrow> (string \<Rightarrow> u64) \<Rightarrow> bytes \<Rightarrow> bytes \<Rightarrow> string list \<Rightarrow> bytes \<Rightarrow> bool" where
  "amd64_registers reg fp st xmm other ctx \<longleftrightarrow> holds 8 MDRawContextAMD64 (amd64_table reg fp other) ctx \<and>
     read_at 8 MDRawContextAMD64 ['''', ''flt_save'', ''float_registers''] 0 128 ctx = Some st \<and>
     read_at 8 MDRawContextAMD64 ['''', ''flt_save'', ''xmm_registers''] 0 256 ctx = Some xmm"

definition amd64_thread_value :: "(string \<Rightarrow> u64) \<Rightarrow> u64 list \<Rightarrow> string \<Rightarrow> nat" where
  "amd64_thread_value regs dregs m =
     (if m = ''context_flags'' then unat (MD_CONTEXT_AMD64_FULL OR MD_CONTEXT_AMD64_SEGMENTS)
      else if m \<in> {''cs'', ''ds'', ''es'', ''fs'', ''gs'', ''ss''} then unat (regs m) mod 2 ^ 16
      else if m = ''eflags'' then unat (regs m) mod 2 ^ 32
      else if take 2 m = ''dr'' then unat (dregs ! (of_char (m ! 2) - 48))
      else unat (regs m))"

definition amd64_frame_value :: "(string \<Rightarrow> u64) \<Rightarrow> string \<Rightarrow> nat" where
  "amd64_frame_value gregs m =
     (if m = ''context_flags'' then unat MD_CONTEXT_AMD64_FULL
      else if m = ''cs'' then unat (gregs ''REG_CSGSFS'') mod 2 ^ 16
      else if m = ''gs'' then unat (gregs ''REG_CSGSFS'') div 2 ^ 16 mod 2 ^ 16
      else if m = ''fs'' then unat (gregs ''REG_CSGSFS'') div 2 ^ 32 mod 2 ^ 16
      else if m = ''eflags'' then unat (gregs ''REG_EFL'') mod 2 ^ 32
      else unat (gregs (''REG_'' @ upper m)))"

lemma amd64_types:
  "list_all (\<lambda>m. width MDRawContextAMD64 [m] 0 = Some 8) (general_amd64 @ [''dr0'', ''dr1'', ''dr2'', ''dr3'', ''dr6'', ''dr7''])"
  "list_all (\<lambda>m. width MDRawContextAMD64 [m] 0 = Some 2) [''cs'', ''ds'', ''es'', ''fs'', ''gs'', ''ss'']"
  "list_all (\<lambda>m. width MDRawContextAMD64 [m] 0 = Some 4) [''context_flags'', ''eflags'']"
  "list_all (\<lambda>(m, k). width MDRawContextAMD64 ['''', ''flt_save'', m] 0 = Some k)
     [(''control_word'', 2), (''status_word'', 2), (''tag_word'', 1), (''error_opcode'', 2), (''error_offset'', 4), (''data_offset'', 4),
      (''mx_csr'', 4), (''mx_csr_mask'', 4)]"
  by (simp_all add: width_def general_amd64_def amd64_members)

lemmas amd64_widths = amd64_types [unfolded general_amd64_def, simplified]

lemma upper_amd64: "map upper general_amd64 = [''RAX'', ''RBX'', ''RCX'', ''RDX'', ''RSI'', ''RDI'', ''RBP'', ''RSP'', ''RIP'', ''R8'', ''R9'',
    ''R10'', ''R11'', ''R12'', ''R13'', ''R14'', ''R15'']"
  by code_simp

lemmas upper_names = upper_amd64 [unfolded general_amd64_def, simplified]

lemma csgsfs:
  "unat (w AND 0xffff) mod 65536 = unat w mod 65536"
  "unat (drop_bit k w) = unat w div 2 ^ k" for w :: u64
proof -
  have "w AND 0xffff = take_bit 16 w" by (simp add: take_bit_eq_mask mask_eq_exp_minus_1)
  moreover have "unat (take_bit 16 w) = take_bit 16 (unat w)" by (rule unsigned_take_bit_eq)
  ultimately show "unat (w AND 0xffff) mod 65536 = unat w mod 65536" by (simp add: take_bit_eq_mod)
  have "unat w < 2 ^ LENGTH(64)" by (rule unsigned_less)
  then have "take_bit 64 (unat w) = unat w" by (simp add: take_bit_nat_eq_self)
  then have "unat (drop_bit k w) = drop_bit k (unat w)" by (simp add: unsigned_drop_bit_eq)
  then show "unat (drop_bit k w) = unat w div 2 ^ k" by (simp only: drop_bit_eq_div [of k "unat w"])
qed

lemma amd64_holds:
  assumes "length st = 128" and "length xmm = 256"
  shows "filled 8 MDRawContextAMD64 (fill_amd64_thread regs dregs fp st xmm) (amd64_registers (amd64_thread_value regs dregs) fp st xmm
      [''context_flags'', ''cs'', ''ds'', ''es'', ''fs'', ''gs'', ''ss'', ''eflags'', ''dr0'', ''dr1'', ''dr2'', ''dr3'', ''dr6'', ''dr7''])"
    and "filled 8 MDRawContextAMD64 (fill_amd64_ucontext gregs fp st xmm) (amd64_registers (amd64_frame_value gregs) fp st xmm
      [''context_flags'', ''cs'', ''gs'', ''fs'', ''eflags''])"
proof -
  let ?t = "fill_amd64_thread regs dregs fp st xmm" and ?u = "fill_amd64_ucontext gregs fp st xmm"
  note F = amd64_fills(1) [OF assms, of regs dregs fp] amd64_fills(2) [OF assms, of gregs fp]
  have v: "assigned ?t ['''', ''flt_save'', ''float_registers''] 0 = Some st" "assigned ?t ['''', ''flt_save'', ''xmm_registers''] 0 = Some xmm"
    "assigned ?u ['''', ''flt_save'', ''float_registers''] 0 = Some st" "assigned ?u ['''', ''flt_save'', ''xmm_registers''] 0 = Some xmm"
    using assms by (simp_all add: fill_amd64_thread_def fill_amd64_ucontext_def flt_save_def same_names_def)
  have "list_all (fill_agrees MDRawContextAMD64 ?t) (amd64_table (amd64_thread_value regs dregs) fp
      [''context_flags'', ''cs'', ''ds'', ''es'', ''fs'', ''gs'', ''ss'', ''eflags'', ''dr0'', ''dr1'', ''dr2'', ''dr3'', ''dr6'', ''dr7''])"
    by (simp add: amd64_table_def general_amd64_def fill_agrees_def amd64_widths fill_amd64_thread_def same_names_def flt_save_def
        amd64_thread_value_def le_nat_store_part)
  then show "filled 8 MDRawContextAMD64 ?t (amd64_registers (amd64_thread_value regs dregs) fp st xmm
      [''context_flags'', ''cs'', ''ds'', ''es'', ''fs'', ''gs'', ''ss'', ''eflags'', ''dr0'', ''dr1'', ''dr2'', ''dr3'', ''dr6'', ''dr7''])"
    using fills_filled [OF F(1)] fills_holds [OF F(1)] fills_read [OF F(1) _ v(1)] fills_read [OF F(1) _ v(2)] assms
    by (simp add: amd64_registers_def)
  have "list_all (fill_agrees MDRawContextAMD64 ?u) (amd64_table (amd64_frame_value gregs) fp [''context_flags'', ''cs'', ''gs'', ''fs'', ''eflags''])"
    by (simp add: amd64_table_def general_amd64_def fill_agrees_def amd64_widths fill_amd64_ucontext_def flt_save_def amd64_frame_value_def
        le_nat_store_part upper_names csgsfs)
  then show "filled 8 MDRawContextAMD64 ?u (amd64_registers (amd64_frame_value gregs) fp st xmm [''context_flags'', ''cs'', ''gs'', ''fs'', ''eflags''])"
    using fills_filled [OF F(2)] fills_holds [OF F(2)] fills_read [OF F(2) _ v(3)] fills_read [OF F(2) _ v(4)] assms
    by (simp add: amd64_registers_def)
qed

text \<open>
  x86: ptrace has the segment registers under their names after \<open>x\<close>, the signal frame all in upper case after \<open>REG_\<close>, with the stack
  pointer of the user and the flags under other names. The extended registers are an \<open>FXSAVE\<close> area, at whose offsets they are read.
\<close>

definition general_x86 :: "string list" where
  "general_x86 = [''eax'', ''ebx'', ''ecx'', ''edx'', ''esi'', ''edi'', ''ebp'', ''esp'', ''eip'', ''eflags'', ''cs'', ''ds'', ''es'', ''fs'', ''gs'', ''ss'']"

definition x86_table :: "(string \<Rightarrow> nat) \<Rightarrow> (string \<Rightarrow> u32) \<Rightarrow> string list \<Rightarrow> string list \<Rightarrow> (string list \<times> nat \<times> nat) list" where
  "x86_table reg fp names other =
     map (\<lambda>m. ([m], 0, reg m)) (general_x86 @ other) @
     map (\<lambda>(m, r). ([''float_save'', m], 0, unat (fp r)))
       (zip [''control_word'', ''status_word'', ''tag_word'', ''error_offset'', ''error_selector'', ''data_offset'', ''data_selector''] names)"

definition x86_thread_value :: "(string \<Rightarrow> u32) \<Rightarrow> u32 list \<Rightarrow> string \<Rightarrow> nat" where
  "x86_thread_value regs dregs m =
     (if m = ''context_flags'' then unat MD_CONTEXT_X86_ALL
      else if take 2 m = ''dr'' then unat (dregs ! (of_char (m ! 2) - 48))
      else unat (regs (if length m = 2 then ''x'' @ m else m)))"

definition x86_frame_value :: "(string \<Rightarrow> u32) \<Rightarrow> string \<Rightarrow> nat" where
  "x86_frame_value gregs m =
     (if m = ''context_flags'' then unat (MD_CONTEXT_X86_FULL OR MD_CONTEXT_X86_FLOATING_POINT)
      else unat (gregs (''REG_'' @ (if m = ''esp'' then ''UESP'' else if m = ''eflags'' then ''EFL'' else upper m))))"

definition fxsave_x86 :: "(string \<Rightarrow> u32) \<Rightarrow> (string \<Rightarrow> u32) \<Rightarrow> (nat \<times> nat \<times> u32) list" where
  "fxsave_x86 fp fpx = [(0, 2, fp ''cwd''), (2, 2, fp ''swd''), (4, 2, fp ''twd''), (6, 2, fpx ''fop''), (8, 4, fpx ''fip''), (12, 2, fpx ''fcs''),
     (16, 4, fp ''foo''), (20, 2, fp ''fos''), (24, 4, fpx ''mxcsr'')]"

definition x86_registers :: "(string \<Rightarrow> nat) \<Rightarrow> (string \<Rightarrow> u32) \<Rightarrow> string list \<Rightarrow> bytes \<Rightarrow> string list \<Rightarrow> bytes \<Rightarrow> bool" where
  "x86_registers reg fp names st other ctx \<longleftrightarrow> holds 4 MDRawContextX86 (x86_table reg fp names other) ctx \<and>
     read_at 4 MDRawContextX86 [''float_save'', ''register_area''] 0 80 ctx = Some st"

definition x86_extended :: "(string \<Rightarrow> u32) \<Rightarrow> (string \<Rightarrow> u32) \<Rightarrow> bytes \<Rightarrow> bytes \<Rightarrow> bytes \<Rightarrow> bool" where
  "x86_extended fp fpx stx xmm ctx \<longleftrightarrow>
     list_all (\<lambda>(at, k, v). map_option le_nat (read_at 4 MDRawContextX86 [''extended_registers''] at k ctx) = Some (unat v mod 256 ^ k)) (fxsave_x86 fp fpx) \<and>
     read_at 4 MDRawContextX86 [''extended_registers''] 32 128 ctx = Some stx \<and>
     read_at 4 MDRawContextX86 [''extended_registers''] 160 128 ctx = Some xmm"

lemma x86_types:
  "list_all (\<lambda>m. width MDRawContextX86 [m] 0 = Some 4) (general_x86 @ [''context_flags'', ''dr0'', ''dr1'', ''dr2'', ''dr3'', ''dr6'', ''dr7''])"
  "list_all (\<lambda>m. width MDRawContextX86 [''float_save'', m] 0 = Some 4)
     [''control_word'', ''status_word'', ''tag_word'', ''error_offset'', ''error_selector'', ''data_offset'', ''data_selector'']"
  by (simp_all add: width_def general_x86_def x86_members)

lemmas x86_widths = x86_types [unfolded general_x86_def, simplified]

lemma upper_x86: "map upper general_x86 = [''EAX'', ''EBX'', ''ECX'', ''EDX'', ''ESI'', ''EDI'', ''EBP'', ''ESP'', ''EIP'', ''EFLAGS'', ''CS'', ''DS'', ''ES'',
    ''FS'', ''GS'', ''SS'']"
  by code_simp

lemmas upper_x86_names = upper_x86 [unfolded general_x86_def, simplified]

lemma x86_holds:
  assumes "length st = 80" and "length stx = 128" and "length xmm = 128"
  shows "filled 4 MDRawContextX86 (fill_x86_thread regs dregs fp st fpx stx xmm)
      (\<lambda>ctx. x86_registers (x86_thread_value regs dregs) fp [''cwd'', ''swd'', ''twd'', ''fip'', ''fcs'', ''foo'', ''fos''] st
          [''context_flags'', ''dr0'', ''dr1'', ''dr2'', ''dr3'', ''dr6'', ''dr7''] ctx \<and> x86_extended fp fpx stx xmm ctx)"
    and "filled 4 MDRawContextX86 (fill_x86_ucontext gregs fpc st)
      (x86_registers (x86_frame_value gregs) fpc [''cw'', ''sw'', ''tag'', ''ipoff'', ''cssel'', ''dataoff'', ''datasel''] st [''context_flags''])"
proof -
  let ?t = "fill_x86_thread regs dregs fp st fpx stx xmm" and ?u = "fill_x86_ucontext gregs fpc st"
  note F = x86_fills(1) [OF assms, of regs dregs fp fpx] x86_fills(2) [OF assms, of gregs fpc]
  have v: "assigned ?t [''float_save'', ''register_area''] 0 = Some st" "assigned ?u [''float_save'', ''register_area''] 0 = Some st"
    "assigned ?t [''extended_registers''] 32 = Some stx" "assigned ?t [''extended_registers''] 160 = Some xmm"
    using assms by (simp_all add: fill_x86_thread_def fill_x86_ucontext_def)
  have e: "list_all (\<lambda>(at, k, v). assigned ?t [''extended_registers''] at = Some (store_int k v)) (fxsave_x86 fp fpx)"
    by (simp add: fxsave_x86_def fill_x86_thread_def)
  have x: "x86_extended fp fpx stx xmm ctx" if c: "FillCPUContext 4 MDRawContextX86 ?t = Some ctx" for ctx
    using e fills_read [OF F(1) c v(3)] fills_read [OF F(1) c v(4)] fills_read [OF F(1) c] assms
    by (fastforce simp: x86_extended_def list_all_iff stored_int_value)
  have "list_all (fill_agrees MDRawContextX86 ?t) (x86_table (x86_thread_value regs dregs) fp [''cwd'', ''swd'', ''twd'', ''fip'', ''fcs'', ''foo'', ''fos'']
      [''context_flags'', ''dr0'', ''dr1'', ''dr2'', ''dr3'', ''dr6'', ''dr7''])"
    by (simp add: x86_table_def general_x86_def fill_agrees_def x86_widths fill_x86_thread_def x86_thread_value_def)
  then show "filled 4 MDRawContextX86 ?t
      (\<lambda>ctx. x86_registers (x86_thread_value regs dregs) fp [''cwd'', ''swd'', ''twd'', ''fip'', ''fcs'', ''foo'', ''fos''] st
          [''context_flags'', ''dr0'', ''dr1'', ''dr2'', ''dr3'', ''dr6'', ''dr7''] ctx \<and> x86_extended fp fpx stx xmm ctx)"
    using fills_filled [OF F(1)] fills_holds [OF F(1)] fills_read [OF F(1) _ v(1)] x assms by (simp add: x86_registers_def)
  have "list_all (fill_agrees MDRawContextX86 ?u) (x86_table (x86_frame_value gregs) fpc [''cw'', ''sw'', ''tag'', ''ipoff'', ''cssel'', ''dataoff'', ''datasel'']
      [''context_flags''])"
    by (simp add: x86_table_def general_x86_def fill_agrees_def x86_widths fill_x86_ucontext_def x86_frame_value_def upper_x86_names)
  then show "filled 4 MDRawContextX86 ?u
      (x86_registers (x86_frame_value gregs) fpc [''cw'', ''sw'', ''tag'', ''ipoff'', ''cssel'', ''dataoff'', ''datasel''] st [''context_flags''])"
    using fills_filled [OF F(2)] fills_holds [OF F(2)] fills_read [OF F(2) _ v(2)] assms by (simp add: x86_registers_def)
qed



end
