(* ===== verification/Ptrace_Dumper.thy ===== *)
theory Ptrace_Dumper
  imports Directory_Reader Mapping_Names Stack_Sanitizer Thread_Context "HOL-Library.Sublist"
begin

text \<open>
  \<^verbatim>\<open>client/linux/minidump_writer/linux_ptrace_dumper.cc\<close>, on aarch64 (with the check of the stack pointer that the x86
  builds add): the threads of the crashed process are listed, attached to, read and released.

  The kernel is a parameter: a state and the system calls on it. \<open>errno\<close> after a call is returned with its result.
\<close>

section \<open>Listing the threads\<close>

text \<open>
  The loop of \<open>EnumerateThreads\<close>, with fuel for its iterations; \<open>None\<close> is a fault or running out of fuel. A thread is
  added when the name is a number that differs from the last one; \<open>last_tid\<close> starts as \<open>-1\<close>.
\<close>

definition tid_of_name :: "bool \<Rightarrow> bytes \<Rightarrow> u32 option option" where
  "tid_of_name sg dent_name =
     do {
       dot \<leftarrow> my_strcmp sg dent_name [46, 0];
       if dot = 0 then Some None
       else do {
         dotdot \<leftarrow> my_strcmp sg dent_name [46, 46, 0];
         if dotdot = 0 then Some None else my_strtoui dent_name
       }
     }"

fun thread_loop ::
  "('s \<Rightarrow> (bytes option \<times> 's) option) \<Rightarrow> ('s \<Rightarrow> 's option) \<Rightarrow> bool \<Rightarrow> nat \<Rightarrow> u32 \<Rightarrow> u32 list \<Rightarrow> 's \<Rightarrow> (u32 list \<times> 's) option" where
  "thread_loop get pop sg 0 last_tid threads s = None"
| "thread_loop get pop sg (Suc fuel) last_tid threads s =
     do {
       (res, s) \<leftarrow> get s;
       (case res of
          None \<Rightarrow> Some (threads, s)
        | Some dent_name \<Rightarrow>
            do {
              tid \<leftarrow> tid_of_name sg dent_name;
              s \<leftarrow> pop s;
              (case tid of
                 None \<Rightarrow> thread_loop get pop sg fuel last_tid threads s
               | Some t \<Rightarrow>
                   if last_tid \<noteq> t then thread_loop get pop sg fuel t (threads @ [t]) s
                   else thread_loop get pop sg fuel last_tid threads s)
            })
     }"

text \<open>The names of a task directory: the two dots and numbers.\<close>

definition task_name :: "bytes \<Rightarrow> bool" where
  "task_name nm \<longleftrightarrow> nm = [46] \<or> nm = [46, 46] \<or> (nm \<noteq> [] \<and> list_all is_dec_digit nm \<and> dec_val 0 nm < 2 ^ 31)"

definition tids :: "bytes list \<Rightarrow> nat list" where
  "tids nms = map (dec_val 0) (filter (\<lambda>nm. nm \<noteq> [46] \<and> nm \<noteq> [46, 46]) nms)"

lemma my_strcmp_cstr:
  assumes "nul_terminated a" "nul_terminated b"
  shows "\<exists>r. my_strcmp sg a b = Some r \<and> (r = 0 \<longleftrightarrow> cstr a = cstr b)"
  using my_strcmp_total [OF assms, of sg] my_strcmp_zero_iff [OF assms, of sg] by auto

lemma tid_of_name_spec:
  assumes "nul_terminated nm" and "task_name (cstr nm)"
  shows "tid_of_name sg nm = Some (if cstr nm = [46] \<or> cstr nm = [46, 46] then None else Some (of_nat (dec_val 0 (cstr nm))))"
proof -
  obtain u where nm: "nm = cstr nm @ 0 # u" using nul_terminated_split [OF assms(1)] .
  have n: "nul_terminated [46, 0]" "nul_terminated [46, 46, 0]" by simp_all
  obtain r1 where r1: "my_strcmp sg nm [46, 0] = Some r1" "r1 = 0 \<longleftrightarrow> cstr nm = [46]"
    using my_strcmp_cstr [OF assms(1) n(1), of sg] by auto
  obtain r2 where r2: "my_strcmp sg nm [46, 46, 0] = Some r2" "r2 = 0 \<longleftrightarrow> cstr nm = [46, 46]"
    using my_strcmp_cstr [OF assms(1) n(2), of sg] by auto
  have "my_strtoui nm = Some (Some (of_nat (dec_val 0 (cstr nm))))" if "cstr nm \<noteq> [46]" "cstr nm \<noteq> [46, 46]"
    using my_strtoui_digits [of "cstr nm" u] assms(2) nm that by (auto simp: task_name_def list_all_iff)
  then show ?thesis using r1 r2 by (auto simp: tid_of_name_def)
qed

context name_source
begin

text \<open>All names are seen once, in order; equal neighbours are dropped.\<close>

lemma thread_loop_spec:
  assumes "invar s" and "reliable s" and "list_all task_name (rest s)" and "length (rest s) < fuel"
    and "prev = None \<and> last_tid = -1 \<or> prev = Some p \<and> last_tid = of_nat p \<and> p < 2 ^ 31"
  shows "\<exists>s'. thread_loop get pop sg fuel last_tid threads s =
    Some (threads @ map of_nat (case prev of None \<Rightarrow> remdups_adj (tids (rest s)) | Some q \<Rightarrow> tl (remdups_adj (q # tids (rest s)))), s')"
  using assms
proof (induction fuel arbitrary: s prev p last_tid threads)
  case (Suc fuel)
  obtain res s1 where g: "get s = Some (res, s1)" using get_total Suc.prems(1) by blast
  show ?case
  proof (cases res)
    case None
    then have "rest s = []" using get_end Suc.prems(1,2) g by blast
    then show ?thesis using g None by (simp add: tids_def split: option.splits)
  next
    case (Some nm)
    obtain s2 where s2: "pop s1 = Some s2" "invar s2" "rest s2 = tl (rest s)" "reliable s2"
      using pop_name [OF Suc.prems(1) g [unfolded Some]] Suc.prems(2) by blast
    have nm: "nul_terminated nm" "rest s \<noteq> []" "cstr nm = hd (rest s)" using get_name [OF Suc.prems(1) g [unfolded Some]] by auto
    obtain names where names: "rest s = cstr nm # names" using nm by (cases "rest s") auto
    have tn: "task_name (cstr nm)" "list_all task_name (rest s2)" using Suc.prems(3) names s2(3) by auto
    have fl: "length (rest s2) < fuel" using Suc.prems(4) names s2(3) by simp
    show ?thesis
    proof (cases "cstr nm = [46] \<or> cstr nm = [46, 46]")
      case True
      then have t: "tids (rest s) = tids (rest s2)" by (auto simp: tids_def names s2(3))
      show ?thesis unfolding t
        using Suc.IH [OF s2(2,4) tn(2) fl Suc.prems(5), of threads] g Some s2(1) tid_of_name_spec [OF nm(1) tn(1), of sg] True by auto
    next
      case False
      let ?t = "dec_val 0 (cstr nm)"
      have lt: "?t < 2 ^ 31" using tn(1) False by (simp add: task_name_def)
      have ts: "tids (rest s) = ?t # tids (rest s2)" using False by (simp add: tids_def names s2(3))
      have w: "(of_nat ?t :: u32) = of_nat q \<longleftrightarrow> ?t = q" if "q < 2 ^ 31" for q
      proof -
        have "unat (of_nat ?t :: u32) = ?t" "unat (of_nat q :: u32) = q"
          using lt that by (simp_all add: unsigned_of_nat take_bit_eq_mod)
        then show ?thesis by metis
      qed
      have m1: "(of_nat ?t :: u32) \<noteq> -1"
      proof
        assume "(of_nat ?t :: u32) = -1"
        then have "unat (of_nat ?t :: u32) = 2 ^ 32 - 1" by (simp add: unsigned_minus_1_eq_mask mask_eq_exp_minus_1)
        then show False using lt by (simp add: unsigned_of_nat take_bit_eq_mod)
      qed
      have tid: "tid_of_name sg nm = Some (Some (of_nat ?t))" using tid_of_name_spec [OF nm(1) tn(1), of sg] False by simp
      have ih: "\<exists>s'. thread_loop get pop sg fuel (of_nat ?t) th s2 =
          Some (th @ map of_nat (tl (remdups_adj (?t # tids (rest s2)))), s')" for th
        using Suc.IH [OF s2(2,4) tn(2) fl, of "Some ?t" "of_nat ?t" ?t th] lt by simp
      show ?thesis
      proof (cases "last_tid = of_nat ?t")
        case True
        then have "prev = Some ?t" using Suc.prems(5) m1 w by auto
        then show ?thesis using ih [of threads] True g Some s2(1) tid ts by simp
      next
        case ne: False
        have r: "remdups_adj (?t # tids (rest s2)) = ?t # tl (remdups_adj (?t # tids (rest s2)))"
          by (metis hd_remdups_adj list.collapse list.distinct(1) list.sel(1) remdups_adj_Nil_iff)
        have c: "(case prev of None \<Rightarrow> remdups_adj (tids (rest s)) | Some q \<Rightarrow> tl (remdups_adj (q # tids (rest s)))) =
          ?t # tl (remdups_adj (?t # tids (rest s2)))"
          unfolding ts using Suc.prems(5) ne w by (auto simp flip: r split: option.splits)
        show ?thesis unfolding c using ih [of "threads @ [of_nat ?t]"] ne g Some s2(1) tid by (simp del: remdups_adj_Cons_alt)
      qed
    qed
  qed
qed simp

end

section \<open>The dumper\<close>

record ptrace_dumper =
  pd_pid :: int
  pd_threads :: "u32 list"
  pd_threads_suspended :: bool

definition LinuxPtraceDumper :: "int \<Rightarrow> ptrace_dumper" where
  "LinuxPtraceDumper pid = \<lparr>pd_pid = pid, pd_threads = [], pd_threads_suspended = False\<rparr>"

text \<open>
  \<open>sys_open\<close> gives the directory behind a path, \<open>None\<close> for an error; \<open>path\<close>, \<open>eof\<close> and \<open>buf\<close> are the uninitialised contents of
  the path buffer and of the reader.
\<close>

definition EnumerateThreads ::
  "bool \<Rightarrow> nat \<Rightarrow> (bytes \<Rightarrow> 'f option) \<Rightarrow> 'f read_call \<Rightarrow> bytes \<Rightarrow> bool \<Rightarrow> bytes \<Rightarrow> ptrace_dumper \<Rightarrow> (bool \<times> ptrace_dumper) option" where
  "EnumerateThreads sg fuel sys_open getdents path eof buf d =
     do {
       (built, task_path) \<leftarrow> BuildProcPath path (pd_pid d) (chars ''task'' @ [0]);
       if \<not> built then Some (False, d)
       else
         (case sys_open (cstr task_path) of
            None \<Rightarrow> Some (False, d)
          | Some f \<Rightarrow>
              do {
                (threads, s) \<leftarrow> thread_loop (dir_get getdents) dir_pop sg fuel (-1) (pd_threads d) (f, DirectoryReader eof buf);
                Some (True, d\<lparr>pd_threads := threads\<rparr>)
              })
     }"

lemma my_uint_len_le: "0 < i \<Longrightarrow> i < 2 ^ 31 \<Longrightarrow> my_uint_len i \<le> 10"
proof -
  assume i: "0 < i" "i < 2 ^ 31"
  then obtain k where k: "my_uint_len i = Suc k" "10 ^ k \<le> i" using my_uint_len_loop_bounds [of i 0] by (auto simp: my_uint_len_def)
  have "(10 :: nat) ^ k < 10 ^ 10" using k(2) i(2) by (rule le_less_trans [OF _ less_trans]) simp
  then have "k < 10" by (rule power_less_imp_less_exp [rotated]) simp
  then show ?thesis using k(1) by simp
qed

text \<open>
  C15. Listing the threads. When the task directory can be opened and read, \<open>EnumerateThreads\<close> ends with success and
  the dumper has the numbers that name the entries, in the order of the directory, without equal neighbours and
  without the two dots, however the kernel cuts the directory into pieces and whatever the uninitialised buffers hold.
\<close>

theorem EnumerateThreads_correct:
  assumes "getdents_contract getdents entries" and "getdents_never_fails getdents"
    and "0 < pd_pid d" and "pd_pid d < 2 ^ 31" and "length path = NAME_MAX" and "length buf = dir_buf_size"
    and "sys_open (chars ''/proc/'' @ dec_digits (my_uint_len (nat (pd_pid d))) (nat (pd_pid d)) @ chars ''/task'') = Some f"
    and "list_all (\<lambda>e. task_name (de_name e)) (entries f)" and "length (entries f) < fuel"
  shows "EnumerateThreads sg fuel sys_open getdents path eof buf d =
    Some (True, d\<lparr>pd_threads := pd_threads d @ map of_nat (remdups_adj (tids (map de_name (entries f))))\<rparr>)"
proof -
  let ?node = "chars ''task'' @ [0]" and ?s = "(f, DirectoryReader eof buf)"
  have "my_uint_len (nat (pd_pid d)) \<le> 10" using assms(3,4) by (intro my_uint_len_le) auto
  then obtain p where p: "BuildProcPath path (pd_pid d) ?node = Some (True, p)"
      "cstr p = chars ''/proc/'' @ dec_digits (my_uint_len (nat (pd_pid d))) (nat (pd_pid d)) @ chars ''/task''"
    using BuildProcPath_correct [of ?node "pd_pid d" path] assms(3,5) by (auto simp: chars_def NAME_MAX_def)
  have inv: "dir_invar getdents entries ?s"
    using assms(1,6) by (auto simp: DirectoryReader_def intro!: exI [of _ "[]"])
  have rest: "dir_rest entries ?s = map de_name (entries f)" by (simp add: DirectoryReader_def names_in.simps)
  obtain s' where "thread_loop (dir_get getdents) dir_pop sg fuel (-1) (pd_threads d) ?s =
      Some (pd_threads d @ map of_nat (remdups_adj (tids (map de_name (entries f)))), s')"
    using dr.thread_loop_spec [OF inv assms(2), of fuel None "-1" _ sg "pd_threads d"] assms(8,9) rest by (auto simp: list_all_length)
  then show ?thesis using p assms(7) by (simp add: EnumerateThreads_def)
qed

text \<open>A concrete \<open>getdents\<close>: one entry per call, entries that fit no buffer are skipped.\<close>

definition getdents_one :: "dirent list read_call" where
  "getdents_one f n =
     (case filter dirent_ok f of
        [] \<Rightarrow> (Some [], [])
      | e # es \<Rightarrow> if length (encode_dirent e) \<le> n then (Some (encode_dirent e), es) else (None, f))"

lemma getdents_one_contract: "getdents_contract getdents_one (filter dirent_ok)" "getdents_never_fails getdents_one"
proof -
  have ok: "dirent_ok e" "filter dirent_ok es = es" if "filter dirent_ok f = e # es" for f e es
  proof -
    have "\<forall>x\<in>set (e # es). dirent_ok x" unfolding that [symmetric] by simp
    then show "dirent_ok e" "filter dirent_ok es = es" by simp_all
  qed
  show "getdents_contract getdents_one (filter dirent_ok)"
    unfolding getdents_contract_def
  proof (intro allI impI)
    fix f n bs f' assume g: "getdents_one f n = (Some bs, f')"
    show "\<exists>es. bs = concat (map encode_dirent es) \<and> list_all dirent_ok es \<and> filter dirent_ok f = es @ filter dirent_ok f' \<and>
        length bs \<le> n \<and> (es = [] \<longrightarrow> filter dirent_ok f = [])"
    proof (cases "filter dirent_ok f")
      case (Cons e es)
      then show ?thesis using g ok [OF Cons] by (intro exI [of _ "[e]"]) (auto simp: getdents_one_def split: if_splits)
    qed (use g in \<open>auto simp: getdents_one_def\<close>)
  qed
  show "getdents_never_fails getdents_one"
    unfolding getdents_never_fails_def
  proof
    fix f
    show "fst (getdents_one f dir_buf_size) \<noteq> None"
    proof (cases "filter dirent_ok f")
      case (Cons e es)
      have "length (encode_dirent e) \<le> dir_buf_size"
        using ok(1) [OF Cons] length_encode_dirent by (simp add: dirent_ok_def)
      then show ?thesis using Cons by (simp add: getdents_one_def)
    qed (simp add: getdents_one_def)
  qed
qed

definition task_entry :: "bytes \<Rightarrow> dirent" where
  "task_entry nm = \<lparr>de_head = replicate 16 0, de_type = 4, de_name = nm, de_pad = []\<rparr>"

theorem EnumerateThreads_correct_witness:
  "EnumerateThreads True 9 (\<lambda>p. if p = chars ''/proc/7/task'' then Some (map task_entry [[46], [46, 46], [55], [55], [49, 50]]) else None)
     getdents_one (replicate NAME_MAX 1) False (replicate dir_buf_size 2) (LinuxPtraceDumper 7) =
   Some (True, \<lparr>pd_pid = 7, pd_threads = [7, 12], pd_threads_suspended = False\<rparr>)"
proof -
  let ?f = "map task_entry [[46], [46, 46], [55], [55], [49, 50]]"
  have ok: "filter dirent_ok ?f = ?f" by (simp add: task_entry_def dirent_ok_def de_length_def dir_buf_size_def)
  have "my_uint_len 7 = 1" by (simp add: my_uint_len_def my_uint_len_loop.simps)
  then have path: "chars ''/proc/'' @ dec_digits (my_uint_len (nat 7)) (nat 7) @ chars ''/task'' = chars ''/proc/7/task''"
    by (simp add: chars_def)
  have names: "list_all (\<lambda>e. task_name (de_name e)) (filter dirent_ok ?f)"
    unfolding ok by (simp add: task_name_def task_entry_def is_dec_digit_def)
  have "map of_nat (remdups_adj (tids (map de_name (filter dirent_ok ?f)))) = [7, 12 :: u32]"
    unfolding ok by (simp add: tids_def task_entry_def)
  then show ?thesis
    using EnumerateThreads_correct [OF getdents_one_contract, of "LinuxPtraceDumper 7" "replicate NAME_MAX 1" "replicate dir_buf_size 2"
        "\<lambda>p. if p = chars ''/proc/7/task'' then Some ?f else None" ?f 9 True False] path names ok
    by (simp add: LinuxPtraceDumper_def)
qed
section \<open>Suspending and resuming\<close>

text \<open>
  The calls on a thread: the result, \<open>errno\<close> (0 when the call does not set it) and the kernel after the call.
  \<open>tr_stack_pointer\<close> is \<open>PTRACE_GETREGS\<close> with the stack pointer read from it, where the build has that check.
\<close>

record 'k tracer =
  tr_attach :: "u32 \<Rightarrow> 'k \<Rightarrow> int \<times> nat \<times> 'k"
  tr_waitpid :: "u32 \<Rightarrow> 'k \<Rightarrow> int \<times> nat \<times> 'k"
  tr_stack_pointer :: "(u32 \<Rightarrow> 'k \<Rightarrow> u64 option) option"
  tr_detach :: "u32 \<Rightarrow> 'k \<Rightarrow> int \<times> 'k"

definition EINTR :: nat where "EINTR = 4"

text \<open>The loop around \<open>waitpid\<close>, with fuel for the number of interruptions.\<close>

fun wait_loop :: "'k tracer \<Rightarrow> nat \<Rightarrow> u32 \<Rightarrow> 'k \<Rightarrow> (bool \<times> 'k) option" where
  "wait_loop tr 0 pid k = None"
| "wait_loop tr (Suc fuel) pid k =
     (case tr_waitpid tr pid k of (ret, errno, k) \<Rightarrow>
        if ret < 0 then
          if errno \<noteq> EINTR then Some (False, snd (tr_detach tr pid k))
          else wait_loop tr fuel pid k
        else Some (True, k))"

definition SuspendThread :: "'k tracer \<Rightarrow> nat \<Rightarrow> u32 \<Rightarrow> 'k \<Rightarrow> (bool \<times> 'k) option" where
  "SuspendThread tr fuel pid k =
     (case tr_attach tr pid k of (ret, errno, k) \<Rightarrow>
        if ret \<noteq> 0 \<and> errno \<noteq> 0 then Some (False, k)
        else do {
          (ok, k) \<leftarrow> wait_loop tr fuel pid k;
          if \<not> ok then Some (False, k)
          else
            (case tr_stack_pointer tr of
               None \<Rightarrow> Some (True, k)
             | Some getregs \<Rightarrow>
                 (case getregs pid k of
                    None \<Rightarrow> Some (False, snd (tr_detach tr pid k))
                  | Some sp \<Rightarrow> if sp = 0 then Some (False, snd (tr_detach tr pid k)) else Some (True, k)))
        })"

definition ResumeThread :: "'k tracer \<Rightarrow> u32 \<Rightarrow> 'k \<Rightarrow> bool \<times> 'k" where
  "ResumeThread tr pid k = (case tr_detach tr pid k of (ret, k) \<Rightarrow> (ret \<ge> 0, k))"

text \<open>
  The loop of \<open>ThreadsSuspend\<close>: a thread that cannot be suspended is removed from the vector by moving the rest down, and
  the index stays where it is.
\<close>

function suspend_loop :: "'k tracer \<Rightarrow> nat \<Rightarrow> nat \<Rightarrow> u32 list \<Rightarrow> 'k \<Rightarrow> (u32 list \<times> 'k) option" where
  "suspend_loop tr fuel i threads k =
     (if i < length threads then
        do {
          (ok, k) \<leftarrow> SuspendThread tr fuel (threads ! i) k;
          if ok then suspend_loop tr fuel (i + 1) threads k
          else
            suspend_loop tr fuel i
              (take (length threads - 1)
                 (if i < length threads - 1 then blit threads i (take (length threads - i - 1) (drop (i + 1) threads)) else threads)) k
        }
      else Some (threads, k))"
  by pat_completeness auto
termination
  by (relation "measure (\<lambda>(tr, fuel, i, threads, k). length threads - i)") (auto simp: blit_def)

declare suspend_loop.simps [simp del]

definition ThreadsSuspend :: "'k tracer \<Rightarrow> nat \<Rightarrow> ptrace_dumper \<Rightarrow> 'k \<Rightarrow> (bool \<times> ptrace_dumper \<times> 'k) option" where
  "ThreadsSuspend tr fuel d k =
     (if pd_threads_suspended d then Some (True, d, k)
      else do {
        (threads, k) \<leftarrow> suspend_loop tr fuel 0 (pd_threads d) k;
        Some (0 < length threads, d\<lparr>pd_threads := threads, pd_threads_suspended := True\<rparr>, k)
      })"

fun resume_loop :: "'k tracer \<Rightarrow> bool \<Rightarrow> u32 list \<Rightarrow> 'k \<Rightarrow> bool \<times> 'k" where
  "resume_loop tr good [] k = (good, k)"
| "resume_loop tr good (t # ts) k = (case ResumeThread tr t k of (ok, k) \<Rightarrow> resume_loop tr (good \<and> ok) ts k)"

definition ThreadsResume :: "'k tracer \<Rightarrow> ptrace_dumper \<Rightarrow> 'k \<Rightarrow> bool \<times> ptrace_dumper \<times> 'k" where
  "ThreadsResume tr d k =
     (if \<not> pd_threads_suspended d then (False, d, k)
      else case resume_loop tr True (pd_threads d) k of (good, k) \<Rightarrow> (good, d\<lparr>pd_threads_suspended := False\<rparr>, k))"

text \<open>
  What ptrace(2) and waitpid(2) promise, with the set of living threads that are traced and the set of those in a ptrace-stop. A thread may be
  killed at any time, so every call may find that threads have gone; but a traced thread that has stopped does not run again before it is restarted. A failed attach
  sets \<open>errno\<close> and traces nothing. A successful \<open>waitpid\<close> reports a thread that has stopped or one that has ended; a
  failure other than an interruption says that there is no such tracee. Detaching needs a stopped thread: otherwise it fails and the thread stays traced.
\<close>

definition tracer_contract :: "'k tracer \<Rightarrow> ('k \<Rightarrow> u32 set) \<Rightarrow> ('k \<Rightarrow> u32 set) \<Rightarrow> bool" where
  "tracer_contract tr traced stopped \<longleftrightarrow>
     (\<forall>k. stopped k \<subseteq> traced k) \<and>
     (\<forall>pid k ret errno k'. tr_attach tr pid k = (ret, errno, k') \<longrightarrow>
        (ret \<noteq> 0 \<longrightarrow> errno \<noteq> 0) \<and> traced k' \<subseteq> traced k \<union> (if ret = 0 then {pid} else {}) \<and>
        stopped k \<inter> traced k' - (if ret = 0 then {pid} else {}) \<subseteq> stopped k') \<and>
     (\<forall>pid k ret errno k'. tr_waitpid tr pid k = (ret, errno, k') \<longrightarrow>
        traced k' \<subseteq> traced k \<and> stopped k \<inter> traced k' \<subseteq> stopped k' \<and>
        (pid \<in> traced k' \<longrightarrow> (if ret < 0 then errno = EINTR else pid \<in> stopped k'))) \<and>
     (\<forall>pid k ret k'. tr_detach tr pid k = (ret, k') \<longrightarrow>
        traced k' \<subseteq> traced k \<and> stopped k \<inter> traced k' - {pid} \<subseteq> stopped k' \<and>
        (0 \<le> ret \<or> pid \<in> stopped k \<longrightarrow> pid \<notin> traced k'))"

text \<open>
  A thread that can be traced and is not killed: attaching to it works unless it is traced already, it stays traced until it is detached from, its registers can be read, and
  detaching works when it has stopped.
\<close>

definition survivor :: "'k tracer \<Rightarrow> ('k \<Rightarrow> u32 set) \<Rightarrow> ('k \<Rightarrow> u32 set) \<Rightarrow> u32 \<Rightarrow> bool" where
  "survivor tr traced stopped t \<longleftrightarrow>
     (\<forall>pid k ret errno k'. tr_attach tr pid k = (ret, errno, k') \<longrightarrow>
        (t \<in> traced k \<longrightarrow> t \<in> traced k') \<and> (pid = t \<longrightarrow> t \<in> traced k' \<and> (ret = 0 \<longleftrightarrow> t \<notin> traced k))) \<and>
     (\<forall>pid k ret errno k'. tr_waitpid tr pid k = (ret, errno, k') \<longrightarrow> t \<in> traced k \<longrightarrow> t \<in> traced k') \<and>
     (\<forall>pid k ret k'. tr_detach tr pid k = (ret, k') \<longrightarrow> t \<in> traced k \<longrightarrow> (if pid = t then t \<in> stopped k \<longrightarrow> 0 \<le> ret else t \<in> traced k')) \<and>
     (\<forall>getregs k. tr_stack_pointer tr = Some getregs \<longrightarrow> t \<in> stopped k \<longrightarrow> getregs t k \<notin> {None, Some 0})"

text \<open>No \<open>waitpid\<close> is interrupted \<open>fuel\<close> times.\<close>

definition waits_end :: "'k tracer \<Rightarrow> nat \<Rightarrow> bool" where
  "waits_end tr fuel \<longleftrightarrow> (\<forall>pid k. wait_loop tr fuel pid k \<noteq> None)"

lemma tracer_contractD:
  assumes "tracer_contract tr traced stopped"
  shows "stopped k \<subseteq> traced k"
    and "tr_attach tr pid k = (ret, errno, k') \<Longrightarrow> (ret \<noteq> 0 \<longrightarrow> errno \<noteq> 0) \<and> traced k' \<subseteq> traced k \<union> (if ret = 0 then {pid} else {}) \<and>
      stopped k \<inter> traced k' - (if ret = 0 then {pid} else {}) \<subseteq> stopped k'"
    and "tr_waitpid tr pid k = (ret, errno, k') \<Longrightarrow> traced k' \<subseteq> traced k \<and> stopped k \<inter> traced k' \<subseteq> stopped k' \<and>
      (pid \<in> traced k' \<longrightarrow> (if ret < 0 then errno = EINTR else pid \<in> stopped k'))"
    and "tr_detach tr pid k = (ret, k') \<Longrightarrow> traced k' \<subseteq> traced k \<and> stopped k \<inter> traced k' - {pid} \<subseteq> stopped k' \<and>
      (0 \<le> ret \<or> pid \<in> stopped k \<longrightarrow> pid \<notin> traced k')"
proof -
  note c = assms [unfolded tracer_contract_def]
  show "stopped k \<subseteq> traced k" by (rule c [THEN conjunct1, THEN spec])
  show "tr_attach tr pid k = (ret, errno, k') \<Longrightarrow> (ret \<noteq> 0 \<longrightarrow> errno \<noteq> 0) \<and> traced k' \<subseteq> traced k \<union> (if ret = 0 then {pid} else {}) \<and>
      stopped k \<inter> traced k' - (if ret = 0 then {pid} else {}) \<subseteq> stopped k'"
    by (rule c [THEN conjunct2, THEN conjunct1, rule_format])
  show "tr_waitpid tr pid k = (ret, errno, k') \<Longrightarrow> traced k' \<subseteq> traced k \<and> stopped k \<inter> traced k' \<subseteq> stopped k' \<and>
      (pid \<in> traced k' \<longrightarrow> (if ret < 0 then errno = EINTR else pid \<in> stopped k'))"
    by (rule c [THEN conjunct2, THEN conjunct2, THEN conjunct1, rule_format])
  show "tr_detach tr pid k = (ret, k') \<Longrightarrow> traced k' \<subseteq> traced k \<and> stopped k \<inter> traced k' - {pid} \<subseteq> stopped k' \<and>
      (0 \<le> ret \<or> pid \<in> stopped k \<longrightarrow> pid \<notin> traced k')"
    by (rule c [THEN conjunct2, THEN conjunct2, THEN conjunct2, rule_format])
qed

lemma survivorD:
  assumes "survivor tr traced stopped t"
  shows "tr_attach tr pid k = (ret, errno, k') \<Longrightarrow> (t \<in> traced k \<longrightarrow> t \<in> traced k') \<and> (pid = t \<longrightarrow> t \<in> traced k' \<and> (ret = 0 \<longleftrightarrow> t \<notin> traced k))"
    and "tr_waitpid tr pid k = (ret, errno, k') \<Longrightarrow> t \<in> traced k \<Longrightarrow> t \<in> traced k'"
    and "tr_detach tr pid k = (ret, k') \<Longrightarrow> t \<in> traced k \<Longrightarrow> if pid = t then t \<in> stopped k \<longrightarrow> 0 \<le> ret else t \<in> traced k'"
    and "tr_stack_pointer tr = Some getregs \<Longrightarrow> t \<in> stopped k \<Longrightarrow> getregs t k \<notin> {None, Some 0}"
proof -
  note c = assms [unfolded survivor_def]
  show "tr_attach tr pid k = (ret, errno, k') \<Longrightarrow> (t \<in> traced k \<longrightarrow> t \<in> traced k') \<and> (pid = t \<longrightarrow> t \<in> traced k' \<and> (ret = 0 \<longleftrightarrow> t \<notin> traced k))"
    by (rule c [THEN conjunct1, rule_format])
  show "tr_waitpid tr pid k = (ret, errno, k') \<Longrightarrow> t \<in> traced k \<Longrightarrow> t \<in> traced k'"
    by (rule c [THEN conjunct2, THEN conjunct1, rule_format])
  show "tr_detach tr pid k = (ret, k') \<Longrightarrow> t \<in> traced k \<Longrightarrow> if pid = t then t \<in> stopped k \<longrightarrow> 0 \<le> ret else t \<in> traced k'"
    by (rule c [THEN conjunct2, THEN conjunct2, THEN conjunct1, rule_format])
  show "tr_stack_pointer tr = Some getregs \<Longrightarrow> t \<in> stopped k \<Longrightarrow> getregs t k \<notin> {None, Some 0}"
    by (rule c [THEN conjunct2, THEN conjunct2, THEN conjunct2, rule_format])
qed

text \<open>
  What a call that handles one thread does to the others: none of them becomes traced, those that have stopped stay stopped as long as they live, and survivors stay traced.
\<close>

definition spares :: "'k tracer \<Rightarrow> ('k \<Rightarrow> u32 set) \<Rightarrow> ('k \<Rightarrow> u32 set) \<Rightarrow> u32 \<Rightarrow> 'k \<Rightarrow> 'k \<Rightarrow> bool" where
  "spares tr traced stopped pid k k' \<longleftrightarrow>
     traced k' - {pid} \<subseteq> traced k \<and> stopped k \<inter> traced k' - {pid} \<subseteq> stopped k' \<and>
     (\<forall>t. survivor tr traced stopped t \<and> t \<noteq> pid \<and> t \<in> traced k \<longrightarrow> t \<in> traced k')"

lemma spares_trans: "spares tr traced stopped pid k k1 \<Longrightarrow> spares tr traced stopped pid k1 k2 \<Longrightarrow> spares tr traced stopped pid k k2"
  unfolding spares_def by blast

lemma calls_spare:
  assumes "tracer_contract tr traced stopped"
  shows "tr_attach tr pid k = (ret, errno, k') \<Longrightarrow> spares tr traced stopped pid k k'"
    and "tr_waitpid tr pid k = (ret, errno, k') \<Longrightarrow> spares tr traced stopped pid k k'"
    and "tr_detach tr pid k = (ret', k') \<Longrightarrow> spares tr traced stopped pid k k'"
proof -
  show "spares tr traced stopped pid k k'" if "tr_attach tr pid k = (ret, errno, k')"
    using tracer_contractD(2) [OF assms that] survivorD(1) [OF _ that] unfolding spares_def by (auto split: if_splits)
  show "spares tr traced stopped pid k k'" if "tr_waitpid tr pid k = (ret, errno, k')"
    using tracer_contractD(3) [OF assms that] survivorD(2) [OF _ that] unfolding spares_def by blast
  show "spares tr traced stopped pid k k'" if "tr_detach tr pid k = (ret', k')"
    using tracer_contractD(4) [OF assms that] survivorD(3) [OF _ that] unfolding spares_def by auto
qed

lemma detach_stopped:
  assumes "tracer_contract tr traced stopped" and "pid \<in> traced k \<longrightarrow> pid \<in> stopped k" and "k' = snd (tr_detach tr pid k)"
  shows "pid \<notin> traced k'" and "spares tr traced stopped pid k k'"
proof -
  have d: "tr_detach tr pid k = (fst (tr_detach tr pid k), k')" using assms(3) by simp
  show "spares tr traced stopped pid k k'" by (rule calls_spare(3) [OF assms(1) d])
  show "pid \<notin> traced k'" using tracer_contractD(4) [OF assms(1) d] assms(2) by blast
qed

lemma wait_loop_spec:
  assumes "tracer_contract tr traced stopped" and "wait_loop tr fuel pid k = Some (ok, k')"
  shows "spares tr traced stopped pid k k'" and "pid \<in> traced k' \<longrightarrow> ok \<and> pid \<in> stopped k'" and "pid \<in> traced k' \<longrightarrow> pid \<in> traced k"
    and "survivor tr traced stopped pid \<Longrightarrow> pid \<in> traced k \<Longrightarrow> pid \<in> traced k'"
proof -
  have "spares tr traced stopped pid k k' \<and> (pid \<in> traced k' \<longrightarrow> ok \<and> pid \<in> stopped k' \<and> pid \<in> traced k) \<and>
    (survivor tr traced stopped pid \<and> pid \<in> traced k \<longrightarrow> pid \<in> traced k')"
    using assms(2)
  proof (induction fuel arbitrary: k)
    case (Suc fuel)
    obtain ret errno k1 where w: "tr_waitpid tr pid k = (ret, errno, k1)" by (cases "tr_waitpid tr pid k")
    note c = tracer_contractD(3) [OF assms(1) w] and s = survivorD(2) [OF _ w] and p = calls_spare(2) [OF assms(1) w]
    consider (error) "ret < 0" "errno \<noteq> EINTR" | (again) "ret < 0" "errno = EINTR" | (finished) "\<not> ret < 0" by blast
    then show ?case
    proof cases
      case error
      then have k': "k' = snd (tr_detach tr pid k1)" "pid \<notin> traced k1" using Suc.prems w c by auto
      have d: "pid \<notin> traced k'" "spares tr traced stopped pid k1 k'" by (rule detach_stopped [OF assms(1) _ k'(1)], simp add: k'(2))+
      have "survivor tr traced stopped pid \<Longrightarrow> pid \<notin> traced k" using s k'(2) by blast
      then show ?thesis using spares_trans [OF p d(2)] d(1) by simp
    next
      case again
      then have "wait_loop tr fuel pid k1 = Some (ok, k')" using Suc.prems w by simp
      note ih = Suc.IH [OF this]
      have "spares tr traced stopped pid k k'" using spares_trans [OF p] ih by blast
      moreover have "pid \<in> traced k' \<longrightarrow> ok \<and> pid \<in> stopped k' \<and> pid \<in> traced k" using ih c by blast
      moreover have "survivor tr traced stopped pid \<and> pid \<in> traced k \<longrightarrow> pid \<in> traced k'" using ih s by blast
      ultimately show ?thesis by blast
    next
      case finished
      then show ?thesis using Suc.prems w c p s by auto
    qed
  qed simp
  then show "spares tr traced stopped pid k k'" and "pid \<in> traced k' \<longrightarrow> ok \<and> pid \<in> stopped k'" and "pid \<in> traced k' \<longrightarrow> pid \<in> traced k"
    and "survivor tr traced stopped pid \<Longrightarrow> pid \<in> traced k \<Longrightarrow> pid \<in> traced k'" by blast+
qed

lemma SuspendThread_spec:
  assumes c: "tracer_contract tr traced stopped" and "waits_end tr fuel" and st: "traced k \<subseteq> stopped k"
  shows "\<exists>ok k'. SuspendThread tr fuel pid k = Some (ok, k') \<and> traced k' \<subseteq> stopped k' \<and>
    traced k' \<subseteq> traced k \<union> (if ok then {pid} else {}) \<and>
    (\<forall>t. survivor tr traced stopped t \<longrightarrow> (t \<in> traced k \<or> t = pid \<longrightarrow> t \<in> traced k') \<and> (t = pid \<longrightarrow> (ok \<longleftrightarrow> t \<notin> traced k)))"
proof -
  obtain ret errno k1 where a: "tr_attach tr pid k = (ret, errno, k1)" by (cases "tr_attach tr pid k")
  note ac = tracer_contractD(2) [OF c a] and as = survivorD(1) [OF _ a] and ap = calls_spare(1) [OF c a]
  show ?thesis
  proof (cases "ret = 0")
    case False
    then have "SuspendThread tr fuel pid k = Some (False, k1)" using a ac by (simp add: SuspendThread_def)
    moreover have "traced k1 \<subseteq> traced k" "stopped k \<inter> traced k1 \<subseteq> stopped k1" using ac False by simp_all
    ultimately show ?thesis using st as False by (intro exI [of _ False] exI [of _ k1]) auto
  next
    case True
    obtain w k2 where w: "wait_loop tr fuel pid k1 = Some (w, k2)"
      using assms(2) by (auto simp: waits_end_def) (metis not_None_eq surj_pair)
    note ws = wait_loop_spec [OF c w]
    define k3 where "k3 = snd (tr_detach tr pid k2)"
    have off: "pid \<in> traced k2 \<longrightarrow> pid \<in> stopped k2" using ws(2) by blast
    note d = detach_stopped [OF c off k3_def]
    have sp2: "spares tr traced stopped pid k k2" by (rule spares_trans [OF ap ws(1)])
    note sp = sp2 spares_trans [OF sp2 d(2)]
    have k2: "traced k2 \<subseteq> stopped k2" "traced k2 \<subseteq> traced k \<union> {pid}" using sp(1) off st unfolding spares_def by blast+
    have k3: "traced k3 \<subseteq> stopped k3" "traced k3 \<subseteq> traced k" using sp(2) d(1) st unfolding spares_def by blast+
    have sv: "t \<in> traced k \<Longrightarrow> t \<noteq> pid \<Longrightarrow> t \<in> traced k2 \<and> t \<in> traced k3" if "survivor tr traced stopped t" for t
      using sp that unfolding spares_def by blast
    have self: "pid \<notin> traced k \<and> pid \<in> traced k2 \<and> w" if "survivor tr traced stopped pid"
      using as [OF that] True ws(2,4) that by blast
    let ?keep = "w \<and> (case tr_stack_pointer tr of None \<Rightarrow> True | Some getregs \<Rightarrow> getregs pid k2 \<notin> {None, Some 0})"
    show ?thesis
    proof (cases ?keep)
      case keep: True
      have "SuspendThread tr fuel pid k = Some (True, k2)"
        using a True w keep by (auto simp: SuspendThread_def split: option.splits)
      moreover have "(t \<in> traced k \<or> t = pid \<longrightarrow> t \<in> traced k2) \<and> (t = pid \<longrightarrow> (True \<longleftrightarrow> t \<notin> traced k))" if "survivor tr traced stopped t" for t
        using sv [OF that] self that by blast
      ultimately show ?thesis using k2 by (intro exI [of _ True] exI [of _ k2]) simp
    next
      case drop: False
      have ns: "\<not> survivor tr traced stopped pid"
      proof
        assume sv: "survivor tr traced stopped pid"
        have "getregs pid k2 \<notin> {None, Some 0}" if "tr_stack_pointer tr = Some getregs" for getregs
          using survivorD(4) [OF sv that] self [OF sv] off by blast
        then have ?keep using self [OF sv] by (simp split: option.split)
        then show False using drop by blast
      qed
      define k' where "k' = (if w then k3 else k2)"
      have k': "SuspendThread tr fuel pid k = Some (False, k')" "k' = k2 \<and> pid \<notin> traced k2 \<or> k' = k3"
        using a True w drop ws(2) by (auto simp: SuspendThread_def k'_def k3_def split: option.splits)
      have "traced k' \<subseteq> stopped k'" "traced k' \<subseteq> traced k" using k'(2) k2 k3 by blast+
      moreover have "t \<in> traced k \<or> t = pid \<Longrightarrow> t \<in> traced k'" if "survivor tr traced stopped t" for t
        using sv [OF that] ns that k'(2) by blast
      moreover have "t = pid \<longrightarrow> (False \<longleftrightarrow> t \<notin> traced k)" if "survivor tr traced stopped t" for t using that ns by blast
      ultimately show ?thesis using k'(1) by (intro exI [of _ False] exI [of _ k']) simp
    qed
  qed
qed

lemma remove_at:
  "i < length xs \<Longrightarrow>
     take (length xs - 1) (if i < length xs - 1 then blit xs i (take (length xs - i - 1) (drop (i + 1) xs)) else xs) =
     take i xs @ drop (i + 1) xs"
proof (cases "i < length xs - 1")
  case False
  moreover assume "i < length xs"
  ultimately have "length xs - 1 = i" by simp
  then show ?thesis by simp
qed (simp add: blit_def)

lemma count_list_1_distinct: "\<forall>x\<in>set xs. count_list xs x = 1 \<Longrightarrow> distinct xs"
proof (induction xs)
  case (Cons x xs)
  have x: "x \<notin> set xs" using Cons.prems by (simp add: count_list_0_iff)
  then have "\<forall>y\<in>set xs. count_list xs y = 1" using Cons.prems by (auto split: if_splits)
  then show ?case using Cons.IH x by simp
qed simp

text \<open>From thread \<open>i\<close> on: what becomes traced is in the list and has stopped; a survivor is traced at the end and once in the list.\<close>

lemma suspend_loop_spec:
  assumes c: "tracer_contract tr traced stopped" "waits_end tr fuel" and "i \<le> length threads" and "traced k \<subseteq> stopped k"
  shows "\<exists>ts k'. suspend_loop tr fuel i threads k = Some (take i threads @ ts, k') \<and> subseq ts (drop i threads) \<and>
    traced k' \<subseteq> stopped k' \<and> traced k' \<subseteq> traced k \<union> set ts \<and>
    (\<forall>t. survivor tr traced stopped t \<and> (t \<in> traced k \<or> t \<in> set (drop i threads)) \<longrightarrow>
       t \<in> traced k' \<and> count_list ts t = (if t \<in> traced k then 0 else 1))"
  using assms(3,4)
proof (induction "length threads - i" arbitrary: i threads k)
  case 0
  then show ?case by (intro exI [of _ "[]"] exI [of _ k]) (simp add: suspend_loop.simps [of _ _ i])
next
  case (Suc n)
  then have i: "i < length threads" by simp
  let ?p = "threads ! i"
  obtain ok k1 where s: "SuspendThread tr fuel ?p k = Some (ok, k1)" "traced k1 \<subseteq> stopped k1" "traced k1 \<subseteq> traced k \<union> (if ok then {?p} else {})"
    and sv: "\<And>t. survivor tr traced stopped t \<Longrightarrow> (t \<in> traced k \<or> t = ?p \<longrightarrow> t \<in> traced k1) \<and> (t = ?p \<longrightarrow> (ok \<longleftrightarrow> t \<notin> traced k))"
    using SuspendThread_spec [OF c Suc.prems(2), of ?p] by blast
  have d: "drop i threads = ?p # drop (i + 1) threads" using i by (simp add: Cons_nth_drop_Suc)
  show ?case
  proof (cases ok)
    case True
    obtain ts k' where ts: "suspend_loop tr fuel (i + 1) threads k1 = Some (take (i + 1) threads @ ts, k')"
        "subseq ts (drop (i + 1) threads)" "traced k' \<subseteq> stopped k'" "traced k' \<subseteq> traced k1 \<union> set ts"
      and tv: "\<And>t. survivor tr traced stopped t \<Longrightarrow> t \<in> traced k1 \<or> t \<in> set (drop (i + 1) threads) \<Longrightarrow>
        t \<in> traced k' \<and> count_list ts t = (if t \<in> traced k1 then 0 else 1)"
      using Suc.hyps(1) [of threads "i + 1" k1] Suc.hyps(2) i s(2) by fastforce
    have r: "suspend_loop tr fuel i threads k = Some (take i threads @ ?p # ts, k')"
      using s True i ts(1) by (simp add: suspend_loop.simps [of _ _ i] take_Suc_conv_app_nth)
    have "t \<in> traced k' \<and> count_list (?p # ts) t = (if t \<in> traced k then 0 else 1)"
      if "survivor tr traced stopped t" "t \<in> traced k \<or> t \<in> set (drop i threads)" for t
      using tv [OF that(1)] sv [OF that(1)] that(2) s(3) True unfolding d by auto
    moreover have "traced k' \<subseteq> traced k \<union> set (?p # ts)" using ts(4) s(3) True by auto
    ultimately show ?thesis using r ts(2,3) by (intro exI [of _ "?p # ts"] exI [of _ k']) (simp add: d)
  next
    case False
    let ?threads = "take i threads @ drop (i + 1) threads"
    obtain ts k' where ts: "suspend_loop tr fuel i ?threads k1 = Some (take i ?threads @ ts, k')"
        "subseq ts (drop i ?threads)" "traced k' \<subseteq> stopped k'" "traced k' \<subseteq> traced k1 \<union> set ts"
      and tv: "\<And>t. survivor tr traced stopped t \<Longrightarrow> t \<in> traced k1 \<or> t \<in> set (drop i ?threads) \<Longrightarrow>
        t \<in> traced k' \<and> count_list ts t = (if t \<in> traced k1 then 0 else 1)"
      using Suc.hyps(1) [of ?threads i k1] Suc.hyps(2) i s(2) by fastforce
    have r: "suspend_loop tr fuel i threads k = Some (take i threads @ ts, k')"
      using s False i ts(1) by (simp add: suspend_loop.simps [of _ _ i] remove_at [OF i, simplified])
    have "t \<in> traced k' \<and> count_list ts t = (if t \<in> traced k then 0 else 1)"
      if "survivor tr traced stopped t" "t \<in> traced k \<or> t \<in> set (drop i threads)" for t
      using tv [OF that(1)] sv [OF that(1)] that(2) s(3) False i unfolding d by auto
    moreover have "traced k' \<subseteq> traced k \<union> set ts" using ts(4) s(3) False by auto
    moreover have "subseq ts (drop i threads)" using ts(2) i unfolding d by (simp add: list_emb_Cons)
    ultimately show ?thesis using r ts(3) by (intro exI [of _ ts] exI [of _ k']) simp
  qed
qed

lemma resume_loop_spec:
  assumes c: "tracer_contract tr traced stopped" and "traced k \<subseteq> stopped k"
  shows "\<exists>good' k'. resume_loop tr good ts k = (good', k') \<and> traced k' \<subseteq> traced k - set ts \<and>
    (distinct ts \<and> (\<forall>t\<in>set ts. survivor tr traced stopped t \<and> t \<in> traced k) \<longrightarrow> good' = good)"
  using assms(2)
proof (induction ts arbitrary: k good)
  case (Cons t ts)
  obtain ret k1 where d: "tr_detach tr t k = (ret, k1)" by (cases "tr_detach tr t k")
  have off: "t \<in> traced k \<longrightarrow> t \<in> stopped k" "k1 = snd (tr_detach tr t k)" using Cons.prems d by auto
  note ds = detach_stopped [OF c off]
  have k1: "traced k1 \<subseteq> traced k - {t}" "traced k1 \<subseteq> stopped k1" using ds Cons.prems unfolding spares_def by blast+
  have sv: "ret \<ge> 0 \<and> (\<forall>u\<in>set ts. u \<in> traced k1)"
    if "distinct (t # ts)" "\<forall>u\<in>set (t # ts). survivor tr traced stopped u \<and> u \<in> traced k"
  proof -
    have "0 \<le> ret" using survivorD(3) [OF _ d, of traced stopped t] that(2) off(1) by auto
    moreover have "u \<in> traced k1" if "u \<in> set ts" for u
      using ds(2) that \<open>distinct (t # ts)\<close> \<open>\<forall>u\<in>set (t # ts). survivor tr traced stopped u \<and> u \<in> traced k\<close> unfolding spares_def by auto
    ultimately show ?thesis by blast
  qed
  obtain good' k' where r: "resume_loop tr (good \<and> 0 \<le> ret) ts k1 = (good', k')" "traced k' \<subseteq> traced k1 - set ts"
    "distinct ts \<and> (\<forall>t\<in>set ts. survivor tr traced stopped t \<and> t \<in> traced k1) \<longrightarrow> good' = (good \<and> 0 \<le> ret)"
    using Cons.IH [OF k1(2)] by blast
  have "resume_loop tr good (t # ts) k = (good', k')" using d r(1) by (simp add: ResumeThread_def)
  moreover have "traced k' \<subseteq> traced k - set (t # ts)" using r(2) k1(1) by auto
  ultimately show ?case using r(3) sv by auto
qed simp

text \<open>
  C13. No thread stays stopped. From a process none of whose threads is traced, and whatever threads are killed meanwhile, \<open>ThreadsSuspend\<close> ends (when no \<open>waitpid\<close> is
  interrupted for ever); its list is part of the old one, and every living thread it traces is in the list and has stopped: those that were dropped from the list are
  not left attached. A thread that can be traced and is not killed is traced then and just once in the list. The call fails just when no thread is
  left. After \<open>ThreadsResume\<close> no living thread is traced any more; it reports success if all threads of the list could be traced and none was killed. A second call of either
  is refused or does nothing. Threads that were killed after the attach may remain in the list, because the status that \<open>waitpid\<close> reports is not looked at.
\<close>

theorem suspend_resume:
  assumes "tracer_contract tr traced stopped" and "waits_end tr fuel" and "\<not> pd_threads_suspended d" and "traced k = {}"
  shows "\<exists>ts k1 good k2. ThreadsSuspend tr fuel d k = Some (ts \<noteq> [], d\<lparr>pd_threads := ts, pd_threads_suspended := True\<rparr>, k1) \<and>
    subseq ts (pd_threads d) \<and> traced k1 \<subseteq> set ts \<and> traced k1 = stopped k1 \<and>
    (\<forall>t\<in>set (pd_threads d). survivor tr traced stopped t \<longrightarrow> t \<in> stopped k1 \<and> count_list ts t = 1) \<and>
    ThreadsSuspend tr fuel (d\<lparr>pd_threads := ts, pd_threads_suspended := True\<rparr>) k1 = Some (True, d\<lparr>pd_threads := ts, pd_threads_suspended := True\<rparr>, k1) \<and>
    ThreadsResume tr (d\<lparr>pd_threads := ts, pd_threads_suspended := True\<rparr>) k1 = (good, d\<lparr>pd_threads := ts\<rparr>, k2) \<and> traced k2 = {} \<and>
    ((\<forall>t\<in>set ts. survivor tr traced stopped t) \<longrightarrow> good) \<and>
    ThreadsResume tr (d\<lparr>pd_threads := ts\<rparr>) k2 = (False, d\<lparr>pd_threads := ts\<rparr>, k2)"
proof -
  obtain ts k1 where ts: "suspend_loop tr fuel 0 (pd_threads d) k = Some (ts, k1)" "subseq ts (pd_threads d)"
      "traced k1 \<subseteq> stopped k1" "traced k1 \<subseteq> set ts"
    and sv: "\<And>t. survivor tr traced stopped t \<Longrightarrow> t \<in> set (pd_threads d) \<Longrightarrow> t \<in> traced k1 \<and> count_list ts t = 1"
    using suspend_loop_spec [OF assms(1,2), of 0 "pd_threads d" k] assms(4) by auto
  have eq: "traced k1 = stopped k1" using ts(3) tracer_contractD(1) [OF assms(1)] by blast
  obtain good k2 where k2: "resume_loop tr True ts k1 = (good, k2)" "traced k2 = {}"
    "distinct ts \<and> (\<forall>t\<in>set ts. survivor tr traced stopped t \<and> t \<in> traced k1) \<longrightarrow> good"
    using resume_loop_spec [OF assms(1) ts(3), of True ts] ts(4) by auto
  have sub: "set ts \<subseteq> set (pd_threads d)" using list_emb_set [OF ts(2)] by blast
  have good: "(\<forall>t\<in>set ts. survivor tr traced stopped t) \<longrightarrow> good"
    using k2(3) sv sub count_list_1_distinct [of ts] by blast
  have "d\<lparr>pd_threads := ts, pd_threads_suspended := False\<rparr> = d\<lparr>pd_threads := ts\<rparr>" using assms(3) by (cases d) simp
  then show ?thesis
    using ts k2 assms(3) sv good eq
    by (intro exI [of _ ts] exI [of _ k1] exI [of _ good] exI [of _ k2]) (simp add: ThreadsSuspend_def ThreadsResume_def)
qed

text \<open>
  A concrete kernel: the traced and the stopped threads. Thread 9 has died before, thread 8 dies after the attach, when \<open>waitpid\<close> is called: it stays in the list, and
  detaching from it fails.
\<close>

definition small_kernel :: "(u32 set \<times> u32 set) tracer" where
  "small_kernel =
     \<lparr>tr_attach = (\<lambda>pid (T, S). if pid = 9 \<or> pid \<in> T then (-1, 3, (T, S)) else (0, 0, (insert pid T, S))),
      tr_waitpid = (\<lambda>pid (T, S). if pid \<notin> T then (-1, 10, (T, S)) else if pid = 8 then (8, 0, (T - {8}, S - {8})) else (int (unat pid), 0, (T, insert pid S))),
      tr_stack_pointer = None,
      tr_detach = (\<lambda>pid (T, S). if pid \<in> S then (0, (T - {pid}, S - {pid})) else (-1, (T, S)))\<rparr>"

lemma small_kernel_contract: "tracer_contract small_kernel fst (\<lambda>k. fst k \<inter> snd k)" "waits_end small_kernel 1"
proof -
  show "tracer_contract small_kernel fst (\<lambda>k. fst k \<inter> snd k)"
    unfolding tracer_contract_def by (auto simp: small_kernel_def split: if_splits)
  show "waits_end small_kernel 1" by (auto simp: waits_end_def small_kernel_def EINTR_def)
qed

theorem suspend_resume_witness:
  "\<exists>k2. ThreadsSuspend small_kernel 1 \<lparr>pd_pid = 5, pd_threads = [5, 9, 8, 6, 5], pd_threads_suspended = False\<rparr> ({}, {}) =
      Some (True, \<lparr>pd_pid = 5, pd_threads = [5, 8, 6], pd_threads_suspended = True\<rparr>, ({5, 6}, {5, 6})) \<and>
    ThreadsResume small_kernel \<lparr>pd_pid = 5, pd_threads = [5, 8, 6], pd_threads_suspended = True\<rparr> ({5, 6}, {5, 6}) =
      (False, \<lparr>pd_pid = 5, pd_threads = [5, 8, 6], pd_threads_suspended = False\<rparr>, k2) \<and> fst k2 = {}"
proof -
  let ?d = "\<lparr>pd_pid = 5, pd_threads = [5, 9, 8, 6, 5], pd_threads_suspended = False\<rparr>"
  have s: "suspend_loop small_kernel 1 0 [5, 9, 8, 6, 5] ({}, {}) = Some ([5, 8, 6], ({5, 6}, {5, 6}))"
    by (simp add: suspend_loop.simps SuspendThread_def small_kernel_def blit_def insert_commute) auto
  have sus: "\<not> pd_threads_suspended ?d" by simp
  have S: "ThreadsSuspend small_kernel 1 ?d ({}, {}) = Some (True, ?d\<lparr>pd_threads := [5, 8, 6], pd_threads_suspended := True\<rparr>, ({5, 6}, {5, 6}))"
    unfolding ThreadsSuspend_def by (simp add: s del: One_nat_def)
  let ?d1 = "?d\<lparr>pd_threads := [5, 8, 6], pd_threads_suspended := True\<rparr>"
  have r: "\<not> fst (ThreadsResume small_kernel ?d1 ({5, 6}, {5, 6}))" by (simp add: ThreadsResume_def ResumeThread_def small_kernel_def)
  obtain ts k1 good k2 where t: "ThreadsSuspend small_kernel 1 ?d ({}, {}) = Some (ts \<noteq> [], ?d\<lparr>pd_threads := ts, pd_threads_suspended := True\<rparr>, k1)"
    "ThreadsResume small_kernel (?d\<lparr>pd_threads := ts, pd_threads_suspended := True\<rparr>) k1 = (good, ?d\<lparr>pd_threads := ts\<rparr>, k2)" "fst k2 = {}"
    using suspend_resume [OF small_kernel_contract, of ?d "({}, {})", OF sus fst_conv] by blast
  have e: "ts = [5, 8, 6]" "k1 = ({5, 6}, {5, 6})" using t(1) unfolding S by simp_all
  have R: "ThreadsResume small_kernel ?d1 ({5, 6}, {5, 6}) = (good, ?d\<lparr>pd_threads := [5, 8, 6]\<rparr>, k2)" using t(2) unfolding e .
  have "\<not> good" using r unfolding R by simp
  then show ?thesis using S R t(3) by auto
qed

section \<open>Memory of the process\<close>

text \<open>\<open>peek\<close> is \<open>PTRACE_PEEKDATA\<close> on the thread: the word at an address, \<open>None\<close> for an error.\<close>

definition word_size :: nat where "word_size = 8"

function copy_loop :: "(u64 \<Rightarrow> u64 option) \<Rightarrow> u64 \<Rightarrow> nat \<Rightarrow> nat \<Rightarrow> bytes \<Rightarrow> bytes option" where
  "copy_loop peek src len at local =
     (if at < len then
        let l = (if len - at > word_size then word_size else len - at);
            tmp = (case peek (src + of_nat at) of None \<Rightarrow> 0 | Some v \<Rightarrow> v)
        in if at + l \<le> length local then copy_loop peek src len (at + l) (blit local at (take l (store_word tmp))) else None
      else Some local)"
  by pat_completeness auto
termination
  by (relation "measure (\<lambda>(peek, src, len, at, local). len - at)") (auto simp: word_size_def)

declare copy_loop.simps [simp del]

definition CopyFromProcess :: "(u32 \<Rightarrow> u64 \<Rightarrow> u64 option) \<Rightarrow> bytes \<Rightarrow> u32 \<Rightarrow> u64 \<Rightarrow> nat \<Rightarrow> (bool \<times> bytes) option" where
  "CopyFromProcess peek dest child src len = map_option (Pair True) (copy_loop (peek child) src len 0 dest)"

definition copied_byte :: "(u64 \<Rightarrow> u64 option) \<Rightarrow> u64 \<Rightarrow> nat \<Rightarrow> u8" where
  "copied_byte peek src i =
     (case peek (src + of_nat (8 * (i div 8))) of None \<Rightarrow> 0 | Some v \<Rightarrow> store_word v ! (i mod 8))"

lemma length_store_word [simp]: "length (store_word w) = 8"
  by (simp add: store_word_def)

lemma store_word_zero: "i < 8 \<Longrightarrow> store_word 0 ! i = 0"
  by (simp add: store_word_def)

lemma copy_loop_spec:
  assumes "at \<le> len" and "at = len \<or> 8 dvd at" and "len \<le> length local"
  shows "copy_loop peek src len at local = Some (blit local at (map (copied_byte peek src) [at..<len]))"
  using assms
proof (induction peek src len at local rule: copy_loop.induct)
  case (1 peek src len at local)
  show ?case
  proof (cases "at < len")
    case False
    then show ?thesis using "1.prems" by (subst copy_loop.simps) simp
  next
    case True
    let ?l = "if len - at > word_size then word_size else len - at"
    let ?tmp = "case peek (src + of_nat at) of None \<Rightarrow> 0 | Some v \<Rightarrow> v"
    have l: "0 < ?l" "?l \<le> 8" "at + ?l \<le> len" "at + ?l = len \<or> 8 dvd at + ?l"
      using True "1.prems"(2) by (auto simp: word_size_def)
    obtain q where q: "at = 8 * q" using "1.prems"(2) True by auto
    have b: "copied_byte peek src (at + j) = store_word ?tmp ! j" if "j < 8" for j
      using that by (auto simp: copied_byte_def q store_word_zero split: option.split)
    have word: "take ?l (store_word ?tmp) = map (copied_byte peek src) [at..<at + ?l]"
      using l(2) by (intro nth_equalityI) (auto simp: b)
    have "copy_loop peek src len at local = copy_loop peek src len (at + ?l) (blit local at (take ?l (store_word ?tmp)))"
      using True l(3) "1.prems"(3) by (subst copy_loop.simps) (simp add: Let_def)
    also have "\<dots> = Some (blit (blit local at (take ?l (store_word ?tmp))) (at + ?l) (map (copied_byte peek src) [at + ?l..<len]))"
      using "1.IH" [OF True refl refl _ l(3,4)] l "1.prems"(3) by simp
    also have "blit (blit local at (take ?l (store_word ?tmp))) (at + ?l) (map (copied_byte peek src) [at + ?l..<len]) =
        blit local at (map (copied_byte peek src) [at..<at + ?l] @ map (copied_byte peek src) [at + ?l..<len])"
      unfolding word using l(3) "1.prems"(3)
      by (intro nth_equalityI) (auto simp: nth_blit nth_append)
    also have "map (copied_byte peek src) [at..<at + ?l] @ map (copied_byte peek src) [at + ?l..<len] = map (copied_byte peek src) [at..<len]"
      using l(3) by (metis le_add1 le_add_diff_inverse map_append upt_add_eq_append)
    finally show ?thesis .
  qed
qed

text \<open>
  The memory of the process gives the byte at an address, \<open>None\<close> where nothing is mapped. A word can be read when all its bytes can; memory
  is mapped in units that are multiples of a word.
\<close>

definition peek_contract :: "(u64 \<Rightarrow> u64 option) \<Rightarrow> (u64 \<Rightarrow> u8 option) \<Rightarrow> bool" where
  "peek_contract peek mem \<longleftrightarrow>
     (\<forall>a. case peek a of
            None \<Rightarrow> \<exists>i<8. mem (a + of_nat i) = None
          | Some v \<Rightarrow> \<forall>i<8. mem (a + of_nat i) = Some (store_word v ! i))"

definition mapped_in_words :: "(u64 \<Rightarrow> u8 option) \<Rightarrow> bool" where
  "mapped_in_words mem \<longleftrightarrow> (\<forall>a b. unat a div 8 = unat b div 8 \<longrightarrow> (mem a = None \<longleftrightarrow> mem b = None))"

definition byte_or_zero :: "u8 option \<Rightarrow> u8" where
  "byte_or_zero b = (case b of None \<Rightarrow> 0 | Some v \<Rightarrow> v)"

lemma word_of_aligned:
  assumes "8 dvd unat (src :: u64)" and "j < 8"
  shows "unat (src + of_nat (8 * q + j)) div 8 = (unat src div 8 + q) mod 2 ^ 61"
proof -
  obtain m where m: "unat src = 8 * m" using assms(1) by auto
  have "src = of_nat (8 * m)" unfolding m [symmetric] by simp
  then have e: "src + of_nat (8 * q + j) = of_nat (8 * (m + q) + j)" by (simp add: algebra_simps)
  have "unat (src + of_nat (8 * q + j)) = (8 * (m + q) + j) mod (8 * 2 ^ 61)"
    unfolding e unsigned_of_nat by (simp add: take_bit_eq_mod)
  also have "\<dots> = 8 * ((8 * (m + q) + j) div 8 mod 2 ^ 61) + (8 * (m + q) + j) mod 8" by (rule mod_mult2_eq)
  finally have u: "unat (src + of_nat (8 * q + j)) = 8 * ((8 * (m + q) + j) div 8 mod 2 ^ 61) + (8 * (m + q) + j) mod 8" .
  have "(8 * (m + q) + j) div 8 = m + q" "(8 * (m + q) + j) mod 8 = j" using assms(2) by presburger+
  then show ?thesis unfolding u m using assms(2) by simp
qed

lemma copied_byte_memory:
  assumes "peek_contract peek mem" and "mapped_in_words mem" and "8 dvd unat src"
  shows "copied_byte peek src i = byte_or_zero (mem (src + of_nat i))"
proof -
  let ?q = "i div 8" and ?j = "i mod 8"
  have i: "i = 8 * ?q + ?j" by simp
  have a: "src + of_nat (8 * ?q) + of_nat j = src + of_nat (8 * ?q + j)" for j by simp
  have w: "unat (src + of_nat (8 * ?q + j)) div 8 = (unat src div 8 + ?q) mod 2 ^ 61" if "j < 8" for j
    using word_of_aligned [OF assms(3) that] .
  show ?thesis
  proof (cases "peek (src + of_nat (8 * ?q))")
    case None
    then obtain j where "j < 8" "mem (src + of_nat (8 * ?q + j)) = None"
      using assms(1) unfolding peek_contract_def a [symmetric] by (auto dest!: spec [of _ "src + of_nat (8 * ?q)"])
    then have "mem (src + of_nat (8 * ?q + ?j)) = None"
      using assms(2) w [of j] w [of ?j] unfolding mapped_in_words_def by (metis mod_less_divisor zero_less_numeral)
    then show ?thesis using None i by (simp add: copied_byte_def byte_or_zero_def)
  next
    case (Some v)
    then have "\<forall>j<8. mem (src + of_nat (8 * ?q + j)) = Some (store_word v ! j)"
      using assms(1) unfolding peek_contract_def a [symmetric] by (auto dest!: spec [of _ "src + of_nat (8 * ?q)"])
    then have "mem (src + of_nat (8 * ?q + ?j)) = Some (store_word v ! ?j)" using mod_less_divisor [of 8 i] by (metis zero_less_numeral)
    then show ?thesis using Some i by (simp add: copied_byte_def byte_or_zero_def)
  qed
qed

text \<open>
  C29. Copying memory from the process. From an address that is a multiple of the word size, \<open>CopyFromProcess\<close> fills the buffer with the bytes of
  the process, with zeros for those that cannot be read, also when the length is not a multiple of the word size; the
  rest of the buffer is left as it was.
\<close>

theorem CopyFromProcess_correct:
  assumes "peek_contract (peek child) mem" and "mapped_in_words mem" and "8 dvd unat src" and "len \<le> length dest"
  shows "CopyFromProcess peek dest child src len =
    Some (True, map (\<lambda>i. byte_or_zero (mem (src + of_nat i))) [0..<len] @ drop len dest)"
  using copy_loop_spec [of 0 len dest "peek child" src] assms copied_byte_memory [OF assms(1-3)]
  by (simp add: CopyFromProcess_def blit_def)

text \<open>A process with one mapped word.\<close>

definition small_memory :: "u64 \<Rightarrow> u8 option" where
  "small_memory a = (if unat a div 8 = 0x200 then Some (of_nat (unat a mod 8 + 1)) else None)"

definition small_peek :: "u32 \<Rightarrow> u64 \<Rightarrow> u64 option" where
  "small_peek child a = (if a = 0x1000 then Some 0x0807060504030201 else None)"

lemma small_peek_contract: "peek_contract (small_peek child) small_memory" "mapped_in_words small_memory"
proof -
  have w: "store_word 0x0807060504030201 = [1, 2, 3, 4, 5, 6, 7, 8]" by (simp add: store_word_def upt_rec)
  have n8: "i < 8 \<Longrightarrow> i = 0 \<or> i = 1 \<or> i = 2 \<or> i = 3 \<or> i = 4 \<or> i = 5 \<or> i = 6 \<or> i = 7" for i :: nat by auto
  have "\<exists>i<8. small_memory (a + of_nat i) = None" if "a \<noteq> 0x1000" for a
  proof (cases "unat a div 8 = 0x200")
    case True
    have "unat a \<noteq> 0x1000" using that by (auto simp: word_unat_eq_iff)
    then have "0x1000 < unat a" "unat a < 0x1008" using True by auto
    moreover from this have "unat (a + 7) = unat a + 7" by (simp add: unat_plus_if')
    ultimately have "small_memory (a + of_nat 7) = None" by (simp add: small_memory_def)
    then show ?thesis by (intro exI [of _ 7]) simp
  qed (auto simp: small_memory_def intro!: exI [of _ 0])
  moreover have "\<forall>i<8. small_memory (0x1000 + of_nat i) = Some (store_word 0x0807060504030201 ! i)"
    by (auto dest!: n8 simp: w small_memory_def)
  ultimately show "peek_contract (small_peek child) small_memory" by (auto simp: peek_contract_def small_peek_def)
  show "mapped_in_words small_memory" by (auto simp: mapped_in_words_def small_memory_def)
qed

theorem CopyFromProcess_correct_witness:
  "CopyFromProcess small_peek [9, 9, 9, 9, 9, 9, 9, 9, 9, 9, 9, 9] 1 0x1000 10 = Some (True, [1, 2, 3, 4, 5, 6, 7, 8, 0, 0, 9, 9])"
  using CopyFromProcess_correct [OF small_peek_contract, where src = "0x1000" and len = 10 and child = 1 and dest = "[9, 9, 9, 9, 9, 9, 9, 9, 9, 9, 9, 9]"]
  by (simp add: small_memory_def byte_or_zero_def upt_rec)

text \<open>
  A word that reaches into unmapped memory is read as zero as a whole: from an address that is not a multiple of 8, up to seven bytes before
  the end of the mapped memory are lost.
\<close>

lemma unaligned_tail_lost:
  "CopyFromProcess small_peek [9, 9, 9, 9] 1 0x1004 4 = Some (True, [0, 0, 0, 0])" "small_memory 0x1004 = Some 5"
  by (simp_all add: CopyFromProcess_def copy_loop.simps word_size_def small_peek_def small_memory_def store_word_def blit_def upt_rec)

section \<open>Information about a thread\<close>

record thread_info =
  ti_tgid :: u32
  ti_ppid :: u32
  ti_regs :: user_regs_arm64
  ti_fpregs :: user_fpsimd
  ti_stack_pointer :: u64

definition GetInstructionPointer :: "thread_info \<Rightarrow> u64" where
  "GetInstructionPointer info = ur_pc (ti_regs info)"

text \<open>\<open>getregset\<close> is \<open>PTRACE_GETREGSET\<close> for the two register sets. aarch64 has no \<open>PTRACE_GETREGS\<close>.\<close>

definition ReadRegisterSet ::
  "(u32 \<Rightarrow> user_regs_arm64 option) \<times> (u32 \<Rightarrow> user_fpsimd option) \<Rightarrow> thread_info \<Rightarrow> u32 \<Rightarrow> bool \<times> thread_info" where
  "ReadRegisterSet getregset info tid =
     (case fst getregset tid of
        None \<Rightarrow> (False, info)
      | Some regs \<Rightarrow>
          (case snd getregset tid of
             None \<Rightarrow> (False, info\<lparr>ti_regs := regs\<rparr>)
           | Some fpregs \<Rightarrow> (True, info\<lparr>ti_regs := regs, ti_fpregs := fpregs\<rparr>)))"

definition ReadRegisters :: "thread_info \<Rightarrow> u32 \<Rightarrow> bool" where
  "ReadRegisters info tid = False"

definition Tgid_tag :: bytes where "Tgid_tag = chars ''Tgid:'' @ [9, 0]"
definition PPid_tag :: bytes where "PPid_tag = chars ''PPid:'' @ [9, 0]"

text \<open>The body of the loop over the lines; \<open>line\<close> has its NUL.\<close>

definition status_line :: "bool \<Rightarrow> bytes \<Rightarrow> thread_info \<Rightarrow> thread_info option" where
  "status_line sg line info =
     do {
       r \<leftarrow> my_strncmp sg Tgid_tag line 6;
       if r = 0 then do {
         v \<leftarrow> my_strtoui (drop 6 line);
         Some (case v of None \<Rightarrow> info | Some n \<Rightarrow> info\<lparr>ti_tgid := n\<rparr>)
       } else do {
         r \<leftarrow> my_strncmp sg PPid_tag line 6;
         if r = 0 then do {
           v \<leftarrow> my_strtoui (drop 6 line);
           Some (case v of None \<Rightarrow> info | Some n \<Rightarrow> info\<lparr>ti_ppid := n\<rparr>)
         } else Some info
       }
     }"

fun status_loop ::
  "('s \<Rightarrow> (bytes option \<times> 's) option) \<Rightarrow> (nat \<Rightarrow> 's \<Rightarrow> 's option) \<Rightarrow> bool \<Rightarrow> nat \<Rightarrow> thread_info \<Rightarrow> 's \<Rightarrow> (thread_info \<times> 's) option" where
  "status_loop get pop sg 0 info s = None"
| "status_loop get pop sg (Suc fuel) info s =
     do {
       (res, s) \<leftarrow> get s;
       (case res of
          None \<Rightarrow> Some (info, s)
        | Some l \<Rightarrow> do {
            info \<leftarrow> status_line sg (l @ [0]) info;
            s \<leftarrow> pop (length l) s;
            status_loop get pop sg fuel info s
          })
     }"

definition GetThreadInfoByIndex ::
  "bool \<Rightarrow> nat \<Rightarrow> (bytes \<Rightarrow> 's option) \<Rightarrow> ('s \<Rightarrow> (bytes option \<times> 's) option) \<Rightarrow> (nat \<Rightarrow> 's \<Rightarrow> 's option) \<Rightarrow>
   (u32 \<Rightarrow> user_regs_arm64 option) \<times> (u32 \<Rightarrow> user_fpsimd option) \<Rightarrow> bytes \<Rightarrow> ptrace_dumper \<Rightarrow> nat \<Rightarrow> thread_info \<Rightarrow>
   (bool \<times> thread_info) option" where
  "GetThreadInfoByIndex sg fuel open_reader get pop getregset path d index info =
     (if length (pd_threads d) \<le> index then Some (False, info)
      else
        let tid = pd_threads d ! index
        in do {
          (built, status_path) \<leftarrow> BuildProcPath path (sint tid) (chars ''status'' @ [0]);
          if \<not> built then Some (False, info)
          else
            (case open_reader (cstr status_path) of
               None \<Rightarrow> Some (False, info)
             | Some s \<Rightarrow>
                 do {
                   (info, s) \<leftarrow> status_loop get pop sg fuel (info\<lparr>ti_ppid := -1, ti_tgid := -1\<rparr>) s;
                   if ti_ppid info = -1 \<or> ti_tgid info = -1 then Some (False, info)
                   else
                     let (ok, info) = ReadRegisterSet getregset info tid
                     in if \<not> ok \<and> \<not> ReadRegisters info tid then Some (False, info)
                        else Some (True, info\<lparr>ti_stack_pointer := ur_sp (ti_regs info)\<rparr>)
                 })
        })"

text \<open>The last line with the tag and a number decides.\<close>

definition status_of :: "bytes \<Rightarrow> bytes list \<Rightarrow> u32 \<Rightarrow> u32" where
  "status_of tag ls v =
     fold (\<lambda>l v. if take 6 l = cstr tag then (case my_strtoui (drop 6 l @ [0]) of Some (Some n) \<Rightarrow> n | _ \<Rightarrow> v) else v) ls v"

lemma my_strtoui_from_total: "nul_terminated s \<Longrightarrow> my_strtoui_from s r \<noteq> None"
  by (induction s r rule: my_strtoui_from.induct) (auto simp: nul_terminated_def Let_def)

lemma my_strtoui_total: "nul_terminated s \<Longrightarrow> \<exists>v. my_strtoui s = Some v"
  using my_strtoui_from_total [of s 0] by (auto simp: my_strtoui_def nul_terminated_def split: list.splits)

lemma status_line_spec:
  assumes "0 \<notin> set l"
  shows "status_line sg (l @ [0]) info =
    Some (info\<lparr>ti_tgid := status_of Tgid_tag [l] (ti_tgid info), ti_ppid := status_of PPid_tag [l] (ti_ppid info)\<rparr>)"
proof -
  have n: "nul_terminated Tgid_tag" "nul_terminated PPid_tag" "nul_terminated (l @ [0])"
    by (simp_all add: Tgid_tag_def PPid_tag_def nul_terminated_def)
  have c: "cstr (l @ [0]) = l" using assms cstr_terminated [of l "[]"] by simp
  have len: "length (cstr Tgid_tag) = 6" "length (cstr PPid_tag) = 6" by (simp_all add: Tgid_tag_def PPid_tag_def chars_def)
  have dt: "cstr Tgid_tag \<noteq> cstr PPid_tag" by (simp add: Tgid_tag_def PPid_tag_def chars_def)
  obtain r1 where r1: "my_strncmp sg Tgid_tag (l @ [0]) 6 = Some r1" "r1 = 0 \<longleftrightarrow> take 6 l = cstr Tgid_tag"
    using my_strncmp_total [of Tgid_tag 6 "l @ [0]" sg] my_strncmp_zero_iff [of Tgid_tag 6 "l @ [0]" sg] n len c by auto
  obtain r2 where r2: "my_strncmp sg PPid_tag (l @ [0]) 6 = Some r2" "r2 = 0 \<longleftrightarrow> take 6 l = cstr PPid_tag"
    using my_strncmp_total [of PPid_tag 6 "l @ [0]" sg] my_strncmp_zero_iff [of PPid_tag 6 "l @ [0]" sg] n len c by auto
  have d: "drop 6 (l @ [0]) = drop 6 l @ [0]" if "take 6 l = cstr Tgid_tag \<or> take 6 l = cstr PPid_tag"
    using that len by (metis drop_append drop_0 length_take min_def diff_is_0_eq nle_le)
  obtain v where v: "my_strtoui (drop 6 l @ [0]) = Some v"
    using my_strtoui_total [of "drop 6 l @ [0]"] by (auto simp: nul_terminated_def)
  show ?thesis
    using r1 r2 d v dt by (auto simp: status_line_def status_of_def split: option.splits)
qed

context line_source
begin

lemma status_loop_spec:
  assumes "invar s" and "reliable s" and "\<forall>l\<in>set (lines_of (rest s)). length l < kMaxLineLen"
    and "length (lines_of (rest s)) < fuel"
  shows "\<exists>s'. status_loop get pop sg fuel info s =
    Some (info\<lparr>ti_tgid := status_of Tgid_tag (lines_of (rest s)) (ti_tgid info),
               ti_ppid := status_of PPid_tag (lines_of (rest s)) (ti_ppid info)\<rparr>, s')"
  using assms
proof (induction fuel arbitrary: s info)
  case (Suc fuel)
  obtain res s1 where g: "get s = Some (res, s1)" using get_total Suc.prems(1) by blast
  show ?case
  proof (cases res)
    case None
    have "rest s = []"
    proof (rule ccontr)
      assume ne: "rest s \<noteq> []"
      then have "first_line (rest s) \<in> set (lines_of (rest s))" by (subst lines_of.simps) simp
      with get_end [OF Suc.prems(1,2)] g None ne Suc.prems(3) show False by fastforce
    qed
    with g None show ?thesis by (simp add: lines_of.simps status_of_def)
  next
    case (Some l)
    have gl: "rest s \<noteq> []" "l = first_line (rest s)" "ready (length l) s1" "rest s1 = l @ 0 # after_line (rest s)"
      using get_line [OF Suc.prems(1) g [unfolded Some]] by auto
    have ls: "lines_of (rest s) = l # lines_of (after_line (rest s))" using gl by (subst lines_of.simps) simp
    obtain s2 where p: "pop (length l) s1 = Some s2" "invar s2" "rest s2 = after_line (rest s)" "reliable s2"
      using pop_line [of s1 l] gl get_invar [OF Suc.prems(1) g] Suc.prems(2) by blast
    have "0 \<notin> set l" using first_line_no_eol [of 0 "rest s"] gl(2) by (auto simp: is_eol_def)
    note line = status_line_spec [OF this, of sg info]
    let ?info = "info\<lparr>ti_tgid := status_of Tgid_tag [l] (ti_tgid info), ti_ppid := status_of PPid_tag [l] (ti_ppid info)\<rparr>"
    have split: "status_of tag (l # ls) v = status_of tag ls (status_of tag [l] v)" for tag ls v by (simp add: status_of_def)
    obtain s' where "status_loop get pop sg fuel ?info s2 =
      Some (?info\<lparr>ti_tgid := status_of Tgid_tag (lines_of (rest s2)) (ti_tgid ?info),
               ti_ppid := status_of PPid_tag (lines_of (rest s2)) (ti_ppid ?info)\<rparr>, s')"
      using Suc.IH [OF p(2,4), of ?info] Suc.prems(3,4) ls p(3) by auto
    then show ?thesis using g Some p line by (simp add: ls split [of _ "lines_of (after_line (rest s))"])
  qed
qed simp

end

text \<open>What is known of a thread, when its status file has both numbers and both register sets can be read.\<close>

lemma GetThreadInfoByIndex_correct:
  assumes "index < length (pd_threads d)" and "tid = pd_threads d ! index" and "0 < sint tid" and "length path = NAME_MAX"
    and "open_reader (chars ''/proc/'' @ dec_digits (my_uint_len (nat (sint tid))) (nat (sint tid)) @ chars ''/status'') = Some s"
    and "lrs_invar s" and "lrs_reliable s" and "ls = lines_of (lrs_rest s)" and "\<forall>l\<in>set ls. length l < kMaxLineLen" and "length ls < fuel"
    and "status_of Tgid_tag ls (-1) \<noteq> -1" and "status_of PPid_tag ls (-1) \<noteq> -1"
    and "fst getregset tid = Some regs" and "snd getregset tid = Some fpregs"
  shows "GetThreadInfoByIndex sg fuel open_reader lrs_get lrs_pop getregset path d index info =
    Some (True, info\<lparr>ti_tgid := status_of Tgid_tag ls (-1), ti_ppid := status_of PPid_tag ls (-1), ti_regs := regs, ti_fpregs := fpregs,
      ti_stack_pointer := ur_sp regs\<rparr>)"
proof -
  let ?node = "chars ''status'' @ [0]"
  have "sint tid < 2 ^ 31" using sint_lt [of tid] by simp
  then have "my_uint_len (nat (sint tid)) \<le> 10" using assms(3) by (intro my_uint_len_le) auto
  then obtain p where p: "BuildProcPath path (sint tid) ?node = Some (True, p)"
      "cstr p = chars ''/proc/'' @ dec_digits (my_uint_len (nat (sint tid))) (nat (sint tid)) @ chars ''/status''"
    using BuildProcPath_correct [of ?node "sint tid" path] assms(3,4) by (auto simp: chars_def NAME_MAX_def)
  obtain s' where "status_loop lrs_get lrs_pop sg fuel (info\<lparr>ti_ppid := -1, ti_tgid := -1\<rparr>) s =
      Some ((info\<lparr>ti_ppid := -1, ti_tgid := -1\<rparr>)\<lparr>ti_tgid := status_of Tgid_tag ls (-1), ti_ppid := status_of PPid_tag ls (-1)\<rparr>, s')"
    using lrs.status_loop_spec [OF assms(6,7), of fuel sg "info\<lparr>ti_ppid := -1, ti_tgid := -1\<rparr>"] assms(8-10) by auto
  then show ?thesis
    using assms(1,2,5,11-14) p by (simp add: GetThreadInfoByIndex_def ReadRegisterSet_def Let_def)
qed

section \<open>The interface to the memory of the process\<close>

text \<open>
  What the writer of a minidump relies on in \<open>CopyFromProcess\<close>: it fills the whole buffer, and from an aligned address with the memory of
  the process. It is provided by the dumper over \<open>ptrace\<close>: \<open>peek_of\<close> is \<open>PTRACE_PEEKDATA\<close> on a memory.
\<close>

locale process_copy =
  fixes copy :: "u32 \<Rightarrow> u64 \<Rightarrow> nat \<Rightarrow> bool \<times> bytes" and mem :: "u64 \<Rightarrow> u8 option"
  assumes copy_length: "length (snd (copy tid a n)) = n"
    and copy_aligned: "mapped_in_words mem \<Longrightarrow> 8 dvd unat a \<Longrightarrow> snd (copy tid a n) = map (\<lambda>i. byte_or_zero (mem (a + of_nat i))) [0..<n]"

definition peek_of :: "(u64 \<Rightarrow> u8 option) \<Rightarrow> u32 \<Rightarrow> u64 \<Rightarrow> u64 option" where
  "peek_of mem tid a =
     (let bs = map (\<lambda>i. mem (a + of_nat i)) [0..<8] in if None \<in> set bs then None else Some (load_word (map the bs)))"

definition ptrace_copy :: "(u32 \<Rightarrow> u64 \<Rightarrow> u64 option) \<Rightarrow> u32 \<Rightarrow> u64 \<Rightarrow> nat \<Rightarrow> bool \<times> bytes" where
  "ptrace_copy peek tid a n = the (CopyFromProcess peek (replicate n 0) tid a n)"

lemma nth_le_nat: "i < length bs \<Longrightarrow> of_nat (le_nat bs div 256 ^ i) = bs ! i"
proof (induction bs arbitrary: i)
  case (Cons b bs)
  have b: "unat b < 256" using unsigned_less [of b, where ?'a = nat] by simp
  show ?case
  proof (cases i)
    case 0
    have "(256 :: u8) = 0" by (rule word_unat_eq_iff [THEN iffD2]) simp
    then have "of_nat (256 * le_nat bs) = (0 :: u8)" by (simp only: of_nat_mult of_nat_numeral mult_zero_left)
    then show ?thesis using 0 by simp
  next
    case (Suc j)
    have "(unat b + 256 * le_nat bs) div 256 ^ Suc j = le_nat bs div 256 ^ j"
      using b by (simp add: div_mult2_eq)
    then show ?thesis using Suc Cons by simp
  qed
qed simp

lemma le_nat_less: "le_nat bs < 256 ^ length bs"
proof (induction bs)
  case (Cons b bs)
  have "unat b < 256" using unsigned_less [of b, where ?'a = nat] by simp
  then show ?case using Cons by simp
qed simp

lemma store_load_word: "length bs = 8 \<Longrightarrow> store_word (load_word bs) = bs"
proof (rule nth_equalityI)
  fix i
  assume len: "length bs = 8" and "i < length (store_word (load_word bs))"
  then have i: "i < 8" by simp
  have "le_nat bs < 2 ^ 64" using le_nat_less [of bs] len by simp
  then have "unat (load_word bs) = le_nat bs" by (simp add: load_word_def unsigned_of_nat take_bit_nat_eq_self_iff)
  then have "unat (drop_bit (8 * i) (load_word bs)) = le_nat bs div 256 ^ i"
    unfolding unat_drop_bit_eq by (simp add: drop_bit_eq_div power_mult)
  then have "(ucast (drop_bit (8 * i) (load_word bs)) :: u8) = of_nat (le_nat bs div 256 ^ i)"
    by (metis of_nat_unat)
  then show "store_word (load_word bs) ! i = bs ! i" using i len nth_le_nat [of i bs] by (simp add: store_word_def)
qed simp

lemma peek_of_contract: "peek_contract (peek_of mem tid) mem"
proof -
  have "\<forall>i<8. mem (a + of_nat i) = Some (store_word v ! i)" if "peek_of mem tid a = Some v" for a v
  proof (intro allI impI)
    fix i :: nat
    assume i: "i < 8"
    have all: "None \<notin> set (map (\<lambda>i. mem (a + of_nat i)) [0..<8])" and v: "v = load_word (map the (map (\<lambda>i. mem (a + of_nat i)) [0..<8]))"
      using that unfolding peek_of_def Let_def by (auto simp del: upt_conv_Cons split: if_splits)
    have "store_word v = map the (map (\<lambda>i. mem (a + of_nat i)) [0..<8])" unfolding v by (rule store_load_word) simp
    then have "store_word v ! i = the (mem (a + of_nat i))" using i by simp
    moreover have "mem (a + of_nat i) \<noteq> None" using all i by force
    ultimately show "mem (a + of_nat i) = Some (store_word v ! i)" by auto
  qed
  moreover have "\<exists>i<8. mem (a + of_nat i) = None" if "peek_of mem tid a = None" for a
    using that unfolding peek_of_def Let_def by (force split: if_splits)
  ultimately show ?thesis unfolding peek_contract_def by (auto split: option.split)
qed

lemma ptrace_copy_spec: "ptrace_copy peek tid a n = (True, map (copied_byte (peek tid) a) [0..<n])"
  using copy_loop_spec [of 0 n "replicate n 0" "peek tid" a] by (simp add: ptrace_copy_def CopyFromProcess_def blit_def)

interpretation pc: process_copy "ptrace_copy (peek_of mem)" mem for mem
proof
  show "length (snd (ptrace_copy (peek_of mem) tid a n)) = n" for tid a n by (simp add: ptrace_copy_spec)
  show "snd (ptrace_copy (peek_of mem) tid a n) = map (\<lambda>i. byte_or_zero (mem (a + of_nat i))) [0..<n]"
    if "mapped_in_words mem" "8 dvd unat a" for tid a n
    using copied_byte_memory [OF peek_of_contract that] by (simp add: ptrace_copy_spec)
qed

end
