(* ===== verification/Cpu_Info.thy ===== *)
theory Cpu_Info
  imports Cpu_Set Linux_Dumper Minidump_Format
begin

text \<open>
  \<^verbatim>\<open>client/linux/minidump_writer/proc_cpuinfo_reader.h\<close> and its client \<open>WriteCPUInformation\<close> of \<^verbatim>\<open>minidump_writer.cc\<close>, as compiled for
  ARM and aarch64: the fields of \<^verbatim>\<open>/proc/cpuinfo\<close> and what the minidump says of the processor.
\<close>

section \<open>The reader of fields\<close>

text \<open>\<open>pop_count_\<close> is \<open>None\<close> for \<open>-1\<close>; \<open>value_\<close> is an index into the buffer of the line reader.\<close>

record cpuinfo_reader =
  cr_line_reader :: line_reader
  cr_pop_count :: "nat option"
  cr_value :: nat
  cr_value_len :: nat

definition ProcCpuInfoReader :: "bytes \<Rightarrow> cpuinfo_reader" where
  "ProcCpuInfoReader garbage =
     \<lparr>cr_line_reader = LineReader garbage, cr_pop_count = None, cr_value = 0, cr_value_len = 0\<rparr>"

text \<open>What one line gives: nothing, or where the name ends and where the value starts.\<close>

definition split_field :: "bool \<Rightarrow> bytes \<Rightarrow> nat \<Rightarrow> (nat \<times> nat) option option" where
  "split_field sg line line_len =
     do {
       sep \<leftarrow> my_memchr line 58 line_len;
       Some (case sep of
               None \<Rightarrow> None
             | Some k \<Rightarrow>
                 let val = skip_space sg line (k + 1) line_len;
                     sep = trim_space sg line 0 k
                 in if sep = 0 then None else Some (sep, val))
     }"

text \<open>\<open>GetNextField\<close>, with fuel for the lines it skips; the name is the string at the start of the buffer.\<close>

fun GetNextField :: "bool \<Rightarrow> 'f read_call \<Rightarrow> nat \<Rightarrow> 'f \<Rightarrow> cpuinfo_reader \<Rightarrow> (bool \<times> cpuinfo_reader \<times> 'f) option" where
  "GetNextField sg sys_read 0 f r = None"
| "GetNextField sg sys_read (Suc fuel) f r =
     do {
       lr \<leftarrow> (case cr_pop_count r of None \<Rightarrow> Some (cr_line_reader r) | Some n \<Rightarrow> PopLine n (cr_line_reader r));
       (res, lr, f) \<leftarrow> GetNextLine sys_read f lr;
       (case res of
          None \<Rightarrow> Some (False, r\<lparr>cr_line_reader := lr, cr_pop_count := None\<rparr>, f)
        | Some line_len \<Rightarrow>
            do {
              field \<leftarrow> split_field sg (lr_buf lr) line_len;
              (case field of
                 None \<Rightarrow> GetNextField sg sys_read fuel f (r\<lparr>cr_line_reader := lr, cr_pop_count := Some line_len\<rparr>)
               | Some (sep, val) \<Rightarrow>
                   Some (True, \<lparr>cr_line_reader = lr\<lparr>lr_buf := (lr_buf lr)[sep := 0]\<rparr>, cr_pop_count = Some line_len,
                                cr_value = val, cr_value_len = line_len - val\<rparr>, f))
            })
     }"

definition GetValue :: "cpuinfo_reader \<Rightarrow> bytes" where
  "GetValue r = drop (cr_value r) (lr_buf (cr_line_reader r))"

section \<open>The processor\<close>

record sys_info =
  si_processor_architecture :: u16
  si_processor_level :: u16
  si_processor_revision :: u16
  si_number_of_processors :: u8
  si_platform_id :: u32
  si_csd_version_rva :: u32
  si_cpuid :: u32
  si_elf_hwcaps :: u32

record cpu_id_entry =
  ce_field :: string
  ce_hex :: bool
  ce_bit_lshift :: nat
  ce_bit_length :: nat

definition cpu_id_entries :: "cpu_id_entry list" where
  "cpu_id_entries =
     [\<lparr>ce_field = ''CPU implementer'', ce_hex = True, ce_bit_lshift = 24, ce_bit_length = 8\<rparr>,
      \<lparr>ce_field = ''CPU variant'', ce_hex = True, ce_bit_lshift = 20, ce_bit_length = 4\<rparr>,
      \<lparr>ce_field = ''CPU part'', ce_hex = True, ce_bit_lshift = 4, ce_bit_length = 12\<rparr>,
      \<lparr>ce_field = ''CPU revision'', ce_hex = False, ce_bit_lshift = 0, ce_bit_length = 4\<rparr>]"

definition hwcap :: "string \<Rightarrow> u32" where
  "hwcap s = of_nat (the (map_of MDCPUInformationARMElfHwCaps s))"

definition cpu_features_entries :: "(string \<times> u32) list" where
  "cpu_features_entries =
     [(''swp'', hwcap ''MD_CPU_ARM_ELF_HWCAP_SWP''), (''half'', hwcap ''MD_CPU_ARM_ELF_HWCAP_HALF''),
      (''thumb'', hwcap ''MD_CPU_ARM_ELF_HWCAP_THUMB''), (''26bit'', hwcap ''MD_CPU_ARM_ELF_HWCAP_26BIT''),
      (''fastmult'', hwcap ''MD_CPU_ARM_ELF_HWCAP_FAST_MULT''), (''fpa'', hwcap ''MD_CPU_ARM_ELF_HWCAP_FPA''),
      (''vfp'', hwcap ''MD_CPU_ARM_ELF_HWCAP_VFP''), (''edsp'', hwcap ''MD_CPU_ARM_ELF_HWCAP_EDSP''),
      (''java'', hwcap ''MD_CPU_ARM_ELF_HWCAP_JAVA''), (''iwmmxt'', hwcap ''MD_CPU_ARM_ELF_HWCAP_IWMMXT''),
      (''crunch'', hwcap ''MD_CPU_ARM_ELF_HWCAP_CRUNCH''), (''thumbee'', hwcap ''MD_CPU_ARM_ELF_HWCAP_THUMBEE''),
      (''neon'', hwcap ''MD_CPU_ARM_ELF_HWCAP_NEON''), (''vfpv3'', hwcap ''MD_CPU_ARM_ELF_HWCAP_VFPv3''),
      (''vfpv3d16'', hwcap ''MD_CPU_ARM_ELF_HWCAP_VFPv3D16''), (''tls'', hwcap ''MD_CPU_ARM_ELF_HWCAP_TLS''),
      (''vfpv4'', hwcap ''MD_CPU_ARM_ELF_HWCAP_VFPv4''), (''idiva'', hwcap ''MD_CPU_ARM_ELF_HWCAP_IDIVA''),
      (''idivt'', hwcap ''MD_CPU_ARM_ELF_HWCAP_IDIVT''),
      (''idiv'', hwcap ''MD_CPU_ARM_ELF_HWCAP_IDIVA'' OR hwcap ''MD_CPU_ARM_ELF_HWCAP_IDIVT'')]"

text \<open>The value of an entry: the parser used and the number of characters it read.\<close>

definition read_id_value :: "cpu_id_entry \<Rightarrow> bytes \<Rightarrow> (u64 \<times> nat) option" where
  "read_id_value e val =
     do {
       c0 \<leftarrow> rd val 0;
       prefixed \<leftarrow> (if c0 = 48 then map_option (\<lambda>c1. c1 = 120) (rd val 1) else Some False);
       if prefixed then map_option (map_prod id ((+) 2)) (my_read_hex_ptr (drop 2 val))
       else if ce_hex e then my_read_hex_ptr val
       else my_read_decimal_ptr val
     }"

definition id_bits :: "cpu_id_entry \<Rightarrow> u64 \<Rightarrow> u32" where
  "id_bits e result = ucast (push_bit (ce_bit_lshift e) (result AND mask (ce_bit_length e)))"

fun read_ids :: "bool \<Rightarrow> cpu_id_entry list \<Rightarrow> bytes \<Rightarrow> bytes \<Rightarrow> sys_info \<Rightarrow> sys_info option" where
  "read_ids sg [] field val si = Some si"
| "read_ids sg (e # es) field val si =
     do {
       c \<leftarrow> my_strcmp sg (chars (ce_field e) @ [0]) field;
       if c \<noteq> 0 then read_ids sg es field val si
       else do {
         (result, n) \<leftarrow> read_id_value e val;
         read_ids sg es field val (if n = 0 then si else si\<lparr>si_cpuid := si_cpuid si OR id_bits e result\<rparr>)
       }
     }"

text \<open>\<open>Features\<close>: the tags of the value, from \<open>v\<close>, with \<open>value_len\<close> characters left.\<close>

function read_features :: "(string \<times> u32) list \<Rightarrow> bytes \<Rightarrow> nat \<Rightarrow> u32 \<Rightarrow> u32 option" where
  "read_features entries v value_len caps =
     (if 0 < value_len then
        (case my_strchr v 32 of
           None \<Rightarrow> None
         | Some found \<Rightarrow>
             let tag = (case found of None \<Rightarrow> cstr v | Some p \<Rightarrow> take p v);
                 caps' = (case find (\<lambda>(t, _). chars t = tag) entries of None \<Rightarrow> caps | Some (_, h) \<Rightarrow> caps OR h)
             in (case found of
                   None \<Rightarrow> Some caps'
                 | Some p \<Rightarrow> read_features entries (drop (p + 1) v) (value_len - (p + 1)) caps'))
      else Some caps)"
  by pat_completeness auto
termination
  by (relation "measure (\<lambda>(entries, v, value_len, caps). value_len)") auto

declare read_features.simps [simp del]

text \<open>\<open>Processor\<close> on ARM: the number after \<open>(v\<close> at the end of the value.\<close>

fun last_paren :: "bytes \<Rightarrow> nat \<Rightarrow> nat" where
  "last_paren v 0 = 0"
| "last_paren v (Suc nn) = (if v ! nn \<noteq> 40 then last_paren v nn else Suc nn)"

definition arm_level :: "bool \<Rightarrow> bytes \<Rightarrow> nat \<Rightarrow> u16 \<Rightarrow> u16 option" where
  "arm_level sg v value_len level =
     (let nn = last_paren v (trim_space sg v 0 value_len)
      in if 0 < nn then do {
           c \<leftarrow> rd v nn;
           if c = 118 then map_option (\<lambda>(l, n). ucast (l :: u64)) (my_read_decimal_ptr (drop (nn + 1) v))
           else Some level
         } else Some level)"

text \<open>One field, on ARM (\<open>arm\<close>) or aarch64. A \<open>continue\<close> of the source ends the round.\<close>

definition read_field :: "bool \<Rightarrow> bool \<Rightarrow> bytes \<Rightarrow> bytes \<Rightarrow> nat \<Rightarrow> sys_info \<Rightarrow> sys_info option" where
  "read_field arm sg field val value_len si =
     do {
       si \<leftarrow> read_ids sg cpu_id_entries field val si;
       c \<leftarrow> my_strcmp sg field (chars (if arm then ''Processor'' else ''CPU architecture'') @ [0]);
       (si, next) \<leftarrow>
         (if c \<noteq> 0 then Some (si, False)
          else if arm then map_option (\<lambda>l. (si\<lparr>si_processor_level := l\<rparr>, False)) (arm_level sg val value_len (si_processor_level si))
          else map_option (\<lambda>(l, n). if n = 0 then (si, True) else (si\<lparr>si_processor_level := ucast (l :: u64)\<rparr>, False))
                 (my_read_decimal_ptr val));
       if next then Some si
       else do {
         c \<leftarrow> my_strcmp sg field (chars ''Features'' @ [0]);
         if c \<noteq> 0 then Some si
         else map_option (\<lambda>h. si\<lparr>si_elf_hwcaps := h\<rparr>)
                (read_features (if arm then cpu_features_entries else []) val value_len (si_elf_hwcaps si))
       }
     }"

fun read_fields :: "bool \<Rightarrow> bool \<Rightarrow> 'f read_call \<Rightarrow> nat \<Rightarrow> 'f \<Rightarrow> cpuinfo_reader \<Rightarrow> sys_info \<Rightarrow> sys_info option" where
  "read_fields arm sg sys_read 0 f r si = None"
| "read_fields arm sg sys_read (Suc fuel) f r si =
     do {
       (more, r, f) \<leftarrow> GetNextField sg sys_read (Suc fuel) f r;
       if \<not> more then Some si
       else do {
         si \<leftarrow> read_field arm sg (lr_buf (cr_line_reader r)) (GetValue r) (cr_value_len r) si;
         read_fields arm sg sys_read fuel f r si
       }
     }"

definition count_cpus :: "bool \<Rightarrow> bytes \<Rightarrow> bytes option option \<Rightarrow> bytes option option \<Rightarrow> u8 \<Rightarrow> u8 option" where
  "count_cpus sg garbage present possible n =
     (case present of
        None \<Rightarrow> Some n
      | Some res \<Rightarrow>
          do {
            (_, cpus_present) \<leftarrow> ParseSysFile sg garbage res CpuSet;
            (case possible of
               None \<Rightarrow> Some n
             | Some res \<Rightarrow>
                 do {
                   (_, cpus_possible) \<leftarrow> ParseSysFile sg garbage res CpuSet;
                   let cpu_count = CpuSet_GetCount (IntersectWith cpus_present cpus_possible);
                   Some (of_nat (if 255 < cpu_count then 255 else cpu_count))
                 })
          })"

definition cpu_architecture :: "string \<Rightarrow> u16" where
  "cpu_architecture s = of_nat (the (map_of MDCPUArchitecture s))"

text \<open>
  \<open>present\<close> and \<open>possible\<close> are the two files of sysfs: \<open>None\<close> when they cannot be opened, else what \<open>read\<close> returned; \<open>cpuinfo\<close> is the
  open file, if there is one. The result is always true.
\<close>

definition WriteCPUInformation ::
  "bool \<Rightarrow> bool \<Rightarrow> bytes \<Rightarrow> bytes option option \<Rightarrow> bytes option option \<Rightarrow> 'f read_call \<Rightarrow> nat \<Rightarrow> 'f option \<Rightarrow> sys_info \<Rightarrow> sys_info option" where
  "WriteCPUInformation arm sg garbage present possible sys_read fuel cpuinfo si =
     do {
       let si = si\<lparr>si_processor_architecture :=
                     cpu_architecture (if arm then ''MD_CPU_ARCHITECTURE_ARM'' else ''MD_CPU_ARCHITECTURE_ARM64_OLD''),
                   si_number_of_processors := 0, si_processor_level := 1, si_processor_revision := 42, si_cpuid := 0, si_elf_hwcaps := 0\<rparr>;
       n \<leftarrow> count_cpus sg garbage present possible (si_number_of_processors si);
       let si = si\<lparr>si_number_of_processors := n\<rparr>;
       (case cpuinfo of
          None \<Rightarrow> Some si
        | Some f \<Rightarrow> read_fields arm sg sys_read fuel f (ProcCpuInfoReader garbage) si)
     }"

section \<open>Fields of a text\<close>

definition is_space :: "bool \<Rightarrow> u8 \<Rightarrow> bool" where
  "is_space sg c \<longleftrightarrow> my_isspace (cval sg c)"

text \<open>The reference: the name before the first colon without the spaces at its end, the value after it without the spaces at its start.\<close>

definition field_of :: "bool \<Rightarrow> bytes \<Rightarrow> (bytes \<times> bytes) option" where
  "field_of sg l =
     (if 58 \<in> set l then
        let k = length (takeWhile (\<lambda>c. c \<noteq> 58) l);
            name = rev (dropWhile (is_space sg) (rev (take k l)));
            val = dropWhile (is_space sg) (drop (k + 1) l)
        in if name = [] then None else Some (name, val)
      else None)"

lemma skip_space_eq:
  "p \<le> n \<Longrightarrow> n \<le> length b \<Longrightarrow> skip_space sg b p n = n - length (dropWhile (is_space sg) (drop p (take n b)))"
proof (induction sg b p n rule: skip_space.induct)
  case (1 sg b p n)
  show ?case
  proof (cases "p < n")
    case True
    then have d: "drop p (take n b) = b ! p # drop (p + 1) (take n b)"
      using "1.prems" by (simp add: Cons_nth_drop_Suc [symmetric])
    show ?thesis
      using "1.IH" True "1.prems" by (subst skip_space.simps) (auto simp: d simp flip: is_space_def)
  qed (use "1.prems" in \<open>subst skip_space.simps, simp\<close>)
qed

lemma trim_space_eq: "n \<le> length b \<Longrightarrow> trim_space sg b 0 n = length (dropWhile (is_space sg) (rev (take n b)))"
proof (induction n)
  case (Suc n)
  then have "rev (take (Suc n) b) = b ! n # rev (take n b)" by (simp add: take_Suc_conv_app_nth)
  then show ?case using Suc by (subst trim_space.simps) (auto simp flip: is_space_def)
qed (simp add: trim_space.simps)

lemma colon_inside: "c \<in> set l \<Longrightarrow> length (takeWhile (\<lambda>x. x \<noteq> c) l) < length l"
  by (induction l) auto

lemma split_field_eq:
  assumes "take (length l) buf = l"
  shows "split_field sg buf (length l) = Some (map_option (\<lambda>(nm, v). (length nm, length l - length v)) (field_of sg l))"
proof -
  have len: "length l \<le> length buf" using assms by (metis length_take min.cobounded2 min_def nle_le)
  let ?k = "length (takeWhile (\<lambda>c. c \<noteq> 58) l)"
  have u: "uint c = 58 \<longleftrightarrow> c = 58" for c :: u8 by (simp add: word_uint_eq_iff)
  have "(58 :: int) \<in> uint ` set l \<longleftrightarrow> 58 \<in> set l" using u by force
  then have mc: "my_memchr buf 58 (length l) = Some (if 58 \<in> set l then Some ?k else None)"
    using my_memchr_eq [OF len, of 58] assms u by simp
  show ?thesis
  proof (cases "58 \<in> set l")
    case True
    then have k: "?k < length l" by (rule colon_inside)
    have "take ?k buf = take ?k l" using assms k by (metis less_imp_le min.absorb1 take_take)
    moreover have "drop (?k + 1) (take (length l) buf) = drop (?k + 1) l" using assms by simp
    ultimately show ?thesis
      using True mc k len skip_space_eq [of "?k + 1" "length l" buf sg] trim_space_eq [of ?k buf sg]
      by (auto simp: split_field_def field_of_def Let_def)
  qed (use mc in \<open>simp add: split_field_def field_of_def\<close>)
qed

lemma field_of_parts:
  assumes "field_of sg l = Some (nm, v)"
  obtains m where "l = nm @ m @ v" and "m \<noteq> []" and "nm \<noteq> []"
proof -
  let ?k = "length (takeWhile (\<lambda>c. c \<noteq> 58) l)"
  have c: "58 \<in> set l" "nm = rev (dropWhile (is_space sg) (rev (take ?k l)))" "v = dropWhile (is_space sg) (drop (?k + 1) l)" "nm \<noteq> []"
    using assms by (auto simp: field_of_def Let_def split: if_splits)
  have k: "?k < length l" using colon_inside [OF c(1)] .
  have "take ?k l = nm @ rev (takeWhile (is_space sg) (rev (take ?k l)))"
    unfolding c(2) by (metis rev_append rev_rev_ident takeWhile_dropWhile_id)
  moreover have "drop (?k + 1) l = takeWhile (is_space sg) (drop (?k + 1) l) @ v" unfolding c(3) by simp
  moreover have "l = take ?k l @ l ! ?k # drop (?k + 1) l" using k by (simp add: id_take_nth_drop [symmetric])
  ultimately have "l = nm @ (rev (takeWhile (is_space sg) (rev (take ?k l))) @ l ! ?k # takeWhile (is_space sg) (drop (?k + 1) l)) @ v"
    by (metis append.assoc append_Cons)
  then show ?thesis using that c(4) by blast
qed

section \<open>Every field is delivered\<close>

text \<open>What is left to read: the line handed out last is popped first.\<close>

fun cr_ok :: "cpuinfo_reader \<Rightarrow> bool" where
  "cr_ok r \<longleftrightarrow> lr_invar (cr_line_reader r) \<and> (case cr_pop_count r of None \<Rightarrow> True | Some n \<Rightarrow> n < lr_buf_used (cr_line_reader r))"

definition cr_rest :: "('f \<Rightarrow> bytes) \<Rightarrow> 'f \<Rightarrow> cpuinfo_reader \<Rightarrow> bytes" where
  "cr_rest content f r =
     (case cr_pop_count r of None \<Rightarrow> pending content f (cr_line_reader r) | Some n \<Rightarrow> drop (n + 1) (pending content f (cr_line_reader r)))"

lemma GetNextField_spec:
  assumes "read_contract sys_read content" and "read_never_fails sys_read" and "cr_ok r"
    and "ls = lines_of (cr_rest content f r)" and "\<forall>l\<in>set ls. length l < kMaxLineLen" and "length ls < fuel"
  shows "\<exists>more r' f'. GetNextField sg sys_read fuel f r = Some (more, r', f') \<and>
    (case dropWhile (\<lambda>l. field_of sg l = None) ls of
       [] \<Rightarrow> \<not> more
     | l # ls' \<Rightarrow> more \<and> cr_ok r' \<and> lines_of (cr_rest content f' r') = ls' \<and>
         field_of sg l = Some (cstr (lr_buf (cr_line_reader r')), cstr (GetValue r')) \<and>
         nul_terminated (lr_buf (cr_line_reader r')) \<and> nul_terminated (GetValue r') \<and> cr_value_len r' = length (cstr (GetValue r')))"
  using assms(3-6)
proof (induction fuel arbitrary: r f ls)
  case (Suc fuel)
  let ?pop = "case cr_pop_count r of None \<Rightarrow> Some (cr_line_reader r) | Some n \<Rightarrow> PopLine n (cr_line_reader r)"
  obtain lr where lr: "?pop = Some lr" "lr_invar lr" "pending content f lr = cr_rest content f r"
    using Suc.prems(1) PopLine_spec [of "cr_line_reader r" _ content f] by (cases "cr_pop_count r") (auto simp: cr_rest_def)
  let ?P = "cr_rest content f r"
  obtain res lr' f' where g: "GetNextLine sys_read f lr = Some (res, lr', f')" "lr_invar lr'" and
    p: "case res of
        Some n \<Rightarrow> line_found ?P n lr' \<and> ?P \<noteq> [] \<and> pending content f' lr' = first_line ?P @ 0 # after_line ?P
      | None \<Rightarrow> read_never_fails sys_read \<longrightarrow> ?P = [] \<or> kMaxLineLen \<le> length (first_line ?P)"
    using GetNextLine_spec [OF assms(1) lr(2), of f] unfolding lr(3) by blast
  show ?case
  proof (cases res)
    case None
    have "?P = []"
    proof (rule ccontr)
      assume ne: "?P \<noteq> []"
      then have "first_line ?P \<in> set ls" unfolding Suc.prems(2) by (subst lines_of.simps) simp
      with p None assms(2) ne Suc.prems(3) show False by fastforce
    qed
    then have "ls = []" using Suc.prems(2) by (simp add: lines_of.simps)
    then show ?thesis using lr g None by (intro exI [of _ False]) simp
  next
    case (Some n)
    let ?l = "first_line ?P"
    have f: "n = length ?l" "n < lr_buf_used lr'" "take n (lr_buf lr') = ?l" "lr_buf lr' ! n = 0" "?P \<noteq> []"
        "pending content f' lr' = ?l @ 0 # after_line ?P"
      using p Some by (auto simp: line_found_def)
    have ls: "ls = ?l # lines_of (after_line ?P)" unfolding Suc.prems(2) using f(5) by (subst lines_of.simps) simp
    have sf: "split_field sg (lr_buf lr') n = Some (map_option (\<lambda>(nm, v). (length nm, length ?l - length v)) (field_of sg ?l))"
      using split_field_eq [of ?l "lr_buf lr'" sg] f(1,3) by simp
    have rest: "drop (n + 1) (pending content f' lr') = after_line ?P" unfolding f(6) using f(1) by simp
    show ?thesis
    proof (cases "field_of sg ?l")
      case None
      let ?r = "r\<lparr>cr_line_reader := lr', cr_pop_count := Some n\<rparr>"
      have "cr_ok ?r" "cr_rest content f' ?r = after_line ?P" using g(2) f(2) rest by (simp_all add: cr_rest_def)
      then show ?thesis
        using Suc.IH [of ?r "lines_of (after_line ?P)" f'] Suc.prems(3,4) ls lr(1) g(1) Some sf None by simp
    next
      case fld: (Some nv)
      obtain nm v where nv: "nv = (nm, v)" by (cases nv)
      obtain m where m: "?l = nm @ m @ v" "m \<noteq> []" "nm \<noteq> []" using field_of_parts [OF fld [unfolded nv]] by blast
      let ?buf = "(lr_buf lr')[length nm := 0]"
      let ?r = "\<lparr>cr_line_reader = lr'\<lparr>lr_buf := ?buf\<rparr>, cr_pop_count = Some n, cr_value = length ?l - length v,
        cr_value_len = n - (length ?l - length v)\<rparr>"
      have G: "GetNextField sg sys_read (Suc fuel) f r = Some (True, ?r, f')"
        using lr(1) g(1) Some sf fld nv by simp
      have z: "0 \<notin> set ?l" using first_line_no_eol [of 0 ?P] by (auto simp: is_eol_def)
      have buf: "lr_buf lr' = nm @ m @ v @ 0 # drop (Suc n) (lr_buf lr')"
      proof -
        have "n < length (lr_buf lr')" using f(2) g(2) by (simp add: lr_invar_def)
        then have "lr_buf lr' = take n (lr_buf lr') @ lr_buf lr' ! n # drop (Suc n) (lr_buf lr')" by (rule id_take_nth_drop)
        then show ?thesis using f(3,4) m(1) by simp
      qed
      obtain c m' where c: "m = c # m'" using m(2) by (cases m) auto
      have buf': "?buf = nm @ 0 # m' @ v @ 0 # drop (Suc n) (lr_buf lr')"
        by (subst buf) (simp add: c list_update_append)
      have nmz: "0 \<notin> set nm" "0 \<notin> set v" using z m(1) by auto
      have n: "length ?l - length v = length nm + length m" "n - (length ?l - length v) = length v" using m(1) f(1) by auto
      have val: "drop (length nm + length m) ?buf = v @ 0 # drop (Suc n) (lr_buf lr')" unfolding buf' c by simp
      have "pending content f' (lr'\<lparr>lr_buf := ?buf\<rparr>) = (pending content f' lr')[length nm := 0]"
        using f(1,2) m(1,2) g(2) by (auto simp: pending_def take_update_swap list_update_append lr_invar_def)
      then have "cr_rest content f' ?r = after_line ?P"
        using rest f(1) m(1) by (simp add: cr_rest_def)
      moreover have "cstr ?buf = nm" "nul_terminated ?buf" unfolding buf' using nmz(1) by (simp_all add: cstr_terminated nul_terminated_def)
      moreover have "cstr (GetValue ?r) = v" "nul_terminated (GetValue ?r)"
        using val n(1) nmz(2) by (simp_all add: GetValue_def cstr_terminated nul_terminated_def)
      moreover have "cr_ok ?r" using g(2) f(2) by (simp add: lr_invar_def)
      ultimately show ?thesis
        using G ls fld nv n(2) by (intro exI [of _ True] exI [of _ ?r] exI [of _ f']) simp
    qed
  qed
qed simp

text \<open>The loop of the clients: the names and values in the order they are handed out.\<close>

fun drain_fields :: "bool \<Rightarrow> 'f read_call \<Rightarrow> nat \<Rightarrow> 'f \<Rightarrow> cpuinfo_reader \<Rightarrow> (bytes \<times> bytes) list option" where
  "drain_fields sg sys_read 0 f r = None"
| "drain_fields sg sys_read (Suc fuel) f r =
     do {
       (more, r, f) \<leftarrow> GetNextField sg sys_read (Suc fuel) f r;
       if \<not> more then Some []
       else do {
         rest \<leftarrow> drain_fields sg sys_read fuel f r;
         Some ((cstr (lr_buf (cr_line_reader r)), cstr (GetValue r)) # rest)
       }
     }"

lemma map_filter_dropWhile: "List.map_filter g xs = List.map_filter g (dropWhile (\<lambda>x. g x = None) xs)"
  by (induction xs) (auto simp: List.map_filter_simps)

lemma drain_fields_spec:
  assumes "read_contract sys_read content" and "read_never_fails sys_read" and "cr_ok r"
    and "ls = lines_of (cr_rest content f r)" and "\<forall>l\<in>set ls. length l < kMaxLineLen" and "length ls < fuel"
  shows "drain_fields sg sys_read fuel f r = Some (List.map_filter (field_of sg) ls)"
  using assms(3-6)
proof (induction fuel arbitrary: r f ls)
  case (Suc fuel)
  obtain more r' f' where g: "GetNextField sg sys_read (Suc fuel) f r = Some (more, r', f')"
    and c: "case dropWhile (\<lambda>l. field_of sg l = None) ls of
       [] \<Rightarrow> \<not> more
     | l # ls' \<Rightarrow> more \<and> cr_ok r' \<and> lines_of (cr_rest content f' r') = ls' \<and>
         field_of sg l = Some (cstr (lr_buf (cr_line_reader r')), cstr (GetValue r')) \<and>
         nul_terminated (lr_buf (cr_line_reader r')) \<and> nul_terminated (GetValue r') \<and> cr_value_len r' = length (cstr (GetValue r'))"
    using GetNextField_spec [OF assms(1,2) Suc.prems(1-4)] by blast
  show ?case
  proof (cases "dropWhile (\<lambda>l. field_of sg l = None) ls")
    case Nil
    have "\<not> more" using c unfolding Nil by simp
    moreover have "List.map_filter (field_of sg) ls = []" by (subst map_filter_dropWhile) (simp only: Nil List.map_filter_simps)
    ultimately show ?thesis using g by simp
  next
    case (Cons l ls')
    have "set ls' \<subseteq> set ls" "length ls' < length ls"
      using Cons by (metis set_dropWhileD set_subset_Cons subset_code(1) subset_trans, metis Cons Suc_le_eq length_Cons length_dropWhile_le)
    then have "drain_fields sg sys_read fuel f' r' = Some (List.map_filter (field_of sg) ls')"
      using c unfolding Cons using Suc.prems(3,4) by (intro Suc.IH) auto
    moreover have "List.map_filter (field_of sg) ls = List.map_filter (field_of sg) (l # ls')"
      by (subst map_filter_dropWhile) (simp only: Cons)
    ultimately show ?thesis using g c unfolding Cons by (auto simp: List.map_filter_simps)
  qed
qed simp

text \<open>
  C19. The fields of \<^verbatim>\<open>/proc/cpuinfo\<close>. When no line is 512 characters or longer and no read fails, the loop over \<open>GetNextField\<close> ends and hands out exactly the
  lines with a colon and a name before it, in order, each with its name stripped of the spaces before the colon and its
  value of the spaces after it, although the reader writes the terminator of the name into the buffer it shares with the line reader.
\<close>

theorem ProcCpuInfoReader_delivers:
  assumes "read_contract sys_read content" and "read_never_fails sys_read" and "length garbage = kMaxLineLen"
    and "\<forall>l\<in>set (lines_of (content f)). length l < kMaxLineLen" and "length (lines_of (content f)) < fuel"
  shows "drain_fields sg sys_read fuel f (ProcCpuInfoReader garbage) = Some (List.map_filter (field_of sg) (lines_of (content f)))"
  using drain_fields_spec [OF assms(1,2), of "ProcCpuInfoReader garbage" "lines_of (content f)" f fuel sg] assms(3-5)
  by (simp add: ProcCpuInfoReader_def cr_rest_def)

theorem ProcCpuInfoReader_delivers_witness:
  "drain_fields False read3 5 (chars ''CPU part : 0x'' @ [10, 10] @ chars ''a:'' @ [10]) (ProcCpuInfoReader (replicate kMaxLineLen 7)) =
     Some [(chars ''CPU part'', chars ''0x''), (chars ''a'', [])]"
proof -
  let ?t = "chars ''CPU part : 0x'' @ [10, 10] @ chars ''a:'' @ [10]"
  have l: "lines_of (id ?t) = [chars ''CPU part : 0x'', [], chars ''a:'']"
    by (simp add: lines_of.simps first_line_def after_line_def is_eol_def chars_def)
  have k: "13 < kMaxLineLen" "0 < kMaxLineLen" "2 < kMaxLineLen" by (simp_all add: kMaxLineLen_def)
  have f: "List.map_filter (field_of False) [chars ''CPU part : 0x'', [], chars ''a:''] = [(chars ''CPU part'', chars ''0x''), (chars ''a'', [])]"
    by (simp add: List.map_filter_simps field_of_def chars_def is_space_def my_isspace_def spaces_def cval_def Let_def)
  show ?thesis
    using ProcCpuInfoReader_delivers [OF read3_contract, of "replicate kMaxLineLen 7" ?t 5 False] k f unfolding l
    by (simp add: chars_def)
qed

text \<open>The number of processors, from the two files of sysfs.\<close>

lemma count_cpus_correct:
  assumes "list_all ci_ok present" and "length (list_text present) \<le> 511" and "list_all ci_ok possible"
    and "length (list_text possible) \<le> 511" and "length garbage = 512"
  shows "count_cpus sg garbage (Some (Some (list_text present))) (Some (Some (list_text possible))) n =
    Some (of_nat (min 255 (card (\<Union> (ci_range ` set present) \<inter> \<Union> (ci_range ` set possible) \<inter> {..<1024}))))"
proof -
  obtain m1 where m1: "ParseSysFile sg garbage (Some (list_text present)) CpuSet = Some (True, m1)" "mask_ok m1"
      "cpus m1 = \<Union> (ci_range ` set present) \<inter> {..<1024}"
    using ParseSysFile_spec [where sg = sg, OF cpus_CpuSet(1) assms(1,2,5)] by (auto simp: cpus_CpuSet(2))
  obtain m2 where m2: "ParseSysFile sg garbage (Some (list_text possible)) CpuSet = Some (True, m2)" "mask_ok m2"
      "cpus m2 = \<Union> (ci_range ` set possible) \<inter> {..<1024}"
    using ParseSysFile_spec [where sg = sg, OF cpus_CpuSet(1) assms(3,4,5)] by (auto simp: cpus_CpuSet(2))
  have "cpus m1 \<inter> cpus m2 = \<Union> (ci_range ` set present) \<inter> \<Union> (ci_range ` set possible) \<inter> {..<1024}" using m1(3) m2(3) by blast
  then have "CpuSet_GetCount (IntersectWith m1 m2) = card (\<Union> (ci_range ` set present) \<inter> \<Union> (ci_range ` set possible) \<inter> {..<1024})"
    using IntersectWith_spec [OF m1(2) m2(2)] CpuSet_GetCount_spec by metis
  moreover have "(if 255 < k then 255 else k) = min 255 k" for k :: nat by simp
  ultimately show ?thesis using m1(1) m2(1) by (simp add: count_cpus_def Let_def del: of_nat_min)
qed

section \<open>The processor is always described\<close>

text \<open>No parser of a field leaves the buffer, whatever the field holds.\<close>

lemma nul_not_digit: "nul_terminated v \<Longrightarrow> \<exists>c\<in>set v. \<not> is_dec_digit c" "nul_terminated v \<Longrightarrow> \<exists>c\<in>set v. hex_digit c = None"
  by (auto simp: nul_terminated_def is_dec_digit_def hex_digit_def intro!: bexI [of _ 0])

lemma read_id_value_total:
  assumes "nul_terminated v"
  shows "\<exists>r. read_id_value e v = Some r"
proof -
  obtain c0 t where v: "v = c0 # t" using assms by (cases v) (auto simp: nul_terminated_def)
  show ?thesis
  proof (cases "c0 = 48")
    case False
    then show ?thesis
      using nul_not_digit [OF assms] by (auto simp: read_id_value_def v rd_def my_read_hex_ptr_eq my_read_decimal_ptr_eq)
  next
    case True
    then obtain c1 u where t: "t = c1 # u" using assms v by (cases t) (auto simp: nul_terminated_def)
    have "c1 = 120 \<Longrightarrow> nul_terminated u" using assms True by (auto simp: v t nul_terminated_def)
    then show ?thesis
      using nul_not_digit [OF assms] nul_not_digit(2) [of u] True
      by (cases "c1 = 120") (auto simp: read_id_value_def v t rd_def my_read_hex_ptr_eq my_read_decimal_ptr_eq)
  qed
qed

lemma nul_terminated_snoc [simp]: "nul_terminated (xs @ [0])"
  by (simp add: nul_terminated_def)

lemma read_ids_total:
  assumes "nul_terminated field" and "nul_terminated v"
  shows "\<exists>si'. read_ids sg es field v si = Some si'"
proof (induction es arbitrary: si)
  case (Cons e es)
  obtain c where c: "my_strcmp sg (chars (ce_field e) @ [0]) field = Some c"
    using my_strcmp_total [of "chars (ce_field e) @ [0]" field sg] assms(1) by auto
  obtain r n where r: "read_id_value e v = Some (r, n)" using read_id_value_total [OF assms(2), of e] by auto
  show ?case using c r Cons by (cases "c = 0") simp_all
qed simp

lemma zero_in_dropWhile: "(0 :: u8) \<in> set v \<Longrightarrow> 0 \<in> set (dropWhile (\<lambda>c. c \<noteq> 0) v)"
  by (induction v) auto

lemma read_features_total: "nul_terminated v \<Longrightarrow> \<exists>h. read_features entries v n caps = Some h"
proof (induction entries v n caps rule: read_features.induct)
  case (1 entries v n caps)
  have f: "my_strchr v 32 = Some (if 32 \<in> set (cstr v) then Some (length (takeWhile (\<lambda>c. c \<noteq> 32) (cstr v))) else None)"
    using my_strchr_from_eq [OF 1(2), of 32 0] by (simp add: my_strchr_def)
  show ?case
  proof (cases "0 < n \<and> 32 \<in> set (cstr v)")
    case False
    then show ?thesis using f by (subst read_features.simps) (auto simp: Let_def split: option.split)
  next
    case True
    let ?p = "length (takeWhile (\<lambda>c. c \<noteq> 32) (cstr v))"
    have p: "?p < length (cstr v)" using True by (intro colon_inside) simp
    have "0 \<in> set (drop (length (cstr v)) v)"
      using 1(2) zero_in_dropWhile [of v] by (simp add: cstr_def nul_terminated_def dropWhile_eq_drop)
    then have "nul_terminated (drop (Suc ?p) v)"
      using set_drop_subset_set_drop [of "Suc ?p" "length (cstr v)" v] p by (auto simp: nul_terminated_def)
    then show ?thesis using 1(1) True f by (subst read_features.simps) (simp add: Let_def)
  qed
qed

lemma read_field_total:
  assumes "nul_terminated field" and "nul_terminated v"
  shows "\<exists>si'. read_field False sg field v n si = Some si'"
proof -
  obtain si1 where s1: "read_ids sg cpu_id_entries field v si = Some si1" using read_ids_total [OF assms] by blast
  obtain c where c: "my_strcmp sg field (chars ''CPU architecture'' @ [0]) = Some c"
    using my_strcmp_total [OF assms(1) nul_terminated_snoc, of sg "chars ''CPU architecture''"] by blast
  obtain d where d: "my_strcmp sg field (chars ''Features'' @ [0]) = Some d"
    using my_strcmp_total [OF assms(1) nul_terminated_snoc, of sg "chars ''Features''"] by blast
  obtain l :: u64 and k where l: "my_read_decimal_ptr v = Some (l, k)" using my_read_decimal_ptr_eq [OF nul_not_digit(1) [OF assms(2)]] by blast
  have feat: "\<exists>h. read_features [] v n caps = Some h" for caps by (rule read_features_total [OF assms(2)])
  then obtain h where h: "\<And>caps. read_features [] v n caps = Some (h caps)" by metis
  show ?thesis by (cases "c = 0"; cases "d = 0"; cases "k = 0") (simp_all add: read_field_def s1 c d l h)
qed

lemma read_fields_total:
  assumes "read_contract sys_read content" and "read_never_fails sys_read" and "cr_ok r"
    and "ls = lines_of (cr_rest content f r)" and "\<forall>l\<in>set ls. length l < kMaxLineLen" and "length ls < fuel"
  shows "\<exists>si'. read_fields False sg sys_read fuel f r si = Some si'"
  using assms(3-6)
proof (induction fuel arbitrary: r f ls si)
  case (Suc fuel)
  obtain more r' f' where g: "GetNextField sg sys_read (Suc fuel) f r = Some (more, r', f')"
    and c: "case dropWhile (\<lambda>l. field_of sg l = None) ls of
       [] \<Rightarrow> \<not> more
     | l # ls' \<Rightarrow> more \<and> cr_ok r' \<and> lines_of (cr_rest content f' r') = ls' \<and>
         field_of sg l = Some (cstr (lr_buf (cr_line_reader r')), cstr (GetValue r')) \<and>
         nul_terminated (lr_buf (cr_line_reader r')) \<and> nul_terminated (GetValue r') \<and> cr_value_len r' = length (cstr (GetValue r'))"
    using GetNextField_spec [OF assms(1,2) Suc.prems(1-4)] by blast
  show ?case
  proof (cases "dropWhile (\<lambda>l. field_of sg l = None) ls")
    case Nil
    have "\<not> more" using c unfolding Nil by simp
    then show ?thesis using g by simp
  next
    case (Cons l ls')
    have ls': "set ls' \<subseteq> set ls" "length ls' < length ls"
      using Cons by (metis set_dropWhileD set_subset_Cons subset_code(1) subset_trans, metis Cons Suc_le_eq length_Cons length_dropWhile_le)
    have c': "more" "cr_ok r'" "lines_of (cr_rest content f' r') = ls'" "nul_terminated (lr_buf (cr_line_reader r'))" "nul_terminated (GetValue r')"
      using c unfolding Cons by simp_all
    obtain si1 where s1: "read_field False sg (lr_buf (cr_line_reader r')) (GetValue r') (cr_value_len r') si = Some si1"
      using read_field_total [OF c'(4,5)] by blast
    have "\<exists>si'. read_fields False sg sys_read fuel f' r' si1 = Some si'"
      using ls' Suc.prems(3,4) by (intro Suc.IH [OF c'(2) c'(3) [symmetric]]) auto
    then show ?thesis using g c'(1) s1 by simp
  qed
qed simp

definition sys_file_ok :: "bytes option option \<Rightarrow> bool" where
  "sys_file_ok r \<longleftrightarrow> (\<forall>bs. r = Some (Some bs) \<longrightarrow> (\<exists>its. list_all ci_ok its \<and> bs = list_text its \<and> length bs \<le> 511))"

lemma count_cpus_total:
  assumes "sys_file_ok present" and "sys_file_ok possible" and "length garbage = 512"
  shows "\<exists>k. count_cpus sg garbage present possible n = Some k"
proof -
  have parse: "\<exists>r. ParseSysFile sg garbage res CpuSet = Some r" if ok: "sys_file_ok (Some res)" for res
  proof (cases res)
    case None
    then show ?thesis unfolding ParseSysFile_def by simp blast
  next
    case (Some bs)
    then obtain its where its: "list_all ci_ok its" "bs = list_text its" "length bs \<le> 511" using ok by (auto simp: sys_file_ok_def)
    then show ?thesis using ParseSysFile_spec [OF cpus_CpuSet(1), of its garbage sg] assms(3) Some by auto
  qed
  show ?thesis
  proof (cases present)
    case (Some r1)
    obtain b1 m1 where m1: "ParseSysFile sg garbage r1 CpuSet = Some (b1, m1)" using parse [of r1] assms(1) Some by auto
    show ?thesis
    proof (cases possible)
      case None
      then show ?thesis using m1 \<open>present = Some r1\<close> by (simp add: count_cpus_def)
    next
      case (Some r2)
      obtain b2 m2 where "ParseSysFile sg garbage r2 CpuSet = Some (b2, m2)" using parse [of r2] assms(2) Some by auto
      then show ?thesis using m1 Some \<open>present = Some r1\<close> by (simp add: count_cpus_def Let_def)
    qed
  qed (simp add: count_cpus_def)
qed

text \<open>On aarch64 the processor is described whatever the fields of \<^verbatim>\<open>/proc/cpuinfo\<close> hold, with the default values when the file cannot be opened.\<close>

lemma WriteCPUInformation_total:
  assumes "sys_file_ok present" and "sys_file_ok possible" and "length garbage = 512"
    and "\<And>f. cpuinfo = Some f \<Longrightarrow> read_contract sys_read content \<and> read_never_fails sys_read \<and>
      (\<forall>l\<in>set (lines_of (content f)). length l < kMaxLineLen) \<and> length (lines_of (content f)) < fuel"
  shows "\<exists>si'. WriteCPUInformation False sg garbage present possible sys_read fuel cpuinfo si = Some si'"
proof -
  obtain k where k: "count_cpus sg garbage present possible 0 = Some k" using count_cpus_total [OF assms(1-3)] by blast
  show ?thesis
  proof (cases cpuinfo)
    case None
    then show ?thesis using k by (simp add: WriteCPUInformation_def Let_def)
  next
    case (Some f)
    note h = assms(4) [OF Some]
    have "\<exists>si'. read_fields False sg sys_read fuel f (ProcCpuInfoReader garbage) si1 = Some si'" for si1
      using h assms(3) by (intro read_fields_total [of sys_read content _ "lines_of (content f)"]) (auto simp: ProcCpuInfoReader_def cr_rest_def kMaxLineLen_def)
    then show ?thesis using k Some by (simp add: WriteCPUInformation_def Let_def)
  qed
qed

end
