(* ===== verification/Minidump_Writer.thy ===== *)
theory Minidump_Writer
  imports Minidump_File_Writer Minidump_Format Ptrace_Dumper "HOL-Library.While_Combinator"
begin

text \<open>
  \<^verbatim>\<open>client/linux/minidump_writer/minidump_writer.cc\<close>, on aarch64: the streams of a minidump, written through the file writer from
  what the dumper knows of the crashed process. An object of the class is a record; a function returns its result with the object
  after it, \<open>None\<close> stands for a memory fault or a loop that does not end.

  A dumper is a record of what the writer calls: \<open>CopyFromProcess\<close> returns its result with the bytes, \<open>ElfFileIdentifierForMapping\<close> the
  identifier and the mapping, whose name it may change. A \<open>TypedMDRVA\<close> writes its object when it goes out of
  scope, on every way out of a function.
\<close>

section \<open>The objects of the file\<close>

record mem_desc =
  md_start :: u64
  md_memory :: location

record raw_thread =
  rt_id :: u32
  rt_stack :: mem_desc
  rt_context :: location

record raw_module =
  rm_base :: u64
  rm_size :: u32
  rm_name :: u32
  rm_cv :: location

record raw_dir =
  rd_type :: nat
  rd_location :: location

definition no_location :: location where "no_location = \<lparr>l_data_size = 0, l_rva = 0\<rparr>"

definition loc_bytes :: "location \<Rightarrow> bytes" where
  "loc_bytes l = store_int 4 (l_data_size l) @ store_int 4 (l_rva l)"

definition desc_bytes :: "mem_desc \<Rightarrow> bytes" where
  "desc_bytes d = store_int 8 (md_start d) @ loc_bytes (md_memory d)"

text \<open>The members that are not filled stay as \<open>my_memset\<close> left them.\<close>

definition thread_bytes :: "raw_thread \<Rightarrow> bytes" where
  "thread_bytes t = store_int 4 (rt_id t) @ replicate 20 0 @ desc_bytes (rt_stack t) @ loc_bytes (rt_context t)"

definition module_bytes :: "raw_module \<Rightarrow> bytes" where
  "module_bytes m = store_int 8 (rm_base m) @ store_int 4 (rm_size m) @ replicate 8 0 @ store_int 4 (rm_name m) @ replicate 52 0 @
     loc_bytes (rm_cv m) @ replicate 24 0"

definition dir_bytes :: "raw_dir \<Rightarrow> bytes" where
  "dir_bytes d = le_int 4 (rd_type d) @ loc_bytes (rd_location d)"

definition stream_type :: "string \<Rightarrow> nat" where
  "stream_type s = the (map_of MDStreamType s)"

section \<open>The dumper and the writer\<close>

record crash_context =
  uc_regs :: user_regs_arm64
  uc_float :: user_fpsimd

record 'f dumper =
  d_threads :: "u32 list"
  d_mappings :: "mapping_info list"
  d_crash_thread :: u32
  d_crash_address :: u64
  d_crash_signal :: u32
  d_crash_signal_code :: u32
  d_crash_exception_info :: "u64 list"
  d_auxv :: "u64 list"
  d_post_mortem :: bool
  d_copy :: "u32 \<Rightarrow> u64 \<Rightarrow> nat \<Rightarrow> bool \<times> bytes"
  d_thread_info :: "nat \<Rightarrow> thread_info option"
  d_identifier :: "mapping_info \<Rightarrow> bool \<Rightarrow> nat \<Rightarrow> bytes \<times> mapping_info"
  d_so_name :: "mapping_info \<Rightarrow> bytes \<Rightarrow> bool \<times> bytes"
  d_open :: "bytes \<Rightarrow> 'f option"
  d_read :: "'f read_call"

record 'f minidump_writer =
  mw_pagesize :: u64
  mw_ucontext :: "crash_context option"
  mw_dumper :: "'f dumper"
  mw_writer :: writer
  mw_size_limit :: int
  mw_crashing_thread_context :: location
  mw_memory_blocks :: "mem_desc list"
  mw_mapping_list :: "(mapping_info \<times> bytes) list"
  mw_app_memory_list :: "(u64 \<times> nat) list"
  mw_skip_stacks :: bool
  mw_principal_mapping_address :: u64
  mw_principal_mapping :: "mapping_info option"
  mw_sanitize_stacks :: bool

type_synonym 'f mw_result = "(bool \<times> 'f minidump_writer) option"

definition kLimitAverageThreadStackLength :: u32 where "kLimitAverageThreadStackLength = 8 * 1024"
definition kLimitBaseThreadCount :: nat where "kLimitBaseThreadCount = 20"
definition kLimitMaxExtraThreadStackLen :: int where "kLimitMaxExtraThreadStackLen = 2 * 1024"
definition kLimitMinidumpFudgeFactor :: u32 where "kLimitMinidumpFudgeFactor = 64 * 1024"

definition GetCrashThread :: "'f minidump_writer \<Rightarrow> u32" where
  "GetCrashThread s = d_crash_thread (mw_dumper s)"

definition set_writer :: "writer \<Rightarrow> 'f minidump_writer \<Rightarrow> 'f minidump_writer" where
  "set_writer w s = s\<lparr>mw_writer := w\<rparr>"

definition push_block :: "mem_desc \<Rightarrow> 'f minidump_writer \<Rightarrow> 'f minidump_writer" where
  "push_block b s = s\<lparr>mw_memory_blocks := mw_memory_blocks s @ [b]\<rparr>"

definition UC_GetStackPointer :: "crash_context \<Rightarrow> u64" where "UC_GetStackPointer uc = ur_sp (uc_regs uc)"
definition UC_GetInstructionPointer :: "crash_context \<Rightarrow> u64" where "UC_GetInstructionPointer uc = ur_pc (uc_regs uc)"

definition CrashingThreadReferencesPrincipalMapping :: "'f minidump_writer \<Rightarrow> bool" where
  "CrashingThreadReferencesPrincipalMapping s =
     (case (mw_ucontext s, mw_principal_mapping s) of
        (Some uc, Some m) \<Rightarrow>
          let low_addr = mi_sys_start m; high_addr = mi_sys_end m;
              stack_pointer = UC_GetStackPointer uc; pc = UC_GetInstructionPointer uc
          in if low_addr \<le> pc \<and> pc < high_addr then True
             else
               (case GetStackInfo (mw_pagesize s) (d_mappings (mw_dumper s)) stack_pointer of
                  None \<Rightarrow> False
                | Some (stack, stack_len) \<Rightarrow>
                    StackHasPointerToMapping (snd (d_copy (mw_dumper s) (GetCrashThread s) stack (unat stack_len)))
                      (stack_pointer - stack) m)
      | _ \<Rightarrow> False)"

section \<open>Threads\<close>

text \<open>
  The limit on the length of a stack: the chunks of that length below the stack pointer are skipped.
\<close>

definition limit_stack :: "int \<Rightarrow> u64 \<Rightarrow> u64 \<Rightarrow> u64 \<Rightarrow> (u64 \<times> u64) option" where
  "limit_stack max_stack_len stack_pointer stack stack_len =
     (if 0 \<le> max_stack_len \<and> max_stack_len < uint stack_len then
        do {
          int_stack \<leftarrow> (if 0 < max_stack_len
             then while_option (\<lambda>s. s + word_of_int max_stack_len < stack_pointer) (\<lambda>s. s + word_of_int max_stack_len) stack
             else Some stack);
          Some (int_stack, word_of_int max_stack_len)
        }
      else Some (stack, stack_len))"

definition FillThreadStack ::
  "raw_thread \<Rightarrow> u64 \<Rightarrow> u64 \<Rightarrow> int \<Rightarrow> 'f minidump_writer \<Rightarrow> (bool \<times> raw_thread \<times> 'f minidump_writer) option" where
  "FillThreadStack thread stack_pointer pc max_stack_len s =
     (let thread = thread\<lparr>rt_stack := \<lparr>md_start = stack_pointer,
             md_memory = \<lparr>l_data_size = 0, l_rva = w_position (mw_writer s)\<rparr>\<rparr>\<rparr>;
          ms = d_mappings (mw_dumper s)
      in case GetStackInfo (mw_pagesize s) ms stack_pointer of
           None \<Rightarrow> Some (True, thread, s)
         | Some (stack0, len0) \<Rightarrow>
             do {
               (stack, stack_len) \<leftarrow> limit_stack max_stack_len stack_pointer stack0 len0;
               let stack_copy = snd (d_copy (mw_dumper s) (rt_id thread) stack (unat stack_len));
               let stack_pointer_offset = stack_pointer - stack;
               if mw_skip_stacks s \<and>
                  (case mw_principal_mapping s of
                     None \<Rightarrow> True
                   | Some m \<Rightarrow> (pc < mi_sys_start m \<or> pc > mi_sys_end m) \<and> \<not> StackHasPointerToMapping stack_copy stack_pointer_offset m)
               then Some (True, thread, s)
               else do {
                 stack_copy \<leftarrow> (if mw_sanitize_stacks s then SanitizeStackCopy ms stack_copy stack_pointer stack_pointer_offset
                   else Some stack_copy);
                 let (ok, memory, w1) = Untyped_Allocate (mw_pagesize s) stack_len (mw_writer s);
                 if \<not> ok then Some (False, thread, set_writer w1 s)
                 else
                   let w2 = snd (Copy (m_position memory) stack_copy w1);
                       stack_desc = \<lparr>md_start = stack, md_memory = location_of memory\<rparr>
                   in Some (True, thread\<lparr>rt_stack := stack_desc\<rparr>, push_block stack_desc (set_writer w2 s))
               }
             })"

definition kIPMemorySize :: u64 where "kIPMemorySize = 256"

text \<open>The 256 bytes around the instruction pointer, inside the first mapping that has it.\<close>

fun ip_range :: "mapping_info list \<Rightarrow> u64 \<Rightarrow> (u64 \<times> u32) option" where
  "ip_range [] ip = None"
| "ip_range (m # ms) ip =
     (if mi_start_addr m \<le> ip \<and> ip < mi_start_addr m + mi_size m then
        let start_of_range = max (mi_start_addr m) (ip - kIPMemorySize div 2);
            end_of_range = min (ip + kIPMemorySize div 2) (mi_start_addr m + mi_size m)
        in Some (start_of_range, ucast (end_of_range - start_of_range))
      else ip_range ms ip)"

definition WriteIPMemory :: "u32 \<Rightarrow> u64 \<Rightarrow> 'f minidump_writer \<Rightarrow> bool \<times> 'f minidump_writer" where
  "WriteIPMemory tid ip s =
     (case ip_range (d_mappings (mw_dumper s)) ip of
        None \<Rightarrow> (True, s)
      | Some (start_of_range, data_size) \<Rightarrow>
          let (ok, ip_memory, w1) = Untyped_Allocate (mw_pagesize s) (ucast data_size) (mw_writer s)
          in if \<not> ok then (False, set_writer w1 s)
             else
               let memory_copy = snd (d_copy (mw_dumper s) tid start_of_range (unat data_size));
                   w2 = snd (Copy (m_position ip_memory) memory_copy w1)
               in (True, push_block \<lparr>md_start = start_of_range, md_memory = location_of ip_memory\<rparr> (set_writer w2 s)))"

text \<open>\<open>TypedMDRVA<RawContextCPU>\<close>: allocated, cleared, filled and written at the end of its scope.\<close>

definition sizeof_RawContextCPU :: nat where "sizeof_RawContextCPU = sizeof 8 MDRawContextARM64_Old"

definition WriteContext :: "assignment list \<Rightarrow> 'f minidump_writer \<Rightarrow> (location option \<times> 'f minidump_writer) option" where
  "WriteContext fill s =
     do {
       ctx \<leftarrow> FillCPUContext 8 MDRawContextARM64_Old fill;
       let (ok, cpu, w1) = Typed_Allocate (mw_pagesize s) sizeof_RawContextCPU 0 (mw_writer s);
       if \<not> ok then Some (None, set_writer (snd (Flush cpu (replicate sizeof_RawContextCPU 0) w1)) s)
       else Some (Some (location_of cpu), set_writer (snd (Flush cpu ctx w1)) s)
     }"

definition new_thread :: "u32 \<Rightarrow> raw_thread" where
  "new_thread tid = \<lparr>rt_id = tid, rt_stack = \<lparr>md_start = 0, md_memory = no_location\<rparr>, rt_context = no_location\<rparr>"

definition crashing_thread :: "crash_context \<Rightarrow> raw_thread \<Rightarrow> 'f minidump_writer \<Rightarrow> (bool \<times> raw_thread \<times> 'f minidump_writer) option" where
  "crashing_thread uc thread s =
     do {
       (ok, thread, s) \<leftarrow> FillThreadStack thread (UC_GetStackPointer uc) (UC_GetInstructionPointer uc) (-1) s;
       if \<not> ok then Some (False, thread, s)
       else
         let (ok, s) = WriteIPMemory (rt_id thread) (UC_GetInstructionPointer uc) s
         in if \<not> ok then Some (False, thread, s)
            else do {
              (cpu, s) \<leftarrow> WriteContext (fill_arm64_ucontext (uc_regs uc) (uc_float uc)) s;
              (case cpu of
                 None \<Rightarrow> Some (False, thread, s)
               | Some l \<Rightarrow> Some (True, thread\<lparr>rt_context := l\<rparr>, s\<lparr>mw_crashing_thread_context := l\<rparr>))
            }
     }"

definition other_thread :: "nat \<Rightarrow> int \<Rightarrow> raw_thread \<Rightarrow> 'f minidump_writer \<Rightarrow> (bool \<times> raw_thread \<times> 'f minidump_writer) option" where
  "other_thread i extra_thread_stack_len thread s =
     (case d_thread_info (mw_dumper s) i of
        None \<Rightarrow> Some (False, thread, s)
      | Some info \<Rightarrow>
          let max_stack_len = (if 0 \<le> mw_size_limit s \<and> kLimitBaseThreadCount \<le> i then extra_thread_stack_len else -1)
          in do {
            (ok, thread, s) \<leftarrow> FillThreadStack thread (ti_stack_pointer info) (GetInstructionPointer info) max_stack_len s;
            if \<not> ok then Some (False, thread, s)
            else do {
              (cpu, s) \<leftarrow> WriteContext (fill_arm64_thread (ti_regs info) (ti_fpregs info)) s;
              (case cpu of
                 None \<Rightarrow> Some (False, thread, s)
               | Some l \<Rightarrow>
                   let s1 = (if rt_id thread = GetCrashThread s then s\<lparr>mw_crashing_thread_context := l\<rparr> else s);
                       s2 = (if rt_id thread = GetCrashThread s \<and> \<not> d_post_mortem (mw_dumper s)
                             then s1\<lparr>mw_dumper := (mw_dumper s1)\<lparr>d_crash_address := GetInstructionPointer info\<rparr>\<rparr> else s1)
                   in Some (True, thread\<lparr>rt_context := l\<rparr>, s2))
            }
          })"

definition sizeof_MDRawThread :: nat where "sizeof_MDRawThread = 48"

definition write_thread :: "nat \<Rightarrow> int \<Rightarrow> u32 \<Rightarrow> 'f minidump_writer \<Rightarrow> (bool \<times> raw_thread \<times> 'f minidump_writer) option" where
  "write_thread i extra_thread_stack_len tid s =
     (case mw_ucontext s of
        Some uc \<Rightarrow>
          if tid = GetCrashThread s \<and> \<not> d_post_mortem (mw_dumper s) then crashing_thread uc (new_thread tid) s
          else other_thread i extra_thread_stack_len (new_thread tid) s
      | None \<Rightarrow> other_thread i extra_thread_stack_len (new_thread tid) s)"

fun write_threads :: "mdrva \<Rightarrow> int \<Rightarrow> nat \<Rightarrow> u32 list \<Rightarrow> 'f minidump_writer \<Rightarrow> 'f mw_result" where
  "write_threads lst extra i [] s = Some (True, s)"
| "write_threads lst extra i (tid # ts) s =
     do {
       (ok, thread, s) \<leftarrow> write_thread i extra tid s;
       if \<not> ok then Some (False, s)
       else write_threads lst extra (i + 1) ts
              (set_writer (snd (CopyIndexAfterObject 4 lst (of_nat i) (thread_bytes thread) (mw_writer s))) s)
     }"

definition extra_stack_len :: "nat \<Rightarrow> 'f minidump_writer \<Rightarrow> int" where
  "extra_stack_len num_threads s =
     (if 0 \<le> mw_size_limit s \<and>
         mw_size_limit s < uint (w_position (mw_writer s) + of_nat num_threads * kLimitAverageThreadStackLength + kLimitMinidumpFudgeFactor)
      then kLimitMaxExtraThreadStackLen else -1)"

definition WriteThreadListStream :: "'f minidump_writer \<Rightarrow> (bool \<times> raw_dir \<times> 'f minidump_writer) option" where
  "WriteThreadListStream s =
     (let num_threads = length (d_threads (mw_dumper s));
          (ok, lst, w1) = AllocateObjectAndArray (mw_pagesize s) 4 (of_nat num_threads) (of_nat sizeof_MDRawThread) (mw_writer s);
          dirent = \<lparr>rd_type = stream_type ''MD_THREAD_LIST_STREAM'', rd_location = location_of lst\<rparr>
      in if \<not> ok then Some (False, dirent, set_writer (snd (Flush lst (le_int 4 0) w1)) s)
         else
           let s1 = set_writer w1 s
           in do {
             (ok, s2) \<leftarrow> write_threads lst (extra_stack_len num_threads s1) 0 (d_threads (mw_dumper s)) s1;
             Some (ok, dirent, set_writer (snd (Flush lst (le_int 4 num_threads) (mw_writer s2))) s2)
           })"

section \<open>Memory\<close>

fun write_app_memory :: "(u64 \<times> nat) list \<Rightarrow> 'f minidump_writer \<Rightarrow> bool \<times> 'f minidump_writer" where
  "write_app_memory [] s = (True, s)"
| "write_app_memory ((ptr, len) # rest) s =
     (let data_copy = snd (d_copy (mw_dumper s) (GetCrashThread s) ptr len);
          (ok, memory, w1) = Untyped_Allocate (mw_pagesize s) (of_nat len) (mw_writer s)
      in if \<not> ok then (False, set_writer w1 s)
         else
           let w2 = snd (Copy (m_position memory) data_copy w1)
           in write_app_memory rest (push_block \<lparr>md_start = ptr, md_memory = location_of memory\<rparr> (set_writer w2 s)))"

definition WriteAppMemory :: "'f minidump_writer \<Rightarrow> bool \<times> 'f minidump_writer" where
  "WriteAppMemory s = write_app_memory (mw_app_memory_list s) s"

text \<open>Entries of a list stream: \<open>CopyIndexAfterObject\<close> for each of them, from the index \<open>i\<close>.\<close>

fun copy_entries :: "mdrva \<Rightarrow> nat \<Rightarrow> bytes list \<Rightarrow> writer \<Rightarrow> writer" where
  "copy_entries lst i [] w = w"
| "copy_entries lst i (e # es) w = copy_entries lst (i + 1) es (snd (CopyIndexAfterObject 4 lst (of_nat i) e w))"

definition sizeof_MDMemoryDescriptor :: nat where "sizeof_MDMemoryDescriptor = 16"

text \<open>A list stream of \<open>count\<close> entries, or only the number when there is none.\<close>

definition allocate_list :: "nat \<Rightarrow> nat \<Rightarrow> 'f minidump_writer \<Rightarrow> bool \<times> mdrva \<times> writer" where
  "allocate_list count entry_size s =
     (if count \<noteq> 0 then AllocateObjectAndArray (mw_pagesize s) 4 (of_nat count) (of_nat entry_size) (mw_writer s)
      else Typed_Allocate (mw_pagesize s) 4 0 (mw_writer s))"

definition WriteMemoryListStream :: "'f minidump_writer \<Rightarrow> bool \<times> raw_dir \<times> 'f minidump_writer" where
  "WriteMemoryListStream s =
     (let blocks = mw_memory_blocks s;
          (ok, lst, w1) = allocate_list (length blocks) sizeof_MDMemoryDescriptor s;
          dirent = \<lparr>rd_type = stream_type ''MD_MEMORY_LIST_STREAM'', rd_location = location_of lst\<rparr>
      in if \<not> ok then (False, dirent, set_writer (snd (Flush lst (le_int 4 0) w1)) s)
         else
           let w2 = copy_entries lst 0 (map desc_bytes blocks) w1
           in (True, dirent, set_writer (snd (Flush lst (le_int 4 (length blocks)) w2)) s))"

section \<open>Modules\<close>

definition ShouldIncludeMapping :: "mapping_info \<Rightarrow> bool" where
  "ShouldIncludeMapping m =
     (if mi_name m ! 0 = 0 \<or> (mi_offset m \<noteq> 0 \<and> \<not> mi_exec m) \<or> mi_size m < 4096 then False else True)"

definition HaveMappingInfo :: "'f minidump_writer \<Rightarrow> mapping_info \<Rightarrow> bool" where
  "HaveMappingInfo s m =
     list_ex (\<lambda>(f, _). mi_start_addr f \<le> mi_start_addr m \<and> mi_start_addr m + mi_size m \<le> mi_start_addr f + mi_size f)
       (mw_mapping_list s)"

text \<open>The record with the identifier of a module.\<close>

definition sizeof_MDGUID :: nat where "sizeof_MDGUID = 16"

definition WriteCV :: "bytes \<Rightarrow> 'f minidump_writer \<Rightarrow> location option \<times> 'f minidump_writer" where
  "WriteCV identifier_bytes s =
     (let (ok, cv, w1) = Untyped_Allocate (mw_pagesize s) (of_nat (MDCVInfoELF_minsize 8 + length identifier_bytes)) (mw_writer s)
      in if \<not> ok then (None, set_writer w1 s)
         else
           let w2 = snd (Copy (m_position cv) (store_int 4 MD_CVINFOELF_SIGNATURE) w1);
               w3 = snd (Copy (m_position cv + 4) identifier_bytes w2)
           in (Some (location_of cv), set_writer w3 s))"

text \<open>
  \<open>identifier\<close> is the GUID of the caller, or \<open>None\<close>, and then the identifier comes from the file and the name of the mapping may change. The two
  name buffers start as zeros; in the source they are uninitialised, but \<open>GetMappingEffectiveNameAndPath\<close> writes both before they are read.
\<close>

definition FillRawModule ::
  "mapping_info \<Rightarrow> bool \<Rightarrow> nat \<Rightarrow> bytes option \<Rightarrow> 'f minidump_writer \<Rightarrow> (raw_module option \<times> 'f minidump_writer) option" where
  "FillRawModule mapping member mapping_id identifier s =
     (let (identifier_bytes, m) =
            (case identifier of
               Some g \<Rightarrow> (take sizeof_MDGUID g, mapping)
             | None \<Rightarrow> d_identifier (mw_dumper s) mapping member mapping_id);
          s0 = (if member \<and> identifier = None
                then s\<lparr>mw_dumper := (mw_dumper s)\<lparr>d_mappings := (d_mappings (mw_dumper s))[mapping_id := m]\<rparr>\<rparr> else s);
          (cv, s1) = (if identifier_bytes \<noteq> [] then WriteCV identifier_bytes s0 else (Some no_location, s0))
      in case cv of
           None \<Rightarrow> Some (None, s1)
         | Some cv_record \<Rightarrow>
             do {
               (file_path, file_name) \<leftarrow>
                 GetMappingEffectiveNameAndPath (d_so_name (mw_dumper s1) m) m (replicate NAME_MAX 0) (replicate NAME_MAX 0);
               len \<leftarrow> my_strlen file_path;
               let (ld, w2) = WriteString (mw_pagesize s1) (cstr file_path) len (mw_writer s1);
               let s2 = set_writer w2 s1;
               (case ld of
                  None \<Rightarrow> Some (None, s2)
                | Some l \<Rightarrow>
                    Some (Some \<lparr>rm_base = mi_start_addr mapping, rm_size = ucast (mi_size mapping), rm_name = l_rva l, rm_cv = cv_record\<rparr>, s2))
             })"

text \<open>The mappings of the dumper, then those of the caller; \<open>j\<close> counts the entries written.\<close>

fun write_mappings :: "mdrva \<Rightarrow> nat \<Rightarrow> nat \<Rightarrow> mapping_info list \<Rightarrow> 'f minidump_writer \<Rightarrow> (bool \<times> nat \<times> 'f minidump_writer) option" where
  "write_mappings lst i j [] s = Some (True, j, s)"
| "write_mappings lst i j (m # ms) s =
     (if \<not> ShouldIncludeMapping m \<or> HaveMappingInfo s m then write_mappings lst (i + 1) j ms s
      else do {
        (res, s) \<leftarrow> FillRawModule m True i None s;
        (case res of
           None \<Rightarrow> Some (False, j, s)
         | Some md \<Rightarrow>
             write_mappings lst (i + 1) (j + 1) ms
               (set_writer (snd (CopyIndexAfterObject 4 lst (of_nat j) (module_bytes md) (mw_writer s))) s))
      })"

fun write_caller_mappings :: "mdrva \<Rightarrow> nat \<Rightarrow> (mapping_info \<times> bytes) list \<Rightarrow> 'f minidump_writer \<Rightarrow> 'f mw_result" where
  "write_caller_mappings lst j [] s = Some (True, s)"
| "write_caller_mappings lst j ((m, guid) # ms) s =
     do {
       (res, s) \<leftarrow> FillRawModule m False 0 (Some guid) s;
       (case res of
          None \<Rightarrow> Some (False, s)
        | Some md \<Rightarrow>
            write_caller_mappings lst (j + 1) ms
              (set_writer (snd (CopyIndexAfterObject 4 lst (of_nat j) (module_bytes md) (mw_writer s))) s))
     }"

definition num_output_mappings :: "'f minidump_writer \<Rightarrow> nat" where
  "num_output_mappings s = length (mw_mapping_list s) +
     length (filter (\<lambda>m. ShouldIncludeMapping m \<and> \<not> HaveMappingInfo s m) (d_mappings (mw_dumper s)))"

definition WriteMappings :: "'f minidump_writer \<Rightarrow> (bool \<times> raw_dir \<times> 'f minidump_writer) option" where
  "WriteMappings s =
     (let n = num_output_mappings s;
          (ok, lst, w1) = allocate_list n MD_MODULE_SIZE s;
          dirent = \<lparr>rd_type = stream_type ''MD_MODULE_LIST_STREAM'', rd_location = location_of lst\<rparr>
      in if \<not> ok then Some (False, dirent, set_writer (snd (Flush lst (le_int 4 0) w1)) s)
         else
           do {
             (ok, j, s2) \<leftarrow> write_mappings lst 0 0 (d_mappings (mw_dumper s)) (set_writer w1 s);
             (ok, s3) \<leftarrow> (if ok then write_caller_mappings lst j (mw_mapping_list s2) s2 else Some (False, s2));
             Some (ok, dirent, set_writer (snd (Flush lst (le_int 4 n) (mw_writer s3))) s3)
           })"

section \<open>Exception and system\<close>

text \<open>\<open>exception_bytes\<close>: \<open>MDRawExceptionStream\<close>; the parameters are copied without a check of their number.\<close>

definition exception_bytes :: "'f minidump_writer \<Rightarrow> bytes option" where
  "exception_bytes s =
     (let d = mw_dumper s; info = d_crash_exception_info d
      in if length info \<le> MD_EXCEPTION_MAXIMUM_PARAMETERS then
           Some (store_int 4 (d_crash_thread d) @ replicate 4 0 @
             store_int 4 (d_crash_signal d) @ store_int 4 (d_crash_signal_code d) @ replicate 8 0 @ store_int 8 (d_crash_address d) @
             le_int 4 (length info) @ replicate 4 0 @ concat (map (store_int 8) info) @
             replicate (8 * (MD_EXCEPTION_MAXIMUM_PARAMETERS - length info)) 0 @ loc_bytes (mw_crashing_thread_context s))
         else None)"

definition sizeof_MDRawExceptionStream :: nat where "sizeof_MDRawExceptionStream = 168"

definition WriteExceptionStream :: "'f minidump_writer \<Rightarrow> (bool \<times> raw_dir \<times> 'f minidump_writer) option" where
  "WriteExceptionStream s =
     (let (ok, exc, w1) = Typed_Allocate (mw_pagesize s) sizeof_MDRawExceptionStream 0 (mw_writer s);
          dirent = \<lparr>rd_type = stream_type ''MD_EXCEPTION_STREAM'', rd_location = location_of exc\<rparr>
      in if \<not> ok then Some (False, dirent, set_writer (snd (Flush exc (replicate sizeof_MDRawExceptionStream 0) w1)) s)
         else do {
           data \<leftarrow> exception_bytes s;
           Some (True, dirent, set_writer (snd (Flush exc data w1)) s)
         })"

section \<open>What an operation does to the file\<close>

text \<open>
  \<open>grows pg w w' X\<close>: the operation keeps the writer well-formed and appends \<open>X\<close> to the image. A location names bytes of
  the image; \<open>lies_in k X l bs\<close> says that \<open>l\<close> names the bytes \<open>bs\<close> of a piece \<open>X\<close> of the image that begins at position \<open>k\<close>.
\<close>

definition grows :: "u64 \<Rightarrow> writer \<Rightarrow> writer \<Rightarrow> bytes \<Rightarrow> bool" where
  "grows pg w w' X \<longleftrightarrow> winv pg w' \<and> calm w' \<and> same_mode w w' \<and> w_image w' = w_image w @ X"

definition lies_in :: "nat \<Rightarrow> bytes \<Rightarrow> location \<Rightarrow> bytes \<Rightarrow> bool" where
  "lies_in k X l bs \<longleftrightarrow> unat (l_data_size l) = length bs \<and>
     (\<exists>A B. X = A @ bs @ B \<and> unat (l_rva l) = k + length A)"

lemma lies_in_append: "lies_in k X l bs \<Longrightarrow> lies_in k (X @ Y) l bs"
  unfolding lies_in_def by (metis append.assoc)

lemma lies_in_prepend: "lies_in (k + length Z) X l bs \<Longrightarrow> lies_in k (Z @ X) l bs"
  unfolding lies_in_def by (metis append.assoc add.assoc length_append)

lemma lies_in_here: "length bs < 2 ^ 32 \<Longrightarrow> lies_in (unat p) (bs @ Z) \<lparr>l_data_size = of_nat (length bs), l_rva = p\<rparr> bs"
  unfolding lies_in_def by (auto simp: unat_of_nat_small32 intro!: exI [of _ "[]"])

lemma grows_refl: "winv pg w \<Longrightarrow> calm w \<Longrightarrow> grows pg w w []"
  by (simp add: grows_def same_mode_def)

lemma grows_trans: "grows pg w w1 X \<Longrightarrow> grows pg w1 w2 Y \<Longrightarrow> grows pg w w2 (X @ Y)"
  by (auto simp: grows_def intro: same_mode_trans)

lemma growsD:
  assumes "grows pg w w' X"
  shows "winv pg w'" "calm w'" "same_mode w w'" "unat (w_position w') = unat (w_position w) + length X"
    "alloc_size w' = alloc_size w" "padded w' = padded w" "w_image w' = w_image w @ X"
  using assms same_mode_size [of w w'] length_image [of w'] unfolding grows_def by auto

lemma alloc_size_le: "alloc_size w n \<le> n + 7"
  using aligned8_bounds(2) [of n] by (simp add: alloc_size_def)

text \<open>An object of \<open>n\<close> bytes, allocated and copied.\<close>

lemma alloc_copy:
  assumes "winv pg w" and "calm w" and "unat sz = length bs" and "bs \<noteq> []" and "unat (w_position w) + alloc_size w (length bs) < 2 ^ 32"
  shows "\<exists>w1. Untyped_Allocate pg sz w = (True, \<lparr>m_position = w_position w, m_size = sz\<rparr>, w1) \<and>
    grows pg w (snd (Copy (w_position w) bs w1)) (padded w bs) \<and>
    lies_in (unat (w_position w)) (padded w bs) (location_of \<lparr>m_position = w_position w, m_size = sz\<rparr>) bs"
proof -
  have len: "length bs < 2 ^ 32" using assms(5) alloc_size_ge [of "length bs" w] by linarith
  have sz: "sz = of_nat (length bs)" using assms(3) len by (simp add: word_unat_eq_iff unat_of_nat_small)
  obtain w1 where w1: "Untyped_Allocate pg sz w = (True, \<lparr>m_position = w_position w, m_size = sz\<rparr>, w1)"
    using Untyped_Allocate_refines [OF assms(1,2,3) _ assms(5)] assms(4) by auto
  obtain w2 where w2: "WriteMemory pg 0 bs w = (Some (0, \<lparr>l_data_size = of_nat (length bs), l_rva = w_position w\<rparr>), w2)"
    "grows pg w w2 (padded w bs)"
    using WriteMemory_refines [OF assms(1,2,4,5), of 0] by (auto simp: grows_def)
  have "w2 = snd (Copy (w_position w) bs w1)"
    using w2(1) w1 by (auto simp: WriteMemory_def sz split: prod.splits if_splits)
  moreover have "lies_in (unat (w_position w)) (padded w bs) (location_of \<lparr>m_position = w_position w, m_size = sz\<rparr>) bs"
    using lies_in_here [OF len] by (simp add: padded_def location_of_def sz ucast_of_nat_down)
  ultimately show ?thesis using w1 w2(2) by blast
qed

section \<open>Lists of entries\<close>

text \<open>
  A list stream is allocated before the objects its entries refer to: \<open>list_area pg w lst img L Y\<close> is the state in
  between, with the area \<open>L\<close> of the list after \<open>img\<close> and what was appended since, \<open>Y\<close>.
\<close>

definition list_area :: "u64 \<Rightarrow> writer \<Rightarrow> mdrva \<Rightarrow> bytes \<Rightarrow> bytes \<Rightarrow> bytes \<Rightarrow> bool" where
  "list_area pg w lst img L Y \<longleftrightarrow> winv pg w \<and> calm w \<and> w_image w = img @ L @ Y \<and> unat (m_position lst) = length img"

lemma blit_middle: "off + length bs \<le> length L \<Longrightarrow> blit (img @ L @ Y) (length img + off) bs = img @ blit L off bs @ Y"
  by (simp add: blit_def)

lemma list_area_grows: "list_area pg w lst img L Y \<Longrightarrow> grows pg w w' X \<Longrightarrow> list_area pg w' lst img L (Y @ X)"
  by (simp add: list_area_def grows_def)

lemma list_area_length: "list_area pg w lst img L Y \<Longrightarrow> unat (w_position w) = length img + length L + length Y"
  using length_image [of w] unfolding list_area_def by simp

lemma list_area_complete: "list_area pg w' lst (w_image w) L Y \<Longrightarrow> same_mode w w' \<Longrightarrow> grows pg w w' (L @ Y)"
  by (simp add: list_area_def grows_def)

lemma list_area_entry:
  assumes la: "list_area pg w lst img L Y" and "e \<noteq> []" and "tsize + i * length e + length e \<le> length L"
  shows "\<exists>w'. CopyIndexAfterObject tsize lst (of_nat i) e w = (True, w') \<and> same_mode w w' \<and>
    list_area pg w' lst img (blit L (tsize + i * length e) e) Y"
proof -
  have inv: "winv pg w" "calm w" and img: "w_image w = img @ L @ Y" and p: "unat (m_position lst) = length img"
    using la by (auto simp: list_area_def)
  obtain w' where w': "CopyIndexAfterObject tsize lst (of_nat i) e w = (True, w')" "winv pg w'" "calm w'" "same_mode w w'"
    "w_image w' = blit (w_image w) (unat (m_position lst) + tsize + i * length e) e"
    using CopyIndexAfterObject_refines [OF inv assms(2), of lst tsize i] assms(3) p list_area_length [OF la] by auto
  then show ?thesis
    using blit_middle [of "tsize + i * length e" e L img Y] assms(3) p img by (auto simp: list_area_def add.assoc)
qed

lemma list_area_flush:
  assumes la: "list_area pg w lst img L Y" and "length e \<le> length L"
  shows "\<exists>w'. Flush lst e w = (True, w') \<and> same_mode w w' \<and> list_area pg w' lst img (blit L 0 e) Y"
proof -
  have inv: "winv pg w" "calm w" and img: "w_image w = img @ L @ Y" and p: "unat (m_position lst) = length img"
    using la by (auto simp: list_area_def)
  obtain w' where w': "Copy (m_position lst) e w = (True, w')" "winv pg w'" "calm w'" "same_mode w w'"
    "w_image w' = blit (w_image w) (length img) e"
    using Copy_refines [OF inv, of "m_position lst" e] assms(2) p list_area_length [OF la] by (auto simp: same_mode_def)
  then show ?thesis
    using blit_middle [of 0 e L img Y] assms(2) p img by (auto simp: list_area_def Flush_def)
qed

text \<open>The entries before index \<open>i\<close> are in the area, the rest of it is zeros.\<close>

definition entries_area :: "nat \<Rightarrow> bytes list \<Rightarrow> nat \<Rightarrow> bytes" where
  "entries_area tsize es a = replicate tsize 0 @ concat es @ replicate (a - tsize - length (concat es)) 0"

lemma length_concat_const: "list_all (\<lambda>e. length e = k) es \<Longrightarrow> length (concat es) = length es * k"
  by (induction es) auto

lemma entries_area_snoc:
  assumes "list_all (\<lambda>e. length e = k) es" and "length e = k" and "tsize + length es * k + k \<le> a"
  shows "blit (entries_area tsize es a) (tsize + length es * length e) e = entries_area tsize (es @ [e]) a"
proof -
  have len: "length (concat es) = length es * k" by (rule length_concat_const [OF assms(1)])
  have "entries_area tsize es a = (replicate tsize 0 @ concat es) @ replicate (a - tsize - length es * k) 0"
    by (simp add: entries_area_def len)
  moreover have "tsize + length es * length e = length (replicate tsize (0 :: u8) @ concat es)" by (simp add: len assms(2))
  ultimately have "blit (entries_area tsize es a) (tsize + length es * length e) e =
      (replicate tsize 0 @ concat es) @ e @ replicate (a - tsize - length es * k - length e) 0"
    using blit_append_zeros [of e "a - tsize - length es * k" "replicate tsize 0 @ concat es" 0] assms(2,3) by simp
  then show ?thesis by (simp add: entries_area_def len assms(2))
qed

lemma entries_area_nil: "tsize \<le> a \<Longrightarrow> entries_area tsize [] a = replicate a 0"
  by (simp add: entries_area_def replicate_add [symmetric])

lemma length_entries_area: "tsize + length (concat es) \<le> a \<Longrightarrow> length (entries_area tsize es a) = a"
  by (simp add: entries_area_def)

lemma entries_area_flush:
  assumes "length h = tsize"
  shows "blit (entries_area tsize es a) 0 h = h @ concat es @ replicate (a - tsize - length (concat es)) 0"
  using assms by (simp add: blit_def entries_area_def)

lemma list_area_next:
  assumes la: "list_area pg w lst img (entries_area 4 es a) Y" and es: "list_all (\<lambda>e. length e = k) es" and e: "length e = k" "0 < k"
    and room: "4 + length es * k + k \<le> a"
  shows "\<exists>w'. CopyIndexAfterObject 4 lst (of_nat (length es)) e w = (True, w') \<and> same_mode w w' \<and>
    list_area pg w' lst img (entries_area 4 (es @ [e]) a) Y \<and> unat (w_position w') = unat (w_position w)"
proof -
  have len: "length (entries_area 4 es a) = a" "length (entries_area 4 (es @ [e]) a) = a"
    using room e(1) length_concat_const [OF es] by (simp_all add: length_entries_area)
  have ne: "e \<noteq> []" "4 + length es * length e + length e \<le> length (entries_area 4 es a)" using e room len(1) by auto
  obtain w' where w': "CopyIndexAfterObject 4 lst (of_nat (length es)) e w = (True, w')" "same_mode w w'"
    "list_area pg w' lst img (entries_area 4 (es @ [e]) a) Y"
    using list_area_entry [OF la ne] entries_area_snoc [OF es e(1) room] by auto
  then show ?thesis using list_area_length [OF la] list_area_length [OF w'(3)] len by simp
qed

lemma copy_entries_area:
  assumes "list_area pg w lst img (entries_area 4 es a) Y" and "list_all (\<lambda>e. length e = k) (es @ fs)" and "0 < k"
    and "4 + length (es @ fs) * k \<le> a"
  shows "\<exists>w'. copy_entries lst (length es) fs w = w' \<and> same_mode w w' \<and> list_area pg w' lst img (entries_area 4 (es @ fs) a) Y"
  using assms
proof (induction fs arbitrary: es w)
  case Nil
  then show ?case by (simp add: same_mode_def)
next
  case (Cons f fs)
  have f: "length f = k" and es: "list_all (\<lambda>e. length e = k) es" and room: "4 + length es * k + k \<le> a"
    using Cons.prems(2,4) by (auto simp: algebra_simps)
  obtain w1 where w1: "CopyIndexAfterObject 4 lst (of_nat (length es)) f w = (True, w1)" "same_mode w w1"
    "list_area pg w1 lst img (entries_area 4 (es @ [f]) a) Y"
    using list_area_next [OF Cons.prems(1) es f Cons.prems(3) room] by blast
  have "list_all (\<lambda>e. length e = k) ((es @ [f]) @ fs)" "4 + length ((es @ [f]) @ fs) * k \<le> a" using Cons.prems(2,4) by simp_all
  from Cons.IH [OF w1(3) this(1) Cons.prems(3) this(2)] w1 show ?case by (auto intro: same_mode_trans)
qed

section \<open>The memory list\<close>

text \<open>How a reader of the format sees the file: the bytes a location names, and a list stream of entries of \<open>k\<close> bytes.\<close>

definition file_bytes :: "bytes \<Rightarrow> location \<Rightarrow> bytes" where
  "file_bytes img l = take (unat (l_data_size l)) (drop (unat (l_rva l)) img)"

definition read_location :: "bytes \<Rightarrow> location" where
  "read_location bs = \<lparr>l_data_size = of_nat (le_nat (take 4 bs)), l_rva = of_nat (le_nat (take 4 (drop 4 bs)))\<rparr>"

definition read_desc :: "bytes \<Rightarrow> mem_desc" where
  "read_desc bs = \<lparr>md_start = of_nat (le_nat (take 8 bs)), md_memory = read_location (drop 8 bs)\<rparr>"

fun read_entries :: "(bytes \<Rightarrow> 'e) \<Rightarrow> nat \<Rightarrow> nat \<Rightarrow> bytes \<Rightarrow> 'e list" where
  "read_entries dec k 0 bs = []"
| "read_entries dec k (Suc n) bs = dec (take k bs) # read_entries dec k n (drop k bs)"

definition read_list :: "(bytes \<Rightarrow> 'e) \<Rightarrow> nat \<Rightarrow> bytes \<Rightarrow> 'e list option" where
  "read_list dec k bs =
     (let n = le_nat (take 4 bs)
      in if 4 \<le> length bs \<and> 4 + n * k = length bs then Some (read_entries dec k n (drop 4 bs)) else None)"

lemma lies_in_file: "lies_in (length img) X l bs \<Longrightarrow> file_bytes (img @ X) l = bs"
  by (auto simp: lies_in_def file_bytes_def)

lemma le_nat_store_int: "unat (v :: 'a::len word) < 256 ^ k \<Longrightarrow> le_nat (store_int k v) = unat v"
  by (simp add: store_int_def)

lemma unat_u32_lt: "unat (v :: u32) < 256 ^ 4"
  using unsigned_less [of v, where ?'a = nat] by simp

lemma unat_u64_lt: "unat (v :: u64) < 256 ^ 8"
  using unsigned_less [of v, where ?'a = nat] by simp

lemma read_location_bytes [simp]: "read_location (loc_bytes l) = l"
  by (simp add: read_location_def loc_bytes_def le_nat_store_int [OF unat_u32_lt])

lemma length_loc_bytes [simp]: "length (loc_bytes l) = 8"
  by (simp add: loc_bytes_def)

lemma length_desc_bytes [simp]: "length (desc_bytes d) = 16"
  by (simp add: desc_bytes_def)

lemma read_desc_bytes [simp]: "read_desc (desc_bytes d) = d"
  by (simp add: read_desc_def desc_bytes_def le_nat_store_int [OF unat_u64_lt])

lemma read_entries_concat:
  "(\<And>x. x \<in> set xs \<Longrightarrow> length (enc x) = k \<and> dec (enc x) = x) \<Longrightarrow> read_entries dec k (length xs) (concat (map enc xs)) = xs"
  by (induction xs) auto

lemma read_list_concat:
  assumes "\<And>x. x \<in> set xs \<Longrightarrow> length (enc x) = k \<and> dec (enc x) = x" and "length xs < 2 ^ 32"
  shows "read_list dec k (le_int 4 (length xs) @ concat (map enc xs)) = Some xs"
proof -
  have "list_all (\<lambda>e. length e = k) (map enc xs)" using assms(1) by (auto simp: list_all_iff)
  then have "length (concat (map enc xs)) = length xs * k" using length_concat_const [of k "map enc xs"] by simp
  then show ?thesis using assms(2) by (simp add: read_list_def Let_def read_entries_concat [OF assms(1)] del: le_int_simps)
qed

text \<open>The allocation of a list stream: an area of zeros at the end of the file.\<close>

lemma allocate_list_area:
  assumes "winv (mw_pagesize s) (mw_writer s)" and "calm (mw_writer s)"
    and "unat (w_position (mw_writer s)) + 4 + n * k + 7 < 2 ^ 32"
  shows "\<exists>lst w1. allocate_list n k s = (True, lst, w1) \<and>
    location_of lst = \<lparr>l_data_size = of_nat (4 + n * k), l_rva = w_position (mw_writer s)\<rparr> \<and> same_mode (mw_writer s) w1 \<and>
    list_area (mw_pagesize s) w1 lst (w_image (mw_writer s)) (entries_area 4 [] (alloc_size (mw_writer s) (4 + n * k))) []"
proof -
  let ?w = "mw_writer s" and ?sz = "of_nat (4 + n * k) :: u64"
  let ?m = "\<lparr>m_position = w_position ?w, m_size = ?sz\<rparr>"
  have u: "unat ?sz = 4 + n * k" using assms(3) by (intro unat_of_nat_small) simp
  have "allocate_list n k s = Untyped_Allocate (mw_pagesize s) ?sz ?w"
    by (simp add: allocate_list_def AllocateObjectAndArray_def Typed_Allocate_def)
  moreover obtain w1 where "Untyped_Allocate (mw_pagesize s) ?sz ?w = (True, ?m, w1)"
    "winv (mw_pagesize s) w1" "calm w1" "same_mode ?w w1" "w_image w1 = w_image ?w @ replicate (alloc_size ?w (4 + n * k)) 0"
    using Untyped_Allocate_refines [OF assms(1,2) u] alloc_size_le [of ?w "4 + n * k"] assms(3) by auto
  moreover have "entries_area 4 [] (alloc_size ?w (4 + n * k)) = replicate (alloc_size ?w (4 + n * k)) 0"
    using alloc_size_ge [of "4 + n * k" ?w] by (intro entries_area_nil) simp
  ultimately show ?thesis
    by (auto simp: list_area_def location_of_def ucast_of_nat_down simp del: of_nat_add of_nat_mult)
qed

lemma padded_entries:
  assumes "length h = 4" and "length (concat es) = n * k"
  shows "h @ concat es @ replicate (alloc_size w (4 + n * k) - 4 - length (concat es)) 0 = padded w (h @ concat es)"
  using assms by (simp add: padded_def)

lemma finish_list:
  assumes la: "list_area pg w' lst (w_image w) (entries_area 4 es (alloc_size w (4 + n * k))) Z" and es: "list_all (\<lambda>e. length e = k) es"
    and n: "length es = n" and mode: "same_mode w w'"
  shows "\<exists>w3. Flush lst (le_int 4 n) w' = (True, w3) \<and> grows pg w w3 (padded w (le_int 4 n @ concat es) @ Z) \<and>
    length (padded w (le_int 4 n @ concat es)) = alloc_size w (4 + n * k) \<and>
    take (4 + n * k) (padded w (le_int 4 n @ concat es) @ Z) = le_int 4 n @ concat es"
proof -
  let ?a = "alloc_size w (4 + n * k)" and ?L = "padded w (le_int 4 n @ concat es)"
  have a: "4 + n * k \<le> ?a" by (rule alloc_size_ge)
  have lc: "length (concat es) = n * k" using length_concat_const [OF es] n by simp
  have le: "length (entries_area 4 es ?a) = ?a" using a lc by (intro length_entries_area) simp
  have l4: "length (le_int 4 n) \<le> length (entries_area 4 es ?a)" unfolding le length_le_int using a by linarith
  obtain w3 where w3: "Flush lst (le_int 4 n) w' = (True, w3)" "same_mode w' w3"
    "list_area pg w3 lst (w_image w) (blit (entries_area 4 es ?a) 0 (le_int 4 n)) Z"
    using list_area_flush [OF la l4] by blast
  have "blit (entries_area 4 es ?a) 0 (le_int 4 n) = ?L"
    using padded_entries [OF _ lc, of "le_int 4 n" w] by (simp only: entries_area_flush length_le_int)
  then have "grows pg w w3 (?L @ Z)" using list_area_complete [OF w3(3) same_mode_trans [OF mode w3(2)]] by simp
  moreover have "take (4 + n * k) (?L @ Z) = le_int 4 n @ concat es" unfolding padded_def by (simp add: lc del: le_int_simps)
  moreover have "length ?L = ?a" by (simp only: length_padded length_append length_le_int lc)
  ultimately show ?thesis using w3(1) by blast
qed

lemma WriteMemoryListStream_appends:
  assumes "winv (mw_pagesize s) (mw_writer s)" and "calm (mw_writer s)" and "n = length (mw_memory_blocks s)"
    and "unat (w_position (mw_writer s)) + 4 + n * 16 + 7 < 2 ^ 32"
  shows "\<exists>w'. WriteMemoryListStream s = (True, \<lparr>rd_type = stream_type ''MD_MEMORY_LIST_STREAM'',
      rd_location = \<lparr>l_data_size = of_nat (4 + n * 16), l_rva = w_position (mw_writer s)\<rparr>\<rparr>, set_writer w' s) \<and>
    grows (mw_pagesize s) (mw_writer s) w' (padded (mw_writer s) (le_int 4 n @ concat (map desc_bytes (mw_memory_blocks s))))"
proof -
  let ?w = "mw_writer s" and ?pg = "mw_pagesize s" and ?es = "map desc_bytes (mw_memory_blocks s)"
  let ?a = "alloc_size ?w (4 + n * 16)"
  obtain lst w1 where w1: "allocate_list n 16 s = (True, lst, w1)" "same_mode ?w w1"
    "location_of lst = \<lparr>l_data_size = of_nat (4 + n * 16), l_rva = w_position ?w\<rparr>"
    "list_area ?pg w1 lst (w_image ?w) (entries_area 4 [] ?a) []"
    using allocate_list_area [OF assms(1,2,4)] by blast
  have len: "list_all (\<lambda>e. length e = 16) ?es" by (simp add: list_all_iff)
  have a: "4 + n * 16 \<le> ?a" by (rule alloc_size_ge)
  obtain w2 where w2: "copy_entries lst 0 ?es w1 = w2" "same_mode w1 w2" "list_area ?pg w2 lst (w_image ?w) (entries_area 4 ?es ?a) []"
    using copy_entries_area [OF w1(4), of 16 ?es] len a assms(3) by auto
  have n: "length ?es = n" using assms(3) by simp
  obtain w3 where w3: "Flush lst (le_int 4 n) w2 = (True, w3)" "grows ?pg ?w w3 (padded ?w (le_int 4 n @ concat ?es) @ [])"
    using finish_list [OF w2(3) len n same_mode_trans [OF w1(2) w2(2)]] by blast
  from w3(2) have "grows ?pg ?w w3 (padded ?w (le_int 4 n @ concat ?es))" by (simp only: append_Nil2)
  moreover have "WriteMemoryListStream s = (True, \<lparr>rd_type = stream_type ''MD_MEMORY_LIST_STREAM'', rd_location = location_of lst\<rparr>, set_writer w3 s)"
    unfolding WriteMemoryListStream_def sizeof_MDMemoryDescriptor_def assms(3) [symmetric] w1(1) Let_def prod.case w2(1) w3(1) by simp
  ultimately show ?thesis unfolding w1(3) by blast
qed

text \<open>
  Memory blocks: \<open>block_ok d img b\<close> says that the location of the descriptor \<open>b\<close> is inside the file and holds what \<open>CopyFromProcess\<close> gives for
  its range.
\<close>

definition block_ok :: "'f dumper \<Rightarrow> bytes \<Rightarrow> mem_desc \<Rightarrow> bool" where
  "block_ok d img b \<longleftrightarrow>
     (let l = md_memory b
      in unat (l_rva l) + unat (l_data_size l) \<le> length img \<and>
         (\<exists>tid. file_bytes img l = snd (d_copy d tid (md_start b) (unat (l_data_size l)))))"

lemma block_ok_append: "block_ok d img b \<Longrightarrow> block_ok d (img @ X) b"
  by (auto simp: block_ok_def file_bytes_def Let_def)

lemma block_ok_new:
  assumes "lies_in (length img) X l bs" and "bs = snd (d_copy d tid start (length bs))"
  shows "block_ok d (img @ X) \<lparr>md_start = start, md_memory = l\<rparr>"
proof -
  have "unat (l_rva l) + length bs \<le> length img + length X" "unat (l_data_size l) = length bs"
    using assms(1) by (auto simp: lies_in_def)
  then show ?thesis using assms(2) lies_in_file [OF assms(1)] by (auto simp: block_ok_def Let_def)
qed

definition blocks_ok :: "'f minidump_writer \<Rightarrow> bool" where
  "blocks_ok s \<longleftrightarrow> list_all (block_ok (mw_dumper s) (w_image (mw_writer s))) (mw_memory_blocks s)"

text \<open>What the streams never touch of the object, apart from the dumper.\<close>

definition same_config :: "'f minidump_writer \<Rightarrow> 'f minidump_writer \<Rightarrow> bool" where
  "same_config s s' \<longleftrightarrow> mw_pagesize s' = mw_pagesize s \<and> mw_ucontext s' = mw_ucontext s \<and> mw_size_limit s' = mw_size_limit s \<and>
     mw_mapping_list s' = mw_mapping_list s \<and> mw_app_memory_list s' = mw_app_memory_list s \<and> mw_skip_stacks s' = mw_skip_stacks s \<and>
     mw_principal_mapping s' = mw_principal_mapping s \<and> mw_sanitize_stacks s' = mw_sanitize_stacks s"

lemma same_config_refl [simp]: "same_config s s"
  by (simp add: same_config_def)

lemma same_config_trans: "same_config s s1 \<Longrightarrow> same_config s1 s2 \<Longrightarrow> same_config s s2"
  by (simp add: same_config_def)

lemma same_config_updates [simp]:
  "same_config s (set_writer w s') \<longleftrightarrow> same_config s s'" "same_config (set_writer w s) s' \<longleftrightarrow> same_config s s'"
  "same_config s (push_block b s') \<longleftrightarrow> same_config s s'"
  "same_config s (s'\<lparr>mw_crashing_thread_context := l\<rparr>) \<longleftrightarrow> same_config s s'"
  "same_config s (s'\<lparr>mw_dumper := d\<rparr>) \<longleftrightarrow> same_config s s'"
  by (simp_all add: same_config_def set_writer_def push_block_def)

lemma writer_updates [simp]:
  "mw_writer (set_writer w s) = w" "mw_writer (push_block b s) = mw_writer s"
  "mw_dumper (set_writer w s) = mw_dumper s" "mw_dumper (push_block b s) = mw_dumper s"
  "mw_memory_blocks (set_writer w s) = mw_memory_blocks s" "mw_memory_blocks (push_block b s) = mw_memory_blocks s @ [b]"
  "mw_pagesize (set_writer w s) = mw_pagesize s" "mw_pagesize (push_block b s) = mw_pagesize s"
  "mw_crashing_thread_context (set_writer w s) = mw_crashing_thread_context s"
  "mw_crashing_thread_context (push_block b s) = mw_crashing_thread_context s"
  by (simp_all add: set_writer_def push_block_def)

lemma same_config_pagesize: "same_config s s' \<Longrightarrow> mw_pagesize s' = mw_pagesize s"
  by (simp add: same_config_def)

text \<open>
  What a step of the writer does: it appends \<open>X\<close> to the file and records the blocks \<open>bs\<close>, which lie in \<open>X\<close> and are copies of memory. The
  dumper changes at most in the address of the crash.
\<close>

definition same_process :: "'f dumper \<Rightarrow> 'f dumper \<Rightarrow> bool" where
  "same_process d d' \<longleftrightarrow> (\<exists>a. d' = d\<lparr>d_crash_address := a\<rparr>)"

lemma same_process_refl [simp]: "same_process d d"
  unfolding same_process_def by (rule exI [of _ "d_crash_address d"]) simp

lemma same_process_trans: "same_process d d1 \<Longrightarrow> same_process d1 d2 \<Longrightarrow> same_process d d2"
  by (auto simp: same_process_def)

lemma same_processD:
  assumes "same_process d d'"
  shows "d_copy d' = d_copy d" "d_threads d' = d_threads d" "d_mappings d' = d_mappings d" "d_crash_thread d' = d_crash_thread d"
    "d_post_mortem d' = d_post_mortem d" "d_thread_info d' = d_thread_info d"
  using assms by (auto simp: same_process_def)

definition laid :: "'f dumper \<Rightarrow> nat \<Rightarrow> bytes \<Rightarrow> mem_desc \<Rightarrow> bool" where
  "laid d k X b \<longleftrightarrow> (\<exists>bs tid. lies_in k X (md_memory b) bs \<and> bs = snd (d_copy d tid (md_start b) (length bs)))"

lemma laid_append: "laid d k X b \<Longrightarrow> laid d k (X @ Y) b"
  using lies_in_append unfolding laid_def by blast

lemma laid_prepend: "laid d (k + length Z) X b \<Longrightarrow> laid d k (Z @ X) b"
  using lies_in_prepend unfolding laid_def by blast

lemma laid_process: "same_process d d' \<Longrightarrow> laid d' = laid d"
  by (auto simp: laid_def same_processD fun_eq_iff)

lemma laid_block_ok: "laid d (length img) X b \<Longrightarrow> block_ok d (img @ X) b"
  by (cases b) (auto simp: laid_def intro: block_ok_new)

definition writes :: "'f minidump_writer \<Rightarrow> 'f minidump_writer \<Rightarrow> bytes \<Rightarrow> mem_desc list \<Rightarrow> bool" where
  "writes s s' X bs \<longleftrightarrow> grows (mw_pagesize s) (mw_writer s) (mw_writer s') X \<and> same_config s s' \<and>
     same_process (mw_dumper s) (mw_dumper s') \<and> mw_memory_blocks s' = mw_memory_blocks s @ bs \<and>
     list_all (laid (mw_dumper s) (unat (w_position (mw_writer s))) X) bs"

lemma writes_refl: "winv (mw_pagesize s) (mw_writer s) \<Longrightarrow> calm (mw_writer s) \<Longrightarrow> writes s s [] []"
  by (simp add: writes_def grows_refl)

lemma writesD:
  assumes "writes s s' X bs"
  shows "grows (mw_pagesize s) (mw_writer s) (mw_writer s') X" "same_config s s'" "mw_pagesize s' = mw_pagesize s"
    "same_process (mw_dumper s) (mw_dumper s')" "mw_memory_blocks s' = mw_memory_blocks s @ bs"
    "list_all (laid (mw_dumper s) (unat (w_position (mw_writer s))) X) bs"
    "winv (mw_pagesize s') (mw_writer s')" "calm (mw_writer s')" "unat (w_position (mw_writer s')) = unat (w_position (mw_writer s)) + length X"
  using assms growsD [of "mw_pagesize s" "mw_writer s" "mw_writer s'" X] same_config_pagesize [of s s'] unfolding writes_def by auto

lemma writes_trans:
  assumes "writes s s1 X bs" and "writes s1 s2 Y cs"
  shows "writes s s2 (X @ Y) (bs @ cs)"
proof -
  note D1 = writesD [OF assms(1)] and D2 = writesD [OF assms(2)]
  have "list_all (laid (mw_dumper s) (unat (w_position (mw_writer s))) (X @ Y)) cs"
    using D2(6) D1(9) laid_prepend unfolding laid_process [OF D1(4)] list_all_iff by metis
  moreover have "list_all (laid (mw_dumper s) (unat (w_position (mw_writer s))) (X @ Y)) bs"
    using D1(6) laid_append unfolding list_all_iff by blast
  ultimately show ?thesis
    using grows_trans [OF D1(1) D2(1) [unfolded D1(3)]] same_config_trans [OF D1(2) D2(2)] same_process_trans [OF D1(4) D2(4)] D1(5) D2(5)
    by (simp add: writes_def)
qed

lemma writes_blocks_ok: "blocks_ok s \<Longrightarrow> writes s s' X bs \<Longrightarrow> blocks_ok s'"
proof -
  assume ok: "blocks_ok s" and w: "writes s s' X bs"
  have "block_ok (mw_dumper s') = block_ok (mw_dumper s)"
    using same_processD(1) [OF writesD(4) [OF w]] by (simp add: block_ok_def fun_eq_iff)
  then show ?thesis
    using ok writesD(5,6) [OF w] growsD(7) [OF writesD(1) [OF w]] laid_block_ok [of "mw_dumper s" "w_image (mw_writer s)" X]
    by (auto simp: blocks_ok_def list_all_iff intro: block_ok_append)
qed

text \<open>One copy of memory: allocated, copied and recorded.\<close>

context process_copy
begin

lemma store_block:
  assumes "d_copy (mw_dumper s) = copy" and "winv (mw_pagesize s) (mw_writer s)" and "calm (mw_writer s)"
    and "unat sz = n" and "0 < n" and "unat (w_position (mw_writer s)) + n + 7 < 2 ^ 32" and "bs = snd (copy tid start n)"
  shows "\<exists>m w1 s' X. Untyped_Allocate (mw_pagesize s) sz (mw_writer s) = (True, m, w1) \<and>
    push_block \<lparr>md_start = start, md_memory = location_of m\<rparr> (set_writer (snd (Copy (m_position m) bs w1)) s) = s' \<and>
    writes s s' X [\<lparr>md_start = start, md_memory = location_of m\<rparr>] \<and> length X \<le> n + 7 \<and> unat (l_data_size (location_of m)) = n \<and>
    mw_crashing_thread_context s' = mw_crashing_thread_context s"
proof -
  let ?w = "mw_writer s" and ?m = "\<lparr>m_position = w_position (mw_writer s), m_size = sz\<rparr>"
  have bs: "length bs = n" "bs \<noteq> []" using assms(5,7) copy_length [of tid start n] by auto
  have "unat (w_position ?w) + alloc_size ?w (length bs) < 2 ^ 32"
    unfolding bs(1) using alloc_size_le [of ?w n] assms(6) by linarith
  then obtain w1 where w1: "Untyped_Allocate (mw_pagesize s) sz ?w = (True, ?m, w1)"
    "grows (mw_pagesize s) ?w (snd (Copy (w_position ?w) bs w1)) (padded ?w bs)"
    "lies_in (unat (w_position ?w)) (padded ?w bs) (location_of ?m) bs"
    using alloc_copy [OF assms(2,3), of sz bs] assms(4) bs by auto
  let ?b = "\<lparr>md_start = start, md_memory = location_of ?m\<rparr>"
  let ?s = "push_block ?b (set_writer (snd (Copy (w_position ?w) bs w1)) s)"
  have "laid (mw_dumper s) (unat (w_position ?w)) (padded ?w bs) ?b"
    unfolding laid_def using w1(3) assms(1,7) bs(1) by (intro exI [of _ bs] exI [of _ tid]) simp
  then have "writes s ?s (padded ?w bs) [?b]" using w1(2) by (simp add: writes_def)
  moreover have "length (padded ?w bs) \<le> n + 7" using alloc_size_le [of ?w n] by (simp add: bs(1))
  moreover have "unat (l_data_size (location_of ?m)) = n" using w1(3) bs(1) by (simp add: lies_in_def)
  ultimately show ?thesis using w1(1) by (intro exI [of _ ?m] exI [of _ w1] exI [of _ ?s] exI [of _ "padded ?w bs"]) simp
qed

lemma write_app_memory_correct:
  assumes "d_copy (mw_dumper s) = copy" and "winv (mw_pagesize s) (mw_writer s)" and "calm (mw_writer s)"
    and "list_all (\<lambda>(p, n). 0 < n) apps" and "unat (w_position (mw_writer s)) + sum_list (map (\<lambda>(p, n). n + 7) apps) < 2 ^ 32"
  shows "\<exists>s' X bs. write_app_memory apps s = (True, s') \<and> writes s s' X bs \<and> length X \<le> sum_list (map (\<lambda>(p, n). n + 7) apps) \<and>
    map (\<lambda>b. (md_start b, unat (l_data_size (md_memory b)))) bs = apps \<and> mw_dumper s' = mw_dumper s \<and>
    mw_crashing_thread_context s' = mw_crashing_thread_context s"
  using assms
proof (induction apps arbitrary: s)
  case Nil
  then show ?case using writes_refl by auto
next
  case (Cons app apps)
  obtain p n where app: "app = (p, n)" by (cases app)
  let ?bs = "snd (copy (GetCrashThread s) p n)"
  have n: "0 < n" and room: "unat (w_position (mw_writer s)) + n + 7 + sum_list (map (\<lambda>(p, n). n + 7) apps) < 2 ^ 32"
    using Cons.prems(4,5) by (simp_all add: app)
  have sz: "unat (of_nat n :: u64) = n" "unat (w_position (mw_writer s)) + n + 7 < 2 ^ 32" using room by (simp_all add: unat_of_nat_small)
  obtain m w1 s1 X where s1: "Untyped_Allocate (mw_pagesize s) (of_nat n) (mw_writer s) = (True, m, w1)"
    "push_block \<lparr>md_start = p, md_memory = location_of m\<rparr> (set_writer (snd (Copy (m_position m) ?bs w1)) s) = s1"
    "writes s s1 X [\<lparr>md_start = p, md_memory = location_of m\<rparr>]" "length X \<le> n + 7" "unat (l_data_size (location_of m)) = n"
    "mw_crashing_thread_context s1 = mw_crashing_thread_context s"
    using store_block [OF Cons.prems(1-3) sz(1) n sz(2), of ?bs "GetCrashThread s" p, OF refl] by blast
  note D = writesD [OF s1(3)]
  have d: "mw_dumper s1 = mw_dumper s" unfolding s1(2) [symmetric] by simp
  have ih: "d_copy (mw_dumper s1) = copy" "list_all (\<lambda>(p, n). 0 < n) apps"
    "unat (w_position (mw_writer s1)) + sum_list (map (\<lambda>(p, n). n + 7) apps) < 2 ^ 32"
    using D(9) s1(4) room d Cons.prems(1,4) by simp_all
  obtain s2 Y bs where s2: "write_app_memory apps s1 = (True, s2)" "writes s1 s2 Y bs" "length Y \<le> sum_list (map (\<lambda>(p, n). n + 7) apps)"
    "map (\<lambda>b. (md_start b, unat (l_data_size (md_memory b)))) bs = apps" "mw_dumper s2 = mw_dumper s1"
    "mw_crashing_thread_context s2 = mw_crashing_thread_context s1"
    using Cons.IH [OF ih(1) D(7,8) ih(2,3)] by blast
  have "write_app_memory (app # apps) s = (True, s2)" using s1(1,2) s2(1) Cons.prems(1) by (simp add: app Let_def)
  then show ?case
    using writes_trans [OF s1(3) s2(2)] s1(4-6) s2(3-6) d
    by (intro exI [of _ s2] exI [of _ "X @ Y"] exI [of _ "\<lparr>md_start = p, md_memory = location_of m\<rparr> # bs"]) (simp add: app)
qed

end

context process_copy
begin

lemma block_ok_memory:
  assumes "d_copy d = copy" and "block_ok d img b" and "mapped_in_words mem" and "8 dvd unat (md_start b)"
  shows "file_bytes img (md_memory b) =
    map (\<lambda>i. byte_or_zero (mem (md_start b + of_nat i))) [0..<unat (l_data_size (md_memory b))]"
  using assms copy_aligned [OF assms(3,4)] by (auto simp: block_ok_def Let_def)

end

text \<open>The type of a stream in the directory.\<close>

lemma stream_types [simp]:
  "stream_type ''MD_THREAD_LIST_STREAM'' = 3" "stream_type ''MD_MODULE_LIST_STREAM'' = 4"
  "stream_type ''MD_MEMORY_LIST_STREAM'' = 5" "stream_type ''MD_EXCEPTION_STREAM'' = 6" "stream_type ''MD_SYSTEM_INFO_STREAM'' = 7"
  by (simp_all add: stream_type_def MDStreamType_def)

definition extents :: "mem_desc list \<Rightarrow> (u64 \<times> nat) list" where
  "extents bs = map (\<lambda>b. (md_start b, unat (l_data_size (md_memory b)))) bs"

text \<open>
  C5. The memory list is faithful. When the blocks recorded so far are in the file, \<open>WriteAppMemory\<close> and \<open>WriteMemoryListStream\<close>
  succeed; a reader of the format that follows the directory entry finds exactly the recorded blocks, those of the
  application after the earlier ones. Every descriptor names bytes inside the file, the
  copy of its range, which from an aligned address is the memory of the process with zeros where nothing is mapped; what was in the file before is unchanged.
\<close>

theorem memory_list_faithful:
  assumes "d_copy (mw_dumper s) = ptrace_copy (peek_of mem)" and "winv (mw_pagesize s) (mw_writer s)" and "calm (mw_writer s)" and "blocks_ok s"
    and "list_all (\<lambda>(p, n). 0 < n) (mw_app_memory_list s)"
    and "unat (w_position (mw_writer s)) + sum_list (map (\<lambda>(p, n). n + 7) (mw_app_memory_list s)) +
      4 + (length (mw_memory_blocks s) + length (mw_app_memory_list s)) * 16 + 7 < 2 ^ 32"
    and "WriteAppMemory s = (ok1, s1)" and "WriteMemoryListStream s1 = (ok2, dirent, s2)" and "img = w_image (mw_writer s2)"
  shows "ok1 \<and> ok2 \<and> rd_type dirent = 5 \<and> read_list read_desc 16 (file_bytes img (rd_location dirent)) = Some (mw_memory_blocks s1) \<and>
    extents (mw_memory_blocks s1) = extents (mw_memory_blocks s) @ mw_app_memory_list s \<and>
    list_all (\<lambda>b. block_ok (mw_dumper s) img b \<and>
      (mapped_in_words mem \<and> 8 dvd unat (md_start b) \<longrightarrow> file_bytes img (md_memory b) =
         map (\<lambda>i. byte_or_zero (mem (md_start b + of_nat i))) [0..<unat (l_data_size (md_memory b))])) (mw_memory_blocks s1) \<and>
    take (unat (w_position (mw_writer s))) img = w_image (mw_writer s)"
proof -
  let ?apps = "mw_app_memory_list s" and ?w = "mw_writer s"
  obtain X bs where a: "ok1" "writes s s1 X bs" "mw_dumper s1 = mw_dumper s" "length X \<le> sum_list (map (\<lambda>(p, n). n + 7) ?apps)"
    "extents bs = ?apps"
    using pc.write_app_memory_correct [OF assms(1-3,5)] assms(6,7) unfolding WriteAppMemory_def extents_def by auto
  note W = writesD [OF a(2)]
  have X: "ok1" "same_config s s1" "mw_dumper s1 = mw_dumper s" "grows (mw_pagesize s) ?w (mw_writer s1) X"
    "length X \<le> sum_list (map (\<lambda>(p, n). n + 7) ?apps)" "blocks_ok s1" "extents (mw_memory_blocks s1) = extents (mw_memory_blocks s) @ ?apps"
    using a W(1,2,5) writes_blocks_ok [OF assms(4) a(2)] by (simp_all add: extents_def)
  note D = growsD [OF X(4)] and pg = W(3)
  let ?n = "length (mw_memory_blocks s1)" and ?bs = "concat (map desc_bytes (mw_memory_blocks s1))"
  have "length (extents (mw_memory_blocks s1)) = length (extents (mw_memory_blocks s)) + length ?apps" by (simp add: X(7))
  then have n: "?n = length (mw_memory_blocks s) + length ?apps" by (simp add: extents_def)
  have room: "unat (w_position (mw_writer s1)) + 4 + ?n * 16 + 7 < 2 ^ 32" using D(4) X(5) assms(6) unfolding n by linarith
  then obtain w' where w': "ok2" "dirent = \<lparr>rd_type = stream_type ''MD_MEMORY_LIST_STREAM'',
      rd_location = \<lparr>l_data_size = of_nat (4 + ?n * 16), l_rva = w_position (mw_writer s1)\<rparr>\<rparr>" "s2 = set_writer w' s1"
    "grows (mw_pagesize s) (mw_writer s1) w' (padded (mw_writer s1) (le_int 4 ?n @ ?bs))"
    using WriteMemoryListStream_appends [of s1 ?n] D(1,2) pg assms(8) by auto
  have lc: "length ?bs = ?n * 16" using length_concat_const [of 16 "map desc_bytes (mw_memory_blocks s1)"] by (simp add: list_all_iff)
  have img: "img = w_image (mw_writer s1) @ padded (mw_writer s1) (le_int 4 ?n @ ?bs)" using growsD(7) [OF w'(4)] assms(9) w'(3) by simp
  have "lies_in (length (w_image (mw_writer s1))) (padded (mw_writer s1) (le_int 4 ?n @ ?bs)) (rd_location dirent) (le_int 4 ?n @ ?bs)"
    using lies_in_here [of "le_int 4 ?n @ ?bs" "w_position (mw_writer s1)"] room lc unfolding w'(2) padded_def by simp
  then have "file_bytes img (rd_location dirent) = le_int 4 ?n @ ?bs" unfolding img by (rule lies_in_file)
  then have "read_list read_desc 16 (file_bytes img (rd_location dirent)) = Some (mw_memory_blocks s1)"
    using read_list_concat [of "mw_memory_blocks s1" desc_bytes 16 read_desc] room by simp
  moreover have "list_all (block_ok (mw_dumper s) img) (mw_memory_blocks s1)"
    using X(6) block_ok_append unfolding img blocks_ok_def X(3) list_all_iff by blast
  moreover have "take (unat (w_position ?w)) img = w_image ?w" unfolding img D(7) by simp
  ultimately show ?thesis
    using X(1,7) w'(1,2) pc.block_ok_memory [OF assms(1)] by (simp add: list_all_iff)
qed

text \<open>A process with one thread that crashed, one mapping, one mapped word and one region of the application; its files cannot be read.\<close>

definition sample_regs :: user_regs_arm64 where
  "sample_regs = \<lparr>ur_regs = replicate 31 0, ur_sp = 0x20000, ur_pc = 0x10000, ur_pstate = 0\<rparr>"

definition sample_fpregs :: user_fpsimd where
  "sample_fpregs = \<lparr>fp_vregs = replicate 512 0, fp_fpsr = 0, fp_fpcr = 0\<rparr>"

definition sample_dumper :: "unit dumper" where
  "sample_dumper = \<lparr>d_threads = [7], d_mappings = [sample_mapping 0x10000 0x30000 True], d_crash_thread = 7, d_crash_address = 0x10000, d_crash_signal = 11, d_crash_signal_code = 1,
     d_crash_exception_info = [], d_auxv = replicate 64 0, d_post_mortem = False, d_copy = ptrace_copy (peek_of small_memory),
     d_thread_info = (\<lambda>i. None), d_identifier = (\<lambda>m b i. ([], m)), d_so_name = (\<lambda>m b. (False, b)), d_open = (\<lambda>p. None), d_read = (\<lambda>f n. (None, f))\<rparr>"

definition sample_mw :: "unit minidump_writer" where
  "sample_mw = \<lparr>mw_pagesize = 4096, mw_ucontext = Some \<lparr>uc_regs = sample_regs, uc_float = sample_fpregs\<rparr>, mw_dumper = sample_dumper,
     mw_writer = snd (Open 3 (MinidumpFileWriter new_file False True)), mw_size_limit = -1, mw_crashing_thread_context = no_location,
     mw_memory_blocks = [], mw_mapping_list = [], mw_app_memory_list = [(0x1000, 8)], mw_skip_stacks = False,
     mw_principal_mapping_address = 0, mw_principal_mapping = None, mw_sanitize_stacks = False\<rparr>"

lemma sample_mw_fields [simp]:
  "mw_pagesize sample_mw = 4096" "mw_dumper sample_mw = sample_dumper" "mw_memory_blocks sample_mw = []"
  "mw_app_memory_list sample_mw = [(0x1000, 8)]" "mw_ucontext sample_mw = Some \<lparr>uc_regs = sample_regs, uc_float = sample_fpregs\<rparr>"
  "mw_skip_stacks sample_mw = False" "mw_sanitize_stacks sample_mw = False" "mw_size_limit sample_mw = -1" "mw_mapping_list sample_mw = []"
  by (simp_all add: sample_mw_def)

lemma sample_mw_writer:
  "winv 4096 (mw_writer sample_mw)" "calm (mw_writer sample_mw)" "w_image (mw_writer sample_mw) = []" "w_position (mw_writer sample_mw) = 0"
  using new_writer [of 4096 "mw_writer sample_mw" 3 False True] by (simp_all add: sample_mw_def)

lemma sample_copy: "d_copy sample_dumper = ptrace_copy (peek_of small_memory)"
  by (simp add: sample_dumper_def)

theorem memory_list_faithful_witness:
  "\<exists>s1 dirent s2 b. WriteAppMemory sample_mw = (True, s1) \<and> WriteMemoryListStream s1 = (True, dirent, s2) \<and>
     read_list read_desc 16 (file_bytes (w_image (mw_writer s2)) (rd_location dirent)) = Some [b] \<and> md_start b = 0x1000 \<and>
     file_bytes (w_image (mw_writer s2)) (md_memory b) = [1, 2, 3, 4, 5, 6, 7, 8]"
proof -
  obtain ok1 s1 where s1: "WriteAppMemory sample_mw = (ok1, s1)" by (meson surj_pair)
  obtain ok2 dirent s2 where s2: "WriteMemoryListStream s1 = (ok2, dirent, s2)" by (rule prod_cases3)
  let ?img = "w_image (mw_writer s2)"
  have hyp: "d_copy (mw_dumper sample_mw) = ptrace_copy (peek_of small_memory)" "winv (mw_pagesize sample_mw) (mw_writer sample_mw)"
    "blocks_ok sample_mw" "list_all (\<lambda>(p, n). 0 < n) (mw_app_memory_list sample_mw)"
    using sample_mw_writer(1) by (simp_all add: sample_copy blocks_ok_def)
  have r: "ok1" "ok2" "read_list read_desc 16 (file_bytes ?img (rd_location dirent)) = Some (mw_memory_blocks s1)"
    "extents (mw_memory_blocks s1) = [(0x1000, 8)]"
    "\<And>b. b \<in> set (mw_memory_blocks s1) \<Longrightarrow> 8 dvd unat (md_start b) \<Longrightarrow> file_bytes ?img (md_memory b) =
         map (\<lambda>i. byte_or_zero (small_memory (md_start b + of_nat i))) [0..<unat (l_data_size (md_memory b))]"
    using memory_list_faithful [OF hyp(1,2) sample_mw_writer(2) hyp(3,4) _ s1 s2 refl] sample_mw_writer(4) small_peek_contract(2)
    by (simp_all add: extents_def list_all_iff)
  obtain b where b: "mw_memory_blocks s1 = [b]" "md_start b = 0x1000" "unat (l_data_size (md_memory b)) = 8"
    using r(4) by (cases "mw_memory_blocks s1") (auto simp: extents_def)
  have "file_bytes ?img (md_memory b) = map (\<lambda>i. byte_or_zero (small_memory (0x1000 + of_nat i))) [0..<8]"
    using r(5) [of b] b by simp
  also have "\<dots> = [1, 2, 3, 4, 5, 6, 7, 8]" by (simp add: upt_rec small_memory_def byte_or_zero_def)
  finally show ?thesis using r(1-3) b s1 s2 by auto
qed

end
