(* ===== verification/Thread_List.thy ===== *)
theory Thread_List
  imports Minidump_Writer
begin

text \<open>
  The thread list stream of \<^verbatim>\<open>client/linux/minidump_writer/minidump_writer.cc\<close>: what \<open>WriteThreadListStream\<close> leaves in the file for every
  thread, its registers and its stack, over the copies of memory that the locale \<open>process_copy\<close> promises.
\<close>

section \<open>The extent of a stack\<close>

lemma unat_word_of_int_small:
  assumes "0 \<le> x" and "x < 2 ^ 31"
  shows "unat (word_of_int x :: u64) = nat x"
proof -
  have x: "x = int (nat x)" using assms(1) by simp
  have "unat (of_nat (nat x) :: u64) = nat x" using assms by (intro unat_of_nat_small) simp
  then show ?thesis by (subst x) (simp only: of_int_of_nat_eq)
qed

text \<open>The limit on the length of a stack: the search for the chunk of the stack pointer ends.\<close>

lemma limit_stack_ends:
  assumes "stack \<le> sp" and "unat sp + 2 ^ 31 < 2 ^ 64" and "max_len < 2 ^ 31" and "max_len \<noteq> 0" and "0 < unat len"
  shows "\<exists>a n. limit_stack max_len sp stack len = Some (a, n) \<and> 0 < unat n \<and> unat n \<le> unat len"
proof (cases "0 \<le> max_len \<and> max_len < uint len")
  case False
  then show ?thesis using assms(5) by (auto simp: limit_stack_def)
next
  case True
  let ?m = "word_of_int max_len :: u64"
  have pos: "0 < max_len" using True assms(4) by simp
  then have m: "unat ?m = nat max_len" using assms(3) by (intro unat_word_of_int_small) simp_all
  then have m1: "0 < unat ?m" "unat ?m < 2 ^ 31" using pos assms(3) by simp_all
  have "unat ?m \<le> unat len" unfolding m nat_le_iff using True by simp
  moreover have "\<exists>t. while_option (\<lambda>s. s + ?m < sp) (\<lambda>s. s + ?m) stack = Some t"
  proof (rule measure_while_option_Some [where P = "\<lambda>s. s \<le> sp" and f = "\<lambda>s. unat sp - unat s"])
    fix s
    assume "s \<le> sp" and b: "s + ?m < sp"
    then have "unat s + unat ?m < 2 ^ 64" using m1(2) assms(2) by (simp add: word_le_nat_alt)
    then have "unat (s + ?m) = unat s + unat ?m" by (intro unat_add_small) simp
    then show "s + ?m \<le> sp \<and> unat sp - unat (s + ?m) < unat sp - unat s"
      using b m1(1) by (simp add: word_less_nat_alt word_le_nat_alt)
  qed (rule assms(1))
  ultimately show ?thesis using True pos m1(1) by (auto simp: limit_stack_def)
qed

text \<open>
  What the writer needs of the machine: pages whose size is a power of two, and the mappings as the dumper collects them, below \<open>2^63\<close>.
\<close>

definition machine_ok :: "'f minidump_writer \<Rightarrow> bool" where
  "machine_ok s \<longleftrightarrow> (\<exists>k<32. mw_pagesize s = 2 ^ k) \<and> list_all adjusted (d_mappings (mw_dumper s)) \<and>
     list_all (\<lambda>m. unat (mi_sys_end m) < 2 ^ 63) (d_mappings (mw_dumper s))"

definition stack_extent :: "'f minidump_writer \<Rightarrow> int \<Rightarrow> u64 \<Rightarrow> (u64 \<times> u64) option" where
  "stack_extent s max_len sp =
     (case GetStackInfo (mw_pagesize s) (d_mappings (mw_dumper s)) sp of
        None \<Rightarrow> None
      | Some (stack, len) \<Rightarrow> limit_stack max_len sp stack len)"

lemma stack_extent_bounds:
  assumes "machine_ok s" and "max_len = -1 \<or> max_len = 2048"
    and "GetStackInfo (mw_pagesize s) (d_mappings (mw_dumper s)) sp = Some (stack, len)"
  shows "\<exists>a n. limit_stack max_len sp stack len = Some (a, n) \<and> 0 < unat n \<and> unat n \<le> 32768"
proof -
  obtain k where k: "k < 32" "mw_pagesize s = 2 ^ k" using assms(1) by (auto simp: machine_ok_def)
  have r: "stack = sp AND NOT (mw_pagesize s - 1)" "0 < unat len" "unat len \<le> 32768"
    and "\<exists>m. m \<in> set (d_mappings (mw_dumper s)) \<and> unat stack + unat len \<le> unat (mi_sys_end m)"
    using GetStackInfo_range [of "d_mappings (mw_dumper s)" _ sp "mw_pagesize s", OF _ _ refl] assms(1,3) by (auto simp: machine_ok_def)
  then have "unat stack < 2 ^ 63" using assms(1) by (force simp: machine_ok_def list_all_iff)
  moreover have ge: "stack \<le> sp" and "sp - stack < mw_pagesize s" using and_not_page [OF k(2), of sp] k(1) r(1) by simp_all
  moreover have "unat (mw_pagesize s) \<le> 2 ^ 31"
  proof -
    have le: "(2 :: nat) ^ k \<le> 2 ^ 31" using k(1) by (intro power_increasing) auto
    then have "unat (of_nat (2 ^ k) :: u64) = 2 ^ k" by (intro unat_of_nat_small) simp
    then show ?thesis unfolding k(2) using le by simp
  qed
  ultimately have "unat sp + 2 ^ 31 < 2 ^ 64" by (simp add: word_less_nat_alt word_le_nat_alt unat_sub)
  from limit_stack_ends [OF ge this, of max_len len] show ?thesis using assms(2) r(2,3) by (auto intro: order_trans)
qed

text \<open>The stack of a thread: none, with the reason, or a block that lies in the piece \<open>X\<close> of the file.\<close>

definition stack_laid :: "'f minidump_writer \<Rightarrow> int \<Rightarrow> u64 \<Rightarrow> nat \<Rightarrow> bytes \<Rightarrow> mem_desc \<Rightarrow> bool" where
  "stack_laid s max_len sp k X b \<longleftrightarrow>
     (if l_data_size (md_memory b) = 0 then md_start b = sp \<and> (stack_extent s max_len sp = None \<or> mw_skip_stacks s)
      else laid (mw_dumper s) k X b \<and>
        map_option (map_prod id unat) (stack_extent s max_len sp) = Some (md_start b, unat (l_data_size (md_memory b))))"

lemma stack_laid_append: "stack_laid s m sp k X b \<Longrightarrow> stack_laid s m sp k (X @ Y) b"
  by (auto simp: stack_laid_def laid_append split: if_splits)

lemma stack_laid_prepend: "stack_laid s m sp (k + length Z) X b \<Longrightarrow> stack_laid s m sp k (Z @ X) b"
  by (auto simp: stack_laid_def laid_prepend split: if_splits)

context process_copy
begin

lemma FillThreadStack_spec:
  assumes "d_copy (mw_dumper s) = copy" and "winv (mw_pagesize s) (mw_writer s)" and "calm (mw_writer s)" and "machine_ok s"
    and "\<not> mw_sanitize_stacks s" and "max_len = -1 \<or> max_len = 2048" and "unat (w_position (mw_writer s)) + 32775 < 2 ^ 32"
  shows "\<exists>b s' X bs. FillThreadStack t sp pc max_len s = Some (True, t\<lparr>rt_stack := b\<rparr>, s') \<and> writes s s' X bs \<and> length X \<le> 32775 \<and>
    stack_laid s max_len sp (unat (w_position (mw_writer s))) X b \<and> mw_dumper s' = mw_dumper s \<and>
    mw_crashing_thread_context s' = mw_crashing_thread_context s \<and> bs = (if l_data_size (md_memory b) = 0 then [] else [b])"
proof -
  let ?b = "\<lparr>md_start = sp, md_memory = \<lparr>l_data_size = 0, l_rva = w_position (mw_writer s)\<rparr>\<rparr>"
  have empty: ?thesis if "FillThreadStack t sp pc max_len s = Some (True, t\<lparr>rt_stack := ?b\<rparr>, s)" "stack_extent s max_len sp = None \<or> mw_skip_stacks s"
    using that writes_refl [OF assms(2,3)] by (intro exI [of _ ?b] exI [of _ s] exI [of _ "[]"]) (simp add: stack_laid_def)
  show ?thesis
  proof (cases "GetStackInfo (mw_pagesize s) (d_mappings (mw_dumper s)) sp")
    case None
    then show ?thesis by (intro empty) (simp_all add: FillThreadStack_def stack_extent_def)
  next
    case (Some r)
    obtain stack0 len0 where r: "r = (stack0, len0)" by (cases r)
    obtain a n where e: "limit_stack max_len sp stack0 len0 = Some (a, n)" "0 < unat n" "unat n \<le> 32768"
      using stack_extent_bounds [OF assms(4,6) Some [unfolded r]] by blast
    let ?bs = "snd (copy (rt_id t) a (unat n))"
    show ?thesis
    proof (cases "mw_skip_stacks s \<and>
        (case mw_principal_mapping s of None \<Rightarrow> True
         | Some m \<Rightarrow> (pc < mi_sys_start m \<or> pc > mi_sys_end m) \<and> \<not> StackHasPointerToMapping ?bs (sp - a) m)")
      case True
      then show ?thesis
        by (intro empty) (cases "mw_principal_mapping s"; simp add: FillThreadStack_def Let_def Some r e(1) assms(1))+
    next
      case False
      have room: "unat (w_position (mw_writer s)) + unat n + 7 < 2 ^ 32" using assms(7) e(3) by simp
      obtain m w1 s1 X where s1: "Untyped_Allocate (mw_pagesize s) n (mw_writer s) = (True, m, w1)"
        "push_block \<lparr>md_start = a, md_memory = location_of m\<rparr> (set_writer (snd (Copy (m_position m) ?bs w1)) s) = s1"
        "writes s s1 X [\<lparr>md_start = a, md_memory = location_of m\<rparr>]" "length X \<le> unat n + 7" "unat (l_data_size (location_of m)) = unat n"
        "mw_crashing_thread_context s1 = mw_crashing_thread_context s"
        using store_block [OF assms(1-3) refl e(2) room, of ?bs "rt_id t" a, OF refl] by blast
      let ?c = "\<lparr>md_start = a, md_memory = location_of m\<rparr>"
      have fs: "FillThreadStack t sp pc max_len s = Some (True, t\<lparr>rt_stack := ?c\<rparr>, s1)"
        using False s1(1,2) assms(5) 
        by (cases "mw_principal_mapping s") (auto simp: FillThreadStack_def Let_def Some r e(1) assms(1))
      have nz: "l_data_size (location_of m) \<noteq> 0" using s1(5) e(2) by auto
      have sl: "stack_laid s max_len sp (unat (w_position (mw_writer s))) X ?c"
        using nz s1(5) writesD(6) [OF s1(3)] by (simp add: stack_laid_def stack_extent_def Some r e(1))
      have "mw_dumper s1 = mw_dumper s" unfolding s1(2) [symmetric] by simp
      moreover have "length X \<le> 32775" using s1(4) e(3) by linarith
      ultimately show ?thesis
        using fs sl nz s1(3,6) by (intro exI [of _ ?c] exI [of _ s1] exI [of _ X] exI [of _ "[?c]"]) simp
    qed
  qed
qed

end

section \<open>Instructions and registers\<close>

lemma ip_range_bounds:
  assumes "ip_range ms ip = Some (a, n)" and "list_all adjusted ms" and "list_all (\<lambda>m. unat (mi_sys_end m) < 2 ^ 63) ms"
  shows "0 < unat n \<and> unat n \<le> 256"
  using assms
proof (induction ms)
  case (Cons m ms)
  show ?case
  proof (cases "mi_start_addr m \<le> ip \<and> ip < mi_start_addr m + mi_size m")
    case False
    then have "ip_range ms ip = Some (a, n)" using Cons.prems(1) by (simp only: ip_range.simps if_False)
    then show ?thesis using Cons.IH Cons.prems(2,3) by simp
  next
    case True
    let ?e = "min (ip + 128) (mi_sys_end m)" and ?st = "max (mi_start_addr m) (ip - 128)"
    have me: "mi_start_addr m + mi_size m = mi_sys_end m" "unat (mi_sys_end m) < 2 ^ 63"
      using Cons.prems(2,3) by (auto simp: adjusted_def)
    have ip: "unat ip < unat (mi_sys_end m)" "unat (mi_start_addr m) \<le> unat ip"
      using True unfolding me(1) by (simp_all add: word_less_nat_alt word_le_nat_alt)
    have "unat (ip + 128) = unat ip + 128" using ip me(2) by (simp add: unat_plus_if')
    then have e: "unat ip < unat ?e" "unat ?e \<le> unat ip + 128" using ip(1) by (simp_all add: min_def word_le_nat_alt)
    have "0 < unat (?e - ?st) \<and> unat (?e - ?st) \<le> 256"
    proof (cases "128 \<le> unat ip")
      case True
      then have "unat (ip - 128) = unat ip - 128" by (simp add: unat_sub word_le_nat_alt)
      then have st: "unat ?st \<le> unat ip" "unat ip \<le> unat ?st + 128" using ip(2) by (auto simp: max_def word_le_nat_alt)
      then have "unat (?e - ?st) = unat ?e - unat ?st" using e by (intro unat_sub) (simp add: word_le_nat_alt)
      then show ?thesis using st e by linarith
    next
      case False
      then have "unat (ip - 128) = 2 ^ 64 + unat ip - 128" by (simp add: unat_sub_if')
      then have st: "?st = ip - 128" using ip False by (simp add: max_def word_le_nat_alt)
      have d: "unat (?e - ip) = unat ?e - unat ip" using e(1) by (intro unat_sub) (simp add: word_le_nat_alt)
      have "?e - ?st = ?e - ip + 128" unfolding st by (simp add: algebra_simps)
      moreover have "unat (?e - ip + 128) = unat ?e - unat ip + 128" using d e by (subst unat_add_small) simp_all
      ultimately have "unat (?e - ?st) = unat ?e - unat ip + 128" by (simp only:)
      then show ?thesis using e by linarith
    qed
    moreover have "n = ucast (?e - ?st)"
      using Cons.prems(1) True unfolding me(1) by (auto simp: kIPMemorySize_def Let_def me(1))
    ultimately show ?thesis using unat_ucast_64_32 [of "?e - ?st"] by simp
  qed
qed simp

context process_copy
begin

lemma WriteIPMemory_spec:
  assumes "d_copy (mw_dumper s) = copy" and "winv (mw_pagesize s) (mw_writer s)" and "calm (mw_writer s)" and "machine_ok s"
    and "unat (w_position (mw_writer s)) + 263 < 2 ^ 32"
  shows "\<exists>s' X bs. WriteIPMemory tid ip s = (True, s') \<and> writes s s' X bs \<and> length X \<le> 263 \<and> length bs \<le> 1 \<and> mw_dumper s' = mw_dumper s \<and>
    mw_crashing_thread_context s' = mw_crashing_thread_context s"
proof (cases "ip_range (d_mappings (mw_dumper s)) ip")
  case None
  then show ?thesis using writes_refl [OF assms(2,3)] by (intro exI [of _ s] exI [of _ "[]"]) (simp add: WriteIPMemory_def)
next
  case (Some r)
  obtain a n where r: "r = (a, n)" by (cases r)
  have n: "0 < unat n" "unat n \<le> 256"
    using ip_range_bounds [OF Some [unfolded r]] assms(4) by (auto simp: machine_ok_def)
  let ?bs = "snd (copy tid a (unat n))"
  have u: "unat (ucast n :: u64) = unat n" "unat (w_position (mw_writer s)) + unat n + 7 < 2 ^ 32" using n(2) assms(5) by simp_all
  obtain m w1 s1 X where s1: "Untyped_Allocate (mw_pagesize s) (ucast n) (mw_writer s) = (True, m, w1)"
    "push_block \<lparr>md_start = a, md_memory = location_of m\<rparr> (set_writer (snd (Copy (m_position m) ?bs w1)) s) = s1"
    "writes s s1 X [\<lparr>md_start = a, md_memory = location_of m\<rparr>]" "length X \<le> unat n + 7"
    "mw_crashing_thread_context s1 = mw_crashing_thread_context s"
    using store_block [OF assms(1-3) u(1) n(1) u(2), of ?bs tid a, OF refl] by blast
  have "mw_dumper s1 = mw_dumper s" unfolding s1(2) [symmetric] by simp
  moreover have "WriteIPMemory tid ip s = (True, s1)" using s1(1,2) by (simp add: WriteIPMemory_def Some r assms(1) Let_def)
  moreover have "length X \<le> 263" using s1(4) n(2) by linarith
  ultimately show ?thesis using s1(3,5) by (intro exI [of _ s1] exI [of _ X] exI [of _ "[\<lparr>md_start = a, md_memory = location_of m\<rparr>]"]) simp
qed

end

lemma sizeof_RawContextCPU: "sizeof_RawContextCPU = 796"
  by (simp add: sizeof_RawContextCPU_def sizeof_def MDRawContextARM64_Old_layout)

lemma WriteContext_spec:
  assumes "winv (mw_pagesize s) (mw_writer s)" and "calm (mw_writer s)" and "unat (w_position (mw_writer s)) + 803 < 2 ^ 32"
    and "FillCPUContext 8 MDRawContextARM64_Old fill = Some ctx" and "length ctx = 796"
  shows "\<exists>l s' X. WriteContext fill s = Some (Some l, s') \<and> writes s s' X [] \<and> length X \<le> 803 \<and>
    lies_in (unat (w_position (mw_writer s))) X l ctx \<and> mw_dumper s' = mw_dumper s \<and> mw_crashing_thread_context s' = mw_crashing_thread_context s"
proof -
  let ?w = "mw_writer s" and ?m = "\<lparr>m_position = w_position (mw_writer s), m_size = of_nat 796\<rparr>"
  have ne: "ctx \<noteq> []" using assms(5) by auto
  have "unat (w_position ?w) + alloc_size ?w (length ctx) < 2 ^ 32" unfolding assms(5) using alloc_size_le [of ?w 796] assms(3) by linarith
  then obtain w1 where w1: "Untyped_Allocate (mw_pagesize s) (of_nat 796) ?w = (True, ?m, w1)"
    "grows (mw_pagesize s) ?w (snd (Copy (w_position ?w) ctx w1)) (padded ?w ctx)"
    "lies_in (unat (w_position ?w)) (padded ?w ctx) (location_of ?m) ctx"
    using alloc_copy [OF assms(1,2) _ ne, of "of_nat 796"] assms(5) by auto
  let ?s = "set_writer (snd (Copy (w_position ?w) ctx w1)) s"
  have "WriteContext fill s = Some (Some (location_of ?m), ?s)"
    using w1(1) by (simp add: WriteContext_def assms(4) Typed_Allocate_def sizeof_RawContextCPU Flush_def)
  moreover have "writes s ?s (padded ?w ctx) []" using w1(2) by (simp add: writes_def)
  moreover have "length (padded ?w ctx) \<le> 803" using alloc_size_le [of ?w 796] by (simp add: assms(5))
  ultimately show ?thesis
    using w1(3) by (intro exI [of _ "location_of ?m"] exI [of _ ?s] exI [of _ "padded ?w ctx"]) simp
qed

section \<open>One thread\<close>

text \<open>
  The registers of a thread, with its stack pointer: those the signal handler saved for the crashing thread of a process that is still there, those of the
  dumper otherwise, and the limit on its stack.
\<close>

definition from_ucontext :: "'f minidump_writer \<Rightarrow> u32 \<Rightarrow> bool" where
  "from_ucontext s tid \<longleftrightarrow> mw_ucontext s \<noteq> None \<and> tid = GetCrashThread s \<and> \<not> d_post_mortem (mw_dumper s)"

definition thread_regs :: "'f minidump_writer \<Rightarrow> nat \<Rightarrow> u32 \<Rightarrow> (u64 \<times> user_regs_arm64 \<times> user_fpsimd) option" where
  "thread_regs s i tid =
     (if from_ucontext s tid then map_option (\<lambda>uc. (UC_GetStackPointer uc, uc_regs uc, uc_float uc)) (mw_ucontext s)
      else map_option (\<lambda>info. (ti_stack_pointer info, ti_regs info, ti_fpregs info)) (d_thread_info (mw_dumper s) i))"

definition thread_limit :: "'f minidump_writer \<Rightarrow> int \<Rightarrow> nat \<Rightarrow> u32 \<Rightarrow> int" where
  "thread_limit s extra i tid = (if \<not> from_ucontext s tid \<and> 0 \<le> mw_size_limit s \<and> kLimitBaseThreadCount \<le> i then extra else -1)"

definition regs_ok :: "(u64 \<times> user_regs_arm64 \<times> user_fpsimd) option \<Rightarrow> bool" where
  "regs_ok r \<longleftrightarrow> (case r of None \<Rightarrow> False | Some (sp, regs, fp) \<Rightarrow> length (ur_regs regs) = 31 \<and> length (fp_vregs fp) = 512)"

definition thread_laid :: "'f minidump_writer \<Rightarrow> int \<Rightarrow> nat \<Rightarrow> bytes \<Rightarrow> nat \<Rightarrow> u32 \<Rightarrow> raw_thread \<Rightarrow> bool" where
  "thread_laid s extra k X i tid t \<longleftrightarrow> rt_id t = tid \<and>
     (\<exists>sp r f ctx. thread_regs s i tid = Some (sp, r, f) \<and> FillCPUContext 8 MDRawContextARM64_Old (fill_arm64_thread r f) = Some ctx \<and>
        lies_in k X (rt_context t) ctx \<and> stack_laid s (thread_limit s extra i tid) sp k X (rt_stack t))"

lemma thread_laid_append: "thread_laid s e k X i tid t \<Longrightarrow> thread_laid s e k (X @ Y) i tid t"
  unfolding thread_laid_def using lies_in_append stack_laid_append by blast

lemma thread_laid_prepend: "thread_laid s e (k + length Z) X i tid t \<Longrightarrow> thread_laid s e k (Z @ X) i tid t"
  unfolding thread_laid_def using lies_in_prepend stack_laid_prepend by blast

text \<open>Nothing of this depends on what the writer changes.\<close>

definition same_object :: "'f minidump_writer \<Rightarrow> 'f minidump_writer \<Rightarrow> bool" where
  "same_object s s' \<longleftrightarrow> same_config s s' \<and> same_process (mw_dumper s) (mw_dumper s')"

lemma writes_same: "writes s s' X bs \<Longrightarrow> same_object s s'"
  by (simp add: writes_def same_object_def)

lemma same_objectD:
  assumes "same_object s s'"
  shows "thread_laid s' = thread_laid s" "thread_regs s' = thread_regs s" "machine_ok s' = machine_ok s"
    "mw_sanitize_stacks s' = mw_sanitize_stacks s" "d_copy (mw_dumper s') = d_copy (mw_dumper s)" "GetCrashThread s' = GetCrashThread s"
proof -
  have c: "mw_pagesize s' = mw_pagesize s" "mw_ucontext s' = mw_ucontext s" "mw_size_limit s' = mw_size_limit s"
    "mw_skip_stacks s' = mw_skip_stacks s" "mw_sanitize_stacks s' = mw_sanitize_stacks s"
    and p: "same_process (mw_dumper s) (mw_dumper s')"
    using assms by (auto simp: same_object_def same_config_def)
  note q = same_processD [OF p] laid_process [OF p]
  show regs: "thread_regs s' = thread_regs s" by (auto simp: thread_regs_def from_ucontext_def GetCrashThread_def c q fun_eq_iff)
  have "thread_limit s' = thread_limit s" by (simp add: thread_limit_def from_ucontext_def GetCrashThread_def c q fun_eq_iff)
  moreover have "stack_laid s' = stack_laid s" by (simp add: stack_laid_def stack_extent_def c q fun_eq_iff)
  ultimately show "thread_laid s' = thread_laid s" by (simp add: thread_laid_def regs fun_eq_iff)
  show "machine_ok s' = machine_ok s" "mw_sanitize_stacks s' = mw_sanitize_stacks s" "d_copy (mw_dumper s') = d_copy (mw_dumper s)"
    "GetCrashThread s' = GetCrashThread s"
    by (simp_all add: machine_ok_def GetCrashThread_def c q)
qed

lemma context_filled:
  assumes "length (ur_regs r) = 31" and "length (fp_vregs f) = 512"
  shows "\<exists>ctx. FillCPUContext 8 MDRawContextARM64_Old (fill_arm64_thread r f) = Some ctx \<and> length ctx = 796"
  using arm64_fills [OF assms] by (auto simp: fills_def sizeof_def MDRawContextARM64_Old_layout split: option.splits)

lemma fill_arm64_same: "fill_arm64_ucontext r f = fill_arm64_thread r f"
  by (simp add: fill_arm64_thread_def fill_arm64_ucontext_def)

context process_copy
begin

lemma crashing_thread_spec:
  assumes "d_copy (mw_dumper s) = copy" and "winv (mw_pagesize s) (mw_writer s)" and "calm (mw_writer s)" and "machine_ok s"
    and "\<not> mw_sanitize_stacks s" and "unat (w_position (mw_writer s)) + 33841 < 2 ^ 32"
    and "FillCPUContext 8 MDRawContextARM64_Old (fill_arm64_thread (uc_regs uc) (uc_float uc)) = Some ctx" and "length ctx = 796"
  shows "\<exists>b l s' X bs. crashing_thread uc t s = Some (True, t\<lparr>rt_stack := b, rt_context := l\<rparr>, s') \<and> writes s s' X bs \<and> length X \<le> 33841 \<and> length bs \<le> 2 \<and>
    lies_in (unat (w_position (mw_writer s))) X l ctx \<and> stack_laid s (-1) (UC_GetStackPointer uc) (unat (w_position (mw_writer s))) X b \<and>
    mw_crashing_thread_context s' = l"
proof -
  let ?p = "unat (w_position (mw_writer s))"
  have room: "?p + 32775 < 2 ^ 32" using assms(6) by linarith
  obtain b s1 X1 bs1 where s1: "FillThreadStack t (UC_GetStackPointer uc) (UC_GetInstructionPointer uc) (-1) s = Some (True, t\<lparr>rt_stack := b\<rparr>, s1)"
    "writes s s1 X1 bs1" "length X1 \<le> 32775" "stack_laid s (-1) (UC_GetStackPointer uc) ?p X1 b"
    "bs1 = (if l_data_size (md_memory b) = 0 then [] else [b])"
    using FillThreadStack_spec [OF assms(1-5) disjI1 [OF refl] room] by blast
  note W1 = writesD [OF s1(2)] and o1 = same_objectD [OF writes_same [OF s1(2)]]
  have "unat (w_position (mw_writer s1)) + 263 < 2 ^ 32" using W1(9) s1(3) assms(6) by linarith
  then obtain s2 X2 bs2 where s2: "WriteIPMemory (rt_id t) (UC_GetInstructionPointer uc) s1 = (True, s2)" "writes s1 s2 X2 bs2" "length X2 \<le> 263" "length bs2 \<le> 1"
    using WriteIPMemory_spec [OF o1(5) [unfolded assms(1)] W1(7,8) o1(3) [THEN iffD2, OF assms(4)]] by blast
  note W2 = writesD [OF s2(2)]
  have "unat (w_position (mw_writer s2)) + 803 < 2 ^ 32" using W1(9) W2(9) s1(3) s2(3) assms(6) by linarith
  then obtain l s3 X3 where s3: "WriteContext (fill_arm64_thread (uc_regs uc) (uc_float uc)) s2 = Some (Some l, s3)" "writes s2 s3 X3 []"
    "length X3 \<le> 803" "lies_in (unat (w_position (mw_writer s2))) X3 l ctx"
    using WriteContext_spec [OF W2(7,8) _ assms(7,8)] by blast
  let ?s = "s3\<lparr>mw_crashing_thread_context := l\<rparr>" and ?X = "(X1 @ X2) @ X3"
  have w: "writes s s3 ?X ((bs1 @ bs2) @ [])" by (rule writes_trans [OF writes_trans [OF s1(2) s2(2)] s3(2)])
  then have "writes s ?s ?X (bs1 @ bs2)" by (simp add: writes_def)
  moreover have "crashing_thread uc t s = Some (True, t\<lparr>rt_stack := b, rt_context := l\<rparr>, ?s)"
    using s1(1) s2(1) s3(1) by (simp add: crashing_thread_def fill_arm64_same)
  moreover have "length ?X \<le> 33841" "length (bs1 @ bs2) \<le> 2" using s1(3,5) s2(3,4) s3(3) by simp_all
  moreover have "lies_in ?p ?X l ctx" using s3(4) W1(9) W2(9) by (intro lies_in_prepend) (simp add: add.assoc)
  moreover have "stack_laid s (-1) (UC_GetStackPointer uc) ?p ?X b" by (intro stack_laid_append s1(4))
  ultimately show ?thesis by (intro exI [of _ b] exI [of _ l] exI [of _ ?s] exI [of _ ?X] exI [of _ "bs1 @ bs2"]) simp
qed

lemma other_thread_spec:
  assumes "d_copy (mw_dumper s) = copy" and "winv (mw_pagesize s) (mw_writer s)" and "calm (mw_writer s)" and "machine_ok s"
    and "\<not> mw_sanitize_stacks s" and "unat (w_position (mw_writer s)) + 33841 < 2 ^ 32"
    and "d_thread_info (mw_dumper s) i = Some info" and "extra = -1 \<or> extra = 2048"
    and "max_len = (if 0 \<le> mw_size_limit s \<and> kLimitBaseThreadCount \<le> i then extra else -1)"
    and "FillCPUContext 8 MDRawContextARM64_Old (fill_arm64_thread (ti_regs info) (ti_fpregs info)) = Some ctx" and "length ctx = 796"
  shows "\<exists>b l s' X bs. other_thread i extra t s = Some (True, t\<lparr>rt_stack := b, rt_context := l\<rparr>, s') \<and> writes s s' X bs \<and> length X \<le> 33841 \<and> length bs \<le> 2 \<and>
    lies_in (unat (w_position (mw_writer s))) X l ctx \<and> stack_laid s max_len (ti_stack_pointer info) (unat (w_position (mw_writer s))) X b \<and>
    mw_crashing_thread_context s' = (if rt_id t = GetCrashThread s then l else mw_crashing_thread_context s)"
proof -
  let ?p = "unat (w_position (mw_writer s))"
  have m: "max_len = -1 \<or> max_len = 2048" using assms(8,9) by auto
  have room: "?p + 32775 < 2 ^ 32" using assms(6) by linarith
  obtain b s1 X1 bs1 where s1: "FillThreadStack t (ti_stack_pointer info) (GetInstructionPointer info) max_len s = Some (True, t\<lparr>rt_stack := b\<rparr>, s1)"
    "writes s s1 X1 bs1" "length X1 \<le> 32775" "stack_laid s max_len (ti_stack_pointer info) ?p X1 b"
    "mw_crashing_thread_context s1 = mw_crashing_thread_context s" "bs1 = (if l_data_size (md_memory b) = 0 then [] else [b])"
    using FillThreadStack_spec [OF assms(1-5) m room] by blast
  note W1 = writesD [OF s1(2)] and o1 = same_objectD [OF writes_same [OF s1(2)]]
  have "unat (w_position (mw_writer s1)) + 803 < 2 ^ 32" using W1(9) s1(3) assms(6) by linarith
  then obtain l s2 X2 where s2: "WriteContext (fill_arm64_thread (ti_regs info) (ti_fpregs info)) s1 = Some (Some l, s2)" "writes s1 s2 X2 []"
    "length X2 \<le> 803" "lies_in (unat (w_position (mw_writer s1))) X2 l ctx" "mw_dumper s2 = mw_dumper s1"
    "mw_crashing_thread_context s2 = mw_crashing_thread_context s1"
    using WriteContext_spec [OF W1(7,8) _ assms(10,11)] by blast
  have cr: "GetCrashThread s2 = GetCrashThread s" using o1(6) s2(5) by (simp add: GetCrashThread_def)
  let ?c = "if rt_id t = GetCrashThread s then s2\<lparr>mw_crashing_thread_context := l\<rparr> else s2"
  let ?s = "if rt_id t = GetCrashThread s \<and> \<not> d_post_mortem (mw_dumper s2)
    then ?c\<lparr>mw_dumper := (mw_dumper ?c)\<lparr>d_crash_address := GetInstructionPointer info\<rparr>\<rparr> else ?c"
  have w: "writes s s2 (X1 @ X2) (bs1 @ [])" by (rule writes_trans [OF s1(2) s2(2)])
  have "same_process (mw_dumper s) ((mw_dumper s2)\<lparr>d_crash_address := GetInstructionPointer info\<rparr>)"
    using writesD(4) [OF w] by (rule same_process_trans) (auto simp: same_process_def)
  then have "writes s ?s (X1 @ X2) bs1" using w by (simp add: writes_def)
  moreover have "other_thread i extra t s = Some (True, t\<lparr>rt_stack := b, rt_context := l\<rparr>, ?s)"
    using s1(1) s2(1) assms(9) by (simp add: other_thread_def assms(7) Let_def cr)
  moreover have "mw_crashing_thread_context ?s = (if rt_id t = GetCrashThread s then l else mw_crashing_thread_context s)"
    using s1(5) s2(6) by simp
  moreover have "length (X1 @ X2) \<le> 33841" "length bs1 \<le> 2" using s1(3,6) s2(3) by simp_all
  moreover have "lies_in ?p (X1 @ X2) l ctx" using s2(4) W1(9) by (intro lies_in_prepend) simp
  moreover have "stack_laid s max_len (ti_stack_pointer info) ?p (X1 @ X2) b" by (intro stack_laid_append s1(4))
  ultimately show ?thesis by (intro exI [of _ b] exI [of _ l] exI [of _ ?s] exI [of _ "X1 @ X2"] exI [of _ bs1]) blast
qed

end

context process_copy
begin

lemma write_thread_spec:
  assumes "d_copy (mw_dumper s) = copy" and "winv (mw_pagesize s) (mw_writer s)" and "calm (mw_writer s)" and "machine_ok s"
    and "\<not> mw_sanitize_stacks s" and "unat (w_position (mw_writer s)) + 33841 < 2 ^ 32"
    and "extra = -1 \<or> extra = 2048" and "regs_ok (thread_regs s i tid)"
  shows "\<exists>t s' X bs. write_thread i extra tid s = Some (True, t, s') \<and> writes s s' X bs \<and> length X \<le> 33841 \<and> length bs \<le> 2 \<and>
    thread_laid s extra (unat (w_position (mw_writer s))) X i tid t \<and>
    mw_crashing_thread_context s' = (if tid = GetCrashThread s then rt_context t else mw_crashing_thread_context s)"
proof -
  let ?p = "unat (w_position (mw_writer s))"
  obtain sp r f where regs: "thread_regs s i tid = Some (sp, r, f)" "length (ur_regs r) = 31" "length (fp_vregs f) = 512"
    using assms(8) by (auto simp: regs_ok_def split: option.splits)
  obtain ctx where ctx: "FillCPUContext 8 MDRawContextARM64_Old (fill_arm64_thread r f) = Some ctx" "length ctx = 796"
    using context_filled [OF regs(2,3)] by blast
  have concl: ?thesis
    if "write_thread i extra tid s = Some (True, (new_thread tid)\<lparr>rt_stack := b, rt_context := l\<rparr>, s')" "writes s s' X bs" "length X \<le> 33841" "length bs \<le> 2"
      "lies_in ?p X l ctx" "stack_laid s (thread_limit s extra i tid) sp ?p X b"
      "mw_crashing_thread_context s' = (if tid = GetCrashThread s then l else mw_crashing_thread_context s)" for b l s' X bs
    using that regs(1) ctx(1) by (auto simp: thread_laid_def new_thread_def)
  show ?thesis
  proof (cases "from_ucontext s tid")
    case True
    then obtain uc where uc: "mw_ucontext s = Some uc" by (auto simp: from_ucontext_def)
    have r: "sp = UC_GetStackPointer uc" "r = uc_regs uc" "f = uc_float uc" using regs(1) True uc by (simp_all add: thread_regs_def)
    obtain b l s' X bs where w: "crashing_thread uc (new_thread tid) s = Some (True, (new_thread tid)\<lparr>rt_stack := b, rt_context := l\<rparr>, s')"
      "writes s s' X bs" "length X \<le> 33841" "length bs \<le> 2" "lies_in ?p X l ctx" "stack_laid s (-1) (UC_GetStackPointer uc) ?p X b"
      "mw_crashing_thread_context s' = l"
      using crashing_thread_spec [OF assms(1-6) ctx(1) [unfolded r] ctx(2)] by blast
    show ?thesis
      using True w uc r by (intro concl [OF _ w(2-5)]) (simp_all add: write_thread_def from_ucontext_def thread_limit_def)
  next
    case False
    then obtain info where info: "d_thread_info (mw_dumper s) i = Some info" "sp = ti_stack_pointer info" "r = ti_regs info" "f = ti_fpregs info"
      using regs(1) by (auto simp: thread_regs_def)
    have tl: "thread_limit s extra i tid = (if 0 \<le> mw_size_limit s \<and> kLimitBaseThreadCount \<le> i then extra else -1)"
      using False by (simp add: thread_limit_def)
    obtain b l s' X bs where w: "other_thread i extra (new_thread tid) s = Some (True, (new_thread tid)\<lparr>rt_stack := b, rt_context := l\<rparr>, s')"
      "writes s s' X bs" "length X \<le> 33841" "length bs \<le> 2" "lies_in ?p X l ctx" "stack_laid s (thread_limit s extra i tid) (ti_stack_pointer info) ?p X b"
      "mw_crashing_thread_context s' = (if rt_id (new_thread tid) = GetCrashThread s then l else mw_crashing_thread_context s)"
      using other_thread_spec [OF assms(1-6) info(1) assms(7) tl ctx(1) [unfolded info] ctx(2)] by blast
    show ?thesis
      using False w info by (intro concl [OF _ w(2-5)]) (auto simp: write_thread_def from_ucontext_def new_thread_def split: option.split)
  qed
qed

end

section \<open>All threads\<close>

fun threads_laid :: "'f minidump_writer \<Rightarrow> int \<Rightarrow> nat \<Rightarrow> bytes \<Rightarrow> nat \<Rightarrow> u32 list \<Rightarrow> raw_thread list \<Rightarrow> bool" where
  "threads_laid s e k X i [] ths \<longleftrightarrow> ths = []"
| "threads_laid s e k X i (tid # ts) ths \<longleftrightarrow>
     (case ths of [] \<Rightarrow> False | t # us \<Rightarrow> thread_laid s e k X i tid t \<and> threads_laid s e k X (i + 1) ts us)"

lemma threads_laid_append: "threads_laid s e k X i ts ths \<Longrightarrow> threads_laid s e k (X @ Y) i ts ths"
  by (induction ts arbitrary: i ths) (auto simp: thread_laid_append split: list.splits)

lemma threads_laid_prepend: "threads_laid s e (k + length Z) X i ts ths \<Longrightarrow> threads_laid s e k (Z @ X) i ts ths"
  by (induction ts arbitrary: i ths) (auto simp: thread_laid_prepend split: list.splits)

lemma threads_laid_same: "same_object s s' \<Longrightarrow> threads_laid s' = threads_laid s"
proof (intro ext)
  fix e k X i ts ths
  assume "same_object s s'"
  then show "threads_laid s' e k X i ts ths = threads_laid s e k X i ts ths"
    by (induction ts arbitrary: i ths) (simp_all add: same_objectD(1) split: list.split)
qed

lemma threads_laid_length: "threads_laid s e k X i ts ths \<Longrightarrow> length ths = length ts"
  by (induction ts arbitrary: i ths) (auto split: list.splits)

lemma threads_laid_ids: "threads_laid s e k X i ts ths \<Longrightarrow> map rt_id ths = ts"
  by (induction ts arbitrary: i ths) (auto simp: thread_laid_def split: list.splits)

lemma length_thread_bytes [simp]: "length (thread_bytes t) = 48"
  by (simp add: thread_bytes_def)

definition crash_context_of :: "u32 \<Rightarrow> location \<Rightarrow> raw_thread list \<Rightarrow> location" where
  "crash_context_of tid l ths = last (l # map rt_context (filter (\<lambda>t. rt_id t = tid) ths))"

lemma crash_context_of_Cons:
  "crash_context_of tid l (t # ths) = crash_context_of tid (if rt_id t = tid then rt_context t else l) ths"
  by (simp add: crash_context_of_def)

context process_copy
begin

lemma write_threads_spec:
  assumes "d_copy (mw_dumper s) = copy" and "machine_ok s" and "\<not> mw_sanitize_stacks s" and "extra = -1 \<or> extra = 2048"
    and "list_area (mw_pagesize s) (mw_writer s) lst img (entries_area 4 es a) Y" and "list_all (\<lambda>e. length e = 48) es"
    and "4 + (length es + length ts) * 48 \<le> a" and "unat (w_position (mw_writer s)) + length ts * 33841 < 2 ^ 32"
    and "list_all (\<lambda>(i, tid). regs_ok (thread_regs s i tid)) (enumerate (length es) ts)"
  shows "\<exists>s' ths Z bs. write_threads lst extra (length es) ts s = Some (True, s') \<and> same_object s s' \<and> same_mode (mw_writer s) (mw_writer s') \<and>
    list_area (mw_pagesize s) (mw_writer s') lst img (entries_area 4 (es @ map thread_bytes ths) a) (Y @ Z) \<and> length Z \<le> length ts * 33841 \<and> length bs \<le> length ts * 2 \<and>
    threads_laid s extra (unat (w_position (mw_writer s))) Z (length es) ts ths \<and>
    mw_memory_blocks s' = mw_memory_blocks s @ bs \<and> list_all (laid (mw_dumper s) (unat (w_position (mw_writer s))) Z) bs \<and>
    mw_crashing_thread_context s' = crash_context_of (GetCrashThread s) (mw_crashing_thread_context s) ths"
  using assms
proof (induction ts arbitrary: s es Y)
  case Nil
  then show ?case
    by (intro exI [of _ s] exI [of _ "[]"]) (simp add: same_object_def same_mode_def crash_context_of_def)
next
  case (Cons tid ts)
  let ?p = "unat (w_position (mw_writer s))"
  have inv: "winv (mw_pagesize s) (mw_writer s)" "calm (mw_writer s)" using Cons.prems(5) by (simp_all add: list_area_def)
  have room: "?p + 33841 < 2 ^ 32" and regs: "regs_ok (thread_regs s (length es) tid)" using Cons.prems(8,9) by simp_all
  obtain t s1 X bs1 where s1: "write_thread (length es) extra tid s = Some (True, t, s1)" "writes s s1 X bs1" "length X \<le> 33841" "length bs1 \<le> 2"
    "thread_laid s extra ?p X (length es) tid t"
    "mw_crashing_thread_context s1 = (if tid = GetCrashThread s then rt_context t else mw_crashing_thread_context s)"
    using write_thread_spec [OF Cons.prems(1) inv Cons.prems(2,3) room Cons.prems(4) regs] by blast
  note W = writesD [OF s1(2)]
  have a: "4 + length es * 48 + 48 \<le> a" using Cons.prems(7) by simp
  obtain w2 where w2: "CopyIndexAfterObject 4 lst (of_nat (length es)) (thread_bytes t) (mw_writer s1) = (True, w2)" "same_mode (mw_writer s1) w2"
    "list_area (mw_pagesize s) w2 lst img (entries_area 4 (es @ [thread_bytes t]) a) (Y @ X)"
    "unat (w_position w2) = unat (w_position (mw_writer s1))"
    using list_area_next [OF list_area_grows [OF Cons.prems(5) W(1)] Cons.prems(6) length_thread_bytes _ a] by auto
  let ?s = "set_writer w2 s1" and ?es = "es @ [thread_bytes t]"
  have same: "same_object s ?s" using writes_same [OF s1(2)] by (simp add: same_object_def)
  note o = same_objectD [OF same]
  have pos: "unat (w_position w2) = ?p + length X" using w2(4) W(9) by simp
  have ih: "d_copy (mw_dumper ?s) = copy" "machine_ok ?s" "\<not> mw_sanitize_stacks ?s"
    "list_area (mw_pagesize ?s) (mw_writer ?s) lst img (entries_area 4 ?es a) (Y @ X)" "list_all (\<lambda>e. length e = 48) ?es"
    "4 + (length ?es + length ts) * 48 \<le> a" "unat (w_position (mw_writer ?s)) + length ts * 33841 < 2 ^ 32"
    "list_all (\<lambda>(i, tid). regs_ok (thread_regs ?s i tid)) (enumerate (length ?es) ts)"
    using Cons.prems o w2(3) W(3) pos s1(3) by simp_all
  obtain s' ths Z bs where s': "write_threads lst extra (length ?es) ts ?s = Some (True, s')" "same_object ?s s'" "same_mode w2 (mw_writer s')"
    "list_area (mw_pagesize s) (mw_writer s') lst img (entries_area 4 (?es @ map thread_bytes ths) a) ((Y @ X) @ Z)" "length Z \<le> length ts * 33841" "length bs \<le> length ts * 2"
    "threads_laid ?s extra (?p + length X) Z (length ?es) ts ths"
    "mw_memory_blocks s' = mw_memory_blocks ?s @ bs" "list_all (laid (mw_dumper ?s) (?p + length X) Z) bs"
    "mw_crashing_thread_context s' = crash_context_of (GetCrashThread ?s) (mw_crashing_thread_context ?s) ths"
    using Cons.IH [OF ih(1-3) Cons.prems(4) ih(4-8)] W(3) pos by (simp del: append_assoc) blast
  have "write_threads lst extra (length es) (tid # ts) s = Some (True, s')" using s1(1) w2(1) s'(1) by simp
  moreover have "same_object s s'" using same s'(2) same_config_trans same_process_trans unfolding same_object_def by blast
  moreover have "same_mode (mw_writer s) (mw_writer s')"
    by (rule same_mode_trans [OF same_mode_trans [OF growsD(3) [OF W(1)] w2(2)] s'(3)])
  moreover have "threads_laid s extra ?p (X @ Z) (length es) (tid # ts) (t # ths)"
    using thread_laid_append [OF s1(5)] threads_laid_prepend [of s extra ?p X Z] s'(7) threads_laid_same [OF same] by simp
  moreover have "list_all (laid (mw_dumper s) ?p (X @ Z)) (bs1 @ bs)"
    using W(6) s'(9) same unfolding list_all_iff same_object_def by (auto simp: laid_process intro: laid_append laid_prepend)
  moreover have "rt_id t = tid" using s1(5) by (simp add: thread_laid_def)
  ultimately show ?case
    using s'(4-6,8,10) s1(3,4,6) W(5) o(6)
    by (intro exI [of _ s'] exI [of _ "t # ths"] exI [of _ "X @ Z"] exI [of _ "bs1 @ bs"]) (simp add: crash_context_of_Cons)
qed

end

section \<open>The stream\<close>

definition read_thread :: "bytes \<Rightarrow> raw_thread" where
  "read_thread bs = \<lparr>rt_id = of_nat (le_nat (take 4 bs)), rt_stack = read_desc (take 16 (drop 24 bs)), rt_context = read_location (drop 40 bs)\<rparr>"

lemma read_thread_bytes [simp]: "read_thread (thread_bytes t) = t"
  by (simp add: read_thread_def thread_bytes_def le_nat_store_int [OF unat_u32_lt])

lemma extra_stack_len_cases: "extra_stack_len n s = -1 \<or> 0 \<le> mw_size_limit s \<and> extra_stack_len n s = 2048"
  by (simp add: extra_stack_len_def kLimitMaxExtraThreadStackLen_def)

lemma AllocateObjectAndArray_list:
  "AllocateObjectAndArray (mw_pagesize s) 4 (of_nat n) (of_nat k) (mw_writer s) = allocate_list n k s"
  by (simp add: allocate_list_def AllocateObjectAndArray_def Typed_Allocate_def)

context process_copy
begin

lemma WriteThreadListStream_spec:
  assumes "d_copy (mw_dumper s) = copy" and "winv (mw_pagesize s) (mw_writer s)" and "calm (mw_writer s)" and "machine_ok s"
    and "\<not> mw_sanitize_stacks s" and "n = length (d_threads (mw_dumper s))"
    and "list_all (\<lambda>(i, tid). regs_ok (thread_regs s i tid)) (enumerate 0 (d_threads (mw_dumper s)))"
    and "unat (w_position (mw_writer s)) + 4 + n * 48 + 7 + n * 33841 < 2 ^ 32"
  shows "\<exists>s' ths X bs extra. WriteThreadListStream s = Some (True, \<lparr>rd_type = stream_type ''MD_THREAD_LIST_STREAM'',
      rd_location = \<lparr>l_data_size = of_nat (4 + n * 48), l_rva = w_position (mw_writer s)\<rparr>\<rparr>, s') \<and>
    writes s s' X bs \<and> length X \<le> 4 + n * 48 + 7 + n * 33841 \<and> length bs \<le> n * 2 \<and>
    take (4 + n * 48) X = le_int 4 n @ concat (map thread_bytes ths) \<and> (extra = -1 \<or> 0 \<le> mw_size_limit s \<and> extra = 2048) \<and>
    threads_laid s extra (unat (w_position (mw_writer s))) X 0 (d_threads (mw_dumper s)) ths \<and>
    mw_crashing_thread_context s' = crash_context_of (GetCrashThread s) (mw_crashing_thread_context s) ths"
proof -
  let ?w = "mw_writer s" and ?pg = "mw_pagesize s" and ?ts = "d_threads (mw_dumper s)" and ?a = "alloc_size (mw_writer s) (4 + n * 48)"
  let ?p = "unat (w_position ?w)"
  have room: "?p + 4 + n * 48 + 7 < 2 ^ 32" using assms(8) by linarith
  obtain lst w1 where w1: "allocate_list n 48 s = (True, lst, w1)" "same_mode ?w w1"
    "location_of lst = \<lparr>l_data_size = of_nat (4 + n * 48), l_rva = w_position ?w\<rparr>"
    "list_area ?pg w1 lst (w_image ?w) (entries_area 4 [] ?a) []"
    using allocate_list_area [OF assms(2,3) room] by blast
  let ?s1 = "set_writer w1 s"
  define extra where "extra = extra_stack_len n ?s1"
  have ex: "extra = -1 \<or> 0 \<le> mw_size_limit s \<and> extra = 2048"
    using extra_stack_len_cases [of n ?s1] unfolding extra_def by (simp add: set_writer_def)
  have a: "4 + n * 48 \<le> ?a" "?a \<le> 4 + n * 48 + 7" by (rule alloc_size_ge, rule alloc_size_le)
  have p1: "unat (w_position w1) = ?p + ?a" using list_area_length [OF w1(4)] a by (simp add: length_entries_area)
  have same: "same_object s ?s1" by (simp add: same_object_def)
  note o = same_objectD [OF same]
  have h: "d_copy (mw_dumper ?s1) = copy" "machine_ok ?s1" "\<not> mw_sanitize_stacks ?s1" "extra = -1 \<or> extra = 2048"
    "list_area (mw_pagesize ?s1) (mw_writer ?s1) lst (w_image ?w) (entries_area 4 [] ?a) []"
    "4 + (length ([] :: bytes list) + length ?ts) * 48 \<le> ?a" "unat (w_position (mw_writer ?s1)) + length ?ts * 33841 < 2 ^ 32"
    "list_all (\<lambda>(i, tid). regs_ok (thread_regs ?s1 i tid)) (enumerate (length ([] :: bytes list)) ?ts)"
    using assms o ex w1(4) a p1 by auto
  obtain s' ths Z bs where s': "write_threads lst extra 0 ?ts ?s1 = Some (True, s')" "same_object ?s1 s'" "same_mode w1 (mw_writer s')"
    "list_area ?pg (mw_writer s') lst (w_image ?w) (entries_area 4 (map thread_bytes ths) ?a) Z" "length Z \<le> n * 33841" "length bs \<le> n * 2"
    "threads_laid s extra (?p + ?a) Z 0 ?ts ths"
    "mw_memory_blocks s' = mw_memory_blocks s @ bs" "list_all (laid (mw_dumper s) (?p + ?a) Z) bs"
    "mw_crashing_thread_context s' = crash_context_of (GetCrashThread s) (mw_crashing_thread_context s) ths"
    using write_threads_spec [OF h(1-5) list.pred_inject(1) h(6-8)] p1 threads_laid_same [OF same] o(6) assms(6) by auto
  let ?es = "map thread_bytes ths"
  have lt: "length ths = n" using threads_laid_length [OF s'(7)] assms(6) by simp
  have es: "list_all (\<lambda>e. length e = 48) ?es" "length ?es = n" using lt by (simp_all add: list_all_iff)
  obtain w3 where w3: "Flush lst (le_int 4 n) (mw_writer s') = (True, w3)" "grows ?pg ?w w3 (padded ?w (le_int 4 n @ concat ?es) @ Z)"
    "length (padded ?w (le_int 4 n @ concat ?es)) = ?a" "take (4 + n * 48) (padded ?w (le_int 4 n @ concat ?es) @ Z) = le_int 4 n @ concat ?es"
    using finish_list [OF s'(4) es same_mode_trans [OF w1(2) s'(3)]] by blast
  let ?L = "padded ?w (le_int 4 n @ concat ?es)" and ?s = "set_writer w3 s'"
  note g = w3(2)
  have so: "same_object s ?s" using s'(2) by (simp add: same_object_def)
  have "list_all (laid (mw_dumper s) ?p (?L @ Z)) bs"
    using s'(9) laid_prepend [of "mw_dumper s" ?p ?L Z] unfolding w3(3) list_all_iff by blast
  then have "writes s ?s (?L @ Z) bs" using g so s'(8) by (simp add: writes_def same_object_def)
  moreover have "threads_laid s extra ?p (?L @ Z) 0 ?ts ths" using threads_laid_prepend [of s extra ?p ?L Z] s'(7) unfolding w3(3) by blast
  moreover note w3(4)
  moreover have "length (?L @ Z) \<le> 4 + n * 48 + 7 + n * 33841" unfolding length_append w3(3) using a(2) s'(5) by linarith
  moreover have "WriteThreadListStream s = Some (True, \<lparr>rd_type = stream_type ''MD_THREAD_LIST_STREAM'', rd_location = location_of lst\<rparr>, ?s)"
    unfolding WriteThreadListStream_def sizeof_MDRawThread_def AllocateObjectAndArray_list assms(6) [symmetric] w1(1) Let_def prod.case extra_def [symmetric]
    using s'(1) w3(1) by simp
  ultimately show ?thesis using ex s'(6,10) unfolding w1(3) by (metis writer_updates(9))
qed

end

text \<open>
  C3. The thread list is complete and every entry is backed by data. When the registers of all threads can be read, the stream is written, with the limit on the
  stacks of later threads or without. A reader of the format finds one entry per thread, in the order of the dumper; the
  context of an entry names the bytes of the CPU context filled from the registers of that thread, those of the signal handler for
  the crashing thread of a live process; its stack names a copy of the memory that \<open>GetStackInfo\<close> and the limit give for its stack
  pointer, or is empty when no mapping holds the stack pointer or the stack is skipped. All recorded blocks are such copies, what was in the
  file before is unchanged, and the context of the exception is that of the crashing thread.
\<close>

theorem WriteThreadListStream_correct:
  assumes "d_copy (mw_dumper s) = ptrace_copy (peek_of mem)" and "winv (mw_pagesize s) (mw_writer s)" and "calm (mw_writer s)" and "machine_ok s"
    and "\<not> mw_sanitize_stacks s" and "n = length (d_threads (mw_dumper s))" and "blocks_ok s"
    and "list_all (\<lambda>(i, tid). regs_ok (thread_regs s i tid)) (enumerate 0 (d_threads (mw_dumper s)))"
    and "unat (w_position (mw_writer s)) + 4 + n * 48 + 7 + n * 33841 < 2 ^ 32"
  shows "\<exists>dirent s' ths extra. WriteThreadListStream s = Some (True, dirent, s') \<and> rd_type dirent = 3 \<and>
    read_list read_thread 48 (file_bytes (w_image (mw_writer s')) (rd_location dirent)) = Some ths \<and>
    map rt_id ths = d_threads (mw_dumper s) \<and> (extra = -1 \<or> 0 \<le> mw_size_limit s \<and> extra = 2048) \<and>
    threads_laid s extra 0 (w_image (mw_writer s')) 0 (d_threads (mw_dumper s)) ths \<and> blocks_ok s' \<and>
    take (unat (w_position (mw_writer s))) (w_image (mw_writer s')) = w_image (mw_writer s) \<and>
    mw_crashing_thread_context s' = crash_context_of (GetCrashThread s) (mw_crashing_thread_context s) ths"
proof -
  let ?w = "mw_writer s" and ?ts = "d_threads (mw_dumper s)"
  let ?l = "\<lparr>l_data_size = of_nat (4 + n * 48), l_rva = w_position ?w\<rparr>"
  obtain s' ths X bs extra where r: "WriteThreadListStream s = Some (True, \<lparr>rd_type = stream_type ''MD_THREAD_LIST_STREAM'', rd_location = ?l\<rparr>, s')"
    "writes s s' X bs" "take (4 + n * 48) X = le_int 4 n @ concat (map thread_bytes ths)" "extra = -1 \<or> 0 \<le> mw_size_limit s \<and> extra = 2048"
    "threads_laid s extra (unat (w_position ?w)) X 0 ?ts ths"
    "mw_crashing_thread_context s' = crash_context_of (GetCrashThread s) (mw_crashing_thread_context s) ths"
    using pc.WriteThreadListStream_spec [OF assms(1-6,8,9)] by blast
  have img: "w_image (mw_writer s') = w_image ?w @ X" by (rule growsD(7) [OF writesD(1) [OF r(2)]])
  have n: "length ths = n" using threads_laid_length [OF r(5)] assms(6) by simp
  have "unat (of_nat (4 + n * 48) :: u32) = 4 + n * 48" using assms(9) by (intro unat_of_nat_small32) simp
  then have "file_bytes (w_image (mw_writer s')) ?l = take (4 + n * 48) X" by (simp only: file_bytes_def img) simp
  then have "read_list read_thread 48 (file_bytes (w_image (mw_writer s')) ?l) = Some ths"
    using read_list_concat [of ths thread_bytes 48 read_thread] n assms(9) by (simp only: r(3)) simp
  moreover have "threads_laid s extra 0 (w_image (mw_writer s')) 0 ?ts ths"
    using threads_laid_prepend [of s extra 0 "w_image ?w" X] r(5) unfolding img by simp
  moreover have "map rt_id ths = ?ts" using threads_laid_ids [OF r(5)] .
  moreover have "take (unat (w_position ?w)) (w_image (mw_writer s')) = w_image ?w" unfolding img by simp
  ultimately show ?thesis using r(1,4,6) writes_blocks_ok [OF assms(7) r(2)] by auto
qed

theorem WriteThreadListStream_correct_witness:
  "\<exists>dirent s' t. WriteThreadListStream sample_mw = Some (True, dirent, s') \<and>
     read_list read_thread 48 (file_bytes (w_image (mw_writer s')) (rd_location dirent)) = Some [t] \<and> rt_id t = 7 \<and>
     md_start (rt_stack t) = 0x20000 \<and> unat (l_data_size (md_memory (rt_stack t))) = 0x8000"
proof -
  have regs: "thread_regs sample_mw 0 7 = Some (0x20000, sample_regs, sample_fpregs)"
    by (simp add: thread_regs_def from_ucontext_def GetCrashThread_def sample_dumper_def UC_GetStackPointer_def sample_regs_def)
  have "machine_ok sample_mw"
    by (auto simp: machine_ok_def sample_dumper_def sample_mapping_def adjusted_def intro!: exI [of _ 12])
  moreover have "list_all (\<lambda>(i, tid). regs_ok (thread_regs sample_mw i tid)) (enumerate 0 (d_threads (mw_dumper sample_mw)))"
    using regs by (simp add: sample_dumper_def regs_ok_def sample_regs_def sample_fpregs_def)
  ultimately obtain dirent s' ths extra where r: "WriteThreadListStream sample_mw = Some (True, dirent, s')"
    "read_list read_thread 48 (file_bytes (w_image (mw_writer s')) (rd_location dirent)) = Some ths" "map rt_id ths = [7]"
    "threads_laid sample_mw extra 0 (w_image (mw_writer s')) 0 [7] ths" "extra = -1 \<or> 0 \<le> mw_size_limit sample_mw \<and> extra = 2048"
    using WriteThreadListStream_correct [of sample_mw small_memory 1] sample_mw_writer
    by (auto simp: sample_copy blocks_ok_def sample_dumper_def)
  obtain t where t: "ths = [t]" "rt_id t = 7" using r(3) by auto
  have lim: "thread_limit sample_mw extra 0 7 = -1" by (simp add: thread_limit_def)
  have ext: "stack_extent sample_mw (-1) 0x20000 = Some (0x20000, 0x8000)"
    by (simp add: stack_extent_def limit_stack_def GetStackInfo_def sample_dumper_def sample_mapping_def kStackToCapture_def)
  have "md_start (rt_stack t) = 0x20000 \<and> unat (l_data_size (md_memory (rt_stack t))) = 0x8000"
    using r(4) regs lim ext by (auto simp: t(1) thread_laid_def stack_laid_def split: if_splits)
  then show ?thesis using r(1,2) t by blast
qed

end
