(* ===== verification/Module_List.thy ===== *)
theory Module_List
  imports Minidump_Writer
begin

text \<open>
  The module list stream of \<^verbatim>\<open>client/linux/minidump_writer/minidump_writer.cc\<close>: what \<open>WriteMappings\<close> leaves in the file for every module, its
  identifier and its path.
\<close>

section \<open>Steps that record no memory\<close>

text \<open>
  A step that appends \<open>X\<close> and records no block. The names of mappings may change, since \<open>ElfFileIdentifierForMapping\<close> repairs those of deleted files.
\<close>

definition similar_process :: "'f dumper \<Rightarrow> 'f dumper \<Rightarrow> bool" where
  "similar_process d d' \<longleftrightarrow> (\<exists>a ms. d' = d\<lparr>d_crash_address := a, d_mappings := ms\<rparr>)"

lemma similar_process_refl [simp]: "similar_process d d"
  unfolding similar_process_def by (rule exI [of _ "d_crash_address d"], rule exI [of _ "d_mappings d"]) simp

lemma similar_process_trans: "similar_process d d1 \<Longrightarrow> similar_process d1 d2 \<Longrightarrow> similar_process d d2"
  unfolding similar_process_def by (elim exE) (simp, blast)

lemma same_similar: "same_process d d' \<Longrightarrow> similar_process d d'"
proof -
  assume "same_process d d'"
  then obtain a where "d' = d\<lparr>d_crash_address := a, d_mappings := d_mappings d\<rparr>" by (auto simp: same_process_def)
  then show ?thesis unfolding similar_process_def by blast
qed

lemma similar_processD:
  assumes "similar_process d d'"
  shows "d_copy d' = d_copy d" "d_identifier d' = d_identifier d" "d_so_name d' = d_so_name d" "d_crash_thread d' = d_crash_thread d"
    "d_crash_signal d' = d_crash_signal d" "d_crash_signal_code d' = d_crash_signal_code d"
    "d_crash_exception_info d' = d_crash_exception_info d" "d_auxv d' = d_auxv d" "d_open d' = d_open d" "d_read d' = d_read d"
  using assms by (auto simp: similar_process_def)

definition appends :: "'f minidump_writer \<Rightarrow> 'f minidump_writer \<Rightarrow> bytes \<Rightarrow> bool" where
  "appends s s' X \<longleftrightarrow> grows (mw_pagesize s) (mw_writer s) (mw_writer s') X \<and> same_config s s' \<and>
     similar_process (mw_dumper s) (mw_dumper s') \<and> mw_memory_blocks s' = mw_memory_blocks s \<and>
     mw_crashing_thread_context s' = mw_crashing_thread_context s"

lemma appends_refl: "winv (mw_pagesize s) (mw_writer s) \<Longrightarrow> calm (mw_writer s) \<Longrightarrow> appends s s []"
  by (simp add: appends_def grows_refl)

lemma appendsD:
  assumes "appends s s' X"
  shows "grows (mw_pagesize s) (mw_writer s) (mw_writer s') X" "same_config s s'" "mw_pagesize s' = mw_pagesize s"
    "similar_process (mw_dumper s) (mw_dumper s')" "mw_memory_blocks s' = mw_memory_blocks s"
    "mw_crashing_thread_context s' = mw_crashing_thread_context s"
    "winv (mw_pagesize s') (mw_writer s')" "calm (mw_writer s')" "unat (w_position (mw_writer s')) = unat (w_position (mw_writer s)) + length X"
  using assms growsD [of "mw_pagesize s" "mw_writer s" "mw_writer s'" X] same_config_pagesize [of s s'] unfolding appends_def by auto

lemma appends_trans: "appends s s1 X \<Longrightarrow> appends s1 s2 Y \<Longrightarrow> appends s s2 (X @ Y)"
  using grows_trans [of "mw_pagesize s" "mw_writer s" "mw_writer s1" X "mw_writer s2" Y] same_config_trans [of s s1 s2]
    similar_process_trans [of "mw_dumper s" "mw_dumper s1" "mw_dumper s2"] same_config_pagesize [of s s1]
  by (auto simp: appends_def)

lemma writes_appends: "writes s s' X [] \<Longrightarrow> mw_crashing_thread_context s' = mw_crashing_thread_context s \<Longrightarrow> appends s s' X"
  by (simp add: writes_def appends_def same_similar)

lemma appends_set_writer: "grows (mw_pagesize s) (mw_writer s) w' X \<Longrightarrow> appends s (set_writer w' s) X"
  by (simp add: appends_def)

section \<open>One module\<close>

lemma MDCVInfoELF_minsize_4: "MDCVInfoELF_minsize 8 = 4"
  by (simp add: MDCVInfoELF_minsize_def MDCVInfoELF_def offsetof_def layout_simps del: layout_del)

lemma WriteCV_spec:
  assumes "winv (mw_pagesize s) (mw_writer s)" and "calm (mw_writer s)"
    and "unat (w_position (mw_writer s)) + 4 + length ident + 7 < 2 ^ 32"
  shows "\<exists>l s' X. WriteCV ident s = (Some l, s') \<and> appends s s' X \<and> length X \<le> length ident + 11 \<and> mw_dumper s' = mw_dumper s \<and>
    lies_in (unat (w_position (mw_writer s))) X l (store_int 4 MD_CVINFOELF_SIGNATURE @ ident)"
proof -
  let ?w = "mw_writer s" and ?sig = "store_int 4 MD_CVINFOELF_SIGNATURE" and ?n = "4 + length ident"
  let ?m = "\<lparr>m_position = w_position ?w, m_size = of_nat ?n\<rparr>" and ?p = "unat (w_position ?w)"
  have u: "unat (of_nat ?n :: u64) = ?n" using assms(3) by (intro unat_of_nat_small) simp
  have al: "?p + alloc_size ?w ?n < 2 ^ 32" using alloc_size_le [of ?w ?n] assms(3) by linarith
  have n0: "0 < ?n" by simp
  obtain w1 where w1: "Untyped_Allocate (mw_pagesize s) (of_nat ?n) ?w = (True, ?m, w1)" "winv (mw_pagesize s) w1" "calm w1" "same_mode ?w w1"
    "w_image w1 = w_image ?w @ replicate (alloc_size ?w ?n) 0" "unat (w_position w1) = ?p + alloc_size ?w ?n"
    using Untyped_Allocate_refines [OF assms(1,2) u n0 al] by blast
  have ge: "?n \<le> alloc_size ?w ?n" by (rule alloc_size_ge)
  have r1: "?p + length ?sig \<le> unat (w_position w1)" unfolding w1(6) using ge by simp
  obtain w2 where w2: "Copy (w_position ?w) ?sig w1 = (True, w2)" "winv (mw_pagesize s) w2" "calm w2" "same_mode w1 w2"
    "w_image w2 = blit (w_image w1) ?p ?sig" "w_position w2 = w_position w1"
    using Copy_refines [OF w1(2,3) r1] unfolding same_mode_def by blast
  have p4: "unat (w_position ?w + 4) = ?p + 4" using assms(3) by (subst unat_add_small) simp_all
  have r2: "unat (w_position ?w + 4) + length ident \<le> unat (w_position w2)" unfolding w2(6) w1(6) p4 using ge by simp
  obtain w3 where w3: "Copy (w_position ?w + 4) ident w2 = (True, w3)" "winv (mw_pagesize s) w3" "calm w3" "same_mode w2 w3"
    "w_image w3 = blit (w_image w2) (?p + 4) ident"
    using Copy_refines [OF w2(2,3) r2] unfolding same_mode_def p4 by blast
  have "w_image w3 = blit (w_image w1) ?p (?sig @ ident)"
    using blit_blit [of ?p ?sig ident "w_image w1"] w1(6) ge by (simp add: w3(5) w2(5))
  also have "\<dots> = w_image ?w @ padded ?w (?sig @ ident)"
    using blit_append_zeros [of "?sig @ ident" "alloc_size ?w ?n" "w_image ?w" 0] ge by (simp add: w1(5) padded_def)
  finally have "grows (mw_pagesize s) ?w w3 (padded ?w (?sig @ ident))"
    using w3(2,3) same_mode_trans [OF w1(4) same_mode_trans [OF w2(4) w3(4)]] by (simp add: grows_def)
  then have "appends s (set_writer w3 s) (padded ?w (?sig @ ident))" by (rule appends_set_writer)
  moreover have "WriteCV ident s = (Some (location_of ?m), set_writer w3 s)"
    unfolding WriteCV_def MDCVInfoELF_minsize_4 w1(1) using w2(1) w3(1) by simp
  moreover have "lies_in ?p (padded ?w (?sig @ ident)) (location_of ?m) (?sig @ ident)"
    using lies_in_here [of "?sig @ ident" "w_position ?w"] assms(3)
    by (simp add: padded_def location_of_def ucast_of_nat_down del: of_nat_add)
  moreover have "length (padded ?w (?sig @ ident)) \<le> length ident + 11" using alloc_size_le [of ?w ?n] by simp
  ultimately show ?thesis by (metis writer_updates(3))
qed

text \<open>
  What a module comes from: a mapping of the dumper with its index, or a mapping and an identifier of the caller. Its identifier and its mapping, whose name may
  have been repaired; and its path, as \<open>GetMappingEffectiveNameAndPath\<close> gives it.
\<close>

type_synonym module_source = "mapping_info \<times> bool \<times> nat \<times> bytes option"

definition module_ident :: "'f dumper \<Rightarrow> module_source \<Rightarrow> bytes \<times> mapping_info" where
  "module_ident d src = (case src of (m, member, i, ident) \<Rightarrow>
     (case ident of Some g \<Rightarrow> (take sizeof_MDGUID g, m) | None \<Rightarrow> d_identifier d m member i))"

definition effective_path :: "bool \<times> bytes \<Rightarrow> mapping_info \<Rightarrow> bytes" where
  "effective_path so m =
     (let path = take (NAME_MAX - 1) (cstr (mi_name m)); (found, fname) = so
      in if \<not> found then path
         else if mi_exec m \<and> mi_offset m \<noteq> 0 then
           (if length path + 1 + length (cstr fname) < NAME_MAX then path @ 47 # cstr fname else path)
         else take (NAME_MAX - 1) (dir_part path @ cstr fname))"

definition module_path :: "'f dumper \<Rightarrow> module_source \<Rightarrow> bytes" where
  "module_path d src = (let m = snd (module_ident d src) in effective_path (d_so_name d m (replicate NAME_MAX 0)) m)"

definition bmp_text :: "UTF32 list \<Rightarrow> bytes \<Rightarrow> bool" where
  "bmp_text cs bs \<longleftrightarrow> list_all (\<lambda>c. scalar c \<and> c \<noteq> 0 \<and> c \<le> 0xFFFF) cs \<and> bs = concat (map utf8_units cs)"

definition module_ok :: "'f dumper \<Rightarrow> module_source \<Rightarrow> bool" where
  "module_ok d src \<longleftrightarrow>
     (let (ident, m) = module_ident d src; (found, fname) = d_so_name d m (replicate NAME_MAX 0)
      in length ident \<le> 256 \<and> nul_terminated (mi_name m) \<and> length fname = NAME_MAX \<and> nul_terminated fname \<and>
         (\<exists>cs. bmp_text cs (module_path d src)))"

definition module_laid :: "'f dumper \<Rightarrow> nat \<Rightarrow> bytes \<Rightarrow> module_source \<Rightarrow> raw_module \<Rightarrow> bool" where
  "module_laid d k X src md \<longleftrightarrow>
     rm_base md = mi_start_addr (fst src) \<and> rm_size md = ucast (mi_size (fst src)) \<and>
     (let ident = fst (module_ident d src)
      in if ident = [] then rm_cv md = no_location else lies_in k X (rm_cv md) (store_int 4 MD_CVINFOELF_SIGNATURE @ ident)) \<and>
     (\<exists>cs. bmp_text cs (module_path d src) \<and>
        lies_in k X \<lparr>l_data_size = of_nat (length (mdstring_bytes cs)), l_rva = rm_name md\<rparr> (mdstring_bytes cs))"

lemma module_laid_append: "module_laid d k X src md \<Longrightarrow> module_laid d k (X @ Y) src md"
  unfolding module_laid_def Let_def using lies_in_append by (metis (no_types, lifting))

lemma module_laid_prepend: "module_laid d (k + length Z) X src md \<Longrightarrow> module_laid d k (Z @ X) src md"
  unfolding module_laid_def Let_def using lies_in_prepend by (metis (no_types, lifting))

lemma module_laid_similar:
  assumes sim: "similar_process d d'"
  shows "module_laid d' = module_laid d" "module_ok d' = module_ok d"
proof -
  have i: "module_ident d' = module_ident d" unfolding module_ident_def similar_processD(2) [OF sim] ..
  have p: "module_path d' = module_path d" unfolding module_path_def i similar_processD(3) [OF sim] ..
  show "module_laid d' = module_laid d" unfolding module_laid_def i p ..
  show "module_ok d' = module_ok d" unfolding module_ok_def i p similar_processD(3) [OF sim] ..
qed

text \<open>The path of a module as the string of the file: the length given is that of the string.\<close>

lemma WriteString_with_length: "length str \<le> INT_MAX \<Longrightarrow> WriteString pg str (length str) w = WriteString pg str 0 w"
proof -
  assume "length str \<le> INT_MAX"
  then have e: "min (length str) (if length str = 0 then INT_MAX else length str) = min (length str) (if (0 :: nat) = 0 then INT_MAX else 0)" by auto
  show ?thesis unfolding WriteString_def WriteStringCore_def Let_def e ..
qed

lemma WriteString_appends:
  assumes "winv (mw_pagesize s) (mw_writer s)" and "calm (mw_writer s)" and "bmp_text cs str" and "length str \<le> 512"
    and "unat (w_position (mw_writer s)) + 2 * length str + 13 < 2 ^ 32"
  shows "\<exists>l w' X. WriteString (mw_pagesize s) str 0 (mw_writer s) = (Some l, w') \<and> appends s (set_writer w' s) X \<and>
    length X \<le> 2 * length str + 13 \<and> l = \<lparr>l_data_size = of_nat (length (mdstring_bytes cs)), l_rva = l_rva l\<rparr> \<and>
    lies_in (unat (w_position (mw_writer s))) X l (mdstring_bytes cs)"
proof -
  let ?w = "mw_writer s" and ?l = "\<lparr>l_data_size = of_nat (length (mdstring_bytes cs)), l_rva = w_position (mw_writer s)\<rparr>"
  have cs: "list_all (\<lambda>c. scalar c \<and> c \<noteq> 0 \<and> c \<le> 0xFFFF) cs" "str = concat (map utf8_units cs)" using assms(3) by (auto simp: bmp_text_def)
  have "list_all scalar cs" using cs(1) by (auto simp: list_all_iff)
  then have len: "length (mdstring_bytes cs) = 2 * length str + 6" using length_mdstring_bytes [of cs] cs(2) by simp
  have im: "length str \<le> INT_MAX" using assms(4) by (simp add: INT_MAX_def)
  have fits: "unat (w_position ?w) + alloc_size ?w (length (mdstring_bytes cs)) < 2 ^ 32"
    unfolding len using alloc_size_le [of ?w "2 * length str + 6"] assms(5) by linarith
  obtain w' where w': "WriteString (mw_pagesize s) str 0 ?w = (Some ?l, w')" "grows (mw_pagesize s) ?w w' (padded ?w (mdstring_bytes cs))"
    using WriteString_refines [OF assms(1,2) cs im fits] unfolding grows_def by blast
  have "lies_in (unat (w_position ?w)) (padded ?w (mdstring_bytes cs)) ?l (mdstring_bytes cs)"
    unfolding padded_def using assms(5) len by (intro lies_in_here) simp
  moreover have "length (padded ?w (mdstring_bytes cs)) \<le> 2 * length str + 13" using alloc_size_le [of ?w "2 * length str + 6"] by (simp add: len)
  ultimately show ?thesis
    using w'(1) appends_set_writer [OF w'(2)] by (intro exI [of _ ?l] exI [of _ w'] exI [of _ "padded ?w (mdstring_bytes cs)"]) simp
qed

text \<open>The record with the identifier, which is left out when there is none.\<close>

lemma write_ident_spec:
  assumes "winv (mw_pagesize s) (mw_writer s)" and "calm (mw_writer s)" and "length ident \<le> 256"
    and "unat (w_position (mw_writer s)) + 267 < 2 ^ 32"
  shows "\<exists>l s' X. (if ident \<noteq> [] then WriteCV ident s else (Some no_location, s)) = (Some l, s') \<and> appends s s' X \<and> length X \<le> 267 \<and>
    mw_dumper s' = mw_dumper s \<and> (if ident = [] then l = no_location
      else lies_in (unat (w_position (mw_writer s))) X l (store_int 4 MD_CVINFOELF_SIGNATURE @ ident))"
proof (cases "ident = []")
  case True
  then show ?thesis using appends_refl [OF assms(1,2)] by fastforce
next
  case False
  have "unat (w_position (mw_writer s)) + 4 + length ident + 7 < 2 ^ 32" using assms(3,4) by linarith
  then obtain l s' X where "WriteCV ident s = (Some l, s')" "appends s s' X" "length X \<le> length ident + 11" "mw_dumper s' = mw_dumper s"
    "lies_in (unat (w_position (mw_writer s))) X l (store_int 4 MD_CVINFOELF_SIGNATURE @ ident)"
    using WriteCV_spec [OF assms(1,2)] by blast
  then show ?thesis using False assms(3) by (intro exI [of _ l] exI [of _ s'] exI [of _ X]) simp
qed

lemma FillRawModule_spec:
  assumes "winv (mw_pagesize s) (mw_writer s)" and "calm (mw_writer s)" and ok: "module_ok (mw_dumper s) (m, member, i, ident)"
    and "unat (w_position (mw_writer s)) + 788 < 2 ^ 32"
  shows "\<exists>md s' X. FillRawModule m member i ident s = Some (Some md, s') \<and> appends s s' X \<and> length X \<le> 788 \<and>
    module_laid (mw_dumper s) (unat (w_position (mw_writer s))) X (m, member, i, ident) md"
proof -
  let ?d = "mw_dumper s" and ?src = "(m, member, i, ident)" and ?p = "unat (w_position (mw_writer s))"
  obtain idb m' where id: "module_ident ?d ?src = (idb, m')" by (cases "module_ident ?d ?src")
  obtain found fname where so: "d_so_name ?d m' (replicate NAME_MAX 0) = (found, fname)" by (cases "d_so_name ?d m' (replicate NAME_MAX 0)")
  obtain cs where h: "length idb \<le> 256" "nul_terminated (mi_name m')" "length fname = NAME_MAX" "nul_terminated fname" "bmp_text cs (module_path ?d ?src)"
    using ok by (auto simp: module_ok_def id so)
  let ?s0 = "if member \<and> ident = None then s\<lparr>mw_dumper := ?d\<lparr>d_mappings := (d_mappings ?d)[i := m']\<rparr>\<rparr> else s"
  have sim: "similar_process ?d (?d\<lparr>d_mappings := ms\<rparr>)" for ms
    unfolding similar_process_def by (rule exI [of _ "d_crash_address ?d"]) auto
  have s0: "appends s ?s0 []" using grows_refl [OF assms(1,2)] sim by (simp add: appends_def)
  have w0: "mw_writer ?s0 = mw_writer s" by simp
  note A0 = appendsD [OF s0]
  have room0: "unat (w_position (mw_writer ?s0)) + 267 < 2 ^ 32" using assms(4) unfolding w0 by linarith
  obtain l s1 X1 where s1: "(if idb \<noteq> [] then WriteCV idb ?s0 else (Some no_location, ?s0)) = (Some l, s1)" "appends ?s0 s1 X1" "length X1 \<le> 267"
    "if idb = [] then l = no_location else lies_in ?p X1 l (store_int 4 MD_CVINFOELF_SIGNATURE @ idb)"
    using write_ident_spec [OF A0(7,8) h(1) room0] unfolding w0 by blast
  have a1: "appends s s1 X1" using appends_trans [OF s0 s1(2)] by simp
  note A1 = appendsD [OF a1]
  have nm: "0 < length (replicate NAME_MAX (0 :: u8))" "length fname = length (replicate NAME_MAX (0 :: u8))" using h(3) by (simp_all add: NAME_MAX_def)
  let ?q = "take (NAME_MAX - 1) (cstr (mi_name m'))"
  have mp: "(if \<not> found then ?q
      else if mi_exec m' \<and> mi_offset m' \<noteq> 0 then (if length ?q + 1 + length (cstr fname) < NAME_MAX then ?q @ 47 # cstr fname else ?q)
      else take (NAME_MAX - 1) (dir_part ?q @ cstr fname)) = module_path ?d ?src"
    by (simp only: module_path_def id effective_path_def so Let_def prod.case snd_conv)
  obtain pth nme where pn: "GetMappingEffectiveNameAndPath (d_so_name ?d m') m' (replicate NAME_MAX 0) (replicate NAME_MAX 0) = Some (pth, nme)"
    "length pth = NAME_MAX" "nul_terminated pth" "cstr pth = module_path ?d ?src"
    using GetMappingEffectiveNameAndPath_result [where so = "d_so_name ?d m'" and m = m', OF h(2) nm(1,1) so nm(2) h(4) refl]
    unfolding length_replicate mp by blast
  have len: "length (module_path ?d ?src) \<le> 254" using length_cstr_less [OF pn(3)] pn(2,4) by (simp add: NAME_MAX_def)
  have room1: "unat (w_position (mw_writer s1)) + 2 * length (module_path ?d ?src) + 13 < 2 ^ 32" using A1(9) s1(3) len assms(4) by linarith
  have l512: "length (module_path ?d ?src) \<le> 512" using len by linarith
  obtain n w2 X2 where s2: "WriteString (mw_pagesize s1) (module_path ?d ?src) 0 (mw_writer s1) = (Some n, w2)" "appends s1 (set_writer w2 s1) X2"
    "length X2 \<le> 2 * length (module_path ?d ?src) + 13" "n = \<lparr>l_data_size = of_nat (length (mdstring_bytes cs)), l_rva = l_rva n\<rparr>"
    "lies_in (unat (w_position (mw_writer s1))) X2 n (mdstring_bytes cs)"
    using WriteString_appends [OF A1(7,8) h(5) l512 room1] by blast
  let ?md = "\<lparr>rm_base = mi_start_addr m, rm_size = ucast (mi_size m), rm_name = l_rva n, rm_cv = l\<rparr>"
  have "d_so_name (mw_dumper s1) = d_so_name ?d" by (rule similar_processD(3) [OF A1(4)])
  moreover have "WriteString (mw_pagesize s1) (module_path ?d ?src) (length (module_path ?d ?src)) (mw_writer s1) = (Some n, w2)"
    using s2(1) len by (subst WriteString_with_length) (simp_all add: INT_MAX_def)
  ultimately have "FillRawModule m member i ident s = Some (Some ?md, set_writer w2 s1)"
    using pn s1(1) id unfolding FillRawModule_def module_ident_def by (simp add: my_strlen_eq split del: if_split)
  moreover have "appends s (set_writer w2 s1) (X1 @ X2)" by (rule appends_trans [OF a1 s2(2)])
  moreover have "length (X1 @ X2) \<le> 788" using s1(3) s2(3) len by simp
  moreover have "lies_in ?p (X1 @ X2) \<lparr>l_data_size = of_nat (length (mdstring_bytes cs)), l_rva = l_rva n\<rparr> (mdstring_bytes cs)"
    using s2(4,5) A1(9) by (intro lies_in_prepend) simp
  then have "module_laid ?d ?p (X1 @ X2) ?src ?md"
    using s1(4) h(5) by (auto simp: module_laid_def id intro: lies_in_append)
  ultimately show ?thesis by blast
qed

section \<open>All modules\<close>

text \<open>Both loops of \<open>WriteMappings\<close> write a list of modules.\<close>

fun write_sources :: "mdrva \<Rightarrow> nat \<Rightarrow> module_source list \<Rightarrow> 'f minidump_writer \<Rightarrow> (bool \<times> nat \<times> 'f minidump_writer) option" where
  "write_sources lst j [] s = Some (True, j, s)"
| "write_sources lst j ((m, member, i, ident) # srcs) s =
     do {
       (res, s) \<leftarrow> FillRawModule m member i ident s;
       (case res of
          None \<Rightarrow> Some (False, j, s)
        | Some md \<Rightarrow>
            write_sources lst (j + 1) srcs
              (set_writer (snd (CopyIndexAfterObject 4 lst (of_nat j) (module_bytes md) (mw_writer s))) s))
     }"

definition dumper_sources :: "'f minidump_writer \<Rightarrow> nat \<Rightarrow> mapping_info list \<Rightarrow> module_source list" where
  "dumper_sources s i ms =
     map (\<lambda>(k, m). (m, True, k, None)) (filter (\<lambda>(k, m). ShouldIncludeMapping m \<and> \<not> HaveMappingInfo s m) (enumerate i ms))"

definition module_sources :: "'f minidump_writer \<Rightarrow> module_source list" where
  "module_sources s = dumper_sources s 0 (d_mappings (mw_dumper s)) @ map (\<lambda>(m, g). (m, False, 0, Some g)) (mw_mapping_list s)"

lemma FillRawModule_mapping_list: "FillRawModule m member i ident s = Some (r, s') \<Longrightarrow> mw_mapping_list s' = mw_mapping_list s"
  unfolding FillRawModule_def Let_def case_prod_beta WriteCV_def set_writer_def
  by (auto simp: bind_eq_Some_conv case_prod_beta split: if_splits option.splits)

lemma write_mappings_sources: "write_mappings lst i j ms s = write_sources lst j (dumper_sources s i ms) s"
proof (induction ms arbitrary: i j s)
  case (Cons m ms)
  show ?case
  proof (cases "ShouldIncludeMapping m \<and> \<not> HaveMappingInfo s m")
    case False
    then show ?thesis using Cons by (auto simp: dumper_sources_def)
  next
    case True
    show ?thesis
    proof (cases "FillRawModule m True i None s")
      case None
      then show ?thesis using True by (simp add: dumper_sources_def)
    next
      case (Some r)
      obtain md s1 where r: "r = (md, s1)" by (cases r)
      have "dumper_sources (set_writer w s1) k ms = dumper_sources s k ms" for w k
        using FillRawModule_mapping_list [OF Some [unfolded r]] by (simp add: dumper_sources_def HaveMappingInfo_def set_writer_def)
      moreover have "dumper_sources s i (m # ms) = (m, True, i, None) # dumper_sources s (i + 1) ms" using True by (simp add: dumper_sources_def)
      ultimately show ?thesis using True Some r Cons by (cases md) simp_all
    qed
  qed
qed (simp add: dumper_sources_def)

lemma write_caller_sources:
  "write_caller_mappings lst j cs s = map_option (\<lambda>(ok, j, s). (ok, s)) (write_sources lst j (map (\<lambda>(m, g). (m, False, 0, Some g)) cs) s)"
proof (induction cs arbitrary: j s)
  case (Cons c cs)
  obtain m g where c: "c = (m, g)" by (cases c)
  show ?case
  proof (cases "FillRawModule m False 0 (Some g) s")
    case (Some r)
    then show ?thesis using Cons by (cases r; cases "fst r") (simp_all add: c)
  qed (simp add: c)
qed simp

lemma length_module_bytes [simp]: "length (module_bytes md) = 108"
  by (simp add: module_bytes_def)

fun modules_laid :: "'f dumper \<Rightarrow> nat \<Rightarrow> bytes \<Rightarrow> module_source list \<Rightarrow> raw_module list \<Rightarrow> bool" where
  "modules_laid d k X [] mds \<longleftrightarrow> mds = []"
| "modules_laid d k X (src # srcs) mds \<longleftrightarrow>
     (case mds of [] \<Rightarrow> False | md # mds' \<Rightarrow> module_laid d k X src md \<and> modules_laid d k X srcs mds')"

lemma modules_laid_append: "modules_laid d k X srcs mds \<Longrightarrow> modules_laid d k (X @ Y) srcs mds"
  by (induction srcs arbitrary: mds) (auto simp: module_laid_append split: list.splits)

lemma modules_laid_prepend: "modules_laid d (k + length Z) X srcs mds \<Longrightarrow> modules_laid d k (Z @ X) srcs mds"
  by (induction srcs arbitrary: mds) (auto simp: module_laid_prepend split: list.splits)

lemma modules_laid_similar: "similar_process d d' \<Longrightarrow> modules_laid d' k X srcs mds = modules_laid d k X srcs mds"
  by (induction srcs arbitrary: mds) (simp_all add: module_laid_similar split: list.split)

lemma modules_laid_length: "modules_laid d k X srcs mds \<Longrightarrow> length mds = length srcs"
  by (induction srcs arbitrary: mds) (auto split: list.splits)

text \<open>What \<open>appends\<close> says of the object, without the file.\<close>

definition same_state :: "'f minidump_writer \<Rightarrow> 'f minidump_writer \<Rightarrow> bool" where
  "same_state s s' \<longleftrightarrow> same_config s s' \<and> similar_process (mw_dumper s) (mw_dumper s') \<and> mw_memory_blocks s' = mw_memory_blocks s \<and>
     mw_crashing_thread_context s' = mw_crashing_thread_context s"

lemma same_state_refl [simp]: "same_state s s"
  by (simp add: same_state_def)

lemma same_state_trans: "same_state s s1 \<Longrightarrow> same_state s1 s2 \<Longrightarrow> same_state s s2"
  unfolding same_state_def using same_config_trans similar_process_trans by fastforce

lemma same_state_set_writer [simp]:
  "same_state s (set_writer w s') \<longleftrightarrow> same_state s s'" "same_state (set_writer w s) s' \<longleftrightarrow> same_state s s'"
  by (simp_all add: same_state_def)

lemma appends_iff: "appends s s' X \<longleftrightarrow> grows (mw_pagesize s) (mw_writer s) (mw_writer s') X \<and> same_state s s'"
  by (auto simp: appends_def same_state_def)

lemma write_sources_spec:
  assumes "list_area (mw_pagesize s) (mw_writer s) lst img (entries_area 4 es a) Y" and "list_all (\<lambda>e. length e = 108) es"
    and "4 + (length es + length srcs) * 108 \<le> a" and "unat (w_position (mw_writer s)) + length srcs * 788 < 2 ^ 32"
    and "list_all (module_ok (mw_dumper s)) srcs"
  shows "\<exists>s' mds Z. write_sources lst (length es) srcs s = Some (True, length es + length srcs, s') \<and> same_state s s' \<and>
    same_mode (mw_writer s) (mw_writer s') \<and>
    list_area (mw_pagesize s) (mw_writer s') lst img (entries_area 4 (es @ map module_bytes mds) a) (Y @ Z) \<and> length Z \<le> length srcs * 788 \<and>
    modules_laid (mw_dumper s) (unat (w_position (mw_writer s))) Z srcs mds"
  using assms
proof (induction srcs arbitrary: s es Y)
  case Nil
  then show ?case by (intro exI [of _ s] exI [of _ "[]"]) (simp add: same_mode_def)
next
  case (Cons src srcs)
  obtain m member i ident where src: "src = (m, member, i, ident)" by (cases src) auto
  let ?p = "unat (w_position (mw_writer s))"
  have inv: "winv (mw_pagesize s) (mw_writer s)" "calm (mw_writer s)" using Cons.prems(1) by (simp_all add: list_area_def)
  have room: "?p + 788 < 2 ^ 32" and ok: "module_ok (mw_dumper s) (m, member, i, ident)" using Cons.prems(4,5) by (simp_all add: src)
  obtain md s1 X where s1: "FillRawModule m member i ident s = Some (Some md, s1)" "appends s s1 X" "length X \<le> 788"
    "module_laid (mw_dumper s) ?p X (m, member, i, ident) md"
    using FillRawModule_spec [OF inv ok room] by blast
  note W = appendsD [OF s1(2)]
  have a: "4 + length es * 108 + 108 \<le> a" using Cons.prems(3) by simp
  obtain w2 where w2: "CopyIndexAfterObject 4 lst (of_nat (length es)) (module_bytes md) (mw_writer s1) = (True, w2)" "same_mode (mw_writer s1) w2"
    "list_area (mw_pagesize s) w2 lst img (entries_area 4 (es @ [module_bytes md]) a) (Y @ X)"
    "unat (w_position w2) = unat (w_position (mw_writer s1))"
    using list_area_next [OF list_area_grows [OF Cons.prems(1) W(1)] Cons.prems(2) length_module_bytes _ a] by auto
  let ?s = "set_writer w2 s1" and ?es = "es @ [module_bytes md]"
  have same: "same_state s ?s" using s1(2) by (simp add: appends_iff)
  have sim: "similar_process (mw_dumper s) (mw_dumper ?s)" using same by (simp add: same_state_def)
  have pos: "unat (w_position w2) = ?p + length X" using w2(4) W(9) by simp
  have ih: "list_area (mw_pagesize ?s) (mw_writer ?s) lst img (entries_area 4 ?es a) (Y @ X)" "list_all (\<lambda>e. length e = 108) ?es"
    "4 + (length ?es + length srcs) * 108 \<le> a" "unat (w_position (mw_writer ?s)) + length srcs * 788 < 2 ^ 32"
    "list_all (module_ok (mw_dumper ?s)) srcs"
    using Cons.prems w2(3) W(3) pos s1(3) module_laid_similar(2) [OF sim] by simp_all
  obtain s' mds Z where s': "write_sources lst (length ?es) srcs ?s = Some (True, length ?es + length srcs, s')" "same_state ?s s'" "same_mode w2 (mw_writer s')"
    "list_area (mw_pagesize s) (mw_writer s') lst img (entries_area 4 (?es @ map module_bytes mds) a) ((Y @ X) @ Z)" "length Z \<le> length srcs * 788"
    "modules_laid (mw_dumper ?s) (?p + length X) Z srcs mds"
    using Cons.IH [OF ih] W(3) pos by (simp del: append_assoc) blast
  have "write_sources lst (length es) (src # srcs) s = Some (True, length es + length (src # srcs), s')" using s1(1) w2(1) s'(1) by (simp add: src)
  moreover have "same_state s s'" by (rule same_state_trans [OF same s'(2)])
  moreover have "same_mode (mw_writer s) (mw_writer s')"
    by (rule same_mode_trans [OF same_mode_trans [OF growsD(3) [OF W(1)] w2(2)] s'(3)])
  moreover have "modules_laid (mw_dumper s) ?p (X @ Z) (src # srcs) (md # mds)"
    using module_laid_append [OF s1(4)] modules_laid_prepend [of "mw_dumper s" ?p X Z] s'(6) modules_laid_similar [OF sim] by (simp add: src)
  ultimately show ?case
    using s'(4,5) s1(3) by (intro exI [of _ s'] exI [of _ "md # mds"] exI [of _ "X @ Z"]) simp
qed

lemma write_sources_append:
  "write_sources lst j (xs @ ys) s =
     do { (ok, j, s) \<leftarrow> write_sources lst j xs s; if ok then write_sources lst j ys s else Some (False, j, s) }"
proof (induction xs arbitrary: j s)
  case (Cons x xs)
  obtain m member i ident where x: "x = (m, member, i, ident)" by (cases x) auto
  show ?case
  proof (cases "FillRawModule m member i ident s")
    case (Some r)
    then show ?thesis using Cons by (cases r; cases "fst r") (simp_all add: x)
  qed (simp add: x)
qed simp

lemma write_sources_mapping_list: "write_sources lst j xs s = Some (ok, k, s') \<Longrightarrow> mw_mapping_list s' = mw_mapping_list s"
proof (induction xs arbitrary: j s)
  case (Cons x xs)
  obtain m member i ident where x: "x = (m, member, i, ident)" by (cases x) auto
  obtain r s1 where r: "FillRawModule m member i ident s = Some (r, s1)" using Cons.prems by (auto simp: x bind_eq_Some_conv)
  note keep = FillRawModule_mapping_list [OF r]
  show ?case
  proof (cases r)
    case None
    then show ?thesis using Cons.prems r keep by (simp add: x)
  next
    case (Some md)
    then show ?thesis
      using Cons.prems r keep
        Cons.IH [of "j + 1" "set_writer (snd (CopyIndexAfterObject 4 lst (of_nat j) (module_bytes md) (mw_writer s1))) s1"]
      by (simp add: x set_writer_def)
  qed
qed simp

lemma write_both_loops:
  assumes "write_sources lst 0 (module_sources s) s = Some (True, k, s')"
  shows "\<exists>j s2. write_mappings lst 0 0 (d_mappings (mw_dumper s)) s = Some (True, j, s2) \<and>
    write_caller_mappings lst j (mw_mapping_list s2) s2 = Some (True, s')"
proof -
  obtain j s2 where s2: "write_sources lst 0 (dumper_sources s 0 (d_mappings (mw_dumper s))) s = Some (True, j, s2)"
    "write_sources lst j (map (\<lambda>(m, g). (m, False, 0, Some g)) (mw_mapping_list s)) s2 = Some (True, k, s')"
    using assms by (auto simp: module_sources_def write_sources_append bind_eq_Some_conv split: if_splits)
  then show ?thesis
    using write_sources_mapping_list [OF s2(1)]
    by (intro exI [of _ j] exI [of _ s2]) (simp add: write_mappings_sources write_caller_sources)
qed

lemma num_output_mappings_sources: "num_output_mappings s = length (module_sources s)"
proof -
  have "length (filter (\<lambda>(k, m). P m) (enumerate i ms)) = length (filter P ms)" for P i and ms :: "mapping_info list"
    by (induction ms arbitrary: i) auto
  from this [of "\<lambda>m. ShouldIncludeMapping m \<and> \<not> HaveMappingInfo s m"] show ?thesis
    by (simp add: num_output_mappings_def module_sources_def dumper_sources_def)
qed

definition read_module :: "bytes \<Rightarrow> raw_module" where
  "read_module bs = \<lparr>rm_base = of_nat (le_nat (take 8 bs)), rm_size = of_nat (le_nat (take 4 (drop 8 bs))),
     rm_name = of_nat (le_nat (take 4 (drop 20 bs))), rm_cv = read_location (take 8 (drop 76 bs))\<rparr>"

lemma read_module_bytes [simp]: "read_module (module_bytes md) = md"
  by (simp add: read_module_def module_bytes_def le_nat_store_int [OF unat_u32_lt] le_nat_store_int [OF unat_u64_lt])

lemma WriteMappings_spec:
  assumes "winv (mw_pagesize s) (mw_writer s)" and "calm (mw_writer s)" and "n = length (module_sources s)"
    and "list_all (module_ok (mw_dumper s)) (module_sources s)"
    and "unat (w_position (mw_writer s)) + 4 + n * 108 + 7 + n * 788 < 2 ^ 32"
  shows "\<exists>s' mds X. WriteMappings s = Some (True, \<lparr>rd_type = stream_type ''MD_MODULE_LIST_STREAM'',
      rd_location = \<lparr>l_data_size = of_nat (4 + n * 108), l_rva = w_position (mw_writer s)\<rparr>\<rparr>, s') \<and>
    appends s s' X \<and> length X \<le> 4 + n * 108 + 7 + n * 788 \<and>
    take (4 + n * 108) X = le_int 4 n @ concat (map module_bytes mds) \<and>
    modules_laid (mw_dumper s) (unat (w_position (mw_writer s))) X (module_sources s) mds"
proof -
  let ?w = "mw_writer s" and ?pg = "mw_pagesize s" and ?a = "alloc_size (mw_writer s) (4 + n * 108)"
  let ?p = "unat (w_position ?w)"
  have room: "?p + 4 + n * 108 + 7 < 2 ^ 32" using assms(5) by linarith
  obtain lst w1 where w1: "allocate_list n 108 s = (True, lst, w1)" "same_mode ?w w1"
    "location_of lst = \<lparr>l_data_size = of_nat (4 + n * 108), l_rva = w_position ?w\<rparr>"
    "list_area ?pg w1 lst (w_image ?w) (entries_area 4 [] ?a) []"
    using allocate_list_area [OF assms(1,2) room] by blast
  let ?s1 = "set_writer w1 s"
  have a: "4 + n * 108 \<le> ?a" "?a \<le> 4 + n * 108 + 7" by (rule alloc_size_ge, rule alloc_size_le)
  have p1: "unat (w_position w1) = ?p + ?a" using list_area_length [OF w1(4)] a by (simp add: length_entries_area)
  have src: "module_sources ?s1 = module_sources s"
    by (simp add: module_sources_def dumper_sources_def HaveMappingInfo_def set_writer_def)
  have h: "list_area (mw_pagesize ?s1) (mw_writer ?s1) lst (w_image ?w) (entries_area 4 [] ?a) []"
    "4 + (length ([] :: bytes list) + length (module_sources s)) * 108 \<le> ?a"
    "unat (w_position (mw_writer ?s1)) + length (module_sources s) * 788 < 2 ^ 32" "list_all (module_ok (mw_dumper ?s1)) (module_sources s)"
    using assms(3-5) w1(4) a p1 by simp_all
  obtain s' mds Z where s': "write_sources lst 0 (module_sources s) ?s1 = Some (True, n, s')" "same_state s s'" "same_mode w1 (mw_writer s')"
    "list_area ?pg (mw_writer s') lst (w_image ?w) (entries_area 4 (map module_bytes mds) ?a) Z" "length Z \<le> n * 788"
    "modules_laid (mw_dumper s) (?p + ?a) Z (module_sources s) mds"
    using write_sources_spec [OF h(1) list.pred_inject(1) h(2-4)] p1 assms(3) by auto
  let ?es = "map module_bytes mds"
  have lt: "length mds = n" using modules_laid_length [OF s'(6)] assms(3) by simp
  have es: "list_all (\<lambda>e. length e = 108) ?es" "length ?es = n" using lt by (simp_all add: list_all_iff)
  obtain w3 where w3: "Flush lst (le_int 4 n) (mw_writer s') = (True, w3)" "grows ?pg ?w w3 (padded ?w (le_int 4 n @ concat ?es) @ Z)"
    "length (padded ?w (le_int 4 n @ concat ?es)) = ?a" "take (4 + n * 108) (padded ?w (le_int 4 n @ concat ?es) @ Z) = le_int 4 n @ concat ?es"
    using finish_list [OF s'(4) es same_mode_trans [OF w1(2) s'(3)]] by blast
  let ?L = "padded ?w (le_int 4 n @ concat ?es)" and ?s = "set_writer w3 s'"
  from w3(2) have "appends s ?s (?L @ Z)" using s'(2) by (simp add: appends_iff)
  moreover have "modules_laid (mw_dumper s) ?p (?L @ Z) (module_sources s) mds"
    using modules_laid_prepend [of "mw_dumper s" ?p ?L Z] s'(6) unfolding w3(3) by blast
  moreover note w3(4)
  moreover have "length (?L @ Z) \<le> 4 + n * 108 + 7 + n * 788" unfolding length_append w3(3) using a(2) s'(5) by linarith
  moreover have "WriteMappings s = Some (True, \<lparr>rd_type = stream_type ''MD_MODULE_LIST_STREAM'', rd_location = location_of lst\<rparr>, ?s)"
  proof -
    obtain j s2 where s2: "write_mappings lst 0 0 (d_mappings (mw_dumper s)) ?s1 = Some (True, j, s2)"
      "write_caller_mappings lst j (mw_mapping_list s2) s2 = Some (True, s')"
      using write_both_loops [of lst ?s1 n s'] s'(1) src by auto
    have "MD_MODULE_SIZE = 108" by (simp add: MD_MODULE_SIZE_def)
    then show ?thesis
      unfolding WriteMappings_def num_output_mappings_sources assms(3) [symmetric] Let_def using w1(1) s2 w3(1) by simp
  qed
  ultimately show ?thesis unfolding w1(3) by blast
qed

section \<open>The module list as a reader finds it\<close>

text \<open>
  C4. The module list is complete and every entry is backed by data. When the paths of the modules are text of the basic plane, the stream is written. A reader
  of the format finds one entry for every mapping of the process that is to be included and is not replaced by the caller, in their order, and then one for
  every mapping of the caller. An entry has the address and the size of its mapping; its record for debuggers names bytes of the file that hold
  the signature and the identifier of the module, or is empty for a module with no identifier; and its name is the offset of the string of the
  path in UTF-16. What was in the file before is unchanged.
\<close>

theorem WriteMappings_correct:
  assumes "winv (mw_pagesize s) (mw_writer s)" and "calm (mw_writer s)" and "n = length (module_sources s)"
    and "list_all (module_ok (mw_dumper s)) (module_sources s)"
    and "unat (w_position (mw_writer s)) + 4 + n * 108 + 7 + n * 788 < 2 ^ 32"
  shows "\<exists>dirent s' mds. WriteMappings s = Some (True, dirent, s') \<and> rd_type dirent = 4 \<and>
    read_list read_module 108 (file_bytes (w_image (mw_writer s')) (rd_location dirent)) = Some mds \<and>
    modules_laid (mw_dumper s) 0 (w_image (mw_writer s')) (module_sources s) mds \<and> mw_memory_blocks s' = mw_memory_blocks s \<and>
    take (unat (w_position (mw_writer s))) (w_image (mw_writer s')) = w_image (mw_writer s)"
proof -
  let ?w = "mw_writer s" and ?l = "\<lparr>l_data_size = of_nat (4 + n * 108), l_rva = w_position (mw_writer s)\<rparr>"
  obtain s' mds X where r: "WriteMappings s = Some (True, \<lparr>rd_type = stream_type ''MD_MODULE_LIST_STREAM'', rd_location = ?l\<rparr>, s')"
    "appends s s' X" "take (4 + n * 108) X = le_int 4 n @ concat (map module_bytes mds)"
    "modules_laid (mw_dumper s) (unat (w_position ?w)) X (module_sources s) mds"
    using WriteMappings_spec [OF assms] by blast
  have img: "w_image (mw_writer s') = w_image ?w @ X" by (rule growsD(7) [OF appendsD(1) [OF r(2)]])
  have pos: "length (w_image ?w) = unat (w_position ?w)" using assms(1,2) by simp
  have n: "length mds = n" using modules_laid_length [OF r(4)] assms(3) by simp
  have "unat (of_nat (4 + n * 108) :: u32) = 4 + n * 108" using assms(5) by (intro unat_of_nat_small32) simp
  then have "file_bytes (w_image (mw_writer s')) ?l = take (4 + n * 108) X" by (simp only: file_bytes_def img) (simp add: pos)
  then have "read_list read_module 108 (file_bytes (w_image (mw_writer s')) ?l) = Some mds"
    using read_list_concat [of mds module_bytes 108 read_module] n assms(5) by (simp only: r(3)) simp
  moreover have "modules_laid (mw_dumper s) 0 (w_image (mw_writer s')) (module_sources s) mds"
    using modules_laid_prepend [of "mw_dumper s" 0 "w_image ?w" X] r(4) unfolding img by (simp add: pos)
  moreover have "take (unat (w_position ?w)) (w_image (mw_writer s')) = w_image ?w" unfolding img by (simp add: pos)
  moreover have "stream_type ''MD_MODULE_LIST_STREAM'' = 4" by (simp add: stream_type_def MDStreamType_def)
  ultimately show ?thesis using r(1) appendsD(5) [OF r(2)] by auto
qed

definition sample_module :: mapping_info where
  "sample_module = (sample_mapping 0x40000 0x42000 True)\<lparr>mi_name := [47, 97] @ replicate (NAME_MAX - 2) 0\<rparr>"

theorem WriteMappings_correct_witness:
  "\<exists>dirent s' md. WriteMappings (sample_mw\<lparr>mw_mapping_list := [(sample_module, replicate 16 9)]\<rparr>) = Some (True, dirent, s') \<and>
     read_list read_module 108 (file_bytes (w_image (mw_writer s')) (rd_location dirent)) = Some [md] \<and> rm_base md = 0x40000 \<and>
     rm_size md = 0x2000 \<and> lies_in 0 (w_image (mw_writer s')) (rm_cv md) (store_int 4 MD_CVINFOELF_SIGNATURE @ replicate 16 9)"
proof -
  let ?s = "sample_mw\<lparr>mw_mapping_list := [(sample_module, replicate 16 9)]\<rparr>" and ?src = "(sample_module, False, 0, Some (replicate 16 9))"
  have src: "module_sources ?s = [?src]"
    by (simp add: module_sources_def dumper_sources_def ShouldIncludeMapping_def sample_dumper_def sample_mapping_def NAME_MAX_def)
  have id: "module_ident sample_dumper ?src = (replicate 16 9, sample_module)"
    by (simp add: module_ident_def sizeof_MDGUID_def)
  have so: "d_so_name sample_dumper m b = (False, b)" for m b by (simp add: sample_dumper_def)
  have ad: "mi_start_addr sample_module = 0x40000" "mi_size sample_module = 0x2000" by (simp_all add: sample_module_def sample_mapping_def)
  have nm: "mi_name sample_module = 47 # 97 # replicate 253 0" by (simp add: sample_module_def NAME_MAX_def)
  have "utf8_units 47 = [47]" "utf8_units 97 = [97]" by code_simp+
  then have "bmp_text [47, 97] (module_path sample_dumper ?src)"
    by (simp add: bmp_text_def module_path_def id so nm effective_path_def cstr_def NAME_MAX_def scalar_def)
  then have "module_ok sample_dumper ?src"
    by (auto simp: module_ok_def id so nm nul_terminated_def NAME_MAX_def)
  then obtain dirent s' mds where r: "WriteMappings ?s = Some (True, dirent, s')"
    "read_list read_module 108 (file_bytes (w_image (mw_writer s')) (rd_location dirent)) = Some mds"
    "modules_laid sample_dumper 0 (w_image (mw_writer s')) [?src] mds"
    using WriteMappings_correct [of ?s 1] sample_mw_writer src by auto
  then obtain md where md: "mds = [md]" "module_laid sample_dumper 0 (w_image (mw_writer s')) ?src md" by (auto split: list.splits)
  have "rm_base md = 0x40000 \<and> rm_size md = 0x2000 \<and> lies_in 0 (w_image (mw_writer s')) (rm_cv md) (store_int 4 MD_CVINFOELF_SIGNATURE @ replicate 16 9)"
    using md(2) ad by (simp add: module_laid_def id)
  then show ?thesis using r(1,2) md(1) by blast
qed

end
