(* ===== verification/Minidump_Dump.thy ===== *)
theory Minidump_Dump
  imports Minidump_Writer Cpu_Info
begin

text \<open>
  The rest of \<^verbatim>\<open>client/linux/minidump_writer/minidump_writer.cc\<close>: the streams with copies of files, the system and the shared objects, and
  \<open>Dump\<close>, which writes all of them.
\<close>

section \<open>Files\<close>

definition kBufSize :: nat where "kBufSize = 1024 - 2 * 8"

text \<open>
  The chain of buffers a file is read into, full ones and the last; \<open>sys_read\<close> is repeated while it is interrupted. Fuel bounds the number of reads.
\<close>

fun read_buffers :: "'f read_call \<Rightarrow> nat \<Rightarrow> 'f \<Rightarrow> bytes list \<Rightarrow> bytes \<Rightarrow> bytes list option" where
  "read_buffers sys_read 0 f full bufptr = None"
| "read_buffers sys_read (Suc fuel) f full bufptr =
     (case sys_read f (kBufSize - length bufptr) of
        (None, f') \<Rightarrow> Some (full @ [bufptr])
      | (Some bs, f') \<Rightarrow>
          if bs = [] then Some (full @ [bufptr])
          else if length (bufptr @ bs) = kBufSize then read_buffers sys_read fuel f' (full @ [bufptr @ bs]) []
          else read_buffers sys_read fuel f' full (bufptr @ bs))"

fun copy_buffers :: "u32 \<Rightarrow> bytes list \<Rightarrow> writer \<Rightarrow> writer" where
  "copy_buffers pos [] w = w"
| "copy_buffers pos (b # bs) w =
     (if b = [] then copy_buffers pos bs w else copy_buffers (pos + of_nat (length b)) bs (snd (Copy pos b w)))"

definition WriteFile :: "nat \<Rightarrow> bytes \<Rightarrow> 'f minidump_writer \<Rightarrow> (location option \<times> 'f minidump_writer) option" where
  "WriteFile fuel filename s =
     (case d_open (mw_dumper s) filename of
        None \<Rightarrow> Some (None, s)
      | Some f \<Rightarrow>
          do {
            buffers \<leftarrow> read_buffers (d_read (mw_dumper s)) fuel f [] [];
            let total = sum_list (map length buffers);
            if total = 0 then Some (None, s)
            else
              let (ok, memory, w1) = Untyped_Allocate (mw_pagesize s) (of_nat total) (mw_writer s)
              in if \<not> ok then Some (None, set_writer w1 s)
                 else Some (Some (location_of memory), set_writer (copy_buffers (m_position memory) buffers w1) s)
          })"

definition WriteProcFile :: "nat \<Rightarrow> u32 \<Rightarrow> bytes \<Rightarrow> 'f minidump_writer \<Rightarrow> (location option \<times> 'f minidump_writer) option" where
  "WriteProcFile fuel pid filename s =
     do {
       (built, buf) \<leftarrow> BuildProcPath (replicate NAME_MAX 0) (sint pid) filename;
       if \<not> built then Some (None, s) else WriteFile fuel (cstr buf) s
     }"

text \<open>A stream with a file: a directory entry of zeros when the file cannot be written.\<close>

definition null_dirent :: raw_dir where
  "null_dirent = \<lparr>rd_type = 0, rd_location = no_location\<rparr>"

definition file_dirent :: "nat \<Rightarrow> location option \<Rightarrow> raw_dir" where
  "file_dirent t l = (case l of None \<Rightarrow> null_dirent | Some loc \<Rightarrow> \<lparr>rd_type = t, rd_location = loc\<rparr>)"

section \<open>The system\<close>

definition sys_info_bytes :: "sys_info \<Rightarrow> bytes" where
  "sys_info_bytes si =
     store_int 2 (si_processor_architecture si) @ store_int 2 (si_processor_level si) @ store_int 2 (si_processor_revision si) @
     store_int 1 (si_number_of_processors si) @ replicate 13 0 @ store_int 4 (si_platform_id si) @ store_int 4 (si_csd_version_rva si) @
     replicate 4 0 @ store_int 4 (si_cpuid si) @ store_int 4 (si_elf_hwcaps si) @ replicate 16 0"

definition sizeof_MDRawSystemInfo :: nat where "sizeof_MDRawSystemInfo = 56"

definition zero_sys_info :: sys_info where
  "zero_sys_info = \<lparr>si_processor_architecture = 0, si_processor_level = 0, si_processor_revision = 0, si_number_of_processors = 0,
     si_platform_id = 0, si_csd_version_rva = 0, si_cpuid = 0, si_elf_hwcaps = 0\<rparr>"

definition uts_buf_len :: nat where "uts_buf_len = 512"

text \<open>The text about the system: the parts of \<open>uname\<close> that fit, with spaces between them.\<close>

fun join_info :: "bytes list \<Rightarrow> bool \<Rightarrow> nat \<Rightarrow> bytes \<Rightarrow> bytes option" where
  "join_info [] first_item space_left buf = Some buf"
| "join_info (info # infos) first_item space_left buf =
     do {
       info_len \<leftarrow> my_strlen info;
       if info_len = 0 then join_info infos first_item space_left buf
       else if space_left < info_len + (if first_item then 0 else 1) then Some buf
       else do {
         buf \<leftarrow> (if first_item then Some buf else map_option fst (my_strlcat buf [32, 0] uts_buf_len));
         buf \<leftarrow> map_option fst (my_strlcat buf info uts_buf_len);
         join_info infos False (space_left - (if first_item then 0 else 1) - info_len) buf
       }
     }"

definition MD_OS_ANDROID_id :: u32 where
  "MD_OS_ANDROID_id = of_nat (the (map_of MDOSPlatform ''MD_OS_ANDROID''))"

text \<open>\<open>uname\<close> gives the four strings in the order of the table, \<open>None\<close> for an error.\<close>

definition WriteOSInformation :: "bytes list option \<Rightarrow> sys_info \<Rightarrow> 'f minidump_writer \<Rightarrow> (bool \<times> sys_info \<times> 'f minidump_writer) option" where
  "WriteOSInformation uname si s =
     (let si = si\<lparr>si_platform_id := MD_OS_ANDROID_id\<rparr>
      in case uname of
           None \<Rightarrow> Some (False, si, s)
         | Some info_table \<Rightarrow>
             do {
               buf \<leftarrow> join_info info_table True (uts_buf_len - 1) (replicate uts_buf_len 0);
               let (ld, w1) = WriteString (mw_pagesize s) (cstr buf) 0 (mw_writer s);
               (case ld of
                  None \<Rightarrow> Some (False, si, set_writer w1 s)
                | Some l \<Rightarrow> Some (True, si\<lparr>si_csd_version_rva := l_rva l\<rparr>, set_writer w1 s))
             })"

text \<open>
  What the writer is given besides the object: the time, the signedness of \<open>char\<close>, the contents of uninitialised memory, what the two files of sysfs and \<open>uname\<close>
  give, the padding of a structure on the stack, and fuel.
\<close>

record dump_inputs =
  e_time :: u32
  e_signed_char :: bool
  e_garbage :: bytes
  e_present :: "bytes option option"
  e_possible :: "bytes option option"
  e_uname :: "bytes list option"
  e_pad :: bytes
  e_fuel :: nat

definition cpu_information :: "dump_inputs \<Rightarrow> 'f minidump_writer \<Rightarrow> sys_info option" where
  "cpu_information e s =
     WriteCPUInformation False (e_signed_char e) (e_garbage e) (e_present e) (e_possible e) (d_read (mw_dumper s)) (e_fuel e)
       (d_open (mw_dumper s) (chars ''/proc/cpuinfo'')) zero_sys_info"

definition WriteSystemInfoStream :: "dump_inputs \<Rightarrow> 'f minidump_writer \<Rightarrow> (bool \<times> raw_dir \<times> 'f minidump_writer) option" where
  "WriteSystemInfoStream e s =
     (let (ok, si, w1) = Typed_Allocate (mw_pagesize s) sizeof_MDRawSystemInfo 0 (mw_writer s);
          dirent = \<lparr>rd_type = stream_type ''MD_SYSTEM_INFO_STREAM'', rd_location = location_of si\<rparr>
      in if \<not> ok then Some (False, dirent, set_writer (snd (Flush si (replicate sizeof_MDRawSystemInfo 0) w1)) s)
         else do {
           info \<leftarrow> cpu_information e (set_writer w1 s);
           (_, info, s1) \<leftarrow> WriteOSInformation (e_uname e) info (set_writer w1 s);
           Some (True, dirent, set_writer (snd (Flush si (sys_info_bytes info) (mw_writer s1))) s1)
         })"

section \<open>Shared objects\<close>

definition AT_PHDR :: nat where "AT_PHDR = 3"
definition AT_PHNUM :: nat where "AT_PHNUM = 5"
definition DT_NULL :: u64 where "DT_NULL = 0"
definition DT_DEBUG :: u64 where "DT_DEBUG = 21"

text \<open>Members of a structure read from the process: \<open>k\<close> bytes at an offset.\<close>

definition field_at :: "nat \<Rightarrow> nat \<Rightarrow> bytes \<Rightarrow> u64" where
  "field_at off k bs = of_nat (le_nat (take k (drop off bs)))"

definition copy_struct :: "'f minidump_writer \<Rightarrow> u64 \<Rightarrow> nat \<Rightarrow> bytes option" where
  "copy_struct s addr n = (case d_copy (mw_dumper s) (GetCrashThread s) addr n of (ok, bs) \<Rightarrow> if ok then Some bs else None)"

text \<open>
  The program headers, from \<open>phnum\<close> down to 0 inclusive: the base and the address of the dynamic segment. The outer \<open>None\<close> is the result \<open>false\<close>.
\<close>

fun scan_phdrs :: "'f minidump_writer \<Rightarrow> nat \<Rightarrow> u64 \<Rightarrow> u64 \<Rightarrow> u64 \<Rightarrow> (u64 \<times> u64) option" where
  "scan_phdrs s phnum phdr base dyn_addr =
     do {
       ph \<leftarrow> copy_struct s phdr 56;
       let ty = field_at 0 4 ph;
       let off = field_at 8 8 ph;
       let va = field_at 16 8 ph;
       let base = (if ty = ucast PT_LOAD \<and> off = 0 then base - va else base);
       let dyn_addr = (if ty = ucast PT_DYNAMIC then va else dyn_addr);
       (case phnum of
          0 \<Rightarrow> Some (base, dyn_addr)
        | Suc n \<Rightarrow> scan_phdrs s n (phdr + sizeof_Phdr) base dyn_addr)
     }"

declare scan_phdrs.simps [simp del]

text \<open>The dynamic section up to \<open>DT_NULL\<close>, with fuel: the address for debuggers and the length. \<open>Some None\<close> is the result \<open>false\<close>.\<close>

fun scan_dynamic :: "'f minidump_writer \<Rightarrow> nat \<Rightarrow> u64 \<Rightarrow> nat \<Rightarrow> u64 \<Rightarrow> u32 \<Rightarrow> (u64 \<times> u32) option option" where
  "scan_dynamic s 0 dynamic i r_debug len = None"
| "scan_dynamic s (Suc fuel) dynamic i r_debug len =
     (case copy_struct s (dynamic + of_nat (16 * i)) 16 of
        None \<Rightarrow> Some None
      | Some dyn \<Rightarrow>
          if field_at 0 8 dyn = DT_DEBUG then scan_dynamic s fuel dynamic (i + 1) (field_at 8 8 dyn) (len + 16)
          else if field_at 0 8 dyn = DT_NULL then Some (Some (r_debug, len + 16))
          else scan_dynamic s fuel dynamic (i + 1) r_debug (len + 16))"

text \<open>The list of shared objects in the process, with fuel: the copies of its nodes.\<close>

fun link_maps :: "'f minidump_writer \<Rightarrow> nat \<Rightarrow> u64 \<Rightarrow> bytes list option option" where
  "link_maps s 0 ptr = None"
| "link_maps s (Suc fuel) ptr =
     (if ptr = 0 then Some (Some [])
      else
        (case copy_struct s ptr 40 of
           None \<Rightarrow> Some None
         | Some m \<Rightarrow>
             (case link_maps s fuel (field_at 24 8 m) of
                None \<Rightarrow> None
              | Some None \<Rightarrow> Some None
              | Some (Some ms) \<Rightarrow> Some (Some (m # ms)))))"

text \<open>\<open>pad\<close> is what the stack holds in the padding of \<open>MDRawLinkMap64\<close>, which is written with it.\<close>

definition link_map_bytes :: "u64 \<Rightarrow> u32 \<Rightarrow> bytes \<Rightarrow> u64 \<Rightarrow> bytes" where
  "link_map_bytes addr name pad ld = store_int 8 addr @ store_int 4 name @ pad @ store_int 8 ld"

definition sizeof_MDRawLinkMap :: nat where "sizeof_MDRawLinkMap = 24"

fun write_link_maps :: "bytes \<Rightarrow> mdrva \<Rightarrow> nat \<Rightarrow> bytes list \<Rightarrow> 'f minidump_writer \<Rightarrow> bool \<times> 'f minidump_writer" where
  "write_link_maps pad lst i [] s = (True, s)"
| "write_link_maps pad lst i (m # ms) s =
     (let l_name = field_at 8 8 m;
          filename = (if l_name \<noteq> 0 then snd (d_copy (mw_dumper s) (GetCrashThread s) l_name 256) else replicate 256 0) @ [0];
          (ld, w1) = WriteString (mw_pagesize s) (cstr filename) 0 (mw_writer s)
      in case ld of
           None \<Rightarrow> (False, set_writer w1 s)
         | Some l \<Rightarrow>
             write_link_maps pad lst (i + 1) ms
               (set_writer (snd (CopyIndex sizeof_MDRawLinkMap lst (of_nat i)
                  (link_map_bytes (field_at 0 8 m) (l_rva l) pad (field_at 16 8 m)) w1)) s))"

definition sizeof_MDRawDebug :: nat where "sizeof_MDRawDebug = 40"

definition raw_debug_bytes :: "u32 \<Rightarrow> u32 \<Rightarrow> nat \<Rightarrow> u64 \<Rightarrow> u64 \<Rightarrow> u64 \<Rightarrow> bytes" where
  "raw_debug_bytes version linkmap_rva dso_count brk ldbase dynamic =
     store_int 4 version @ store_int 4 linkmap_rva @ le_int 4 dso_count @ replicate 4 0 @ store_int 8 brk @ store_int 8 ldbase @ store_int 8 dynamic"

definition write_debug ::
  "bytes \<Rightarrow> u32 \<Rightarrow> nat \<Rightarrow> u64 \<Rightarrow> u32 \<Rightarrow> 'f minidump_writer \<Rightarrow> location option \<times> 'f minidump_writer" where
  "write_debug debug_entry linkmap_rva dso_count dynamic dynamic_length s =
     (let (ok, debug, w1) = AllocateObjectAndArray (mw_pagesize s) sizeof_MDRawDebug 1 (ucast dynamic_length) (mw_writer s)
      in if \<not> ok then (None, set_writer (snd (Flush debug (replicate sizeof_MDRawDebug 0) w1)) s)
         else
           let data = raw_debug_bytes (ucast (field_at 0 4 debug_entry)) linkmap_rva dso_count (field_at 16 8 debug_entry)
                 (field_at 32 8 debug_entry) dynamic;
               dso_debug_data = snd (d_copy (mw_dumper s) (GetCrashThread s) dynamic (unat dynamic_length));
               w2 = snd (CopyIndexAfterObject sizeof_MDRawDebug debug 0 dso_debug_data w1)
           in (Some (location_of debug), set_writer (snd (Flush debug data w2)) s))"

text \<open>
  What is read of the process for the stream: the structure for debuggers, the dynamic section and its length, and the list of shared objects. \<open>Some None\<close> is the
  result \<open>false\<close> of the stream, \<open>None\<close> a loop that does not end.
\<close>

definition debug_info :: "nat \<Rightarrow> 'f minidump_writer \<Rightarrow> (bytes \<times> u64 \<times> u32 \<times> bytes list) option option" where
  "debug_info fuel s =
     (let phdr = d_auxv (mw_dumper s) ! AT_PHDR; phnum = d_auxv (mw_dumper s) ! AT_PHNUM
      in if sint (ucast phnum :: u32) = 0 \<or> phdr = 0 \<or> sint (ucast phnum :: u32) < 0 then Some None
         else
           (case scan_phdrs s (nat (sint (ucast phnum :: u32))) phdr (phdr AND NOT 0xfff) 0 of
              None \<Rightarrow> Some None
            | Some (base, dyn_addr) \<Rightarrow>
                if dyn_addr = 0 then Some None
                else
                  let dynamic = dyn_addr + base
                  in do {
                    scanned \<leftarrow> scan_dynamic s fuel dynamic 0 0 0;
                    (case scanned of
                       None \<Rightarrow> Some None
                     | Some (r_debug, dynamic_length) \<Rightarrow>
                         (case copy_struct s r_debug 40 of
                            None \<Rightarrow> Some None
                          | Some debug_entry \<Rightarrow>
                              map_option (map_option (\<lambda>ms. (debug_entry, dynamic, dynamic_length, ms)))
                                (link_maps s fuel (field_at 8 8 debug_entry))))
                  }))"

text \<open>The array of shared objects, when there is one, and the record.\<close>

definition write_dso :: "bytes \<Rightarrow> bytes \<times> u64 \<times> u32 \<times> bytes list \<Rightarrow> 'f minidump_writer \<Rightarrow> location option \<times> 'f minidump_writer" where
  "write_dso pad info s =
     (let (debug_entry, dynamic, dynamic_length, ms) = info
      in if ms = [] then write_debug debug_entry kInvalidMDRVA 0 dynamic dynamic_length s
         else
           let (ok, lst, w1) = AllocateArray (mw_pagesize s) sizeof_MDRawLinkMap (of_nat (length ms)) (mw_writer s)
           in if \<not> ok then (None, set_writer w1 s)
              else
                let (ok, s1) = write_link_maps pad lst 0 ms (set_writer w1 s)
                in if \<not> ok then (None, s1)
                   else write_debug debug_entry (l_rva (location_of lst)) (length ms) dynamic dynamic_length s1)"

definition WriteDSODebugStream :: "nat \<Rightarrow> bytes \<Rightarrow> 'f minidump_writer \<Rightarrow> (location option \<times> 'f minidump_writer) option" where
  "WriteDSODebugStream fuel pad s =
     do {
       found \<leftarrow> debug_info fuel s;
       Some (case found of None \<Rightarrow> (None, s) | Some info \<Rightarrow> write_dso pad info s)
     }"

section \<open>The dump\<close>

definition kNumWriters :: nat where "kNumWriters = 13"
definition sizeof_MDRawDirectory :: nat where "sizeof_MDRawDirectory = 12"
definition sizeof_MDRawHeader :: nat where "sizeof_MDRawHeader = 32"

definition header_bytes :: "u32 \<Rightarrow> u32 \<Rightarrow> bytes" where
  "header_bytes time dir_rva =
     store_int 4 MD_HEADER_SIGNATURE @ store_int 4 MD_HEADER_VERSION @ le_int 4 kNumWriters @ store_int 4 dir_rva @ replicate 4 0 @
     store_int 4 time @ replicate 8 0"

definition put_dirent :: "mdrva \<Rightarrow> nat \<Rightarrow> raw_dir \<Rightarrow> 'f minidump_writer \<Rightarrow> 'f minidump_writer" where
  "put_dirent dir i dirent s = set_writer (snd (CopyIndex sizeof_MDRawDirectory dir (of_nat i) (dir_bytes dirent) (mw_writer s))) s"

text \<open>The streams with files and the shared objects: a failure gives an entry of zeros.\<close>

datatype optional_stream = File_Stream string | Proc_Stream string | DSO_Stream

definition optional_streams :: "(string \<times> optional_stream) list" where
  "optional_streams =
     [(''MD_LINUX_CPU_INFO'', File_Stream ''/proc/cpuinfo''), (''MD_LINUX_PROC_STATUS'', Proc_Stream ''status''),
      (''MD_LINUX_LSB_RELEASE'', File_Stream ''/etc/lsb-release''), (''MD_LINUX_CMD_LINE'', Proc_Stream ''cmdline''),
      (''MD_LINUX_ENVIRON'', Proc_Stream ''environ''), (''MD_LINUX_AUXV'', Proc_Stream ''auxv''), (''MD_LINUX_MAPS'', Proc_Stream ''maps''),
      (''MD_LINUX_DSO_DEBUG'', DSO_Stream)]"

fun write_optional :: "dump_inputs \<Rightarrow> optional_stream \<Rightarrow> 'f minidump_writer \<Rightarrow> (location option \<times> 'f minidump_writer) option" where
  "write_optional e (File_Stream p) s = WriteFile (e_fuel e) (chars p) s"
| "write_optional e (Proc_Stream p) s = WriteProcFile (e_fuel e) (GetCrashThread s) (chars p @ [0]) s"
| "write_optional e DSO_Stream s = WriteDSODebugStream (e_fuel e) (e_pad e) s"

fun write_optionals :: "dump_inputs \<Rightarrow> mdrva \<Rightarrow> nat \<Rightarrow> (string \<times> optional_stream) list \<Rightarrow> 'f minidump_writer \<Rightarrow> 'f minidump_writer option" where
  "write_optionals e dir i [] s = Some s"
| "write_optionals e dir i ((t, st) # sts) s =
     do {
       (l, s) \<leftarrow> write_optional e st s;
       write_optionals e dir (i + 1) sts (put_dirent dir i (file_dirent (stream_type t) l) s)
     }"

definition write_streams :: "dump_inputs \<Rightarrow> mdrva \<Rightarrow> 'f minidump_writer \<Rightarrow> 'f mw_result" where
  "write_streams e dir s =
     do {
       (ok, dirent, s) \<leftarrow> WriteThreadListStream s;
       if \<not> ok then Some (False, s) else do {
         let s = put_dirent dir 0 dirent s;
         (ok, dirent, s) \<leftarrow> WriteMappings s;
         if \<not> ok then Some (False, s) else do {
           let s = put_dirent dir 1 dirent s;
           let (ok, s) = WriteAppMemory s;
           if \<not> ok then Some (False, s) else do {
             let (ok, dirent, s) = WriteMemoryListStream s;
             if \<not> ok then Some (False, s) else do {
               let s = put_dirent dir 2 dirent s;
               (ok, dirent, s) \<leftarrow> WriteExceptionStream s;
               if \<not> ok then Some (False, s) else do {
                 let s = put_dirent dir 3 dirent s;
                 (ok, dirent, s) \<leftarrow> WriteSystemInfoStream e s;
                 if \<not> ok then Some (False, s) else do {
                   s \<leftarrow> write_optionals e dir 5 optional_streams (put_dirent dir 4 dirent s);
                   Some (True, s)
                 }
               }
             }
           }
         }
       }
     }"

text \<open>
  \<open>Dump\<close>: the header is written as soon as the directory is allocated. The threads are resumed by the dumper afterwards
  (\<open>ThreadsResume\<close>), which does not touch the file.
\<close>

definition Dump :: "dump_inputs \<Rightarrow> 'f minidump_writer \<Rightarrow> 'f mw_result" where
  "Dump e s =
     (let w0 = mw_writer s;
          (ok, header, w1) = Typed_Allocate (mw_pagesize s) sizeof_MDRawHeader 0 w0
      in if \<not> ok then
           Some (False, set_writer (snd (Copy (w_position w0) (replicate sizeof_MDRawDirectory 0)
             (snd (Flush header (replicate sizeof_MDRawHeader 0) w1)))) s)
         else
           let (ok, dir, w2) = AllocateArray (mw_pagesize s) sizeof_MDRawDirectory (of_nat kNumWriters) w1
           in if \<not> ok then Some (False, set_writer (snd (Flush header (replicate sizeof_MDRawHeader 0) w2)) s)
              else write_streams e dir (set_writer (snd (Flush header (header_bytes (e_time e) (m_position dir)) w2)) s))"

text \<open>
  \<open>Init\<close>: \<open>suspended\<close> and \<open>late\<close> are what \<open>ThreadsSuspend\<close> and \<open>LateInit\<close> of the dumper return after its own \<open>Init\<close>, \<open>fd\<close> the descriptor given
  to the constructor and \<open>opened\<close> the one that \<open>open\<close> returns.
\<close>

definition Init :: "bool \<Rightarrow> bool \<Rightarrow> bool \<Rightarrow> int \<Rightarrow> int \<Rightarrow> 'f minidump_writer \<Rightarrow> bool \<times> 'f minidump_writer" where
  "Init dumper_init suspended late fd opened s =
     (if \<not> dumper_init then (False, s)
      else if \<not> suspended \<or> \<not> late then (False, s)
      else
        let s1 = (if mw_skip_stacks s
                  then s\<lparr>mw_principal_mapping := FindMappingNoBias (d_mappings (mw_dumper s)) (mw_principal_mapping_address s)\<rparr> else s)
        in if mw_skip_stacks s \<and> \<not> CrashingThreadReferencesPrincipalMapping s1 then (False, s1)
           else if fd \<noteq> -1 then (True, set_writer (SetFile fd (mw_writer s1)) s1)
           else let (ok, w) = Open opened (mw_writer s1) in (ok, set_writer w s1))"

text \<open>
  A run: \<open>Init\<close>, then \<open>Dump\<close>, and the destructor on every way out, which closes a file that the writer opened itself. \<open>blob_size\<close> is the
  size of the context given by the crashed process, if there is one, and \<open>ctx_size\<close> that of \<open>CrashContext\<close>.
\<close>

definition destroy :: "int \<Rightarrow> 'f minidump_writer \<Rightarrow> 'f minidump_writer" where
  "destroy fd s = (if fd = -1 then set_writer (snd (Close (mw_writer s))) s else s)"

definition run_writer :: "bool \<Rightarrow> bool \<Rightarrow> bool \<Rightarrow> int \<Rightarrow> int \<Rightarrow> dump_inputs \<Rightarrow> 'f minidump_writer \<Rightarrow> 'f mw_result" where
  "run_writer dumper_init suspended late fd opened e s =
     (let (ok, s1) = Init dumper_init suspended late fd opened s
      in if \<not> ok then Some (False, destroy fd s1)
         else do {
           (ok, s2) \<leftarrow> Dump e s1;
           Some (ok, destroy fd s2)
         })"

definition WriteMinidumpImpl ::
  "nat \<Rightarrow> nat option \<Rightarrow> bool \<Rightarrow> bool \<Rightarrow> bool \<Rightarrow> int \<Rightarrow> int \<Rightarrow> dump_inputs \<Rightarrow> 'f minidump_writer \<Rightarrow> 'f mw_result" where
  "WriteMinidumpImpl ctx_size blob_size dumper_init suspended late fd opened e s =
     (if blob_size \<noteq> None \<and> blob_size \<noteq> Some ctx_size then Some (False, s)
      else run_writer dumper_init suspended late fd opened e s)"

section \<open>Copies of files\<close>

text \<open>The chain of buffers holds the file, or what was read of it before an error.\<close>

lemma read_buffers_spec:
  assumes "read_contract sys_read content" and "length (content f) < fuel" and "length bufptr < kBufSize"
  shows "\<exists>bs rest. read_buffers sys_read fuel f full bufptr = Some bs \<and> concat full @ bufptr @ content f = concat bs @ rest \<and>
    (read_never_fails sys_read \<longrightarrow> rest = [])"
  using assms(2,3)
proof (induction fuel arbitrary: f full bufptr)
  case (Suc fuel)
  obtain r f' where r: "sys_read f (kBufSize - length bufptr) = (r, f')" by (cases "sys_read f (kBufSize - length bufptr)")
  show ?case
  proof (cases r)
    case None
    then have "\<not> read_never_fails sys_read" using r unfolding read_never_fails_def by (metis fst_conv)
    then show ?thesis using r None by simp
  next
    case (Some bs)
    have c: "length bs \<le> kBufSize - length bufptr" "content f = bs @ content f'" "bs = [] \<Longrightarrow> content f = []"
      using assms(1) r Some Suc.prems(2) unfolding read_contract_def by (metis zero_less_diff)+
    show ?thesis
    proof (cases "bs = []")
      case True
      then show ?thesis using r Some c by simp
    next
      case False
      then have lt: "length (content f') < fuel" using Suc.prems(1) c(2) by (cases bs) auto
      show ?thesis
      proof (cases "length (bufptr @ bs) = kBufSize")
        case True
        then show ?thesis
          using r Some False c(2) Suc.IH [OF lt, of "[]" "full @ [bufptr @ bs]"] by (simp add: kBufSize_def)
      next
        case neq: False
        then have "length (bufptr @ bs) < kBufSize" using c(1) Suc.prems(2) by simp
        from Suc.IH [OF lt this, of full] show ?thesis using r Some False neq c(2) by simp
      qed
    qed
  qed
qed simp

lemma copy_buffers_spec:
  assumes "winv pg w" and "calm w" and "unat pos + length (concat bs) \<le> unat (w_position w)"
  shows "winv pg (copy_buffers pos bs w) \<and> calm (copy_buffers pos bs w) \<and> same_mode w (copy_buffers pos bs w) \<and>
    w_position (copy_buffers pos bs w) = w_position w \<and> w_image (copy_buffers pos bs w) = blit (w_image w) (unat pos) (concat bs)"
  using assms
proof (induction pos bs w rule: copy_buffers.induct)
  case (1 pos w)
  then show ?case by (simp add: same_mode_def blit_def)
next
  case (2 pos b bs w)
  show ?case
  proof (cases "b = []")
    case True
    then show ?thesis using 2 by simp
  next
    case False
    have lt: "unat pos + length b + length (concat bs) \<le> unat (w_position w)" using "2.prems"(3) by simp
    have "unat (w_position w) < 2 ^ 32" using unsigned_less [of "w_position w", where ?'a = nat] by simp
    then have u: "unat (of_nat (length b) :: u32) = length b" using lt by (intro unat_of_nat_small32) linarith
    have p: "unat (pos + of_nat (length b)) = unat pos + length b"
      using u lt \<open>unat (w_position w) < 2 ^ 32\<close> by (subst unat_add_small) simp_all
    have le: "unat pos + length b \<le> unat (w_position w)" using lt by simp
    obtain w1 where w1: "Copy pos b w = (True, w1)" "winv pg w1" "calm w1" "w_image w1 = blit (w_image w) (unat pos) b"
      "w_position w1 = w_position w" "same_mode w w1"
      using Copy_refines [OF "2.prems"(1,2) le] unfolding same_mode_def by blast
    have "blit (blit (w_image w) (unat pos) b) (unat pos + length b) (concat bs) = blit (w_image w) (unat pos) (b @ concat bs)"
      using lt by (intro blit_blit) simp
    then show ?thesis
      using "2.IH"(2) [OF False] w1 p lt False same_mode_trans [OF w1(6)] by simp
  qed
qed

text \<open>A file is copied to the end of the dump.\<close>

lemma WriteFile_spec:
  assumes "winv (mw_pagesize s) (mw_writer s)" and "calm (mw_writer s)" and "d_open (mw_dumper s) name = Some f"
    and "read_contract (d_read (mw_dumper s)) content" and "length (content f) < fuel"
    and "unat (w_position (mw_writer s)) + length (content f) + 7 < 2 ^ 32"
  shows "\<exists>l s' X bs rest. WriteFile fuel name s = Some (l, s') \<and> writes s s' X [] \<and> length X \<le> length (content f) + 7 \<and>
    mw_dumper s' = mw_dumper s \<and> mw_crashing_thread_context s' = mw_crashing_thread_context s \<and>
    content f = bs @ rest \<and> (read_never_fails (d_read (mw_dumper s)) \<longrightarrow> rest = []) \<and>
    (case l of None \<Rightarrow> bs = [] \<and> X = [] | Some loc \<Rightarrow> bs \<noteq> [] \<and> lies_in (unat (w_position (mw_writer s))) X loc bs)"
proof -
  let ?w = "mw_writer s"
  obtain bs rest where bs: "read_buffers (d_read (mw_dumper s)) fuel f [] [] = Some bs" "content f = concat bs @ rest"
    "read_never_fails (d_read (mw_dumper s)) \<longrightarrow> rest = []"
    using read_buffers_spec [OF assms(4,5), of "[]" "[]"] by (auto simp: kBufSize_def)
  have tot: "sum_list (map length bs) = length (concat bs)" by (simp add: length_concat)
  show ?thesis
  proof (cases "concat bs = []")
    case True
    then have "WriteFile fuel name s = Some (None, s)" using bs(1) tot by (simp add: WriteFile_def assms(3))
    then show ?thesis using True bs(2,3) writes_refl [OF assms(1,2)] by fastforce
  next
    case False
    let ?n = "length (concat bs)" and ?m = "\<lparr>m_position = w_position ?w, m_size = of_nat (length (concat bs))\<rparr>"
    have n: "unat (w_position ?w) + ?n + 7 < 2 ^ 32" using assms(6) bs(2) by simp
    have u: "unat (of_nat ?n :: u64) = ?n" using n by (intro unat_of_nat_small) simp
    have al: "unat (w_position ?w) + alloc_size ?w ?n < 2 ^ 32" using alloc_size_le [of ?w ?n] n by linarith
    obtain w1 where w1: "Untyped_Allocate (mw_pagesize s) (of_nat ?n) ?w = (True, ?m, w1)" "winv (mw_pagesize s) w1" "calm w1" "same_mode ?w w1"
      "w_image w1 = w_image ?w @ replicate (alloc_size ?w ?n) 0" "unat (w_position w1) = unat (w_position ?w) + alloc_size ?w ?n"
      using Untyped_Allocate_refines [OF assms(1,2) u _ al] False by auto
    let ?w2 = "copy_buffers (w_position ?w) bs w1"
    have c: "winv (mw_pagesize s) ?w2" "calm ?w2" "same_mode w1 ?w2" "w_image ?w2 = blit (w_image w1) (unat (w_position ?w)) (concat bs)"
      using copy_buffers_spec [OF w1(2,3), of "w_position ?w" bs] w1(6) alloc_size_ge [of ?n ?w] by auto
    have "blit (w_image w1) (unat (w_position ?w)) (concat bs) = w_image ?w @ padded ?w (concat bs)"
      using blit_append_zeros [OF alloc_size_ge, of "w_image ?w" ?w "concat bs" 0] by (simp add: w1(5) padded_def)
    then have "grows (mw_pagesize s) ?w ?w2 (padded ?w (concat bs))"
      using c same_mode_trans [OF w1(4)] by (simp add: grows_def)
    then have "writes s (set_writer ?w2 s) (padded ?w (concat bs)) []" by (simp add: writes_def)
    moreover have "WriteFile fuel name s = Some (Some (location_of ?m), set_writer ?w2 s)"
      using bs(1) w1(1) tot False by (simp add: WriteFile_def assms(3))
    moreover have "lies_in (unat (w_position ?w)) (padded ?w (concat bs)) (location_of ?m) (concat bs)"
      using lies_in_here [of "concat bs" "w_position ?w"] n by (simp add: padded_def location_of_def ucast_of_nat_down)
    moreover have "length (padded ?w (concat bs)) \<le> length (content f) + 7" using alloc_size_le [of ?w ?n] bs(2) by simp
    ultimately show ?thesis using bs(2,3) False
      by (intro exI [of _ "Some (location_of ?m)"] exI [of _ "set_writer ?w2 s"] exI [of _ "padded ?w (concat bs)"] exI [of _ "concat bs"] exI [of _ rest]) simp
  qed
qed

end
