(* ===== verification/Dump_Streams.thy ===== *)
theory Dump_Streams
  imports Minidump_Dump Thread_List Module_List
begin

text \<open>
  The streams of Minidump_Dump and the dump as a whole: what each stream appends to the file, that the directory in front of them names
  them all, and that \<open>Dump\<close> ends with a file a reader of the format can follow from its header.
\<close>

section \<open>Objects\<close>

text \<open>An object that is allocated first and flushed at the end, after other data was appended.\<close>

lemma object_area:
  assumes "winv pg w" and "calm w" and "0 < n" and "unat (w_position w) + n + 7 < 2 ^ 32"
  shows "\<exists>m w1. Untyped_Allocate pg (of_nat n) w = (True, m, w1) \<and> location_of m = \<lparr>l_data_size = of_nat n, l_rva = w_position w\<rparr> \<and>
    m_position m = w_position w \<and> same_mode w w1 \<and> list_area pg w1 m (w_image w) (replicate (alloc_size w n) 0) []"
proof -
  have u: "unat (of_nat n :: u64) = n" using assms(4) by (intro unat_of_nat_small) simp
  have fits: "unat (w_position w) + alloc_size w n < 2 ^ 32" using alloc_size_le [of w n] assms(4) by linarith
  obtain w1 where "Untyped_Allocate pg (of_nat n) w = (True, \<lparr>m_position = w_position w, m_size = of_nat n\<rparr>, w1)"
    "winv pg w1" "calm w1" "same_mode w w1" "w_image w1 = w_image w @ replicate (alloc_size w n) 0"
    using Untyped_Allocate_refines [OF assms(1,2) u assms(3) fits] by blast
  then show ?thesis by (auto simp: list_area_def location_of_def ucast_of_nat_down)
qed

lemma finish_object:
  assumes la: "list_area pg w' m (w_image w) (replicate (alloc_size w n) 0) Z" and "length data = n" and mode: "same_mode w w'"
  shows "\<exists>w3. Flush m data w' = (True, w3) \<and> grows pg w w3 (padded w data @ Z)"
proof -
  have "length data \<le> length (replicate (alloc_size w n) 0 :: bytes)" using assms(2) alloc_size_ge [of n w] by simp
  from list_area_flush [OF la this] obtain w3 where w3: "Flush m data w' = (True, w3)" "same_mode w' w3"
    "list_area pg w3 m (w_image w) (blit (replicate (alloc_size w n) 0) 0 data) Z" by blast
  moreover have "blit (replicate (alloc_size w n) 0) 0 data = padded w data"
    using assms(2) alloc_size_ge [of n w] by (simp add: blit_def padded_def)
  ultimately show ?thesis using list_area_complete [of pg w3 m w "padded w data" Z] same_mode_trans [OF mode w3(2)] by auto
qed

section \<open>The exception\<close>

lemma exception_bytes_length: "exception_bytes s = Some data \<Longrightarrow> length data = 168"
  using length_concat_const [of 8 "map (store_int 8) (d_crash_exception_info (mw_dumper s))"]
  by (auto simp: exception_bytes_def Let_def MD_EXCEPTION_MAXIMUM_PARAMETERS_def list_all_iff split: if_splits)

lemma WriteExceptionStream_spec:
  assumes "winv (mw_pagesize s) (mw_writer s)" and "calm (mw_writer s)" and data: "exception_bytes s = Some data"
    and "unat (w_position (mw_writer s)) + 175 < 2 ^ 32"
  shows "\<exists>w' X. WriteExceptionStream s = Some (True, \<lparr>rd_type = 6, rd_location = \<lparr>l_data_size = 168, l_rva = w_position (mw_writer s)\<rparr>\<rparr>, set_writer w' s) \<and>
    grows (mw_pagesize s) (mw_writer s) w' X \<and> length X \<le> 175 \<and>
    lies_in (unat (w_position (mw_writer s))) X \<lparr>l_data_size = 168, l_rva = w_position (mw_writer s)\<rparr> data"
proof -
  let ?w = "mw_writer s"
  have len: "length data = 168" by (rule exception_bytes_length [OF data])
  have fits: "unat (w_position ?w) + 168 + 7 < 2 ^ 32" using assms(4) by simp
  obtain m w1 where w1: "Untyped_Allocate (mw_pagesize s) (of_nat 168) ?w = (True, m, w1)"
    "location_of m = \<lparr>l_data_size = of_nat 168, l_rva = w_position ?w\<rparr>" "same_mode ?w w1"
    "list_area (mw_pagesize s) w1 m (w_image ?w) (replicate (alloc_size ?w 168) 0) []"
    using object_area [OF assms(1,2) _ fits] by auto
  obtain w3 where w3: "Flush m data w1 = (True, w3)" "grows (mw_pagesize s) ?w w3 (padded ?w data @ [])"
    using finish_object [OF w1(4) len w1(3)] by blast
  have "WriteExceptionStream s = Some (True, \<lparr>rd_type = 6, rd_location = location_of m\<rparr>, set_writer w3 s)"
    using w1(1) w3(1) data by (simp add: WriteExceptionStream_def sizeof_MDRawExceptionStream_def Typed_Allocate_def)
  moreover have "lies_in (unat (w_position ?w)) (padded ?w data) \<lparr>l_data_size = 168, l_rva = w_position ?w\<rparr> data"
    using lies_in_here [of data "w_position ?w"] by (simp add: padded_def len)
  moreover have "length (padded ?w data) \<le> 175" using alloc_size_le [of ?w 168] by (simp add: len)
  ultimately show ?thesis using w3(2) w1(2) by (intro exI [of _ w3] exI [of _ "padded ?w data"]) simp
qed

section \<open>The system\<close>

lemma my_strlcat_append:
  assumes "nul_terminated s2" and "nul_terminated s1" and "length (cstr s1) + length (cstr s2) < length s1"
  shows "\<exists>d. my_strlcat s1 s2 (length s1) = Some (d, length (cstr s1) + length (cstr s2)) \<and> length d = length s1 \<and> nul_terminated d \<and>
    cstr d = cstr s1 @ cstr s2"
proof -
  have n: "length (cstr s1) \<noteq> length s1" using assms(3) by linarith
  have t: "take (length (cstr s1)) s1 = cstr s1" "0 \<notin> set (cstr s1)" "0 \<notin> set (cstr s2)"
    by (simp_all add: take_length_cstr zero_notin_cstr)
  have "length (cstr s1) + length (cstr s2) < length s1" by fact
  moreover have "take (length s1 - length (cstr s1) - 1) (cstr s2) = cstr s2" using assms(3) by simp
  ultimately show ?thesis
    using my_strlcat_eq [OF assms(1) order_refl, of s1] cstr_blit [of "length (cstr s1)" "cstr s2" s1] n t
    by (simp add: Let_def)
qed

lemma join_info_spec:
  assumes "list_all nul_terminated infos" and "length buf = uts_buf_len" and "nul_terminated buf" and "length (cstr buf) + space_left = uts_buf_len - 1"
  shows "\<exists>buf'. join_info infos first_item space_left buf = Some buf' \<and> length buf' = uts_buf_len \<and> nul_terminated buf' \<and>
    set (cstr buf') \<subseteq> set (cstr buf) \<union> {32} \<union> (\<Union>i\<in>set infos. set (cstr i))"
  using assms
proof (induction infos first_item space_left buf rule: join_info.induct)
  case (2 info infos first_item space_left buf)
  let ?n = "length (cstr info)" and ?sp = "if first_item then 0 else 1 :: nat"
  have info: "nul_terminated info" and rest: "list_all nul_terminated infos" using "2.prems"(1) by simp_all
  show ?case
  proof (cases "?n = 0 \<or> space_left < ?n + ?sp")
    case True
    then show ?thesis using "2.IH"(1) [of ?n] "2.prems" info rest by (fastforce simp: my_strlen_eq)
  next
    case False
    then have fits: "?n \<noteq> 0" "length (cstr buf) + ?sp + ?n < length buf" using "2.prems"(2,4) by (auto simp: uts_buf_len_def)
    obtain b1 where b1: "(if first_item then Some buf else map_option fst (my_strlcat buf [32, 0] uts_buf_len)) = Some b1"
      "length b1 = uts_buf_len" "nul_terminated b1" "cstr b1 = cstr buf @ (if first_item then [] else [32])"
      using my_strlcat_append [of "[32, 0]" buf] "2.prems"(2,3) fits by (cases first_item) auto
    obtain b2 where b2: "map_option fst (my_strlcat b1 info uts_buf_len) = Some b2" "length b2 = uts_buf_len" "nul_terminated b2"
      "cstr b2 = cstr b1 @ cstr info"
      using my_strlcat_append [OF info b1(3)] b1(2,4) "2.prems"(2) fits by (cases first_item) auto
    have sp: "length (cstr b2) + (space_left - ?sp - ?n) = uts_buf_len - 1" using "2.prems"(4) False b1(4) b2(4) by (auto simp: uts_buf_len_def)
    obtain b3 where b3: "join_info infos False (space_left - ?sp - ?n) b2 = Some b3" "length b3 = uts_buf_len" "nul_terminated b3"
      "set (cstr b3) \<subseteq> set (cstr b2) \<union> {32} \<union> (\<Union>i\<in>set infos. set (cstr i))"
      using "2.IH"(2) [of ?n b1 b2] rest b2 b1(1) sp False info fits by (auto simp: my_strlen_eq)
    have "join_info (info # infos) first_item space_left buf = Some b3" using b1(1) b2(1) b3(1) False info by (cases first_item) (auto simp: my_strlen_eq)
    moreover have "set (cstr b3) \<subseteq> set (cstr buf) \<union> {32} \<union> (\<Union>i\<in>set (info # infos). set (cstr i))"
      using b3(4) b1(4) b2(4) by (auto split: if_splits)
    ultimately show ?thesis using b3(2,3) by blast
  qed
qed auto

text \<open>ASCII text is text of the basic plane.\<close>

lemma ascii_bmp_text:
  assumes "list_all (\<lambda>c. c \<noteq> 0 \<and> c < 128) bs"
  shows "bmp_text (map ucast bs) bs"
proof -
  have "scalar (ucast c) \<and> ucast c \<noteq> (0 :: UTF32) \<and> ucast c \<le> (0xFFFF :: UTF32) \<and> utf8_units (ucast c) = [c]"
    if c: "c \<noteq> 0" "c < 128" for c :: u8
  proof -
    have n: "unat c < 128" "unat c \<noteq> 0" using c by (simp_all add: word_less_nat_alt unat_eq_zero)
    have u: "unat (ucast c :: UTF32) = unat c" using unsigned_less [of c, where ?'a = nat] by (simp add: unsigned_ucast_eq take_bit_eq_mod)
    have "utf8_len (ucast c) = 1" using n u by (simp add: utf8_len_def word_less_nat_alt)
    moreover have "utf8_bytes 1 (ucast c) = [c]" unfolding utf8_bytes_eq by (simp add: ucast_up_ucast_id is_up_def source_size_def target_size_def)
    ultimately show ?thesis using n u by (simp add: scalar_def utf8_units_def word_le_nat_alt word_unat_eq_iff)
  qed
  then show ?thesis using assms by (induction bs) (auto simp: bmp_text_def)
qed

text \<open>What is written about the system: the structure, whose text lies behind it, and the text, if there is one.\<close>

definition uname_ok :: "bytes list option \<Rightarrow> bool" where
  "uname_ok r \<longleftrightarrow> (\<forall>infos. r = Some infos \<longrightarrow> list_all (\<lambda>i. nul_terminated i \<and> list_all (\<lambda>c. c < 128) (cstr i)) infos)"

lemma WriteOSInformation_spec:
  assumes "winv (mw_pagesize s) (mw_writer s)" and "calm (mw_writer s)" and ok: "uname_ok uname" and "unat (w_position (mw_writer s)) + 1035 < 2 ^ 32"
  shows "\<exists>r w' X p. WriteOSInformation uname si s = Some (r, si\<lparr>si_platform_id := MD_OS_ANDROID_id, si_csd_version_rva := p\<rparr>, set_writer w' s) \<and>
    grows (mw_pagesize s) (mw_writer s) w' X \<and> length X \<le> 1035 \<and>
    (uname \<noteq> None \<longrightarrow> (\<exists>cs. lies_in (unat (w_position (mw_writer s))) X \<lparr>l_data_size = of_nat (length (mdstring_bytes cs)), l_rva = p\<rparr> (mdstring_bytes cs)))"
proof (cases uname)
  case None
  then show ?thesis
    using grows_refl [OF assms(1,2)]
    by (intro exI [of _ False] exI [of _ "mw_writer s"] exI [of _ "[]"] exI [of _ "si_csd_version_rva si"]) (simp add: WriteOSInformation_def set_writer_def)
next
  case (Some infos)
  have infos: "list_all nul_terminated infos" "\<forall>i\<in>set infos. \<forall>c\<in>set (cstr i). c < 128" using ok Some by (auto simp: uname_ok_def list_all_iff)
  have z: "cstr (replicate uts_buf_len 0) = []" "nul_terminated (replicate uts_buf_len 0)" by (simp_all add: uts_buf_len_def cstr_def nul_terminated_def)
  obtain buf where buf: "join_info infos True (uts_buf_len - 1) (replicate uts_buf_len 0) = Some buf" "length buf = uts_buf_len" "nul_terminated buf"
    "set (cstr buf) \<subseteq> {32} \<union> (\<Union>i\<in>set infos. set (cstr i))"
    using join_info_spec [OF infos(1), of "replicate uts_buf_len 0" "uts_buf_len - 1" True] z by auto
  have "list_all (\<lambda>c. c \<noteq> 0 \<and> c < 128) (cstr buf)"
    using buf(4) infos(2) zero_notin_cstr [of buf] unfolding list_all_iff by fastforce
  then have bt: "bmp_text (map ucast (cstr buf)) (cstr buf)" by (rule ascii_bmp_text)
  let ?cs = "map ucast (cstr buf) :: UTF32 list"
  have len: "length (cstr buf) \<le> 511" using length_cstr_less [OF buf(3)] buf(2) by (simp add: uts_buf_len_def)
  then have fits: "length (cstr buf) \<le> 512" "unat (w_position (mw_writer s)) + 2 * length (cstr buf) + 13 < 2 ^ 32" using assms(4) by linarith+
  obtain l w' X where w': "WriteString (mw_pagesize s) (cstr buf) 0 (mw_writer s) = (Some l, w')" "appends s (set_writer w' s) X"
    "length X \<le> 2 * length (cstr buf) + 13" "l = \<lparr>l_data_size = of_nat (length (mdstring_bytes ?cs)), l_rva = l_rva l\<rparr>"
    "lies_in (unat (w_position (mw_writer s))) X l (mdstring_bytes ?cs)"
    using WriteString_appends [OF assms(1,2) bt fits] by blast
  have "WriteOSInformation uname si s = Some (True, si\<lparr>si_platform_id := MD_OS_ANDROID_id, si_csd_version_rva := l_rva l\<rparr>, set_writer w' s)"
    using Some buf(1) w'(1) by (simp add: WriteOSInformation_def)
  moreover have "length X \<le> 1035" using w'(3) len by linarith
  moreover have "lies_in (unat (w_position (mw_writer s))) X \<lparr>l_data_size = of_nat (length (mdstring_bytes ?cs)), l_rva = l_rva l\<rparr> (mdstring_bytes ?cs)"
    by (rule back_subst [of "\<lambda>l. lies_in (unat (w_position (mw_writer s))) X l (mdstring_bytes ?cs)", OF w'(5,4)])
  moreover have "grows (mw_pagesize s) (mw_writer s) w' X" using appendsD(1) [OF w'(2)] by simp
  ultimately show ?thesis
    by (intro exI [of _ True] exI [of _ w'] exI [of _ X] exI [of _ "l_rva l"] exI [of _ ?cs] conjI impI)
qed

lemma length_sys_info_bytes [simp]: "length (sys_info_bytes si) = 56"
  by (simp add: sys_info_bytes_def)

lemma WriteSystemInfoStream_spec:
  assumes "winv (mw_pagesize s) (mw_writer s)" and "calm (mw_writer s)" and "uname_ok (e_uname e)" and cpu: "cpu_information e s = Some info"
    and "unat (w_position (mw_writer s)) + 1098 < 2 ^ 32"
  shows "\<exists>w' X p. WriteSystemInfoStream e s = Some (True, \<lparr>rd_type = 7, rd_location = \<lparr>l_data_size = 56, l_rva = w_position (mw_writer s)\<rparr>\<rparr>, set_writer w' s) \<and>
    grows (mw_pagesize s) (mw_writer s) w' X \<and> length X \<le> 1098 \<and>
    lies_in (unat (w_position (mw_writer s))) X \<lparr>l_data_size = 56, l_rva = w_position (mw_writer s)\<rparr>
      (sys_info_bytes (info\<lparr>si_platform_id := MD_OS_ANDROID_id, si_csd_version_rva := p\<rparr>)) \<and>
    (e_uname e \<noteq> None \<longrightarrow> (\<exists>cs. lies_in (unat (w_position (mw_writer s))) X \<lparr>l_data_size = of_nat (length (mdstring_bytes cs)), l_rva = p\<rparr> (mdstring_bytes cs)))"
proof -
  let ?w = "mw_writer s" and ?pg = "mw_pagesize s"
  have fits: "unat (w_position ?w) + 56 + 7 < 2 ^ 32" using assms(5) by simp
  obtain m w1 where w1: "Untyped_Allocate ?pg (of_nat 56) ?w = (True, m, w1)"
    "location_of m = \<lparr>l_data_size = of_nat 56, l_rva = w_position ?w\<rparr>" "same_mode ?w w1"
    "list_area ?pg w1 m (w_image ?w) (replicate (alloc_size ?w 56) 0) []"
    using object_area [OF assms(1,2) _ fits] by auto
  let ?s1 = "set_writer w1 s"
  have inv: "winv (mw_pagesize ?s1) (mw_writer ?s1)" "calm (mw_writer ?s1)" using w1(4) by (auto simp: list_area_def)
  have p1: "unat (w_position w1) = unat (w_position ?w) + alloc_size ?w 56" "alloc_size ?w 56 \<le> 63"
    using list_area_length [OF w1(4)] alloc_size_le [of ?w 56] by simp_all
  have "unat (w_position (mw_writer ?s1)) + 1035 < 2 ^ 32" using p1 assms(5) by simp
  then obtain r w2 X p where w2: "WriteOSInformation (e_uname e) info ?s1 =
      Some (r, info\<lparr>si_platform_id := MD_OS_ANDROID_id, si_csd_version_rva := p\<rparr>, set_writer w2 ?s1)"
    "grows (mw_pagesize ?s1) (mw_writer ?s1) w2 X" "length X \<le> 1035"
    "e_uname e \<noteq> None \<longrightarrow> (\<exists>cs. lies_in (unat (w_position (mw_writer ?s1))) X \<lparr>l_data_size = of_nat (length (mdstring_bytes cs)), l_rva = p\<rparr> (mdstring_bytes cs))"
    using WriteOSInformation_spec [OF inv assms(3), of info] by blast
  let ?data = "sys_info_bytes (info\<lparr>si_platform_id := MD_OS_ANDROID_id, si_csd_version_rva := p\<rparr>)"
  have g: "grows ?pg w1 w2 X" using w2(2) by simp
  have la: "list_area ?pg w2 m (w_image ?w) (replicate (alloc_size ?w 56) 0) X" using list_area_grows [OF w1(4) g] by simp
  obtain w3 where w3: "Flush m ?data w2 = (True, w3)" "grows ?pg ?w w3 (padded ?w ?data @ X)"
    using finish_object [OF la length_sys_info_bytes same_mode_trans [OF w1(3) growsD(3) [OF g]]] by blast
  have "cpu_information e ?s1 = Some info" using cpu by (simp add: cpu_information_def)
  then have "WriteSystemInfoStream e s = Some (True, \<lparr>rd_type = 7, rd_location = location_of m\<rparr>, set_writer w3 (set_writer w2 ?s1))"
    using w1(1) w2(1) w3(1) by (simp add: WriteSystemInfoStream_def sizeof_MDRawSystemInfo_def Typed_Allocate_def)
  moreover have "set_writer w3 (set_writer w2 ?s1) = set_writer w3 s" by (simp add: set_writer_def)
  moreover have "lies_in (unat (w_position ?w)) (padded ?w ?data @ X) \<lparr>l_data_size = 56, l_rva = w_position ?w\<rparr> ?data"
    using lies_in_here [of ?data "w_position ?w"] by (simp add: padded_def)
  moreover have "length (padded ?w ?data @ X) \<le> 1098" using p1(2) w2(3) by simp
  moreover have "e_uname e \<noteq> None \<longrightarrow> (\<exists>cs. lies_in (unat (w_position ?w)) (padded ?w ?data @ X)
      \<lparr>l_data_size = of_nat (length (mdstring_bytes cs)), l_rva = p\<rparr> (mdstring_bytes cs))"
    using w2(4) p1(1) lies_in_prepend [of "unat (w_position ?w)" "padded ?w ?data" X] by (simp, blast)
  ultimately show ?thesis using w3(2) w1(2) by (intro exI [of _ w3] exI [of _ "padded ?w ?data @ X"] exI [of _ p]) simp
qed

section \<open>Arrays\<close>

lemma CopyIndex_eq: "length e = k \<Longrightarrow> CopyIndex k m i e = CopyIndexAfterObject 0 m i e"
  by (simp add: CopyIndex_def CopyIndexAfterObject_def)

lemma list_area_index:
  assumes la: "list_area pg w lst img (entries_area 0 es a) Y" and es: "list_all (\<lambda>e. length e = k) es" and e: "length e = k" "0 < k"
    and room: "length es * k + k \<le> a"
  shows "\<exists>w'. CopyIndex k lst (of_nat (length es)) e w = (True, w') \<and> same_mode w w' \<and>
    list_area pg w' lst img (entries_area 0 (es @ [e]) a) Y \<and> unat (w_position w') = unat (w_position w)"
proof -
  have len: "length (entries_area 0 es a) = a" "length (entries_area 0 (es @ [e]) a) = a"
    using room e(1) length_concat_const [OF es] by (simp_all add: length_entries_area)
  have ne: "e \<noteq> []" "0 + length es * length e + length e \<le> length (entries_area 0 es a)" using e room len(1) by auto
  have room': "0 + length es * k + k \<le> a" using room by simp
  obtain w' where w': "CopyIndexAfterObject 0 lst (of_nat (length es)) e w = (True, w')" "same_mode w w'"
    "list_area pg w' lst img (entries_area 0 (es @ [e]) a) Y"
    using list_area_entry [OF la ne] entries_area_snoc [OF es e(1) room'] by auto
  then show ?thesis
    using list_area_length [OF la] list_area_length [OF w'(3)] len CopyIndex_eq [OF e(1), of lst "of_nat (length es)"] by simp
qed

section \<open>Shared objects\<close>

definition link_name :: "'f dumper \<Rightarrow> u32 \<Rightarrow> bytes \<Rightarrow> bytes" where
  "link_name d tid m =
     (let l_name = field_at 8 8 m in cstr ((if l_name \<noteq> 0 then snd (d_copy d tid l_name 256) else replicate 256 0) @ [0]))"

definition link_laid :: "'f dumper \<Rightarrow> u32 \<Rightarrow> bytes \<Rightarrow> nat \<Rightarrow> bytes \<Rightarrow> bytes \<Rightarrow> bytes \<Rightarrow> bool" where
  "link_laid d tid pad k X m entry \<longleftrightarrow>
     (\<exists>l cs. bmp_text cs (link_name d tid m) \<and> entry = link_map_bytes (field_at 0 8 m) l pad (field_at 16 8 m) \<and>
        lies_in k X \<lparr>l_data_size = of_nat (length (mdstring_bytes cs)), l_rva = l\<rparr> (mdstring_bytes cs))"

lemma link_laid_append: "link_laid d tid pad k X m e \<Longrightarrow> link_laid d tid pad k (X @ Y) m e"
  unfolding link_laid_def using lies_in_append by blast

lemma link_laid_prepend: "link_laid d tid pad (k + length Z) X m e \<Longrightarrow> link_laid d tid pad k (Z @ X) m e"
  unfolding link_laid_def using lies_in_prepend by blast

lemma link_laid_length: "link_laid d tid pad k X m e \<Longrightarrow> length pad = 4 \<Longrightarrow> length e = 24"
  by (auto simp: link_laid_def link_map_bytes_def)

lemma length_links: "list_all2 (link_laid d tid pad k X) ms es \<Longrightarrow> length pad = 4 \<Longrightarrow> length (concat es) = length ms * 24"
  by (induction rule: list_all2_induct) (auto dest: link_laid_length)

lemma links_laid_append: "list_all2 (link_laid d tid pad k X) ms es \<Longrightarrow> list_all2 (link_laid d tid pad k (X @ Y)) ms es"
  by (erule list_all2_mono) (rule link_laid_append)

lemma links_laid_prepend: "list_all2 (link_laid d tid pad (k + length Z) X) ms es \<Longrightarrow> list_all2 (link_laid d tid pad k (Z @ X)) ms es"
  by (erule list_all2_mono) (rule link_laid_prepend)

lemma set_writer_twice [simp]: "set_writer w (set_writer w' s) = set_writer w s"
  by (simp add: set_writer_def)

lemma GetCrashThread_set_writer [simp]: "GetCrashThread (set_writer w s) = GetCrashThread s"
  by (simp add: GetCrashThread_def)

context process_copy
begin

lemma length_link_name: "d_copy d = copy \<Longrightarrow> length (link_name d tid m) \<le> 256"
  using length_cstr_less [of "(if field_at 8 8 m \<noteq> 0 then snd (copy tid (field_at 8 8 m) 256) else replicate 256 0) @ [0]"] copy_length [of tid "field_at 8 8 m" 256]
  by (simp add: link_name_def Let_def split: if_splits)

lemma write_link_maps_spec:
  assumes "d_copy (mw_dumper s) = copy" and "list_area (mw_pagesize s) (mw_writer s) lst img (entries_area 0 es a) Y"
    and "list_all (\<lambda>e. length e = 24) es" and "(length es + length ms) * 24 \<le> a" and "length pad = 4"
    and "list_all (\<lambda>m. \<exists>cs. bmp_text cs (link_name (mw_dumper s) (GetCrashThread s) m)) ms"
    and "unat (w_position (mw_writer s)) + length ms * 525 < 2 ^ 32"
  shows "\<exists>w' fs Z. write_link_maps pad lst (length es) ms s = (True, set_writer w' s) \<and> same_mode (mw_writer s) w' \<and>
    list_area (mw_pagesize s) w' lst img (entries_area 0 (es @ fs) a) (Y @ Z) \<and> length Z \<le> length ms * 525 \<and>
    list_all2 (link_laid (mw_dumper s) (GetCrashThread s) pad (unat (w_position (mw_writer s))) Z) ms fs"
  using assms
proof (induction ms arbitrary: s es Y)
  case Nil
  then show ?case by (auto simp: same_mode_def set_writer_def intro!: exI [of _ "mw_writer s"] exI [of _ "[]"])
next
  case (Cons m ms)
  let ?w = "mw_writer s" and ?d = "mw_dumper s" and ?tid = "GetCrashThread s" and ?p = "unat (w_position (mw_writer s))"
  obtain cs where cs: "bmp_text cs (link_name ?d ?tid m)" using Cons.prems(6) by auto
  have len: "length (link_name ?d ?tid m) \<le> 256" by (rule length_link_name [OF Cons.prems(1)])
  have inv: "winv (mw_pagesize s) ?w" "calm ?w" using Cons.prems(2) by (auto simp: list_area_def)
  have fits: "length (link_name ?d ?tid m) \<le> 512" "?p + 2 * length (link_name ?d ?tid m) + 13 < 2 ^ 32" "?p + 525 + length ms * 525 < 2 ^ 32"
    using len Cons.prems(7) by simp_all
  obtain l w1 X where w1: "WriteString (mw_pagesize s) (link_name ?d ?tid m) 0 ?w = (Some l, w1)" "appends s (set_writer w1 s) X"
    "length X \<le> 2 * length (link_name ?d ?tid m) + 13" "l = \<lparr>l_data_size = of_nat (length (mdstring_bytes cs)), l_rva = l_rva l\<rparr>"
    "lies_in ?p X l (mdstring_bytes cs)"
    using WriteString_appends [OF inv cs fits(1,2)] by blast
  let ?e = "link_map_bytes (field_at 0 8 m) (l_rva l) pad (field_at 16 8 m)"
  have "lies_in ?p X \<lparr>l_data_size = of_nat (length (mdstring_bytes cs)), l_rva = l_rva l\<rparr> (mdstring_bytes cs)"
    by (rule back_subst [of "\<lambda>l. lies_in ?p X l (mdstring_bytes cs)", OF w1(5,4)])
  then have e: "link_laid ?d ?tid pad ?p X m ?e" using cs unfolding link_laid_def by blast
  have le: "length ?e = 24" using link_laid_length [OF e Cons.prems(5)] .
  have g: "grows (mw_pagesize s) ?w w1 X" using appendsD(1) [OF w1(2)] by simp
  have room: "length es * 24 + 24 \<le> a" using Cons.prems(4) by simp
  obtain w2 where w2: "CopyIndex 24 lst (of_nat (length es)) ?e w1 = (True, w2)" "same_mode w1 w2"
    "list_area (mw_pagesize s) w2 lst img (entries_area 0 (es @ [?e]) a) (Y @ X)" "unat (w_position w2) = unat (w_position w1)"
    using list_area_index [OF list_area_grows [OF Cons.prems(2) g] Cons.prems(3) le _ room] by auto
  have p2: "unat (w_position w2) = ?p + length X" using w2(4) growsD(4) [OF g] by simp
  have "length X \<le> 525" using w1(3) len by linarith
  then have ih: "list_all (\<lambda>e. length e = 24) (es @ [?e])" "(length (es @ [?e]) + length ms) * 24 \<le> a"
    "list_area (mw_pagesize (set_writer w2 s)) (mw_writer (set_writer w2 s)) lst img (entries_area 0 (es @ [?e]) a) (Y @ X)"
    "unat (w_position (mw_writer (set_writer w2 s))) + length ms * 525 < 2 ^ 32"
    using Cons.prems(3,4) le w2(3) p2 fits(3) by simp_all
  obtain w' fs Z where r: "write_link_maps pad lst (length (es @ [?e])) ms (set_writer w2 s) = (True, set_writer w' s)" "same_mode w2 w'"
    "list_area (mw_pagesize s) w' lst img (entries_area 0 ((es @ [?e]) @ fs) a) ((Y @ X) @ Z)" "length Z \<le> length ms * 525"
    "list_all2 (link_laid ?d ?tid pad (?p + length X) Z) ms fs"
    using Cons.IH [of "set_writer w2 s", OF _ ih(3,1,2) Cons.prems(5) _ ih(4)] Cons.prems(1,6) p2 by auto
  have "write_link_maps pad lst (length es) (m # ms) s = (True, set_writer w' s)"
    using w1(1) w2(1) r(1) by (simp add: link_name_def Let_def sizeof_MDRawLinkMap_def)
  moreover have "list_all2 (link_laid ?d ?tid pad ?p (X @ Z)) (m # ms) (?e # fs)"
    using link_laid_append [OF e] links_laid_prepend [OF r(5)] by simp
  moreover have "same_mode ?w w'" using growsD(3) [OF g] w2(2) r(2) by (blast intro: same_mode_trans)
  ultimately show ?case
    using r(3,4) \<open>length X \<le> 525\<close> by (intro exI [of _ w'] exI [of _ "?e # fs"] exI [of _ "X @ Z"]) simp
qed

end

text \<open>The record for debuggers, with the dynamic section behind it.\<close>

type_synonym debug_found = "bytes \<times> u64 \<times> u32 \<times> bytes list"

definition debug_bytes :: "'f dumper \<Rightarrow> u32 \<Rightarrow> u32 \<Rightarrow> debug_found \<Rightarrow> bytes" where
  "debug_bytes d tid rva info =
     (let (entry, dynamic, len, ms) = info
      in raw_debug_bytes (ucast (field_at 0 4 entry)) rva (length ms) (field_at 16 8 entry) (field_at 32 8 entry) dynamic @
         snd (d_copy d tid dynamic (unat len)))"

definition dso_ok :: "'f dumper \<Rightarrow> u32 \<Rightarrow> debug_found \<Rightarrow> bool" where
  "dso_ok d tid info \<longleftrightarrow>
     (let (entry, dynamic, len, ms) = info in 0 < unat len \<and> list_all (\<lambda>m. \<exists>cs. bmp_text cs (link_name d tid m)) ms)"

definition dso_size :: "debug_found \<Rightarrow> nat" where
  "dso_size info = (let (entry, dynamic, len, ms) = info in unat len + length ms * 549 + 54)"

definition dso_laid :: "'f dumper \<Rightarrow> u32 \<Rightarrow> bytes \<Rightarrow> nat \<Rightarrow> bytes \<Rightarrow> debug_found \<Rightarrow> location \<Rightarrow> bool" where
  "dso_laid d tid pad k X info l \<longleftrightarrow>
     (let (entry, dynamic, len, ms) = info
      in \<exists>rva es. lies_in k X l (debug_bytes d tid rva info) \<and>
           (ms \<noteq> [] \<longrightarrow> lies_in k X \<lparr>l_data_size = of_nat (length ms * 24), l_rva = rva\<rparr> (concat es) \<and> list_all2 (link_laid d tid pad k X) ms es))"

lemma dso_laid_append: "dso_laid d tid pad k X info l \<Longrightarrow> dso_laid d tid pad k (X @ Y) info l"
  unfolding dso_laid_def Let_def case_prod_beta using lies_in_append links_laid_append by blast

lemma dso_laid_prepend: "dso_laid d tid pad (k + length Z) X info l \<Longrightarrow> dso_laid d tid pad k (Z @ X) info l"
  unfolding dso_laid_def Let_def case_prod_beta using lies_in_prepend links_laid_prepend by blast

lemma length_raw_debug [simp]: "length (raw_debug_bytes v l n b ld dyn) = 40"
  by (simp add: raw_debug_bytes_def)

context process_copy
begin

lemma write_debug_spec:
  assumes "d_copy (mw_dumper s) = copy" and "winv (mw_pagesize s) (mw_writer s)" and "calm (mw_writer s)" and "0 < unat len"
    and "unat (w_position (mw_writer s)) + unat len + 47 < 2 ^ 32" and "n = length ms"
  shows "\<exists>l w' X. write_debug entry rva n dynamic len s = (Some l, set_writer w' s) \<and> grows (mw_pagesize s) (mw_writer s) w' X \<and>
    length X \<le> unat len + 47 \<and>
    lies_in (unat (w_position (mw_writer s))) X l (debug_bytes (mw_dumper s) (GetCrashThread s) rva (entry, dynamic, len, ms))"
proof -
  let ?w = "mw_writer s" and ?pg = "mw_pagesize s" and ?k = "40 + unat len"
  let ?a = "alloc_size ?w ?k"
  let ?dyn = "snd (copy (GetCrashThread s) dynamic (unat len))"
  let ?raw = "raw_debug_bytes (ucast (field_at 0 4 entry)) rva n (field_at 16 8 entry) (field_at 32 8 entry) dynamic"
  have sz: "of_nat sizeof_MDRawDebug + 1 * ucast len = (of_nat ?k :: u64)" by (simp add: sizeof_MDRawDebug_def)
  have fits: "unat (w_position ?w) + ?k + 7 < 2 ^ 32" using assms(5) by simp
  obtain m w1 where w1: "Untyped_Allocate ?pg (of_nat ?k) ?w = (True, m, w1)" "location_of m = \<lparr>l_data_size = of_nat ?k, l_rva = w_position ?w\<rparr>"
    "same_mode ?w w1" "list_area ?pg w1 m (w_image ?w) (replicate ?a 0) []"
    using object_area [OF assms(2,3) _ fits] by auto
  have dyn: "?dyn \<noteq> []" "length ?dyn = unat len" using copy_length [of "GetCrashThread s" dynamic "unat len"] assms(4) by auto
  have a: "?k \<le> ?a" "?a \<le> ?k + 7" by (rule alloc_size_ge, rule alloc_size_le)
  have room: "40 + 0 * length ?dyn + length ?dyn \<le> length (replicate ?a 0 :: bytes)" using a(1) dyn(2) by simp
  obtain w2 where w2: "CopyIndexAfterObject 40 m 0 ?dyn w1 = (True, w2)" "same_mode w1 w2"
    "list_area ?pg w2 m (w_image ?w) (blit (replicate ?a 0) 40 ?dyn) []"
    using list_area_entry [OF w1(4) dyn(1) room] by auto
  let ?L = "blit (replicate ?a 0) 40 ?dyn"
  have "length ?raw \<le> length ?L" using a(1) dyn(2) by simp
  then obtain w3 where w3: "Flush m ?raw w2 = (True, w3)" "same_mode w2 w3" "list_area ?pg w3 m (w_image ?w) (blit ?L 0 ?raw) []"
    using list_area_flush [OF w2(3)] by blast
  have L: "blit ?L 0 ?raw = padded ?w (?raw @ ?dyn)"
    using a(1) dyn(2) by (simp add: blit_def padded_def)
  have "grows ?pg ?w w3 (padded ?w (?raw @ ?dyn))"
    using list_area_complete [OF w3(3)] same_mode_trans [OF w1(3) same_mode_trans [OF w2(2) w3(2)]] unfolding L by simp
  moreover have "write_debug entry rva n dynamic len s = (Some (location_of m), set_writer w3 s)"
    unfolding write_debug_def AllocateObjectAndArray_def sz w1(1) Let_def prod.case using assms(1) w2(1) w3(1) by (simp add: sizeof_MDRawDebug_def)
  moreover have "lies_in (unat (w_position ?w)) (padded ?w (?raw @ ?dyn)) (location_of m) (?raw @ ?dyn)"
    using lies_in_here [of "?raw @ ?dyn" "w_position ?w"] fits dyn(2) unfolding padded_def w1(2) by simp
  moreover have "length (padded ?w (?raw @ ?dyn)) \<le> unat len + 47" using a(2) dyn(2) by simp
  ultimately show ?thesis
    using assms(1,6) by (intro exI [of _ "location_of m"] exI [of _ w3] exI [of _ "padded ?w (?raw @ ?dyn)"]) (simp add: debug_bytes_def)
qed

lemma write_dso_spec:
  assumes "d_copy (mw_dumper s) = copy" and "winv (mw_pagesize s) (mw_writer s)" and "calm (mw_writer s)" and "length pad = 4"
    and "dso_ok (mw_dumper s) (GetCrashThread s) info" and "unat (w_position (mw_writer s)) + dso_size info < 2 ^ 32"
  shows "\<exists>l w' X. write_dso pad info s = (Some l, set_writer w' s) \<and> grows (mw_pagesize s) (mw_writer s) w' X \<and> length X \<le> dso_size info \<and>
    dso_laid (mw_dumper s) (GetCrashThread s) pad (unat (w_position (mw_writer s))) X info l"
proof -
  obtain entry dynamic len ms where info: "info = (entry, dynamic, len, ms)" by (cases info)
  let ?w = "mw_writer s" and ?pg = "mw_pagesize s" and ?d = "mw_dumper s" and ?tid = "GetCrashThread s" and ?n = "length ms"
  let ?p = "unat (w_position ?w)"
  have ok: "0 < unat len" "list_all (\<lambda>m. \<exists>cs. bmp_text cs (link_name ?d ?tid m)) ms" and size: "dso_size info = unat len + ?n * 549 + 54"
    using assms(5) by (simp_all add: info dso_ok_def dso_size_def)
  show ?thesis
  proof (cases "ms = []")
    case True
    have "?p + unat len + 47 < 2 ^ 32" using assms(6) size by linarith
    from write_debug_spec [OF assms(1-3) ok(1) this, of 0 "[]" entry kInvalidMDRVA dynamic] show ?thesis
      using True size by (fastforce simp: write_dso_def info dso_laid_def)
  next
    case False
    have fits: "?p + ?n * 24 + 7 < 2 ^ 32" "0 < ?n * 24" using assms(6) size False by simp_all
    obtain lst w1 where w1: "Untyped_Allocate ?pg (of_nat (?n * 24)) ?w = (True, lst, w1)" "location_of lst = \<lparr>l_data_size = of_nat (?n * 24), l_rva = w_position ?w\<rparr>"
      "same_mode ?w w1" "list_area ?pg w1 lst (w_image ?w) (replicate (alloc_size ?w (?n * 24)) 0) []"
      using object_area [OF assms(2,3) fits(2,1)] by blast
    let ?a = "alloc_size ?w (?n * 24)" and ?s1 = "set_writer w1 s"
    have a: "?n * 24 \<le> ?a" "?a \<le> ?n * 24 + 7" by (rule alloc_size_ge, rule alloc_size_le)
    have p1: "unat (w_position w1) = ?p + ?a" using list_area_length [OF w1(4)] by simp
    have h: "d_copy (mw_dumper ?s1) = copy" "list_area (mw_pagesize ?s1) (mw_writer ?s1) lst (w_image ?w) (entries_area 0 [] ?a) []"
      "(length ([] :: bytes list) + length ms) * 24 \<le> ?a" "list_all (\<lambda>m. \<exists>cs. bmp_text cs (link_name (mw_dumper ?s1) (GetCrashThread ?s1) m)) ms"
      "unat (w_position (mw_writer ?s1)) + length ms * 525 < 2 ^ 32"
      using assms(1,6) w1(4) a ok(2) p1 size by (simp_all add: entries_area_nil)
    obtain w2 es Z where w2: "write_link_maps pad lst 0 ms ?s1 = (True, set_writer w2 s)" "same_mode w1 w2"
      "list_area ?pg w2 lst (w_image ?w) (entries_area 0 es ?a) Z" "length Z \<le> ?n * 525" "list_all2 (link_laid ?d ?tid pad (?p + ?a) Z) ms es"
      using write_link_maps_spec [OF h(1,2) list.pred_inject(1) h(3) assms(4) h(4,5)] p1 by auto
    have len: "length (concat es) = ?n * 24" using length_links [OF w2(5) assms(4)] .
    let ?E = "concat es @ replicate (?a - ?n * 24) 0" and ?s2 = "set_writer w2 s"
    have E: "entries_area 0 es ?a = ?E" "length ?E = ?a" using len a(1) by (simp_all add: entries_area_def)
    have g2: "grows ?pg ?w w2 (?E @ Z)"
      using list_area_complete [OF w2(3) same_mode_trans [OF w1(3) w2(2)]] unfolding E(1) .
    note G = growsD [OF g2]
    have p2: "unat (w_position w2) = ?p + ?a + length Z" using G(4) E(2) by simp
    have d: "d_copy (mw_dumper ?s2) = copy" "winv (mw_pagesize ?s2) (mw_writer ?s2)" "calm (mw_writer ?s2)"
      "unat (w_position (mw_writer ?s2)) + unat len + 47 < 2 ^ 32"
      using assms(1,6) G(1,2) p2 a(2) w2(4) size by simp_all
    obtain l w3 X where w3: "write_debug entry (w_position ?w) ?n dynamic len ?s2 = (Some l, set_writer w3 ?s2)" "grows ?pg w2 w3 X"
      "length X \<le> unat len + 47" "lies_in (?p + ?a + length Z) X l (debug_bytes ?d ?tid (w_position ?w) info)"
      using write_debug_spec [OF d(1-3) ok(1) d(4) refl, of entry "w_position ?w" ms dynamic] p2 by (auto simp: info)
    have "write_dso pad info s = (Some l, set_writer w3 s)"
      using False w1(1,2) w2(1) w3(1) by (simp add: write_dso_def info AllocateArray_def sizeof_MDRawLinkMap_def mult.commute)
    moreover have "grows ?pg ?w w3 ((?E @ Z) @ X)" by (rule grows_trans [OF g2 w3(2)])
    moreover have "length ((?E @ Z) @ X) \<le> dso_size info" using a(2) w2(4) w3(3) E(2) size by simp
    moreover have "lies_in ?p ((?E @ Z) @ X) l (debug_bytes ?d ?tid (w_position ?w) info)"
      by (rule lies_in_prepend, rule w3(4) [folded p2, unfolded G(4)])
    moreover have "lies_in ?p ((?E @ Z) @ X) \<lparr>l_data_size = of_nat (?n * 24), l_rva = w_position ?w\<rparr> (concat es)"
      using lies_in_here [of "concat es" "w_position ?w"] len fits(1) by simp
    moreover have "list_all2 (link_laid ?d ?tid pad ?p ((?E @ Z) @ X)) ms es"
      using links_laid_append [OF links_laid_prepend [of _ _ _ ?p ?E Z]] w2(5) E(2) by simp
    ultimately show ?thesis unfolding dso_laid_def info Let_def prod.case by blast
  qed
qed

end

text \<open>What is read of the process does not depend on what the writer changes.\<close>

lemma similar_crash_thread: "similar_process (mw_dumper s) (mw_dumper s') \<Longrightarrow> GetCrashThread s' = GetCrashThread s"
  by (simp add: GetCrashThread_def similar_processD)

lemma debug_info_same:
  assumes "similar_process (mw_dumper s) (mw_dumper s')"
  shows "debug_info fuel s' = debug_info fuel s"
proof -
  have cs: "copy_struct s' = copy_struct s"
    using similar_processD(1) [OF assms] similar_crash_thread [OF assms] by (simp add: copy_struct_def fun_eq_iff)
  have "scan_phdrs s' n p b d = scan_phdrs s n p b d" for n p b d
    by (induction n arbitrary: p b d) (simp_all add: scan_phdrs.simps [of s'] scan_phdrs.simps [of s] cs)
  moreover have "scan_dynamic s' fuel dyn i r l = scan_dynamic s fuel dyn i r l" for dyn i r l
    by (induction fuel arbitrary: i r l) (simp_all add: cs split: option.split)
  moreover have "link_maps s' fuel p = link_maps s fuel p" for p
    by (induction fuel arbitrary: p) (simp_all add: cs split: option.split)
  ultimately show ?thesis by (simp only: debug_info_def cs similar_processD(8) [OF assms])
qed

section \<open>Optional streams\<close>

text \<open>The file of a stream; and the conditions, the largest size and the contents of an optional stream.\<close>

fun stream_path :: "u32 \<Rightarrow> optional_stream \<Rightarrow> bytes option" where
  "stream_path tid (File_Stream p) = Some (chars p)"
| "stream_path tid (Proc_Stream p) =
     (if 0 < sint tid then Some (chars ''/proc/'' @ dec_digits (my_uint_len (nat (sint tid))) (nat (sint tid)) @ 47 # chars p) else None)"
| "stream_path tid DSO_Stream = None"

definition stream_file :: "'f minidump_writer \<Rightarrow> optional_stream \<Rightarrow> 'f option" where
  "stream_file s st = Option.bind (stream_path (GetCrashThread s) st) (d_open (mw_dumper s))"

definition optional_ok :: "('f \<Rightarrow> bytes) \<Rightarrow> dump_inputs \<Rightarrow> 'f minidump_writer \<Rightarrow> optional_stream \<Rightarrow> bool" where
  "optional_ok content e s st \<longleftrightarrow>
     (case st of
        DSO_Stream \<Rightarrow> debug_info (e_fuel e) s \<noteq> None \<and> (\<forall>info. debug_info (e_fuel e) s = Some (Some info) \<longrightarrow> dso_ok (mw_dumper s) (GetCrashThread s) info)
      | _ \<Rightarrow> \<forall>f. stream_file s st = Some f \<longrightarrow> length (content f) < e_fuel e)"

definition optional_size :: "('f \<Rightarrow> bytes) \<Rightarrow> dump_inputs \<Rightarrow> 'f minidump_writer \<Rightarrow> optional_stream \<Rightarrow> nat" where
  "optional_size content e s st =
     (case st of
        DSO_Stream \<Rightarrow> (case debug_info (e_fuel e) s of Some (Some info) \<Rightarrow> dso_size info | _ \<Rightarrow> 0)
      | _ \<Rightarrow> (case stream_file s st of None \<Rightarrow> 0 | Some f \<Rightarrow> length (content f) + 7))"

definition file_laid :: "nat \<Rightarrow> bytes \<Rightarrow> bytes \<Rightarrow> location option \<Rightarrow> bool" where
  "file_laid k X bs l \<longleftrightarrow> (case l of None \<Rightarrow> bs = [] | Some loc \<Rightarrow> bs \<noteq> [] \<and> lies_in k X loc bs)"

definition optional_laid :: "('f \<Rightarrow> bytes) \<Rightarrow> dump_inputs \<Rightarrow> 'f minidump_writer \<Rightarrow> nat \<Rightarrow> bytes \<Rightarrow> optional_stream \<Rightarrow> location option \<Rightarrow> bool" where
  "optional_laid content e s k X st l \<longleftrightarrow>
     (case st of
        DSO_Stream \<Rightarrow>
          (case debug_info (e_fuel e) s of
             Some (Some info) \<Rightarrow> (\<exists>loc. l = Some loc \<and> dso_laid (mw_dumper s) (GetCrashThread s) (e_pad e) k X info loc)
           | _ \<Rightarrow> l = None)
      | _ \<Rightarrow> (case stream_file s st of None \<Rightarrow> l = None | Some f \<Rightarrow> file_laid k X (content f) l))"

lemma file_laid_append: "file_laid k X bs l \<Longrightarrow> file_laid k (X @ Y) bs l"
  by (auto simp: file_laid_def lies_in_append split: option.splits)

lemma file_laid_prepend: "file_laid (k + length Z) X bs l \<Longrightarrow> file_laid k (Z @ X) bs l"
  by (auto simp: file_laid_def lies_in_prepend split: option.splits)

lemma optional_laid_append: "optional_laid content e s k X st l \<Longrightarrow> optional_laid content e s k (X @ Y) st l"
  by (auto simp: optional_laid_def file_laid_append dso_laid_append split: optional_stream.splits option.splits)

lemma optional_laid_prepend: "optional_laid content e s (k + length Z) X st l \<Longrightarrow> optional_laid content e s k (Z @ X) st l"
  by (auto simp: optional_laid_def file_laid_prepend dso_laid_prepend split: optional_stream.splits option.splits)

lemma dso_same:
  assumes "d_copy d' = d_copy d"
  shows "dso_ok d' = dso_ok d" "dso_laid d' = dso_laid d"
proof -
  have "link_name d' = link_name d" "debug_bytes d' = debug_bytes d" by (intro ext, simp add: link_name_def debug_bytes_def Let_def assms)+
  moreover from this have "link_laid d' = link_laid d" by (intro ext) (simp only: link_laid_def)
  ultimately show "dso_ok d' = dso_ok d" "dso_laid d' = dso_laid d" by (intro ext, simp only: dso_ok_def dso_laid_def)+
qed

lemma optional_same:
  assumes "similar_process (mw_dumper s) (mw_dumper s')"
  shows "optional_ok content e s' = optional_ok content e s" "optional_size content e s' = optional_size content e s"
    "optional_laid content e s' = optional_laid content e s"
proof -
  note S = similar_processD [OF assms]
  have "stream_file s' = stream_file s" by (intro ext) (simp add: stream_file_def S(9) similar_crash_thread [OF assms])
  then show "optional_ok content e s' = optional_ok content e s" "optional_size content e s' = optional_size content e s"
    "optional_laid content e s' = optional_laid content e s"
    by (intro ext, simp only: optional_ok_def optional_size_def optional_laid_def debug_info_same [OF assms] similar_crash_thread [OF assms] dso_same [OF S(1)])+
qed

text \<open>The names under \<open>/proc/<pid>\<close> are short enough for the buffer of the path.\<close>

definition proc_name :: "string \<Rightarrow> bool" where
  "proc_name p \<longleftrightarrow> p \<noteq> [] \<and> length p \<le> 100 \<and> 0 \<notin> set (chars p)"

lemma BuildProcPath_stream:
  assumes "proc_name p"
  shows "\<exists>built buf. BuildProcPath (replicate NAME_MAX 0) (sint tid) (chars p @ [0]) = Some (built, buf) \<and>
    stream_path tid (Proc_Stream p) = (if built then Some (cstr buf) else None)"
proof (cases "0 < sint tid")
  case True
  have "sint tid < 2 ^ 31" using sint_lt [of tid] by simp
  then have "my_uint_len (nat (sint tid)) \<le> 10" using True by (intro my_uint_len_le) auto
  moreover have c: "cstr (chars p @ [0]) = chars p" "chars p \<noteq> []" "length (chars p) \<le> 100" using assms by (simp_all add: proc_name_def cstr_terminated) (simp_all add: chars_def)
  ultimately have "6 + my_uint_len (nat (sint tid)) + 1 + length (cstr (chars p @ [0])) < NAME_MAX" by (simp add: NAME_MAX_def)
  then obtain buf where "BuildProcPath (replicate NAME_MAX 0) (sint tid) (chars p @ [0]) = Some (True, buf)"
    "cstr buf = chars ''/proc/'' @ dec_digits (my_uint_len (nat (sint tid))) (nat (sint tid)) @ 47 # chars p"
    using BuildProcPath_correct [of "chars p @ [0]" "sint tid" "replicate NAME_MAX 0"] c True by auto
  then show ?thesis using True by (intro exI [of _ True] exI [of _ buf]) simp
qed (auto simp: BuildProcPath_def)

lemma WriteFile_stream:
  assumes "winv (mw_pagesize s) (mw_writer s)" and "calm (mw_writer s)" and "read_contract (d_read (mw_dumper s)) content" and "read_never_fails (d_read (mw_dumper s))"
    and "\<And>f. d_open (mw_dumper s) name = Some f \<Longrightarrow> length (content f) < fuel \<and> unat (w_position (mw_writer s)) + length (content f) + 7 < 2 ^ 32"
  shows "\<exists>l s' X. WriteFile fuel name s = Some (l, s') \<and> appends s s' X \<and>
    (case d_open (mw_dumper s) name of None \<Rightarrow> l = None \<and> X = [] | Some f \<Rightarrow> file_laid (unat (w_position (mw_writer s))) X (content f) l \<and> length X \<le> length (content f) + 7)"
proof (cases "d_open (mw_dumper s) name")
  case None
  then show ?thesis using appends_refl [OF assms(1,2)] by (auto simp: WriteFile_def)
next
  case (Some f)
  obtain l s' X bs rest where r: "WriteFile fuel name s = Some (l, s')" "writes s s' X []" "length X \<le> length (content f) + 7"
    "mw_crashing_thread_context s' = mw_crashing_thread_context s" "content f = bs @ rest" "rest = []"
    "case l of None \<Rightarrow> bs = [] \<and> X = [] | Some loc \<Rightarrow> bs \<noteq> [] \<and> lies_in (unat (w_position (mw_writer s))) X loc bs"
    using WriteFile_spec [OF assms(1,2) Some assms(3)] assms(4,5) Some by blast
  then have "file_laid (unat (w_position (mw_writer s))) X (content f) l" by (simp add: file_laid_def split: option.splits)
  then show ?thesis using r(1,3) writes_appends [OF r(2,4)] Some by auto
qed

context process_copy
begin

lemma write_optional_spec:
  assumes "d_copy (mw_dumper s) = copy" and "winv (mw_pagesize s) (mw_writer s)" and "calm (mw_writer s)"
    and "read_contract (d_read (mw_dumper s)) content" and "read_never_fails (d_read (mw_dumper s))" and "length (e_pad e) = 4"
    and "\<And>p. st = Proc_Stream p \<Longrightarrow> proc_name p" and "optional_ok content e s st"
    and "unat (w_position (mw_writer s)) + optional_size content e s st < 2 ^ 32"
  shows "\<exists>l s' X. write_optional e st s = Some (l, s') \<and> appends s s' X \<and> length X \<le> optional_size content e s st \<and>
    optional_laid content e s (unat (w_position (mw_writer s))) X st l"
proof -
  have from_file: ?thesis if path: "stream_path (GetCrashThread s) st = Some name" and w: "write_optional e st s = WriteFile (e_fuel e) name s"
    and st: "st \<noteq> DSO_Stream" for name
  proof -
    have sf: "stream_file s st = d_open (mw_dumper s) name" by (simp add: stream_file_def path)
    have "length (content f) < e_fuel e \<and> unat (w_position (mw_writer s)) + length (content f) + 7 < 2 ^ 32" if "d_open (mw_dumper s) name = Some f" for f
      using assms(8,9) that st sf by (cases st) (simp_all add: optional_ok_def optional_size_def)
    then obtain l s' X where "WriteFile (e_fuel e) name s = Some (l, s')" "appends s s' X"
      "case d_open (mw_dumper s) name of None \<Rightarrow> l = None \<and> X = [] | Some f \<Rightarrow> file_laid (unat (w_position (mw_writer s))) X (content f) l \<and> length X \<le> length (content f) + 7"
      using WriteFile_stream [OF assms(2-5)] by blast
    then show ?thesis
      using w sf st by (cases st) (auto simp: optional_size_def optional_laid_def split: option.splits)
  qed
  show ?thesis
  proof (cases st)
    case (File_Stream p)
    then show ?thesis using from_file [of "chars p"] by simp
  next
    case (Proc_Stream p)
    obtain built buf where b: "BuildProcPath (replicate NAME_MAX 0) (sint (GetCrashThread s)) (chars p @ [0]) = Some (built, buf)"
      "stream_path (GetCrashThread s) st = (if built then Some (cstr buf) else None)"
      using BuildProcPath_stream [OF assms(7) [OF Proc_Stream]] Proc_Stream by blast
    show ?thesis
    proof (cases built)
      case True
      then show ?thesis using from_file [of "cstr buf"] b Proc_Stream by (simp add: WriteProcFile_def)
    next
      case False
      then have "write_optional e st s = Some (None, s)" "stream_file s st = None" using b Proc_Stream by (simp_all add: WriteProcFile_def stream_file_def)
      then show ?thesis using appends_refl [OF assms(2,3)] Proc_Stream by (auto simp: optional_size_def optional_laid_def)
    qed
  next
    case DSO_Stream
    obtain found where fo: "debug_info (e_fuel e) s = Some found" using assms(8) DSO_Stream by (auto simp: optional_ok_def)
    show ?thesis
    proof (cases found)
      case None
      then show ?thesis using appends_refl [OF assms(2,3)] fo DSO_Stream by (auto simp: WriteDSODebugStream_def optional_size_def optional_laid_def)
    next
      case (Some info)
      have "dso_ok (mw_dumper s) (GetCrashThread s) info" "unat (w_position (mw_writer s)) + dso_size info < 2 ^ 32"
        using assms(8,9) DSO_Stream fo Some by (simp_all add: optional_ok_def optional_size_def)
      from write_dso_spec [OF assms(1-3,6) this] obtain l w' X where "write_dso (e_pad e) info s = (Some l, set_writer w' s)"
        "grows (mw_pagesize s) (mw_writer s) w' X" "length X \<le> dso_size info"
        "dso_laid (mw_dumper s) (GetCrashThread s) (e_pad e) (unat (w_position (mw_writer s))) X info l" by blast
      then show ?thesis
        using appends_set_writer fo Some DSO_Stream by (auto simp: WriteDSODebugStream_def optional_size_def optional_laid_def)
    qed
  qed
qed

end

section \<open>The directory\<close>

text \<open>
  \<open>directory s dir img a ds Y\<close>: the header \<open>img\<close> is in the file, then the directory with the entries \<open>ds\<close>, \<open>a\<close> bytes long, then \<open>Y\<close>, the data of the streams.
\<close>

definition directory :: "'f minidump_writer \<Rightarrow> mdrva \<Rightarrow> bytes \<Rightarrow> nat \<Rightarrow> raw_dir list \<Rightarrow> bytes \<Rightarrow> bool" where
  "directory s dir img a ds Y \<longleftrightarrow> list_area (mw_pagesize s) (mw_writer s) dir img (entries_area 0 (map dir_bytes ds) a) Y"

lemma length_dir_bytes [simp]: "length (dir_bytes d) = 12"
  by (simp add: dir_bytes_def)

lemma dir_entries: "list_all (\<lambda>e. length e = 12) (map dir_bytes ds)"
  by (simp add: list_all_iff)

lemma directoryD:
  assumes "directory s dir img a ds Y" and "length ds * 12 \<le> a"
  shows "winv (mw_pagesize s) (mw_writer s)" "calm (mw_writer s)" "unat (w_position (mw_writer s)) = length img + a + length Y"
  using assms list_area_length [of "mw_pagesize s" "mw_writer s" dir img "entries_area 0 (map dir_bytes ds) a" Y] length_concat_const [OF dir_entries, of ds]
  unfolding directory_def by (auto simp: list_area_def length_entries_area)

lemma put_dirent_directory:
  assumes dir: "directory s dir img a ds Y" and g: "grows (mw_pagesize s) (mw_writer s) (mw_writer s') X" and pg: "mw_pagesize s' = mw_pagesize s"
    and room: "(length ds + 1) * 12 \<le> a"
  shows "directory (put_dirent dir (length ds) d s') dir img a (ds @ [d]) (Y @ X) \<and> same_state s' (put_dirent dir (length ds) d s')"
proof -
  have la: "list_area (mw_pagesize s) (mw_writer s') dir img (entries_area 0 (map dir_bytes ds) a) (Y @ X)"
    using list_area_grows [OF dir [unfolded directory_def] g] .
  obtain w' where w': "CopyIndex 12 dir (of_nat (length (map dir_bytes ds))) (dir_bytes d) (mw_writer s') = (True, w')"
    "list_area (mw_pagesize s) w' dir img (entries_area 0 (map dir_bytes ds @ [dir_bytes d]) a) (Y @ X)"
    using list_area_index [OF la dir_entries length_dir_bytes [of d]] room by auto
  then have "put_dirent dir (length ds) d s' = set_writer w' s'" by (simp add: put_dirent_def sizeof_MDRawDirectory_def)
  then show ?thesis using w'(2) pg by (simp add: directory_def)
qed

lemma optionals_laid_same: "similar_process (mw_dumper s) (mw_dumper s') \<Longrightarrow>
  list_all2 (\<lambda>(t, st) l. optional_laid content e s' k X st l) sts ls = list_all2 (\<lambda>(t, st) l. optional_laid content e s k X st l) sts ls"
  by (simp only: optional_same)

lemma optionals_laid_prepend:
  "list_all2 (\<lambda>(t, st) l. optional_laid content e s (k + length Z) X st l) sts ls \<Longrightarrow> list_all2 (\<lambda>(t, st) l. optional_laid content e s k (Z @ X) st l) sts ls"
  by (erule list_all2_mono) (auto intro: optional_laid_prepend)

lemma optionals_laid_append:
  "list_all2 (\<lambda>(t, st) l. optional_laid content e s k X st l) sts ls \<Longrightarrow> list_all2 (\<lambda>(t, st) l. optional_laid content e s k (X @ Y) st l) sts ls"
  by (erule list_all2_mono) (auto intro: optional_laid_append)

definition file_dirents :: "(string \<times> optional_stream) list \<Rightarrow> location option list \<Rightarrow> raw_dir list" where
  "file_dirents sts ls = map2 (\<lambda>(t, st) l. file_dirent (stream_type t) l) sts ls"

context process_copy
begin

lemma write_optionals_spec:
  assumes "d_copy (mw_dumper s) = copy" and "directory s dir img a ds Y"
    and "read_contract (d_read (mw_dumper s)) content" and "read_never_fails (d_read (mw_dumper s))" and "length (e_pad e) = 4"
    and "list_all (\<lambda>(t, st). (\<forall>p. st = Proc_Stream p \<longrightarrow> proc_name p) \<and> optional_ok content e s st) sts"
    and "(length ds + length sts) * 12 \<le> a"
    and "unat (w_position (mw_writer s)) + sum_list (map (\<lambda>(t, st). optional_size content e s st) sts) < 2 ^ 32"
  shows "\<exists>s' ls Z. write_optionals e dir (length ds) sts s = Some s' \<and> same_state s s' \<and> directory s' dir img a (ds @ file_dirents sts ls) (Y @ Z) \<and>
    length Z \<le> sum_list (map (\<lambda>(t, st). optional_size content e s st) sts) \<and>
    list_all2 (\<lambda>(t, st) l. optional_laid content e s (unat (w_position (mw_writer s))) Z st l) sts ls"
  using assms
proof (induction sts arbitrary: s ds Y)
  case Nil
  then show ?case by (intro exI [of _ s] exI [of _ "[]"]) (simp add: file_dirents_def)
next
  case (Cons tst sts)
  obtain t st where tst: "tst = (t, st)" by (cases tst)
  let ?size = "\<lambda>s. sum_list (map (\<lambda>(t, st). optional_size content e s st) sts)" and ?p = "unat (w_position (mw_writer s))"
  have room: "length ds * 12 \<le> a" "(length ds + 1) * 12 \<le> a" using Cons.prems(7) by simp_all
  note D = directoryD [OF Cons.prems(2) room(1)]
  have h: "st = Proc_Stream p \<Longrightarrow> proc_name p" "optional_ok content e s st" "?p + optional_size content e s st < 2 ^ 32" for p
    using Cons.prems(6,8) by (auto simp: tst)
  obtain l s1 X where s1: "write_optional e st s = Some (l, s1)" "appends s s1 X" "length X \<le> optional_size content e s st" "optional_laid content e s ?p X st l"
    using write_optional_spec [OF Cons.prems(1) D(1,2) Cons.prems(3-5) h] by blast
  note A = appendsD [OF s1(2)]
  let ?d = "file_dirent (stream_type t) l"
  define s2 where "s2 = put_dirent dir (length ds) ?d s1"
  have s2: "directory s2 dir img a (ds @ [?d]) (Y @ X)" "same_state s1 s2"
    using put_dirent_directory [OF Cons.prems(2) A(1,3) room(2)] by (simp_all add: s2_def)
  have st2: "same_state s s2" using s1(2) s2(2) same_state_trans unfolding appends_iff by blast
  then have sim: "similar_process (mw_dumper s) (mw_dumper s2)" by (simp add: same_state_def)
  note S = similar_processD [OF sim]
  have "unat (w_position (mw_writer s2)) = ?p + length X" using directoryD(3) [OF s2(1)] room D(3) by simp
  then have ih: "d_copy (mw_dumper s2) = copy" "read_contract (d_read (mw_dumper s2)) content" "read_never_fails (d_read (mw_dumper s2))"
    "list_all (\<lambda>(t, st). (\<forall>p. st = Proc_Stream p \<longrightarrow> proc_name p) \<and> optional_ok content e s2 st) sts" "(length (ds @ [?d]) + length sts) * 12 \<le> a"
    "unat (w_position (mw_writer s2)) + ?size s2 < 2 ^ 32" and p2: "unat (w_position (mw_writer s2)) = ?p + length X"
    using Cons.prems s1(3) by (simp_all add: S optional_same [OF sim] tst)
  obtain s' ls Z where r: "write_optionals e dir (length (ds @ [?d])) sts s2 = Some s'" "same_state s2 s'"
    "directory s' dir img a ((ds @ [?d]) @ file_dirents sts ls) ((Y @ X) @ Z)" "length Z \<le> ?size s2"
    "list_all2 (\<lambda>(t, st) l. optional_laid content e s2 (unat (w_position (mw_writer s2))) Z st l) sts ls"
    using Cons.IH [OF ih(1) s2(1) ih(2,3) Cons.prems(5) ih(4-6)] by blast
  have "list_all2 (\<lambda>(t, st) l. optional_laid content e s ?p (X @ Z) st l) sts ls"
    using r(5) unfolding optionals_laid_same [OF sim] p2 by (rule optionals_laid_prepend)
  then have "list_all2 (\<lambda>(t, st) l. optional_laid content e s ?p (X @ Z) st l) (tst # sts) (l # ls)"
    using optional_laid_append [OF s1(4)] by (simp add: tst)
  moreover have "length (X @ Z) \<le> sum_list (map (\<lambda>(t, st). optional_size content e s st) (tst # sts))"
    using s1(3) r(4) by (simp add: tst optional_same [OF sim])
  moreover have "write_optionals e dir (length ds) (tst # sts) s = Some s'" using s1(1) r(1) by (simp add: tst s2_def)
  moreover have "directory s' dir img a (ds @ file_dirents (tst # sts) (l # ls)) (Y @ X @ Z)" using r(3) by (simp add: file_dirents_def tst)
  ultimately show ?case using same_state_trans [OF st2 r(2)] by blast
qed

end

end
