(* ===== verification/Dump_Correct.thy ===== *)
theory Dump_Correct
  imports Dump_Streams
begin

text \<open>
  The dump as a whole: the streams one after the other, each with its entry in the directory, and the theorem that a reader who starts at the header finds
  all of them.
\<close>

section \<open>Steps with the directory\<close>

lemma lies_in_take:
  assumes "take n X = bs" and "length bs = n" and "n < 2 ^ 32"
  shows "lies_in (unat p) X \<lparr>l_data_size = of_nat n, l_rva = p\<rparr> bs"
  using lies_in_here [of bs p "drop n X"] assms append_take_drop_id [of n X] by simp

lemma put_dirent_simps [simp]:
  "mw_dumper (put_dirent dir i d s) = mw_dumper s" "mw_pagesize (put_dirent dir i d s) = mw_pagesize s"
  "mw_memory_blocks (put_dirent dir i d s) = mw_memory_blocks s" "mw_crashing_thread_context (put_dirent dir i d s) = mw_crashing_thread_context s"
  "same_config s' (put_dirent dir i d s) = same_config s' s"
  by (simp_all add: put_dirent_def)

abbreviation at_dir :: "nat \<Rightarrow> location \<Rightarrow> raw_dir" where
  "at_dir ty l \<equiv> \<lparr>rd_type = ty, rd_location = l\<rparr>"

definition thread_list_size :: "nat \<Rightarrow> nat" where "thread_list_size n = 4 + n * 48 + 7 + n * 33841"

definition module_list_size :: "nat \<Rightarrow> nat" where "module_list_size n = 4 + n * 108 + 7 + n * 788"

context process_copy
begin

lemma threads_step:
  assumes "d_copy (mw_dumper s) = copy" and dir: "directory s dir img a ds Y" and "machine_ok s" and "\<not> mw_sanitize_stacks s"
    and n: "n = length (d_threads (mw_dumper s))" and "list_all (\<lambda>(i, tid). regs_ok (thread_regs s i tid)) (enumerate 0 (d_threads (mw_dumper s)))"
    and p: "p = unat (w_position (mw_writer s))" "p + thread_list_size n < 2 ^ 32" and room: "(length ds + 1) * 12 \<le> a" and i: "i = length ds"
  obtains l s1 s2 ths extra bs X where
    "WriteThreadListStream s = Some (True, at_dir 3 l, s1)" "s2 = put_dirent dir i (at_dir 3 l) s1" "directory s2 dir img a (ds @ [at_dir 3 l]) (Y @ X)"
    "length X \<le> thread_list_size n" "lies_in p X l (le_int 4 n @ concat (map thread_bytes ths))" "extra = -1 \<or> 0 \<le> mw_size_limit s \<and> extra = 2048"
    "threads_laid s extra p X 0 (d_threads (mw_dumper s)) ths" "same_object s s2" "mw_memory_blocks s2 = mw_memory_blocks s @ bs" "length bs \<le> n * 2"
    "list_all (laid (mw_dumper s) p X) bs" "mw_crashing_thread_context s2 = crash_context_of (GetCrashThread s) (mw_crashing_thread_context s) ths"
proof -
  have fits: "unat (w_position (mw_writer s)) + 4 + n * 48 + 7 + n * 33841 < 2 ^ 32" using p by (simp add: thread_list_size_def)
  have "length ds * 12 \<le> a" using room by simp
  note D = directoryD [OF dir this]
  let ?l = "\<lparr>l_data_size = of_nat (4 + n * 48), l_rva = w_position (mw_writer s)\<rparr>"
  let ?d = "\<lparr>rd_type = 3, rd_location = ?l\<rparr>"
  obtain s1 ths X bs extra where r: "WriteThreadListStream s = Some (True, ?d, s1)" "writes s s1 X bs" "length X \<le> thread_list_size n" "length bs \<le> n * 2"
    "take (4 + n * 48) X = le_int 4 n @ concat (map thread_bytes ths)" "extra = -1 \<or> 0 \<le> mw_size_limit s \<and> extra = 2048"
    "threads_laid s extra (unat (w_position (mw_writer s))) X 0 (d_threads (mw_dumper s)) ths"
    "mw_crashing_thread_context s1 = crash_context_of (GetCrashThread s) (mw_crashing_thread_context s) ths"
    using WriteThreadListStream_spec [OF assms(1) D(1,2) assms(3,4) n assms(6) fits] unfolding thread_list_size_def stream_types(1) by blast
  note W = writesD [OF r(2)]
  have "length (concat (map thread_bytes ths)) = n * 48"
    using length_concat_const [of 48 "map thread_bytes ths"] threads_laid_length [OF r(7)] n by (simp add: list_all_iff)
  then have "lies_in p X ?l (le_int 4 n @ concat (map thread_bytes ths))"
    unfolding p(1) by (intro lies_in_take [OF r(5)]) (use fits in simp_all)
  then show ?thesis
    using put_dirent_directory [OF dir W(1,3) room, of ?d] r(3,4,6-8) W(5,6) p(1) writes_same [OF r(2)]
    by (intro that [OF r(1) refl]) (simp_all add: same_object_def i)
qed

end

lemma modules_step:
  assumes dir: "directory s dir img a ds Y" and n: "n = length (module_sources s)" and "list_all (module_ok (mw_dumper s)) (module_sources s)"
    and p: "p = unat (w_position (mw_writer s))" "p + module_list_size n < 2 ^ 32" and room: "(length ds + 1) * 12 \<le> a" and i: "i = length ds"
  obtains l s1 s2 mds X where
    "WriteMappings s = Some (True, at_dir 4 l, s1)" "s2 = put_dirent dir i (at_dir 4 l) s1" "directory s2 dir img a (ds @ [at_dir 4 l]) (Y @ X)"
    "length X \<le> module_list_size n" "lies_in p X l (le_int 4 n @ concat (map module_bytes mds))"
    "modules_laid (mw_dumper s) p X (module_sources s) mds" "same_state s s2"
proof -
  have fits: "unat (w_position (mw_writer s)) + 4 + n * 108 + 7 + n * 788 < 2 ^ 32" using p by (simp add: module_list_size_def)
  have "length ds * 12 \<le> a" using room by simp
  note D = directoryD [OF dir this]
  let ?l = "\<lparr>l_data_size = of_nat (4 + n * 108), l_rva = w_position (mw_writer s)\<rparr>"
  let ?d = "\<lparr>rd_type = 4, rd_location = ?l\<rparr>"
  obtain s1 mds X where r: "WriteMappings s = Some (True, ?d, s1)" "appends s s1 X" "length X \<le> module_list_size n"
    "take (4 + n * 108) X = le_int 4 n @ concat (map module_bytes mds)"
    "modules_laid (mw_dumper s) (unat (w_position (mw_writer s))) X (module_sources s) mds"
    using WriteMappings_spec [OF D(1,2) n assms(3) fits] unfolding module_list_size_def stream_types(2) by blast
  note A = appendsD [OF r(2)]
  have "length (concat (map module_bytes mds)) = n * 108"
    using length_concat_const [of 108 "map module_bytes mds"] modules_laid_length [OF r(5)] n by (simp add: list_all_iff)
  then have "lies_in p X ?l (le_int 4 n @ concat (map module_bytes mds))"
    unfolding p(1) by (intro lies_in_take [OF r(4)]) (use fits in simp_all)
  moreover have "same_state s (put_dirent dir (length ds) ?d s1)"
    using r(2) put_dirent_directory [OF dir A(1,3) room, of ?d] same_state_trans unfolding appends_iff by blast
  ultimately show ?thesis
    using put_dirent_directory [OF dir A(1,3) room, of ?d] r(3,5) p(1) by (intro that [OF r(1) refl]) (simp_all add: i)
qed

context process_copy
begin

lemma memory_step:
  assumes "d_copy (mw_dumper s) = copy" and dir: "directory s dir img a ds Y" and "list_all (\<lambda>(q, k). 0 < k) (mw_app_memory_list s)"
    and p: "p = unat (w_position (mw_writer s))" and A: "A = sum_list (map (\<lambda>(q, k). k + 7) (mw_app_memory_list s))"
    and k: "k = length (mw_memory_blocks s) + length (mw_app_memory_list s)" and fits: "p + A + 4 + k * 16 + 7 < 2 ^ 32"
    and room: "(length ds + 1) * 12 \<le> a" and i: "i = length ds"
  obtains l s1 s2 s3 bs X where
    "WriteAppMemory s = (True, s1)" "WriteMemoryListStream s1 = (True, at_dir 5 l, s2)" "s3 = put_dirent dir i (at_dir 5 l) s2"
    "directory s3 dir img a (ds @ [at_dir 5 l]) (Y @ X)" "length X \<le> A + 4 + k * 16 + 7" "k = length (mw_memory_blocks s @ bs)"
    "lies_in p X l (le_int 4 k @ concat (map desc_bytes (mw_memory_blocks s @ bs)))" "extents bs = mw_app_memory_list s"
    "list_all (laid (mw_dumper s) p X) bs" "mw_dumper s3 = mw_dumper s" "mw_crashing_thread_context s3 = mw_crashing_thread_context s"
proof -
  have "length ds * 12 \<le> a" using room by simp
  note D = directoryD [OF dir this]
  have "unat (w_position (mw_writer s)) + sum_list (map (\<lambda>(q, k). k + 7) (mw_app_memory_list s)) < 2 ^ 32" using fits p A by simp
  from write_app_memory_correct [OF assms(1) D(1,2) assms(3) this]
  obtain s1 X1 bs where s1: "WriteAppMemory s = (True, s1)" "writes s s1 X1 bs" "length X1 \<le> A" "extents bs = mw_app_memory_list s"
    "mw_dumper s1 = mw_dumper s" "mw_crashing_thread_context s1 = mw_crashing_thread_context s"
    unfolding WriteAppMemory_def extents_def A by blast
  note W = writesD [OF s1(2)]
  have "length bs = length (mw_app_memory_list s)" using s1(4) by (metis extents_def length_map)
  then have k1: "k = length (mw_memory_blocks s1)" using W(5) k by simp
  have fits1: "unat (w_position (mw_writer s1)) + 4 + k * 16 + 7 < 2 ^ 32" using W(9) s1(3) fits p by simp
  let ?data = "le_int 4 k @ concat (map desc_bytes (mw_memory_blocks s1))" and ?l = "\<lparr>l_data_size = of_nat (4 + k * 16), l_rva = w_position (mw_writer s1)\<rparr>"
  let ?X2 = "padded (mw_writer s1) ?data" and ?d = "\<lparr>rd_type = 5, rd_location = ?l\<rparr>"
  obtain w' where w': "WriteMemoryListStream s1 = (True, ?d, set_writer w' s1)" "grows (mw_pagesize s1) (mw_writer s1) w' ?X2"
    using WriteMemoryListStream_appends [OF W(7,8) k1 fits1] unfolding stream_types(3) by blast
  have len: "length ?data = 4 + k * 16"
    using length_concat_const [of 16 "map desc_bytes (mw_memory_blocks s1)"] k1 by (simp add: list_all_iff del: le_int_simps)
  have g: "grows (mw_pagesize s) (mw_writer s) (mw_writer (set_writer w' s1)) (X1 @ ?X2)"
    using grows_trans [OF W(1) w'(2) [unfolded W(3)]] by simp
  have pg: "mw_pagesize (set_writer w' s1) = mw_pagesize s" using W(3) by simp
  have "length ?X2 \<le> 4 + k * 16 + 7" unfolding length_padded len by (rule alloc_size_le)
  then have lX: "length (X1 @ ?X2) \<le> A + 4 + k * 16 + 7" using s1(3) by (subst length_append) linarith
  have "lies_in (unat (w_position (mw_writer s1))) ?X2 ?l ?data"
    unfolding padded_def using lies_in_here [of ?data "w_position (mw_writer s1)"] fits1 unfolding len by simp
  then have li: "lies_in p (X1 @ ?X2) ?l ?data" using W(9) p by (intro lies_in_prepend) simp
  have "list_all (laid (mw_dumper s) p (X1 @ ?X2)) bs" using W(6) p by (auto simp: list_all_iff intro: laid_append)
  then show ?thesis
    using put_dirent_directory [OF dir g pg room, of ?d] s1(4-6) lX li k1 unfolding W(5)
    by (intro that [OF s1(1) w'(1) refl]) (simp_all add: i del: le_int_simps)
qed

end

lemma exception_step:
  assumes dir: "directory s dir img a ds Y" and data: "exception_bytes s = Some data" and p: "p = unat (w_position (mw_writer s))" "p + 175 < 2 ^ 32"
    and room: "(length ds + 1) * 12 \<le> a" and i: "i = length ds"
  obtains l s1 s2 X where
    "WriteExceptionStream s = Some (True, at_dir 6 l, s1)" "s2 = put_dirent dir i (at_dir 6 l) s1" "directory s2 dir img a (ds @ [at_dir 6 l]) (Y @ X)"
    "length X \<le> 175" "lies_in p X l data" "same_state s s2"
proof -
  have "length ds * 12 \<le> a" using room by simp
  note D = directoryD [OF dir this]
  let ?l = "\<lparr>l_data_size = 168, l_rva = w_position (mw_writer s)\<rparr>"
  obtain w' X where r: "WriteExceptionStream s = Some (True, \<lparr>rd_type = 6, rd_location = ?l\<rparr>, set_writer w' s)"
    "grows (mw_pagesize s) (mw_writer s) (mw_writer (set_writer w' s)) X" "length X \<le> 175" "lies_in p X ?l data"
    using WriteExceptionStream_spec [OF D(1,2) data] p by auto
  have pg: "mw_pagesize (set_writer w' s) = mw_pagesize s" by simp
  show ?thesis
    using put_dirent_directory [OF dir r(2) pg room, of "at_dir 6 ?l"] r(3,4) by (intro that [OF r(1) refl]) (simp_all add: i)
qed

lemma system_step:
  assumes dir: "directory s dir img a ds Y" and "uname_ok (e_uname e)" and "cpu_information e s = Some info"
    and p: "p = unat (w_position (mw_writer s))" "p + 1098 < 2 ^ 32" and room: "(length ds + 1) * 12 \<le> a" and i: "i = length ds"
  obtains l s1 s2 X q where
    "WriteSystemInfoStream e s = Some (True, at_dir 7 l, s1)" "s2 = put_dirent dir i (at_dir 7 l) s1" "directory s2 dir img a (ds @ [at_dir 7 l]) (Y @ X)"
    "length X \<le> 1098" "lies_in p X l (sys_info_bytes (info\<lparr>si_platform_id := MD_OS_ANDROID_id, si_csd_version_rva := q\<rparr>))" "same_state s s2"
    "e_uname e \<noteq> None \<longrightarrow> (\<exists>cs. lies_in p X \<lparr>l_data_size = of_nat (length (mdstring_bytes cs)), l_rva = q\<rparr> (mdstring_bytes cs))"
proof -
  have "length ds * 12 \<le> a" using room by simp
  note D = directoryD [OF dir this]
  let ?l = "\<lparr>l_data_size = 56, l_rva = w_position (mw_writer s)\<rparr>"
  have "unat (w_position (mw_writer s)) + 1098 < 2 ^ 32" using p by simp
  from WriteSystemInfoStream_spec [OF D(1,2) assms(2,3) this] obtain w' X q where
    r: "WriteSystemInfoStream e s = Some (True, \<lparr>rd_type = 7, rd_location = ?l\<rparr>, set_writer w' s)" "length X \<le> 1098"
    "grows (mw_pagesize s) (mw_writer s) w' X"
    "lies_in p X ?l (sys_info_bytes (info\<lparr>si_platform_id := MD_OS_ANDROID_id, si_csd_version_rva := q\<rparr>))"
    "e_uname e \<noteq> None \<longrightarrow> (\<exists>cs. lies_in p X \<lparr>l_data_size = of_nat (length (mdstring_bytes cs)), l_rva = q\<rparr> (mdstring_bytes cs))"
    unfolding p(1) by blast
  have g: "grows (mw_pagesize s) (mw_writer s) (mw_writer (set_writer w' s)) X" "mw_pagesize (set_writer w' s) = mw_pagesize s" using r(3) by simp_all
  show ?thesis
    using put_dirent_directory [OF dir g room, of "at_dir 7 ?l"] r(2,4,5) by (intro that [OF r(1) refl]) (simp_all add: i)
qed

section \<open>The header\<close>

lemma length_header_bytes [simp]: "length (header_bytes t r) = 32"
  by (simp add: header_bytes_def)

text \<open>The header and an empty directory are at the start of a new file.\<close>

lemma Dump_start:
  assumes "winv (mw_pagesize s) (mw_writer s)" and "calm (mw_writer s)" and "w_position (mw_writer s) = 0"
  shows "\<exists>dir w a. Dump e s = write_streams e dir (set_writer w s) \<and> directory (set_writer w s) dir (header_bytes (e_time e) 32) a [] [] \<and>
    kNumWriters * 12 \<le> a \<and> a \<le> 163 \<and> same_mode (mw_writer s) w"
proof -
  let ?w = "mw_writer s" and ?pg = "mw_pagesize s"
  have img0: "w_image ?w = []" using assms(3) length_image [of ?w] by (simp only: unsigned_0 length_0_conv)
  have fits: "unat (w_position ?w) + 32 + 7 < 2 ^ 32" using assms(3) by simp
  obtain h w1 where w1: "Untyped_Allocate ?pg (of_nat 32) ?w = (True, h, w1)" "same_mode ?w w1"
    "list_area ?pg w1 h (w_image ?w) (replicate (alloc_size ?w 32) 0) []"
    using object_area [OF assms(1,2) _ fits] by auto
  have a32: "alloc_size ?w 32 = 32" by (simp add: alloc_size_def aligned8_def)
  have h: "list_area ?pg w1 h [] (replicate 32 0) []" using w1(3) unfolding img0 a32 .
  have inv1: "winv ?pg w1" "calm w1" "w_image w1 = replicate 32 0" using h by (simp_all add: list_area_def)
  have p1: "unat (w_position w1) = 32" using list_area_length [OF h] by simp
  then have wp1: "w_position w1 = 32" by (simp add: word_unat_eq_iff)
  have fits1: "unat (w_position w1) + 156 + 7 < 2 ^ 32" using p1 by simp
  obtain dir w2 where w2: "Untyped_Allocate ?pg (of_nat 156) w1 = (True, dir, w2)" "m_position dir = w_position w1" "same_mode w1 w2"
    "list_area ?pg w2 dir (w_image w1) (replicate (alloc_size w1 156) 0) []"
    using object_area [OF inv1(1,2) _ fits1] by auto
  let ?a = "alloc_size w1 156" and ?hb = "header_bytes (e_time e) (m_position dir)"
  have a: "156 \<le> ?a" "?a \<le> 163" using alloc_size_ge [of 156 w1] alloc_size_le [of w1 156] by simp_all
  have g: "grows ?pg w1 w2 (replicate ?a 0)" using list_area_complete [OF w2(4,3)] by simp
  have la: "list_area ?pg w2 h [] (replicate 32 0) (replicate ?a 0)" using list_area_grows [OF h g] by simp
  obtain w3 where w3: "Flush h ?hb w2 = (True, w3)" "same_mode w2 w3" "list_area ?pg w3 h [] (blit (replicate 32 0) 0 ?hb) (replicate ?a 0)"
    using list_area_flush [OF la, of ?hb] by auto
  have "blit (replicate 32 0) 0 ?hb = ?hb" by (simp add: blit_def)
  then have "list_area ?pg w3 dir ?hb (replicate ?a 0) []" using w3(3) w2(2) p1 by (simp add: list_area_def)
  then have "directory (set_writer w3 s) dir (header_bytes (e_time e) 32) ?a [] []"
    using w2(2) wp1 by (simp add: directory_def entries_area_nil)
  moreover have "Dump e s = write_streams e dir (set_writer w3 s)"
    using w1(1) w2(1) w3(1) by (simp add: Dump_def Typed_Allocate_def AllocateArray_def sizeof_MDRawHeader_def sizeof_MDRawDirectory_def kNumWriters_def)
  moreover have "same_mode ?w w3" using w1(2) w2(3) w3(2) by (blast intro: same_mode_trans)
  ultimately show ?thesis using a by (auto simp: kNumWriters_def)
qed

section \<open>Reading the directory\<close>

definition read_dir :: "bytes \<Rightarrow> raw_dir" where
  "read_dir bs = \<lparr>rd_type = le_nat (take 4 bs), rd_location = read_location (drop 4 bs)\<rparr>"

text \<open>A reader of the format takes the number and the position of the entries from the header.\<close>

definition read_directory :: "bytes \<Rightarrow> raw_dir list" where
  "read_directory img = read_entries read_dir 12 (le_nat (take 4 (drop 8 img))) (drop (le_nat (take 4 (drop 12 img))) img)"

lemma read_dir_bytes: "rd_type d < 2 ^ 32 \<Longrightarrow> read_dir (dir_bytes d) = d"
  by (simp add: read_dir_def dir_bytes_def del: le_int_simps)

lemma read_entries_prefix:
  "(\<And>x. x \<in> set xs \<Longrightarrow> length (enc x) = k \<and> dec (enc x) = x) \<Longrightarrow> read_entries dec k (length xs) (concat (map enc xs) @ Z) = xs"
  by (induction xs) auto

lemma directory_image:
  assumes "directory s dir img a ds Y" and "length ds * 12 \<le> a"
  shows "w_image (mw_writer s) = img @ concat (map dir_bytes ds) @ replicate (a - length ds * 12) 0 @ Y"
  using assms length_concat_const [OF dir_entries, of ds] by (simp add: directory_def list_area_def entries_area_def)

lemma read_directory_header:
  assumes "length ds = kNumWriters" and "list_all (\<lambda>d. rd_type d < 2 ^ 32) ds"
  shows "read_directory (header_bytes t 32 @ concat (map dir_bytes ds) @ Z) = ds"
proof -
  have "le_nat (take 4 (drop 8 (header_bytes t 32))) = kNumWriters" "le_nat (take 4 (drop 12 (header_bytes t 32))) = 32"
    by (simp_all add: header_bytes_def kNumWriters_def le_nat_store_int [OF unat_u32_lt] del: le_int_simps)
  then have "read_directory (header_bytes t 32 @ concat (map dir_bytes ds) @ Z) = read_entries read_dir 12 (length ds) (concat (map dir_bytes ds) @ Z)"
    using assms(1) by (simp add: read_directory_def)
  also have "\<dots> = ds" using assms(2) by (intro read_entries_prefix) (auto simp: list_all_iff read_dir_bytes)
  finally show ?thesis .
qed

section \<open>Threads, modules and memory\<close>

text \<open>What the first three streams leave: the lists at three locations and the data they refer to.\<close>

definition lists_laid ::
  "'f minidump_writer \<Rightarrow> nat \<Rightarrow> bytes \<Rightarrow> location \<Rightarrow> location \<Rightarrow> location \<Rightarrow> raw_thread list \<Rightarrow> raw_module list \<Rightarrow> mem_desc list \<Rightarrow> bool" where
  "lists_laid s k X l0 l1 l2 ths mds bs \<longleftrightarrow>
     lies_in k X l0 (le_int 4 (length ths) @ concat (map thread_bytes ths)) \<and>
     (\<exists>extra. (extra = -1 \<or> 0 \<le> mw_size_limit s \<and> extra = 2048) \<and> threads_laid s extra k X 0 (d_threads (mw_dumper s)) ths) \<and>
     lies_in k X l1 (le_int 4 (length mds) @ concat (map module_bytes mds)) \<and> modules_laid (mw_dumper s) k X (module_sources s) mds \<and>
     lies_in k X l2 (le_int 4 (length bs) @ concat (map desc_bytes bs)) \<and> list_all (laid (mw_dumper s) k X) bs \<and>
     (\<exists>xs. extents bs = xs @ mw_app_memory_list s)"

lemma laids_append: "list_all (laid d k X) bs \<Longrightarrow> list_all (laid d k (X @ Y)) bs"
  by (auto simp: list_all_iff laid_append)

lemma laids_prepend: "list_all (laid d (k + length Z) X) bs \<Longrightarrow> list_all (laid d k (Z @ X)) bs"
  by (auto simp: list_all_iff laid_prepend)

lemma lists_laid_append: "lists_laid s k X l0 l1 l2 ths mds bs \<Longrightarrow> lists_laid s k (X @ Y) l0 l1 l2 ths mds bs"
  unfolding lists_laid_def by (elim conjE exE) (intro conjI exI lies_in_append threads_laid_append modules_laid_append laids_append; assumption)

lemma lists_laid_prepend: "lists_laid s (k + length Z) X l0 l1 l2 ths mds bs \<Longrightarrow> lists_laid s k (Z @ X) l0 l1 l2 ths mds bs"
  unfolding lists_laid_def by (elim conjE exE) (intro conjI exI lies_in_prepend threads_laid_prepend modules_laid_prepend laids_prepend; assumption)

definition process_ok :: "'f minidump_writer \<Rightarrow> bool" where
  "process_ok s \<longleftrightarrow> machine_ok s \<and> \<not> mw_sanitize_stacks s \<and> list_all (module_ok (mw_dumper s)) (module_sources s) \<and>
     list_all (\<lambda>(i, tid). regs_ok (thread_regs s i tid)) (enumerate 0 (d_threads (mw_dumper s))) \<and>
     list_all (\<lambda>(q, k). 0 < k) (mw_app_memory_list s) \<and> length (d_crash_exception_info (mw_dumper s)) \<le> MD_EXCEPTION_MAXIMUM_PARAMETERS"

definition lists_size :: "'f minidump_writer \<Rightarrow> nat" where
  "lists_size s =
     (let n = length (d_threads (mw_dumper s)); apps = mw_app_memory_list s
      in thread_list_size n + module_list_size (length (module_sources s)) + sum_list (map (\<lambda>(q, k). k + 7) apps) + 4 + (n * 2 + length apps) * 16 + 7)"

lemma module_sources_same: "same_object s s' \<Longrightarrow> module_sources s' = module_sources s"
  by (auto simp: same_object_def same_process_def same_config_def module_sources_def dumper_sources_def HaveMappingInfo_def)

lemma lists_laidI:
  assumes "lies_in p X0 l0 (le_int 4 n @ concat (map thread_bytes ths))" and "extra = -1 \<or> 0 \<le> mw_size_limit s \<and> extra = 2048"
    and "threads_laid s extra p X0 0 (d_threads (mw_dumper s)) ths" and "n = length ths" and "m = length mds" and "k = length (bs0 @ bs)"
    and "lies_in (p + length X0) X1 l1 (le_int 4 m @ concat (map module_bytes mds))" and "modules_laid (mw_dumper s) (p + length X0) X1 (module_sources s) mds"
    and "lies_in (p + length X0 + length X1) X2 l2 (le_int 4 k @ concat (map desc_bytes (bs0 @ bs)))" and "extents bs = mw_app_memory_list s"
    and "list_all (laid (mw_dumper s) p X0) bs0" and "list_all (laid (mw_dumper s) (p + length X0 + length X1) X2) bs"
  shows "lists_laid s p ((X0 @ X1) @ X2) l0 l1 l2 ths mds (bs0 @ bs)"
proof -
  have q: "p + length X0 + length X1 = p + length (X0 @ X1)" by simp
  have "lies_in p ((X0 @ X1) @ X2) l2 (le_int 4 k @ concat (map desc_bytes (bs0 @ bs)))" "list_all (laid (mw_dumper s) p ((X0 @ X1) @ X2)) bs"
    by (intro lies_in_prepend assms(9) [unfolded q] laids_prepend assms(12) [unfolded q])+
  moreover have "list_all (laid (mw_dumper s) p ((X0 @ X1) @ X2)) bs0" by (intro laids_append assms(11))
  moreover have "lies_in p ((X0 @ X1) @ X2) l0 (le_int 4 n @ concat (map thread_bytes ths))" by (intro lies_in_append assms(1))
  moreover have "threads_laid s extra p ((X0 @ X1) @ X2) 0 (d_threads (mw_dumper s)) ths" by (intro threads_laid_append assms(3))
  moreover have "lies_in p ((X0 @ X1) @ X2) l1 (le_int 4 m @ concat (map module_bytes mds))" by (intro lies_in_append lies_in_prepend assms(7))
  moreover have "modules_laid (mw_dumper s) p ((X0 @ X1) @ X2) (module_sources s) mds" by (intro modules_laid_append modules_laid_prepend assms(8))
  moreover have "extents (bs0 @ bs) = extents bs0 @ mw_app_memory_list s" using assms(10) by (simp add: extents_def)
  ultimately show ?thesis using assms(2) unfolding lists_laid_def assms(4-6) list_all_append by blast
qed

context process_copy
begin

lemma first_streams:
  assumes cp: "d_copy (mw_dumper s) = copy" and dir: "directory s dir img a [] []" and ok: "process_ok s" and bl: "mw_memory_blocks s = []"
    and room: "36 \<le> a" and p: "p = length img + a" and fits: "p + lists_size s < 2 ^ 32"
  obtains l0 s1 s1' l1 s2 s2' s3 l2 s4 s' ths mds bs X where
    "WriteThreadListStream s = Some (True, at_dir 3 l0, s1)" "s1' = put_dirent dir 0 (at_dir 3 l0) s1"
    "WriteMappings s1' = Some (True, at_dir 4 l1, s2)" "s2' = put_dirent dir 1 (at_dir 4 l1) s2"
    "WriteAppMemory s2' = (True, s3)" "WriteMemoryListStream s3 = (True, at_dir 5 l2, s4)" "s' = put_dirent dir 2 (at_dir 5 l2) s4"
    "directory s' dir img a [at_dir 3 l0, at_dir 4 l1, at_dir 5 l2] X" "length X \<le> lists_size s" "lists_laid s p X l0 l1 l2 ths mds bs"
    "similar_process (mw_dumper s) (mw_dumper s')"
    "mw_crashing_thread_context s' = crash_context_of (GetCrashThread s) (mw_crashing_thread_context s) ths"
proof -
  let ?n = "length (d_threads (mw_dumper s))" and ?m = "length (module_sources s)" and ?apps = "mw_app_memory_list s"
  let ?A = "sum_list (map (\<lambda>(q, k). k + 7) ?apps)"
  have mo: "machine_ok s" "\<not> mw_sanitize_stacks s" "list_all (module_ok (mw_dumper s)) (module_sources s)"
    "list_all (\<lambda>(i, tid). regs_ok (thread_regs s i tid)) (enumerate 0 (d_threads (mw_dumper s)))" "list_all (\<lambda>(q, k). 0 < k) ?apps"
    using ok by (simp_all add: process_ok_def)
  have ls: "lists_size s = thread_list_size ?n + module_list_size ?m + ?A + 4 + (?n * 2 + length ?apps) * 16 + 7" by (simp add: lists_size_def Let_def)
  have h0: "p = unat (w_position (mw_writer s))" "p + thread_list_size ?n < 2 ^ 32" "(length ([] :: raw_dir list) + 1) * 12 \<le> a"
    using directoryD(3) [OF dir] p fits room unfolding ls by simp_all
  obtain l0 s1 s1' ths extra bs0 X0 where t1: "WriteThreadListStream s = Some (True, at_dir 3 l0, s1)" "s1' = put_dirent dir 0 (at_dir 3 l0) s1"
    "directory s1' dir img a ([] @ [at_dir 3 l0]) ([] @ X0)"
    "length X0 \<le> thread_list_size ?n" "lies_in p X0 l0 (le_int 4 ?n @ concat (map thread_bytes ths))" "extra = -1 \<or> 0 \<le> mw_size_limit s \<and> extra = 2048"
    "threads_laid s extra p X0 0 (d_threads (mw_dumper s)) ths" "same_object s s1'" "mw_memory_blocks s1' = mw_memory_blocks s @ bs0" "length bs0 \<le> ?n * 2"
    "list_all (laid (mw_dumper s) p X0) bs0" "mw_crashing_thread_context s1' = crash_context_of (GetCrashThread s) (mw_crashing_thread_context s) ths"
    by (rule threads_step [OF cp dir mo(1,2) refl mo(4) h0 list.size(3) [symmetric]])
  have sp1: "same_process (mw_dumper s) (mw_dumper s1')" "same_config s s1'" using t1(8) by (simp_all add: same_object_def)
  note sim1 = same_similar [OF sp1(1)] and src = module_sources_same [OF t1(8)]
  have h1: "list_all (module_ok (mw_dumper s1')) (module_sources s1')" "p + length X0 = unat (w_position (mw_writer s1'))"
    "p + length X0 + module_list_size ?m < 2 ^ 32" "(length ([] @ [at_dir 3 l0]) + 1) * 12 \<le> a" "(1 :: nat) = length ([] @ [at_dir 3 l0])"
    using mo(3) module_laid_similar(2) [OF sim1] src fits t1(4) room directoryD(3) [OF t1(3)] p unfolding ls by simp_all
  obtain l1 s2 s2' mds X1 where t2: "WriteMappings s1' = Some (True, at_dir 4 l1, s2)" "s2' = put_dirent dir 1 (at_dir 4 l1) s2"
    "directory s2' dir img a (([] @ [at_dir 3 l0]) @ [at_dir 4 l1]) (([] @ X0) @ X1)" "length X1 \<le> module_list_size ?m"
    "lies_in (p + length X0) X1 l1 (le_int 4 ?m @ concat (map module_bytes mds))"
    "modules_laid (mw_dumper s1') (p + length X0) X1 (module_sources s1') mds" "same_state s1' s2'"
    by (rule modules_step [OF t1(3) arg_cong [OF src, of length, symmetric] h1])
  have c2: "same_config s s2'" "similar_process (mw_dumper s) (mw_dumper s2')" "mw_memory_blocks s2' = bs0"
    "mw_crashing_thread_context s2' = mw_crashing_thread_context s1'"
    using t2(7) t1(9) bl sp1(2) same_config_trans similar_process_trans [OF sim1] unfolding same_state_def by auto
  have apps: "mw_app_memory_list s2' = ?apps" using c2(1) by (simp add: same_config_def)
  let ?k = "length (mw_memory_blocks s2') + length ?apps" and ?p2 = "p + length X0 + length X1"
  have h2: "d_copy (mw_dumper s2') = copy" "?p2 = unat (w_position (mw_writer s2'))" "?p2 + ?A + 4 + ?k * 16 + 7 < 2 ^ 32"
    "(length (([] @ [at_dir 3 l0]) @ [at_dir 4 l1]) + 1) * 12 \<le> a" "2 = length (([] @ [at_dir 3 l0]) @ [at_dir 4 l1])"
    using similar_processD(1) [OF c2(2)] cp directoryD(3) [OF t2(3)] fits t1(4,10) t2(4) room p c2(3) unfolding ls by simp_all
  obtain l2 s3 s4 s' bs X2 where t3: "WriteAppMemory s2' = (True, s3)" "WriteMemoryListStream s3 = (True, at_dir 5 l2, s4)" "s' = put_dirent dir 2 (at_dir 5 l2) s4"
    "directory s' dir img a ((([] @ [at_dir 3 l0]) @ [at_dir 4 l1]) @ [at_dir 5 l2]) ((([] @ X0) @ X1) @ X2)" "length X2 \<le> ?A + 4 + ?k * 16 + 7"
    "?k = length (mw_memory_blocks s2' @ bs)" "lies_in ?p2 X2 l2 (le_int 4 ?k @ concat (map desc_bytes (mw_memory_blocks s2' @ bs)))" "extents bs = ?apps"
    "list_all (laid (mw_dumper s2') ?p2 X2) bs" "mw_dumper s' = mw_dumper s2'" "mw_crashing_thread_context s' = mw_crashing_thread_context s2'"
    by (rule memory_step [OF h2(1) t2(3) mo(5) [folded apps] h2(2) refl refl, unfolded apps, OF h2(3-5)])
  have "laid (mw_dumper s2') = laid (mw_dumper s)" using similar_processD(1) [OF c2(2)] by (intro ext) (simp add: laid_def)
  moreover have "modules_laid (mw_dumper s) (p + length X0) X1 (module_sources s) mds" using t2(6) unfolding modules_laid_similar [OF sim1] src .
  moreover have "?n = length ths" "?m = length mds" using threads_laid_length [OF t1(7)] modules_laid_length [OF t2(6)] src by simp_all
  ultimately have "lists_laid s p ((X0 @ X1) @ X2) l0 l1 l2 ths mds (bs0 @ bs)"
    using lists_laidI [OF t1(5-7) _ _ _ t2(5) _ t3(7) [unfolded c2(3)] t3(8) t1(11)] t3(6,9) c2(3) by simp
  moreover have "length ((X0 @ X1) @ X2) \<le> lists_size s" using t1(4,10) t2(4) t3(5) c2(3) unfolding ls by simp
  ultimately show ?thesis
    using t3(4,10,11) c2(2,4) t1(12) by (intro that [OF t1(1,2) t2(1,2) t3(1-3), of "(X0 @ X1) @ X2" ths mds "bs0 @ bs"]) simp_all
qed

end

section \<open>The other streams\<close>

definition system_ok :: "dump_inputs \<Rightarrow> bool" where
  "system_ok e \<longleftrightarrow> uname_ok (e_uname e) \<and> sys_file_ok (e_present e) \<and> sys_file_ok (e_possible e) \<and> length (e_garbage e) = 512 \<and> length (e_pad e) = 4"

text \<open>The files can be read to their ends, with the fuel given, and the lines of \<open>/proc/cpuinfo\<close> fit into the buffer of the line reader.\<close>

definition files_ok :: "('f \<Rightarrow> bytes) \<Rightarrow> dump_inputs \<Rightarrow> 'f minidump_writer \<Rightarrow> bool" where
  "files_ok content e s \<longleftrightarrow> read_contract (d_read (mw_dumper s)) content \<and> read_never_fails (d_read (mw_dumper s)) \<and>
     list_all (\<lambda>(t, st). optional_ok content e s st) optional_streams \<and>
     (\<forall>f. d_open (mw_dumper s) (chars ''/proc/cpuinfo'') = Some f \<longrightarrow>
        (\<forall>l\<in>set (lines_of (content f)). length l < kMaxLineLen) \<and> length (lines_of (content f)) < e_fuel e)"

definition others_size :: "('f \<Rightarrow> bytes) \<Rightarrow> dump_inputs \<Rightarrow> 'f minidump_writer \<Rightarrow> nat" where
  "others_size content e s = 1273 + sum_list (map (\<lambda>(t, st). optional_size content e s st) optional_streams)"

lemma cpu_information_total: "system_ok e \<Longrightarrow> files_ok content e s \<Longrightarrow> \<exists>info. cpu_information e s = Some info"
  unfolding cpu_information_def system_ok_def files_ok_def by (intro WriteCPUInformation_total [where content = content]) auto

lemma cpu_information_same: "similar_process (mw_dumper s) (mw_dumper s') \<Longrightarrow> cpu_information e s' = cpu_information e s"
  by (simp add: cpu_information_def similar_processD)

lemma proc_names: "list_all (\<lambda>(t, st). \<forall>p. st = Proc_Stream p \<longrightarrow> proc_name p) optional_streams"
  by (simp add: optional_streams_def proc_name_def chars_def)

lemma length_optional_streams [simp]: "length optional_streams = 8"
  by (simp add: optional_streams_def)

text \<open>What the other streams leave.\<close>

definition others_laid ::
  "('f \<Rightarrow> bytes) \<Rightarrow> dump_inputs \<Rightarrow> 'f minidump_writer \<Rightarrow> nat \<Rightarrow> bytes \<Rightarrow> location \<Rightarrow> location \<Rightarrow> bytes \<Rightarrow> location option list \<Rightarrow> bool" where
  "others_laid content e s k X l3 l4 data ls \<longleftrightarrow> lies_in k X l3 data \<and>
     (\<exists>info q. cpu_information e s = Some info \<and> lies_in k X l4 (sys_info_bytes (info\<lparr>si_platform_id := MD_OS_ANDROID_id, si_csd_version_rva := q\<rparr>)) \<and>
        (e_uname e \<noteq> None \<longrightarrow> (\<exists>cs. lies_in k X \<lparr>l_data_size = of_nat (length (mdstring_bytes cs)), l_rva = q\<rparr> (mdstring_bytes cs)))) \<and>
     list_all2 (\<lambda>(t, st) l. optional_laid content e s k X st l) optional_streams ls"

lemma others_laid_prepend: "others_laid content e s (k + length Z) X l3 l4 data ls \<Longrightarrow> others_laid content e s k (Z @ X) l3 l4 data ls"
proof -
  assume h: "others_laid content e s (k + length Z) X l3 l4 data ls"
  then have "list_all2 (\<lambda>(t, st) l. optional_laid content e s k (Z @ X) st l) optional_streams ls"
    unfolding others_laid_def by (intro optionals_laid_prepend) blast
  then show ?thesis using h unfolding others_laid_def by (meson lies_in_prepend)
qed

lemma others_laidI:
  assumes "lies_in p X0 l3 data" and "cpu_information e s = Some info"
    and "lies_in (p + length X0) X1 l4 (sys_info_bytes (info\<lparr>si_platform_id := MD_OS_ANDROID_id, si_csd_version_rva := q\<rparr>))"
    and "e_uname e \<noteq> None \<longrightarrow> (\<exists>cs. lies_in (p + length X0) X1 \<lparr>l_data_size = of_nat (length (mdstring_bytes cs)), l_rva = q\<rparr> (mdstring_bytes cs))"
    and "list_all2 (\<lambda>(t, st) l. optional_laid content e s (p + length X0 + length X1) X2 st l) optional_streams ls"
  shows "others_laid content e s p ((X0 @ X1) @ X2) l3 l4 data ls"
proof -
  have q: "p + length X0 + length X1 = p + length (X0 @ X1)" by simp
  have "lies_in p ((X0 @ X1) @ X2) l3 data" by (intro lies_in_append assms(1))
  moreover have "lies_in p ((X0 @ X1) @ X2) l4 (sys_info_bytes (info\<lparr>si_platform_id := MD_OS_ANDROID_id, si_csd_version_rva := q\<rparr>))"
    by (intro lies_in_append lies_in_prepend assms(3))
  moreover have "e_uname e \<noteq> None \<longrightarrow> (\<exists>cs. lies_in p ((X0 @ X1) @ X2) \<lparr>l_data_size = of_nat (length (mdstring_bytes cs)), l_rva = q\<rparr> (mdstring_bytes cs))"
    using assms(4) by (meson lies_in_append lies_in_prepend)
  moreover have "list_all2 (\<lambda>(t, st) l. optional_laid content e s p ((X0 @ X1) @ X2) st l) optional_streams ls"
    by (rule optionals_laid_prepend, rule assms(5) [unfolded q])
  ultimately show ?thesis unfolding others_laid_def using assms(2) by blast
qed

context process_copy
begin

lemma last_streams:
  assumes cp: "d_copy (mw_dumper s) = copy" and dir: "directory s dir img a ds Y" and ds: "3 = length ds" and room: "kNumWriters * 12 \<le> a"
    and data: "exception_bytes s = Some data" and sys: "system_ok e" and files: "files_ok content e s"
    and p: "p = length img + a + length Y" and fits: "p + others_size content e s < 2 ^ 32"
  obtains l3 s1 s1' l4 s2 s2' s' X ls where
    "WriteExceptionStream s = Some (True, at_dir 6 l3, s1)" "s1' = put_dirent dir 3 (at_dir 6 l3) s1"
    "WriteSystemInfoStream e s1' = Some (True, at_dir 7 l4, s2)" "s2' = put_dirent dir 4 (at_dir 7 l4) s2"
    "write_optionals e dir 5 optional_streams s2' = Some s'"
    "directory s' dir img a (((ds @ [at_dir 6 l3]) @ [at_dir 7 l4]) @ file_dirents optional_streams ls) (Y @ X)" "length X \<le> others_size content e s"
    "others_laid content e s p X l3 l4 data ls" "same_state s s'"
proof -
  let ?O = "\<lambda>s. sum_list (map (\<lambda>(t, st). optional_size content e s st) optional_streams)"
  obtain info where info: "cpu_information e s = Some info" using cpu_information_total [OF sys files] by blast
  have h0: "p = unat (w_position (mw_writer s))" "p + 175 < 2 ^ 32" "(length ds + 1) * 12 \<le> a"
    using directoryD(3) [OF dir] p fits room ds by (simp_all add: kNumWriters_def others_size_def)
  obtain l3 s1 s1' X0 where t1: "WriteExceptionStream s = Some (True, at_dir 6 l3, s1)" "s1' = put_dirent dir 3 (at_dir 6 l3) s1"
    "directory s1' dir img a (ds @ [at_dir 6 l3]) (Y @ X0)" "length X0 \<le> 175" "lies_in p X0 l3 data" "same_state s s1'"
    by (rule exception_step [OF dir data h0 ds])
  have sim1: "similar_process (mw_dumper s) (mw_dumper s1')" using t1(6) by (simp add: same_state_def)
  have h1: "uname_ok (e_uname e)" "cpu_information e s1' = Some info" "p + length X0 = unat (w_position (mw_writer s1'))" "p + length X0 + 1098 < 2 ^ 32"
    "(length (ds @ [at_dir 6 l3]) + 1) * 12 \<le> a" "4 = length (ds @ [at_dir 6 l3])"
    using sys info cpu_information_same [OF sim1] directoryD(3) [OF t1(3)] p fits t1(4) room ds by (simp_all add: system_ok_def kNumWriters_def others_size_def)
  obtain l4 s2 s2' X1 q where t2: "WriteSystemInfoStream e s1' = Some (True, at_dir 7 l4, s2)" "s2' = put_dirent dir 4 (at_dir 7 l4) s2"
    "directory s2' dir img a ((ds @ [at_dir 6 l3]) @ [at_dir 7 l4]) ((Y @ X0) @ X1)" "length X1 \<le> 1098"
    "lies_in (p + length X0) X1 l4 (sys_info_bytes (info\<lparr>si_platform_id := MD_OS_ANDROID_id, si_csd_version_rva := q\<rparr>))" "same_state s1' s2'"
    "e_uname e \<noteq> None \<longrightarrow> (\<exists>cs. lies_in (p + length X0) X1 \<lparr>l_data_size = of_nat (length (mdstring_bytes cs)), l_rva = q\<rparr> (mdstring_bytes cs))"
    by (rule system_step [OF t1(3) h1])
  have st2: "same_state s s2'" by (rule same_state_trans [OF t1(6) t2(6)])
  then have sim2: "similar_process (mw_dumper s) (mw_dumper s2')" by (simp add: same_state_def)
  let ?ds = "(ds @ [at_dir 6 l3]) @ [at_dir 7 l4]" and ?p2 = "p + length X0 + length X1"
  have p2: "unat (w_position (mw_writer s2')) = ?p2" using directoryD(3) [OF t2(3)] p room ds by (simp add: kNumWriters_def)
  have h2: "d_copy (mw_dumper s2') = copy" "read_contract (d_read (mw_dumper s2')) content" "read_never_fails (d_read (mw_dumper s2'))" "length (e_pad e) = 4"
    "list_all (\<lambda>(t, st). (\<forall>p. st = Proc_Stream p \<longrightarrow> proc_name p) \<and> optional_ok content e s2' st) optional_streams"
    "(length ?ds + length optional_streams) * 12 \<le> a" "unat (w_position (mw_writer s2')) + ?O s2' < 2 ^ 32"
    using similar_processD(1,10) [OF sim2] cp files sys proc_names p2 fits t1(4) t2(4) room ds optional_same [OF sim2]
    by (auto simp: files_ok_def system_ok_def list_all_iff kNumWriters_def others_size_def)
  obtain s' ls X2 where t3: "write_optionals e dir (length ?ds) optional_streams s2' = Some s'" "same_state s2' s'"
    "directory s' dir img a (?ds @ file_dirents optional_streams ls) (((Y @ X0) @ X1) @ X2)" "length X2 \<le> ?O s2'"
    "list_all2 (\<lambda>(t, st) l. optional_laid content e s2' (unat (w_position (mw_writer s2'))) X2 st l) optional_streams ls"
    using write_optionals_spec [OF h2(1) t2(3) h2(2-7)] by blast
  have "others_laid content e s p ((X0 @ X1) @ X2) l3 l4 data ls"
    using others_laidI [OF t1(5) info t2(5,7)] t3(5) unfolding optionals_laid_same [OF sim2] p2 .
  moreover have "length ((X0 @ X1) @ X2) \<le> others_size content e s" using t1(4) t2(4) t3(4) optional_same(2) [OF sim2] by (simp add: others_size_def)
  moreover have "same_state s s'" by (rule same_state_trans [OF st2 t3(2)])
  ultimately show ?thesis using t3(1,3) ds by (intro that [OF t1(1,2) t2(1,2)]) (simp_all add: eval_nat_numeral)
qed

end

section \<open>The whole dump\<close>

lemma lies_in_file0: "lies_in 0 img l bs \<Longrightarrow> file_bytes img l = bs"
  using lies_in_file [of "[]" img l bs] by simp

lemma read_list_laid:
  assumes "lies_in 0 img l (le_int 4 (length xs) @ concat (map enc xs))" and "\<And>x. length (enc x) = k \<and> dec (enc x) = x" and "0 < k"
  shows "read_list dec k (file_bytes img l) = Some xs"
proof -
  have "length (concat (map enc xs)) = length xs * k" using length_concat_const [of k "map enc xs"] assms(2) by (simp add: list_all_iff)
  then have "unat (l_data_size l) = 4 + length xs * k" using assms(1) by (simp add: lies_in_def del: le_int_simps)
  moreover have "length xs \<le> length xs * k" using assms(3) by simp
  moreover have "unat (l_data_size l) < 2 ^ 32" using unsigned_less [of "l_data_size l", where ?'a = nat] by simp
  ultimately have "length xs < 2 ^ 32" by linarith
  then show ?thesis using read_list_concat [of xs enc k dec] assms(2) unfolding lies_in_file0 [OF assms(1)] by simp
qed

lemma file_dirents_types: "list_all (\<lambda>d. rd_type d < 2 ^ 32) (file_dirents optional_streams ls)"
proof -
  have "list_all (\<lambda>(t, st). stream_type t < 2 ^ 32) optional_streams" by (simp add: optional_streams_def stream_type_def MDStreamType_def)
  then show ?thesis
    by (auto simp: file_dirents_def file_dirent_def null_dirent_def list_all_iff dest!: set_zip_leftD split: option.split)
qed

lemma exception_bytes_similar:
  assumes "similar_process (mw_dumper s) (mw_dumper s')"
  shows "exception_bytes s' = exception_bytes (s\<lparr>mw_dumper := (mw_dumper s)\<lparr>d_crash_address := d_crash_address (mw_dumper s')\<rparr>,
    mw_crashing_thread_context := mw_crashing_thread_context s'\<rparr>)"
  using similar_processD [OF assms] by (simp add: exception_bytes_def Let_def)

context process_copy
begin

lemma write_streams_spec:
  assumes cp: "d_copy (mw_dumper s) = copy" and dir: "directory s dir img a [] []" and ok: "process_ok s" and bl: "mw_memory_blocks s = []"
    and sys: "system_ok e" and files: "files_ok content e s" and room: "kNumWriters * 12 \<le> a" and p: "p = length img + a"
    and fits: "p + lists_size s + others_size content e s < 2 ^ 32"
  obtains s' l0 l1 l2 l3 l4 X Z ls ths mds bs addr data where "write_streams e dir s = Some (True, s')"
    "directory s' dir img a ([at_dir 3 l0, at_dir 4 l1, at_dir 5 l2, at_dir 6 l3, at_dir 7 l4] @ file_dirents optional_streams ls) (X @ Z)"
    "lists_laid s p X l0 l1 l2 ths mds bs" "others_laid content e s (p + length X) Z l3 l4 data ls"
    "exception_bytes (s\<lparr>mw_dumper := (mw_dumper s)\<lparr>d_crash_address := addr\<rparr>,
       mw_crashing_thread_context := crash_context_of (GetCrashThread s) (mw_crashing_thread_context s) ths\<rparr>) = Some data"
proof -
  have h0: "36 \<le> a" "p + lists_size s < 2 ^ 32" using room fits by (simp_all add: kNumWriters_def)
  obtain l0 s1 s1' l1 s2 s2' s3 l2 s4 t ths mds bs X where f:
    "WriteThreadListStream s = Some (True, at_dir 3 l0, s1)" "s1' = put_dirent dir 0 (at_dir 3 l0) s1"
    "WriteMappings s1' = Some (True, at_dir 4 l1, s2)" "s2' = put_dirent dir 1 (at_dir 4 l1) s2"
    "WriteAppMemory s2' = (True, s3)" "WriteMemoryListStream s3 = (True, at_dir 5 l2, s4)" "t = put_dirent dir 2 (at_dir 5 l2) s4"
    "directory t dir img a [at_dir 3 l0, at_dir 4 l1, at_dir 5 l2] X" "length X \<le> lists_size s" "lists_laid s p X l0 l1 l2 ths mds bs"
    "similar_process (mw_dumper s) (mw_dumper t)"
    "mw_crashing_thread_context t = crash_context_of (GetCrashThread s) (mw_crashing_thread_context s) ths"
    by (rule first_streams [OF cp dir ok bl h0(1) p h0(2)])
  note S = similar_processD [OF f(11)] and O = optional_same [OF f(11)]
  obtain data where data: "exception_bytes t = Some data"
    using ok S(7) by (auto simp: exception_bytes_def process_ok_def Let_def)
  have h1: "d_copy (mw_dumper t) = copy" "files_ok content e t" "p + length X + others_size content e t < 2 ^ 32"
    using cp files fits f(9) S O by (simp_all add: files_ok_def others_size_def)
  obtain l3 t1 t1' l4 t2 t2' s' Z ls where g:
    "WriteExceptionStream t = Some (True, at_dir 6 l3, t1)" "t1' = put_dirent dir 3 (at_dir 6 l3) t1"
    "WriteSystemInfoStream e t1' = Some (True, at_dir 7 l4, t2)" "t2' = put_dirent dir 4 (at_dir 7 l4) t2"
    "write_optionals e dir 5 optional_streams t2' = Some s'"
    "directory s' dir img a ((([at_dir 3 l0, at_dir 4 l1, at_dir 5 l2] @ [at_dir 6 l3]) @ [at_dir 7 l4]) @ file_dirents optional_streams ls) (X @ Z)"
    "length Z \<le> others_size content e t" "others_laid content e t (p + length X) Z l3 l4 data ls" "same_state t s'"
    by (rule last_streams [OF h1(1) f(8) _ room data sys h1(2) arg_cong [OF p, of "\<lambda>n. n + length X"] h1(3)]) simp
  have "write_streams e dir s = Some (True, s')"
    using f(1,3,5,6) g(1,3,5) unfolding write_streams_def f(2,4,7) g(2,4) by simp
  moreover have "others_laid content e s (p + length X) Z l3 l4 data ls"
    using g(8) unfolding others_laid_def O cpu_information_same [OF f(11)] .
  ultimately show ?thesis
    using g(6) f(10) data exception_bytes_similar [OF f(11)] f(12) by (intro that [of s' l0 l1 l2 l3 l4 ls X Z ths mds bs data]) simp_all
qed

end

lemma exception_bytes_cong:
  "mw_dumper s' = mw_dumper s \<Longrightarrow> mw_crashing_thread_context s' = mw_crashing_thread_context s \<Longrightarrow> exception_bytes s' = exception_bytes s"
  by (simp only: exception_bytes_def)

lemma exception_bytes_set_writer:
  "exception_bytes ((set_writer w s)\<lparr>mw_dumper := d, mw_crashing_thread_context := c\<rparr>) = exception_bytes (s\<lparr>mw_dumper := d, mw_crashing_thread_context := c\<rparr>)"
  by (rule exception_bytes_cong) (simp_all add: set_writer_def)

lemma set_writer_laid:
  "lists_laid (set_writer w s) = lists_laid s" "others_laid content e (set_writer w s) = others_laid content e s"
  "process_ok (set_writer w s) = process_ok s" "files_ok content e (set_writer w s) = files_ok content e s"
  "lists_size (set_writer w s) = lists_size s" "others_size content e (set_writer w s) = others_size content e s"
proof -
  have so: "same_object s (set_writer w s)" "similar_process (mw_dumper s) (mw_dumper (set_writer w s))" by (simp_all add: same_object_def)
  have cfg: "mw_app_memory_list (set_writer w s) = mw_app_memory_list s" "mw_size_limit (set_writer w s) = mw_size_limit s" by (simp_all add: set_writer_def)
  note o = same_objectD [OF so(1)] threads_laid_same [OF so(1)] module_sources_same [OF so(1)] optional_same [OF so(2)] cpu_information_same [OF so(2)] cfg
  show "lists_laid (set_writer w s) = lists_laid s" "others_laid content e (set_writer w s) = others_laid content e s"
    by (intro ext, simp only: lists_laid_def others_laid_def o writer_updates)+
  show "process_ok (set_writer w s) = process_ok s" "files_ok content e (set_writer w s) = files_ok content e s"
    "lists_size (set_writer w s) = lists_size s" "others_size content e (set_writer w s) = others_size content e s"
    by (simp_all only: process_ok_def files_ok_def lists_size_def others_size_def o writer_updates)
qed

lemma Dump_laid:
  assumes "d_copy (mw_dumper s) = ptrace_copy (peek_of mem)" and "winv (mw_pagesize s) (mw_writer s)" and "calm (mw_writer s)"
    and "w_position (mw_writer s) = 0" and "mw_memory_blocks s = []" and "process_ok s" and "system_ok e" and "files_ok content e s"
    and "195 + lists_size s + others_size content e s < 2 ^ 32"
  obtains s' l0 l1 l2 l3 l4 ls ths mds bs addr data where "Dump e s = Some (True, s')" "take 32 (w_image (mw_writer s')) = header_bytes (e_time e) 32"
    "read_directory (w_image (mw_writer s')) = [at_dir 3 l0, at_dir 4 l1, at_dir 5 l2, at_dir 6 l3, at_dir 7 l4] @ file_dirents optional_streams ls"
    "lists_laid s 0 (w_image (mw_writer s')) l0 l1 l2 ths mds bs" "others_laid content e s 0 (w_image (mw_writer s')) l3 l4 data ls"
    "exception_bytes (s\<lparr>mw_dumper := (mw_dumper s)\<lparr>d_crash_address := addr\<rparr>,
       mw_crashing_thread_context := crash_context_of (GetCrashThread s) (mw_crashing_thread_context s) ths\<rparr>) = Some data"
proof -
  let ?h = "header_bytes (e_time e) 32"
  obtain dir w a where st: "Dump e s = write_streams e dir (set_writer w s)" "directory (set_writer w s) dir ?h a [] []" "kNumWriters * 12 \<le> a" "a \<le> 163"
    using Dump_start [OF assms(2-4)] by blast
  let ?s = "set_writer w s" and ?p = "length ?h + a"
  have h: "d_copy (mw_dumper ?s) = ptrace_copy (peek_of mem)" "process_ok ?s" "mw_memory_blocks ?s = []" "files_ok content e ?s"
    "?p + lists_size ?s + others_size content e ?s < 2 ^ 32"
    using assms(1,5,6,8,9) st(4) unfolding set_writer_laid by simp_all
  obtain s' l0 l1 l2 l3 l4 X Z ls ths mds bs addr data where r: "write_streams e dir ?s = Some (True, s')"
    "directory s' dir ?h a ([at_dir 3 l0, at_dir 4 l1, at_dir 5 l2, at_dir 6 l3, at_dir 7 l4] @ file_dirents optional_streams ls) (X @ Z)"
    "lists_laid ?s ?p X l0 l1 l2 ths mds bs" "others_laid content e ?s (?p + length X) Z l3 l4 data ls"
    "exception_bytes (?s\<lparr>mw_dumper := (mw_dumper ?s)\<lparr>d_crash_address := addr\<rparr>,
       mw_crashing_thread_context := crash_context_of (GetCrashThread ?s) (mw_crashing_thread_context ?s) ths\<rparr>) = Some data"
    by (rule pc.write_streams_spec [OF h(1) st(2) h(2,3) assms(7) h(4) st(3) refl h(5)])
  define ds where "ds = [at_dir 3 l0, at_dir 4 l1, at_dir 5 l2, at_dir 6 l3, at_dir 7 l4] @ file_dirents optional_streams ls"
  define D where "D = ?h @ concat (map dir_bytes ds) @ replicate (a - length ds * 12) 0"
  let ?img = "w_image (mw_writer s')"
  have "length ls = 8" using r(4) list_all2_lengthD unfolding others_laid_def by fastforce
  then have len: "length ds = kNumWriters" by (simp add: ds_def file_dirents_def kNumWriters_def)
  have room: "length ds * 12 \<le> a" using st(3) len by simp
  have img: "?img = D @ X @ Z" using directory_image [OF r(2) [folded ds_def] room] by (simp only: D_def append_assoc)
  have lD: "length D = ?p" using room length_concat_const [OF dir_entries, of ds] by (simp add: D_def)
  have L: "lists_laid s 0 ?img l0 l1 l2 ths mds bs"
    unfolding img using r(3) lD by (intro lists_laid_prepend lists_laid_append) (simp add: set_writer_laid)
  have "others_laid content e s 0 ((D @ X) @ Z) l3 l4 data ls" using r(4) lD by (intro others_laid_prepend) (simp add: set_writer_laid)
  then have M: "others_laid content e s 0 ?img l3 l4 data ls" unfolding img by (simp only: append_assoc)
  have "list_all (\<lambda>d. rd_type d < 2 ^ 32) ds" using file_dirents_types by (simp add: ds_def)
  then have dirs: "read_directory ?img = ds" unfolding img D_def using read_directory_header [OF len] by (simp only: append_assoc)
  have exc: "exception_bytes (s\<lparr>mw_dumper := (mw_dumper s)\<lparr>d_crash_address := addr\<rparr>,
      mw_crashing_thread_context := crash_context_of (GetCrashThread s) (mw_crashing_thread_context s) ths\<rparr>) = Some data"
    using r(5) unfolding exception_bytes_set_writer writer_updates GetCrashThread_set_writer .
  have "take 32 ?img = ?h" unfolding img D_def by simp
  then show ?thesis by (rule that [OF r(1) [folded st(1)] _ dirs [unfolded ds_def] L M exc])
qed

text \<open>
  C2. The dump is complete and consistent. A new writer on an empty file, for a stopped process whose registers, files and names can be read, writes the whole
  minidump: \<open>Dump\<close> returns \<open>true\<close>, the file starts with the header, and a reader who follows the header finds a directory of thirteen entries. The first five
  are the lists of threads, modules and memory, the exception and the system; the others are the copies of files and the shared objects, with an entry of zeros for
  one that is missing. The lists have one entry for every thread and every module, and all memory blocks; every location in them names bytes of the file that hold what the entry
  stands for, the context of the exception is the one of the crashing thread in the list of threads, and a copied file is the whole file. No stream
  and no later entry of the directory overwrites any of it.
\<close>

theorem Dump_correct:
  assumes "d_copy (mw_dumper s) = ptrace_copy (peek_of mem)" and "winv (mw_pagesize s) (mw_writer s)" and "calm (mw_writer s)"
    and "w_position (mw_writer s) = 0" and "mw_memory_blocks s = []" and "process_ok s" and "system_ok e" and "files_ok content e s"
    and "195 + lists_size s + others_size content e s < 2 ^ 32"
  shows "\<exists>s' img ds ths extra mds bs xs addr info q ls.
    Dump e s = Some (True, s') \<and> img = w_image (mw_writer s') \<and> take 32 img = header_bytes (e_time e) 32 \<and> read_directory img = ds \<and>
    map rd_type (take 5 ds) = [3, 4, 5, 6, 7] \<and> drop 5 ds = file_dirents optional_streams ls \<and>
    read_list read_thread 48 (file_bytes img (rd_location (ds ! 0))) = Some ths \<and>
    (extra = -1 \<or> 0 \<le> mw_size_limit s \<and> extra = 2048) \<and> threads_laid s extra 0 img 0 (d_threads (mw_dumper s)) ths \<and>
    read_list read_module 108 (file_bytes img (rd_location (ds ! 1))) = Some mds \<and> modules_laid (mw_dumper s) 0 img (module_sources s) mds \<and>
    read_list read_desc 16 (file_bytes img (rd_location (ds ! 2))) = Some bs \<and> list_all (laid (mw_dumper s) 0 img) bs \<and>
    extents bs = xs @ mw_app_memory_list s \<and>
    exception_bytes (s\<lparr>mw_dumper := (mw_dumper s)\<lparr>d_crash_address := addr\<rparr>,
      mw_crashing_thread_context := crash_context_of (GetCrashThread s) (mw_crashing_thread_context s) ths\<rparr>) = Some (file_bytes img (rd_location (ds ! 3))) \<and>
    cpu_information e s = Some info \<and>
    file_bytes img (rd_location (ds ! 4)) = sys_info_bytes (info\<lparr>si_platform_id := MD_OS_ANDROID_id, si_csd_version_rva := q\<rparr>) \<and>
    list_all2 (\<lambda>(t, st) l. optional_laid content e s 0 img st l) optional_streams ls"
proof -
  obtain s' l0 l1 l2 l3 l4 ls ths mds bs addr data where r: "Dump e s = Some (True, s')" "take 32 (w_image (mw_writer s')) = header_bytes (e_time e) 32"
    "read_directory (w_image (mw_writer s')) = [at_dir 3 l0, at_dir 4 l1, at_dir 5 l2, at_dir 6 l3, at_dir 7 l4] @ file_dirents optional_streams ls"
    "lists_laid s 0 (w_image (mw_writer s')) l0 l1 l2 ths mds bs" "others_laid content e s 0 (w_image (mw_writer s')) l3 l4 data ls"
    "exception_bytes (s\<lparr>mw_dumper := (mw_dumper s)\<lparr>d_crash_address := addr\<rparr>,
       mw_crashing_thread_context := crash_context_of (GetCrashThread s) (mw_crashing_thread_context s) ths\<rparr>) = Some data"
    by (rule Dump_laid [OF assms])
  let ?img = "w_image (mw_writer s')"
  define ds where "ds = [at_dir 3 l0, at_dir 4 l1, at_dir 5 l2, at_dir 6 l3, at_dir 7 l4] @ file_dirents optional_streams ls"
  have ds: "map rd_type (take 5 ds) = [3, 4, 5, 6, 7]" "drop 5 ds = file_dirents optional_streams ls" "rd_location (ds ! 0) = l0"
    "rd_location (ds ! 1) = l1" "rd_location (ds ! 2) = l2" "rd_location (ds ! 3) = l3" "rd_location (ds ! 4) = l4" by (simp_all add: ds_def eval_nat_numeral)
  obtain extra xs where l: "lies_in 0 ?img l0 (le_int 4 (length ths) @ concat (map thread_bytes ths))" "extra = -1 \<or> 0 \<le> mw_size_limit s \<and> extra = 2048"
    "threads_laid s extra 0 ?img 0 (d_threads (mw_dumper s)) ths" "lies_in 0 ?img l1 (le_int 4 (length mds) @ concat (map module_bytes mds))"
    "modules_laid (mw_dumper s) 0 ?img (module_sources s) mds" "lies_in 0 ?img l2 (le_int 4 (length bs) @ concat (map desc_bytes bs))"
    "list_all (laid (mw_dumper s) 0 ?img) bs" "extents bs = xs @ mw_app_memory_list s"
    using r(4) unfolding lists_laid_def by blast
  obtain info q where m: "lies_in 0 ?img l3 data" "cpu_information e s = Some info"
    "lies_in 0 ?img l4 (sys_info_bytes (info\<lparr>si_platform_id := MD_OS_ANDROID_id, si_csd_version_rva := q\<rparr>))"
    "list_all2 (\<lambda>(t, st) l. optional_laid content e s 0 ?img st l) optional_streams ls"
    using r(5) unfolding others_laid_def by blast
  have lists: "read_list read_thread 48 (file_bytes ?img l0) = Some ths" "read_list read_module 108 (file_bytes ?img l1) = Some mds"
    "read_list read_desc 16 (file_bytes ?img l2) = Some bs"
    by (rule read_list_laid [OF l(1)] read_list_laid [OF l(4)] read_list_laid [OF l(6)]; simp)+
  show ?thesis
    using r(1,2,6) r(3) [folded ds_def] ds lists l(2,3,5,7,8) m(2,4) lies_in_file0 [OF m(1)] lies_in_file0 [OF m(3)]
    by (intro exI [of _ s'] exI [of _ ?img] exI [of _ ds] exI [of _ ths] exI [of _ extra] exI [of _ mds] exI [of _ bs] exI [of _ xs]
        exI [of _ addr] exI [of _ info] exI [of _ q] exI [of _ ls]) (simp only: conj_assoc simp_thms)
qed

text \<open>The process of the other examples, with no file that can be opened and no shared objects.\<close>

definition sample_run :: "unit minidump_writer" where
  "sample_run = sample_mw\<lparr>mw_dumper := sample_dumper\<lparr>d_read := \<lambda>f n. (Some [], f)\<rparr>\<rparr>"

definition sample_inputs :: dump_inputs where
  "sample_inputs = \<lparr>e_time = 1, e_signed_char = True, e_garbage = replicate 512 0, e_present = None, e_possible = None, e_uname = None,
     e_pad = [0, 0, 0, 0], e_fuel = 1\<rparr>"

lemma sample_run_fields [simp]:
  "mw_pagesize sample_run = 4096" "mw_writer sample_run = mw_writer sample_mw" "mw_memory_blocks sample_run = []" "mw_app_memory_list sample_run = [(0x1000, 8)]"
  "mw_ucontext sample_run = Some \<lparr>uc_regs = sample_regs, uc_float = sample_fpregs\<rparr>" "mw_sanitize_stacks sample_run = False" "mw_mapping_list sample_run = []"
  "mw_dumper sample_run = sample_dumper\<lparr>d_read := \<lambda>f n. (Some [], f)\<rparr>" "GetCrashThread sample_run = 7"
  by (simp_all add: sample_run_def sample_mw_def GetCrashThread_def sample_dumper_def)

lemma sample_run_process: "process_ok sample_run" "module_sources sample_run = []"
proof -
  show ms: "module_sources sample_run = []"
    by (simp add: module_sources_def dumper_sources_def ShouldIncludeMapping_def sample_dumper_def sample_mapping_def NAME_MAX_def)
  have "thread_regs sample_run 0 7 = Some (0x20000, sample_regs, sample_fpregs)"
    by (simp add: thread_regs_def from_ucontext_def sample_dumper_def UC_GetStackPointer_def sample_regs_def)
  then have "list_all (\<lambda>(i, tid). regs_ok (thread_regs sample_run i tid)) (enumerate 0 (d_threads (mw_dumper sample_run)))"
    by (simp add: sample_dumper_def regs_ok_def sample_regs_def sample_fpregs_def)
  moreover have "machine_ok sample_run"
    by (auto simp: machine_ok_def sample_dumper_def sample_mapping_def adjusted_def intro!: exI [of _ 12])
  ultimately show "process_ok sample_run" by (simp add: process_ok_def ms) (simp add: sample_dumper_def)
qed

lemma sample_run_optional:
  "stream_file sample_run st = None" "debug_info fuel sample_run = Some None"
  by (simp_all add: stream_file_def sample_dumper_def debug_info_def AT_PHDR_def AT_PHNUM_def split: option.split bind_split)

theorem Dump_correct_witness:
  "\<exists>s' ths. Dump sample_inputs sample_run = Some (True, s') \<and>
     map rd_type (read_directory (w_image (mw_writer s'))) = [3, 4, 5, 6, 7, 0, 0, 0, 0, 0, 0, 0, 0] \<and>
     read_list read_thread 48 (file_bytes (w_image (mw_writer s')) (rd_location (read_directory (w_image (mw_writer s')) ! 0))) = Some ths \<and> map rt_id ths = [7]"
proof -
  let ?c = "\<lambda>_ :: unit. [] :: bytes"
  have sys: "system_ok sample_inputs" by (simp add: system_ok_def sample_inputs_def uname_ok_def sys_file_ok_def)
  have files: "files_ok ?c sample_inputs sample_run"
    by (simp add: files_ok_def optional_ok_def sample_run_optional read_contract_def read_never_fails_def optional_streams_def) (simp add: sample_dumper_def)
  have size: "lists_size sample_run = 33985" "others_size ?c sample_inputs sample_run = 1273"
    by (simp_all add: lists_size_def sample_run_process(2) thread_list_size_def module_list_size_def others_size_def optional_size_def optional_streams_def sample_run_optional)
       (simp_all add: sample_dumper_def)
  obtain s' img ds ths extra ls where r: "Dump sample_inputs sample_run = Some (True, s')" "img = w_image (mw_writer s')" "read_directory img = ds"
    "map rd_type (take 5 ds) = [3, 4, 5, 6, 7]" "drop 5 ds = file_dirents optional_streams ls" "read_list read_thread 48 (file_bytes img (rd_location (ds ! 0))) = Some ths"
    "threads_laid sample_run extra 0 img 0 (d_threads (mw_dumper sample_run)) ths"
    "list_all2 (\<lambda>(t, st) l. optional_laid ?c sample_inputs sample_run 0 img st l) optional_streams ls"
    using Dump_correct [of sample_run small_memory sample_inputs ?c] sample_mw_writer sample_run_process(1) sys files size by (auto simp: sample_copy)
  have "map rt_id ths = [7]" using threads_laid_ids [OF r(7)] by (simp add: sample_dumper_def)
  moreover have "ls = replicate 8 None"
    using r(8) by (auto simp: optional_streams_def optional_laid_def sample_run_optional list_all2_Cons1 eval_nat_numeral)
  then have "map rd_type (drop 5 ds) = replicate 8 0" unfolding r(5)
    by (simp add: file_dirents_def optional_streams_def file_dirent_def null_dirent_def eval_nat_numeral)
  then have "map rd_type ds = [3, 4, 5, 6, 7] @ replicate 8 0" using r(4) by (metis append_take_drop_id map_append)
  ultimately show ?thesis using r(1-3,6) by (auto simp: eval_nat_numeral)
qed

end
