(* ===== verification/Microdump_Writer.thy ===== *)
theory Microdump_Writer
  imports Minidump_Writer
begin

text \<open>
  \<^verbatim>\<open>client/linux/microdump_writer/microdump_writer.cc\<close>: a short dump as lines of text in the system log. A line is staged in a buffer of fixed size
  with \<open>my_strlcat\<close> and then written. Memory from the page allocator is assumed to be there; \<open>None\<close> is a fault, such as a missing context of the crash.
\<close>

section \<open>The writer\<close>

definition kLineBufferSize :: nat where "kLineBufferSize = 2048"

record extra_info =
  x_build_fingerprint :: "bytes option"
  x_product_info :: "bytes option"
  x_gpu_fingerprint :: "bytes option"
  x_process_type :: "bytes option"

record 'f microdump_writer =
  u_pagesize :: u64
  u_ucontext :: "crash_context option"
  u_dumper :: "'f dumper"
  u_mapping_list :: "(mapping_info \<times> bytes) list"
  u_skip_dump :: bool
  u_principal_mapping_address :: u64
  u_sanitize_stack :: bool
  u_extra_info :: extra_info
  u_log_line :: bytes
  u_stack_copy :: bytes
  u_stack_len :: u64
  u_stack_lower_bound :: u64
  u_stack_pointer :: u64
  u_log :: "bytes list"

text \<open>The constructor; \<open>buf\<close> is the buffer of the line as the allocator gives it, if it does, of which only the first byte is cleared.\<close>

definition MicrodumpWriter ::
  "u64 \<Rightarrow> crash_context option \<Rightarrow> (mapping_info \<times> bytes) list \<Rightarrow> bool \<Rightarrow> u64 \<Rightarrow> bool \<Rightarrow> extra_info \<Rightarrow> 'f dumper \<Rightarrow> bytes option \<Rightarrow> 'f microdump_writer" where
  "MicrodumpWriter pagesize ucontext mappings skip address sanitize extra dumper buf =
     \<lparr>u_pagesize = pagesize, u_ucontext = ucontext, u_dumper = dumper, u_mapping_list = mappings, u_skip_dump = skip,
      u_principal_mapping_address = address, u_sanitize_stack = sanitize, u_extra_info = extra, u_log_line = (case buf of Some line \<Rightarrow> line[0 := 0] | None \<Rightarrow> []), u_stack_copy = [],
      u_stack_len = 0, u_stack_lower_bound = 0, u_stack_pointer = 0, u_log = []\<rparr>"

section \<open>Lines\<close>

definition LogLine :: "bytes \<Rightarrow> 'f microdump_writer \<Rightarrow> 'f microdump_writer" where
  "LogLine msg s = s\<lparr>u_log := u_log s @ [cstr msg]\<rparr>"

definition LogAppend :: "bytes \<Rightarrow> 'f microdump_writer \<Rightarrow> 'f microdump_writer option" where
  "LogAppend str s = map_option (\<lambda>(line, _). s\<lparr>u_log_line := line\<rparr>) (my_strlcat (u_log_line s) str kLineBufferSize)"

definition HEX :: bytes where
  "HEX = chars ''0123456789ABCDEF''"

text \<open>The digits of an integer of \<open>k\<close> bytes, from the last one.\<close>

fun hex_loop :: "nat \<Rightarrow> 'w::len word \<Rightarrow> bytes \<Rightarrow> bytes" where
  "hex_loop 0 v acc = acc"
| "hex_loop (Suc i) v acc = hex_loop i (drop_bit 4 v) (HEX ! unat ((ucast v :: u8) AND 0x0F) # acc)"

definition hexstr :: "nat \<Rightarrow> 'w::len word \<Rightarrow> bytes" where
  "hexstr k v = hex_loop (k * 2) v []"

definition LogAppend_int :: "nat \<Rightarrow> 'w::len word \<Rightarrow> 'f microdump_writer \<Rightarrow> 'f microdump_writer option" where
  "LogAppend_int k v = LogAppend (hexstr k v @ [0])"

fun LogAppend_buf :: "bytes \<Rightarrow> 'f microdump_writer \<Rightarrow> 'f microdump_writer option" where
  "LogAppend_buf [] s = Some s"
| "LogAppend_buf (b # bs) s = do { s \<leftarrow> LogAppend_int 1 b s; LogAppend_buf bs s }"

definition LogCommitLine :: "'f microdump_writer \<Rightarrow> 'f microdump_writer" where
  "LogCommitLine s = (let s = LogLine (u_log_line s) s in s\<lparr>u_log_line := (u_log_line s)[0 := 0]\<rparr>)"

definition text_of :: "string \<Rightarrow> bytes" where
  "text_of t = chars t @ [0]"

section \<open>The stack\<close>

datatype CaptureResult = CAPTURE_OK | CAPTURE_FAILED | CAPTURE_UNINTERESTING

definition CaptureCrashingThreadStack :: "int \<Rightarrow> 'f microdump_writer \<Rightarrow> (CaptureResult \<times> 'f microdump_writer) option" where
  "CaptureCrashingThreadStack max_stack_len s =
     do {
       uc \<leftarrow> u_ucontext s;
       let s = s\<lparr>u_stack_pointer := UC_GetStackPointer uc\<rparr>;
       let ms = d_mappings (u_dumper s);
       (case GetStackInfo (u_pagesize s) ms (u_stack_pointer s) of
          None \<Rightarrow> Some (CAPTURE_FAILED, s)
        | Some (lower, len) \<Rightarrow>
            let len = (if 0 \<le> max_stack_len \<and> len > of_int max_stack_len then of_int max_stack_len else len);
                stack_copy = snd (d_copy (u_dumper s) (d_crash_thread (u_dumper s)) lower (unat len));
                s = s\<lparr>u_stack_lower_bound := lower, u_stack_len := len, u_stack_copy := stack_copy\<rparr>
            in if \<not> u_skip_dump s then Some (CAPTURE_OK, s)
               else
                 (case FindMappingNoBias ms (u_principal_mapping_address s) of
                    None \<Rightarrow> Some (CAPTURE_UNINTERESTING, s)
                  | Some m \<Rightarrow>
                      let pc = UC_GetInstructionPointer uc
                      in if mi_sys_start m \<le> pc \<and> pc \<le> mi_sys_end m then Some (CAPTURE_OK, s)
                         else if StackHasPointerToMapping stack_copy (u_stack_pointer s - lower) m then Some (CAPTURE_OK, s)
                         else Some (CAPTURE_UNINTERESTING, s)))
     }"

definition STACK_DUMP_CHUNK_SIZE :: nat where "STACK_DUMP_CHUNK_SIZE = 384"

text \<open>The lines with the stack: \<open>lower\<close>, \<open>copy\<close> and \<open>len\<close> are the members of the writer, which the loop does not change.\<close>

function dump_chunks :: "u64 \<Rightarrow> bytes \<Rightarrow> nat \<Rightarrow> nat \<Rightarrow> 'f microdump_writer \<Rightarrow> 'f microdump_writer option" where
  "dump_chunks lower stack_copy len stack_off s =
     (if stack_off < len then
        do {
          s \<leftarrow> LogAppend (text_of ''S '') s;
          s \<leftarrow> LogAppend_int 8 (lower + of_nat stack_off) s;
          s \<leftarrow> LogAppend (text_of '' '') s;
          s \<leftarrow> LogAppend_buf (take (min STACK_DUMP_CHUNK_SIZE (len - stack_off)) (drop stack_off stack_copy)) s;
          dump_chunks lower stack_copy len (stack_off + STACK_DUMP_CHUNK_SIZE) (LogCommitLine s)
        }
      else Some s)"
  by auto
termination by (relation "measure (\<lambda>(lower, stack_copy, len, off, s). len - off)") (auto simp: STACK_DUMP_CHUNK_SIZE_def)

declare dump_chunks.simps [simp del]

definition DumpThreadStack :: "'f microdump_writer \<Rightarrow> 'f microdump_writer option" where
  "DumpThreadStack s =
     do {
       stack_copy \<leftarrow> (if u_sanitize_stack s
         then SanitizeStackCopy (d_mappings (u_dumper s)) (u_stack_copy s) (u_stack_pointer s) (u_stack_pointer s - u_stack_lower_bound s)
         else Some (u_stack_copy s));
       let s = s\<lparr>u_stack_copy := stack_copy\<rparr>;
       s \<leftarrow> LogAppend (text_of ''S 0 '') s;
       s \<leftarrow> LogAppend_int 8 (u_stack_pointer s) s;
       s \<leftarrow> LogAppend (text_of '' '') s;
       s \<leftarrow> LogAppend_int 8 (u_stack_lower_bound s) s;
       s \<leftarrow> LogAppend (text_of '' '') s;
       s \<leftarrow> LogAppend_int 8 (u_stack_len s) s;
       dump_chunks (u_stack_lower_bound s) (u_stack_copy s) (unat (u_stack_len s)) 0 (LogCommitLine s)
     }"

section \<open>Information about the process\<close>

definition given_or :: "bytes option \<Rightarrow> string \<Rightarrow> bytes" where
  "given_or x t = (case x of Some b \<Rightarrow> b | None \<Rightarrow> text_of t)"

definition DumpProductInformation :: "'f microdump_writer \<Rightarrow> 'f microdump_writer option" where
  "DumpProductInformation s =
     do {
       s \<leftarrow> LogAppend (text_of ''V '') s;
       s \<leftarrow> LogAppend (given_or (x_product_info (u_extra_info s)) ''UNKNOWN:0.0.0.0'') s;
       Some (LogCommitLine s)
     }"

definition DumpProcessType :: "'f microdump_writer \<Rightarrow> 'f microdump_writer option" where
  "DumpProcessType s =
     do {
       s \<leftarrow> LogAppend (text_of ''P '') s;
       s \<leftarrow> LogAppend (given_or (x_process_type (u_extra_info s)) ''UNKNOWN'') s;
       Some (LogCommitLine s)
     }"

definition DumpCrashReason :: "'f microdump_writer \<Rightarrow> 'f microdump_writer option" where
  "DumpCrashReason s =
     do {
       s \<leftarrow> LogAppend (text_of ''R '') s;
       s \<leftarrow> LogAppend_int 4 (d_crash_signal (u_dumper s)) s;
       s \<leftarrow> LogAppend (text_of '' '') s;
       s \<leftarrow> LogAppend (text_of (GetCrashSignalString (unat (d_crash_signal (u_dumper s))))) s;
       s \<leftarrow> LogAppend (text_of '' '') s;
       s \<leftarrow> LogAppend_int 8 (d_crash_address (u_dumper s)) s;
       Some (LogCommitLine s)
     }"

text \<open>\<open>n_cpus\<close> is what \<open>sysconf\<close> returns, \<open>uname\<close> the machine, the release and the version, or \<open>None\<close> when the call fails.\<close>

definition DumpOSInformation :: "u8 \<Rightarrow> (bytes \<times> bytes \<times> bytes) option \<Rightarrow> 'f microdump_writer \<Rightarrow> 'f microdump_writer option" where
  "DumpOSInformation n_cpus uname s =
     do {
       s \<leftarrow> LogAppend (text_of ''O '') s;
       s \<leftarrow> LogAppend (text_of ''A'') s;
       s \<leftarrow> LogAppend (text_of '' '') s;
       s \<leftarrow> LogAppend (text_of ''arm64'') s;
       s \<leftarrow> LogAppend (text_of '' '') s;
       s \<leftarrow> LogAppend_int 1 n_cpus s;
       s \<leftarrow> LogAppend (text_of '' '') s;
       s \<leftarrow> LogAppend (case uname of Some (machine, _) \<Rightarrow> machine | None \<Rightarrow> text_of ''unknown_hw_arch'') s;
       s \<leftarrow> LogAppend (text_of '' '') s;
       s \<leftarrow> (case x_build_fingerprint (u_extra_info s) of
               Some fingerprint \<Rightarrow> LogAppend fingerprint s
             | None \<Rightarrow>
                 (case uname of
                    Some (_, release, version) \<Rightarrow>
                      do {
                        s \<leftarrow> LogAppend release s;
                        s \<leftarrow> LogAppend (text_of '' '') s;
                        LogAppend version s
                      }
                  | None \<Rightarrow> LogAppend (text_of ''no build fingerprint available'') s));
       Some (LogCommitLine s)
     }"

definition DumpGPUInformation :: "'f microdump_writer \<Rightarrow> 'f microdump_writer option" where
  "DumpGPUInformation s =
     do {
       s \<leftarrow> LogAppend (text_of ''G '') s;
       s \<leftarrow> LogAppend (given_or (x_gpu_fingerprint (u_extra_info s)) ''UNKNOWN'') s;
       Some (LogCommitLine s)
     }"

definition DumpCPUState :: "'f microdump_writer \<Rightarrow> 'f microdump_writer option" where
  "DumpCPUState s =
     do {
       uc \<leftarrow> u_ucontext s;
       cpu \<leftarrow> FillCPUContext 8 MDRawContextARM64_Old (fill_arm64_ucontext (uc_regs uc) (uc_float uc));
       s \<leftarrow> LogAppend (text_of ''C '') s;
       s \<leftarrow> LogAppend_buf cpu s;
       Some (LogCommitLine s)
     }"

section \<open>Modules\<close>

definition Micro_HaveMappingInfo :: "(mapping_info \<times> bytes) list \<Rightarrow> mapping_info \<Rightarrow> bool" where
  "Micro_HaveMappingInfo mapping_list m =
     list_ex (\<lambda>(f, _). mi_start_addr f \<le> mi_start_addr m \<and> mi_start_addr m + mi_size m \<le> mi_start_addr f + mi_size f) mapping_list"

text \<open>The identifier in the order of the members of \<open>MDGUID\<close>: a 32-bit, two 16-bit integers and eight bytes.\<close>

definition LogAppend_guid :: "bytes \<Rightarrow> 'f microdump_writer \<Rightarrow> 'f microdump_writer option" where
  "LogAppend_guid g s =
     do {
       s \<leftarrow> LogAppend_int 4 (of_nat (le_nat (take 4 g)) :: u32) s;
       s \<leftarrow> LogAppend_int 2 (of_nat (le_nat (take 2 (drop 4 g))) :: u16) s;
       s \<leftarrow> LogAppend_int 2 (of_nat (le_nat (take 2 (drop 6 g))) :: u16) s;
       LogAppend_buf (take 8 (drop 8 g)) s
     }"

text \<open>The name buffers, uninitialised in the source and zeros here, are written by \<open>GetMappingEffectiveNameAndPath\<close> before they are read.\<close>

definition DumpModule :: "mapping_info \<Rightarrow> bool \<Rightarrow> nat \<Rightarrow> bytes option \<Rightarrow> 'f microdump_writer \<Rightarrow> 'f microdump_writer option" where
  "DumpModule mapping member mapping_id identifier s =
     (let (identifier_bytes, m) =
            (case identifier of
               Some g \<Rightarrow> (take sizeof_MDGUID g, mapping)
             | None \<Rightarrow> d_identifier (u_dumper s) mapping member mapping_id);
          s = (if member \<and> identifier = None
               then s\<lparr>u_dumper := (u_dumper s)\<lparr>d_mappings := (d_mappings (u_dumper s))[mapping_id := m]\<rparr>\<rparr> else s);
          module_identifier = take sizeof_MDGUID (identifier_bytes @ replicate sizeof_MDGUID 0)
      in do {
           (file_path, file_name) \<leftarrow>
             GetMappingEffectiveNameAndPath (d_so_name (u_dumper s) m) m (replicate NAME_MAX 0) (replicate NAME_MAX 0);
           s \<leftarrow> LogAppend (text_of ''M '') s;
           s \<leftarrow> LogAppend_int 8 (mi_start_addr m) s;
           s \<leftarrow> LogAppend (text_of '' '') s;
           s \<leftarrow> LogAppend_int 8 (mi_offset m) s;
           s \<leftarrow> LogAppend (text_of '' '') s;
           s \<leftarrow> LogAppend_int 8 (mi_size m) s;
           s \<leftarrow> LogAppend (text_of '' '') s;
           s \<leftarrow> LogAppend_guid module_identifier s;
           s \<leftarrow> LogAppend (text_of ''0 '') s;
           s \<leftarrow> LogAppend file_name s;
           Some (LogCommitLine s)
         })"

fun dump_mappings :: "nat \<Rightarrow> mapping_info list \<Rightarrow> 'f microdump_writer \<Rightarrow> 'f microdump_writer option" where
  "dump_mappings i [] s = Some s"
| "dump_mappings i (m # ms) s =
     (if mi_name m ! 0 = 0 \<or> \<not> mi_exec m \<or> mi_size m < 4096 \<or> Micro_HaveMappingInfo (u_mapping_list s) m then dump_mappings (i + 1) ms s
      else do { s \<leftarrow> DumpModule m True i None s; dump_mappings (i + 1) ms s })"

fun dump_caller_mappings :: "(mapping_info \<times> bytes) list \<Rightarrow> 'f microdump_writer \<Rightarrow> 'f microdump_writer option" where
  "dump_caller_mappings [] s = Some s"
| "dump_caller_mappings ((m, guid) # ms) s = do { s \<leftarrow> DumpModule m False 0 (Some guid) s; dump_caller_mappings ms s }"

definition DumpMappings :: "'f microdump_writer \<Rightarrow> 'f microdump_writer option" where
  "DumpMappings s =
     do {
       s \<leftarrow> dump_mappings 0 (d_mappings (u_dumper s)) s;
       dump_caller_mappings (u_mapping_list s) s
     }"

section \<open>The dump\<close>

definition Micro_Dump :: "u8 \<Rightarrow> (bytes \<times> bytes \<times> bytes) option \<Rightarrow> 'f microdump_writer \<Rightarrow> 'f microdump_writer option" where
  "Micro_Dump n_cpus uname s =
     do {
       (res, s) \<leftarrow> CaptureCrashingThreadStack (-1) s;
       if res = CAPTURE_UNINTERESTING then Some (LogLine (text_of ''Microdump skipped (uninteresting)'') s)
       else do {
         let s = LogLine (text_of ''-----BEGIN BREAKPAD MICRODUMP-----'') s;
         s \<leftarrow> DumpProductInformation s;
         s \<leftarrow> DumpOSInformation n_cpus uname s;
         s \<leftarrow> DumpProcessType s;
         s \<leftarrow> DumpCrashReason s;
         s \<leftarrow> DumpGPUInformation s;
         s \<leftarrow> (if res = CAPTURE_OK then DumpThreadStack s else Some s);
         s \<leftarrow> DumpCPUState s;
         s \<leftarrow> DumpMappings s;
         Some (LogLine (text_of ''-----END BREAKPAD MICRODUMP-----'') s)
       }
     }"

text \<open>
  What the system gives: the page size, the buffer of the line (\<open>None\<close> when the memory is exhausted), whether the dumper could be initialised and the threads
  stopped, the number of processors and the names of \<open>uname\<close>.
\<close>

record micro_env =
  e_pagesize :: u64
  e_line :: "bytes option"
  e_dumper_init :: bool
  e_suspended :: bool
  e_late_init :: bool
  e_n_cpus :: u8
  e_uname :: "(bytes \<times> bytes \<times> bytes) option"

definition Micro_Init :: "micro_env \<Rightarrow> bool" where
  "Micro_Init e = (if \<not> e_dumper_init e \<or> e_line e = None then False else e_suspended e \<and> e_late_init e)"

text \<open>\<open>ExceptionHandler::CrashContext\<close>: the \<open>siginfo_t\<close>, the thread and the registers.\<close>

record crash_blob =
  cb_si_addr :: u64
  cb_si_signo :: u32
  cb_si_code :: u32
  cb_tid :: u32
  cb_context :: crash_context

definition SetCrashInfoFromSigInfo :: "u64 \<Rightarrow> u32 \<Rightarrow> u32 \<Rightarrow> 'f dumper \<Rightarrow> 'f dumper" where
  "SetCrashInfoFromSigInfo si_addr si_signo si_code d = d\<lparr>d_crash_address := si_addr, d_crash_signal := si_signo, d_crash_signal_code := si_code\<rparr>"

definition crashed_dumper :: "crash_blob \<Rightarrow> 'f dumper \<Rightarrow> 'f dumper" where
  "crashed_dumper context dumper =
     (SetCrashInfoFromSigInfo (cb_si_addr context) (cb_si_signo context) (cb_si_code context) dumper)\<lparr>d_crash_thread := cb_tid context\<rparr>"

definition run_microdump :: "micro_env \<Rightarrow> 'f microdump_writer \<Rightarrow> (bool \<times> bytes list) option" where
  "run_microdump e writer =
     (if \<not> Micro_Init e then Some (False, [])
      else do { s \<leftarrow> Micro_Dump (e_n_cpus e) (e_uname e) writer; Some (True, u_log s) })"

text \<open>The result with what was written to the log. \<open>blob\<close> is the memory of the crash context with its size; the destructor, which lets the threads go on, is left out.\<close>

definition WriteMicrodump ::
  "nat \<Rightarrow> micro_env \<Rightarrow> 'f dumper \<Rightarrow> (nat \<times> crash_blob) option \<Rightarrow> (mapping_info \<times> bytes) list \<Rightarrow> bool \<Rightarrow> u64 \<Rightarrow> bool \<Rightarrow> extra_info \<Rightarrow> (bool \<times> bytes list) option" where
  "WriteMicrodump ctx_size e dumper blob mappings skip address sanitize extra =
     (case blob of
        Some (blob_size, context) \<Rightarrow>
          if blob_size \<noteq> ctx_size then Some (False, [])
          else run_microdump e
            (MicrodumpWriter (e_pagesize e) (Some (cb_context context)) mappings skip address sanitize extra (crashed_dumper context dumper) (e_line e))
      | None \<Rightarrow> run_microdump e (MicrodumpWriter (e_pagesize e) None mappings skip address sanitize extra dumper (e_line e)))"

end
