(* ===== verification/Microdump_Log.thy ===== *)
theory Microdump_Log
  imports Microdump_Writer Module_List
begin

text \<open>
  What the microdump writer leaves in the log: the text of every line, cut to the size of the buffer, and that the stack and the registers can be read back
  from it.
\<close>

section \<open>Numbers\<close>

fun unhex :: "bytes \<Rightarrow> bytes" where
  "unhex (a # b # cs) = of_nat (hex_val 0 [a, b]) # unhex cs"
| "unhex cs = []"

lemma hex_digit_HEX: "d < 16 \<Longrightarrow> hex_digit (HEX ! d) = Some (of_nat d)"
proof -
  have "list_all (\<lambda>d. hex_digit (HEX ! d) = Some (of_nat d)) [0..<16]" by code_simp
  then show "d < 16 \<Longrightarrow> hex_digit (HEX ! d) = Some (of_nat d)" by (simp add: list_all_iff)
qed

lemma HEX_nonzero: "d < 16 \<Longrightarrow> HEX ! d \<noteq> 0"
proof -
  have "list_all (\<lambda>d. HEX ! d \<noteq> 0) [0..<16]" by code_simp
  then show "d < 16 \<Longrightarrow> HEX ! d \<noteq> 0" by (simp add: list_all_iff)
qed

lemma last_digit: "unat ((ucast v :: u8) AND 0x0F) = unat (v :: 'w::len word) mod 16" if "4 \<le> LENGTH('w)"
proof -
  have "(ucast v :: u8) AND 0x0F = take_bit 4 (ucast v)" by (simp add: take_bit_eq_mask mask_eq_exp_minus_1 and.commute)
  then have "unat ((ucast v :: u8) AND 0x0F) = take_bit 4 (unat (ucast v :: u8))" by (simp add: unsigned_take_bit_eq)
  also have "\<dots> = take_bit 4 (unat v)" by (simp add: unsigned_ucast_eq take_bit_take_bit)
  finally show ?thesis by (simp add: take_bit_eq_mod)
qed

lemma hex_loop_acc: "hex_loop i v acc = hex_loop i v [] @ acc"
proof (induction i arbitrary: v acc)
  case (Suc i)
  show ?case by (simp add: Suc.IH [of _ "_ # acc"] Suc.IH [of _ "[_]"])
qed simp

lemma length_hexstr [simp]: "length (hexstr k v) = k * 2"
proof -
  have "length (hex_loop i v []) = i" for i
    by (induction i arbitrary: v) (simp_all add: hex_loop_acc [of _ _ "[_]"])
  then show ?thesis by (simp add: hexstr_def)
qed

lemma hex_val_append: "hex_val n (xs @ ys) = hex_val (hex_val n xs) ys"
  by (induction xs arbitrary: n) auto

lemma digit_lt: "unat ((ucast (v :: 'w::len word) :: u8) AND 0x0F) < 16"
proof -
  have "(ucast v :: u8) AND 0x0F = take_bit 4 (ucast v)" by (simp add: take_bit_eq_mask mask_eq_exp_minus_1 and.commute)
  then show ?thesis using take_bit_nat_less_exp [of 4 "unat (ucast v :: u8)"] by (simp add: unsigned_take_bit_eq)
qed

lemma hex_val_hexstr: "hex_val 0 (hexstr k v) = unat v mod 16 ^ (k * 2)" if "4 \<le> LENGTH('w)" for v :: "'w::len word"
proof -
  have "hex_val 0 (hex_loop i v []) = unat v mod 16 ^ i" for i
  proof (induction i arbitrary: v)
    case (Suc i)
    have "unat (drop_bit 4 v) = unat v div 16" 
      using unsigned_drop_bit_eq [of 4 v, where ?'a = nat] by (simp only: drop_bit_eq_div unsigned_take_bit_eq [symmetric] take_bit_length_eq) simp
    moreover have "unat (of_nat (unat v mod 16) :: u8) = unat v mod 16" by (simp add: unsigned_of_nat take_bit_eq_mod)
    ultimately have "hex_val 0 (hex_loop (Suc i) v []) = (unat v div 16) mod 16 ^ i * 16 + unat v mod 16"
      using Suc.IH [of "drop_bit 4 v"] hex_digit_HEX [OF digit_lt [of v]] last_digit [OF that, of v]
      by (simp add: hex_loop_acc [of _ _ "[_]"] hex_val_append)
    then show ?case by (simp add: mod_mult2_eq mult.commute)
  qed simp
  then show ?thesis by (simp add: hexstr_def)
qed

lemma zero_notin_hexstr: "0 \<notin> set (hexstr k v)"
proof -
  have "0 \<notin> set (hex_loop i v [])" for i
    using HEX_nonzero [OF digit_lt] by (induction i arbitrary: v) (auto simp: hex_loop_acc [of _ _ "[_]"] eq_commute [of 0])
  then show ?thesis by (simp add: hexstr_def)
qed

definition hex_bytes :: "bytes \<Rightarrow> bytes" where
  "hex_bytes bs = concat (map (hexstr 1) bs)"

lemma hex_bytes_simps [simp]: "hex_bytes [] = []" "hex_bytes (b # bs) = hexstr 1 b @ hex_bytes bs" "length (hex_bytes bs) = length bs * 2"
proof -
  show "hex_bytes [] = []" "hex_bytes (b # bs) = hexstr 1 b @ hex_bytes bs" by (simp_all add: hex_bytes_def)
  show "length (hex_bytes bs) = length bs * 2" by (induction bs) (simp_all add: hex_bytes_def)
qed

lemma unhex_bytes: "unhex (hex_bytes bs) = bs"
proof (induction bs)
  case (Cons b bs)
  have "length (hexstr 1 b) = Suc (Suc 0)" by simp
  then obtain x y where xy: "hexstr 1 b = [x, y]" unfolding length_Suc_conv length_0_conv by blast
  have "hex_val 0 [x, y] = unat b" using hex_val_hexstr [of 1 b] unsigned_less [of b, where ?'a = nat] xy by simp
  then show ?case using Cons.IH xy by simp
qed simp

section \<open>Lines\<close>

text \<open>
  \<open>staged line t\<close>: the buffer holds the text \<open>t\<close>, cut to its size. \<open>logs s lines r\<close>: the result \<open>r\<close> is \<open>s\<close> with these lines more in the log and an empty buffer.
\<close>

definition staged :: "bytes \<Rightarrow> bytes \<Rightarrow> bool" where
  "staged line t \<longleftrightarrow> length line = kLineBufferSize \<and> nul_terminated line \<and> cstr line = take (kLineBufferSize - 1) t"

definition logs :: "'f microdump_writer \<Rightarrow> bytes list \<Rightarrow> 'f microdump_writer option \<Rightarrow> bool" where
  "logs s lines r \<longleftrightarrow> (\<exists>line. staged line [] \<and> r = Some (s\<lparr>u_log_line := line, u_log := u_log s @ lines\<rparr>))"

lemma take_take_append: "take n (take n a @ b) = take n (a @ b)"
  by (simp add: min_def)

lemma my_strlcat_staged:
  assumes "staged line t" and "nul_terminated str"
  shows "\<exists>line' k. my_strlcat line str kLineBufferSize = Some (line', k) \<and> staged line' (t @ cstr str)"
proof -
  let ?n = "length (cstr line)" and ?c = "take (kLineBufferSize - length (cstr line) - 1) (cstr str)"
  have l: "length line = kLineBufferSize" "nul_terminated line" "cstr line = take (kLineBufferSize - 1) t" using assms(1) by (simp_all add: staged_def)
  have n: "?n < kLineBufferSize" using length_cstr_less [OF l(2)] l(1) by simp
  have fits: "?n + length ?c < length line" using n l(1) by simp
  have z: "0 \<notin> set (take ?n line)" "0 \<notin> set ?c" using zero_notin_cstr [of line] zero_notin_cstr [of str] by (auto simp: take_length_cstr dest: in_set_takeD)
  have "my_strlcat line str kLineBufferSize = Some (blit line ?n (?c @ [0]), ?n + length (cstr str))"
    using my_strlcat_eq [OF assms(2), of kLineBufferSize line] l(1) n by (simp add: Let_def)
  moreover have "cstr line @ ?c = take (kLineBufferSize - 1) (t @ cstr str)"
    unfolding l(3) using take_take_append [of "kLineBufferSize - 1" t "cstr str"] n l(3) by (simp add: take_append)
  ultimately show ?thesis using cstr_blit [OF fits z] l(1) by (simp add: staged_def take_length_cstr)
qed

lemma logs_append:
  assumes "staged (u_log_line s) t" and "nul_terminated str"
    and "\<And>line. staged line (t @ cstr str) \<Longrightarrow> logs s0 L (f (s\<lparr>u_log_line := line\<rparr>))"
  shows "logs s0 L (LogAppend str s \<bind> f)"
  using my_strlcat_staged [OF assms(1,2)] assms(3) by (auto simp: LogAppend_def)

lemma logs_append_int:
  assumes "staged (u_log_line s) t" and "\<And>line. staged line (t @ hexstr k v) \<Longrightarrow> logs s0 L (f (s\<lparr>u_log_line := line\<rparr>))"
  shows "logs s0 L (LogAppend_int k v s \<bind> f)"
  unfolding LogAppend_int_def using zero_notin_hexstr [of k v] assms(2)
  by (intro logs_append [OF assms(1)]) (simp_all add: cstr_terminated)

lemma logs_append_buf:
  assumes "staged (u_log_line s) t" and "\<And>line. staged line (t @ hex_bytes bs) \<Longrightarrow> logs s0 L (f (s\<lparr>u_log_line := line\<rparr>))"
  shows "logs s0 L (LogAppend_buf bs s \<bind> f)"
  using assms
proof (induction bs arbitrary: s t)
  case Nil
  then show ?case using Nil.prems(2) [of "u_log_line s"] by simp
next
  case (Cons b bs)
  have "logs s0 L (LogAppend_buf bs (s\<lparr>u_log_line := line\<rparr>) \<bind> f)" if line: "staged line (t @ hexstr 1 b)" for line
    using Cons.IH [of "s\<lparr>u_log_line := line\<rparr>" "t @ hexstr 1 b"] line Cons.prems(2) by simp
  then have "logs s0 L (LogAppend_int 1 b s \<bind> (\<lambda>s. LogAppend_buf bs s \<bind> f))" by (rule logs_append_int [OF Cons.prems(1)])
  then show ?case by (simp add: bind_assoc)
qed

lemma logs_commit:
  assumes "staged line t" and "L = [take (kLineBufferSize - 1) t]"
  shows "logs s L (Some (LogCommitLine (s\<lparr>u_log_line := line\<rparr>)))"
proof -
  have "staged (line[0 := 0]) []" using assms(1) by (cases line) (auto simp: staged_def kLineBufferSize_def)
  moreover have "LogCommitLine (s\<lparr>u_log_line := line\<rparr>) = s\<lparr>u_log_line := line[0 := 0], u_log := u_log s @ L\<rparr>"
    using assms by (simp add: LogCommitLine_def LogLine_def staged_def)
  ultimately show ?thesis unfolding logs_def by blast
qed

lemma logs_seq:
  assumes "logs s L1 r" and "\<And>line. staged line [] \<Longrightarrow> logs (s\<lparr>u_log_line := line, u_log := u_log s @ L1\<rparr>) L2 (f (s\<lparr>u_log_line := line, u_log := u_log s @ L1\<rparr>))"
  shows "logs s (L1 @ L2) (r \<bind> f)"
proof -
  obtain line where line: "staged line []" "r = Some (s\<lparr>u_log_line := line, u_log := u_log s @ L1\<rparr>)" using assms(1) by (auto simp: logs_def)
  then show ?thesis using assms(2) [OF line(1)] by (auto simp: logs_def)
qed

text \<open>The lines about the process.\<close>

definition shown :: "bytes \<Rightarrow> bytes" where
  "shown t = take (kLineBufferSize - 1) t"

lemma chars_nonzero: "list_all (\<lambda>c. c \<noteq> CHR 0x00) t \<Longrightarrow> 0 \<notin> set (chars t)"
proof (induction t)
  case (Cons c t)
  have "(of_nat (of_char c) :: u8) \<noteq> 0"
  proof
    assume "(of_nat (of_char c) :: u8) = 0"
    then have "unat (of_nat (of_char c) :: u8) = 0" by simp
    then have "(of_char c :: nat) mod 256 = 0" by (simp add: unsigned_of_nat take_bit_eq_mod)
    then have "(of_char c :: nat) = of_char CHR 0x00" by simp
    then show False using Cons.prems by (simp only: of_char_eq_iff) simp
  qed
  then show ?case using Cons by (simp add: chars_def)
qed (simp add: chars_def)

lemma text_of_simps [simp]: "nul_terminated (text_of t)" "list_all (\<lambda>c. c \<noteq> CHR 0x00) t \<Longrightarrow> cstr (text_of t) = chars t"
  using chars_nonzero [of t] by (simp_all add: text_of_def cstr_terminated)

lemma logs_text:
  assumes "staged (u_log_line s) t" and "list_all (\<lambda>c. c \<noteq> CHR 0x00) x"
    and "\<And>line. staged line (t @ chars x) \<Longrightarrow> logs s0 L (f (s\<lparr>u_log_line := line\<rparr>))"
  shows "logs s0 L (LogAppend (text_of x) s \<bind> f)"
  using assms by (intro logs_append [OF assms(1)]) simp_all

lemma DumpProductInformation_logs:
  assumes "staged (u_log_line s) []" and "nul_terminated (given_or (x_product_info (u_extra_info s)) ''UNKNOWN:0.0.0.0'')"
  shows "logs s [shown (chars ''V '' @ cstr (given_or (x_product_info (u_extra_info s)) ''UNKNOWN:0.0.0.0''))] (DumpProductInformation s)"
  unfolding DumpProductInformation_def
  apply (rule logs_text [OF assms(1)], simp)
  apply (rule logs_append, simp, simp add: assms(2))
  apply (simp add: logs_commit shown_def)
  done

lemma DumpProcessType_logs:
  assumes "staged (u_log_line s) []" and "nul_terminated (given_or (x_process_type (u_extra_info s)) ''UNKNOWN'')"
  shows "logs s [shown (chars ''P '' @ cstr (given_or (x_process_type (u_extra_info s)) ''UNKNOWN''))] (DumpProcessType s)"
  unfolding DumpProcessType_def
  apply (rule logs_text [OF assms(1)], simp)
  apply (rule logs_append, simp, simp add: assms(2))
  apply (simp add: logs_commit shown_def)
  done

lemma DumpGPUInformation_logs:
  assumes "staged (u_log_line s) []" and "nul_terminated (given_or (x_gpu_fingerprint (u_extra_info s)) ''UNKNOWN'')"
  shows "logs s [shown (chars ''G '' @ cstr (given_or (x_gpu_fingerprint (u_extra_info s)) ''UNKNOWN''))] (DumpGPUInformation s)"
  unfolding DumpGPUInformation_def
  apply (rule logs_text [OF assms(1)], simp)
  apply (rule logs_append, simp, simp add: assms(2))
  apply (simp add: logs_commit shown_def)
  done

lemma signal_string_nonzero: "list_all (\<lambda>c. c \<noteq> CHR 0x00) (GetCrashSignalString n)"
proof -
  have "list_all (\<lambda>(n, t). list_all (\<lambda>c. c \<noteq> CHR 0x00) t) signal_strings" by (simp add: signal_strings_def)
  then show ?thesis by (auto simp: GetCrashSignalString_def list_all_iff split: option.split dest!: map_of_SomeD)
qed

definition reason_text :: "'f dumper \<Rightarrow> bytes" where
  "reason_text d = chars ''R '' @ hexstr 4 (d_crash_signal d) @ chars '' '' @ chars (GetCrashSignalString (unat (d_crash_signal d))) @ chars '' '' @
     hexstr 8 (d_crash_address d)"

lemma DumpCrashReason_logs:
  assumes "staged (u_log_line s) []"
  shows "logs s [shown (reason_text (u_dumper s))] (DumpCrashReason s)"
  unfolding DumpCrashReason_def
  apply (rule logs_text [OF assms], simp)
  apply (rule logs_append_int, simp)
  apply (rule logs_text, simp, simp)
  apply (rule logs_text, simp, rule signal_string_nonzero)
  apply (rule logs_text, simp, simp)
  apply (rule logs_append_int, simp)
  apply (simp add: logs_commit shown_def reason_text_def)
  done

definition build_text :: "(bytes \<times> bytes \<times> bytes) option \<Rightarrow> bytes option \<Rightarrow> bytes" where
  "build_text uname build =
     (case build of
        Some fingerprint \<Rightarrow> cstr fingerprint
      | None \<Rightarrow>
          (case uname of
             Some (_, release, version) \<Rightarrow> cstr release @ chars '' '' @ cstr version
           | None \<Rightarrow> chars ''no build fingerprint available''))"

lemma build_logs:
  assumes "staged (u_log_line s) t" and "\<And>a b c. uname = Some (a, b, c) \<Longrightarrow> nul_terminated a \<and> nul_terminated b \<and> nul_terminated c"
    and "\<And>x. build = Some x \<Longrightarrow> nul_terminated x"
    and "\<And>line. staged line (t @ build_text uname build) \<Longrightarrow> logs s0 L (f (s\<lparr>u_log_line := line\<rparr>))"
  shows "logs s0 L ((case build of
               Some fingerprint \<Rightarrow> LogAppend fingerprint s
             | None \<Rightarrow>
                 (case uname of
                    Some (_, release, version) \<Rightarrow> do { s \<leftarrow> LogAppend release s; s \<leftarrow> LogAppend (text_of '' '') s; LogAppend version s }
                  | None \<Rightarrow> LogAppend (text_of ''no build fingerprint available'') s)) \<bind> f)"
proof (cases build)
  case None
  show ?thesis
  proof (cases uname)
    case (Some u)
    obtain a b c where u: "u = (a, b, c)" by (cases u)
    have n: "nul_terminated b" "nul_terminated c" using assms(2) Some u by auto
    have "logs s0 L (LogAppend b s \<bind> (\<lambda>s. LogAppend (text_of '' '') s \<bind> (\<lambda>s. LogAppend c s \<bind> f)))"
      using assms(4) [unfolded build_text_def None Some u]
      by (intro logs_append [OF assms(1) n(1)] logs_text logs_append [OF _ n(2)]) (simp_all, simp)
    then show ?thesis using None Some u by (simp add: bind_assoc)
  qed (use None assms(4) in \<open>simp add: build_text_def logs_text [OF assms(1)]\<close>)
next
  case (Some x)
  then show ?thesis using assms(3,4) by (simp add: build_text_def logs_append [OF assms(1)])
qed

definition os_text :: "u8 \<Rightarrow> (bytes \<times> bytes \<times> bytes) option \<Rightarrow> extra_info \<Rightarrow> bytes" where
  "os_text n_cpus uname x =
     chars ''O A arm64 '' @ hexstr 1 n_cpus @ chars '' '' @
     (case uname of Some (machine, _) \<Rightarrow> cstr machine | None \<Rightarrow> chars ''unknown_hw_arch'') @ chars '' '' @
     build_text uname (x_build_fingerprint x)"

lemma DumpOSInformation_logs:
  assumes "staged (u_log_line s) []" and "\<And>a b c. uname = Some (a, b, c) \<Longrightarrow> nul_terminated a \<and> nul_terminated b \<and> nul_terminated c"
    and "\<And>f. x_build_fingerprint (u_extra_info s) = Some f \<Longrightarrow> nul_terminated f"
  shows "logs s [shown (os_text n_cpus uname (u_extra_info s))] (DumpOSInformation n_cpus uname s)"
proof -
  have sp: "chars ''O A arm64 '' = chars ''O '' @ chars ''A'' @ chars '' '' @ chars ''arm64'' @ chars '' ''" by (simp add: chars_def)
  have machine: "nul_terminated (case uname of Some (machine, _) \<Rightarrow> machine | None \<Rightarrow> text_of ''unknown_hw_arch'')"
    using assms(2) by (cases uname) auto
  have machine_text: "cstr (case uname of Some (machine, _) \<Rightarrow> machine | None \<Rightarrow> text_of ''unknown_hw_arch'') =
      (case uname of Some (machine, _) \<Rightarrow> cstr machine | None \<Rightarrow> chars ''unknown_hw_arch'')" by (auto split: option.split)
  show ?thesis
    unfolding DumpOSInformation_def
    apply (rule logs_text [OF assms(1)], simp)
    apply (rule logs_text, simp, simp)
    apply (rule logs_text, simp, simp)
    apply (rule logs_text, simp, simp)
    apply (rule logs_text, simp, simp)
    apply (rule logs_append_int, simp)
    apply (rule logs_text, simp, simp)
    apply (rule logs_append, simp, rule machine)
    apply (rule logs_text, simp, simp)
    apply (rule build_logs [OF _ assms(2,3)], simp, simp, simp)
    using machine apply (simp add: logs_commit shown_def os_text_def sp machine_text)
    done
qed

section \<open>The stack and the registers\<close>

lemma logs_commit_then:
  assumes "staged line t"
    and "\<And>line'. staged line' [] \<Longrightarrow> logs (s\<lparr>u_log_line := line', u_log := u_log s @ [shown t]\<rparr>) L (f (s\<lparr>u_log_line := line', u_log := u_log s @ [shown t]\<rparr>))"
  shows "logs s (shown t # L) (f (LogCommitLine (s\<lparr>u_log_line := line\<rparr>)))"
  using logs_seq [OF logs_commit [OF assms(1) refl, folded shown_def], of s L f] assms(2) by simp

definition chunk_text :: "u64 \<Rightarrow> nat \<Rightarrow> bytes \<Rightarrow> bytes" where
  "chunk_text lower off bs = chars ''S '' @ hexstr 8 (lower + of_nat off) @ chars '' '' @ hex_bytes bs"

text \<open>A reader of a line of the stack: the address and the bytes.\<close>

definition read_chunk :: "bytes \<Rightarrow> u64 \<times> bytes" where
  "read_chunk line = (of_nat (hex_val 0 (take 16 (drop 2 line))), unhex (drop 19 line))"

function chunk_lines :: "u64 \<Rightarrow> bytes \<Rightarrow> nat \<Rightarrow> bytes list" where
  "chunk_lines lower stack off =
     (if off < length stack then chunk_text lower off (take STACK_DUMP_CHUNK_SIZE (drop off stack)) # chunk_lines lower stack (off + STACK_DUMP_CHUNK_SIZE) else [])"
  by auto
termination by (relation "measure (\<lambda>(lower, stack, off). length stack - off)") (auto simp: STACK_DUMP_CHUNK_SIZE_def)

declare chunk_lines.simps [simp del]

lemma shown_id: "length t < kLineBufferSize \<Longrightarrow> shown t = t"
  by (simp add: shown_def)

lemma shown_chunk: "shown (chunk_text lower off (take STACK_DUMP_CHUNK_SIZE bs)) = chunk_text lower off (take STACK_DUMP_CHUNK_SIZE bs)"
  by (rule shown_id) (simp add: chunk_text_def chars_def STACK_DUMP_CHUNK_SIZE_def kLineBufferSize_def)

lemma read_chunk_text: "read_chunk (chunk_text lower off bs) = (lower + of_nat off, bs)"
proof -
  have "hex_val 0 (hexstr 8 (lower + of_nat off)) = unat (lower + of_nat off)"
    using hex_val_hexstr [of 8 "lower + of_nat off"] unsigned_less [of "lower + of_nat off", where ?'a = nat] by simp
  then show ?thesis by (simp add: read_chunk_def chunk_text_def chars_def unhex_bytes)
qed

lemma chunk_lines_read:
  "concat (map (snd \<circ> read_chunk) (chunk_lines lower stack off)) = drop off stack"
  "map (fst \<circ> read_chunk) (chunk_lines lower stack off) =
     map (\<lambda>i. lower + of_nat (off + i * STACK_DUMP_CHUNK_SIZE)) [0..<length (chunk_lines lower stack off)]"
proof (induction lower stack off rule: chunk_lines.induct)
  case (1 lower stack off)
  let ?L = "chunk_lines lower stack" and ?c = STACK_DUMP_CHUNK_SIZE
  show "concat (map (snd \<circ> read_chunk) (?L off)) = drop off stack"
    using 1(1) append_take_drop_id [of ?c "drop off stack"]
    by (cases "off < length stack") (simp_all add: chunk_lines.simps [of lower stack off] read_chunk_text add.commute comp_def)
  have sh: "map g [0..<Suc n] = g 0 # map (\<lambda>i. g (Suc i)) [0..<n]" for g :: "nat \<Rightarrow> u64" and n
    by (simp add: upt_conv_Cons map_Suc_upt [symmetric] del: upt_Suc)
  show "map (fst \<circ> read_chunk) (?L off) = map (\<lambda>i. lower + of_nat (off + i * ?c)) [0..<length (?L off)]"
  proof (cases "off < length stack")
    case True
    have "map (fst \<circ> read_chunk) (?L (off + ?c)) = map (\<lambda>i. lower + of_nat (off + Suc i * ?c)) [0..<length (?L (off + ?c))]"
      using 1(2) [OF True] by (simp add: algebra_simps comp_def)
    then show ?thesis
      using True sh [of "\<lambda>i. lower + of_nat (off + i * ?c)" "length (?L (off + ?c))"]
      by (simp add: chunk_lines.simps [of lower stack off] read_chunk_text del: upt_Suc)
  qed (simp add: chunk_lines.simps)
qed

lemma dump_chunks_logs:
  assumes "staged (u_log_line s) []"
  shows "logs s (chunk_lines lower stack off) (dump_chunks lower stack (length stack) off s)"
  using assms
proof (induction "length stack - off" arbitrary: off s rule: less_induct)
  case less
  show ?case
  proof (cases "off < length stack")
    case True
    let ?c = STACK_DUMP_CHUNK_SIZE and ?bs = "take (min STACK_DUMP_CHUNK_SIZE (length stack - off)) (drop off stack)"
    have bs: "?bs = take ?c (drop off stack)" by (simp add: min_def)
    have "length stack - (off + ?c) < length stack - off" using True by (simp add: STACK_DUMP_CHUNK_SIZE_def)
    note IH = less.hyps [OF this]
    have "logs s (shown (chunk_text lower off ?bs) # chunk_lines lower stack (off + ?c)) (dump_chunks lower stack (length stack) off s)"
      unfolding dump_chunks.simps [of lower stack "length stack" off s] if_P [OF True]
      apply (rule logs_text, rule less.prems, simp)
      apply (rule logs_append_int, simp)
      apply (rule logs_text, simp, simp)
      apply (rule logs_append_buf, simp)
      apply (simp add: chunk_text_def)
      apply (rule logs_commit_then, simp)
      apply (rule IH, simp)
      done
    then show ?thesis using True unfolding bs shown_chunk by (simp add: chunk_lines.simps [of lower stack off])
  next
    case False
    then have "dump_chunks lower stack (length stack) off s = Some s" by (subst dump_chunks.simps) simp
    moreover have "chunk_lines lower stack off = []" using False by (simp add: chunk_lines.simps [of lower stack off])
    ultimately show ?thesis using less.prems by (auto simp: logs_def intro!: exI [of _ "u_log_line s"])
  qed
qed

lemma length_sanitize_words: "length (sanitize_words ms sm arr hit sp) = length sp"
proof (induction ms sm arr hit sp rule: sanitize_words.induct)
  case (1 ms sm arr hit sp)
  show ?case
  proof (cases "length sp < 8")
    case False
    obtain keep h where k: "keep_word ms sm arr hit (load_word (take 8 sp)) = (keep, h)" by (cases "keep_word ms sm arr hit (load_word (take 8 sp))")
    have "length (sanitize_words ms sm arr h (drop 8 sp)) = length (drop 8 sp)" using 1 [OF False refl k [symmetric]] by simp
    then show ?thesis using False k by (subst sanitize_words.simps) (simp add: store_word_def)
  qed (simp add: sanitize_words.simps)
qed

lemma my_memset_length: "my_memset buf c len = Some b \<Longrightarrow> length b = length buf"
proof -
  have "my_memset_from buf p c len = Some b \<Longrightarrow> length b = length buf" for p
    by (induction buf p c len rule: my_memset_from.induct) (auto split: option.splits if_splits simp: wr_def)
  then show "my_memset buf c len = Some b \<Longrightarrow> length b = length buf" by (simp add: my_memset_def)
qed

lemma SanitizeStackCopy_length: "SanitizeStackCopy ms stack sp off = Some b \<Longrightarrow> length b = length stack"
  by (auto simp: SanitizeStackCopy_def Let_def length_sanitize_words split: if_splits dest!: my_memset_length)

text \<open>The stack that is written: the copy, sanitised if the writer was asked to.\<close>

definition final_stack :: "'f microdump_writer \<Rightarrow> bytes option" where
  "final_stack s =
     (if u_sanitize_stack s
      then SanitizeStackCopy (d_mappings (u_dumper s)) (u_stack_copy s) (u_stack_pointer s) (u_stack_pointer s - u_stack_lower_bound s)
      else Some (u_stack_copy s))"

definition stack_text :: "'f microdump_writer \<Rightarrow> bytes" where
  "stack_text s = chars ''S 0 '' @ hexstr 8 (u_stack_pointer s) @ chars '' '' @ hexstr 8 (u_stack_lower_bound s) @ chars '' '' @ hexstr 8 (u_stack_len s)"

lemma DumpThreadStack_logs:
  assumes "staged (u_log_line s) []" and stack: "final_stack s = Some stack" and len: "unat (u_stack_len s) = length (u_stack_copy s)"
  shows "logs (s\<lparr>u_stack_copy := stack\<rparr>) (stack_text s # chunk_lines (u_stack_lower_bound s) stack 0) (DumpThreadStack s)"
proof -
  have l: "unat (u_stack_len s) = length stack"
    using stack len SanitizeStackCopy_length [of "d_mappings (u_dumper s)" "u_stack_copy s"] by (auto simp: final_stack_def split: if_splits)
  have sh: "shown (stack_text s) = stack_text s" by (rule shown_id) (simp add: stack_text_def chars_def kLineBufferSize_def)
  have "logs (s\<lparr>u_stack_copy := stack\<rparr>) (shown (stack_text s) # chunk_lines (u_stack_lower_bound s) stack 0) (DumpThreadStack s)"
    unfolding DumpThreadStack_def stack [unfolded final_stack_def] bind.bind_lunit Let_def stack_text_def
    apply (rule logs_text [where t = "[]"], simp add: assms(1), simp)
    apply (rule logs_append_int, simp)
    apply (rule logs_text, simp, simp)
    apply (rule logs_append_int, simp)
    apply (rule logs_text, simp, simp)
    apply (rule logs_append_int, simp)
    apply (simp add: l)
    apply (rule logs_commit_then, simp)
    apply (rule dump_chunks_logs, simp)
    done
  then show ?thesis unfolding sh .
qed

lemma DumpCPUState_logs:
  assumes "staged (u_log_line s) []" and "u_ucontext s = Some uc"
    and "FillCPUContext 8 MDRawContextARM64_Old (fill_arm64_ucontext (uc_regs uc) (uc_float uc)) = Some cpu" and "length cpu = 796"
  shows "logs s [chars ''C '' @ hex_bytes cpu] (DumpCPUState s)"
proof -
  have sh: "shown (chars ''C '' @ hex_bytes cpu) = chars ''C '' @ hex_bytes cpu" by (rule shown_id) (simp add: chars_def assms(4) kLineBufferSize_def)
  have "logs s [shown (chars ''C '' @ hex_bytes cpu)] (DumpCPUState s)"
    unfolding DumpCPUState_def assms(2,3) bind.bind_lunit
    apply (rule logs_text, rule assms(1), simp)
    apply (rule logs_append_buf, simp)
    apply (simp add: logs_commit shown_def)
    done
  then show ?thesis unfolding sh .
qed

section \<open>Modules\<close>

definition effective_name :: "bool \<times> bytes \<Rightarrow> mapping_info \<Rightarrow> bytes" where
  "effective_name so m =
     (let (found, fname) = so
      in if found then cstr fname else take (NAME_MAX - 1) (base_name (take (NAME_MAX - 1) (cstr (mi_name m)))))"

definition guid_text :: "bytes \<Rightarrow> bytes" where
  "guid_text g = hexstr 4 (of_nat (le_nat (take 4 g)) :: u32) @ hexstr 2 (of_nat (le_nat (take 2 (drop 4 g))) :: u16) @
     hexstr 2 (of_nat (le_nat (take 2 (drop 6 g))) :: u16) @ hex_bytes (take 8 (drop 8 g))"

definition module_text :: "'f dumper \<Rightarrow> module_source \<Rightarrow> bytes" where
  "module_text d src =
     (let (ident, m) = module_ident d src
      in chars ''M '' @ hexstr 8 (mi_start_addr m) @ chars '' '' @ hexstr 8 (mi_offset m) @ chars '' '' @ hexstr 8 (mi_size m) @ chars '' '' @
         guid_text (take sizeof_MDGUID (ident @ replicate sizeof_MDGUID 0)) @ chars ''0 '' @
         effective_name (d_so_name d m (replicate NAME_MAX 0)) m)"

definition names_ok :: "'f dumper \<Rightarrow> module_source \<Rightarrow> bool" where
  "names_ok d src \<longleftrightarrow>
     (let (ident, m) = module_ident d src; (found, fname) = d_so_name d m (replicate NAME_MAX 0)
      in nul_terminated (mi_name m) \<and> length fname = NAME_MAX \<and> nul_terminated fname)"

lemma module_text_mappings [simp]:
  "module_text (d\<lparr>d_mappings := ms\<rparr>) = module_text d" "names_ok (d\<lparr>d_mappings := ms\<rparr>) = names_ok d" "module_ident (d\<lparr>d_mappings := ms\<rparr>) = module_ident d"
proof -
  show i: "module_ident (d\<lparr>d_mappings := ms\<rparr>) = module_ident d" by (intro ext) (simp add: module_ident_def split: prod.split option.split)
  show "module_text (d\<lparr>d_mappings := ms\<rparr>) = module_text d" "names_ok (d\<lparr>d_mappings := ms\<rparr>) = names_ok d"
    by (intro ext, simp add: module_text_def names_ok_def i)+
qed

lemma logs_guid:
  assumes "staged (u_log_line s) t" and "\<And>line. staged line (t @ guid_text g) \<Longrightarrow> logs s0 L (f (s\<lparr>u_log_line := line\<rparr>))"
  shows "logs s0 L (LogAppend_guid g s \<bind> f)"
  unfolding LogAppend_guid_def bind_assoc
  apply (rule logs_append_int, rule assms(1))
  apply (rule logs_append_int, simp)
  apply (rule logs_append_int, simp)
  apply (rule logs_append_buf, simp)
  apply (simp add: assms(2) guid_text_def)
  done

text \<open>
  The same for lines of modules: naming a module may replace its mapping in the list of the dumper, which no later line reads.
\<close>

definition logs_modules :: "'f microdump_writer \<Rightarrow> bytes list \<Rightarrow> 'f microdump_writer option \<Rightarrow> bool" where
  "logs_modules s L r \<longleftrightarrow>
     (\<exists>line ms. staged line [] \<and> r = Some (s\<lparr>u_dumper := (u_dumper s)\<lparr>d_mappings := ms\<rparr>, u_log_line := line, u_log := u_log s @ L\<rparr>))"

lemma logs_modules_seq:
  assumes "logs_modules s L1 r"
    and "\<And>line ms. staged line [] \<Longrightarrow>
      logs_modules (s\<lparr>u_dumper := (u_dumper s)\<lparr>d_mappings := ms\<rparr>, u_log_line := line, u_log := u_log s @ L1\<rparr>) L2
        (f (s\<lparr>u_dumper := (u_dumper s)\<lparr>d_mappings := ms\<rparr>, u_log_line := line, u_log := u_log s @ L1\<rparr>))"
  shows "logs_modules s (L1 @ L2) (r \<bind> f)"
proof -
  obtain line ms where r: "staged line []" "r = Some (s\<lparr>u_dumper := (u_dumper s)\<lparr>d_mappings := ms\<rparr>, u_log_line := line, u_log := u_log s @ L1\<rparr>)"
    using assms(1) unfolding logs_modules_def by blast
  obtain line' ms' where "staged line' []"
    "f (s\<lparr>u_dumper := (u_dumper s)\<lparr>d_mappings := ms\<rparr>, u_log_line := line, u_log := u_log s @ L1\<rparr>) =
      Some (s\<lparr>u_dumper := (u_dumper s)\<lparr>d_mappings := ms'\<rparr>, u_log_line := line', u_log := u_log s @ L1 @ L2\<rparr>)"
    using assms(2) [OF r(1), of ms] unfolding logs_modules_def by auto
  then show ?thesis unfolding logs_modules_def r(2) bind.bind_lunit by blast
qed

lemma logs_modules_nil: "staged (u_log_line s) [] \<Longrightarrow> logs_modules s [] (Some s)"
  unfolding logs_modules_def by (intro exI [of _ "u_log_line s"] exI [of _ "d_mappings (u_dumper s)"]) simp

lemma DumpModule_logs:
  assumes "staged (u_log_line s) []" and "names_ok (u_dumper s) (m0, member, i, ident)"
  shows "logs_modules s [shown (module_text (u_dumper s) (m0, member, i, ident))] (DumpModule m0 member i ident s)"
proof -
  let ?d = "u_dumper s" and ?src = "(m0, member, i, ident)"
  obtain idb m where id: "module_ident ?d ?src = (idb, m)" by (cases "module_ident ?d ?src")
  obtain found fname where so: "d_so_name ?d m (replicate NAME_MAX 0) = (found, fname)" by (cases "d_so_name ?d m (replicate NAME_MAX 0)")
  have ok: "nul_terminated (mi_name m)" "length fname = length (replicate NAME_MAX (0 :: u8))" "nul_terminated fname"
    using assms(2) by (simp_all add: names_ok_def id so)
  have pos: "0 < length (replicate NAME_MAX (0 :: u8))" by (simp add: NAME_MAX_def)
  obtain p n where pn: "GetMappingEffectiveNameAndPath (d_so_name ?d m) m (replicate NAME_MAX 0) (replicate NAME_MAX 0) = Some (p, n)" "nul_terminated n"
    "cstr n = effective_name (found, fname) m"
    using GetMappingEffectiveNameAndPath_result [of m "replicate NAME_MAX 0" "replicate NAME_MAX 0" "d_so_name ?d m" found fname, OF ok(1) pos pos so ok(2,3) refl]
    by (auto simp: effective_name_def)
  let ?ms = "if member \<and> ident = None then (d_mappings ?d)[i := m] else d_mappings ?d"
  let ?s = "s\<lparr>u_dumper := ?d\<lparr>d_mappings := ?ms\<rparr>\<rparr>"
  have s: "(if member \<and> ident = None then s\<lparr>u_dumper := ?d\<lparr>d_mappings := (d_mappings ?d)[i := m]\<rparr>\<rparr> else s) = ?s" by simp
  have idm: "(case ident of Some g \<Rightarrow> (take sizeof_MDGUID g, m0) | None \<Rightarrow> d_identifier ?d m0 member i) = (idb, m)" using id by (simp add: module_ident_def)
  have so': "d_so_name (u_dumper ?s) m = d_so_name ?d m" by simp
  have "logs ?s [shown (module_text ?d ?src)] (DumpModule m0 member i ident s)"
    unfolding DumpModule_def idm Let_def prod.case s so' pn(1) bind.bind_lunit module_text_def id so
    apply (rule logs_text [where t = "[]"], simp add: assms(1), simp)
    apply (rule logs_append_int, simp)
    apply (rule logs_text, simp, simp)
    apply (rule logs_append_int, simp)
    apply (rule logs_text, simp, simp)
    apply (rule logs_append_int, simp)
    apply (rule logs_text, simp, simp)
    apply (rule logs_guid, simp)
    apply (rule logs_text, simp, simp)
    apply (rule logs_append, simp, rule pn(2))
    apply (simp add: logs_commit shown_def pn(3) del: if_split)
    done
  then show ?thesis unfolding logs_modules_def logs_def by (auto intro!: exI [of _ ?ms])
qed

definition micro_sources :: "(mapping_info \<times> bytes) list \<Rightarrow> nat \<Rightarrow> mapping_info list \<Rightarrow> module_source list" where
  "micro_sources caller i ms =
     map (\<lambda>(k, m). (m, True, k, None))
       (filter (\<lambda>(k, m). mi_name m ! 0 \<noteq> 0 \<and> mi_exec m \<and> 4096 \<le> mi_size m \<and> \<not> Micro_HaveMappingInfo caller m) (enumerate i ms))"

definition caller_sources :: "(mapping_info \<times> bytes) list \<Rightarrow> module_source list" where
  "caller_sources cs = map (\<lambda>(m, g). (m, False, 0, Some g)) cs"

lemma dump_mappings_logs:
  assumes "staged (u_log_line s) []" and "list_all (names_ok (u_dumper s)) (micro_sources (u_mapping_list s) i ms)"
  shows "logs_modules s (map (\<lambda>x. shown (module_text (u_dumper s) x)) (micro_sources (u_mapping_list s) i ms)) (dump_mappings i ms s)"
  using assms
proof (induction ms arbitrary: i s)
  case Nil
  then show ?case by (simp add: micro_sources_def logs_modules_nil)
next
  case (Cons m ms)
  show ?case
  proof (cases "mi_name m ! 0 = 0 \<or> \<not> mi_exec m \<or> mi_size m < 4096 \<or> Micro_HaveMappingInfo (u_mapping_list s) m")
    case True
    then have "micro_sources (u_mapping_list s) i (m # ms) = micro_sources (u_mapping_list s) (Suc i) ms" by (auto simp: micro_sources_def)
    then show ?thesis using Cons.IH [of s "Suc i"] Cons.prems True by simp
  next
    case False
    then have src: "micro_sources (u_mapping_list s) i (m # ms) = (m, True, i, None) # micro_sources (u_mapping_list s) (Suc i) ms" by (auto simp: micro_sources_def)
    have dm: "dump_mappings i (m # ms) s = DumpModule m True i None s \<bind> dump_mappings (Suc i) ms" using False by simp
    have ok: "names_ok (u_dumper s) (m, True, i, None)" "list_all (names_ok (u_dumper s)) (micro_sources (u_mapping_list s) (Suc i) ms)"
      using Cons.prems(2) unfolding src by simp_all
    have "logs_modules s ([shown (module_text (u_dumper s) (m, True, i, None))] @
        map (\<lambda>x. shown (module_text (u_dumper s) x)) (micro_sources (u_mapping_list s) (Suc i) ms)) (DumpModule m True i None s \<bind> dump_mappings (Suc i) ms)"
    proof (rule logs_modules_seq [OF DumpModule_logs [OF Cons.prems(1) ok(1)]], goal_cases)
      case (1 line ms')
      then show ?case
        using Cons.IH [of "s\<lparr>u_dumper := (u_dumper s)\<lparr>d_mappings := ms'\<rparr>, u_log_line := line, u_log := u_log s @ [shown (module_text (u_dumper s) (m, True, i, None))]\<rparr>" "Suc i"] ok(2) by simp
    qed
    then show ?thesis unfolding src dm by simp
  qed
qed

lemma dump_caller_mappings_logs:
  assumes "staged (u_log_line s) []" and "list_all (names_ok (u_dumper s)) (caller_sources cs)"
  shows "logs_modules s (map (\<lambda>x. shown (module_text (u_dumper s) x)) (caller_sources cs)) (dump_caller_mappings cs s)"
  using assms
proof (induction cs arbitrary: s)
  case Nil
  then show ?case by (simp add: caller_sources_def logs_modules_nil)
next
  case (Cons c cs)
  obtain m g where c: "c = (m, g)" by (cases c)
  have src: "caller_sources (c # cs) = (m, False, 0, Some g) # caller_sources cs" by (simp add: caller_sources_def c)
  have ok: "names_ok (u_dumper s) (m, False, 0, Some g)" "list_all (names_ok (u_dumper s)) (caller_sources cs)"
    using Cons.prems(2) unfolding src by simp_all
  have "logs_modules s ([shown (module_text (u_dumper s) (m, False, 0, Some g))] @ map (\<lambda>x. shown (module_text (u_dumper s) x)) (caller_sources cs))
      (DumpModule m False 0 (Some g) s \<bind> dump_caller_mappings cs)"
  proof (rule logs_modules_seq [OF DumpModule_logs [OF Cons.prems(1) ok(1)]], goal_cases)
    case (1 line ms')
    then show ?case
      using Cons.IH [of "s\<lparr>u_dumper := (u_dumper s)\<lparr>d_mappings := ms'\<rparr>, u_log_line := line, u_log := u_log s @ [shown (module_text (u_dumper s) (m, False, 0, Some g))]\<rparr>"] ok(2) by simp
  qed
  then show ?case unfolding src by (simp add: c)
qed

definition micro_module_sources :: "'f microdump_writer \<Rightarrow> module_source list" where
  "micro_module_sources s = micro_sources (u_mapping_list s) 0 (d_mappings (u_dumper s)) @ caller_sources (u_mapping_list s)"

lemma DumpMappings_logs:
  assumes "staged (u_log_line s) []" and "list_all (names_ok (u_dumper s)) (micro_module_sources s)"
  shows "logs_modules s (map (\<lambda>x. shown (module_text (u_dumper s) x)) (micro_module_sources s)) (DumpMappings s)"
proof -
  have ok: "list_all (names_ok (u_dumper s)) (micro_sources (u_mapping_list s) 0 (d_mappings (u_dumper s)))"
    "list_all (names_ok (u_dumper s)) (caller_sources (u_mapping_list s))"
    using assms(2) by (simp_all add: micro_module_sources_def)
  show ?thesis
    unfolding DumpMappings_def micro_module_sources_def map_append
  proof (rule logs_modules_seq [OF dump_mappings_logs [OF assms(1) ok(1)]], goal_cases)
    case (1 line ms)
    then show ?case
      using dump_caller_mappings_logs [of "s\<lparr>u_dumper := (u_dumper s)\<lparr>d_mappings := ms\<rparr>, u_log_line := line,
        u_log := u_log s @ map (\<lambda>x. shown (module_text (u_dumper s) x)) (micro_sources (u_mapping_list s) 0 (d_mappings (u_dumper s)))\<rparr>" "u_mapping_list s"] ok(2)
      by simp
  qed
qed

section \<open>The whole log\<close>

definition header_lines :: "u8 \<Rightarrow> (bytes \<times> bytes \<times> bytes) option \<Rightarrow> extra_info \<Rightarrow> 'f dumper \<Rightarrow> bytes list" where
  "header_lines n_cpus uname x d =
     [shown (chars ''V '' @ cstr (given_or (x_product_info x) ''UNKNOWN:0.0.0.0'')), shown (os_text n_cpus uname x),
      shown (chars ''P '' @ cstr (given_or (x_process_type x) ''UNKNOWN'')), shown (reason_text d),
      shown (chars ''G '' @ cstr (given_or (x_gpu_fingerprint x) ''UNKNOWN''))]"

definition microdump_log ::
  "u8 \<Rightarrow> (bytes \<times> bytes \<times> bytes) option \<Rightarrow> extra_info \<Rightarrow> 'f dumper \<Rightarrow> bytes list \<Rightarrow> bytes \<Rightarrow> module_source list \<Rightarrow> bytes list" where
  "microdump_log n_cpus uname x d stack_lines cpu srcs =
     chars ''-----BEGIN BREAKPAD MICRODUMP-----'' # header_lines n_cpus uname x d @ stack_lines @ [chars ''C '' @ hex_bytes cpu] @
     map (module_text d) srcs @ [chars ''-----END BREAKPAD MICRODUMP-----'']"

definition texts_ok :: "(bytes \<times> bytes \<times> bytes) option \<Rightarrow> extra_info \<Rightarrow> bool" where
  "texts_ok uname x \<longleftrightarrow>
     (case uname of Some (a, b, c) \<Rightarrow> nul_terminated a \<and> nul_terminated b \<and> nul_terminated c | None \<Rightarrow> True) \<and>
     list_all (case_option True nul_terminated) [x_build_fingerprint x, x_product_info x, x_gpu_fingerprint x, x_process_type x]"

lemma texts_okD:
  assumes "texts_ok uname x"
  shows "uname = Some (a, b, c) \<Longrightarrow> nul_terminated a \<and> nul_terminated b \<and> nul_terminated c"
    and "x_build_fingerprint x = Some f \<Longrightarrow> nul_terminated f"
    and "nul_terminated (given_or (x_product_info x) t)" "nul_terminated (given_or (x_gpu_fingerprint x) t)" "nul_terminated (given_or (x_process_type x) t)"
  using assms by (auto simp: texts_ok_def given_or_def split: option.splits)

lemma logs_line:
  assumes "logs s [x] r"
    and "\<And>s'. staged (u_log_line s') [] \<Longrightarrow> u_extra_info s' = u_extra_info s \<Longrightarrow> u_dumper s' = u_dumper s \<Longrightarrow> logs s' L (f s')"
  shows "logs s (x # L) (r \<bind> f)"
proof -
  have "logs s ([x] @ L) (r \<bind> f)" by (rule logs_seq [OF assms(1)], rule assms(2)) simp_all
  then show ?thesis by simp
qed

lemma header_logs:
  assumes "staged (u_log_line s) []" and t: "texts_ok uname (u_extra_info s)"
  shows "logs s (header_lines n_cpus uname (u_extra_info s) (u_dumper s))
    (DumpProductInformation s \<bind> (\<lambda>s. DumpOSInformation n_cpus uname s \<bind> (\<lambda>s. DumpProcessType s \<bind> (\<lambda>s. DumpCrashReason s \<bind> DumpGPUInformation))))"
proof -
  let ?x = "u_extra_info s" and ?d = "u_dumper s"
  let ?G = "shown (chars ''G '' @ cstr (given_or (x_gpu_fingerprint ?x) ''UNKNOWN''))" and ?P = "shown (chars ''P '' @ cstr (given_or (x_process_type ?x) ''UNKNOWN''))"
  have G: "logs s' [?G] (DumpGPUInformation s')" if "staged (u_log_line s') []" "u_extra_info s' = ?x" for s' :: "'a microdump_writer"
    by (rule DumpGPUInformation_logs [OF that(1), unfolded that(2), OF texts_okD(4) [OF t]])
  have R: "logs s' [shown (reason_text ?d), ?G] (DumpCrashReason s' \<bind> DumpGPUInformation)"
    if "staged (u_log_line s') []" "u_extra_info s' = ?x" "u_dumper s' = ?d" for s'
    by (rule logs_line [OF DumpCrashReason_logs [OF that(1), unfolded that(3)] G]) (simp_all add: that)
  have P: "logs s' [?P, shown (reason_text ?d), ?G] (DumpProcessType s' \<bind> (\<lambda>s. DumpCrashReason s \<bind> DumpGPUInformation))"
    if "staged (u_log_line s') []" "u_extra_info s' = ?x" "u_dumper s' = ?d" for s'
    by (rule logs_line [OF DumpProcessType_logs [OF that(1), unfolded that(2), OF texts_okD(5) [OF t]] R]) (simp_all add: that)
  have os: "logs s' [shown (os_text n_cpus uname ?x)] (DumpOSInformation n_cpus uname s')" if "staged (u_log_line s') []" "u_extra_info s' = ?x" for s' :: "'a microdump_writer"
    using DumpOSInformation_logs [OF that(1), of uname n_cpus] texts_okD(1,2) [OF t] that(2) by simp
  have O: "logs s' [shown (os_text n_cpus uname ?x), ?P, shown (reason_text ?d), ?G]
      (DumpOSInformation n_cpus uname s' \<bind> (\<lambda>s. DumpProcessType s \<bind> (\<lambda>s. DumpCrashReason s \<bind> DumpGPUInformation)))"
    if "staged (u_log_line s') []" "u_extra_info s' = ?x" "u_dumper s' = ?d" for s'
    by (rule logs_line [OF os [OF that(1,2)] P]) (simp_all add: that)
  show ?thesis
    unfolding header_lines_def by (rule logs_line [OF DumpProductInformation_logs [OF assms(1) texts_okD(3) [OF t]] O]) simp_all
qed

text \<open>A module line is never cut.\<close>

lemma module_text_shown:
  assumes "names_ok d src"
  shows "shown (module_text d src) = module_text d src"
proof -
  obtain idb m where id: "module_ident d src = (idb, m)" by (cases "module_ident d src")
  obtain found fname where so: "d_so_name d m (replicate NAME_MAX 0) = (found, fname)" by (cases "d_so_name d m (replicate NAME_MAX 0)")
  have "length (cstr fname) < NAME_MAX" using assms length_cstr_less [of fname] by (simp add: names_ok_def id so)
  then have "length (effective_name (found, fname) m) < NAME_MAX" by (simp add: effective_name_def NAME_MAX_def min_less_iff_disj)
  then show ?thesis
    by (intro shown_id) (simp add: module_text_def id so so [unfolded NAME_MAX_def] guid_text_def chars_def sizeof_MDGUID_def NAME_MAX_def kLineBufferSize_def)
qed

text \<open>The part of the dump after the capture of the stack, \<open>stack_lines\<close> being what it adds for the stack.\<close>

lemma tail_logs:
  assumes "staged (u_log_line s) []" and "u_ucontext s = Some uc" and "length (ur_regs (uc_regs uc)) = 31" and "length (fp_vregs (uc_float uc)) = 512"
    and cpu: "FillCPUContext 8 MDRawContextARM64_Old (fill_arm64_ucontext (uc_regs uc) (uc_float uc)) = Some cpu"
    and ok: "list_all (names_ok (u_dumper s)) (micro_module_sources s)"
  shows "\<exists>s'. DumpCPUState s \<bind> DumpMappings = Some s' \<and>
    u_log s' = u_log s @ [chars ''C '' @ hex_bytes cpu] @ map (module_text (u_dumper s)) (micro_module_sources s)"
proof -
  have "length cpu = 796"
    using arm64_fills [OF assms(3,4)] cpu by (simp add: fills_def sizeof_def MDRawContextARM64_Old_layout fill_arm64_thread_def fill_arm64_ucontext_def)
  then obtain line where s1: "staged line []" "DumpCPUState s = Some (s\<lparr>u_log_line := line, u_log := u_log s @ [chars ''C '' @ hex_bytes cpu]\<rparr>)"
    using DumpCPUState_logs [OF assms(1,2) cpu] by (auto simp: logs_def)
  let ?s = "s\<lparr>u_log_line := line, u_log := u_log s @ [chars ''C '' @ hex_bytes cpu]\<rparr>"
  have src: "micro_module_sources ?s = micro_module_sources s" by (simp add: micro_module_sources_def)
  have tx: "map (\<lambda>x. shown (module_text (u_dumper s) x)) (micro_module_sources s) = map (module_text (u_dumper s)) (micro_module_sources s)"
    using ok by (intro map_cong refl module_text_shown) (simp add: list_all_iff)
  have "logs_modules ?s (map (\<lambda>x. shown (module_text (u_dumper ?s) x)) (micro_module_sources ?s)) (DumpMappings ?s)"
    by (rule DumpMappings_logs) (simp_all add: s1(1) src ok)
  then obtain s' where "DumpMappings ?s = Some s'" "u_log s' = u_log ?s @ map (\<lambda>x. shown (module_text (u_dumper s) x)) (micro_module_sources s)"
    unfolding src by (auto simp: logs_modules_def)
  then show ?thesis unfolding s1(2) bind.bind_lunit tx by simp
qed

lemma Micro_Dump_captured:
  assumes cap: "CaptureCrashingThreadStack (-1) s0 = Some (res, s)" "res \<noteq> CAPTURE_UNINTERESTING"
    and line: "staged (u_log_line s) []" and "u_log s = []" and t: "texts_ok uname (u_extra_info s)"
    and uc: "u_ucontext s = Some uc" "length (ur_regs (uc_regs uc)) = 31" "length (fp_vregs (uc_float uc)) = 512"
    and cpu: "FillCPUContext 8 MDRawContextARM64_Old (fill_arm64_ucontext (uc_regs uc) (uc_float uc)) = Some cpu"
    and ok: "list_all (names_ok (u_dumper s)) (micro_module_sources s)"
    and stack: "res = CAPTURE_OK \<Longrightarrow> final_stack s = Some stack \<and> unat (u_stack_len s) = length (u_stack_copy s)"
  shows "\<exists>s'. Micro_Dump n_cpus uname s0 = Some s' \<and> u_log s' =
    microdump_log n_cpus uname (u_extra_info s) (u_dumper s)
      (if res = CAPTURE_OK then stack_text s # chunk_lines (u_stack_lower_bound s) stack 0 else []) cpu (micro_module_sources s)"
proof -
  let ?B = "chars ''-----BEGIN BREAKPAD MICRODUMP-----''" and ?H = "header_lines n_cpus uname (u_extra_info s) (u_dumper s)"
  let ?S = "if res = CAPTURE_OK then stack_text s # chunk_lines (u_stack_lower_bound s) stack 0 else []"
  let ?s1 = "s\<lparr>u_log := [?B]\<rparr>"
  have s1: "LogLine (text_of ''-----BEGIN BREAKPAD MICRODUMP-----'') s = ?s1" using assms(4) by (simp add: LogLine_def)
  obtain l2 where l2: "staged l2 []" "DumpProductInformation ?s1 \<bind> (\<lambda>s. DumpOSInformation n_cpus uname s \<bind> (\<lambda>s. DumpProcessType s \<bind> (\<lambda>s. DumpCrashReason s \<bind> DumpGPUInformation))) =
      Some (s\<lparr>u_log_line := l2, u_log := ?B # ?H\<rparr>)"
    using header_logs [of ?s1 uname n_cpus] line t by (auto simp: logs_def)
  let ?s2 = "s\<lparr>u_log_line := l2, u_log := ?B # ?H\<rparr>"
  have "\<exists>l3 c. staged l3 [] \<and> (if res = CAPTURE_OK then DumpThreadStack ?s2 else Some ?s2) = Some (s\<lparr>u_stack_copy := c, u_log_line := l3, u_log := ?B # ?H @ ?S\<rparr>)"
  proof (cases "res = CAPTURE_OK")
    case True
    have "final_stack ?s2 = Some stack" "unat (u_stack_len ?s2) = length (u_stack_copy ?s2)" "stack_text ?s2 = stack_text s"
      using stack True by (auto simp: final_stack_def stack_text_def split: if_splits)
    then show ?thesis using DumpThreadStack_logs [of ?s2 stack] l2(1) True by (auto simp: logs_def)
  next
    case False
    then show ?thesis using l2(1) by - (rule exI [of _ l2], rule exI [of _ "u_stack_copy s"], simp)
  qed
  then obtain l3 c where l3: "staged l3 []" "(if res = CAPTURE_OK then DumpThreadStack ?s2 else Some ?s2) = Some (s\<lparr>u_stack_copy := c, u_log_line := l3, u_log := ?B # ?H @ ?S\<rparr>)"
    by blast
  let ?s3 = "s\<lparr>u_stack_copy := c, u_log_line := l3, u_log := ?B # ?H @ ?S\<rparr>"
  have src: "micro_module_sources ?s3 = micro_module_sources s" by (simp add: micro_module_sources_def)
  obtain s4 where s4: "DumpCPUState ?s3 \<bind> DumpMappings = Some s4"
    "u_log s4 = (?B # ?H @ ?S) @ [chars ''C '' @ hex_bytes cpu] @ map (module_text (u_dumper s)) (micro_module_sources s)"
    using tail_logs [of ?s3 uc cpu] l3(1) uc cpu ok unfolding src by auto
  have "Micro_Dump n_cpus uname s0 =
      (DumpProductInformation ?s1 \<bind> (\<lambda>s. DumpOSInformation n_cpus uname s \<bind> (\<lambda>s. DumpProcessType s \<bind> (\<lambda>s. DumpCrashReason s \<bind> DumpGPUInformation)))) \<bind>
      (\<lambda>s. (if res = CAPTURE_OK then DumpThreadStack s else Some s) \<bind>
        (\<lambda>s. (DumpCPUState s \<bind> DumpMappings) \<bind> (\<lambda>s. Some (LogLine (text_of ''-----END BREAKPAD MICRODUMP-----'') s))))"
    unfolding Micro_Dump_def cap(1) bind.bind_lunit prod.case if_not_P [OF cap(2)] Let_def s1 bind_assoc ..
  then have "Micro_Dump n_cpus uname s0 = Some (LogLine (text_of ''-----END BREAKPAD MICRODUMP-----'') s4)"
    unfolding l2(2) bind.bind_lunit l3(2) s4(1) .
  then show ?thesis using s4(2) by (simp add: LogLine_def microdump_log_def)
qed

section \<open>Reading the log\<close>

definition read_cpu :: "bytes list \<Rightarrow> bytes list" where
  "read_cpu log = map (\<lambda>l. unhex (drop 2 l)) (filter (\<lambda>l. take 2 l = chars ''C '') log)"

text \<open>The lines of the stack follow the seven lines of the header.\<close>

definition read_stack :: "bytes list \<Rightarrow> (u64 \<times> bytes) list" where
  "read_stack log = map read_chunk (filter (\<lambda>l. take 2 l = chars ''S '') (drop 7 log))"

definition read_address :: "nat \<Rightarrow> bytes \<Rightarrow> u64" where
  "read_address off l = of_nat (hex_val 0 (take 16 (drop off l)))"

definition read_module_line :: "bytes \<Rightarrow> u64 \<times> u64 \<times> u64 \<times> bytes" where
  "read_module_line l = (read_address 2 l, read_address 19 l, read_address 36 l, drop 87 l)"

definition read_modules :: "bytes list \<Rightarrow> (u64 \<times> u64 \<times> u64 \<times> bytes) list" where
  "read_modules log = map read_module_line (filter (\<lambda>l. take 2 l = chars ''M '') log)"

definition module_entry :: "'f dumper \<Rightarrow> module_source \<Rightarrow> u64 \<times> u64 \<times> u64 \<times> bytes" where
  "module_entry d src =
     (let (ident, m) = module_ident d src
      in (mi_start_addr m, mi_offset m, mi_size m, effective_name (d_so_name d m (replicate NAME_MAX 0)) m))"

lemma hex_val_address: "of_nat (hex_val 0 (hexstr 8 a)) = (a :: u64)"
  using hex_val_hexstr [of 8 a] unsigned_less [of a, where ?'a = nat] by simp

lemma read_module_text: "read_module_line (module_text d src) = module_entry d src"
proof -
  obtain idb m where id: "module_ident d src = (idb, m)" by (cases "module_ident d src")
  define G where "G = guid_text (take sizeof_MDGUID (idb @ replicate sizeof_MDGUID 0))"
  have g: "length G = 32" by (simp add: G_def guid_text_def sizeof_MDGUID_def)
  have "module_text d src = chars ''M '' @ hexstr 8 (mi_start_addr m) @ chars '' '' @ hexstr 8 (mi_offset m) @ chars '' '' @ hexstr 8 (mi_size m) @ chars '' '' @
      G @ chars ''0 '' @ effective_name (d_so_name d m (replicate NAME_MAX 0)) m"
    by (simp only: module_text_def id Let_def prod.case G_def)
  then show ?thesis by (simp add: read_module_line_def read_address_def module_entry_def id chars_def hex_val_address g)
qed

definition stack_header :: "u64 \<Rightarrow> u64 \<Rightarrow> u64 \<Rightarrow> bytes" where
  "stack_header sp lower len = chars ''S 0 '' @ hexstr 8 sp @ chars '' '' @ hexstr 8 lower @ chars '' '' @ hexstr 8 len"

lemma take2_shown [simp]: "take 2 (shown t) = take 2 t"
  by (simp add: shown_def kLineBufferSize_def min_def)

lemma line_kinds:
  "take 2 (module_text d src) = chars ''M ''" "l \<in> set (chunk_lines lower stack off) \<Longrightarrow> take 2 l = chars ''S ''" "take 2 (stack_header sp lower len) = chars ''S ''"
proof -
  show "take 2 (module_text d src) = chars ''M ''" by (simp add: module_text_def chars_def split: prod.split)
  show "take 2 (stack_header sp lower len) = chars ''S ''" by (simp add: stack_header_def chars_def)
  show "l \<in> set (chunk_lines lower stack off) \<Longrightarrow> take 2 l = chars ''S ''"
  proof (induction lower stack off rule: chunk_lines.induct)
    case (1 lower stack off)
    then show ?case by (cases "off < length stack") (auto simp: chunk_lines.simps [of lower stack off] chunk_text_def chars_def)
  qed
qed

lemma header_kinds: "map (take 2) (header_lines n uname x d) = map chars [''V '', ''O '', ''P '', ''R '', ''G '']"
  by (simp add: header_lines_def os_text_def reason_text_def chars_def)

lemma filter_kind: "filter (\<lambda>l. take 2 l = k) ls = (if k = k' then ls else [])" if "\<And>l. l \<in> set ls \<Longrightarrow> take 2 l = k'"
  using that by (induction ls) auto

lemma filter_header: "k \<notin> set (map (take 2) ls) \<Longrightarrow> filter (\<lambda>l. take 2 l = k) ls = []"
  by (induction ls) auto

lemma microdump_log_reads:
  assumes "S = stack_header sp lower len # chunk_lines lower stack 0 \<or> S = [] \<and> stack = []"
    and log_def: "log = microdump_log n uname x d S cpu srcs"
  shows "read_cpu log = [cpu]" "read_modules log = map (module_entry d) srcs" "read_stack log = map read_chunk (chunk_lines lower stack 0)"
proof -
  have S: "\<And>l. l \<in> set S \<Longrightarrow> take 2 l = chars ''S ''" using assms(1) line_kinds(2,3) by auto
  have M: "filter (\<lambda>l. take 2 l = k) (map (module_text d) srcs) = (if k = chars ''M '' then map (module_text d) srcs else [])" for k
    by (rule filter_kind) (auto simp: line_kinds(1))
  have ne: "chars ''C '' \<noteq> chars ''S ''" "chars ''C '' \<noteq> chars ''M ''" "chars ''M '' \<noteq> chars ''S ''" "chars ''S '' \<noteq> chars ''M ''"
    "chars ''S '' \<noteq> chars ''C ''" "chars ''M '' \<noteq> chars ''C ''"
    by (simp_all add: chars_def)
  have H: "filter (\<lambda>l. take 2 l = k) (header_lines n uname x d) = []" if "k \<in> {chars ''C '', chars ''M '', chars ''S ''}" for k
    using that by (intro filter_header) (auto simp: header_kinds chars_def)
  show "read_cpu log = [cpu]"
    by (simp add: read_cpu_def log_def microdump_log_def H filter_kind [OF S] M ne) (simp add: chars_def unhex_bytes)
  show "read_modules log = map (module_entry d) srcs"
    by (simp add: read_modules_def log_def microdump_log_def H filter_kind [OF S] M ne) (simp add: chars_def read_module_text)
  let ?T = "map (module_text d) srcs @ [chars ''-----END BREAKPAD MICRODUMP-----'']" and ?P = "\<lambda>l. take 2 l = chars ''S ''"
  have tail: "filter ?P ?T = []" unfolding filter_append M by (simp add: ne) (simp add: chars_def)
  have c: "\<not> ?P (chars ''C '' @ hex_bytes cpu)" by (simp add: chars_def)
  have n: "length (header_lines n uname x d) = 5" by (simp add: header_lines_def)
  from assms(1) show "read_stack log = map read_chunk (chunk_lines lower stack 0)"
  proof
    assume "S = stack_header sp lower len # chunk_lines lower stack 0"
    then have "drop 7 log = chunk_lines lower stack 0 @ (chars ''C '' @ hex_bytes cpu) # ?T" using n by (simp add: log_def microdump_log_def)
    then have "filter ?P (drop 7 log) = filter ?P (chunk_lines lower stack 0) @ filter ?P ?T" using c by (simp only: filter_append filter.simps if_False)
    moreover have "filter ?P (chunk_lines lower stack 0) = chunk_lines lower stack 0" by (simp add: filter_id_conv line_kinds(2))
    ultimately show ?thesis unfolding read_stack_def tail by simp
  next
    assume "S = [] \<and> stack = []"
    then have "drop 7 log = ?T" "chunk_lines lower stack 0 = []"
      using n by (simp_all add: log_def microdump_log_def chunk_lines.simps [of lower "[]" 0])
    then show ?thesis unfolding read_stack_def using tail by (simp only: list.map)
  qed
qed

section \<open>The microdump\<close>

text \<open>The crash concerns the principal mapping: the program counter is in it, or a word of the stack points into it.\<close>

definition principal_referenced :: "'f dumper \<Rightarrow> crash_context \<Rightarrow> u64 \<Rightarrow> u64 \<Rightarrow> bytes \<Rightarrow> bool" where
  "principal_referenced d uc address lower stack \<longleftrightarrow>
     (\<exists>m. FindMappingNoBias (d_mappings d) address = Some m \<and>
        (mi_sys_start m \<le> UC_GetInstructionPointer uc \<and> UC_GetInstructionPointer uc \<le> mi_sys_end m \<or>
         StackHasPointerToMapping stack (UC_GetStackPointer uc - lower) m))"

lemma CaptureCrashingThreadStack_result:
  assumes "u_ucontext s = Some uc" and sp: "sp = UC_GetStackPointer uc" and d: "d = u_dumper s"
  shows "CaptureCrashingThreadStack (-1) s = Some
    (case GetStackInfo (u_pagesize s) (d_mappings d) sp of
       None \<Rightarrow> (CAPTURE_FAILED, s\<lparr>u_stack_pointer := sp\<rparr>)
     | Some (lower, len) \<Rightarrow>
         let copy = snd (d_copy d (d_crash_thread d) lower (unat len))
         in (if u_skip_dump s \<and> \<not> principal_referenced d uc (u_principal_mapping_address s) lower copy then CAPTURE_UNINTERESTING else CAPTURE_OK,
             s\<lparr>u_stack_pointer := sp, u_stack_lower_bound := lower, u_stack_len := len, u_stack_copy := copy\<rparr>))"
  using assms by (auto simp: CaptureCrashingThreadStack_def principal_referenced_def Let_def split: option.split)

lemma SanitizeStackCopy_total:
  "unat (aligned_offset off) \<le> length stack \<Longrightarrow> \<exists>b. SanitizeStackCopy ms stack sp off = Some b"
  by (simp add: SanitizeStackCopy_def Let_def my_memset_eq)

lemma staged_new_line: "length line = kLineBufferSize \<Longrightarrow> staged (line[0 := 0]) []"
  by (cases line) (auto simp: staged_def kLineBufferSize_def nul_terminated_def cstr_def)

text \<open>\<open>tells\<close>: the log is complete and a reader gets the registers, the modules and the stack from it, if it was captured.\<close>

definition tells ::
  "micro_env \<Rightarrow> extra_info \<Rightarrow> 'f dumper \<Rightarrow> u64 \<Rightarrow> (u64 \<times> u64 \<times> bytes) option \<Rightarrow> bytes \<Rightarrow> module_source list \<Rightarrow> bytes list \<Rightarrow> bool" where
  "tells e x d sp captured cpu srcs log \<longleftrightarrow>
     log = microdump_log (e_n_cpus e) (e_uname e) x d
       (case captured of None \<Rightarrow> [] | Some (lower, len, stack) \<Rightarrow> stack_header sp lower len # chunk_lines lower stack 0) cpu srcs \<and>
     read_cpu log = [cpu] \<and> read_modules log = map (module_entry d) srcs \<and>
     (case captured of
        None \<Rightarrow> read_stack log = []
      | Some (lower, len, stack) \<Rightarrow> concat (map snd (read_stack log)) = stack \<and>
          map fst (read_stack log) = map (\<lambda>i. lower + of_nat (i * STACK_DUMP_CHUNK_SIZE)) [0..<length (read_stack log)])"

lemma stack_text_header: "stack_text s = stack_header (u_stack_pointer s) (u_stack_lower_bound s) (u_stack_len s)"
  by (simp add: stack_text_def stack_header_def)

lemma tells_None: "tells e x d sp None cpu srcs (microdump_log (e_n_cpus e) (e_uname e) x d [] cpu srcs)"
proof -
  have "chunk_lines 0 [] 0 = []" by (simp add: chunk_lines.simps [of 0 "[]" 0])
  then show ?thesis by (simp add: tells_def microdump_log_reads [where S = "[]" and stack = "[]" and lower = 0, OF disjI2 refl])
qed

lemma tells_Some:
  assumes "log = microdump_log (e_n_cpus e) (e_uname e) x d (stack_header sp lower len # chunk_lines lower stack 0) cpu srcs"
  shows "tells e x d sp (Some (lower, len, stack)) cpu srcs log"
proof -
  note r = microdump_log_reads [OF disjI1 [OF refl] assms]
  have "concat (map snd (read_stack log)) = stack"
    "map fst (read_stack log) = map (\<lambda>i. lower + of_nat (i * STACK_DUMP_CHUNK_SIZE)) [0..<length (read_stack log)]"
    using chunk_lines_read [of lower stack 0] by (simp_all add: r(3))
  then show ?thesis using r(1,2) assms unfolding tells_def by simp
qed

lemma Micro_Dump_failed:
  assumes "u_ucontext s = Some uc" and "staged (u_log_line s) []" and "u_log s = []" and "texts_ok uname (u_extra_info s)"
    and "length (ur_regs (uc_regs uc)) = 31" and "length (fp_vregs (uc_float uc)) = 512"
    and cpu: "FillCPUContext 8 MDRawContextARM64_Old (fill_arm64_ucontext (uc_regs uc) (uc_float uc)) = Some cpu"
    and "list_all (names_ok (u_dumper s)) (micro_module_sources s)"
    and info: "GetStackInfo (u_pagesize s) (d_mappings (u_dumper s)) (UC_GetStackPointer uc) = None"
  shows "\<exists>s'. Micro_Dump n_cpus uname s = Some s' \<and> u_log s' = microdump_log n_cpus uname (u_extra_info s) (u_dumper s) [] cpu (micro_module_sources s)"
proof -
  let ?s = "s\<lparr>u_stack_pointer := UC_GetStackPointer uc\<rparr>"
  have cap: "CaptureCrashingThreadStack (-1) s = Some (CAPTURE_FAILED, ?s)"
    using CaptureCrashingThreadStack_result [OF assms(1) refl refl] info by simp
  have src: "micro_module_sources ?s = micro_module_sources s" by (simp add: micro_module_sources_def)
  have "\<exists>s'. Micro_Dump n_cpus uname s = Some s' \<and> u_log s' = microdump_log n_cpus uname (u_extra_info ?s) (u_dumper ?s)
      (if CAPTURE_FAILED = CAPTURE_OK then stack_text ?s # chunk_lines (u_stack_lower_bound ?s) [] 0 else []) cpu (micro_module_sources ?s)"
    by (rule Micro_Dump_captured [OF cap _ _ _ _ _ assms(5,6) cpu]) (use assms(1-4,8) src in simp_all)
  then show ?thesis unfolding src by simp
qed

lemma Micro_Dump_ok:
  assumes "u_ucontext s = Some uc" and "staged (u_log_line s) []" and "u_log s = []" and "texts_ok uname (u_extra_info s)"
    and "length (ur_regs (uc_regs uc)) = 31" and "length (fp_vregs (uc_float uc)) = 512"
    and cpu: "FillCPUContext 8 MDRawContextARM64_Old (fill_arm64_ucontext (uc_regs uc) (uc_float uc)) = Some cpu"
    and "list_all (names_ok (u_dumper s)) (micro_module_sources s)" and sp: "sp = UC_GetStackPointer uc"
    and info: "GetStackInfo (u_pagesize s) (d_mappings (u_dumper s)) sp = Some (lower, len)"
    and copy: "stack_copy = snd (d_copy (u_dumper s) (d_crash_thread (u_dumper s)) lower (unat len))" "length stack_copy = unat len"
    and ref: "\<not> (u_skip_dump s \<and> \<not> principal_referenced (u_dumper s) uc (u_principal_mapping_address s) lower stack_copy)"
    and stack: "if u_sanitize_stack s then SanitizeStackCopy (d_mappings (u_dumper s)) stack_copy sp (sp - lower) = Some stack else stack = stack_copy"
  shows "\<exists>s'. Micro_Dump n_cpus uname s = Some s' \<and> u_log s' =
    microdump_log n_cpus uname (u_extra_info s) (u_dumper s) (stack_header sp lower len # chunk_lines lower stack 0) cpu (micro_module_sources s)"
proof -
  let ?s = "s\<lparr>u_stack_pointer := sp, u_stack_lower_bound := lower, u_stack_len := len, u_stack_copy := stack_copy\<rparr>"
  have cap: "CaptureCrashingThreadStack (-1) s = Some (CAPTURE_OK, ?s)"
    using CaptureCrashingThreadStack_result [OF assms(1) sp refl] info ref by (simp add: copy(1) Let_def)
  have src: "micro_module_sources ?s = micro_module_sources s" by (simp add: micro_module_sources_def)
  have "final_stack ?s = Some stack" using stack by (simp add: final_stack_def split: if_splits)
  then have "\<exists>s'. Micro_Dump n_cpus uname s = Some s' \<and> u_log s' = microdump_log n_cpus uname (u_extra_info ?s) (u_dumper ?s)
      (if CAPTURE_OK = CAPTURE_OK then stack_text ?s # chunk_lines (u_stack_lower_bound ?s) stack 0 else []) cpu (micro_module_sources ?s)"
    by (intro Micro_Dump_captured [OF cap _ _ _ _ _ assms(5,6) cpu]) (use assms(1-4,8) copy(2) src in simp_all)
  then show ?thesis unfolding src by (simp add: stack_text_header)
qed

lemma Micro_Dump_skipped:
  assumes "u_ucontext s = Some uc" and "u_log s = []" and sp: "sp = UC_GetStackPointer uc"
    and info: "GetStackInfo (u_pagesize s) (d_mappings (u_dumper s)) sp = Some (lower, len)"
    and ref: "u_skip_dump s" "\<not> principal_referenced (u_dumper s) uc (u_principal_mapping_address s) lower
      (snd (d_copy (u_dumper s) (d_crash_thread (u_dumper s)) lower (unat len)))"
  shows "\<exists>s'. Micro_Dump n_cpus uname s = Some s' \<and> u_log s' = [chars ''Microdump skipped (uninteresting)'']"
  unfolding Micro_Dump_def CaptureCrashingThreadStack_result [OF assms(1) sp refl] info
  using ref assms(2) by (simp add: Let_def LogLine_def)

text \<open>
  C6. A microdump says what is known of the crash. \<open>WriteMicrodump\<close> with the context of a crash returns true. When the stack pointer is in no mapping, the log has
  every line but those of the stack. When the caller asks for it and the principal mapping is not concerned, the log is one line that says so. Otherwise
  the log is complete: a reader gets back the CPU context filled from the registers of the crash, the address, the offset, the size and the name of every module, and from lines
  at consecutive addresses the whole stack, which is the copied memory, sanitised if that was asked for. No line with any of these is cut by the
  buffer of the line.
\<close>

theorem WriteMicrodump_correct:
  assumes "e_line e = Some line" and "length line = kLineBufferSize" and "e_dumper_init e" and "e_suspended e" and "e_late_init e"
    and "texts_ok (e_uname e) extra" and "uc = cb_context b" and "sp = UC_GetStackPointer uc"
    and "length (ur_regs (uc_regs uc)) = 31" and "length (fp_vregs (uc_float uc)) = 512"
    and "d = crashed_dumper b dumper" and "d_copy d = ptrace_copy (peek_of mem)"
    and "srcs = micro_sources mappings 0 (d_mappings d) @ caller_sources mappings" and "list_all (names_ok d) srcs"
    and "GetStackInfo (e_pagesize e) (d_mappings d) sp = info"
    and "\<And>lower len. info = Some (lower, len) \<Longrightarrow> sanitize \<Longrightarrow> unat (aligned_offset (sp - lower)) \<le> unat len"
  shows "\<exists>log cpu. WriteMicrodump ctx_size e dumper (Some (ctx_size, b)) mappings skip address sanitize extra = Some (True, log) \<and>
    FillCPUContext 8 MDRawContextARM64_Old (fill_arm64_ucontext (uc_regs uc) (uc_float uc)) = Some cpu \<and>
    (case info of
       None \<Rightarrow> tells e extra d sp None cpu srcs log
     | Some (lower, len) \<Rightarrow>
         let copy = snd (d_copy d (cb_tid b) lower (unat len))
         in if skip \<and> \<not> principal_referenced d uc address lower copy then log = [chars ''Microdump skipped (uninteresting)'']
            else \<exists>stack. tells e extra d sp (Some (lower, len, stack)) cpu srcs log \<and>
              (if sanitize then SanitizeStackCopy (d_mappings d) copy sp (sp - lower) = Some stack else stack = copy) \<and>
              (\<not> sanitize \<and> mapped_in_words mem \<and> 8 dvd unat lower \<longrightarrow> stack = map (\<lambda>i. byte_or_zero (mem (lower + of_nat i))) [0..<unat len]))"
proof -
  let ?s = "MicrodumpWriter (e_pagesize e) (Some uc) mappings skip address sanitize extra d (e_line e)"
  let ?F = "FillCPUContext 8 MDRawContextARM64_Old (fill_arm64_ucontext (uc_regs uc) (uc_float uc))"
  have F: "fill_arm64_ucontext (uc_regs uc) (uc_float uc) = fill_arm64_thread (uc_regs uc) (uc_float uc)"
    by (simp add: fill_arm64_thread_def fill_arm64_ucontext_def)
  obtain cpu where cpu: "?F = Some cpu" using arm64_fills [OF assms(9,10)] unfolding F by (auto simp: fills_def split: option.splits)
  have run: "WriteMicrodump ctx_size e dumper (Some (ctx_size, b)) mappings skip address sanitize extra =
      Micro_Dump (e_n_cpus e) (e_uname e) ?s \<bind> (\<lambda>s. Some (True, u_log s))"
    using assms(1,3,4,5,7,11) by (simp add: WriteMicrodump_def run_microdump_def Micro_Init_def)
  have tid: "d_crash_thread d = cb_tid b" using assms(11) by (simp add: crashed_dumper_def)
  have sel: "u_ucontext ?s = Some uc" "u_dumper ?s = d" "u_pagesize ?s = e_pagesize e" "u_skip_dump ?s = skip" "u_principal_mapping_address ?s = address"
    "u_log ?s = []" "u_extra_info ?s = extra" "u_sanitize_stack ?s = sanitize" "staged (u_log_line ?s) []" "micro_module_sources ?s = srcs"
    using staged_new_line [OF assms(2)] assms(1,13) by (simp_all add: MicrodumpWriter_def micro_module_sources_def)
  have mod: "list_all (names_ok (u_dumper ?s)) (micro_module_sources ?s)" unfolding sel by (rule assms(14))
  have tx: "texts_ok (e_uname e) (u_extra_info ?s)" unfolding sel by (rule assms(6))
  show ?thesis
  proof (cases info)
    case None
    have "GetStackInfo (u_pagesize ?s) (d_mappings (u_dumper ?s)) (UC_GetStackPointer uc) = None" using assms(8,15) None unfolding sel by simp
    from Micro_Dump_failed [OF sel(1,9,6) tx assms(9,10) cpu mod this, of "e_n_cpus e"]
    show ?thesis unfolding sel using run cpu tells_None [of e extra d sp cpu srcs] by (auto simp: None)
  next
    case (Some i)
    obtain lower len where i: "i = (lower, len)" by (cases i)
    let ?c = "snd (d_copy d (cb_tid b) lower (unat len))"
    have info: "GetStackInfo (u_pagesize ?s) (d_mappings (u_dumper ?s)) sp = Some (lower, len)" using assms(15) Some i unfolding sel by simp
    have c: "?c = snd (d_copy (u_dumper ?s) (d_crash_thread (u_dumper ?s)) lower (unat len))" unfolding sel tid ..
    have len: "length ?c = unat len" unfolding assms(12) by (rule pc.copy_length)
    show ?thesis
    proof (cases "skip \<and> \<not> principal_referenced d uc address lower ?c")
      case True
      then have ref: "u_skip_dump ?s" "\<not> principal_referenced (u_dumper ?s) uc (u_principal_mapping_address ?s) lower
          (snd (d_copy (u_dumper ?s) (d_crash_thread (u_dumper ?s)) lower (unat len)))"
        unfolding c [symmetric] unfolding sel by simp_all
      show ?thesis using Micro_Dump_skipped [OF sel(1,6) assms(8) info ref, of "e_n_cpus e" "e_uname e"] run cpu True by (auto simp: Some i Let_def)
    next
      case False
      have ref: "\<not> (u_skip_dump ?s \<and> \<not> principal_referenced (u_dumper ?s) uc (u_principal_mapping_address ?s) lower ?c)" using False unfolding sel .
      obtain stack where st: "if sanitize then SanitizeStackCopy (d_mappings d) ?c sp (sp - lower) = Some stack else stack = ?c"
        using SanitizeStackCopy_total [of "sp - lower" ?c "d_mappings d" sp] assms(16) [of lower len] Some i len by (cases sanitize) auto
      have st': "if u_sanitize_stack ?s then SanitizeStackCopy (d_mappings (u_dumper ?s)) ?c sp (sp - lower) = Some stack else stack = ?c" using st unfolding sel .
      obtain s' where s': "Micro_Dump (e_n_cpus e) (e_uname e) ?s = Some s'"
        "u_log s' = microdump_log (e_n_cpus e) (e_uname e) extra d (stack_header sp lower len # chunk_lines lower stack 0) cpu srcs"
        using Micro_Dump_ok [OF sel(1,9,6) tx assms(9,10) cpu mod assms(8) info c len ref st', of "e_n_cpus e"] unfolding sel by blast
      have "tells e extra d sp (Some (lower, len, stack)) cpu srcs (u_log s')" by (rule tells_Some [OF s'(2)])
      moreover have "\<not> sanitize \<and> mapped_in_words mem \<and> 8 dvd unat lower \<longrightarrow> stack = map (\<lambda>i. byte_or_zero (mem (lower + of_nat i))) [0..<unat len]"
        using st pc.copy_aligned [of mem lower "cb_tid b" "unat len"] unfolding assms(12) by simp
      ultimately show ?thesis using run s'(1) cpu False st by (auto simp: Some i Let_def)
    qed
  qed
qed

definition sample_blob :: crash_blob where
  "sample_blob = \<lparr>cb_si_addr = 0x1234, cb_si_signo = 11, cb_si_code = 1, cb_tid = 7, cb_context = \<lparr>uc_regs = sample_regs, uc_float = sample_fpregs\<rparr>\<rparr>"

definition sample_env :: micro_env where
  "sample_env = \<lparr>e_pagesize = 4096, e_line = Some (replicate kLineBufferSize 1), e_dumper_init = True, e_suspended = True, e_late_init = True, e_n_cpus = 8, e_uname = None\<rparr>"

definition sample_extra :: extra_info where
  "sample_extra = \<lparr>x_build_fingerprint = None, x_product_info = None, x_gpu_fingerprint = None, x_process_type = None\<rparr>"

theorem WriteMicrodump_correct_witness:
  "\<exists>log. WriteMicrodump 0 sample_env sample_dumper (Some (0, sample_blob)) [(sample_module, replicate 16 9)] False 0 False sample_extra = Some (True, log) \<and>
     hex_val 0 (take 8 (drop 2 (log ! 4))) = 11 \<and> length (concat (map snd (read_stack log))) = 0x8000 \<and>
     read_modules log = [(0x40000, 0, 0x2000, [97])]"
proof -
  let ?d = "crashed_dumper sample_blob sample_dumper" and ?src = "(sample_module, False, 0, Some (replicate 16 9)) :: module_source"
  let ?uc = "cb_context sample_blob"
  have d: "d_mappings ?d = d_mappings sample_dumper" "d_copy ?d = ptrace_copy (peek_of small_memory)" "d_so_name ?d m b = (False, b)" for m b
    by (simp_all add: crashed_dumper_def SetCrashInfoFromSigInfo_def sample_copy) (simp_all add: sample_dumper_def)
  have uc: "UC_GetStackPointer ?uc = 0x20000" "length (ur_regs (uc_regs ?uc)) = 31" "length (fp_vregs (uc_float ?uc)) = 512"
    by (simp_all add: sample_blob_def UC_GetStackPointer_def sample_regs_def sample_fpregs_def)
  have info: "GetStackInfo (e_pagesize sample_env) (d_mappings ?d) (UC_GetStackPointer ?uc) = Some (0x20000, 0x8000)"
    unfolding d(1) uc(1) by (simp add: sample_env_def GetStackInfo_def sample_dumper_def sample_mapping_def kStackToCapture_def)
  have srcs: "[?src] = micro_sources [(sample_module, replicate 16 9)] 0 (d_mappings ?d) @ caller_sources [(sample_module, replicate 16 9)]"
    unfolding d(1) by (simp add: micro_sources_def caller_sources_def sample_dumper_def sample_mapping_def NAME_MAX_def)
  have id: "module_ident ?d ?src = (replicate 16 9, sample_module)" by (simp add: module_ident_def sizeof_MDGUID_def)
  have nm: "mi_name sample_module = 47 # 97 # replicate 253 0" by (simp add: sample_module_def NAME_MAX_def)
  have names: "list_all (names_ok ?d) [?src]" by (simp add: names_ok_def id d(3) nm nul_terminated_def NAME_MAX_def)
  have texts: "texts_ok (e_uname sample_env) sample_extra" by (simp add: texts_ok_def sample_env_def sample_extra_def)
  have env: "e_line sample_env = Some (replicate kLineBufferSize 1)" "length (replicate kLineBufferSize (1 :: u8)) = kLineBufferSize"
    "e_dumper_init sample_env" "e_suspended sample_env" "e_late_init sample_env" by (simp_all add: sample_env_def)
  obtain log cpu stack where r: "WriteMicrodump 0 sample_env sample_dumper (Some (0, sample_blob)) [(sample_module, replicate 16 9)] False 0 False sample_extra = Some (True, log)"
    "tells sample_env sample_extra ?d 0x20000 (Some (0x20000, 0x8000, stack)) cpu [?src] log" "stack = snd (d_copy ?d (cb_tid sample_blob) 0x20000 0x8000)"
    using WriteMicrodump_correct [OF env texts refl refl uc(2,3) refl d(2) srcs names info, of False 0 False 0] uc(1) by (auto simp: Let_def)
  have "length stack = 0x8000" unfolding r(3) d(2) by (rule pc.copy_length)
  moreover have "d_crash_signal ?d = 11" by (simp add: crashed_dumper_def SetCrashInfoFromSigInfo_def sample_blob_def)
  then have "take 8 (drop 2 (shown (reason_text ?d))) = hexstr 4 (11 :: u32)"
    by (simp add: shown_def reason_text_def chars_def kLineBufferSize_def take_drop [symmetric] min_def)
  moreover have "hex_val 0 (hexstr 4 (11 :: u32)) = 11" using hex_val_hexstr [of 4 "11 :: u32"] by simp
  moreover have "log ! 4 = shown (reason_text ?d)" using r(2) by (simp add: tells_def microdump_log_def header_lines_def)
  moreover have "base_name [47, 97] = [97]" by code_simp
  then have "effective_name (False, replicate NAME_MAX 0) sample_module = [97]" by (simp add: effective_name_def nm cstr_def NAME_MAX_def)
  then have "module_entry ?d ?src = (0x40000, 0, 0x2000, [97])"
    by (simp add: module_entry_def id d(3)) (simp add: sample_module_def sample_mapping_def)
  moreover have "concat (map snd (read_stack log)) = stack" "read_modules log = [module_entry ?d ?src]"
    using r(2) unfolding tells_def option.case prod.case list.map by blast+
  ultimately show ?thesis using r(1) by simp
qed

end
