(* ===== verification/Spec2Isabelle.thy ===== *)
theory Spec2Isabelle
  imports Libc_Support Line_Reader MD5 Convert_UTF String_Conversion Minidump_Format Exception_Codes NT_Status
    Page_Allocator String_Dictionary Minidump_File_Writer Linux_Dumper Stack_Sanitizer Mapping_Names
    Exception_Handler Dump_Protocol Elf_File Cpu_Set Directory_Reader Thread_Context Ptrace_Dumper
    Cpu_Info Minidump_Writer Thread_List Module_List Minidump_Dump Dump_Streams Dump_Correct
    Microdump_Writer Microdump_Log
begin

text \<open>
  Verification of the native crash reporter of the HiApp repository: the Breakpad client that is compiled into the
  library \<open>libbreakpad\<close>. All paths below are relative to
  \<^verbatim>\<open>src/libbreakpad/src/main/cpp/breakpad/src\<close>.

  \<^bold>\<open>The program.\<close> An application installs an exception handler. When it crashes, the handler runs in a
  damaged process: it must not call the C library or the heap. It reads the state of the process from
  \<^verbatim>\<open>/proc\<close> with its own string functions and line reader, keeps its data in pages it maps itself, and writes a
  minidump, a file of fixed structures that refer to each other by offset, together with annotations kept in a
  dictionary of fixed size. The parts and their theories:

  \<^item> Prelude: machine integers, checked buffer access, block copies, NUL-terminated strings.
  \<^item> Libc_Support: the replacements of the C library (\<^verbatim>\<open>common/linux/linux_libc_support.cc\<close>). A
    string is the list of its bytes with the NUL; a read or a write outside a buffer is \<open>None\<close>, so a result
    \<open>Some\<close> is memory safety. Shown: safety and results of \<open>my_strlcpy\<close> and \<open>my_strlcat\<close>, number printing
    and parsing are inverse, and the readers of hexadecimal and decimal numbers agree with a table of digits.
  \<^item> Line_Reader: \<^verbatim>\<open>client/linux/minidump_writer/line_reader.h\<close>. The system call \<open>read\<close> is a parameter with its
    documented contract; shown: each line is delivered once, in order, for every way the kernel splits
    the reads, through the locale \<open>line_source\<close>.
  \<^item> Page_Allocator: \<^verbatim>\<open>common/memory_allocator.h\<close>. \<open>mmap\<close> is a parameter; shown: blocks never overlap, ownership
    and release, and the wrap-around of the size computation.
  \<^item> String_Dictionary: \<^verbatim>\<open>common/simple_string_dictionary.h\<close> and \<^verbatim>\<open>common/long_string_dictionary.cc\<close>. The
    fixed-size map refines a finite map with bounded domain; the locale \<open>string_store\<close> is what the
    long dictionary needs of it, and is interpreted by the fixed-size map.
  \<^item> MD5: \<^verbatim>\<open>common/md5.cc\<close>, the digest of the module identifiers. Shown: streaming equals one-shot; the bit count
    is stored at the wrong offset.
  \<^item> Convert_UTF: \<^verbatim>\<open>common/convert_UTF.cc\<close>; String_Conversion: \<^verbatim>\<open>common/string_conversion.cc\<close>. The locale
    \<open>scalar_converter\<close> is interpreted by all six converters; conversions agree on scalar values, are safe on
    every input, and strings survive the round trip.
  \<^item> C_Layout: the layout of C structures for a given alignment of 64-bit integers; Minidump_Contexts,
    Minidump_Format, Exception_Codes, NT_Status: every structure, enumeration and constant of
    \<^verbatim>\<open>google_breakpad/common\<close>. Shown: of every structure whether and where a compiler pads it under both ABIs;
    an unpadded one is its members one after the other, and one padded at the end can be cut there.
  \<^item> Minidump_File_Writer: \<^verbatim>\<open>client/minidump_file_writer.cc\<close> and its headers. The file has a schedule of
    system call outcomes; allocation and copy refine appending to and overwriting the image of the file.
    Shown: a closed file is the concatenation of what was written, failures are reported, and where a
    character outside the basic plane is misplaced.
  \<^item> Linux_Dumper: the memory mappings of \<^verbatim>\<open>client/linux/minidump_writer/linux_dumper.cc\<close>: the auxiliary vector, the lines
    of \<^verbatim>\<open>/proc/<pid>/maps\<close>, lookup, load bias and stack extent. Shown: the mappings partition the mapped addresses, the
    captured stack stays in its mapping.
  \<^item> Stack_Sanitizer: \<open>SanitizeStackCopy\<close> with its caches and its bit field equals the plain definition of a harmless word.
  \<^item> Mapping_Names: paths of mappings and the names of deleted files and signals, over \<open>readlink\<close> and the ELF name as parameters.
  \<^item> Exception_Handler: \<^verbatim>\<open>client/linux/handler/exception_handler.cc\<close> and its descriptor. The kernel's signal actions and alternate stacks
    and the globals are one record, system calls fail by a schedule. Shown: a crash signal is decided after at most three
    deliveries, and the life cycle of the handlers restores the signal actions, and with one thread also the alternate stack and the heap.
  \<^item> Dump_Protocol: the crashed process and its clone as a step relation over the calls of both programs; every interleaving ends,
    nothing is left open, and with a pipe no dump of a living parent starts without its permission.
  \<^item> Elf_File: \<^verbatim>\<open>common/linux/elfutils.cc\<close> and \<^verbatim>\<open>common/linux/file_id.cc\<close> on an image of bytes. Shown: which build id or hash identifies a module, with
    all reads inside the image.
  \<^item> Cpu_Set: \<^verbatim>\<open>client/linux/minidump_writer/cpu_set.h\<close>; the bit mask refines a finite set, for every text of ranges.
  \<^item> Directory_Reader: \<^verbatim>\<open>client/linux/minidump_writer/directory_reader.h\<close>. \<open>getdents\<close> is a parameter with its contract; the reader
    interprets the locale \<open>name_source\<close>: every entry once, in order.
  \<^item> Thread_Context: the register fills of \<^verbatim>\<open>client/linux/dump_writer_common\<close> as lists of assignments to members. A reader of the
    context finds every register under its name.
  \<^item> Ptrace_Dumper: \<^verbatim>\<open>client/linux/minidump_writer/linux_ptrace_dumper.cc\<close>, a client of \<open>name_source\<close> and \<open>line_source\<close>. Shown: the list
    of threads, that no living thread stays stopped for a kernel that keeps the contract \<open>tracer_contract\<close> of ptrace and waitpid, the copy of memory, and what is read of a thread. The copy interprets the locale \<open>process_copy\<close>, through
    which the minidump writer reads the memory of the process.
  \<^item> Cpu_Info: \<^verbatim>\<open>client/linux/minidump_writer/proc_cpuinfo_reader.h\<close>, a client of the line reader, and \<open>WriteCPUInformation\<close>. Shown: the fields of every
    line are delivered in order, and the processor information of aarch64 is total.
  \<^item> Minidump_Writer and Minidump_Dump: \<^verbatim>\<open>client/linux/minidump_writer/minidump_writer.cc\<close>. The object is the record \<open>minidump_writer\<close> with
    its file writer; the dumper it calls is the record \<open>dumper\<close>, whose functions are those of the theories above. The streams of threads, memory, modules and the exception
    are in the first theory, those of the system, of copied files and of shared objects, \<open>Dump\<close>, \<open>Init\<close> and the run of the writer in the second.
  \<^item> Thread_List, Module_List, Dump_Streams, Dump_Correct: what a reader of the format finds. \<open>grows\<close>, \<open>writes\<close> and \<open>appends\<close> say what a step does to the file and
    to the object, \<open>lies_in\<close> that a location names given bytes, \<open>list_area\<close> and \<open>directory\<close> describe a list or the directory while the data it refers to is still
    being written. Shown: each list is complete and every location in it names the data of its entry; the dump as a whole is complete, from the header on.

  \<^item> Microdump_Writer and Microdump_Log: \<^verbatim>\<open>client/linux/microdump_writer/microdump_writer.cc\<close>, a short dump as lines of text in the system log; the
    object is the record \<open>microdump_writer\<close>, the log the list of its lines. \<open>staged\<close> and \<open>logs\<close> say what is in the buffer of a line and what an operation adds to the
    log. Shown: which lines are written on every branch, and that a reader gets the registers, the modules and the whole stack back from them.

  \<^bold>\<open>Conventions.\<close> Machine integers are words of their width where wrap-around is possible, natural numbers where it is not. Loops
  are functions with a termination proof, or have fuel where the kernel decides how often they run: the
  number of \<open>Next\<close> calls in \<open>iterate\<close>, for which one more than the number of entries is enough (\<open>iterate_active\<close>), of deliveries in \<open>deliver\<close>, for which
  three are enough, of lines in \<open>drain\<close> and \<open>status_loop\<close> and of names in \<open>thread_loop\<close>, one more than there are, and of interrupted calls in \<open>wait_loop\<close>,
  which the hypothesis \<open>waits_end\<close> bounds. The copy of a file (\<open>read_buffers\<close>) has fuel for its reads, for which one more than its length is enough, the
  reader of CPU information (\<open>read_fields\<close>) for its lines, one more than there are. The list of shared objects and the dynamic section (\<open>link_maps\<close>, \<open>scan_dynamic\<close>) are followed in the
  memory of the crashed process, where they may be cyclic or have no end: no fuel is enough for every process, and \<open>optional_ok\<close> asks that they end. Assertions of the source are not compiled in a
  release build and are not part of the model, except where a text says so. The targets of the build are armeabi-v7a, arm64-v8a
  and x86; where the width of \<open>size_t\<close> matters the 64-bit target is modelled.

  \<^bold>\<open>Not modelled.\<close> System calls (parameters of the model), assembler, the core dumper, the structures of the
  kernel, the JNI glue, third-party code, the symbol dumpers and the clients of other platforms, which are not compiled
  into the library, and the Java and Kotlin code. Of the minidump writer, the processor
  information of x86 and MIPS builds is not modelled; sanitised stacks are modelled and their sanitiser is verified, but the theorems on the thread list are about stacks that are copied
  as they are. Of the microdump writer, the line about the free address space of 32-bit builds is left out. The crash generation server needs sockets and threads and is left out.
\<close>

end
